(* ===== verification/Prelude.thy ===== *)
theory Prelude
  imports Main "HOL-Library.Word"
begin

unbundle bit_operations_syntax

text \<open>
  Shared vocabulary of the development: the names of the C++ integer types, writing one bit
  of a register, reading and writing a fixed-size array by an unsigned index, and the lemma
  collections the components' proofs are driven by.

  Unsigned C++ integers are words of their width, so \<open>+\<close>, \<open>-\<close> and \<open>*\<close> wrap
  exactly as in the program. \<open>TickCount\<close> is a signed 32-bit integer whose overflow is
  undefined behaviour in C++; it is modelled as \<open>int\<close>, and where the code converts it to an
  unsigned type the conversion is written out.
\<close>

type_synonym u8 = "8 word"
type_synonym u16 = "16 word"
type_synonym u32 = "32 word"
type_synonym u64 = "64 word"
type_synonym s8 = "8 word"
type_synonym s16 = "16 word"
type_synonym s32 = "32 word"
type_synonym tick_count = int

text \<open>
  \<open>machine_defs\<close> collects the definitions that a proof about one operation opens,
  \<open>frame\<close> the equations saying which fields an operation leaves alone, and
  \<open>preserves\<close> the lemmas saying that an operation keeps an invariant.
\<close>

named_theorems machine_defs
named_theorems frame
named_theorems preserves

subsection \<open>One bit of a register\<close>

definition assign_bit :: "nat \<Rightarrow> bool \<Rightarrow> 'a::len word \<Rightarrow> 'a word" where
  "assign_bit n b w = (if b then set_bit n w else unset_bit n w)"

lemma bit_assign_bit [simp]:
  fixes w :: "'a::len word"
  shows "bit (assign_bit n b w) m \<longleftrightarrow> (if m = n then b \<and> n < LENGTH('a) else bit w m)"
  by (auto simp: assign_bit_def bit_simps dest: bit_imp_le_length)

lemma assign_bit_assign_bit_same [simp]:
  "assign_bit n b (assign_bit n c w) = assign_bit n b w"
  by (rule bit_word_eqI) simp

lemma assign_bit_commute:
  "m \<noteq> n \<Longrightarrow> assign_bit m b (assign_bit n c w) = assign_bit n c (assign_bit m b w)"
  by (rule bit_word_eqI) auto

lemma assign_bit_id [simp]: "bit w n = b \<Longrightarrow> assign_bit n b w = w"
  by (rule bit_word_eqI) (auto dest: bit_imp_le_length)

lemma bit_word_out [simp]:
  fixes w :: "'a::len word"
  shows "LENGTH('a) \<le> n \<Longrightarrow> \<not> bit w n"
  by (auto dest: bit_imp_le_length)

subsection \<open>Arrays\<close>

text \<open>
  A C array or \<open>std::array\<close> is a list of its fixed length. Every index the modelled code
  uses is in range (the invariants of the components say so); \<open>modify_at\<close> writes one
  element through a function of the old one, as the code does through a reference.
\<close>

definition modify_at :: "nat \<Rightarrow> ('a \<Rightarrow> 'a) \<Rightarrow> 'a list \<Rightarrow> 'a list" where
  "modify_at i f xs = xs[i := f (xs ! i)]"

lemma length_modify_at [simp]: "length (modify_at i f xs) = length xs"
  by (simp add: modify_at_def)

lemma nth_modify_at [simp]:
  "i < length xs \<Longrightarrow> modify_at i f xs ! j = (if i = j then f (xs ! i) else xs ! j)"
  by (simp add: modify_at_def nth_list_update)

lemma nth_modify_at_same_length:
  "j < length xs \<Longrightarrow> modify_at i f xs ! j = (if i = j then f (xs ! i) else xs ! j)"
  by (cases "i = j") (simp_all add: modify_at_def)

lemma modify_at_id [simp]: "modify_at i (\<lambda>x. x) xs = xs"
  by (simp add: modify_at_def)

lemma list_update_take_drop:
  "i < length xs \<Longrightarrow> xs[i := x] = take i xs @ x # drop (Suc i) xs"
  by (simp add: upd_conv_take_nth_drop)

subsection \<open>Words as numbers\<close>

lemma unat_less_of_bits:
  fixes w :: "'a::len word"
  assumes "\<And>m. bit w m \<Longrightarrow> m < k"
  shows "unat w < 2 ^ k"
proof -
  have "take_bit k w = w"
    by (rule bit_word_eqI) (auto simp: bit_take_bit_iff dest: assms)
  then have "unat w = take_bit k (unat w)"
    by (metis unsigned_take_bit_eq)
  then show ?thesis
    by (metis take_bit_nat_less_exp)
qed

lemma take_bit_word_id:
  fixes w :: "'a::len word"
  assumes "unat w < 2 ^ k"
  shows "take_bit k w = w"
proof -
  have "unat (take_bit k w) = unat w"
    using assms by (simp add: unsigned_take_bit_eq take_bit_nat_eq_self)
  then show ?thesis
    by (simp add: word_unat_eq_iff)
qed

lemma take_bit_of_bits:
  fixes w :: "'a::len word"
  assumes "\<And>m. bit w m \<Longrightarrow> m < k"
  shows "take_bit k w = w"
  by (rule bit_word_eqI) (auto simp: bit_take_bit_iff dest: assms)

text \<open>Clamping, as \<open>std::clamp\<close> does it for \<open>lo \<le> hi\<close>.\<close>

definition clamp :: "'a::linorder \<Rightarrow> 'a \<Rightarrow> 'a \<Rightarrow> 'a" where
  "clamp v lo hi = (if v < lo then lo else if hi < v then hi else v)"

lemma clamp_bounds: "lo \<le> hi \<Longrightarrow> lo \<le> clamp v lo hi \<and> clamp v lo hi \<le> hi"
  by (auto simp: clamp_def)

lemma clamp_id [simp]: "lo \<le> v \<Longrightarrow> v \<le> hi \<Longrightarrow> clamp v lo hi = v"
  by (auto simp: clamp_def)

lemma clamp_idem [simp]: "lo \<le> hi \<Longrightarrow> clamp (clamp v lo hi) lo hi = clamp v lo hi"
  by (auto simp: clamp_def)

lemma clamp_mono: "v \<le> w \<Longrightarrow> lo \<le> hi \<Longrightarrow> clamp v lo hi \<le> clamp w lo hi"
  by (auto simp: clamp_def)

text \<open>
  Signed division of C++ truncates towards zero; \<open>div\<close> on \<open>int\<close> rounds down.
  \<open>wrap_s32\<close> is the conversion of an integer to \<open>int32_t\<close>, and
  \<open>sext n\<close> the common idiom \<open>(int32_t)(x << (32 - n)) >> (32 - n)\<close>.
\<close>

definition cdiv :: "int \<Rightarrow> int \<Rightarrow> int" where
  "cdiv a b = sgn a * sgn b * (\<bar>a\<bar> div \<bar>b\<bar>)"

lemma cdiv_nonneg: "0 \<le> a \<Longrightarrow> 0 < b \<Longrightarrow> cdiv a b = a div b"
  by (cases "a = 0") (auto simp: cdiv_def sgn_if)

lemma cdiv_neg: "a < 0 \<Longrightarrow> 0 < b \<Longrightarrow> cdiv a b = - ((- a) div b)"
  by (auto simp: cdiv_def sgn_if)

lemma cdiv_abs_le: "0 < b \<Longrightarrow> \<bar>cdiv a b\<bar> \<le> \<bar>a\<bar>"
proof -
  assume b: "0 < b"
  have "\<bar>a\<bar> div b \<le> \<bar>a\<bar>"
    using zdiv_mono2 [of "\<bar>a\<bar>" 1 b] b by simp
  moreover have "0 \<le> \<bar>a\<bar> div b"
    using b by (simp add: pos_imp_zdiv_nonneg_iff)
  ultimately show ?thesis
    using b by (auto simp: cdiv_def sgn_if abs_mult)
qed

lemma abs_mult_le: "\<bar>a\<bar> \<le> m \<Longrightarrow> \<bar>b\<bar> \<le> n \<Longrightarrow> \<bar>a * b\<bar> \<le> m * (n :: int)"
  unfolding abs_mult by (rule mult_mono) auto

definition sext :: "nat \<Rightarrow> int \<Rightarrow> int" where
  "sext n x = signed_take_bit (n - 1) x"

lemma sext_bounds: "0 < n \<Longrightarrow> - (2 ^ (n - 1)) \<le> sext n x \<and> sext n x < 2 ^ (n - 1)"
  by (simp add: sext_def signed_take_bit_int_greater_eq_minus_exp signed_take_bit_int_less_exp)

lemma sext_id: "- (2 ^ (n - 1)) \<le> x \<Longrightarrow> x < 2 ^ (n - 1) \<Longrightarrow> sext n x = x"
  by (simp add: sext_def signed_take_bit_int_eq_self)

definition wrap_s32 :: "int \<Rightarrow> int" where
  "wrap_s32 x = sext 32 x"

definition wrap_s16 :: "int \<Rightarrow> int" where
  "wrap_s16 x = sext 16 x"

end
