(* ===== verification/FifoQueue.thy ===== *)
theory FifoQueue
  imports Prelude
begin

text \<open>
  \<open>FIFOQueue<T, CAPACITY>\<close> of \<open>src/common/fifo_queue.h\<close>: a ring buffer with a
  head, a tail and a size. The buffer \<open>m_ptr\<close> is a list of length \<open>CAPACITY\<close>; the
  \<open>uint32_t\<close> counters are natural numbers with the wrap-around of the subtraction written
  out (\<open>sub_u32\<close>). The abstract view of a queue is the list of its elements, and every
  operation refines the operation on lists; the contract is the locale \<open>bounded_queue\<close>.
\<close>

subsection \<open>Unsigned subtraction and modular indices\<close>

definition sub_u32 :: "nat \<Rightarrow> nat \<Rightarrow> nat" where
  "sub_u32 a b = (a + 2 ^ 32 - b) mod 2 ^ 32"

lemma sub_u32_le [simp]: "b \<le> a \<Longrightarrow> a < 2 ^ 32 \<Longrightarrow> sub_u32 a b = a - b"
proof -
  assume "b \<le> a" "a < 2 ^ 32"
  then have "a + 2 ^ 32 - b = (a - b) + 2 ^ 32" "a - b < 2 ^ 32" by simp_all
  then show ?thesis unfolding sub_u32_def by (metis mod_add_self2 mod_less)
qed

lemma sub_u32_less: "0 < a \<Longrightarrow> sub_u32 a (Suc 0) < a"
proof -
  assume a: "0 < a"
  then have "a + 2 ^ 32 - Suc 0 = (a - 1) + 2 ^ 32" by simp
  then have "sub_u32 a (Suc 0) = (a - 1) mod 2 ^ 32"
    unfolding sub_u32_def by (metis mod_add_self2)
  also have "\<dots> \<le> a - 1" by (rule mod_less_eq_dividend)
  finally show ?thesis using a by simp
qed

lemma mod_shift_inj:
  fixes c :: nat
  assumes "i < c" and "j < c"
  shows "(h + i) mod c = (h + j) mod c \<longleftrightarrow> i = j"
proof -
  have aux: "i = j" if "i \<le> j" "j < c" "(h + i) mod c = (h + j) mod c" for i j
  proof -
    have "c dvd (h + j) - (h + i)"
      using that by (subst mod_eq_dvd_iff_nat [symmetric]) simp_all
    with that show ?thesis by (auto dest: dvd_imp_le)
  qed
  show ?thesis
    using aux [of i j] aux [of j i] assms by (metis le_cases)
qed

subsection \<open>The ring buffer and its operations\<close>

record 'a fifo =
  m_ptr :: "'a list"
  m_head :: nat
  m_tail :: nat
  m_size :: nat

abbreviation fifo_capacity :: "'a fifo \<Rightarrow> nat" where
  "fifo_capacity q \<equiv> length (m_ptr q)"

definition new_fifo :: "nat \<Rightarrow> 'a \<Rightarrow> 'a fifo" where
  "new_fifo capacity zero = \<lparr>m_ptr = replicate capacity zero, m_head = 0, m_tail = 0, m_size = 0\<rparr>"

definition GetSize :: "'a fifo \<Rightarrow> nat" where
  "GetSize q = m_size q"

definition GetSpace :: "'a fifo \<Rightarrow> nat" where
  "GetSpace q = sub_u32 (fifo_capacity q) (m_size q)"

definition GetContiguousSpace :: "'a fifo \<Rightarrow> nat" where
  "GetContiguousSpace q =
     (if m_tail q = m_head q \<and> 0 < m_size q then 0
      else if m_head q \<le> m_tail q then sub_u32 (fifo_capacity q) (m_tail q)
      else sub_u32 (m_head q) (m_tail q))"

definition GetContiguousSize :: "'a fifo \<Rightarrow> nat" where
  "GetContiguousSize q = min (sub_u32 (fifo_capacity q) (m_head q)) (m_size q)"

definition IsEmpty :: "'a fifo \<Rightarrow> bool" where
  "IsEmpty q \<longleftrightarrow> m_size q = 0"

definition IsFull :: "'a fifo \<Rightarrow> bool" where
  "IsFull q \<longleftrightarrow> m_size q = fifo_capacity q"

definition Clear :: "'a fifo \<Rightarrow> 'a fifo" where
  "Clear q = q\<lparr>m_head := 0, m_tail := 0, m_size := 0\<rparr>"

definition Push :: "'a \<Rightarrow> 'a fifo \<Rightarrow> 'a fifo" where
  "Push v q = q\<lparr>m_ptr := (m_ptr q)[m_tail q := v],
     m_tail := (m_tail q + 1) mod fifo_capacity q,
     m_size := (m_size q + 1) mod 2 ^ 32\<rparr>"

text \<open>\<open>memcpy\<close> of \<open>data\<close> to element \<open>i\<close> of a buffer.\<close>

definition memcpy_at :: "nat \<Rightarrow> 'a list \<Rightarrow> 'a list \<Rightarrow> 'a list" where
  "memcpy_at i data buf = take i buf @ data @ drop (i + length data) buf"

definition PushRange :: "'a list \<Rightarrow> 'a fifo \<Rightarrow> 'a fifo" where
  "PushRange data q =
     (let size = length data;
          space_before_end = sub_u32 (fifo_capacity q) (m_tail q);
          size_before_end = (if space_before_end < size then space_before_end else size);
          size_after_end = size - size_before_end;
          q1 = q\<lparr>m_ptr := memcpy_at (m_tail q) (take size_before_end data) (m_ptr q),
                 m_tail := (m_tail q + size_before_end) mod fifo_capacity q\<rparr>;
          q2 = (if 0 < size_after_end
                then q1\<lparr>m_ptr := memcpy_at (m_tail q1) (drop size_before_end data) (m_ptr q1),
                        m_tail := (m_tail q1 + size_after_end) mod fifo_capacity q\<rparr>
                else q1)
      in q2\<lparr>m_size := (m_size q2 + size) mod 2 ^ 32\<rparr>)"

definition Peek :: "nat \<Rightarrow> 'a fifo \<Rightarrow> 'a" where
  "Peek offset q = m_ptr q ! ((m_head q + offset) mod fifo_capacity q)"

definition RemoveOne :: "'a fifo \<Rightarrow> 'a fifo" where
  "RemoveOne q = q\<lparr>m_head := (m_head q + 1) mod fifo_capacity q,
     m_size := sub_u32 (m_size q) (Suc 0)\<rparr>"

fun Remove :: "nat \<Rightarrow> 'a fifo \<Rightarrow> 'a fifo" where
  "Remove 0 q = q"
| "Remove (Suc count) q = Remove count (RemoveOne q)"

definition Pop :: "'a fifo \<Rightarrow> 'a \<times> 'a fifo" where
  "Pop q = (m_ptr q ! m_head q, RemoveOne q)"

fun PopRange :: "nat \<Rightarrow> 'a fifo \<Rightarrow> 'a list \<times> 'a fifo" where
  "PopRange 0 q = ([], q)"
| "PopRange (Suc count) q =
     (let (v, q1) = Pop q; (vs, q2) = PopRange count q1 in (v # vs, q2))"

function PushFromQueue :: "'a fifo \<Rightarrow> 'a fifo \<Rightarrow> 'a fifo \<times> 'a fifo" where
  "PushFromQueue q other =
     (if \<not> IsEmpty other \<and> \<not> IsFull q
      then (let (v, other') = Pop other in PushFromQueue (Push v q) other')
      else (q, other))"
  by pat_completeness auto
termination
  by (relation "measure (\<lambda>(q, other). m_size other)")
     (auto simp: IsEmpty_def Pop_def RemoveOne_def sub_u32_less)

declare PushFromQueue.simps [simp del]

definition AdvanceTail :: "nat \<Rightarrow> 'a fifo \<Rightarrow> 'a fifo" where
  "AdvanceTail count q = q\<lparr>m_tail := (m_tail q + count) mod fifo_capacity q,
     m_size := (m_size q + count) mod 2 ^ 32\<rparr>"

subsection \<open>The contract of a bounded queue\<close>

locale bounded_queue =
  fixes inv :: "'q \<Rightarrow> bool" and items :: "'q \<Rightarrow> 'a list" and cap :: "'q \<Rightarrow> nat"
    and push :: "'a \<Rightarrow> 'q \<Rightarrow> 'q" and pop :: "'q \<Rightarrow> 'a \<times> 'q" and clear :: "'q \<Rightarrow> 'q"
  assumes length_items: "inv q \<Longrightarrow> length (items q) \<le> cap q"
    and inv_push: "inv q \<Longrightarrow> length (items q) < cap q \<Longrightarrow> inv (push v q)"
    and items_push: "inv q \<Longrightarrow> length (items q) < cap q \<Longrightarrow> items (push v q) = items q @ [v]"
    and cap_push: "cap (push v q) = cap q"
    and inv_pop: "inv q \<Longrightarrow> items q \<noteq> [] \<Longrightarrow> inv (snd (pop q))"
    and items_pop: "inv q \<Longrightarrow> items q \<noteq> [] \<Longrightarrow> fst (pop q) # items (snd (pop q)) = items q"
    and cap_pop: "cap (snd (pop q)) = cap q"
    and inv_clear: "inv q \<Longrightarrow> inv (clear q)"
    and items_clear: "inv q \<Longrightarrow> items (clear q) = []"
    and cap_clear: "cap (clear q) = cap q"
begin

fun push_all :: "'a list \<Rightarrow> 'q \<Rightarrow> 'q" where
  "push_all [] q = q"
| "push_all (v # vs) q = push_all vs (push v q)"

fun pop_n :: "nat \<Rightarrow> 'q \<Rightarrow> 'a list \<times> 'q" where
  "pop_n 0 q = ([], q)"
| "pop_n (Suc n) q = (let (v, q1) = pop q; (vs, q2) = pop_n n q1 in (v # vs, q2))"

lemma push_all_spec:
  "inv q \<Longrightarrow> length (items q) + length vs \<le> cap q \<Longrightarrow>
    inv (push_all vs q) \<and> items (push_all vs q) = items q @ vs \<and> cap (push_all vs q) = cap q"
  by (induction vs arbitrary: q) (auto simp: inv_push items_push cap_push)

lemma push_all_append: "push_all (vs @ ws) q = push_all ws (push_all vs q)"
  by (induction vs arbitrary: q) auto

lemma pop_n_spec:
  "inv q \<Longrightarrow> n \<le> length (items q) \<Longrightarrow>
    inv (snd (pop_n n q)) \<and> fst (pop_n n q) = take n (items q) \<and>
    items (snd (pop_n n q)) = drop n (items q) \<and> cap (snd (pop_n n q)) = cap q"
proof (induction n arbitrary: q)
  case (Suc n)
  obtain v q1 where p: "pop q = (v, q1)" by fastforce
  have ne: "items q \<noteq> []" using Suc.prems(2) by auto
  have it: "items q = v # items q1" and i1: "inv q1" and c1: "cap q1 = cap q"
    using items_pop [OF Suc.prems(1) ne] inv_pop [OF Suc.prems(1) ne] cap_pop [of q] p by simp_all
  show ?case
    using Suc.IH [OF i1] Suc.prems(2)
    by (cases "pop_n n q1") (simp add: p it c1)
qed simp

text \<open>What goes in comes out, in order.\<close>

lemma push_pop_fifo:
  assumes "inv q" and "items q = []" and "length vs \<le> cap q"
  shows "fst (pop_n (length vs) (push_all vs q)) = vs"
  using pop_n_spec [of "push_all vs q" "length vs"] push_all_spec [of q vs] assms by simp

lemma pop_n_append:
  "pop_n (m + n) q = (let (vs, q1) = pop_n m q; (ws, q2) = pop_n n q1 in (vs @ ws, q2))"
  by (induction m arbitrary: q) (auto simp: Let_def split: prod.split)

end

subsection \<open>The ring buffer implements it\<close>

definition fifo_inv :: "'a fifo \<Rightarrow> bool" where
  "fifo_inv q \<longleftrightarrow> 0 < fifo_capacity q \<and> fifo_capacity q < 2 ^ 31 \<and>
     m_head q < fifo_capacity q \<and> m_size q \<le> fifo_capacity q \<and>
     m_tail q = (m_head q + m_size q) mod fifo_capacity q"

definition fifo_items :: "'a fifo \<Rightarrow> 'a list" where
  "fifo_items q = map (\<lambda>i. m_ptr q ! ((m_head q + i) mod fifo_capacity q)) [0..<m_size q]"

lemma length_fifo_items [simp]: "length (fifo_items q) = m_size q"
  by (simp add: fifo_items_def)

lemma fifo_items_Nil [simp]: "fifo_items q = [] \<longleftrightarrow> m_size q = 0"
  by (simp add: fifo_items_def)

lemma fifo_inv_new: "0 < n \<Longrightarrow> n < 2 ^ 31 \<Longrightarrow> fifo_inv (new_fifo n z)"
  by (simp add: fifo_inv_def new_fifo_def)

lemma fifo_capacity_Push [simp]: "fifo_capacity (Push v q) = fifo_capacity q"
  by (simp add: Push_def)

lemma fifo_capacity_RemoveOne [simp]: "fifo_capacity (RemoveOne q) = fifo_capacity q"
  by (simp add: RemoveOne_def)

lemma fifo_capacity_Clear [simp]: "fifo_capacity (Clear q) = fifo_capacity q"
  by (simp add: Clear_def)

lemma fifo_size_small: "fifo_inv q \<Longrightarrow> m_size q < 2 ^ 31"
  by (auto simp: fifo_inv_def)

lemma fifo_inv_Push: "fifo_inv q \<Longrightarrow> m_size q < fifo_capacity q \<Longrightarrow> fifo_inv (Push v q)"
  by (auto simp: fifo_inv_def Push_def mod_Suc_eq)

lemma fifo_items_Push:
  assumes "fifo_inv q" and "m_size q < fifo_capacity q"
  shows "fifo_items (Push v q) = fifo_items q @ [v]"
proof -
  let ?c = "fifo_capacity q"
  have size: "(m_size q + 1) mod 2 ^ 32 = Suc (m_size q)"
    using assms fifo_size_small [OF assms(1)] by simp
  have other: "m_tail q \<noteq> (m_head q + i) mod ?c" if "i < m_size q" for i
    using mod_shift_inj [of i ?c "m_size q" "m_head q"] assms that by (auto simp: fifo_inv_def)
  have tail: "m_tail q < ?c" "m_tail q = (m_head q + m_size q) mod ?c"
    using assms(1) by (auto simp: fifo_inv_def)
  have "fifo_items (Push v q) = map (\<lambda>i. ((m_ptr q)[m_tail q := v]) ! ((m_head q + i) mod ?c))
      ([0..<m_size q] @ [m_size q])"
    using size by (simp add: fifo_items_def Push_def)
  also have "\<dots> = fifo_items q @ [v]"
    using tail(1) by (simp add: fifo_items_def other tail(2) [symmetric])
  finally show ?thesis .
qed

lemma fifo_inv_RemoveOne:
  assumes "fifo_inv q" and "0 < m_size q"
  shows "fifo_inv (RemoveOne q)"
proof -
  obtain n where n: "m_size q = Suc n" using assms(2) by (cases "m_size q") auto
  have "sub_u32 (m_size q) (Suc 0) = n"
    using fifo_size_small [OF assms(1)] n by simp
  then show ?thesis
    using assms by (auto simp: fifo_inv_def RemoveOne_def n mod_add_left_eq mod_Suc_eq)
qed

lemma fifo_items_RemoveOne:
  assumes "fifo_inv q" and "0 < m_size q"
  shows "fifo_items (RemoveOne q) = tl (fifo_items q)"
proof -
  obtain n where n: "m_size q = Suc n" using assms(2) by (cases "m_size q") auto
  then have "sub_u32 (m_size q) (Suc 0) = n"
    using fifo_size_small [OF assms(1)] by simp
  then show ?thesis
    by (simp add: fifo_items_def RemoveOne_def n upt_conv_Cons map_Suc_upt [symmetric]
        mod_simps del: upt_Suc)
qed

lemma hd_fifo_items:
  assumes "fifo_inv q" and "0 < m_size q"
  shows "hd (fifo_items q) = m_ptr q ! m_head q"
  using assms by (simp add: fifo_items_def hd_map fifo_inv_def)

lemma fifo_inv_Clear: "fifo_inv q \<Longrightarrow> fifo_inv (Clear q)"
  by (auto simp: fifo_inv_def Clear_def)

lemma fifo_items_Clear [simp]: "fifo_items (Clear q) = []"
  by (simp add: Clear_def)

interpretation fifo: bounded_queue fifo_inv fifo_items fifo_capacity Push Pop Clear
proof unfold_locales
  fix q :: "'a fifo"
  assume "fifo_inv q" "fifo_items q \<noteq> []"
  then show "fst (Pop q) # fifo_items (snd (Pop q)) = fifo_items q"
    by (simp add: Pop_def fifo_items_RemoveOne hd_fifo_items [symmetric])
qed (simp_all add: Pop_def fifo_inv_Push fifo_items_Push fifo_inv_RemoveOne fifo_inv_Clear,
     simp add: fifo_inv_def)

subsection \<open>Range operations against the one-element operations\<close>

lemma Remove_fifo:
  "fifo_inv q \<Longrightarrow> n \<le> m_size q \<Longrightarrow>
    fifo_inv (Remove n q) \<and> fifo_items (Remove n q) = drop n (fifo_items q) \<and>
    fifo_capacity (Remove n q) = fifo_capacity q"
proof (induction n arbitrary: q)
  case (Suc n)
  then have "0 < m_size q" by simp
  with Suc show ?case
    by (simp add: fifo_inv_RemoveOne fifo_items_RemoveOne drop_Suc
        flip: length_fifo_items [of "RemoveOne q"])
qed simp

lemma PopRange_pop_n: "PopRange n q = fifo.pop_n n q"
  by (induction n arbitrary: q) auto

lemma Peek_items: "fifo_inv q \<Longrightarrow> i < m_size q \<Longrightarrow> Peek i q = fifo_items q ! i"
  by (simp add: Peek_def fifo_items_def)

lemma memcpy_at_Cons:
  "i < length buf \<Longrightarrow> memcpy_at i (x # xs) buf = memcpy_at (Suc i) xs (buf[i := x])"
  by (simp add: memcpy_at_def list_update_take_drop add.commute)

lemma memcpy_at_Nil [simp]: "memcpy_at i [] buf = buf"
  by (simp add: memcpy_at_def)

lemma length_memcpy_at: "i + length xs \<le> length buf \<Longrightarrow> length (memcpy_at i xs buf) = length buf"
  by (simp add: memcpy_at_def)

text \<open>A run of pushes that does not pass the end of the buffer is one \<open>memcpy\<close>.\<close>

lemma push_all_contiguous:
  assumes "m_tail q < fifo_capacity q" and "m_tail q + length vs \<le> fifo_capacity q"
    and "m_size q < 2 ^ 32"
  shows "fifo.push_all vs q =
    q\<lparr>m_ptr := memcpy_at (m_tail q) vs (m_ptr q),
      m_tail := (m_tail q + length vs) mod fifo_capacity q,
      m_size := (m_size q + length vs) mod 2 ^ 32\<rparr>"
  using assms
proof (induction vs arbitrary: q)
  case (Cons v vs)
  show ?case
  proof (cases vs)
    case Nil
    then show ?thesis
      using Cons.prems by simp (simp add: Push_def memcpy_at_Cons)
  next
    case (Cons w ws)
    with Cons.prems have "Suc (m_tail q) < fifo_capacity q" by simp
    then have fields: "m_tail (Push v q) = Suc (m_tail q)" "m_size (Push v q) < 2 ^ 32"
      by (simp_all add: Push_def)
    have step: "fifo.push_all (v # vs) q = (Push v q)\<lparr>m_ptr := memcpy_at (m_tail (Push v q)) vs (m_ptr (Push v q)),
        m_tail := (m_tail (Push v q) + length vs) mod fifo_capacity (Push v q),
        m_size := (m_size (Push v q) + length vs) mod 2 ^ 32\<rparr>"
      unfolding fifo.push_all.simps
      using Cons.prems fields \<open>Suc (m_tail q) < fifo_capacity q\<close> by (intro Cons.IH) simp_all
    show ?thesis
      unfolding step using Cons.prems \<open>Suc (m_tail q) < fifo_capacity q\<close>
      by (simp add: Push_def memcpy_at_Cons mod_simps)
  qed
qed simp

text \<open>
  \<open>PushRange\<close> (two block copies) equals pushing the elements one by one whenever they
  fit, so the queue's contract carries over to it.
\<close>

lemma PushRange_push_all:
  assumes inv: "fifo_inv q" and fits: "length data \<le> fifo_capacity q"
  shows "PushRange data q = fifo.push_all data q"
proof -
  let ?c = "fifo_capacity q" and ?t = "m_tail q"
  have t: "?t < ?c" and s: "m_size q < 2 ^ 32" and c: "?c < 2 ^ 31"
    using inv fifo_size_small [OF inv] by (auto simp: fifo_inv_def)
  have space: "sub_u32 ?c ?t = ?c - ?t" using t c by simp
  show ?thesis
  proof (cases "length data \<le> ?c - ?t")
    case True
    then show ?thesis
      using t s push_all_contiguous [of q data] by (simp add: PushRange_def space Let_def)
  next
    case False
    let ?n = "?c - ?t"
    let ?q1 = "fifo.push_all (take ?n data) q"
    have small: "m_size q + ?n < 2 ^ 32"
      using c inv by (auto simp: fifo_inv_def)
    have ne: "m_ptr q \<noteq> []" using t by auto
    have q1: "?q1 = q\<lparr>m_ptr := memcpy_at ?t (take ?n data) (m_ptr q), m_tail := 0,
        m_size := m_size q + ?n\<rparr>"
      using t s small False by (subst push_all_contiguous) (simp_all add: min_def)
    have cap1: "length (memcpy_at ?t (take ?n data) (m_ptr q)) = ?c"
      using t False by (subst length_memcpy_at) (simp_all add: min_def)
    have "fifo.push_all data q = fifo.push_all (drop ?n data) ?q1"
      by (metis append_take_drop_id fifo.push_all_append)
    also have "\<dots> = PushRange data q"
      using t s small False fits cap1 ne
      by (subst push_all_contiguous)
        (simp_all add: q1 PushRange_def space min_def Let_def mod_simps)
    finally show ?thesis by simp
  qed
qed

lemma PushRange_spec:
  assumes "fifo_inv q" and "m_size q + length data \<le> fifo_capacity q"
  shows "fifo_inv (PushRange data q)" and "fifo_items (PushRange data q) = fifo_items q @ data"
    and "fifo_capacity (PushRange data q) = fifo_capacity q"
  using assms fifo.push_all_spec [of q data] by (simp_all add: PushRange_push_all)

text \<open>
  \<open>PushFromQueue\<close> moves elements until one queue is empty or the other full, and
  loses none of them.
\<close>

lemma PushFromQueue_spec:
  "fifo_inv q \<Longrightarrow> fifo_inv other \<Longrightarrow>
    (let (q', other') = PushFromQueue q other;
         n = min (m_size other) (fifo_capacity q - m_size q)
     in fifo_inv q' \<and> fifo_inv other' \<and>
        fifo_items q' = fifo_items q @ take n (fifo_items other) \<and>
        fifo_items other' = drop n (fifo_items other))"
proof (induction q other rule: PushFromQueue.induct)
  case (1 q other)
  show ?case
  proof (cases "\<not> IsEmpty other \<and> \<not> IsFull q")
    case False
    with 1 show ?thesis
      by (auto simp: PushFromQueue.simps [of q other] IsEmpty_def IsFull_def Let_def)
  next
    case True
    obtain v other' where p: "Pop other = (v, other')" by fastforce
    from True 1 have room: "m_size q < fifo_capacity q" and some: "0 < m_size other"
      by (auto simp: IsEmpty_def IsFull_def fifo_inv_def)
    have io: "fifo_inv other'" and vo: "fifo_items other = v # fifo_items other'"
      using fifo.inv_pop [of other] fifo.items_pop [of other] 1 some p by auto
    have iq: "fifo_inv (Push v q)" and vq: "fifo_items (Push v q) = fifo_items q @ [v]"
      using fifo_inv_Push fifo_items_Push 1 room by auto
    have so: "m_size other = Suc (m_size other')"
      using arg_cong [OF vo, of length] by simp
    have sq: "m_size (Push v q) = Suc (m_size q)"
      using arg_cong [OF vq, of length] by simp
    have n: "min (m_size other) (fifo_capacity q - m_size q) =
        Suc (min (m_size other') (fifo_capacity (Push v q) - m_size (Push v q)))"
      using room by (auto simp: so sq min_def)
    from "1.IH" [OF True p [symmetric]] iq io show ?thesis
      using True by (simp add: PushFromQueue.simps [of q other] p n vo vq Let_def
          split: prod.splits)
  qed
qed

text \<open>The contiguous views never reach past the buffer or past the free space.\<close>

lemma GetContiguousSpace_bound:
  "fifo_inv q \<Longrightarrow> GetContiguousSpace q \<le> fifo_capacity q - m_size q"
proof -
  assume inv: "fifo_inv q"
  let ?c = "fifo_capacity q"
  have d: "(m_head q + m_size q) mod ?c =
      (if m_head q + m_size q < ?c then m_head q + m_size q else m_head q + m_size q - ?c)"
    using inv by (auto simp: fifo_inv_def mod_if le_mod_geq)
  show ?thesis
    using inv d by (auto simp: GetContiguousSpace_def fifo_inv_def split: if_splits)
qed

lemma GetContiguousSize_bound:
  "fifo_inv q \<Longrightarrow> m_head q + GetContiguousSize q \<le> fifo_capacity q \<and> GetContiguousSize q \<le> m_size q"
  by (auto simp: GetContiguousSize_def fifo_inv_def)

end
