(* ===== verification/BitField.thy ===== *)
theory BitField
  imports Prelude
begin

text \<open>
  \<open>BitField<BackingDataType, DataType, BitIndex, BitCount>\<close> of
  \<open>src/common/bitfield.h\<close>: a view of some bits of a register. The C++ template
  arguments \<open>BitIndex\<close> and \<open>BitCount\<close> are the arguments \<open>idx\<close> and \<open>cnt\<close> here,
  and the backing type is the word type. The file also holds the BCD helpers of
  \<open>src/common/types.h\<close>, the alignment helpers of \<open>src/common/align.h\<close> and
  \<open>CountLeadingZeros\<close> of \<open>src/common/bitutils.h\<close>.

  A field is a lens on its register; the laws are the locale \<open>register_field\<close>, and two
  fields over disjoint bits do not disturb each other.
\<close>

subsection \<open>Reading and writing a field\<close>

definition bf_mask :: "nat \<Rightarrow> nat \<Rightarrow> 'w::len word" where
  "bf_mask idx cnt = push_bit idx (drop_bit (LENGTH('w) - cnt) (NOT 0))"

definition bf_get :: "nat \<Rightarrow> nat \<Rightarrow> 'w::len word \<Rightarrow> 'w word" where
  "bf_get idx cnt data = drop_bit idx (data AND bf_mask idx cnt)"

definition bf_get_bool :: "nat \<Rightarrow> nat \<Rightarrow> 'w::len word \<Rightarrow> bool" where
  "bf_get_bool idx cnt data \<longleftrightarrow> drop_bit idx (data AND bf_mask idx cnt) \<noteq> 0"

definition bf_get_signed :: "nat \<Rightarrow> nat \<Rightarrow> 'w::len word \<Rightarrow> 'd::len word" where
  "bf_get_signed idx cnt data =
     (let shift = LENGTH('d) - cnt
      in signed_drop_bit shift (push_bit shift (ucast (drop_bit idx data) :: 'd word)))"

definition bf_set :: "nat \<Rightarrow> nat \<Rightarrow> 'w::len word \<Rightarrow> 'w word \<Rightarrow> 'w word" where
  "bf_set idx cnt v data =
     (data AND NOT (bf_mask idx cnt)) OR (push_bit idx v AND bf_mask idx cnt)"

lemma bit_bf_mask:
  "bit (bf_mask idx cnt :: 'w::len word) n \<longleftrightarrow>
     idx \<le> n \<and> n < idx + cnt \<and> n < LENGTH('w)"
  by (auto simp: bf_mask_def bit_simps)

lemma bit_bf_get:
  fixes data :: "'w::len word"
  shows "bit (bf_get idx cnt data) n \<longleftrightarrow> n < cnt \<and> bit data (idx + n)"
  by (auto simp: bf_get_def bit_simps bit_bf_mask dest: bit_imp_le_length)

lemma bit_bf_set:
  fixes data :: "'w::len word"
  shows "bit (bf_set idx cnt v data) n \<longleftrightarrow>
    n < LENGTH('w) \<and> (if idx \<le> n \<and> n < idx + cnt then bit v (n - idx) else bit data n)"
  by (auto simp: bf_set_def bit_simps bit_bf_mask dest: bit_imp_le_length)

lemma bf_get_take_bit: "bf_get idx cnt data = take_bit cnt (drop_bit idx data)"
  by (rule bit_word_eqI) (auto simp: bit_bf_get bit_simps)

lemma unat_bf_get_less: "unat (bf_get idx cnt data) < 2 ^ cnt"
  by (rule unat_less_of_bits) (simp add: bit_bf_get)

lemma bf_get_bool_bit: "bf_get_bool n (Suc 0) data = bit data n"
proof -
  have "bf_get_bool n (Suc 0) data \<longleftrightarrow> bf_get n (Suc 0) data \<noteq> 0"
    by (simp add: bf_get_bool_def bf_get_def)
  also have "\<dots> \<longleftrightarrow> bit data n"
    by (metis bit_bf_get less_Suc0 add_0_right bit_0_eq bot_apply bot_bool_def bit_word_eqI)
  finally show ?thesis .
qed

lemma bf_set_assign_bit:
  fixes data :: "'w::len word"
  shows "n < LENGTH('w) \<Longrightarrow> bf_set n (Suc 0) (of_bool b) data = assign_bit n b data"
  by (rule bit_word_eqI) (auto simp: bit_bf_set bit_simps)

subsection \<open>The laws of a register field\<close>

locale register_field =
  fixes fget :: "'r \<Rightarrow> 'v" and fset :: "'v \<Rightarrow> 'r \<Rightarrow> 'r" and fits :: "'v \<Rightarrow> bool"
  assumes get_fits: "fits (fget r)"
    and get_set: "fits v \<Longrightarrow> fget (fset v r) = v"
    and set_get: "fset (fget r) r = r"
    and set_set: "fset v (fset w r) = fset v r"
begin

lemma set_eq_iff: "fits v \<Longrightarrow> fset v r = r \<longleftrightarrow> fget r = v"
  by (metis get_set set_get)

lemma set_inj: "fits v \<Longrightarrow> fits w \<Longrightarrow> fset v r = fset w r \<Longrightarrow> v = w"
  by (metis get_set)

text \<open>A read-modify-write through \<open>operator+=\<close> and its kin touches the field only once.\<close>

lemma modify_modify:
  "fits (f (fget r)) \<Longrightarrow> fset (g (fget (fset (f (fget r)) r))) (fset (f (fget r)) r)
    = fset (g (f (fget r))) r"
  by (simp add: get_set set_set)

end

locale disjoint_fields =
  a: register_field fget fset fits + b: register_field gget gset gits
  for fget :: "'r \<Rightarrow> 'v" and fset fits and gget :: "'r \<Rightarrow> 'u" and gset gits +
  assumes get_other: "fget (gset u r) = fget r"
    and other_get: "gget (fset v r) = gget r"
    and set_commute: "fset v (gset u r) = gset u (fset v r)"
begin

lemma get_both:
  "fits v \<Longrightarrow> gits u \<Longrightarrow>
    fget (fset v (gset u r)) = v \<and> gget (fset v (gset u r)) = u"
  by (simp add: a.get_set b.get_set other_get)

end

lemma bf_field_laws:
  assumes "idx + cnt \<le> LENGTH('w::len)"
  shows "register_field (bf_get idx cnt :: 'w word \<Rightarrow> 'w word) (bf_set idx cnt)
    (\<lambda>v. unat v < 2 ^ cnt)"
proof
  fix r v :: "'w word"
  show "unat (bf_get idx cnt r) < 2 ^ cnt" by (rule unat_bf_get_less)
  show "bf_set idx cnt (bf_get idx cnt r) r = r"
    by (rule bit_word_eqI) (auto simp: bit_bf_set bit_bf_get)
  show "bf_set idx cnt v (bf_set idx cnt w r) = bf_set idx cnt v r" for w
    by (rule bit_word_eqI) (auto simp: bit_bf_set)
  assume fits: "unat v < 2 ^ cnt"
  have "take_bit cnt v = v"
    using fits by (rule take_bit_word_id)
  then have v: "bit v n \<Longrightarrow> n < cnt" for n
    by (metis bit_take_bit_iff)
  show "bf_get idx cnt (bf_set idx cnt v r) = v"
    by (rule bit_word_eqI) (use assms in \<open>auto simp: bit_bf_set bit_bf_get dest: v\<close>)
qed

text \<open>
  The fields of one 32-bit register: the interpretation is for any two of them that do not
  overlap, so every union of \<open>BitField\<close>s of the program is an instance.
\<close>

lemma bf_disjoint_laws:
  assumes "i + c \<le> LENGTH('w::len)" and "j + d \<le> LENGTH('w)" and "i + c \<le> j \<or> j + d \<le> i"
  shows "disjoint_fields (bf_get i c :: 'w word \<Rightarrow> 'w word) (bf_set i c)
    (\<lambda>v. unat v < 2 ^ c) (bf_get j d) (bf_set j d) (\<lambda>v. unat v < 2 ^ d)"
proof -

  show ?thesis
    by (intro disjoint_fields.intro disjoint_fields_axioms.intro bf_field_laws assms)
      (rule bit_word_eqI; use assms in \<open>auto simp: bit_bf_set bit_bf_get\<close>)+
qed

subsection \<open>Binary-coded decimal\<close>

definition BinaryToBCD :: "u8 \<Rightarrow> u8" where
  "BinaryToBCD value = push_bit 4 (value div 10) + (value mod 10)"

definition PackedBCDToBinary :: "u8 \<Rightarrow> u8" where
  "PackedBCDToBinary value = (drop_bit 4 value * 10) + (value mod 16)"

definition IsValidBCDDigit :: "u8 \<Rightarrow> bool" where
  "IsValidBCDDigit digit \<longleftrightarrow> digit \<le> 9"

definition IsValidPackedBCD :: "u8 \<Rightarrow> bool" where
  "IsValidPackedBCD value \<longleftrightarrow> IsValidBCDDigit (value AND 0x0F) \<and> IsValidBCDDigit (drop_bit 4 value)"

lemma unat_BinaryToBCD:
  assumes "value \<le> 99"
  shows "unat (BinaryToBCD value) = 16 * (unat value div 10) + unat value mod 10"
proof -
  have v: "unat value \<le> 99"
    using assms by (simp add: word_le_nat_alt)
  then have "16 * (unat value div 10) + unat value mod 10 < 256"
    by arith
  then show ?thesis
    by (simp add: BinaryToBCD_def push_bit_eq_mult unat_word_ariths unat_div unat_mod mod_simps)
qed

lemma unat_PackedBCDToBinary:
  "unat (PackedBCDToBinary value) = 10 * (unat value div 16) + unat value mod 16"
proof -
  have "unat value < 256"
    using unsigned_less [of "value"] by simp
  then have "10 * (unat value div 16) + unat value mod 16 < 256"
    by arith
  then show ?thesis
    by (simp add: PackedBCDToBinary_def unat_word_ariths unat_mod unat_drop_bit_eq
        drop_bit_eq_div mult.commute)
qed

lemma IsValidPackedBCD_unat:
  "IsValidPackedBCD value \<longleftrightarrow> unat value mod 16 \<le> 9 \<and> unat value div 16 \<le> 9"
proof -
  have "value AND 0x0F = take_bit 4 value"
    by (simp add: take_bit_eq_mask mask_eq_exp_minus_1)
  then show ?thesis
    by (simp add: IsValidPackedBCD_def IsValidBCDDigit_def word_le_nat_alt
        unsigned_take_bit_eq take_bit_eq_mod unat_drop_bit_eq drop_bit_eq_div unat_mod unat_div)
qed

lemma PackedBCDToBinary_BinaryToBCD:
  assumes "value \<le> 99"
  shows "PackedBCDToBinary (BinaryToBCD value) = value" and "IsValidPackedBCD (BinaryToBCD value)"
proof -
  let ?b = "16 * (unat value div 10) + unat value mod 10"
  have small: "unat value mod 10 < 16" and v: "unat value \<le> 99"
    using assms by (simp_all add: word_le_nat_alt less_trans [of _ 10 16])
  have b: "?b div 16 = unat value div 10" "?b mod 16 = unat value mod 10"
    using small by simp_all
  have "unat (PackedBCDToBinary (BinaryToBCD value)) = unat value"
    unfolding unat_PackedBCDToBinary unat_BinaryToBCD [OF assms] b by simp
  then show "PackedBCDToBinary (BinaryToBCD value) = value"
    by (simp add: word_unat_eq_iff)
  show "IsValidPackedBCD (BinaryToBCD value)"
    unfolding IsValidPackedBCD_unat unat_BinaryToBCD [OF assms] b using v by arith
qed

lemma BinaryToBCD_PackedBCDToBinary:
  assumes "IsValidPackedBCD value"
  shows "BinaryToBCD (PackedBCDToBinary value) = value" and "PackedBCDToBinary value \<le> 99"
proof -
  have d: "unat value mod 16 \<le> 9" "unat value div 16 \<le> 9"
    using assms by (simp_all add: IsValidPackedBCD_unat)
  show le: "PackedBCDToBinary value \<le> 99"
    unfolding word_le_nat_alt unat_PackedBCDToBinary using d by simp
  have "(10 * (unat value div 16) + unat value mod 16) div 10 = unat value div 16"
       "(10 * (unat value div 16) + unat value mod 16) mod 10 = unat value mod 16"
    using d by simp_all
  then have "unat (BinaryToBCD (PackedBCDToBinary value)) = unat value"
    unfolding unat_BinaryToBCD [OF le] unat_PackedBCDToBinary by simp
  then show "BinaryToBCD (PackedBCDToBinary value) = value"
    by (simp add: word_unat_eq_iff)
qed

subsection \<open>Alignment\<close>

definition AlignUp :: "'w::len word \<Rightarrow> 'w word \<Rightarrow> 'w word" where
  "AlignUp value alignment = (value + (alignment - 1)) div alignment * alignment"

definition IsAlignedPow2 :: "'w::len word \<Rightarrow> 'w word \<Rightarrow> bool" where
  "IsAlignedPow2 value alignment \<longleftrightarrow> value AND (alignment - 1) = 0"

definition AlignUpPow2 :: "'w::len word \<Rightarrow> 'w word \<Rightarrow> 'w word" where
  "AlignUpPow2 value alignment = (value + (alignment - 1)) AND NOT (alignment - 1)"

lemma exp_minus_1_mask: "(2 ^ k - 1 :: 'w::len word) = mask k"
  by (simp add: mask_eq_exp_minus_1)

lemma AlignUpPow2_aligned: "IsAlignedPow2 (AlignUpPow2 value (2 ^ k)) (2 ^ k)"
  unfolding IsAlignedPow2_def AlignUpPow2_def
  by (rule bit_word_eqI) (simp add: bit_simps)

text \<open>Without wrap-around the two ways of rounding up agree, and give the next multiple.\<close>

lemma unat_AlignUpPow2:
  fixes x :: "'w::len word"
  assumes "k < LENGTH('w)" and "unat x + 2 ^ k \<le> 2 ^ LENGTH('w)"
  shows "unat (AlignUpPow2 x (2 ^ k)) = (unat x + 2 ^ k - 1) div 2 ^ k * 2 ^ k"
proof -
  let ?s = "x + (2 ^ k - 1)"
  have "unat (take_bit k (- 1) :: 'w word) = take_bit k (mask LENGTH('w))"
    by (subst unsigned_take_bit_eq) (simp add: unsigned_minus_1_eq_mask)
  then have "unat (mask k :: 'w word) = mask k"
    using assms(1) by (simp add: min_def)
  then have m: "unat (2 ^ k - 1 :: 'w word) = 2 ^ k - 1"
    by (simp only: exp_minus_1_mask) (simp only: mask_eq_exp_minus_1)
  have s: "unat ?s = unat x + 2 ^ k - 1"
  proof -
    have "(1::nat) \<le> 2 ^ k" by simp
    with assms(2) have "unat x + (2 ^ k - 1) < 2 ^ LENGTH('w)" by linarith
    then show ?thesis
      by (subst unat_add_lem [THEN iffD1]) (simp_all add: m)
  qed
  have masked: "?s AND NOT (mask k) = push_bit k (drop_bit k ?s)"
    by (rule bit_word_eqI) (auto simp: bit_simps dest: bit_imp_le_length)
  have *: "AlignUpPow2 x (2 ^ k) = push_bit k (drop_bit k ?s)"
    using masked by (simp add: AlignUpPow2_def exp_minus_1_mask)
  have "unat ?s div 2 ^ k * 2 ^ k \<le> unat ?s" by simp
  also have "unat ?s < 2 ^ LENGTH('w)" by (rule unsigned_less)
  finally have lt: "unat ?s div 2 ^ k * 2 ^ k < 2 ^ LENGTH('w)" .
  have "unat (push_bit k (drop_bit k ?s)) = (unat ?s div 2 ^ k * 2 ^ k) mod 2 ^ LENGTH('w)"
    by (simp only: unsigned_push_bit_eq unsigned_drop_bit_eq)
      (simp add: take_bit_eq_mod push_bit_eq_mult drop_bit_eq_div unsigned_less mult.commute)
  then show ?thesis
    unfolding * s [symmetric] using lt by simp
qed

subsection \<open>Leading zeros\<close>

text \<open>
  \<open>CountLeadingZeros\<close>: the zero bits before the first set bit from the top. The compiler
  builtins it calls are undefined at 0, and the callers never pass 0; \<open>clz_from\<close> is what
  they compute otherwise.
\<close>

fun clz_from :: "nat \<Rightarrow> 'w::len word \<Rightarrow> nat" where
  "clz_from 0 w = 0"
| "clz_from (Suc n) w = (if bit w n then 0 else Suc (clz_from n w))"

definition CountLeadingZeros :: "'w::len word \<Rightarrow> nat" where
  "CountLeadingZeros value = clz_from LENGTH('w) value"

lemma clz_from_le: "clz_from n w \<le> n"
  by (induction n) auto

lemma clz_from_top: "clz_from n w < n \<Longrightarrow> bit w (n - Suc (clz_from n w))"
  by (induction n) (auto split: if_splits)

lemma clz_from_above: "n - clz_from n w \<le> m \<Longrightarrow> m < n \<Longrightarrow> \<not> bit w m"
proof (induction n)
  case (Suc n)
  then show ?case
    by (cases "bit w n"; cases "m = n") (auto split: if_splits)
qed simp

lemma clz_from_less: "bit w m \<Longrightarrow> m < n \<Longrightarrow> clz_from n w < n - m"
  by (rule ccontr) (use clz_from_above [of n w m] in auto)

end
