(* ===== verification/GteState.thy ===== *)
theory GteState
  imports Prelude
begin

text \<open>
  The state of the geometry transformation engine: its 64 registers, the view \<open>r32\<close> of the union
  \<open>Regs\<close> (\<open>src/core/gte_types.h\<close>), which are a member of the CPU's state, and the ratio that the
  widescreen correction of \<open>src/core/gte.cpp\<close> keeps in three static variables.
\<close>

type_synonym gte_regs = "nat \<Rightarrow> u32"

datatype DisplayAspectRatio =
  R_Auto | R_MatchWindow | R_Custom | R_4_3 | R_16_9 | R_19_9 | R_20_9 | R_PAR1_1 | R_Native

record aspect_ratio =
  s_aspect_ratio :: DisplayAspectRatio
  s_custom_aspect_ratio_numerator :: u32
  s_custom_aspect_ratio_denominator :: u32

end
