(* ===== verification/CpuState.thy ===== *)
theory CpuState
  imports BitField GteState
begin

text \<open>
  The CPU's state (\<open>CPU::State\<close> of \<open>src/core/cpu_core.h\<close>) and the operations on it that
  the rest of the machine calls: the tick counters, the external interrupt lines, the
  coprocessor 0 registers, the register file with its load delay slot, and the address
  segments. The record is the base of the machine's state: every other component's theory
  extends it by its own fields, so \<open>g_state\<close>, \<open>g_timers\<close>, \<open>g_dma\<close> and so on are
  the fields of one record, as they are globals of one process.

  Register numbers are natural numbers; \<open>Reg::count\<close>, "no register", is \<open>reg_count = 36\<close>.
  The settings the modelled code reads are fields whose name starts with \<open>cfg_\<close>.
\<close>

subsection \<open>Registers\<close>

record cop0_registers =
  BPC :: u32
  BDA :: u32
  TAR :: u32
  BadVaddr :: u32
  BDAM :: u32
  BPCM :: u32
  EPC :: u32
  PRID :: u32
  sr :: u32
  cause :: u32
  dcic :: u32

abbreviation (input) reg_zero :: nat where "reg_zero \<equiv> 0"
abbreviation (input) reg_ra :: nat where "reg_ra \<equiv> 31"
abbreviation (input) reg_hi :: nat where "reg_hi \<equiv> 32"
abbreviation (input) reg_lo :: nat where "reg_lo \<equiv> 33"
abbreviation (input) reg_pc :: nat where "reg_pc \<equiv> 34"
abbreviation (input) reg_npc :: nat where "reg_npc \<equiv> 35"
abbreviation (input) reg_count :: nat where "reg_count \<equiv> 36"

record cpu_state =
  downcount :: tick_count
  pending_ticks :: tick_count
  gte_completion_tick :: tick_count
  regs :: "u32 list"
  cop0_regs :: cop0_registers
  next_instruction :: u32
  current_instruction :: u32
  current_instruction_pc :: u32
  current_instruction_in_branch_delay_slot :: bool
  current_instruction_was_branch_taken :: bool
  next_instruction_is_branch_delay_slot :: bool
  branch_was_taken :: bool
  exception_raised :: bool
  interrupt_delay :: bool
  frame_done :: bool
  load_delay_reg :: nat
  load_delay_value :: u32
  next_load_delay_reg :: nat
  next_load_delay_value :: u32
  gte_regs :: gte_regs
  gte_aspect :: aspect_ratio
  use_debug_dispatcher :: bool
  using_interpreter :: bool
  cfg_interpreter_mode :: bool

text \<open>The bits of \<open>SR\<close> and \<open>CAUSE\<close> the code names.\<close>

abbreviation (input) sr_IEc :: "u32 \<Rightarrow> bool" where "sr_IEc w \<equiv> bit w 0"
abbreviation (input) sr_KUc :: "u32 \<Rightarrow> bool" where "sr_KUc w \<equiv> bit w 1"
abbreviation (input) sr_Isc :: "u32 \<Rightarrow> bool" where "sr_Isc w \<equiv> bit w 16"
abbreviation (input) sr_BEV :: "u32 \<Rightarrow> bool" where "sr_BEV w \<equiv> bit w 22"
abbreviation (input) sr_CU0 :: "u32 \<Rightarrow> bool" where "sr_CU0 w \<equiv> bit w 28"
abbreviation (input) sr_CE2 :: "u32 \<Rightarrow> bool" where "sr_CE2 w \<equiv> bit w 30"
abbreviation (input) cause_BD :: "u32 \<Rightarrow> bool" where "cause_BD w \<equiv> bit w 31"

definition SR_WRITE_MASK :: u32 where "SR_WRITE_MASK = 0xF27FFF3F"
definition CAUSE_WRITE_MASK :: u32 where "CAUSE_WRITE_MASK = 0x00000300"
definition EXCEPTION_WRITE_MASK :: u32 where "EXCEPTION_WRITE_MASK = 0xF000007C"
definition DCIC_WRITE_MASK :: u32 where "DCIC_WRITE_MASK = 0xFF80F03F"

datatype exception =
    Exc_INT | Exc_MOD | Exc_TLBL | Exc_TLBS | Exc_AdEL | Exc_AdES | Exc_IBE | Exc_DBE
  | Exc_Syscall | Exc_BP | Exc_RI | Exc_CpU | Exc_Ov

fun exception_code :: "exception \<Rightarrow> u32" where
  "exception_code Exc_INT = 0x00"
| "exception_code Exc_MOD = 0x01"
| "exception_code Exc_TLBL = 0x02"
| "exception_code Exc_TLBS = 0x03"
| "exception_code Exc_AdEL = 0x04"
| "exception_code Exc_AdES = 0x05"
| "exception_code Exc_IBE = 0x06"
| "exception_code Exc_DBE = 0x07"
| "exception_code Exc_Syscall = 0x08"
| "exception_code Exc_BP = 0x09"
| "exception_code Exc_RI = 0x0A"
| "exception_code Exc_CpU = 0x0B"
| "exception_code Exc_Ov = 0x0C"

definition MakeValueForException :: "exception \<Rightarrow> bool \<Rightarrow> bool \<Rightarrow> u32 \<Rightarrow> u32" where
  "MakeValueForException excode BD BT CE =
     bf_set 28 2 CE (assign_bit 30 BT (assign_bit 31 BD (bf_set 2 5 (exception_code excode) 0)))"

text \<open>\<open>Excode\<close> and \<open>Ip\<close> are fields over disjoint bits of \<open>CAUSE\<close>.\<close>

interpretation cause_Ip: register_field "bf_get 8 8 :: u32 \<Rightarrow> u32" "bf_set 8 8" "\<lambda>v. unat v < 2 ^ 8"
  by (rule bf_field_laws) simp

interpretation cause_fields: disjoint_fields
  "bf_get 2 5 :: u32 \<Rightarrow> u32" "bf_set 2 5" "\<lambda>v. unat v < 2 ^ 5"
  "bf_get 8 8 :: u32 \<Rightarrow> u32" "bf_set 8 8" "\<lambda>v. unat v < 2 ^ 8"
  by (rule bf_disjoint_laws) simp_all

text \<open>The interrupt lines do not disturb the exception code, and are what was written.\<close>

lemma Excode_Ip:
  "bf_get 2 5 (bf_set 8 8 v w) = (bf_get 2 5 w :: u32)"
  "unat v < 2 ^ 8 \<Longrightarrow> bf_get 8 8 (bf_set 8 8 v (w :: u32)) = v"
  by (simp_all add: cause_fields.get_other cause_Ip.get_set)

lemma Excode_MakeValueForException:
  "bf_get 2 5 (MakeValueForException e BD BT CE) = exception_code e"
proof -
  have small: "unat (exception_code e) < 2 ^ 5" by (cases e) simp_all
  have "bf_get 2 5 (MakeValueForException e BD BT CE) = bf_get 2 5 (bf_set 2 5 (exception_code e) 0)"
    unfolding MakeValueForException_def
    by (rule bit_word_eqI) (auto simp: bit_bf_get bit_bf_set)
  then show ?thesis using cause_fields.a.get_set [OF small, of 0] by simp
qed

subsection \<open>Ticks\<close>

definition GetPendingTicks :: "'a cpu_state_scheme \<Rightarrow> tick_count" where
  "GetPendingTicks s = pending_ticks s"

definition ResetPendingTicks :: "'a cpu_state_scheme \<Rightarrow> 'a cpu_state_scheme" where
  "ResetPendingTicks s =
     s\<lparr>gte_completion_tick :=
         (if pending_ticks s < gte_completion_tick s
          then gte_completion_tick s - pending_ticks s else 0),
       pending_ticks := 0\<rparr>"

definition AddPendingTicks :: "tick_count \<Rightarrow> 'a cpu_state_scheme \<Rightarrow> 'a cpu_state_scheme" where
  "AddPendingTicks ticks s = s\<lparr>pending_ticks := pending_ticks s + ticks\<rparr>"

definition AddGTETicks :: "tick_count \<Rightarrow> 'a cpu_state_scheme \<Rightarrow> 'a cpu_state_scheme" where
  "AddGTETicks ticks s = s\<lparr>gte_completion_tick := pending_ticks s + ticks + 1\<rparr>"

definition StallUntilGTEComplete :: "'a cpu_state_scheme \<Rightarrow> 'a cpu_state_scheme" where
  "StallUntilGTEComplete s =
     s\<lparr>pending_ticks := (if pending_ticks s < gte_completion_tick s
                         then gte_completion_tick s else pending_ticks s)\<rparr>"

definition InUserMode :: "'a cpu_state_scheme \<Rightarrow> bool" where
  "InUserMode s \<longleftrightarrow> sr_KUc (sr (cop0_regs s))"

subsection \<open>Interrupt lines\<close>

definition HasPendingInterrupt :: "'a cpu_state_scheme \<Rightarrow> bool" where
  "HasPendingInterrupt s \<longleftrightarrow>
     sr_IEc (sr (cop0_regs s)) \<and>
     (cause (cop0_regs s) AND sr (cop0_regs s)) AND push_bit 8 0xFF \<noteq> 0"

definition CheckForPendingInterrupt :: "'a cpu_state_scheme \<Rightarrow> 'a cpu_state_scheme" where
  "CheckForPendingInterrupt s = (if HasPendingInterrupt s then s\<lparr>downcount := 0\<rparr> else s)"

definition SetExternalInterrupt :: "nat \<Rightarrow> 'a cpu_state_scheme \<Rightarrow> 'a cpu_state_scheme" where
  "SetExternalInterrupt b s =
     (let c0 = cop0_regs s;
          s1 = s\<lparr>cop0_regs := c0\<lparr>cause := bf_set 8 8 (bf_get 8 8 (cause c0) OR push_bit b 1) (cause c0)\<rparr>\<rparr>
      in if cfg_interpreter_mode s then s1\<lparr>interrupt_delay := True\<rparr>
         else CheckForPendingInterrupt (s1\<lparr>interrupt_delay := False\<rparr>))"

definition ClearExternalInterrupt :: "nat \<Rightarrow> 'a cpu_state_scheme \<Rightarrow> 'a cpu_state_scheme" where
  "ClearExternalInterrupt b s =
     (let c0 = cop0_regs s
      in s\<lparr>cop0_regs := c0\<lparr>cause := bf_set 8 8 (bf_get 8 8 (cause c0) AND NOT (push_bit b 1)) (cause c0)\<rparr>\<rparr>)"

lemma bit_cause_SetExternalInterrupt:
  "b < 8 \<Longrightarrow> bit (cause (cop0_regs (SetExternalInterrupt b s))) n \<longleftrightarrow>
    n = b + 8 \<or> bit (cause (cop0_regs s)) n"
  by (auto simp: SetExternalInterrupt_def CheckForPendingInterrupt_def Let_def bit_bf_set
      bit_bf_get bit_simps dest: bit_imp_le_length)

lemma bit_cause_ClearExternalInterrupt:
  "b < 8 \<Longrightarrow> bit (cause (cop0_regs (ClearExternalInterrupt b s))) n \<longleftrightarrow>
    n \<noteq> b + 8 \<and> bit (cause (cop0_regs s)) n"
  by (auto simp: ClearExternalInterrupt_def Let_def bit_bf_set bit_bf_get bit_simps
      dest: bit_imp_le_length)

lemma HasPendingInterrupt_iff:
  "HasPendingInterrupt s \<longleftrightarrow>
    sr_IEc (sr (cop0_regs s)) \<and>
    (\<exists>n. 8 \<le> n \<and> n < 16 \<and> bit (cause (cop0_regs s)) n \<and> bit (sr (cop0_regs s)) n)"
proof -
  let ?w = "(cause (cop0_regs s) AND sr (cop0_regs s)) AND push_bit 8 0xFF"
  have m8: "(0xFF :: u32) = mask 8"
    by (simp add: mask_eq_exp_minus_1)
  have ff: "bit (push_bit 8 0xFF :: u32) m \<longleftrightarrow> 8 \<le> m \<and> m < 16" for m
    unfolding m8 bit_push_bit_iff bit_mask_iff by auto
  have "?w \<noteq> 0 \<longleftrightarrow> (\<exists>n. bit ?w n)"
    by (metis bit_word_eqI bit_0_eq bot_apply bot_bool_def)
  moreover have "bit ?w n \<longleftrightarrow> 8 \<le> n \<and> n < 16 \<and> bit (cause (cop0_regs s)) n \<and> bit (sr (cop0_regs s)) n" for n
    by (auto simp only: bit_and_iff ff)
  ultimately show ?thesis
    by (simp add: HasPendingInterrupt_def)
qed

subsection \<open>The register file and the load delay slot\<close>

definition ReadReg :: "nat \<Rightarrow> 'a cpu_state_scheme \<Rightarrow> u32" where
  "ReadReg rs s = regs s ! rs"

definition WriteReg :: "nat \<Rightarrow> u32 \<Rightarrow> 'a cpu_state_scheme \<Rightarrow> 'a cpu_state_scheme" where
  "WriteReg rd val s =
     s\<lparr>regs := (regs s)[rd := val, reg_zero := 0],
       load_delay_reg := (if rd = load_delay_reg s then reg_count else load_delay_reg s)\<rparr>"

definition WriteRegDelayed :: "nat \<Rightarrow> u32 \<Rightarrow> 'a cpu_state_scheme \<Rightarrow> 'a cpu_state_scheme" where
  "WriteRegDelayed rd val s =
     (if rd = reg_zero then s
      else let s1 = (if load_delay_reg s = rd then s\<lparr>load_delay_reg := reg_count\<rparr> else s)
           in s1\<lparr>next_load_delay_reg := rd, next_load_delay_value := val\<rparr>)"

definition UpdateLoadDelay :: "'a cpu_state_scheme \<Rightarrow> 'a cpu_state_scheme" where
  "UpdateLoadDelay s =
     (let s1 = (if load_delay_reg s \<noteq> reg_count
                then s\<lparr>regs := (regs s)[load_delay_reg s := load_delay_value s]\<rparr> else s)
      in s1\<lparr>load_delay_reg := next_load_delay_reg s1,
            load_delay_value := next_load_delay_value s1,
            next_load_delay_reg := reg_count\<rparr>)"

subsection \<open>Coprocessor 0\<close>

definition ForceDispatcherExit :: "'a cpu_state_scheme \<Rightarrow> 'a cpu_state_scheme" where
  "ForceDispatcherExit s = s\<lparr>downcount := 0, frame_done := True\<rparr>"

definition UpdateDebugDispatcherFlag :: "'a cpu_state_scheme \<Rightarrow> 'a cpu_state_scheme" where
  "UpdateDebugDispatcherFlag s =
     (let d = dcic (cop0_regs s);
          has_cop0_breakpoints = (bit d 23 \<and> bit d 31 \<and> bit d 24)
      in if has_cop0_breakpoints = use_debug_dispatcher s then s
         else ForceDispatcherExit (s\<lparr>use_debug_dispatcher := has_cop0_breakpoints\<rparr>))"

definition ReadCop0Reg :: "nat \<Rightarrow> 'a cpu_state_scheme \<Rightarrow> u32" where
  "ReadCop0Reg r s =
     (let c0 = cop0_regs s
      in if r = 3 then BPC c0
         else if r = 11 then BPCM c0
         else if r = 5 then BDA c0
         else if r = 9 then BDAM c0
         else if r = 7 then dcic c0
         else if r = 6 then TAR c0
         else if r = 8 then BadVaddr c0
         else if r = 12 then sr c0
         else if r = 13 then cause c0
         else if r = 14 then EPC c0
         else if r = 15 then PRID c0
         else 0)"

definition masked_write :: "u32 \<Rightarrow> u32 \<Rightarrow> u32 \<Rightarrow> u32" where
  "masked_write wm old new = (old AND NOT wm) OR (new AND wm)"

definition WriteCop0Reg :: "nat \<Rightarrow> u32 \<Rightarrow> 'a cpu_state_scheme \<Rightarrow> 'a cpu_state_scheme" where
  "WriteCop0Reg r val s =
     (let c0 = cop0_regs s
      in if r = 3 then s\<lparr>cop0_regs := c0\<lparr>BPC := val\<rparr>\<rparr>
         else if r = 11 then s\<lparr>cop0_regs := c0\<lparr>BPCM := val\<rparr>\<rparr>
         else if r = 5 then s\<lparr>cop0_regs := c0\<lparr>BDA := val\<rparr>\<rparr>
         else if r = 9 then s\<lparr>cop0_regs := c0\<lparr>BDAM := val\<rparr>\<rparr>
         else if r = 6 then s
         else if r = 7 then
           UpdateDebugDispatcherFlag
             (s\<lparr>cop0_regs := c0\<lparr>dcic := masked_write DCIC_WRITE_MASK (dcic c0) val\<rparr>\<rparr>)
         else if r = 12 then
           CheckForPendingInterrupt
             (s\<lparr>cop0_regs := c0\<lparr>sr := masked_write SR_WRITE_MASK (sr c0) val\<rparr>\<rparr>)
         else if r = 13 then
           CheckForPendingInterrupt
             (s\<lparr>cop0_regs := c0\<lparr>cause := masked_write CAUSE_WRITE_MASK (cause c0) val\<rparr>\<rparr>)
         else s)"

definition GetExceptionVector :: "bool \<Rightarrow> 'a cpu_state_scheme \<Rightarrow> u32" where
  "GetExceptionVector debug_exception s =
     (let base = (if sr_BEV (sr (cop0_regs s)) then 0xbfc00100 else 0x80000000)
      in base OR (if debug_exception then 0x40 else 0x80))"

lemma bit_masked_write: "bit (masked_write wm old new) n \<longleftrightarrow> (if bit wm n then bit new n else bit old n)"
  by (auto simp: masked_write_def bit_simps dest: bit_imp_le_length)

lemma masked_write_idem: "masked_write m (masked_write m old new) new = masked_write m old new"
  by (rule bit_word_eqI) (auto simp: bit_masked_write)

subsection \<open>Segments\<close>

datatype segment = KUSEG | KSEG0 | KSEG1 | KSEG2

definition GetSegmentForAddress :: "u32 \<Rightarrow> segment" where
  "GetSegmentForAddress address =
     (let top = drop_bit 29 address
      in if top = 0 \<or> top = 1 \<or> top = 2 \<or> top = 3 then KUSEG
         else if top = 4 then KSEG0
         else if top = 5 then KSEG1
         else KSEG2)"

definition VirtualAddressToPhysical :: "u32 \<Rightarrow> u32" where
  "VirtualAddressToPhysical address = address AND 0x1FFFFFFF"

definition IsCachedAddress :: "u32 \<Rightarrow> bool" where
  "IsCachedAddress address \<longleftrightarrow> drop_bit 29 address \<le> 4"

lemma segment_exhaustive_cached:
  "IsCachedAddress address \<longleftrightarrow> GetSegmentForAddress address \<in> {KUSEG, KSEG0}"
proof -
  let ?t = "drop_bit 29 address"
  have "?t \<le> 4 \<longleftrightarrow> ?t = 0 \<or> ?t = 1 \<or> ?t = 2 \<or> ?t = 3 \<or> ?t = 4"
    by (simp add: word_le_nat_alt word_unat_eq_iff) presburger
  then show ?thesis
    by (auto simp: IsCachedAddress_def GetSegmentForAddress_def Let_def)
qed

subsection \<open>The invariant of the register file\<close>

text \<open>
  Thirty-six registers, \<open>$zero\<close> reads as zero, and the two load delay slots never name
  \<open>$zero\<close>: that is what makes the unconditional write-back of \<open>UpdateLoadDelay\<close> safe.
\<close>

definition regs_inv :: "'a cpu_state_scheme \<Rightarrow> bool" where
  "regs_inv s \<longleftrightarrow> length (regs s) = 36 \<and> regs s ! reg_zero = 0 \<and>
     load_delay_reg s \<noteq> reg_zero \<and> next_load_delay_reg s \<noteq> reg_zero"

lemma regs_inv_WriteReg [preserves]: "regs_inv s \<Longrightarrow> regs_inv (WriteReg rd v s)"
  by (auto simp: regs_inv_def WriteReg_def)

lemma regs_inv_WriteRegDelayed [preserves]: "regs_inv s \<Longrightarrow> regs_inv (WriteRegDelayed rd v s)"
  by (auto simp: regs_inv_def WriteRegDelayed_def Let_def)

lemma regs_inv_UpdateLoadDelay [preserves]: "regs_inv s \<Longrightarrow> regs_inv (UpdateLoadDelay s)"
  by (auto simp: regs_inv_def UpdateLoadDelay_def Let_def)

lemma ReadReg_WriteReg:
  "regs_inv s \<Longrightarrow> rd < 36 \<Longrightarrow>
    ReadReg r (WriteReg rd v s) = (if r = reg_zero then 0 else if r = rd then v else ReadReg r s)"
  by (auto simp: ReadReg_def WriteReg_def regs_inv_def nth_list_update)

end
