(* ===== verification/EventQueue.thy ===== *)
theory EventQueue
  imports TimingEvents
begin

text \<open>
  The linked list of \<open>TimingEvents\<close> read as a list of addresses. \<open>dll N p xs q\<close> says
  that in the store \<open>N\<close> the nodes \<open>xs\<close> form a doubly linked segment whose first
  \<open>prev\<close> is \<open>p\<close> and whose last \<open>next\<close> is \<open>q\<close>; \<open>te_rep s xs\<close> that the whole queue of
  state \<open>s\<close> is the list \<open>xs\<close>. Each pointer operation is proved to refine a list
  operation: insertion by \<open>insort_key\<close>, removal by \<open>remove1\<close>.
\<close>

subsection \<open>Doubly linked segments\<close>

definition first_of :: "nat list \<Rightarrow> nat option \<Rightarrow> nat option" where
  "first_of xs q = (case xs of [] \<Rightarrow> q | x # _ \<Rightarrow> Some x)"

definition last_of :: "nat list \<Rightarrow> nat option \<Rightarrow> nat option" where
  "last_of xs p = (if xs = [] then p else Some (last xs))"

fun dll :: "(nat \<Rightarrow> timing_event) \<Rightarrow> nat option \<Rightarrow> nat list \<Rightarrow> nat option \<Rightarrow> bool" where
  "dll N p [] q \<longleftrightarrow> True"
| "dll N p (x # xs) q \<longleftrightarrow>
     te_prev (N x) = p \<and> te_next (N x) = first_of xs q \<and> dll N (Some x) xs q"

lemma first_of_simps [simp]:
  "first_of [] q = q" "first_of (x # xs) q = Some x"
  "first_of (xs @ ys) q = first_of xs (first_of ys q)"
  by (auto simp: first_of_def split: list.splits)

lemma last_of_simps [simp]:
  "last_of [] p = p" "last_of (x # xs) p = last_of xs (Some x)"
  "last_of (xs @ ys) p = last_of ys (last_of xs p)"
  by (auto simp: last_of_def)

lemma last_of_snoc: "last_of (xs @ [x]) p = Some x"
  by simp

lemma first_of_None [simp]: "first_of xs None = None \<longleftrightarrow> xs = []"
  by (cases xs) simp_all

lemma last_of_None [simp]: "last_of xs None = None \<longleftrightarrow> xs = []"
  by (simp add: last_of_def)

lemma dll_append [simp]:
  "dll N p (xs @ ys) q \<longleftrightarrow> dll N p xs (first_of ys q) \<and> dll N (last_of xs p) ys q"
  by (induction xs arbitrary: p) auto

lemma dll_cong:
  "(\<And>x. x \<in> set xs \<Longrightarrow> te_prev (N' x) = te_prev (N x) \<and> te_next (N' x) = te_next (N x)) \<Longrightarrow>
    dll N p xs q \<Longrightarrow> dll N' p xs q"
  by (induction xs arbitrary: p) auto

lemma dll_upd_other: "e \<notin> set xs \<Longrightarrow> dll (N(e := n)) p xs q \<longleftrightarrow> dll N p xs q"
  by (auto intro: dll_cong [rotated])

lemma dll_set_last:
  "dll N p (xs @ [x]) q \<Longrightarrow> x \<notin> set xs \<Longrightarrow> te_prev n = te_prev (N x) \<Longrightarrow> te_next n = q' \<Longrightarrow>
    dll (N(x := n)) p (xs @ [x]) q'"
  by (simp add: dll_upd_other)

lemma dll_set_first:
  "dll N p (x # xs) q \<Longrightarrow> x \<notin> set xs \<Longrightarrow> te_next n = te_next (N x) \<Longrightarrow> te_prev n = p' \<Longrightarrow>
    dll (N(x := n)) p' (x # xs) q"
  by (simp add: dll_upd_other)

definition te_links :: "'a te_state_scheme \<Rightarrow> nat list \<Rightarrow> bool" where
  "te_links s xs \<longleftrightarrow> distinct xs \<and> dll (te_nodes s) None xs None \<and>
     s_active_events_head s = first_of xs None \<and> s_active_events_tail s = last_of xs None"

text \<open>The list a state represents is determined by the state.\<close>

lemma dll_first_unique:
  "dll N p xs None \<Longrightarrow> dll N p' ys None \<Longrightarrow> first_of xs None = first_of ys None \<Longrightarrow> xs = ys"
proof (induction xs arbitrary: ys p p')
  case Nil
  then show ?case by (metis first_of_None first_of_simps(1))
next
  case (Cons x xs)
  then obtain ys' where ys: "ys = x # ys'"
    by (cases ys) auto
  with Cons.prems have "first_of xs None = first_of ys' None" by simp
  with Cons.IH [of "Some x" "Some x" ys'] Cons.prems ys show ?case by simp
qed

lemma te_links_unique: "te_links s xs \<Longrightarrow> te_links s ys \<Longrightarrow> xs = ys"
  by (auto simp: te_links_def intro: dll_first_unique)

subsection \<open>Linking and unlinking one node\<close>

definition link :: "nat option \<Rightarrow> nat \<Rightarrow> nat option \<Rightarrow> 'a te_state_scheme \<Rightarrow> 'a te_state_scheme" where
  "link c e n s =
     (let s1 = set_next e n (set_prev e c s);
          s2 = (case c of Some p \<Rightarrow> set_next p (Some e) s1 | None \<Rightarrow> s1\<lparr>s_active_events_head := Some e\<rparr>)
      in case n of Some x \<Rightarrow> set_prev x (Some e) s2 | None \<Rightarrow> s2\<lparr>s_active_events_tail := Some e\<rparr>)"

lemma te_links_link:
  assumes "te_links s (as @ bs)" and "e \<notin> set (as @ bs)"
  shows "te_links (link (last_of as None) e (first_of bs None) s) (as @ e # bs)"
proof -
  have d: "distinct as" "distinct bs" "set as \<inter> set bs = {}" "e \<notin> set as" "e \<notin> set bs"
    and a: "dll (te_nodes s) None as (first_of bs None)"
    and b: "dll (te_nodes s) (last_of as None) bs None"
    and h: "s_active_events_head s = first_of as (first_of bs None)"
    and t: "s_active_events_tail s = last_of bs (last_of as None)"
    using assms by (auto simp: te_links_def)
  show ?thesis
  proof (cases as rule: rev_cases)
    case Nil
    then show ?thesis
      using d b t
      by (cases bs) (auto simp: te_links_def link_def set_node_def Let_def dll_upd_other)
  next
    case (snoc as' x)
    then show ?thesis
      using d a b h t
      by (cases bs; cases as') (auto simp: te_links_def link_def set_node_def Let_def dll_upd_other)
  qed
qed

lemma te_links_unlink:
  assumes "te_links s (as @ e # bs)"
  shows "te_links (unlink e s) (as @ bs)"
proof -
  have d: "distinct as" "distinct bs" "set as \<inter> set bs = {}" "e \<notin> set as" "e \<notin> set bs"
    and a: "dll (te_nodes s) None as (Some e)"
    and b: "dll (te_nodes s) (Some e) bs None"
    and e: "te_prev (te_nodes s e) = last_of as None" "te_next (te_nodes s e) = first_of bs None"
    and h: "s_active_events_head s = first_of as (Some e)"
    and t: "s_active_events_tail s = last_of bs (Some e)"
    using assms by (auto simp: te_links_def)
  show ?thesis
  proof (cases as rule: rev_cases)
    case Nil
    then show ?thesis
      using d b t e
      by (cases bs) (auto simp: te_links_def unlink_def set_node_def Let_def dll_upd_other)
  next
    case (snoc as' x)
    then show ?thesis
      using d a b h t e
      by (cases bs; cases as') (auto simp: te_links_def unlink_def set_node_def Let_def dll_upd_other)
  qed
qed

text \<open>The insertions of the code are all \<open>link\<close>: their writes go to different nodes.\<close>

lemma set_node_other [simp]: "x \<noteq> e \<Longrightarrow> te_nodes (set_node e f s) x = te_nodes s x"
  by (simp add: set_node_def)

lemma set_node_same [simp]: "te_nodes (set_node e f s) e = f (te_nodes s e)"
  by (simp add: set_node_def)

lemma set_node_ends [simp]:
  "s_active_events_head (set_node e f s) = s_active_events_head s"
  "s_active_events_tail (set_node e f s) = s_active_events_tail s"
  by (simp_all add: set_node_def)

lemma next_prev_swap:
  "te_next_update f (te_prev_update g n) = te_prev_update g (te_next_update f n)"
  by (cases n) simp

lemma insert_after_link:
  assumes "te_links s (as @ c # bs)" and "e \<notin> set (as @ c # bs)"
  shows "insert_after c e s = link (Some c) e (first_of bs None) s"
proof -
  have c: "te_next (te_nodes s c) = first_of bs None" and ne: "c \<noteq> e" "e \<notin> set bs" "c \<notin> set bs"
    using assms by (auto simp: te_links_def)
  show ?thesis
    using c ne
    by (cases bs; intro te_state.equality ext)
      (simp_all add: insert_after_def link_def Let_def set_node_def next_prev_swap)
qed

lemma insert_before_link:
  assumes "te_links s (as @ c # bs)" and "e \<notin> set (as @ c # bs)" and "as \<noteq> []"
  shows "insert_before c e s = link (last_of as None) e (Some c) s"
proof -
  obtain as' x where as: "as = as' @ [x]" using assms(3) by (cases as rule: rev_cases) auto
  have c: "te_prev (te_nodes s c) = Some x" and ne: "c \<noteq> e" "x \<noteq> e" "x \<noteq> c"
    using assms as by (auto simp: te_links_def)
  show ?thesis
    using c ne
    by (intro te_state.equality ext)
      (simp_all add: as insert_before_def link_def Let_def set_node_def next_prev_swap)
qed

lemma insert_front_link:
  assumes "te_links s (b # bs)" and "e \<notin> set (b # bs)"
  shows "insert_front e s = UpdateCPUDowncount (link None e (Some b) s)"
proof -
  have h: "s_active_events_head s = Some b" and ne: "b \<noteq> e"
    using assms by (auto simp: te_links_def)
  have "(set_next e (Some b) (set_prev e None (set_prev b (Some e) s)))\<lparr>s_active_events_head := Some e\<rparr>
      = link None e (Some b) s"
    using ne by (intro te_state.equality ext) (simp_all add: link_def Let_def set_node_def)
  then show ?thesis
    using h by (simp add: insert_front_def)
qed

lemma insert_back_link:
  assumes "te_links s as" and "e \<notin> set as" and "as \<noteq> []"
  shows "insert_back e s = link (last_of as None) e None s"
proof -
  obtain as' x where as: "as = as' @ [x]" using assms(3) by (cases as rule: rev_cases) auto
  have t: "s_active_events_tail s = Some x" and ne: "x \<noteq> e"
    using assms as by (auto simp: te_links_def)
  then show ?thesis
    by (intro te_state.equality ext)
      (simp_all add: as insert_back_def link_def Let_def set_node_def next_prev_swap)
qed

subsection \<open>What the operations leave alone\<close>

text \<open>\<open>te_data\<close> is a node without its links: no list operation changes it.\<close>

definition te_data :: "timing_event \<Rightarrow> timing_event" where
  "te_data n = n\<lparr>te_prev := None, te_next := None\<rparr>"

lemma te_data_simps [simp]:
  "te_data (te_prev_update f n) = te_data n" "te_data (te_next_update f n) = te_data n"
  by (cases n; simp add: te_data_def)+

lemma te_data_eqD:
  assumes "te_data m = te_data n"
  shows "te_downcount m = te_downcount n" "te_interval m = te_interval n"
    "te_active m = te_active n" "te_time_since_last_run m = te_time_since_last_run n"
    "te_period m = te_period n" "te_name m = te_name n"
  using assms by (cases m; cases n; simp add: te_data_def)+

definition same_data :: "'a te_state_scheme \<Rightarrow> 'b te_state_scheme \<Rightarrow> bool" where
  "same_data s t \<longleftrightarrow> (\<forall>x. te_data (te_nodes s x) = te_data (te_nodes t x))"

lemma same_data_refl [simp]: "same_data s s"
  by (simp add: same_data_def)

lemma same_data_trans: "same_data s t \<Longrightarrow> same_data t u \<Longrightarrow> same_data s u"
  by (simp add: same_data_def)

lemma UpdateCPUDowncount_frame [simp]:
  "te_nodes (UpdateCPUDowncount s) = te_nodes s"
  "s_active_events_head (UpdateCPUDowncount s) = s_active_events_head s"
  "s_active_events_tail (UpdateCPUDowncount s) = s_active_events_tail s"
  "s_active_event_count (UpdateCPUDowncount s) = s_active_event_count s"
  "s_current_event (UpdateCPUDowncount s) = s_current_event s"
  "s_global_tick_counter (UpdateCPUDowncount s) = s_global_tick_counter s"
  "pending_ticks (UpdateCPUDowncount s) = pending_ticks s"
  by (auto simp: UpdateCPUDowncount_def split: option.split)

lemma te_links_UpdateCPUDowncount [simp]: "te_links (UpdateCPUDowncount s) xs = te_links s xs"
  by (simp add: te_links_def)

lemma link_frame [simp]:
  "te_data (te_nodes (link c e n s) x) = te_data (te_nodes s x)"
  "s_active_event_count (link c e n s) = s_active_event_count s"
  "s_current_event (link c e n s) = s_current_event s"
  "s_global_tick_counter (link c e n s) = s_global_tick_counter s"
  "pending_ticks (link c e n s) = pending_ticks s"
  by (auto simp: link_def set_node_def Let_def split: option.split)

lemma unlink_frame [simp]:
  "te_data (te_nodes (unlink e s) x) = te_data (te_nodes s x)"
  "s_active_event_count (unlink e s) = s_active_event_count s"
  "s_current_event (unlink e s) = s_current_event s"
  "s_global_tick_counter (unlink e s) = s_global_tick_counter s"
  "pending_ticks (unlink e s) = pending_ticks s"
  by (auto simp: unlink_def set_node_def Let_def split: option.split)

lemma link_outside:
  "x \<noteq> e \<Longrightarrow> c \<noteq> Some x \<Longrightarrow> n \<noteq> Some x \<Longrightarrow> te_nodes (link c e n s) x = te_nodes s x"
  by (auto simp: link_def set_node_def Let_def split: option.split)

lemma last_of_in: "last_of xs None = Some x \<Longrightarrow> x \<in> set xs"
  by (auto simp: last_of_def split: if_splits)

lemma first_of_in: "first_of xs None = Some x \<Longrightarrow> x \<in> set xs"
  by (cases xs) auto

lemma link_outside_list:
  "x \<notin> set (as @ e # bs) \<Longrightarrow>
    te_nodes (link (last_of as None) e (first_of bs None) s) x = te_nodes s x"
  by (rule link_outside) (auto dest: last_of_in first_of_in)

lemma unlink_outside:
  assumes "te_links s (as @ e # bs)" and "x \<notin> set (as @ e # bs)"
  shows "te_nodes (unlink e s) x = te_nodes s x"
proof -
  have "te_prev (te_nodes s e) = last_of as None" "te_next (te_nodes s e) = first_of bs None"
    using assms(1) by (auto simp: te_links_def)
  then show ?thesis
    using assms by (cases as rule: rev_cases; cases bs)
      (auto simp: te_links_def unlink_def set_node_def Let_def split: option.split)
qed

subsection \<open>The representation invariant\<close>

text \<open>
  The queue of \<open>s\<close> is \<open>xs\<close>: linked in both directions, counted, and every object outside it
  has null links (which \<open>AddActiveEvent\<close> relies on: it does not write both links of a new
  head or tail).
\<close>

definition te_rep :: "'a te_state_scheme \<Rightarrow> nat list \<Rightarrow> bool" where
  "te_rep s xs \<longleftrightarrow> te_links s xs \<and> s_active_event_count s = length xs \<and>
     (\<forall>x. x \<notin> set xs \<longrightarrow> te_prev (te_nodes s x) = None \<and> te_next (te_nodes s x) = None)"

abbreviation dc :: "'a te_state_scheme \<Rightarrow> nat \<Rightarrow> tick_count" where
  "dc s x \<equiv> te_downcount (te_nodes s x)"

lemma te_rep_links: "te_rep s xs \<Longrightarrow> te_links s xs"
  by (simp add: te_rep_def)

lemma te_rep_unique: "te_rep s xs \<Longrightarrow> te_rep s ys \<Longrightarrow> xs = ys"
  by (auto simp: te_rep_def intro: te_links_unique)

lemma te_rep_UpdateCPUDowncount [simp]: "te_rep (UpdateCPUDowncount s) xs = te_rep s xs"
  by (simp add: te_rep_def)

lemma te_rep_set_node:
  assumes "te_rep s xs" and "\<And>n. te_prev (f n) = te_prev n" and "\<And>n. te_next (f n) = te_next n"
  shows "te_rep (set_node e f s) xs"
  using assms by (auto simp: te_rep_def te_links_def set_node_def intro: dll_cong [rotated])

lemma te_rep_head: "te_rep s (x # xs) \<Longrightarrow> s_active_events_head s = Some x"
  by (simp add: te_rep_def te_links_def)

lemma te_rep_head_None: "te_rep s xs \<Longrightarrow> s_active_events_head s = None \<longleftrightarrow> xs = []"
  by (auto simp: te_rep_def te_links_def)

lemma te_rep_distinct: "te_rep s xs \<Longrightarrow> distinct xs"
  by (simp add: te_rep_def te_links_def)

subsection \<open>Walking the list\<close>

lemma walk_back_spec:
  "dll N None as q \<Longrightarrow> length as \<le> n \<Longrightarrow>
    walk_back n N d (last_of as None) =
      last_of (rev (dropWhile (\<lambda>x. te_downcount (N x) > d) (rev as))) None"
proof (induction as arbitrary: n q rule: rev_induct)
  case Nil
  then show ?case by (cases n) auto
next
  case (snoc x as)
  then obtain m where m: "n = Suc m" "length as \<le> m" by (cases n) auto
  have "te_prev (N x) = last_of as None" "dll N None as (Some x)"
    using snoc.prems by auto
  then show ?case
    using snoc.IH [of "Some x" m] m by simp
qed

lemma walk_forward_spec:
  "dll N p bs None \<Longrightarrow> length bs \<le> n \<Longrightarrow>
    walk_forward n N d (first_of bs None) =
      first_of (dropWhile (\<lambda>x. d > te_downcount (N x)) bs) None"
proof (induction bs arbitrary: n p)
  case Nil
  then show ?case by (cases n) auto
next
  case (Cons x bs)
  then obtain m where "n = Suc m" "length bs \<le> m" by (cases n) auto
  then show ?case using Cons by auto
qed

lemma walk_add_spec:
  "dll N p xs None \<Longrightarrow> length xs \<le> n \<Longrightarrow>
    walk_add n N d p (first_of xs None) =
      (last_of (takeWhile (\<lambda>x. d > te_downcount (N x)) xs) p,
       first_of (dropWhile (\<lambda>x. d > te_downcount (N x)) xs) None)"
proof (induction xs arbitrary: n p)
  case Nil
  then show ?case by (cases n) auto
next
  case (Cons x bs)
  then obtain m where "n = Suc m" "length bs \<le> m" by (cases n) auto
  then show ?case using Cons by auto
qed

subsection \<open>Sorting one event\<close>

definition sort_event_list :: "(nat \<Rightarrow> tick_count) \<Rightarrow> nat list \<Rightarrow> nat \<Rightarrow> nat list \<Rightarrow> nat list" where
  "sort_event_list k as e bs =
     (if as \<noteq> [] \<and> k (last as) > k e then
        rev (dropWhile (\<lambda>x. k x > k e) (rev as)) @ e # rev (takeWhile (\<lambda>x. k x > k e) (rev as)) @ bs
      else if bs \<noteq> [] \<and> k e > k (hd bs) then
        as @ takeWhile (\<lambda>x. k e > k x) bs @ e # dropWhile (\<lambda>x. k e > k x) bs
      else as @ e # bs)"

lemma te_rep_link:
  assumes "te_links t (as @ bs)" and "e \<notin> set (as @ bs)"
    and "s_active_event_count t = Suc (length (as @ bs))"
    and "\<And>x. x \<notin> set (as @ e # bs) \<Longrightarrow>
      te_prev (te_nodes t x) = None \<and> te_next (te_nodes t x) = None"
  shows "te_rep (link (last_of as None) e (first_of bs None) t) (as @ e # bs)"
  using assms te_links_link [of t as bs e] link_outside_list [of _ as e bs t]
  by (simp add: te_rep_def)

lemma te_rep_relink:
  assumes "te_rep s (as @ e # bs)" and "cs @ ds = as @ bs"
  shows "te_rep (link (last_of cs None) e (first_of ds None) (unlink e s)) (cs @ e # ds)"
proof (rule te_rep_link)
  have l: "te_links s (as @ e # bs)" using assms(1) by (rule te_rep_links)
  show "te_links (unlink e s) (cs @ ds)"
    using te_links_unlink [OF l] assms(2) by simp
  show "e \<notin> set (cs @ ds)"
    using l assms(2) by (simp add: te_links_def)
  show "s_active_event_count (unlink e s) = Suc (length (cs @ ds))"
    using assms by (simp add: te_rep_def)
  fix x assume "x \<notin> set (cs @ e # ds)"
  then have x: "x \<notin> set (as @ e # bs)"
    using arg_cong [OF assms(2), of set] by auto
  then show "te_prev (te_nodes (unlink e s) x) = None \<and> te_next (te_nodes (unlink e s) x) = None"
    using assms(1) unlink_outside [OF l x] by (simp add: te_rep_def)
qed

lemma SortEvent_refines:
  assumes rep: "te_rep s (as @ e # bs)"
  shows "te_rep (SortEvent e s) (sort_event_list (dc s) as e bs)" and "same_data (SortEvent e s) s"
proof -
  let ?N = "te_nodes s" and ?n = "s_active_event_count s"
  have l: "te_links s (as @ e # bs)" and n: "?n = Suc (length as + length bs)"
    using rep by (auto simp: te_rep_def)
  have a: "dll ?N None as (Some e)" and b: "dll ?N (Some e) bs None"
    and p: "te_prev (?N e) = last_of as None" and x: "te_next (?N e) = first_of bs None"
    and e: "e \<notin> set as" "e \<notin> set bs"
    using l by (auto simp: te_links_def)
  have l': "te_links (unlink e s) (as @ bs)"
    using l by (rule te_links_unlink)
  let ?early = "rev (dropWhile (\<lambda>x. dc s x > dc s e) (rev as))"
  let ?late = "rev (takeWhile (\<lambda>x. dc s x > dc s e) (rev as))"
  let ?fore = "takeWhile (\<lambda>x. dc s e > dc s x) bs" and ?aft = "dropWhile (\<lambda>x. dc s e > dc s x) bs"
  have el: "?early @ ?late = as"
    by (metis rev_append rev_rev_ident takeWhile_dropWhile_id)
  have fa: "?fore @ ?aft = bs" by simp
  have "te_rep (SortEvent e s) (sort_event_list (dc s) as e bs) \<and> same_data (SortEvent e s) s"
  proof (cases "as \<noteq> [] \<and> dc s (last as) > dc s e")
    case True
    then have late: "?late \<noteq> []" by (cases as rule: rev_cases) auto
    have w: "walk_back ?n ?N (dc s e) (te_prev (?N e)) = last_of ?early None"
      unfolding p by (rule walk_back_spec [OF a]) (simp add: n)
    let ?t = "link (last_of ?early None) e (first_of (?late @ bs) None) (unlink e s)"
    have rep': "te_rep ?t (?early @ e # ?late @ bs)"
      by (rule te_rep_relink [OF rep]) (metis append_assoc el)
    have "SortEvent e s = (if ?early = [] then UpdateCPUDowncount ?t else ?t)"
    proof (cases ?early rule: rev_cases)
      case Nil
      obtain c cs where c: "?late @ bs = c # cs" using late by (cases "?late @ bs") auto
      have "insert_front e (unlink e s) = UpdateCPUDowncount (link None e (Some c) (unlink e s))"
      proof (rule insert_front_link)
        have "as @ bs = c # cs" using c el Nil by (metis append_Nil)
        then show "te_links (unlink e s) (c # cs)" and "e \<notin> set (c # cs)"
          using l' e by (metis, metis UnE set_append)
      qed
      then show ?thesis
        using True w Nil c p by (simp add: SortEvent_def Let_def last_of_def)
    next
      case (snoc cs c)
      have "as @ bs = cs @ c # ?late @ bs"
        using el snoc by (metis append_Cons append_Nil append_assoc)
      then have lc: "te_links (unlink e s) (cs @ c # ?late @ bs)" and ec: "e \<notin> set (cs @ c # ?late @ bs)"
        using l' e by (metis, metis UnE set_append)
      show ?thesis
        using True w snoc p insert_after_link [OF lc ec] by (simp add: SortEvent_def Let_def last_of_def)
    qed
    then show ?thesis
      using rep' True by (simp add: sort_event_list_def same_data_def)
  next
    case False
    then have np: "\<not> (case te_prev (?N e) of Some p \<Rightarrow> te_downcount (?N p) > dc s e | None \<Rightarrow> False)"
      using p by (auto simp: last_of_def split: if_splits)
    show ?thesis
    proof (cases "bs \<noteq> [] \<and> dc s e > dc s (hd bs)")
      case True
      then have fore: "?fore \<noteq> []" by (cases bs) auto
      have w: "walk_forward ?n ?N (dc s e) (te_next (?N e)) = first_of ?aft None"
        unfolding x by (rule walk_forward_spec [OF b]) (simp add: n)
      let ?t = "link (last_of (as @ ?fore) None) e (first_of ?aft None) (unlink e s)"
      have rep': "te_rep ?t ((as @ ?fore) @ e # ?aft)"
        by (rule te_rep_relink [OF rep]) simp
      have ne: "as @ ?fore \<noteq> []" using fore by simp
      have "case te_next (?N e) of Some n \<Rightarrow> dc s e > te_downcount (?N n) | None \<Rightarrow> False"
        using x True by (cases bs) auto
      then have sf: "SortEvent e s = (case first_of ?aft None of
          Some c \<Rightarrow> insert_before c e (unlink e s) | None \<Rightarrow> insert_back e (unlink e s))"
        unfolding SortEvent_def Let_def using np w by simp
      have "SortEvent e s = ?t"
      proof (cases ?aft)
        case Nil
        have "insert_back e (unlink e s) = link (last_of (as @ ?fore) None) e None (unlink e s)"
          by (rule insert_back_link) (use l' e fa Nil ne in \<open>simp_all only: append_Nil2, auto\<close>)
        then show ?thesis
          unfolding sf Nil by simp
      next
        case (Cons c cs)
        have "insert_before c e (unlink e s) = link (last_of (as @ ?fore) None) e (Some c) (unlink e s)"
        proof (rule insert_before_link)
          have "as @ bs = (as @ ?fore) @ c # cs" using fa Cons by (metis append_assoc)
          then show "te_links (unlink e s) ((as @ ?fore) @ c # cs)" and "e \<notin> set ((as @ ?fore) @ c # cs)"
            using l' e by (metis, metis UnE set_append)
        qed (rule ne)
        then show ?thesis
          unfolding sf Cons by simp
      qed
      then show ?thesis
        using rep' False True by (auto simp: sort_event_list_def same_data_def)
    next
      case nf: False
      then have "\<not> (case te_next (?N e) of Some n \<Rightarrow> dc s e > te_downcount (?N n) | None \<Rightarrow> False)"
        using x by (cases bs) auto
      with np have "SortEvent e s = s" by (simp add: SortEvent_def Let_def)
      with rep False nf show ?thesis by (auto simp: sort_event_list_def)
    qed
  qed
  then show "te_rep (SortEvent e s) (sort_event_list (dc s) as e bs)" and "same_data (SortEvent e s) s"
    by simp_all
qed

text \<open>What the list operation does: it reorders nothing but \<open>e\<close>, and puts \<open>e\<close> in its place.\<close>

lemma mset_sort_event_list: "mset (sort_event_list k as e bs) = mset (as @ e # bs)"
proof -
  have "mset (rev (dropWhile P (rev as))) + mset (rev (takeWhile P (rev as))) = mset as" for P
    by (metis mset_append mset_rev takeWhile_dropWhile_id add.commute)
  moreover have "mset (takeWhile P bs) + mset (dropWhile P bs) = mset bs" for P
    by (metis mset_append takeWhile_dropWhile_id)
  ultimately show ?thesis
    by (auto simp: sort_event_list_def ac_simps simp del: mset_rev)
qed

lemma set_sort_event_list: "set (sort_event_list k as e bs) = insert e (set as \<union> set bs)"
  using mset_sort_event_list [of k as e bs] by (metis set_mset_mset set_append list.simps(15) Un_insert_right)

lemma filter_sort_event_list:
  "e \<notin> set as \<Longrightarrow> e \<notin> set bs \<Longrightarrow> filter (\<lambda>x. x \<noteq> e) (sort_event_list k as e bs) = as @ bs"
proof -
  assume e: "e \<notin> set as" "e \<notin> set bs"
  have f: "filter (\<lambda>x. x \<noteq> e) xs = xs" if "e \<notin> set xs" for xs
    using that by (auto simp: filter_id_conv)
  have el: "rev (dropWhile P (rev as)) @ rev (takeWhile P (rev as)) = as" for P
    by (metis rev_append rev_rev_ident takeWhile_dropWhile_id)
  have "e \<notin> set (dropWhile P (rev as))" "e \<notin> set (takeWhile P (rev as))"
    "e \<notin> set (dropWhile P bs)" "e \<notin> set (takeWhile P bs)" for P
    using e by (auto dest: set_dropWhileD set_takeWhileD)
  then show ?thesis
    using e el by (simp add: sort_event_list_def f rev_filter [symmetric])
qed

lemma sorted_dropWhile_ge:
  fixes k :: "'a \<Rightarrow> 'b::linorder"
  shows "sorted (map k xs) \<Longrightarrow> x \<in> set (dropWhile (\<lambda>x. k x < b) xs) \<Longrightarrow> b \<le> k x"
  by (induction xs) (auto split: if_splits)

lemma sorted_rev_dropWhile_le:
  fixes k :: "'a \<Rightarrow> 'b::linorder"
  shows "sorted (map k xs) \<Longrightarrow> x \<in> set (dropWhile (\<lambda>x. b < k x) (rev xs)) \<Longrightarrow> k x \<le> b"
proof (induction xs rule: rev_induct)
  case (snoc y ys)
  then show ?case by (auto simp: sorted_append split: if_splits)
qed simp

lemma sorted_map_append:
  "sorted (map k (xs @ ys)) \<longleftrightarrow>
    sorted (map k xs) \<and> sorted (map k ys) \<and> (\<forall>x \<in> set xs. \<forall>y \<in> set ys. k x \<le> (k y :: 'b::linorder))"
  by (auto simp: sorted_append)

lemma sorted_sort_event_list:
  assumes sorted: "sorted (map k (as @ bs))"
  shows "sorted (map k (sort_event_list k as e bs))"
proof -
  let ?P = "\<lambda>x. k x > k e" and ?Q = "\<lambda>x. k x < k e"
  have el: "rev (dropWhile ?P (rev as)) @ rev (takeWhile ?P (rev as)) = as"
    by (metis rev_append rev_rev_ident takeWhile_dropWhile_id)
  have a: "sorted (map k as)" and b: "sorted (map k bs)"
    and ab: "\<And>x y. x \<in> set as \<Longrightarrow> y \<in> set bs \<Longrightarrow> k x \<le> k y"
    using sorted unfolding sorted_map_append by auto
  show ?thesis
  proof (cases "as \<noteq> [] \<and> k (last as) > k e")
    case True
    let ?E = "rev (dropWhile ?P (rev as))" and ?L = "rev (takeWhile ?P (rev as))"
    have s: "sorted (map k (?E @ ?L @ bs))" using sorted by (metis append_assoc el)
    have E: "k x \<le> k e" if "x \<in> set ?E" for x
      using sorted_rev_dropWhile_le [OF a] that by auto
    have L: "k e \<le> k x" if "x \<in> set ?L" for x
      using that by (auto dest: set_takeWhileD)
    have B: "k e \<le> k x" if "x \<in> set bs" for x
      using True ab [of "last as" x] that by auto
    have "sorted (map k (?E @ e # ?L @ bs))"
      using s E L B unfolding sorted_map_append list.map sorted_simps(2) by auto
    then show ?thesis using True by (simp add: sort_event_list_def)
  next
    case False
    have A: "k x \<le> k e" if "x \<in> set as" for x
      using False a that by (cases as rule: rev_cases) (auto simp: sorted_append)
    show ?thesis
    proof (cases "bs \<noteq> [] \<and> k e > k (hd bs)")
      case True
      let ?F = "takeWhile ?Q bs" and ?D = "dropWhile ?Q bs"
      have s: "sorted (map k (as @ ?F @ ?D))" using sorted by simp
      have F: "k x \<le> k e" if "x \<in> set ?F" for x using that by (auto dest: set_takeWhileD)
      have D: "k e \<le> k x" if "x \<in> set ?D" for x using sorted_dropWhile_ge [OF b that] .
      have "sorted (map k (as @ ?F @ e # ?D))"
        using s A F D unfolding sorted_map_append list.map sorted_simps(2)
        by (auto dest: set_takeWhileD set_dropWhileD)
      then show ?thesis using False True by (auto simp: sort_event_list_def)
    next
      case nf: False
      have B: "k e \<le> k x" if "x \<in> set bs" for x
        using nf b that by (cases bs) auto
      have "sorted (map k (as @ e # bs))"
        using sorted A B unfolding sorted_map_append list.map sorted_simps(2) by auto
      then show ?thesis using False nf by (auto simp: sort_event_list_def)
    qed
  qed
qed

subsection \<open>Adding and removing events\<close>

lemma insort_key_takeWhile:
  "insort_key k e xs = takeWhile (\<lambda>x. k e > k x) xs @ e # dropWhile (\<lambda>x. k e > k x) xs"
  by (induction xs) auto

lemma AddActiveEvent_refines:
  assumes rep: "te_rep s xs" and e: "e \<notin> set xs"
  shows "te_rep (AddActiveEvent e s) (insort_key (dc s) e xs)" and "same_data (AddActiveEvent e s) s"
proof -
  let ?s = "s\<lparr>s_active_event_count := s_active_event_count s + 1\<rparr>"
  let ?A = "takeWhile (\<lambda>x. dc s e > dc s x) xs" and ?B = "dropWhile (\<lambda>x. dc s e > dc s x) xs"
  let ?t = "link (last_of ?A None) e (first_of ?B None) ?s"
  have l: "te_links ?s (?A @ ?B)" and n: "s_active_event_count ?s = Suc (length (?A @ ?B))"
    using rep by (auto simp: te_rep_def te_links_def)
  have nulls: "te_prev (te_nodes s e) = None" "te_next (te_nodes s e) = None"
    using rep e by (auto simp: te_rep_def)
  have eAB: "e \<notin> set ?A" "e \<notin> set ?B"
    using e by (auto dest: set_takeWhileD set_dropWhileD)
  have rep': "te_rep ?t (?A @ e # ?B)"
  proof (rule te_rep_link [OF l _ n])
    show "e \<notin> set (?A @ ?B)" using e by simp
    fix x assume "x \<notin> set (?A @ e # ?B)"
    then have "x \<notin> set (?A @ ?B)" unfolding set_append list.set by blast
    then have "x \<notin> set xs" by simp
    then show "te_prev (te_nodes ?s x) = None \<and> te_next (te_nodes ?s x) = None"
      using rep by (simp add: te_rep_def)
  qed
  have w: "walk_add (s_active_event_count ?s) (te_nodes ?s) (te_downcount (te_nodes ?s e)) None
      (s_active_events_head ?s) = (last_of ?A None, first_of ?B None)"
    using rep walk_add_spec [of "te_nodes s" None xs "s_active_event_count ?s" "dc s e"]
    by (simp add: te_rep_def te_links_def)
  have "AddActiveEvent e s = (if ?A = [] then UpdateCPUDowncount ?t else ?t)"
  proof (cases ?B)
    case B: Nil
    show ?thesis
    proof (cases ?A rule: rev_cases)
      case A: Nil
      have ht: "s_active_events_head ?s = None" "s_active_events_tail ?s = None"
        using l unfolding A B by (simp_all add: te_links_def)
      have "set_prev e None ?s\<lparr>s_active_events_tail := Some e, s_active_events_head := Some e\<rparr>
          = link None e None ?s"
        using nulls by (intro te_state.equality ext) (simp_all add: link_def Let_def set_node_def)
      with ht show ?thesis
        using w unfolding A B by (simp add: AddActiveEvent_def Let_def)
    next
      case A: (snoc as a)
      have t: "s_active_events_tail ?s = Some a"
        using l unfolding A B by (simp add: te_links_def)
      have ae: "a \<noteq> e" using eAB unfolding A by auto
      have "set_next a (Some e) (set_prev e (Some a) ?s)\<lparr>s_active_events_tail := Some e\<rparr>
          = link (Some a) e None ?s"
        using nulls ae
        by (intro te_state.equality ext) (simp_all add: link_def Let_def set_node_def next_prev_swap)
      with t show ?thesis
        using w unfolding A B by (simp add: AddActiveEvent_def Let_def)
    qed
  next
    case B: (Cons b bs)
    have be: "b \<noteq> e" using eAB unfolding B by auto
    show ?thesis
    proof (cases ?A rule: rev_cases)
      case A: Nil
      have h: "s_active_events_head ?s = Some b"
        using l unfolding A B by (simp add: te_links_def)
      have "set_prev b (Some e) (set_next e (Some b) ?s)\<lparr>s_active_events_head := Some e\<rparr>
          = link None e (Some b) ?s"
        using nulls be
        by (intro te_state.equality ext) (simp_all add: link_def Let_def set_node_def next_prev_swap)
      with h show ?thesis
        using w unfolding A B by (simp add: AddActiveEvent_def Let_def)
    next
      case A: (snoc as a)
      have "a \<noteq> b" "a \<noteq> e"
        using l eAB unfolding A B by (auto simp: te_links_def)
      then have "set_prev b (Some e) (set_next a (Some e) (set_next e (Some b) (set_prev e (Some a) ?s)))
          = link (Some a) e (Some b) ?s"
        using be
        by (intro te_state.equality ext) (simp_all add: link_def Let_def set_node_def next_prev_swap)
      then show ?thesis
        using w unfolding A B by (simp add: AddActiveEvent_def Let_def)
    qed
  qed
  then have "AddActiveEvent e s = ?t \<or> AddActiveEvent e s = UpdateCPUDowncount ?t"
    by presburger
  then show "te_rep (AddActiveEvent e s) (insort_key (dc s) e xs)" and "same_data (AddActiveEvent e s) s"
    using rep' by (elim disjE; simp add: insort_key_takeWhile same_data_def)+
qed

lemma RemoveActiveEvent_unlink:
  assumes "te_links s (as @ e # bs)"
  shows "\<exists>u. (u = unlink e s \<or> u = UpdateCPUDowncount (unlink e s)) \<and>
    RemoveActiveEvent e s =
      (let s3 = set_next e None (set_prev e None u)
       in s3\<lparr>s_active_event_count := s_active_event_count s3 - 1\<rparr>)"
proof -
  have e: "te_prev (te_nodes s e) = last_of as None" "te_next (te_nodes s e) = first_of bs None"
    and d: "e \<notin> set as" "e \<notin> set bs" "set as \<inter> set bs = {}"
    using assms by (auto simp: te_links_def)
  show ?thesis
  proof (cases as rule: rev_cases)
    case Nil
    have "(case te_next (te_nodes s e) of
          Some n \<Rightarrow> set_prev n (te_prev (te_nodes s e)) s
        | None \<Rightarrow> s\<lparr>s_active_events_tail := te_prev (te_nodes s e)\<rparr>)
        \<lparr>s_active_events_head := te_next (te_nodes s e)\<rparr> = unlink e s"
      using e Nil d by (cases bs) (simp_all add: unlink_def Let_def set_node_def)
    then show ?thesis
      using e Nil d
      by (cases bs) (auto simp: RemoveActiveEvent_def Let_def set_node_def)
  next
    case (snoc as' a)
    have "set_next a (te_next (te_nodes s e)) (case te_next (te_nodes s e) of
          Some n \<Rightarrow> set_prev n (te_prev (te_nodes s e)) s
        | None \<Rightarrow> s\<lparr>s_active_events_tail := te_prev (te_nodes s e)\<rparr>) = unlink e s"
      using e snoc d
      by (cases bs; intro te_state.equality ext)
        (auto simp: unlink_def Let_def set_node_def next_prev_swap)
    then show ?thesis
      using e snoc d
      by (cases bs) (auto simp: RemoveActiveEvent_def Let_def set_node_def)
  qed
qed

lemma RemoveActiveEvent_refines:
  assumes rep: "te_rep s xs" and e: "e \<in> set xs"
  shows "te_rep (RemoveActiveEvent e s) (remove1 e xs)" and "same_data (RemoveActiveEvent e s) s"
proof -
  obtain as bs where xs: "xs = as @ e # bs" using e by (meson split_list)
  have l: "te_links s (as @ e # bs)" using rep xs by (simp add: te_rep_def)
  have ea: "e \<notin> set as" "e \<notin> set bs" using l by (auto simp: te_links_def)
  obtain u where u: "u = unlink e s \<or> u = UpdateCPUDowncount (unlink e s)"
    and r: "RemoveActiveEvent e s = (let s3 = set_next e None (set_prev e None u)
       in s3\<lparr>s_active_event_count := s_active_event_count s3 - 1\<rparr>)"
    using RemoveActiveEvent_unlink [OF l] by blast
  have lu: "te_links u (as @ bs)" and cu: "s_active_event_count u = Suc (length (as @ bs))"
    using u te_links_unlink [OF l] rep xs by (auto simp: te_rep_def)
  have nu: "te_prev (te_nodes u x) = None \<and> te_next (te_nodes u x) = None"
    if "x \<notin> set (as @ e # bs)" for x
    using u that unlink_outside [OF l that] rep xs by (auto simp: te_rep_def)
  have du: "te_data (te_nodes u x) = te_data (te_nodes s x)" for x
    using u by auto
  have "remove1 e xs = as @ bs"
    using ea by (simp add: xs remove1_append)
  moreover have "te_rep (RemoveActiveEvent e s) (as @ bs)"
    using lu cu nu ea
    by (auto simp: r te_rep_def te_links_def Let_def set_node_def intro: dll_cong [rotated])
  ultimately show "te_rep (RemoveActiveEvent e s) (remove1 e xs)" by simp
  show "same_data (RemoveActiveEvent e s) s"
    using du by (auto simp: r same_data_def Let_def set_node_def)
qed

end
