(* ===== verification/EventRun.thy ===== *)
theory EventRun
  imports EventQueue
begin

text \<open>
  What the event queue promises its clients. The locale \<open>event_store\<close> states the contract
  of adding and removing events as a priority queue over lists; it is interpreted on
  \<open>AddActiveEvent\<close> and \<open>RemoveActiveEvent\<close>. The locale \<open>event_callbacks\<close> states what
  \<open>RunEvents\<close> needs from the callbacks of the components; inside it the scheduler is proved
  to return, to account for every pending tick and to leave no event due.
\<close>

subsection \<open>The contract of the store\<close>

locale event_store =
  fixes rep :: "'s \<Rightarrow> 'e list \<Rightarrow> bool"
    and key :: "'s \<Rightarrow> 'e \<Rightarrow> 'k::linorder"
    and ins :: "'e \<Rightarrow> 's \<Rightarrow> 's"
    and del :: "'e \<Rightarrow> 's \<Rightarrow> 's"
  assumes ins_rep: "rep s xs \<Longrightarrow> e \<notin> set xs \<Longrightarrow> rep (ins e s) (insort_key (key s) e xs)"
    and ins_key: "rep s xs \<Longrightarrow> e \<notin> set xs \<Longrightarrow> key (ins e s) = key s"
    and del_rep: "rep s xs \<Longrightarrow> e \<in> set xs \<Longrightarrow> rep (del e s) (remove1 e xs)"
    and del_key: "rep s xs \<Longrightarrow> e \<in> set xs \<Longrightarrow> key (del e s) = key s"
begin

lemma ins_sorted:
  "rep s xs \<Longrightarrow> e \<notin> set xs \<Longrightarrow> sorted (map (key s) xs) \<Longrightarrow>
    sorted (map (key (ins e s)) (insort_key (key s) e xs))"
  by (simp add: ins_key sorted_insort_key)

lemma del_sorted:
  "rep s xs \<Longrightarrow> e \<in> set xs \<Longrightarrow> sorted (map (key s) xs) \<Longrightarrow>
    sorted (map (key (del e s)) (remove1 e xs))"
  by (simp add: del_key sorted_map_remove1)

lemma ins_all:
  assumes "rep s xs" and "distinct es" and "set es \<inter> set xs = {}"
  shows "rep (fold ins es s) (fold (insort_key (key s)) es xs) \<and> key (fold ins es s) = key s"
  using assms
proof (induction es arbitrary: s xs)
  case (Cons e es)
  have e: "e \<notin> set xs" using Cons.prems by simp
  have "rep (ins e s) (insort_key (key s) e xs)" and k: "key (ins e s) = key s"
    using ins_rep [OF Cons.prems(1) e] ins_key [OF Cons.prems(1) e] by auto
  then show ?case
    using Cons.IH [of "ins e s" "insort_key (key s) e xs"] Cons.prems
    by (auto simp: set_insort_key)
qed simp

lemma sorted_fold_insort:
  "sorted (map k xs) \<Longrightarrow> sorted (map k (fold (insort_key k) es xs))"
  by (induction es arbitrary: xs) (simp_all add: sorted_insort_key)

lemma mset_fold_insort: "mset (fold (insort_key k) es xs) = mset es + mset xs"
  by (induction es arbitrary: xs) simp_all

text \<open>Filling an empty queue sorts.\<close>

lemma ins_all_sorted:
  assumes "rep s []" and "distinct es"
  obtains ys where "rep (fold ins es s) ys" and "sorted (map (key s) ys)" and "mset ys = mset es"
    and "key (fold ins es s) = key s"
  using ins_all [OF assms(1,2)] sorted_fold_insort [of "key s" "[]" es] mset_fold_insort [of "key s" es "[]"]
  by (intro that [of "fold (insort_key (key s)) es []"]) simp_all

end

lemma same_data_dc: "same_data s t \<Longrightarrow> dc s = dc t"
  by (rule ext) (auto simp: same_data_def dest: te_data_eqD)

interpretation ev: event_store te_rep dc AddActiveEvent RemoveActiveEvent
  by unfold_locales
    (auto intro: AddActiveEvent_refines RemoveActiveEvent_refines same_data_dc)

subsection \<open>Sorting the whole list\<close>

lemma collect_events_spec:
  assumes "dll (te_nodes s) p xs None" and "distinct xs" and "length xs \<le> n"
  shows "fst (collect_events n (first_of xs None) s) = xs \<and>
    (\<forall>x. te_nodes (snd (collect_events n (first_of xs None) s)) x =
      (if x \<in> set xs then (te_nodes s x)\<lparr>te_prev := None, te_next := None\<rparr> else te_nodes s x))"
  using assms
proof (induction xs arbitrary: n s p)
  case Nil
  then show ?case by (cases n) auto
next
  case (Cons a xs)
  then obtain m where n: "n = Suc m" by (cases n) auto
  let ?s = "set_next a None (set_prev a None s)"
  have "dll (te_nodes ?s) (Some a) xs None"
    using Cons.prems by (auto simp: set_node_def dll_upd_other)
  from Cons.IH [OF this, of m] Cons.prems n
  have ih: "fst (collect_events m (first_of xs None) ?s) = xs"
    "\<And>x. te_nodes (snd (collect_events m (first_of xs None) ?s)) x =
      (if x \<in> set xs then (te_nodes ?s x)\<lparr>te_prev := None, te_next := None\<rparr> else te_nodes ?s x)"
    by auto
  have nx: "te_next (te_nodes s a) = first_of xs None" "a \<notin> set xs"
    using Cons.prems by auto
  show ?case
    using ih nx by (auto simp: n Let_def case_prod_beta set_node_def)
qed

lemma SortEvents_spec:
  assumes rep: "te_rep s xs"
  obtains ys where "te_rep (SortEvents s) ys" and "sorted (map (dc s) ys)" and "mset ys = mset xs"
    and "dc (SortEvents s) = dc s"
proof -
  let ?n = "s_active_event_count s"
  let ?c = "collect_events ?n (s_active_events_head s) s"
  let ?z = "(snd ?c)\<lparr>s_active_events_head := None, s_active_events_tail := None, s_active_event_count := 0\<rparr>"
  have h: "s_active_events_head s = first_of xs None" and d: "dll (te_nodes s) None xs None" "distinct xs"
    and n: "length xs \<le> ?n"
    using rep by (auto simp: te_rep_def te_links_def)
  have f: "fst ?c = xs" and nd: "te_nodes (snd ?c) x =
      (if x \<in> set xs then (te_nodes s x)\<lparr>te_prev := None, te_next := None\<rparr> else te_nodes s x)" for x
    using collect_events_spec [OF d n] h by auto
  have z: "te_rep ?z []"
    using rep nd by (auto simp: te_rep_def te_links_def)
  have k: "dc ?z = dc s"
    using nd by auto
  have e: "SortEvents s = fold AddActiveEvent xs ?z"
    using f by (simp add: SortEvents_def Let_def case_prod_beta)
  obtain ys where "te_rep (fold AddActiveEvent xs ?z) ys" "sorted (map (dc ?z) ys)" "mset ys = mset xs"
    "dc (fold AddActiveEvent xs ?z) = dc ?z"
    by (rule ev.ins_all_sorted [OF z d(2)])
  then show thesis
    using that e k by simp
qed

subsection \<open>The queue invariant\<close>

definition te_inv :: "'a te_state_scheme \<Rightarrow> nat list \<Rightarrow> bool" where
  "te_inv s xs \<longleftrightarrow> te_rep s xs \<and> (\<forall>x. te_active (te_nodes s x) \<longleftrightarrow> x \<in> set xs)"

abbreviation te_sorted :: "'a te_state_scheme \<Rightarrow> nat list \<Rightarrow> bool" where
  "te_sorted s xs \<equiv> sorted (map (dc s) xs)"

text \<open>While an event's callback runs, the event itself may be out of place.\<close>

definition te_sorted_but :: "nat \<Rightarrow> 'a te_state_scheme \<Rightarrow> nat list \<Rightarrow> bool" where
  "te_sorted_but e s xs \<longleftrightarrow> te_sorted s (filter (\<lambda>x. x \<noteq> e) xs)"

lemma te_sorted_but_weaken: "te_sorted s xs \<Longrightarrow> te_sorted_but e s xs"
  by (simp add: te_sorted_but_def sorted_filter)

lemma te_sorted_but_notin: "te_sorted_but e s xs \<Longrightarrow> e \<notin> set xs \<Longrightarrow> te_sorted s xs"
proof -
  assume a: "te_sorted_but e s xs" and e: "e \<notin> set xs"
  have "filter (\<lambda>x. x \<noteq> e) xs = xs" using e by (auto simp: filter_id_conv)
  then show ?thesis using a by (simp add: te_sorted_but_def)
qed

lemma te_sorted_but_cong:
  "(\<And>x. x \<in> set xs \<Longrightarrow> x \<noteq> e \<Longrightarrow> dc s x = dc t x) \<Longrightarrow> te_sorted_but e s xs = te_sorted_but e t xs"
  unfolding te_sorted_but_def by (rule arg_cong [where f = sorted]) (auto intro: map_cong)

lemma te_inv_unique: "te_inv s xs \<Longrightarrow> te_inv s ys \<Longrightarrow> xs = ys"
  by (auto simp: te_inv_def intro: te_rep_unique)

lemma te_inv_active: "te_inv s xs \<Longrightarrow> te_active (te_nodes s x) \<longleftrightarrow> x \<in> set xs"
  by (simp add: te_inv_def)

lemma te_inv_distinct: "te_inv s xs \<Longrightarrow> distinct xs"
  by (auto simp: te_inv_def intro: te_rep_distinct)

lemma te_inv_set_node:
  assumes "te_inv s xs" and "\<And>n. te_prev (f n) = te_prev n" and "\<And>n. te_next (f n) = te_next n"
    and "\<And>n. te_active (f n) = te_active n"
  shows "te_inv (set_node e f s) xs"
  using assms te_rep_set_node [of s xs f e] by (auto simp: te_inv_def set_node_def)

lemma te_inv_UpdateCPUDowncount [simp]: "te_inv (UpdateCPUDowncount s) xs = te_inv s xs"
  by (simp add: te_inv_def)

text \<open>The fields of a node other than its links, through the operations on links.\<close>

lemma same_data_node:
  "same_data s t \<Longrightarrow> te_downcount (te_nodes s x) = te_downcount (te_nodes t x) \<and>
    te_time_since_last_run (te_nodes s x) = te_time_since_last_run (te_nodes t x) \<and>
    te_interval (te_nodes s x) = te_interval (te_nodes t x) \<and>
    te_active (te_nodes s x) = te_active (te_nodes t x)"
  by (auto simp: same_data_def dest: te_data_eqD)

lemma te_inv_SortEvent:
  assumes inv: "te_inv s xs" and e: "e \<in> set xs"
  obtains ys where "te_inv (SortEvent e s) ys"
    and "te_sorted_but e s xs \<longrightarrow> te_sorted (SortEvent e s) ys"
    and "set ys = set xs" and "same_data (SortEvent e s) s"
proof -
  obtain as bs where xs: "xs = as @ e # bs" using e by (meson split_list)
  have d: "distinct (as @ e # bs)" using te_inv_distinct [OF inv] xs by simp
  have rep: "te_rep s (as @ e # bs)" using inv xs by (simp add: te_inv_def)
  note r = SortEvent_refines [OF rep]
  have "filter (\<lambda>x. x \<noteq> e) xs = as @ bs"
    using d by (auto simp: xs filter_id_conv intro!: arg_cong2 [where f = append])
  then have "te_sorted_but e s xs \<longrightarrow> te_sorted (SortEvent e s) (sort_event_list (dc s) as e bs)"
    using sorted_sort_event_list [of "dc s" as bs e]
    by (simp add: te_sorted_but_def same_data_dc [OF r(2)])
  moreover have "set (sort_event_list (dc s) as e bs) = set xs"
    by (simp add: set_sort_event_list xs)
  moreover have "te_inv (SortEvent e s) (sort_event_list (dc s) as e bs)"
    using r(1) same_data_node [OF r(2)] te_inv_active [OF inv] calculation(2) by (simp add: te_inv_def)
  ultimately show thesis using that r(2) by blast
qed

lemma te_inv_AddActiveEvent:
  assumes inv: "te_rep s xs" and act: "\<And>x. te_active (te_nodes s x) \<longleftrightarrow> x = e \<or> x \<in> set xs" and e: "e \<notin> set xs"
  shows "te_inv (AddActiveEvent e s) (insort_key (dc s) e xs)"
  using AddActiveEvent_refines [OF inv e] act same_data_node [OF AddActiveEvent_refines(2) [OF inv e]]
  by (simp add: te_inv_def set_insort_key)

lemma te_inv_RemoveActiveEvent:
  assumes inv: "te_rep s xs" and act: "\<And>x. te_active (te_nodes s x) \<longleftrightarrow> x \<noteq> e \<and> x \<in> set xs" and e: "e \<in> set xs"
  shows "te_inv (RemoveActiveEvent e s) (remove1 e xs)"
  using RemoveActiveEvent_refines [OF inv e] act te_rep_distinct [OF inv]
    same_data_node [OF RemoveActiveEvent_refines(2) [OF inv e]]
  by (auto simp: te_inv_def)

subsection \<open>What the queue operations leave alone\<close>

text \<open>
  \<open>te_rest\<close> blanks the fields the queue owns (and the CPU's downcount); two states with the
  same rest agree on every other field of the machine.
\<close>

definition te_rest :: "'a te_state_scheme \<Rightarrow> 'a te_state_scheme" where
  "te_rest s = s\<lparr>te_nodes := (\<lambda>_. te_construct [] 0 0), s_active_events_head := None,
     s_active_events_tail := None, s_active_event_count := 0, downcount := 0\<rparr>"

lemma te_rest_updates [simp]:
  "te_rest (set_node e f s) = te_rest s"
  "te_rest (te_nodes_update g s) = te_rest s"
  "te_rest (s_active_events_head_update h s) = te_rest s"
  "te_rest (s_active_events_tail_update h s) = te_rest s"
  "te_rest (s_active_event_count_update k s) = te_rest s"
  "te_rest (downcount_update d s) = te_rest s"
  by (simp_all add: te_rest_def set_node_def)

lemma te_rest_UpdateCPUDowncount [simp]: "te_rest (UpdateCPUDowncount s) = te_rest s"
  by (simp add: UpdateCPUDowncount_def split: option.split)

lemma te_rest_unlink [simp]: "te_rest (unlink e s) = te_rest s"
  by (simp add: unlink_def Let_def split: option.split)

lemma te_rest_let:
  "te_rest a = te_rest s \<Longrightarrow> (\<And>x. te_rest x = te_rest s \<Longrightarrow> te_rest (f x) = te_rest s) \<Longrightarrow>
    te_rest (Let a f) = te_rest s"
  by simp

lemma te_rest_inserts [simp]:
  "te_rest (insert_after c e s) = te_rest s"
  "te_rest (insert_before c e s) = te_rest s"
  "te_rest (insert_front e s) = te_rest s"
  "te_rest (insert_back e s) = te_rest s"
  unfolding insert_after_def insert_before_def insert_front_def insert_back_def
  by ((intro te_rest_let; simp split: option.split), (intro te_rest_let; simp split: option.split),
      simp_all split: option.split)

lemma te_rest_SortEvent [simp]: "te_rest (SortEvent e s) = te_rest s"
  by (simp add: SortEvent_def Let_def split: option.split)

lemma te_rest_AddActiveEvent [simp]: "te_rest (AddActiveEvent e s) = te_rest s"
  by (simp add: AddActiveEvent_def Let_def split: option.split prod.split)

lemma te_rest_RemoveActiveEvent [simp]: "te_rest (RemoveActiveEvent e s) = te_rest s"
  unfolding RemoveActiveEvent_def
  by (intro te_rest_let; simp add: Let_def split: option.split)

lemma te_rest_Schedule [simp]: "te_rest (Schedule e n s) = te_rest s"
  by (simp add: Schedule_def Let_def)

lemma te_rest_Deactivate: "te_rest (Deactivate e s) = te_rest s"
  by (simp add: Deactivate_def)

lemma te_rest_fields:
  assumes "te_rest s = te_rest t"
  shows "pending_ticks s = pending_ticks t" "s_global_tick_counter s = s_global_tick_counter t"
    "s_current_event s = s_current_event t" "te_state.more s = te_state.more t"
    "cop0_regs s = cop0_regs t" "regs s = regs t" "frame_done s = frame_done t"
    "using_interpreter s = using_interpreter t" "cfg_interpreter_mode s = cfg_interpreter_mode t"
    "gte_completion_tick s = gte_completion_tick t"
proof -
  note a = assms [unfolded te_rest_def]
  show "pending_ticks s = pending_ticks t" using arg_cong [OF a, of pending_ticks] by simp
  show "s_global_tick_counter s = s_global_tick_counter t"
    using arg_cong [OF a, of s_global_tick_counter] by simp
  show "s_current_event s = s_current_event t" using arg_cong [OF a, of s_current_event] by simp
  show "te_state.more s = te_state.more t" using arg_cong [OF a, of te_state.more] by simp
  show "cop0_regs s = cop0_regs t" using arg_cong [OF a, of cop0_regs] by simp
  show "regs s = regs t" using arg_cong [OF a, of regs] by simp
  show "frame_done s = frame_done t" using arg_cong [OF a, of frame_done] by simp
  show "using_interpreter s = using_interpreter t" using arg_cong [OF a, of using_interpreter] by simp
  show "cfg_interpreter_mode s = cfg_interpreter_mode t"
    using arg_cong [OF a, of cfg_interpreter_mode] by simp
  show "gte_completion_tick s = gte_completion_tick t"
    using arg_cong [OF a, of gte_completion_tick] by simp
qed

lemmas queue_frame [frame] =
  te_rest_fields [OF te_rest_SortEvent] te_rest_fields [OF te_rest_AddActiveEvent]
  te_rest_fields [OF te_rest_RemoveActiveEvent] te_rest_fields [OF te_rest_UpdateCPUDowncount]
  te_rest_fields [OF te_rest_Schedule]

subsection \<open>Running the due events\<close>

text \<open>
  \<open>te_ready I s xs\<close>: the queue is well formed and not empty, every event in it has a positive
  interval, and the components' own state satisfies \<open>I\<close>. \<open>te_work\<close> bounds the number of
  times \<open>run_due\<close> can still run a callback without time passing.
\<close>

definition te_ready :: "('a \<Rightarrow> bool) \<Rightarrow> 'a te_state_scheme \<Rightarrow> nat list \<Rightarrow> bool" where
  "te_ready I s xs \<longleftrightarrow> te_inv s xs \<and> xs \<noteq> [] \<and> (\<forall>x \<in> set xs. 0 < te_interval (te_nodes s x)) \<and>
     0 \<le> pending_ticks s \<and> I (te_state.more s)"

definition te_work :: "'a te_state_scheme \<Rightarrow> nat list \<Rightarrow> nat" where
  "te_work s xs = (\<Sum>x \<in> set xs. nat (1 - dc s x))"

lemma te_ready_SortEvent:
  assumes r: "te_ready I s xs" and e: "e \<in> set xs"
  obtains ys where "te_ready I (SortEvent e s) ys"
    and "te_sorted_but e s xs \<longrightarrow> te_sorted (SortEvent e s) ys"
    and "set ys = set xs" and "te_work (SortEvent e s) ys = te_work s xs"
proof -
  have "te_inv s xs" using r by (simp add: te_ready_def)
  from te_inv_SortEvent [OF this e]
  obtain ys where y: "te_inv (SortEvent e s) ys" "te_sorted_but e s xs \<longrightarrow> te_sorted (SortEvent e s) ys"
    "set ys = set xs" "same_data (SortEvent e s) s"
    by blast
  have "te_ready I (SortEvent e s) ys"
    using r y e same_data_node [OF y(4)] by (auto simp: te_ready_def frame)
  moreover have "te_work (SortEvent e s) ys = te_work s xs"
    using y same_data_node [OF y(4)] by (simp add: te_work_def)
  ultimately show thesis using that y by blast
qed

lemma te_work_less:
  assumes "e \<in> set xs" and "\<And>x. x \<noteq> e \<Longrightarrow> dc t x = dc s x" and "dc s e \<le> 0" and "dc s e < dc t e"
  shows "te_work t xs < te_work s xs"
  unfolding te_work_def
proof (rule sum_strict_mono_ex1)
  show "\<forall>x \<in> set xs. nat (1 - dc t x) \<le> nat (1 - dc s x)"
    using assms by (metis diff_left_mono nat_mono less_imp_le order_refl)
  show "\<exists>x \<in> set xs. nat (1 - dc t x) < nat (1 - dc s x)"
    using assms by (intro bexI [of _ e]) auto
qed simp

locale event_callbacks =
  fixes callback :: "nat \<Rightarrow> tick_count \<Rightarrow> tick_count \<Rightarrow> 'a te_state_scheme \<Rightarrow> 'a te_state_scheme"
    and I :: "'a \<Rightarrow> bool"
    and ordered :: bool
  assumes callback_ok:
    "te_ready I s xs \<Longrightarrow> hd xs = e \<Longrightarrow> (ordered \<longrightarrow> te_sorted_but e s xs) \<Longrightarrow> s_current_event s = Some e \<Longrightarrow>
      \<exists>ys. te_ready I (callback e ticks late s) ys \<and>
        (ordered \<longrightarrow> te_sorted_but e (callback e ticks late s) ys) \<and>
        te_work (callback e ticks late s) ys \<le> te_work s xs \<and>
        s_global_tick_counter (callback e ticks late s) = s_global_tick_counter s \<and>
        s_current_event (callback e ticks late s) = Some e"
begin

lemma run_head_ok:
  assumes r: "te_ready I s xs" and srt: "ordered \<longrightarrow> te_sorted s xs" and hd: "hd xs = e" and due: "dc s e \<le> 0"
  obtains ys where "te_ready I (run_head callback e s) ys"
    and "ordered \<longrightarrow> te_sorted (run_head callback e s) ys"
    and "te_work (run_head callback e s) ys < te_work s xs"
    and "s_global_tick_counter (run_head callback e s) = s_global_tick_counter s"
proof -
  let ?f = "\<lambda>n. n\<lparr>te_downcount := te_downcount n + te_interval n, te_time_since_last_run := 0\<rparr>"
  let ?s1 = "set_node e ?f (s\<lparr>s_current_event := Some e\<rparr>)"
  have e: "e \<in> set xs" using r hd by (auto simp: te_ready_def)
  let ?s2 = "callback e (te_time_since_last_run (te_nodes s e)) (- dc s e) ?s1"
  have inv0: "te_inv (s\<lparr>s_current_event := Some e\<rparr>) xs"
    using r by (simp add: te_ready_def te_inv_def te_rep_def te_links_def)
  have inv: "te_inv ?s1 xs"
    by (rule te_inv_set_node [OF inv0]) simp_all
  have r1: "te_ready I ?s1 xs"
    using r inv by (auto simp: te_ready_def set_node_def)
  have b1: "ordered \<longrightarrow> te_sorted_but e ?s1 xs"
    using srt te_sorted_but_weaken [of s xs e] te_sorted_but_cong [of xs e s ?s1] by simp
  have w1: "te_work ?s1 xs < te_work s xs"
    using r e due by (intro te_work_less [of e]) (auto simp: te_ready_def)
  have "s_current_event ?s1 = Some e" by (simp add: set_node_def)
  from callback_ok [OF r1 hd b1 this]
  obtain ys where y: "te_ready I ?s2 ys" "ordered \<longrightarrow> te_sorted_but e ?s2 ys" "te_work ?s2 ys \<le> te_work ?s1 xs"
    "s_global_tick_counter ?s2 = s_global_tick_counter ?s1"
    by blast
  have g: "s_global_tick_counter ?s2 = s_global_tick_counter s"
    using y(4) by (simp add: set_node_def)
  have act: "te_active (te_nodes ?s2 e) \<longleftrightarrow> e \<in> set ys"
    using y(1) by (auto simp: te_ready_def dest: te_inv_active)
  show thesis
  proof (cases "e \<in> set ys")
    case True
    then have h: "run_head callback e s = SortEvent e ?s2"
      using act by (simp add: run_head_def Let_def)
    obtain zs where "te_ready I (SortEvent e ?s2) zs"
      "te_sorted_but e ?s2 ys \<longrightarrow> te_sorted (SortEvent e ?s2) zs"
      "te_work (SortEvent e ?s2) zs = te_work ?s2 ys"
      using te_ready_SortEvent [OF y(1) True] by blast
    then show thesis
      using that [of zs] y(2,3) w1 g by (simp add: h frame)
  next
    case False
    then have h: "run_head callback e s = ?s2"
      using act by (simp add: run_head_def Let_def)
    show thesis
      using that [of ys] y te_sorted_but_notin [of e ?s2 ys] False w1 g by (simp add: h)
  qed
qed

text \<open>The inner loop returns, and nothing is due when it does.\<close>

lemma run_due_ok:
  assumes "te_ready I s xs" and "ordered \<longrightarrow> te_sorted s xs"
  shows "\<exists>t ys. run_due callback s = Some t \<and> te_ready I t ys \<and> (ordered \<longrightarrow> te_sorted t ys) \<and>
    0 < dc t (hd ys) \<and> s_global_tick_counter t = s_global_tick_counter s"
  using assms
proof (induction "te_work s xs" arbitrary: s xs rule: less_induct)
  case less
  obtain e xs' where xs: "xs = e # xs'"
    using less.prems by (cases xs) (auto simp: te_ready_def)
  have h: "s_active_events_head s = Some e"
    using less.prems xs by (auto simp: te_ready_def te_inv_def intro: te_rep_head)
  show ?case
  proof (cases "dc s e \<le> 0")
    case True
    obtain ys where y: "te_ready I (run_head callback e s) ys" "ordered \<longrightarrow> te_sorted (run_head callback e s) ys"
      "te_work (run_head callback e s) ys < te_work s xs"
      "s_global_tick_counter (run_head callback e s) = s_global_tick_counter s"
      using run_head_ok [OF less.prems _ True] xs by auto
    have "run_due callback s = run_due callback (run_head callback e s)"
      by (subst run_due.simps) (simp add: h True)
    then show ?thesis
      using less.hyps [OF y(3,1,2)] y(4) by simp
  next
    case False
    have "run_due callback s = Some s"
      by (subst run_due.simps) (simp add: h False)
    then show ?thesis
      using less.prems False xs by auto
  qed
qed

end

subsection \<open>Passing time\<close>

lemma apply_downcount_spec:
  assumes "dll (te_nodes s) p xs None" and "distinct xs" and "length xs \<le> n"
  shows "te_nodes (apply_downcount n time (first_of xs None) s) x =
      (if x \<in> set xs
       then (te_nodes s x)\<lparr>te_downcount := dc s x - time,
              te_time_since_last_run := te_time_since_last_run (te_nodes s x) + time\<rparr>
       else te_nodes s x) \<and>
    te_rest (apply_downcount n time (first_of xs None) s) = te_rest s \<and>
    s_active_events_head (apply_downcount n time (first_of xs None) s) = s_active_events_head s \<and>
    s_active_events_tail (apply_downcount n time (first_of xs None) s) = s_active_events_tail s \<and>
    s_active_event_count (apply_downcount n time (first_of xs None) s) = s_active_event_count s"
  using assms
proof (induction xs arbitrary: n s p)
  case Nil
  then show ?case by (cases n) auto
next
  case (Cons a xs)
  then obtain m where n: "n = Suc m" by (cases n) auto
  let ?s = "set_node a (\<lambda>n. n\<lparr>te_downcount := te_downcount n - time,
              te_time_since_last_run := te_time_since_last_run n + time\<rparr>) s"
  have "dll (te_nodes ?s) (Some a) xs None" "a \<notin> set xs"
    using Cons.prems by (auto simp: set_node_def dll_upd_other)
  with Cons.IH [of ?s "Some a" m] Cons.prems n
  show ?case
    by (simp add: Let_def) (auto simp: set_node_def)
qed

lemma start_slice_spec:
  assumes inv: "te_inv s xs"
  shows "te_inv (start_slice time s) xs"
    and "dc (start_slice time s) x = (if x \<in> set xs then dc s x - time else dc s x)"
    and "te_interval (te_nodes (start_slice time s) x) = te_interval (te_nodes s x)"
    and "s_global_tick_counter (start_slice time s) = s_global_tick_counter s + word_of_int time"
    and "te_state.more (start_slice time s) = te_state.more s"
    and "pending_ticks (start_slice time s) = pending_ticks s"
proof -
  let ?s = "s\<lparr>s_global_tick_counter := s_global_tick_counter s + word_of_int time\<rparr>"
  have d: "dll (te_nodes ?s) None xs None" "distinct xs" "length xs \<le> s_active_event_count s"
    and h: "s_active_events_head s = first_of xs None"
    using inv by (auto simp: te_inv_def te_rep_def te_links_def)
  note a = apply_downcount_spec [OF d, of time]
  have st: "start_slice time s = apply_downcount (s_active_event_count s) time (first_of xs None) ?s"
    by (simp add: start_slice_def h)
  have rest: "te_rest (start_slice time s) = te_rest ?s"
    using a by (simp add: st)
  show "te_inv (start_slice time s) xs"
    using inv a unfolding st
    by (auto simp: te_inv_def te_rep_def te_links_def intro: dll_cong [rotated])
  show "dc (start_slice time s) x = (if x \<in> set xs then dc s x - time else dc s x)"
    "te_interval (te_nodes (start_slice time s) x) = te_interval (te_nodes s x)"
    using a [of x] unfolding st by auto
  show "s_global_tick_counter (start_slice time s) = s_global_tick_counter s + word_of_int time"
    "te_state.more (start_slice time s) = te_state.more s"
    "pending_ticks (start_slice time s) = pending_ticks s"
    using te_rest_fields [OF rest] by simp_all
qed

context event_callbacks begin

lemma slice_ok:
  assumes r: "te_ready I s xs" and srt: "ordered \<longrightarrow> te_sorted s xs"
  shows "\<exists>t ys. run_due callback (start_slice time s) = Some t \<and> te_ready I t ys \<and>
    (ordered \<longrightarrow> te_sorted t ys) \<and>
    0 < dc t (hd ys) \<and> s_global_tick_counter t = s_global_tick_counter s + word_of_int time"
proof -
  have inv: "te_inv s xs" using r by (simp add: te_ready_def)
  note a = start_slice_spec [OF inv, of time]
  have "te_ready I (start_slice time s) xs"
    using r a by (simp add: te_ready_def)
  moreover have "map (dc (start_slice time s)) xs = map (\<lambda>x. dc s x - time) xs"
    using a(2) by simp
  then have "ordered \<longrightarrow> te_sorted (start_slice time s) xs"
    using srt by (simp add: sorted_iff_nth_mono)
  ultimately show ?thesis
    using run_due_ok a(4) by metis
qed

lemma run_slices_pos:
  assumes "te_ready I s xs" and "ordered \<longrightarrow> te_sorted s xs" and "0 < dc s (hd xs)" and "0 \<le> pending"
  shows "\<exists>t ys. run_slices callback pending s = Some t \<and> te_ready I t ys \<and>
    (ordered \<longrightarrow> te_sorted t ys) \<and>
    0 < dc t (hd ys) \<and> s_global_tick_counter t = s_global_tick_counter s + word_of_int pending"
  using assms
proof (induction "nat pending" arbitrary: pending s xs rule: less_induct)
  case less
  obtain e xs' where xs: "xs = e # xs'"
    using less.prems by (cases xs) (auto simp: te_ready_def)
  have h: "s_active_events_head s = Some e"
    using less.prems xs by (auto simp: te_ready_def te_inv_def intro: te_rep_head)
  show ?case
  proof (cases "0 < pending")
    case True
    let ?time = "min pending (dc s e)"
    obtain t ys where t: "run_due callback (start_slice ?time s) = Some t" "te_ready I t ys" "ordered \<longrightarrow> te_sorted t ys"
      "0 < dc t (hd ys)" "s_global_tick_counter t = s_global_tick_counter s + word_of_int ?time"
      using slice_ok [OF less.prems(1,2)] by blast
    have rs: "run_slices callback pending s = run_slices callback (pending - ?time) t"
      by (subst run_slices.simps) (simp add: h True t(1))
    have dec: "nat (pending - ?time) < nat pending" "0 \<le> pending - ?time"
      using True less.prems(3) xs by auto
    obtain u zs where u: "run_slices callback (pending - ?time) t = Some u" "te_ready I u zs"
      "ordered \<longrightarrow> te_sorted u zs" "0 < dc u (hd zs)"
      "s_global_tick_counter u = s_global_tick_counter t + word_of_int (pending - ?time)"
      using less.hyps [OF dec(1) t(2,3,4) dec(2)] by blast
    have "s_global_tick_counter u = s_global_tick_counter s + word_of_int pending"
      unfolding u(5) t(5) by (simp add: add.assoc flip: of_int_add)
    then show ?thesis using rs u by auto
  next
    case False
    then have "run_slices callback pending s = Some s" "pending = 0"
      using less.prems(4) by (auto simp: run_slices.simps)
    then show ?thesis using less.prems by auto
  qed
qed

text \<open>\<open>RunEvents\<close> returns; every pending tick is accounted for and no event is left due.\<close>

lemma RunEvents_ok:
  assumes r: "te_ready I s xs" and srt: "ordered \<longrightarrow> te_sorted s xs" and pend: "0 < pending_ticks s"
  shows "\<exists>t ys. RunEvents callback s = Some t \<and> te_ready I t ys \<and> 0 < dc t (hd ys) \<and>
    (ordered \<longrightarrow> te_sorted t ys \<and> (\<forall>y \<in> set ys. 0 < dc t y)) \<and> s_current_event t = None \<and>
    s_global_tick_counter t = s_global_tick_counter s + word_of_int (pending_ticks s) \<and>
    (\<not> frame_done t \<longrightarrow> using_interpreter t \<longrightarrow> downcount t = dc t (hd ys))"
proof -
  let ?p = "pending_ticks s" and ?s = "ResetPendingTicks s"
  have reset: "te_ready I ?s xs" "ordered \<longrightarrow> te_sorted ?s xs" "s_global_tick_counter ?s = s_global_tick_counter s"
    using r srt by (auto simp: te_ready_def te_inv_def te_rep_def te_links_def ResetPendingTicks_def)
  obtain e xs' where xs: "xs = e # xs'"
    using r by (cases xs) (auto simp: te_ready_def)
  have h: "s_active_events_head ?s = Some e"
    using reset xs by (auto simp: te_ready_def te_inv_def intro: te_rep_head)
  let ?time = "min ?p (dc ?s e)"
  obtain t ys where t: "run_due callback (start_slice ?time ?s) = Some t" "te_ready I t ys" "ordered \<longrightarrow> te_sorted t ys"
    "0 < dc t (hd ys)" "s_global_tick_counter t = s_global_tick_counter ?s + word_of_int ?time"
    using slice_ok [OF reset(1,2)] by blast
  have rs: "run_slices callback ?p ?s = run_slices callback (?p - ?time) t"
    by (subst run_slices.simps) (simp add: h pend t(1))
  obtain u zs where u: "run_slices callback (?p - ?time) t = Some u" "te_ready I u zs"
      "ordered \<longrightarrow> te_sorted u zs" "0 < dc u (hd zs)"
      "s_global_tick_counter u = s_global_tick_counter t + word_of_int (?p - ?time)"
    using run_slices_pos [OF t(2,3,4), of "?p - ?time"] by auto
  let ?v = "u\<lparr>s_current_event := None\<rparr>"
  have v: "te_ready I ?v zs" "ordered \<longrightarrow> te_sorted ?v zs"
    using u by (auto simp: te_ready_def te_inv_def te_rep_def te_links_def)
  obtain z zs' where zs: "zs = z # zs'"
    using u by (cases zs) (auto simp: te_ready_def)
  have hz: "s_active_events_head ?v = Some z"
    using te_rep_head [of ?v z zs'] v zs by (simp add: te_ready_def te_inv_def)
  have run: "RunEvents callback s = Some (UpdateCPUDowncount ?v)"
    using rs u(1) by (simp add: RunEvents_def)
  have g: "s_global_tick_counter u = s_global_tick_counter s + word_of_int ?p"
    unfolding u(5) t(5) reset(3) by (simp add: add.assoc flip: of_int_add)
  have "te_ready I (UpdateCPUDowncount ?v) zs"
    using v by (simp add: te_ready_def frame)
  moreover have "ordered \<longrightarrow> (\<forall>y \<in> set zs. 0 < dc ?v y)" and "0 < dc ?v (hd zs)"
    using u(3,4) zs by auto
  moreover have "downcount (UpdateCPUDowncount ?v) = dc ?v (hd zs)"
    if "\<not> frame_done u" "using_interpreter u"
    using that hz zs by (simp add: UpdateCPUDowncount_def)
  ultimately show ?thesis
    using run v g by (auto simp: frame)
qed

end

subsection \<open>The operations of an event on the queue\<close>

text \<open>Whether scheduling \<open>e\<close> moves it: its own callback leaves the move to \<open>RunEvents\<close>.\<close>

lemma te_rep_set_node_out:
  assumes "te_rep s xs" and "te_prev (f (te_nodes s e)) = te_prev (te_nodes s e)"
    and "te_next (f (te_nodes s e)) = te_next (te_nodes s e)"
  shows "te_rep (set_node e f s) xs"
  using assms by (auto simp: te_rep_def te_links_def set_node_def intro: dll_cong [rotated])

lemma Schedule_inactive:
  assumes inv: "te_inv s xs" and e: "e \<notin> set xs"
  shows "te_inv (Schedule e ticks s) (insort_key ((dc s)(e := pending_ticks s + ticks)) e xs)"
    and "dc (Schedule e ticks s) = (dc s)(e := pending_ticks s + ticks)"
    and "te_interval (te_nodes (Schedule e ticks s) x) = te_interval (te_nodes s x)"
proof -
  let ?f = "\<lambda>n. n\<lparr>te_time_since_last_run := - pending_ticks s, te_active := True\<rparr>"
  let ?s = "set_node e ?f (set_node e (te_downcount_update (\<lambda>_. pending_ticks s + ticks)) s)"
  have na: "\<not> te_active (te_nodes s e)" using te_inv_active [OF inv] e by simp
  have eq: "Schedule e ticks s = AddActiveEvent e ?s"
    using na by (simp add: Schedule_def Let_def)
  have k: "dc ?s = (dc s)(e := pending_ticks s + ticks)"
    by (rule ext) (simp add: set_node_def)
  have rep: "te_rep ?s xs"
    using inv by (intro te_rep_set_node_out) (auto simp: te_inv_def)
  have act: "te_active (te_nodes ?s x) \<longleftrightarrow> x = e \<or> x \<in> set xs" for x
    using te_inv_active [OF inv] by (simp add: set_node_def)
  show "te_inv (Schedule e ticks s) (insort_key ((dc s)(e := pending_ticks s + ticks)) e xs)"
    using te_inv_AddActiveEvent [OF rep act e] by (simp only: eq k)
  note d = AddActiveEvent_refines(2) [OF rep e]
  show "dc (Schedule e ticks s) = (dc s)(e := pending_ticks s + ticks)"
    by (simp only: eq same_data_dc [OF d] k)
  show "te_interval (te_nodes (Schedule e ticks s) x) = te_interval (te_nodes s x)"
    using same_data_node [OF d, of x] by (simp add: eq set_node_def)
qed

lemma Schedule_active:
  assumes inv: "te_inv s xs" and e: "e \<in> set xs"
  obtains ys where "te_inv (Schedule e ticks s) ys" and "set ys = set xs"
    and "te_sorted_but e s xs \<longrightarrow> s_current_event s \<noteq> Some e \<longrightarrow> te_sorted (Schedule e ticks s) ys"
    and "s_current_event s = Some e \<longrightarrow> ys = xs"
    and "dc (Schedule e ticks s) = (dc s)(e := pending_ticks s + ticks)"
    and "\<And>x. te_interval (te_nodes (Schedule e ticks s) x) = te_interval (te_nodes s x)"
proof -
  let ?s = "set_node e (te_downcount_update (\<lambda>_. pending_ticks s + ticks)) s"
  have a: "te_active (te_nodes s e)" using te_inv_active [OF inv] e by simp
  have i: "te_inv ?s xs" by (rule te_inv_set_node [OF inv]) simp_all
  have k: "dc ?s = (dc s)(e := pending_ticks s + ticks)"
    by (rule ext) (simp add: set_node_def)
  have n: "te_interval (te_nodes ?s x) = te_interval (te_nodes s x)" for x
    by (simp add: set_node_def)
  have b: "te_sorted_but e ?s xs = te_sorted_but e s xs"
    by (rule te_sorted_but_cong) simp
  show thesis
  proof (cases "s_current_event s = Some e")
    case True
    then have "Schedule e ticks s = ?s"
      using a by (simp add: Schedule_def Let_def set_node_def)
    then show thesis using that [of xs] i k n True by simp
  next
    case False
    then have eq: "Schedule e ticks s = SortEvent e ?s"
      using a by (simp add: Schedule_def Let_def set_node_def)
    obtain ys where y: "te_inv (SortEvent e ?s) ys"
      "te_sorted_but e ?s xs \<longrightarrow> te_sorted (SortEvent e ?s) ys"
      "set ys = set xs" "same_data (SortEvent e ?s) ?s"
      using te_inv_SortEvent [OF i e] by blast
    show thesis
      using that [of ys] y b k n False same_data_dc [OF y(4)] same_data_node [OF y(4)]
      by (simp add: eq)
  qed
qed

text \<open>Callbacks that reschedule their own event keep the queue ready.\<close>

lemma te_ready_Schedule_own:
  assumes r: "te_ready I s xs" and e: "e \<in> set xs" and c: "s_current_event s = Some e" and t: "0 < ticks"
    and b: "ordered \<longrightarrow> te_sorted_but e s xs"
  shows "te_ready I (Schedule e ticks s) xs \<and> (ordered \<longrightarrow> te_sorted_but e (Schedule e ticks s) xs) \<and>
    te_work (Schedule e ticks s) xs \<le> te_work s xs"
proof -
  have inv: "te_inv s xs" using r by (simp add: te_ready_def)
  obtain ys where y: "te_inv (Schedule e ticks s) ys" "ys = xs"
    and k: "dc (Schedule e ticks s) = (dc s)(e := pending_ticks s + ticks)"
    and n: "\<And>x. te_interval (te_nodes (Schedule e ticks s) x) = te_interval (te_nodes s x)"
    using Schedule_active [OF inv e, of ticks] c by metis
  have "te_ready I (Schedule e ticks s) xs"
    using r y n by (simp add: te_ready_def frame)
  moreover have "te_sorted_but e (Schedule e ticks s) xs = te_sorted_but e s xs"
    by (rule te_sorted_but_cong) (simp add: fun_cong [OF k])
  moreover have "te_work (Schedule e ticks s) xs \<le> te_work s xs"
    unfolding te_work_def
    using r t by (intro sum_mono) (auto simp: te_ready_def fun_cong [OF k])
  ultimately show ?thesis using b by simp
qed

end
