(* ===== verification/InterruptController.thy ===== *)
theory InterruptController
  imports EventRun
begin

text \<open>
  The interrupt controller (\<open>src/core/interrupt_controller.cpp\<close>): \<open>I_STATUS\<close> collects the
  requests, \<open>I_MASK\<close> selects them, and one external line of the CPU (bit 10 of \<open>CAUSE\<close>)
  carries the result. The locale \<open>irq_line\<close> is what the devices rely on.
\<close>

record irq_state = te_state +
  m_interrupt_status_register :: u32
  m_interrupt_mask_register :: u32

datatype IRQ =
    IRQ_VBLANK | IRQ_GPU | IRQ_CDROM | IRQ_DMA | IRQ_TMR0 | IRQ_TMR1 | IRQ_TMR2 | IRQ_IRQ7
  | IRQ_SIO | IRQ_SPU | IRQ_IRQ10

fun irq_number :: "IRQ \<Rightarrow> nat" where
  "irq_number IRQ_VBLANK = 0"
| "irq_number IRQ_GPU = 1"
| "irq_number IRQ_CDROM = 2"
| "irq_number IRQ_DMA = 3"
| "irq_number IRQ_TMR0 = 4"
| "irq_number IRQ_TMR1 = 5"
| "irq_number IRQ_TMR2 = 6"
| "irq_number IRQ_IRQ7 = 7"
| "irq_number IRQ_SIO = 8"
| "irq_number IRQ_SPU = 9"
| "irq_number IRQ_IRQ10 = 10"

lemma irq_number_less: "irq_number i < 11"
  by (cases i) simp_all

lemma irq_number_inj: "irq_number i = irq_number j \<longleftrightarrow> i = j"
  by (cases i; cases j) simp_all

instantiation IRQ :: linorder
begin

definition less_eq_IRQ :: "IRQ \<Rightarrow> IRQ \<Rightarrow> bool" where
  "less_eq_IRQ i j \<longleftrightarrow> irq_number i \<le> irq_number j"

definition less_IRQ :: "IRQ \<Rightarrow> IRQ \<Rightarrow> bool" where
  "less_IRQ i j \<longleftrightarrow> irq_number i < irq_number j"

instance
  by standard (auto simp: less_eq_IRQ_def less_IRQ_def irq_number_inj)

end

definition IRQ_REGISTER_WRITE_MASK :: u32 where
  "IRQ_REGISTER_WRITE_MASK = push_bit 11 1 - 1"

definition UpdateCPUInterruptRequest :: "'a irq_state_scheme \<Rightarrow> 'a irq_state_scheme" where
  "UpdateCPUInterruptRequest s =
     (if m_interrupt_status_register s AND m_interrupt_mask_register s \<noteq> 0
      then SetExternalInterrupt 2 s else ClearExternalInterrupt 2 s)"

definition irq_Reset :: "'a irq_state_scheme \<Rightarrow> 'a irq_state_scheme" where
  "irq_Reset s = s\<lparr>m_interrupt_status_register := 0, m_interrupt_mask_register := 0\<rparr>"

definition InterruptRequest :: "nat \<Rightarrow> 'a irq_state_scheme \<Rightarrow> 'a irq_state_scheme" where
  "InterruptRequest irq s =
     UpdateCPUInterruptRequest
       (s\<lparr>m_interrupt_status_register := m_interrupt_status_register s OR push_bit irq 1\<rparr>)"

definition irq_ReadRegister :: "u32 \<Rightarrow> 'a irq_state_scheme \<Rightarrow> u32" where
  "irq_ReadRegister offset s =
     (if offset = 0x00 then m_interrupt_status_register s
      else if offset = 0x04 then m_interrupt_mask_register s
      else 0xFFFFFFFF)"

definition irq_WriteRegister :: "u32 \<Rightarrow> u32 \<Rightarrow> 'a irq_state_scheme \<Rightarrow> 'a irq_state_scheme" where
  "irq_WriteRegister offset val s =
     (if offset = 0x00 then
        UpdateCPUInterruptRequest
          (s\<lparr>m_interrupt_status_register :=
               m_interrupt_status_register s AND (val AND IRQ_REGISTER_WRITE_MASK)\<rparr>)
      else if offset = 0x04 then
        UpdateCPUInterruptRequest
          (s\<lparr>m_interrupt_mask_register := val AND IRQ_REGISTER_WRITE_MASK\<rparr>)
      else s)"

subsection \<open>The line to the CPU\<close>

text \<open>The invariant: bit 10 of \<open>CAUSE\<close> is high exactly when an unmasked request is pending.\<close>

definition irq_line :: "'a irq_state_scheme \<Rightarrow> bool" where
  "irq_line s \<longleftrightarrow> bit (cause (cop0_regs s)) 10"

definition irq_inv :: "'a irq_state_scheme \<Rightarrow> bool" where
  "irq_inv s \<longleftrightarrow> irq_line s = (m_interrupt_status_register s AND m_interrupt_mask_register s \<noteq> 0)"

lemma CheckForPendingInterrupt_frame [simp]:
  "cop0_regs (CheckForPendingInterrupt s) = cop0_regs s"
  "cpu_state.more (CheckForPendingInterrupt s) = cpu_state.more s"
  "pending_ticks (CheckForPendingInterrupt s) = pending_ticks s"
  by (simp_all add: CheckForPendingInterrupt_def)

lemma SetExternalInterrupt_frame [simp]:
  "cpu_state.more (SetExternalInterrupt b s) = cpu_state.more s"
  "pending_ticks (SetExternalInterrupt b s) = pending_ticks s"
  by (simp_all add: SetExternalInterrupt_def Let_def)

lemma ClearExternalInterrupt_frame [simp]:
  "cpu_state.more (ClearExternalInterrupt b s) = cpu_state.more s"
  "pending_ticks (ClearExternalInterrupt b s) = pending_ticks s"
  by (simp_all add: ClearExternalInterrupt_def Let_def)

text \<open>The fields above the CPU's, through an operation that only touches the CPU.\<close>

lemma more_fields:
  fixes s t :: "'a irq_state_scheme"
  assumes "cpu_state.more s = cpu_state.more t"
  shows "te_nodes s = te_nodes t" "s_active_events_head s = s_active_events_head t"
    "s_active_events_tail s = s_active_events_tail t" "s_current_event s = s_current_event t"
    "s_active_event_count s = s_active_event_count t" "s_global_tick_counter s = s_global_tick_counter t"
    "m_interrupt_status_register s = m_interrupt_status_register t"
    "m_interrupt_mask_register s = m_interrupt_mask_register t"
    "irq_state.more s = irq_state.more t"
  using assms by (cases s; cases t; simp)+

lemma UpdateCPUInterruptRequest_frame [simp]:
  "cpu_state.more (UpdateCPUInterruptRequest s) = cpu_state.more s"
  "pending_ticks (UpdateCPUInterruptRequest s) = pending_ticks s"
  by (simp_all add: UpdateCPUInterruptRequest_def)

lemmas irq_update_fields [simp] = more_fields [OF UpdateCPUInterruptRequest_frame(1)]

lemma irq_line_Update:
  "irq_line (UpdateCPUInterruptRequest s) =
    (m_interrupt_status_register s AND m_interrupt_mask_register s \<noteq> 0)"
  by (simp add: irq_line_def UpdateCPUInterruptRequest_def bit_cause_SetExternalInterrupt
      bit_cause_ClearExternalInterrupt)

lemma irq_inv_Update [preserves]: "irq_inv (UpdateCPUInterruptRequest s)"
  by (simp add: irq_inv_def irq_line_Update)

lemma irq_inv_InterruptRequest [preserves]: "irq_inv (InterruptRequest irq s)"
  by (simp add: InterruptRequest_def preserves)

lemma irq_inv_WriteRegister [preserves]: "irq_inv s \<Longrightarrow> irq_inv (irq_WriteRegister offset val s)"
  by (simp add: irq_WriteRegister_def preserves)

lemma bit_IRQ_REGISTER_WRITE_MASK: "bit IRQ_REGISTER_WRITE_MASK n \<longleftrightarrow> n < 11"
proof -
  have m: "IRQ_REGISTER_WRITE_MASK = mask 11"
    by (simp add: IRQ_REGISTER_WRITE_MASK_def mask_eq_exp_minus_1)
  show ?thesis unfolding m bit_mask_iff by auto
qed

lemma status_InterruptRequest:
  "irq < 32 \<Longrightarrow> bit (m_interrupt_status_register (InterruptRequest irq s)) n \<longleftrightarrow>
    n = irq \<or> bit (m_interrupt_status_register s) n"
  by (auto simp: InterruptRequest_def bit_simps dest: bit_imp_le_length)

lemma InterruptRequest_frame [simp]:
  "m_interrupt_mask_register (InterruptRequest irq s) = m_interrupt_mask_register s"
  "te_nodes (InterruptRequest irq s) = te_nodes s"
  "s_active_events_head (InterruptRequest irq s) = s_active_events_head s"
  "s_active_events_tail (InterruptRequest irq s) = s_active_events_tail s"
  "s_current_event (InterruptRequest irq s) = s_current_event s"
  "s_active_event_count (InterruptRequest irq s) = s_active_event_count s"
  "s_global_tick_counter (InterruptRequest irq s) = s_global_tick_counter s"
  "irq_state.more (InterruptRequest irq s) = irq_state.more s"
  "pending_ticks (InterruptRequest irq s) = pending_ticks s"
  by (simp_all add: InterruptRequest_def)

lemma te_inv_InterruptRequest [simp]: "te_inv (InterruptRequest irq s) xs = te_inv s xs"
  by (simp add: te_inv_def te_rep_def te_links_def)

subsection \<open>What a device relies on\<close>

text \<open>
  Raising a request, acknowledging a set of them and selecting them, seen through the
  pending set and the line; the device's guarantee that a request it has raised is seen
  until it is acknowledged is proved in the locale.
\<close>

locale irq_device =
  fixes raise :: "nat \<Rightarrow> 's \<Rightarrow> 's"
    and ack :: "u32 \<Rightarrow> 's \<Rightarrow> 's"
    and pend :: "'s \<Rightarrow> u32"
    and sel :: "'s \<Rightarrow> u32"
    and line :: "'s \<Rightarrow> bool"
  assumes pend_raise: "i < 11 \<Longrightarrow> bit (pend (raise i s)) n \<longleftrightarrow> n = i \<or> bit (pend s) n"
    and pend_ack: "bit (pend (ack keep s)) n \<longleftrightarrow> bit (pend s) n \<and> bit keep n \<and> n < 11"
    and sel_raise: "sel (raise i s) = sel s"
    and sel_ack: "sel (ack keep s) = sel s"
    and line_raise: "line (raise i s) \<longleftrightarrow> pend (raise i s) AND sel (raise i s) \<noteq> 0"
    and line_ack: "line (ack keep s) \<longleftrightarrow> pend (ack keep s) AND sel (ack keep s) \<noteq> 0"
begin

lemma and_nonzero: "bit (v :: u32) n \<Longrightarrow> bit w n \<Longrightarrow> v AND w \<noteq> 0"
  by (metis bit_and_iff bit_0_eq bot_apply bot_bool_def)

lemma raise_visible: "i < 11 \<Longrightarrow> bit (sel s) i \<Longrightarrow> line (raise i s)"
  unfolding line_raise by (rule and_nonzero [of _ i]) (simp_all add: pend_raise sel_raise)

text \<open>A request survives the acknowledgement of others.\<close>

lemma raise_survives:
  "i < 11 \<Longrightarrow> bit (sel s) i \<Longrightarrow> bit keep i \<Longrightarrow> line (ack keep (raise i s))"
  unfolding line_ack by (rule and_nonzero [of _ i]) (simp_all add: pend_raise sel_raise pend_ack sel_ack)

lemma ack_all_clears: "\<not> line (ack 0 s)"
proof -
  have "pend (ack 0 s) = 0" by (rule bit_word_eqI) (simp add: pend_ack)
  then show ?thesis by (simp add: line_ack)
qed

lemma raise_order: "i < 11 \<Longrightarrow> j < 11 \<Longrightarrow> pend (raise i (raise j s)) = pend (raise j (raise i s))"
  by (rule bit_word_eqI) (auto simp: pend_raise)

end

interpretation irq: irq_device InterruptRequest "irq_WriteRegister 0"
  m_interrupt_status_register m_interrupt_mask_register irq_line
proof
  fix i n :: nat and s :: "'a irq_state_scheme" and keep :: u32
  show "i < 11 \<Longrightarrow> bit (m_interrupt_status_register (InterruptRequest i s)) n \<longleftrightarrow>
      n = i \<or> bit (m_interrupt_status_register s) n"
    by (simp add: status_InterruptRequest)
  show "bit (m_interrupt_status_register (irq_WriteRegister 0 keep s)) n \<longleftrightarrow>
      bit (m_interrupt_status_register s) n \<and> bit keep n \<and> n < 11"
    by (auto simp: irq_WriteRegister_def bit_and_iff bit_IRQ_REGISTER_WRITE_MASK)
  show "m_interrupt_mask_register (irq_WriteRegister 0 keep s) = m_interrupt_mask_register s"
    by (simp add: irq_WriteRegister_def)
  show "irq_line (InterruptRequest i s) \<longleftrightarrow>
      m_interrupt_status_register (InterruptRequest i s) AND
      m_interrupt_mask_register (InterruptRequest i s) \<noteq> 0"
    using irq_inv_InterruptRequest [of i s] unfolding irq_inv_def .
  show "irq_line (irq_WriteRegister 0 keep s) \<longleftrightarrow>
      m_interrupt_status_register (irq_WriteRegister 0 keep s) AND
      m_interrupt_mask_register (irq_WriteRegister 0 keep s) \<noteq> 0"
    by (simp add: irq_WriteRegister_def irq_line_Update)
qed simp

end
