(* ===== verification/EventClaims.thy ===== *)
theory EventClaims
  imports EventRun
begin

text \<open>
  The properties of the event queue as theorems about the pointer code, and the two
  situations in which the code leaves the queue or the CPU's downcount in a state that
  its own contract does not describe.
\<close>

subsection \<open>A concrete machine\<close>

text \<open>The state at power on, with no event created yet; the witnesses start from it.\<close>

definition cop0_boot :: cop0_registers where
  "cop0_boot = \<lparr>BPC = 0, BDA = 0, TAR = 0, BadVaddr = 0, BDAM = 0, BPCM = 0, EPC = 0, PRID = 2,
     sr = 0, cause = 0, dcic = 0\<rparr>"

definition te_boot :: te_state where
  "te_boot = \<lparr>downcount = 0, pending_ticks = 0, gte_completion_tick = 0, regs = replicate 36 0,
     cop0_regs = cop0_boot, next_instruction = 0, current_instruction = 0, current_instruction_pc = 0,
     current_instruction_in_branch_delay_slot = False, current_instruction_was_branch_taken = False,
     next_instruction_is_branch_delay_slot = False, branch_was_taken = False, exception_raised = False,
     interrupt_delay = False, frame_done = False, load_delay_reg = reg_count, load_delay_value = 0,
     next_load_delay_reg = reg_count, next_load_delay_value = 0, gte_regs = (\<lambda>_. 0),
     gte_aspect = \<lparr>s_aspect_ratio = R_4_3, s_custom_aspect_ratio_numerator = 1,
       s_custom_aspect_ratio_denominator = 1\<rparr>, use_debug_dispatcher = False,
     using_interpreter = True, cfg_interpreter_mode = True,
     te_nodes = (\<lambda>_. te_construct ''event'' 1 1), s_active_events_head = None,
     s_active_events_tail = None, s_current_event = None, s_active_event_count = 0,
     s_global_tick_counter = 0\<rparr>"

lemma te_inv_boot: "te_inv te_boot []"
  by (simp add: te_inv_def te_rep_def te_links_def te_boot_def te_construct_def)

lemmas te_run_defs = te_boot_def te_construct_def Schedule_def Activate_def Deactivate_def
  AddActiveEvent_def RemoveActiveEvent_def set_node_def UpdateCPUDowncount_def Let_def

text \<open>Three periodic events due in 0, 5 and 50 ticks, the first with a period of 100.\<close>

definition te_three :: te_state where
  "te_three = Schedule 2 50 (Schedule 1 5 (Schedule 0 0 (SetInterval 0 100 te_boot)))"

lemma te_three_eq:
  "te_three = te_boot\<lparr>
     te_nodes := (\<lambda>_. te_construct ''event'' 1 1)
       (0 := \<lparr>te_prev = None, te_next = Some 1, te_downcount = 0, te_time_since_last_run = 0,
              te_period = 1, te_interval = 100, te_active = True, te_name = ''event''\<rparr>,
        1 := \<lparr>te_prev = Some 0, te_next = Some 2, te_downcount = 5, te_time_since_last_run = 0,
              te_period = 1, te_interval = 1, te_active = True, te_name = ''event''\<rparr>,
        2 := \<lparr>te_prev = Some 1, te_next = None, te_downcount = 50, te_time_since_last_run = 0,
              te_period = 1, te_interval = 1, te_active = True, te_name = ''event''\<rparr>),
     s_active_events_head := Some 0, s_active_events_tail := Some 2, s_active_event_count := 3\<rparr>"
  by (simp add: te_three_def SetInterval_def te_run_defs cop0_boot_def HasPendingInterrupt_def
      numeral_eq_Suc fun_eq_iff)

lemma te_inv_three: "te_inv te_three [0, 1, 2]" and te_sorted_three: "te_sorted te_three [0, 1, 2]"
  by (auto simp: te_inv_def te_rep_def te_links_def te_three_eq te_boot_def te_construct_def)

subsection \<open>Properties\<close>

text \<open>
  C2: scheduling an event (other than the one whose callback is running) puts it into the
  queue at \<open>pending ticks + ticks\<close>, keeps the queue well formed and sorted, and changes the
  downcount of no other event, whether the event was active or not.
\<close>

theorem Schedule_keeps_queue:
  assumes inv: "te_inv s xs" and srt: "te_sorted s xs" and c: "s_current_event s \<noteq> Some e"
  shows "\<exists>ys. te_inv (Schedule e ticks s) ys \<and> te_sorted (Schedule e ticks s) ys \<and>
    set ys = insert e (set xs) \<and> dc (Schedule e ticks s) = (dc s)(e := pending_ticks s + ticks)"
proof (cases "e \<in> set xs")
  case True
  obtain ys where "te_inv (Schedule e ticks s) ys" "set ys = set xs"
    "te_sorted_but e s xs \<longrightarrow> s_current_event s \<noteq> Some e \<longrightarrow> te_sorted (Schedule e ticks s) ys"
    "dc (Schedule e ticks s) = (dc s)(e := pending_ticks s + ticks)"
    using Schedule_active [OF inv True] by metis
  then show ?thesis
    using te_sorted_but_weaken [OF srt] c True by (intro exI [of _ ys]) auto
next
  case False
  let ?k = "(dc s)(e := pending_ticks s + ticks)"
  note a = Schedule_inactive [OF inv False, of ticks]
  have "map ?k xs = map (dc s) xs" using False by auto
  then have "sorted (map ?k (insort_key ?k e xs))"
    using srt by (simp only: sorted_insort_key)
  then show ?thesis
    using a by (intro exI [of _ "insort_key ?k e xs"]) (simp add: set_insort_key)
qed

theorem Schedule_keeps_queue_witness:
  "\<exists>ys. te_inv (Schedule 2 3 te_three) ys \<and> te_sorted (Schedule 2 3 te_three) ys \<and>
    set ys = insert 2 (set [0, 1, 2]) \<and>
    dc (Schedule 2 3 te_three) = (dc te_three)(2 := pending_ticks te_three + 3)"
  by (rule Schedule_keeps_queue [OF te_inv_three te_sorted_three])
    (simp add: te_three_eq te_boot_def)

text \<open>
  Deactivating an active event removes exactly it from the queue, and activating it
  again restores its downcount and its time since the last run (both are kept relative to
  the ticks the CPU has not yet handed over) and the set of queued events.
\<close>

theorem Deactivate_Activate:
  assumes inv: "te_inv s xs" and e: "e \<in> set xs"
  shows "te_inv (Deactivate e s) (remove1 e xs) \<and>
    (\<exists>ys. te_inv (Activate e (Deactivate e s)) ys \<and> set ys = set xs \<and>
      dc (Activate e (Deactivate e s)) = dc s \<and>
      te_time_since_last_run (te_nodes (Activate e (Deactivate e s)) e) =
        te_time_since_last_run (te_nodes s e))"
proof -
  let ?f = "\<lambda>n. n\<lparr>te_downcount := te_downcount n - pending_ticks s,
    te_time_since_last_run := te_time_since_last_run n + pending_ticks s, te_active := False\<rparr>"
  let ?s = "set_node e ?f s" and ?d = "Deactivate e s"
  let ?g = "\<lambda>n. n\<lparr>te_downcount := te_downcount n + pending_ticks s,
    te_time_since_last_run := te_time_since_last_run n - pending_ticks s, te_active := True\<rparr>"
  have act: "te_active (te_nodes s x) \<longleftrightarrow> x \<in> set xs" for x using inv by (rule te_inv_active)
  have d: "?d = RemoveActiveEvent e ?s" using act e by (simp add: Deactivate_def)
  have rep: "te_rep ?s xs" using inv by (intro te_rep_set_node_out) (auto simp: te_inv_def)
  note r = RemoveActiveEvent_refines [OF rep e]
  have inv': "te_inv ?d (remove1 e xs)"
    unfolding d by (rule te_inv_RemoveActiveEvent [OF rep _ e]) (simp add: set_node_def act)
  have out: "e \<notin> set (remove1 e xs)" using te_inv_distinct [OF inv] by simp
  have p: "pending_ticks ?d = pending_ticks s"
    using te_rest_fields(1) [of ?d s] by (simp add: d)
  have a: "Activate e ?d = AddActiveEvent e (set_node e ?g ?d)"
    using te_inv_active [OF inv', of e] out p by (simp add: Activate_def)
  have rep': "te_rep (set_node e ?g ?d) (remove1 e xs)"
    using inv' by (intro te_rep_set_node_out) (auto simp: te_inv_def)
  have act': "te_active (te_nodes (set_node e ?g ?d) x) \<longleftrightarrow> x = e \<or> x \<in> set (remove1 e xs)" for x
    using te_inv_active [OF inv', of x] by (simp add: set_node_def)
  note i = te_inv_AddActiveEvent [OF rep' act' out] AddActiveEvent_refines(2) [OF rep' out]
  have n1: "dc (Activate e ?d) x = dc (set_node e ?g ?d) x \<and>
      te_time_since_last_run (te_nodes (Activate e ?d) x) = te_time_since_last_run (te_nodes (set_node e ?g ?d) x)" for x
    using same_data_node [OF i(2), of x] by (simp only: a)
  have n2: "dc ?d x = dc ?s x \<and>
      te_time_since_last_run (te_nodes ?d x) = te_time_since_last_run (te_nodes ?s x)" for x
    using same_data_node [OF r(2), of x] by (simp only: d)
  have n: "dc (Activate e ?d) x = dc s x"
    "te_time_since_last_run (te_nodes (Activate e ?d) e) = te_time_since_last_run (te_nodes s e)" for x
    using n1 [of x] n2 [of x] n1 [of e] n2 [of e] by (cases "x = e"; simp)+
  have "set (insort_key (dc (set_node e ?g ?d)) e (remove1 e xs)) = set xs"
    using e te_inv_distinct [OF inv] by (auto simp: set_insort_key)
  then show ?thesis
    using inv' i(1) n by (auto simp: a [symmetric])
qed

theorem Deactivate_Activate_witness:
  "te_inv (Deactivate 1 te_three) (remove1 1 [0, 1, 2]) \<and>
    (\<exists>ys. te_inv (Activate 1 (Deactivate 1 te_three)) ys \<and> set ys = set [0, 1, 2] \<and>
      dc (Activate 1 (Deactivate 1 te_three)) = dc te_three \<and>
      te_time_since_last_run (te_nodes (Activate 1 (Deactivate 1 te_three)) 1) =
        te_time_since_last_run (te_nodes te_three 1))"
  by (rule Deactivate_Activate [OF te_inv_three]) simp

text \<open>
  \<open>SortEvents\<close> (used after a save state has been loaded) rebuilds the list as a sorted
  permutation of the events that were in it.
\<close>

theorem SortEvents_sorts:
  assumes rep: "te_rep s xs"
  shows "\<exists>ys. te_rep (SortEvents s) ys \<and> sorted (map (dc (SortEvents s)) ys) \<and> mset ys = mset xs \<and>
    dc (SortEvents s) = dc s"
proof -
  obtain ys where "te_rep (SortEvents s) ys" "sorted (map (dc s) ys)" "mset ys = mset xs"
    "dc (SortEvents s) = dc s"
    using SortEvents_spec [OF rep] by blast
  then show ?thesis by (intro exI [of _ ys]) simp
qed

theorem SortEvents_sorts_witness:
  "\<exists>ys. te_rep (SortEvents te_three) ys \<and> sorted (map (dc (SortEvents te_three)) ys) \<and>
    mset ys = mset [0, 1, 2] \<and> dc (SortEvents te_three) = dc te_three"
  using te_inv_three by (intro SortEvents_sorts) (simp add: te_inv_def)

subsection \<open>Two limits of the queue\<close>

lemma SortEvent_head_earlier:
  assumes inv: "te_inv s (e # xs)" and srt: "te_sorted s (e # xs)"
    and le: "\<And>x. x \<in> set xs \<Longrightarrow> dc t e \<le> dc t x"
    and t: "te_prev (te_nodes t e) = te_prev (te_nodes s e)" "te_next (te_nodes t e) = te_next (te_nodes s e)"
  shows "SortEvent e t = t"
proof -
  have p: "te_prev (te_nodes t e) = None" and n: "te_next (te_nodes t e) = first_of xs None"
    using inv t by (auto simp: te_inv_def te_rep_def te_links_def)
  show ?thesis
    using p n le [of "hd xs"] by (cases xs) (auto simp: SortEvent_def Let_def)
qed

text \<open>
  The head of the queue can be moved to an earlier time without the CPU being told:
  \<open>SortEvent\<close> returns without \<open>UpdateCPUDowncount\<close> when the event stays at the front, so the CPU
  keeps the old, larger downcount and the event runs late.
\<close>

theorem Schedule_head_earlier_keeps_downcount:
  assumes inv: "te_inv s (e # xs)" and srt: "te_sorted s (e # xs)"
    and earlier: "pending_ticks s + ticks < dc s e" and c: "s_current_event s \<noteq> Some e"
  shows "downcount (Schedule e ticks s) = downcount s \<and>
    s_active_events_head (Schedule e ticks s) = Some e \<and>
    dc (Schedule e ticks s) e = pending_ticks s + ticks"
proof -
  let ?t = "set_node e (te_downcount_update (\<lambda>_. pending_ticks s + ticks)) s"
  have d: "distinct (e # xs)" using inv by (rule te_inv_distinct)
  have le: "dc ?t e \<le> dc ?t x" if "x \<in> set xs" for x
    using that srt earlier d by (auto simp: set_node_def)
  have h: "s_active_events_head s = Some e"
    using inv by (auto simp: te_inv_def intro: te_rep_head)
  have "Schedule e ticks s = SortEvent e ?t"
    using te_inv_active [OF inv, of e] c by (simp add: Schedule_def Let_def set_node_def)
  also have "\<dots> = ?t"
    by (rule SortEvent_head_earlier [OF inv srt le]) (simp_all add: set_node_def)
  finally show ?thesis using h by (simp add: set_node_def)
qed

lemma te_one: "te_inv (Schedule 1 5 te_boot) [1]" "te_sorted (Schedule 1 5 te_boot) [1]"
  "downcount (Schedule 1 5 te_boot) = 5" "dc (Schedule 1 5 te_boot) 1 = 5"
  "pending_ticks (Schedule 1 5 te_boot) = 0" "s_current_event (Schedule 1 5 te_boot) = None"
  by (auto simp: te_inv_def te_rep_def te_links_def te_run_defs cop0_boot_def HasPendingInterrupt_def)

theorem Schedule_head_earlier_keeps_downcount_witness:
  "downcount (Schedule 1 2 (Schedule 1 5 te_boot)) = 5 \<and>
    dc (Schedule 1 2 (Schedule 1 5 te_boot)) 1 = 2"
  using Schedule_head_earlier_keeps_downcount [OF te_one(1) te_one(2), of 2] te_one by simp

text \<open>
  A callback that activates another event can leave the queue out of order: while the
  callback of the first event runs, that event is still at the front with its next, later
  downcount, and \<open>AddActiveEvent\<close> stops at it. Here the event activated with 7 ticks ends up in
  front of the event due in 5 ticks.
\<close>

theorem activation_in_callback_breaks_order:
  "te_inv te_three [0, 1, 2] \<and> te_sorted te_three [0, 1, 2] \<and>
    te_inv (run_head (\<lambda>_ _ _. Schedule 3 7) 0 te_three) [3, 1, 2, 0] \<and>
    map (dc (run_head (\<lambda>_ _ _. Schedule 3 7) 0 te_three)) [3, 1, 2, 0] = [7, 5, 50, 100]"
proof -
  have r: "run_head (\<lambda>_ _ _. Schedule 3 7) 0 te_three = te_boot\<lparr>
     te_nodes := (\<lambda>_. te_construct ''event'' 1 1)
       (0 := \<lparr>te_prev = Some 2, te_next = None, te_downcount = 100, te_time_since_last_run = 0,
              te_period = 1, te_interval = 100, te_active = True, te_name = ''event''\<rparr>,
        1 := \<lparr>te_prev = Some 3, te_next = Some 2, te_downcount = 5, te_time_since_last_run = 0,
              te_period = 1, te_interval = 1, te_active = True, te_name = ''event''\<rparr>,
        2 := \<lparr>te_prev = Some 1, te_next = Some 0, te_downcount = 50, te_time_since_last_run = 0,
              te_period = 1, te_interval = 1, te_active = True, te_name = ''event''\<rparr>,
        3 := \<lparr>te_prev = None, te_next = Some 1, te_downcount = 7, te_time_since_last_run = 0,
              te_period = 1, te_interval = 1, te_active = True, te_name = ''event''\<rparr>),
     s_active_events_head := Some 3, s_active_events_tail := Some 0, s_active_event_count := 4,
     s_current_event := Some 0, downcount := 7\<rparr>"
    by (simp add: te_three_eq run_head_def SortEvent_def unlink_def insert_back_def te_run_defs
        cop0_boot_def HasPendingInterrupt_def numeral_eq_Suc fun_eq_iff)
  show ?thesis
    using te_inv_three te_sorted_three
    by (auto simp: r te_inv_def te_rep_def te_links_def te_boot_def te_construct_def)
qed

end
