(* ===== verification/BaseClaims.thy ===== *)
theory BaseClaims
  imports FifoQueue InterruptController EventClaims
begin

text \<open>
  The properties of the shared building blocks: the ring buffer, the packed decimal digits
  of the CD positions, and the interrupt line.
\<close>

text \<open>
  The ring buffer is a queue. A block write (two \<open>memcpy\<close>s around the end of the buffer)
  appends its elements, and reading everything back gives the old contents followed by the
  block, in order, with the indices wrapping as often as needed.
\<close>

theorem PushRange_PopRange:
  assumes inv: "fifo_inv q" and room: "m_size q + length data \<le> fifo_capacity q"
  shows "fifo_inv (PushRange data q) \<and>
    fst (PopRange (m_size q + length data) (PushRange data q)) = fifo_items q @ data \<and>
    IsEmpty (snd (PopRange (m_size q + length data) (PushRange data q)))"
proof -
  note p = PushRange_spec [OF assms]
  have r: "fst (fifo.pop_n n (PushRange data q)) = take n (fifo_items q @ data)"
    "fifo_items (snd (fifo.pop_n n (PushRange data q))) = drop n (fifo_items q @ data)"
    if "n \<le> m_size q + length data" for n
    using fifo.pop_n_spec [OF p(1), of n] that by (simp_all add: p(2))
  have out: "fst (PopRange (m_size q + length data) (PushRange data q)) = fifo_items q @ data"
    by (simp add: PopRange_pop_n r)
  have "fifo_items (snd (PopRange (m_size q + length data) (PushRange data q))) = []"
    by (simp only: PopRange_pop_n r) simp
  then have "IsEmpty (snd (PopRange (m_size q + length data) (PushRange data q)))"
    by (simp add: IsEmpty_def)
  then show ?thesis using p(1) out by blast
qed

definition fifo_wrapped :: "nat fifo" where
  "fifo_wrapped = \<lparr>m_ptr = [1, 2, 3, 9], m_head = 3, m_tail = 0, m_size = 1\<rparr>"

theorem PushRange_PopRange_witness:
  "fst (PopRange 4 (PushRange [5, 6, 7] fifo_wrapped)) = [9, 5, 6, 7] \<and>
    IsEmpty (snd (PopRange 4 (PushRange [5, 6, 7] fifo_wrapped)))"
proof -
  have inv: "fifo_inv fifo_wrapped" and items: "fifo_items fifo_wrapped = [9]"
    and room: "m_size fifo_wrapped + length [5, 6, 7 :: nat] \<le> fifo_capacity fifo_wrapped"
    and n: "m_size fifo_wrapped + length [5, 6, 7 :: nat] = 4"
    by (simp_all add: fifo_wrapped_def fifo_inv_def fifo_items_def)
  show ?thesis
    using PushRange_PopRange [OF inv room] unfolding n items by simp
qed

text \<open>
  The two conversions between a byte and packed decimal are inverse to each other, on the
  numbers up to 99 and on the valid packed values.
\<close>

theorem BCD_roundtrip:
  "(v \<le> 99 \<longrightarrow> IsValidPackedBCD (BinaryToBCD v) \<and> PackedBCDToBinary (BinaryToBCD v) = v) \<and>
   (IsValidPackedBCD v \<longrightarrow> PackedBCDToBinary v \<le> 99 \<and> BinaryToBCD (PackedBCDToBinary v) = v)"
  using PackedBCDToBinary_BinaryToBCD BinaryToBCD_PackedBCDToBinary by blast

theorem BCD_roundtrip_witness:
  "PackedBCDToBinary (BinaryToBCD 74) = 74 \<and> BinaryToBCD (PackedBCDToBinary 0x59) = 0x59"
  using BCD_roundtrip [of 74] BCD_roundtrip [of "0x59"]
  by (simp add: IsValidPackedBCD_unat)

text \<open>
  The interrupt controller drives the CPU's line. After any request or register write bit 10
  of \<open>CAUSE\<close> is exactly "some selected request is pending"; a selected request that is
  raised is visible, stays visible when others are acknowledged, and acknowledging everything
  drops the line.
\<close>

theorem irq_line_correct:
  assumes i: "i < 11" and sel: "bit (m_interrupt_mask_register s) i" and keep: "bit keep i"
  shows "irq_inv (InterruptRequest i s) \<and> (irq_inv s \<longrightarrow> irq_inv (irq_WriteRegister offset val s)) \<and>
    irq_line (InterruptRequest i s) \<and> irq_line (irq_WriteRegister 0 keep (InterruptRequest i s)) \<and>
    \<not> irq_line (irq_WriteRegister 0 0 (InterruptRequest i s))"
  using irq_inv_InterruptRequest irq_inv_WriteRegister irq.raise_visible [OF i sel]
    irq.raise_survives [OF i sel keep] irq.ack_all_clears
  by blast

definition irq_boot :: irq_state where
  "irq_boot = te_state.extend te_boot (irq_state.fields 0 0x7F)"

theorem irq_line_correct_witness:
  "irq_line (InterruptRequest 4 irq_boot) \<and>
    irq_line (irq_WriteRegister 0 0x10 (InterruptRequest 4 irq_boot)) \<and>
    \<not> irq_line (irq_WriteRegister 0 0 (InterruptRequest 4 irq_boot))"
  using irq_line_correct [of 4 irq_boot "0x10"]
  by (simp add: irq_boot_def te_state.defs irq_state.defs bit_numeral_rec)

end
