(* ===== verification/Timers.thy ===== *)
theory Timers
  imports InterruptController
begin

text \<open>
  The three root counters (\<open>src/core/timers.cpp\<close>, \<open>src/core/timers.h\<close>). A timer counts
  system clocks (through one timing event that batches them), or dots, scanlines or eighths of
  the system clock; it requests an interrupt at its target or on overflow. The bits of
  \<open>CounterMode\<close> are named by their positions. The GPU's \<open>IsCRTCScanlinePending\<close> and
  \<open>SynchronizeCRTC\<close>, which the register accesses call for an externally clocked timer, are
  arguments of the operations that call them. Every register access first runs the event
  early (\<open>InvokeEarly\<close> with the callback \<open>AddSysClkTicks\<close>), so the counters are up to date.
\<close>

subsection \<open>State\<close>

abbreviation (input) sync_enable :: "u32 \<Rightarrow> bool" where "sync_enable m \<equiv> bit m 0"
abbreviation (input) sync_mode :: "u32 \<Rightarrow> u32" where "sync_mode m \<equiv> bf_get 1 2 m"
abbreviation (input) reset_at_target :: "u32 \<Rightarrow> bool" where "reset_at_target m \<equiv> bit m 3"
abbreviation (input) irq_at_target :: "u32 \<Rightarrow> bool" where "irq_at_target m \<equiv> bit m 4"
abbreviation (input) irq_on_overflow :: "u32 \<Rightarrow> bool" where "irq_on_overflow m \<equiv> bit m 5"
abbreviation (input) irq_repeat :: "u32 \<Rightarrow> bool" where "irq_repeat m \<equiv> bit m 6"
abbreviation (input) irq_pulse_n :: "u32 \<Rightarrow> bool" where "irq_pulse_n m \<equiv> bit m 7"
abbreviation (input) clock_source :: "u32 \<Rightarrow> u32" where "clock_source m \<equiv> bf_get 8 2 m"
abbreviation (input) interrupt_request_n :: "u32 \<Rightarrow> bool" where "interrupt_request_n m \<equiv> bit m 10"

record counter_state =
  cs_mode :: u32
  cs_counter :: u32
  cs_target :: u32
  cs_gate :: bool
  cs_use_external_clock :: bool
  cs_external_counting_enabled :: bool
  cs_counting_enabled :: bool
  cs_irq_done :: bool

record timers_state = irq_state +
  m_states :: "counter_state list"
  m_syclk_ticks_carry :: tick_count
  m_sysclk_div_8_carry :: u32
  cfg_cpu_overclock_active :: bool
  cfg_cpu_overclock_numerator :: u32
  cfg_cpu_overclock_denominator :: u32
  max_slice_ticks :: tick_count

text \<open>The address of \<open>m_sysclk_event\<close> in the event store.\<close>

definition m_sysclk_event :: nat where "m_sysclk_event = 0"

abbreviation timer_st :: "nat \<Rightarrow> 'a timers_state_scheme \<Rightarrow> counter_state" where
  "timer_st i s \<equiv> m_states s ! i"

definition upd_timer :: "nat \<Rightarrow> (counter_state \<Rightarrow> counter_state) \<Rightarrow> 'a timers_state_scheme \<Rightarrow> 'a timers_state_scheme" where
  "upd_timer i f s = s\<lparr>m_states := modify_at i f (m_states s)\<rparr>"

definition IsUsingExternalClock :: "nat \<Rightarrow> 'a timers_state_scheme \<Rightarrow> bool" where
  "IsUsingExternalClock i s \<longleftrightarrow> cs_external_counting_enabled (timer_st i s)"

definition IsSyncEnabled :: "nat \<Rightarrow> 'a timers_state_scheme \<Rightarrow> bool" where
  "IsSyncEnabled i s \<longleftrightarrow> sync_enable (cs_mode (timer_st i s))"

definition IsExternalIRQEnabled :: "nat \<Rightarrow> 'a timers_state_scheme \<Rightarrow> bool" where
  "IsExternalIRQEnabled i s \<longleftrightarrow> cs_external_counting_enabled (timer_st i s) \<and>
     cs_mode (timer_st i s) AND (push_bit 4 1 OR push_bit 5 1) \<noteq> 0"

subsection \<open>Overclocking\<close>

definition ScaleTicksToOverclock :: "tick_count \<Rightarrow> 'a timers_state_scheme \<Rightarrow> tick_count" where
  "ScaleTicksToOverclock ticks s =
     (if \<not> cfg_cpu_overclock_active s then ticks
      else sint (ucast ((ucast (word_of_int ticks :: u32) * ucast (cfg_cpu_overclock_numerator s) :: u64) div
                        ucast (cfg_cpu_overclock_denominator s)) :: u32))"

definition UnscaleTicksToOverclock :: "tick_count \<Rightarrow> tick_count \<Rightarrow> 'a timers_state_scheme \<Rightarrow> tick_count \<times> tick_count" where
  "UnscaleTicksToOverclock ticks remainder s =
     (let num = ucast (word_of_int ticks :: u32) * ucast (cfg_cpu_overclock_denominator s)
                + ucast (word_of_int remainder :: u32) :: u64
      in (sint (ucast (num div ucast (cfg_cpu_overclock_numerator s)) :: u32),
          sint (ucast (num mod ucast (cfg_cpu_overclock_numerator s)) :: u32)))"

definition CPUClocksChanged :: "'a timers_state_scheme \<Rightarrow> 'a timers_state_scheme" where
  "CPUClocksChanged s = s\<lparr>m_syclk_ticks_carry := 0\<rparr>"

subsection \<open>Interrupts of a timer\<close>

definition UpdateIRQ :: "nat \<Rightarrow> 'a timers_state_scheme \<Rightarrow> 'a timers_state_scheme" where
  "UpdateIRQ i s =
     (let cs = timer_st i s
      in if interrupt_request_n (cs_mode cs) \<or> (\<not> irq_repeat (cs_mode cs) \<and> cs_irq_done cs) then s
         else InterruptRequest (irq_number IRQ_TMR0 + i) (upd_timer i (cs_irq_done_update (\<lambda>_. True)) s))"

text \<open>The counter after the target and overflow checks, and whether they request an interrupt.\<close>

definition counter_check :: "u32 \<Rightarrow> counter_state \<Rightarrow> bool \<times> counter_state" where
  "counter_check old_counter cs =
     (let hit = (cs_counter cs \<ge> cs_target cs \<and> (old_counter < cs_target cs \<or> cs_target cs = 0));
          cs1 = (if hit
                 then cs\<lparr>cs_mode := assign_bit 11 True (cs_mode cs),
                         cs_counter := (if reset_at_target (cs_mode cs) \<and> cs_target cs > 0
                                        then cs_counter cs mod cs_target cs else cs_counter cs)\<rparr>
                 else cs);
          overflow = (cs_counter cs1 \<ge> 0xFFFF);
          cs2 = (if overflow
                 then cs1\<lparr>cs_mode := assign_bit 12 True (cs_mode cs1),
                          cs_counter := cs_counter cs1 mod 0xFFFF\<rparr>
                 else cs1)
      in ((hit \<and> irq_at_target (cs_mode cs)) \<or> (overflow \<and> irq_on_overflow (cs_mode cs)), cs2))"

definition CheckForIRQ :: "nat \<Rightarrow> u32 \<Rightarrow> 'a timers_state_scheme \<Rightarrow> 'a timers_state_scheme" where
  "CheckForIRQ i old_counter s =
     (let (interrupt_request, cs) = counter_check old_counter (timer_st i s);
          s1 = upd_timer i (\<lambda>_. cs) s;
          set_n = (\<lambda>b. upd_timer i (\<lambda>c. c\<lparr>cs_mode := assign_bit 10 b (cs_mode c)\<rparr>))
      in if \<not> interrupt_request then s1
         else if \<not> irq_pulse_n (cs_mode cs)
              then set_n True (UpdateIRQ i (set_n False s1))
              else UpdateIRQ i (set_n (\<not> interrupt_request_n (cs_mode cs)) s1))"

definition AddTicks :: "nat \<Rightarrow> tick_count \<Rightarrow> 'a timers_state_scheme \<Rightarrow> 'a timers_state_scheme" where
  "AddTicks i ticks s =
     (let old_counter = cs_counter (timer_st i s)
      in CheckForIRQ i old_counter (upd_timer i (\<lambda>c. c\<lparr>cs_counter := cs_counter c + word_of_int ticks\<rparr>) s))"

subsection \<open>The timing event\<close>

definition INT32_MAX :: tick_count where "INT32_MAX = 2 ^ 31 - 1"

definition GetTicksUntilIRQ :: "nat \<Rightarrow> 'a timers_state_scheme \<Rightarrow> tick_count" where
  "GetTicksUntilIRQ i s =
     (let cs = timer_st i s
      in if \<not> cs_counting_enabled cs then INT32_MAX
         else let t = (if irq_at_target (cs_mode cs) \<and> cs_counter cs < cs_target cs
                       then sint (cs_target cs - cs_counter cs) else INT32_MAX)
              in if irq_on_overflow (cs_mode cs) then min t (sint (0xFFFF - cs_counter cs)) else t)"

definition timer_ticks :: "nat \<Rightarrow> counter_state \<Rightarrow> tick_count \<Rightarrow> tick_count" where
  "timer_ticks i cs min_ticks =
     (if \<not> cs_counting_enabled cs \<or> (i < 2 \<and> cs_external_counting_enabled cs) \<or>
         (\<not> irq_at_target (cs_mode cs) \<and> \<not> irq_on_overflow (cs_mode cs) \<and>
          (irq_repeat (cs_mode cs) \<or> \<not> cs_irq_done cs))
      then min_ticks
      else let scale = (\<lambda>t. if cs_external_counting_enabled cs then t * 8 else t);
               m1 = (if irq_at_target (cs_mode cs)
                     then min min_ticks (scale (if cs_counter cs \<le> cs_target cs
                                                then sint (cs_target cs - cs_counter cs)
                                                else sint ((0xFFFF - cs_counter cs) + cs_target cs)))
                     else min_ticks)
           in if irq_on_overflow (cs_mode cs) then min m1 (scale (sint (0xFFFF - cs_counter cs))) else m1)"

definition GetTicksUntilNextInterrupt :: "'a timers_state_scheme \<Rightarrow> tick_count" where
  "GetTicksUntilNextInterrupt s =
     (let m = fold (\<lambda>i. timer_ticks i (timer_st i s)) [0, 1, 2] (max_slice_ticks s)
      in ScaleTicksToOverclock (max 1 m) s)"

definition UpdateSysClkEvent :: "'a timers_state_scheme \<Rightarrow> 'a timers_state_scheme" where
  "UpdateSysClkEvent s = Schedule m_sysclk_event (GetTicksUntilNextInterrupt s) s"

text \<open>The part of \<open>AddSysClkTicks\<close> that counts, for the three counters in turn.\<close>

definition add_three :: "tick_count \<Rightarrow> 'a timers_state_scheme \<Rightarrow> 'a timers_state_scheme" where
  "add_three n s =
     (let s1 = (if \<not> cs_external_counting_enabled (timer_st 0 s) \<and> cs_counting_enabled (timer_st 0 s)
                then AddTicks 0 n s else s);
          s2 = (if \<not> cs_external_counting_enabled (timer_st 1 s1) \<and> cs_counting_enabled (timer_st 1 s1)
                then AddTicks 1 n s1 else s1)
      in if cs_external_counting_enabled (timer_st 2 s2)
         then (let sum = word_of_int n + m_sysclk_div_8_carry s2
               in AddTicks 2 (sint (sum div 8)) (s2\<lparr>m_sysclk_div_8_carry := sum mod 8\<rparr>))
         else if cs_counting_enabled (timer_st 2 s2) then AddTicks 2 n s2
         else s2)"

definition AddSysClkTicks :: "tick_count \<Rightarrow> 'a timers_state_scheme \<Rightarrow> 'a timers_state_scheme" where
  "AddSysClkTicks sysclk_ticks s =
     UpdateSysClkEvent
       (if cfg_cpu_overclock_active s
        then (let (t, r) = UnscaleTicksToOverclock sysclk_ticks (m_syclk_ticks_carry s) s
              in add_three t (s\<lparr>m_syclk_ticks_carry := r\<rparr>))
        else add_three sysclk_ticks s)"

definition sysclk_callback :: "tick_count \<Rightarrow> tick_count \<Rightarrow> 'a timers_state_scheme \<Rightarrow> 'a timers_state_scheme" where
  "sysclk_callback ticks ticks_late s = AddSysClkTicks ticks s"

abbreviation sysclk_InvokeEarly :: "'a timers_state_scheme \<Rightarrow> 'a timers_state_scheme" where
  "sysclk_InvokeEarly \<equiv> InvokeEarly sysclk_callback m_sysclk_event False"

subsection \<open>Gates and registers\<close>

definition UpdateCountingEnabled :: "counter_state \<Rightarrow> counter_state" where
  "UpdateCountingEnabled cs =
     (let cs1 = (if sync_enable (cs_mode cs)
                 then (if sync_mode (cs_mode cs) = 0 then cs\<lparr>cs_counting_enabled := \<not> cs_gate cs\<rparr>
                       else if sync_mode (cs_mode cs) = 1 then cs\<lparr>cs_counting_enabled := True\<rparr>
                       else cs\<lparr>cs_counting_enabled := cs_gate cs\<rparr>)
                 else cs\<lparr>cs_counting_enabled := True\<rparr>)
      in cs1\<lparr>cs_external_counting_enabled := cs_use_external_clock cs1 \<and> cs_counting_enabled cs1\<rparr>)"

definition SetGate :: "nat \<Rightarrow> bool \<Rightarrow> 'a timers_state_scheme \<Rightarrow> 'a timers_state_scheme" where
  "SetGate i state s =
     (if cs_gate (timer_st i s) = state then s
      else let s1 = upd_timer i (cs_gate_update (\<lambda>_. state)) s
           in if \<not> sync_enable (cs_mode (timer_st i s1)) then s1
              else let s2 = (if cs_counting_enabled (timer_st i s1) \<and> \<not> cs_use_external_clock (timer_st i s1)
                             then sysclk_InvokeEarly s1 else s1);
                       m = sync_mode (cs_mode (timer_st i s2));
                       s3 = (if state
                             then (if m = 1 \<or> m = 2 then upd_timer i (cs_counter_update (\<lambda>_. 0)) s2
                                   else if m = 3
                                   then upd_timer i (\<lambda>c. c\<lparr>cs_mode := assign_bit 0 False (cs_mode c)\<rparr>) s2
                                   else s2)
                             else s2)
                   in UpdateSysClkEvent (upd_timer i UpdateCountingEnabled s3))"

definition timers_Reset :: "'a timers_state_scheme \<Rightarrow> 'a timers_state_scheme" where
  "timers_Reset s =
     UpdateSysClkEvent
       (s\<lparr>m_states := map (\<lambda>cs. cs\<lparr>cs_mode := assign_bit 10 True 0, cs_counter := 0, cs_target := 0,
              cs_gate := False, cs_external_counting_enabled := False, cs_counting_enabled := True,
              cs_irq_done := False\<rparr>) (m_states s),
          m_syclk_ticks_carry := 0, m_sysclk_div_8_carry := 0\<rparr>)"

definition sync_crtc ::
  "('a timers_state_scheme \<Rightarrow> bool) \<Rightarrow> ('a timers_state_scheme \<Rightarrow> 'a timers_state_scheme) \<Rightarrow> nat
    \<Rightarrow> 'a timers_state_scheme \<Rightarrow> 'a timers_state_scheme" where
  "sync_crtc scanline_pending synchronize i s =
     (if i < 2 \<and> cs_external_counting_enabled (timer_st i s)
      then (if i = 0 \<or> scanline_pending s then synchronize s else s) else s)"

definition timers_ReadRegister ::
  "('a timers_state_scheme \<Rightarrow> bool) \<Rightarrow> ('a timers_state_scheme \<Rightarrow> 'a timers_state_scheme) \<Rightarrow> u32
    \<Rightarrow> 'a timers_state_scheme \<Rightarrow> u32 \<times> 'a timers_state_scheme" where
  "timers_ReadRegister scanline_pending synchronize offset s =
     (let i = unat (drop_bit 4 offset AND 0x03); port = offset AND 0x0F
      in if i \<ge> 3 then (0xFFFFFFFF, s)
         else if port = 0x00 then
           (let s1 = sysclk_InvokeEarly (sync_crtc scanline_pending synchronize i s)
            in (cs_counter (timer_st i s1), s1))
         else if port = 0x04 then
           (let s1 = sysclk_InvokeEarly (sync_crtc scanline_pending synchronize i s)
            in (cs_mode (timer_st i s1),
                upd_timer i (\<lambda>c. c\<lparr>cs_mode := assign_bit 11 False (assign_bit 12 False (cs_mode c))\<rparr>) s1))
         else if port = 0x08 then (cs_target (timer_st i s), s)
         else (0xFFFFFFFF, s))"

definition TIMER_WRITE_MASK :: u32 where "TIMER_WRITE_MASK = 0xE3FF"

definition timers_WriteRegister ::
  "('a timers_state_scheme \<Rightarrow> bool) \<Rightarrow> ('a timers_state_scheme \<Rightarrow> 'a timers_state_scheme) \<Rightarrow> u32 \<Rightarrow> u32
    \<Rightarrow> 'a timers_state_scheme \<Rightarrow> 'a timers_state_scheme" where
  "timers_WriteRegister scanline_pending synchronize offset val s =
     (let i = unat (drop_bit 4 offset AND 0x03); port = offset AND 0x0F
      in if i \<ge> 3 then s
         else
           let s1 = sysclk_InvokeEarly (sync_crtc scanline_pending synchronize i s);
               resched = (\<lambda>t. if i = 2 \<or> \<not> cs_external_counting_enabled (timer_st i t)
                              then UpdateSysClkEvent t else t)
           in if port = 0x00 then
                (let old_counter = cs_counter (timer_st i s1)
                 in resched (CheckForIRQ i old_counter
                      (upd_timer i (cs_counter_update (\<lambda>_. val AND 0xFFFF)) s1)))
              else if port = 0x04 then
                (let s2 = upd_timer i (\<lambda>c.
                       let m = masked_write TIMER_WRITE_MASK (cs_mode c) val
                       in UpdateCountingEnabled
                            (c\<lparr>cs_mode := m,
                               cs_use_external_clock := (clock_source m AND (if i = 2 then 2 else 1) \<noteq> 0),
                               cs_counter := 0, cs_irq_done := False\<rparr>)) s1
                 in UpdateSysClkEvent (UpdateIRQ i (CheckForIRQ i (cs_counter (timer_st i s2)) s2)))
              else if port = 0x08 then
                (let s2 = upd_timer i (cs_target_update (\<lambda>_. val AND 0xFFFF)) s1
                 in resched (CheckForIRQ i (cs_counter (timer_st i s2)) s2))
              else s1)"

end
