(* ===== verification/TimersSpec.thy ===== *)
theory TimersSpec
  imports Timers EventClaims
begin

text \<open>
  The timers' invariant (counters below 0xFFFF, targets of 16 bits), what their operations
  leave alone, the arithmetic of batched ticks, and the interpretation of the event queue's
  contract on the timers' callback.
\<close>

subsection \<open>What the timers leave alone\<close>

text \<open>The queue as an event handler sees it; \<open>te_inv\<close> and the scheduler read nothing else.\<close>

definition te_view where
  "te_view s = (te_nodes s, s_active_events_head s, s_active_events_tail s, s_current_event s,
     s_active_event_count s, s_global_tick_counter s, pending_ticks s)"

lemma te_view_fields:
  assumes "te_view s = te_view t"
  shows "te_nodes s = te_nodes t" "s_current_event s = s_current_event t"
    "s_global_tick_counter s = s_global_tick_counter t" "pending_ticks s = pending_ticks t"
    "te_inv s xs = te_inv t xs"
  using assms by (simp_all add: te_view_def te_inv_def te_rep_def te_links_def)

lemma te_view_upd_timer [simp]: "te_view (upd_timer i f s) = te_view s"
  by (simp add: te_view_def upd_timer_def)

lemma te_view_InterruptRequest [simp]: "te_view (InterruptRequest irq s) = te_view s"
  by (simp add: te_view_def)

lemma te_view_UpdateIRQ [simp]: "te_view (UpdateIRQ i s) = te_view s"
  by (simp add: UpdateIRQ_def Let_def)

lemma te_view_CheckForIRQ [simp]: "te_view (CheckForIRQ i old s) = te_view s"
  by (simp add: CheckForIRQ_def Let_def case_prod_beta)

lemma te_view_AddTicks [simp]: "te_view (AddTicks i n s) = te_view s"
  by (simp add: AddTicks_def Let_def)

text \<open>The timers' own fields through a request.\<close>

lemma InterruptRequest_timers [simp]:
  fixes s :: "'a timers_state_scheme"
  shows "m_states (InterruptRequest irq s) = m_states s"
    "max_slice_ticks (InterruptRequest irq s) = max_slice_ticks s"
    "cfg_cpu_overclock_active (InterruptRequest irq s) = cfg_cpu_overclock_active s"
    "m_syclk_ticks_carry (InterruptRequest irq s) = m_syclk_ticks_carry s"
    "m_sysclk_div_8_carry (InterruptRequest irq s) = m_sysclk_div_8_carry s"
    "timers_state.more (InterruptRequest irq s) = timers_state.more s"
  using InterruptRequest_frame(8) [of irq s]
  by (cases s; cases "InterruptRequest irq s"; simp)+

lemma upd_timer_fields [simp]:
  "m_states (upd_timer i f s) = modify_at i f (m_states s)"
  "max_slice_ticks (upd_timer i f s) = max_slice_ticks s"
  "cfg_cpu_overclock_active (upd_timer i f s) = cfg_cpu_overclock_active s"
  "m_sysclk_div_8_carry (upd_timer i f s) = m_sysclk_div_8_carry s"
  "m_interrupt_status_register (upd_timer i f s) = m_interrupt_status_register s"
  "m_interrupt_mask_register (upd_timer i f s) = m_interrupt_mask_register s"
  by (simp_all add: upd_timer_def)

lemma UpdateIRQ_fields [simp]:
  "max_slice_ticks (UpdateIRQ i s) = max_slice_ticks s"
  "cfg_cpu_overclock_active (UpdateIRQ i s) = cfg_cpu_overclock_active s"
  "length (m_states (UpdateIRQ i s)) = length (m_states s)"
  by (simp_all add: UpdateIRQ_def Let_def)

lemma CheckForIRQ_fields [simp]:
  "max_slice_ticks (CheckForIRQ i old s) = max_slice_ticks s"
  "cfg_cpu_overclock_active (CheckForIRQ i old s) = cfg_cpu_overclock_active s"
  "length (m_states (CheckForIRQ i old s)) = length (m_states s)"
  by (simp_all add: CheckForIRQ_def Let_def case_prod_beta)

lemma AddTicks_fields [simp]:
  "max_slice_ticks (AddTicks i n s) = max_slice_ticks s"
  "cfg_cpu_overclock_active (AddTicks i n s) = cfg_cpu_overclock_active s"
  "length (m_states (AddTicks i n s)) = length (m_states s)"
  by (simp_all add: AddTicks_def Let_def)

text \<open>Only the flags of the mode change when an interrupt is raised.\<close>

lemma UpdateIRQ_counter:
  assumes "j < length (m_states s)"
  shows "cs_counter (timer_st j (UpdateIRQ i s)) = cs_counter (timer_st j s)"
    "cs_target (timer_st j (UpdateIRQ i s)) = cs_target (timer_st j s)"
    "cs_mode (timer_st j (UpdateIRQ i s)) = cs_mode (timer_st j s)"
    "cs_counting_enabled (timer_st j (UpdateIRQ i s)) = cs_counting_enabled (timer_st j s)"
    "cs_external_counting_enabled (timer_st j (UpdateIRQ i s)) = cs_external_counting_enabled (timer_st j s)"
  using assms by (auto simp: UpdateIRQ_def Let_def nth_modify_at_same_length)

lemma CheckForIRQ_counter:
  assumes j: "j < length (m_states s)"
  shows "cs_counter (timer_st j (CheckForIRQ i old s)) =
      (if j = i then cs_counter (snd (counter_check old (timer_st i s))) else cs_counter (timer_st j s))"
    "cs_target (timer_st j (CheckForIRQ i old s)) = cs_target (timer_st j s)"
    "reset_at_target (cs_mode (timer_st j (CheckForIRQ i old s))) = reset_at_target (cs_mode (timer_st j s))"
proof -
  have t: "cs_target (snd (counter_check old c)) = cs_target c"
    "reset_at_target (cs_mode (snd (counter_check old c))) = reset_at_target (cs_mode c)" for c
    by (simp_all add: counter_check_def Let_def)
  show "cs_counter (timer_st j (CheckForIRQ i old s)) =
      (if j = i then cs_counter (snd (counter_check old (timer_st i s))) else cs_counter (timer_st j s))"
    "cs_target (timer_st j (CheckForIRQ i old s)) = cs_target (timer_st j s)"
    "reset_at_target (cs_mode (timer_st j (CheckForIRQ i old s))) = reset_at_target (cs_mode (timer_st j s))"
    using j t by (auto simp: CheckForIRQ_def Let_def case_prod_beta UpdateIRQ_counter nth_modify_at_same_length)
qed

subsection \<open>The counters stay in range\<close>

definition cs_ok :: "counter_state \<Rightarrow> bool" where
  "cs_ok c \<longleftrightarrow> cs_counter c < 0xFFFF \<and> cs_target c \<le> 0xFFFF"

definition timers_inv :: "'a timers_state_scheme \<Rightarrow> bool" where
  "timers_inv s \<longleftrightarrow> length (m_states s) = 3 \<and> list_all cs_ok (m_states s) \<and> 0 < max_slice_ticks s"

lemma timers_inv_nth: "timers_inv s \<Longrightarrow> i < 3 \<Longrightarrow> cs_ok (timer_st i s)"
  by (simp add: timers_inv_def list_all_length)

lemma timers_inv_I:
  assumes "length (m_states s) = 3" and "\<And>i. i < 3 \<Longrightarrow> cs_ok (timer_st i s)" and "0 < max_slice_ticks s"
  shows "timers_inv s"
  using assms by (simp add: timers_inv_def list_all_length)

lemma word_mod_less: "0 < (b :: 'w::len word) \<Longrightarrow> a mod b < b"
  by (simp add: word_less_nat_alt unat_mod word_neq_0_conv)

lemma counter_check_range:
  assumes "cs_target c \<le> 0xFFFF"
  shows "cs_ok (snd (counter_check old c))"
proof -
  have m: "x mod 0xFFFF < (0xFFFF :: u32)" for x
    by (rule word_mod_less) simp
  show ?thesis
    using assms m by (auto simp: counter_check_def Let_def cs_ok_def not_le)
qed

lemma timers_inv_CheckForIRQ [preserves]:
  assumes l: "length (m_states s) = 3" and m: "0 < max_slice_ticks s" and i: "i < 3"
    and t: "\<And>j. j < 3 \<Longrightarrow> cs_target (timer_st j s) \<le> 0xFFFF"
    and c: "\<And>j. j < 3 \<Longrightarrow> j \<noteq> i \<Longrightarrow> cs_counter (timer_st j s) < 0xFFFF"
  shows "timers_inv (CheckForIRQ i old s)"
proof (rule timers_inv_I)
  fix j :: nat assume j: "j < 3"
  then show "cs_ok (timer_st j (CheckForIRQ i old s))"
    using CheckForIRQ_counter [of j s i old] l t [OF j] c [OF j] counter_check_range [OF t [OF i], of old]
    by (auto simp: cs_ok_def)
qed (simp_all add: l m)

lemma timers_inv_AddTicks [preserves]:
  "timers_inv s \<Longrightarrow> i < 3 \<Longrightarrow> timers_inv (AddTicks i n s)"
  unfolding AddTicks_def Let_def
  by (rule timers_inv_CheckForIRQ)
    (auto simp: timers_inv_def list_all_length cs_ok_def nth_modify_at_same_length)

text \<open>Operations that agree on the fields the invariant reads.\<close>

lemma timers_inv_cong:
  assumes "timers_inv s" and "m_states t = m_states s" and "max_slice_ticks t = max_slice_ticks s"
  shows "timers_inv t"
  using assms by (simp add: timers_inv_def)

lemma timers_more_fields:
  fixes s t :: "'a timers_state_scheme"
  assumes "te_state.more s = te_state.more t"
  shows "m_states s = m_states t" "max_slice_ticks s = max_slice_ticks t"
    "cfg_cpu_overclock_active s = cfg_cpu_overclock_active t"
    "m_sysclk_div_8_carry s = m_sysclk_div_8_carry t"
    "m_interrupt_status_register s = m_interrupt_status_register t"
  using assms by (cases s; cases t; simp)+

lemmas Schedule_timers = timers_more_fields [OF te_rest_fields(4) [OF te_rest_Schedule]]
lemmas SortEvent_timers = timers_more_fields [OF te_rest_fields(4) [OF te_rest_SortEvent]]

lemma timers_inv_UpdateSysClkEvent [preserves]: "timers_inv s \<Longrightarrow> timers_inv (UpdateSysClkEvent s)"
  unfolding UpdateSysClkEvent_def by (rule timers_inv_cong) (simp_all add: Schedule_timers)

lemma timers_inv_SortEvent [preserves]: "timers_inv s \<Longrightarrow> timers_inv (SortEvent e s)"
  by (rule timers_inv_cong) (simp_all add: SortEvent_timers)

lemma timers_inv_set_node [preserves]: "timers_inv s \<Longrightarrow> timers_inv (set_node e f s)"
  by (rule timers_inv_cong) (simp_all add: set_node_def)

text \<open>Invariants through the operations' local definitions and conditionals.\<close>

lemma pred_let: "P a \<Longrightarrow> (\<And>x. P x \<Longrightarrow> Q (f x)) \<Longrightarrow> Q (Let a f)"
  by (simp add: Let_def)

lemma pred_let_val: "(\<And>x. Q (f x)) \<Longrightarrow> Q (Let a f)"
  by (simp add: Let_def)

lemma pred_if: "(c \<Longrightarrow> P a) \<Longrightarrow> (\<not> c \<Longrightarrow> P b) \<Longrightarrow> P (if c then a else b)"
  by simp

lemmas timers_inv_struct =
  pred_let [where P = timers_inv and Q = timers_inv] pred_if [where P = timers_inv]
lemmas timers_inv_val = pred_let_val [where Q = timers_inv]

lemma te_view_add_three [simp]: "te_view (add_three n s) = te_view s"
proof -
  have "te_view (t\<lparr>m_sysclk_div_8_carry := x\<rparr>) = te_view t" for t :: "'a timers_state_scheme" and x
    by (simp add: te_view_def)
  then show ?thesis
    unfolding add_three_def
    by (intro pred_let [where P = "\<lambda>x. te_view x = te_view s" and Q = "\<lambda>x. te_view x = te_view s"];
        simp add: Let_def)
qed

lemma add_three_fields [simp]:
  "max_slice_ticks (add_three n s) = max_slice_ticks s"
  "cfg_cpu_overclock_active (add_three n s) = cfg_cpu_overclock_active s"
proof -
  let ?P = "\<lambda>x. max_slice_ticks x = max_slice_ticks s" and
    ?Q = "\<lambda>x. cfg_cpu_overclock_active x = cfg_cpu_overclock_active s"
  show "max_slice_ticks (add_three n s) = max_slice_ticks s"
    unfolding add_three_def
    by (intro pred_let [where P = ?P and Q = ?P]; simp add: Let_def)
  show "cfg_cpu_overclock_active (add_three n s) = cfg_cpu_overclock_active s"
    unfolding add_three_def
    by (intro pred_let [where P = ?Q and Q = ?Q]; simp add: Let_def)
qed

lemma timers_inv_add_three [preserves]: "timers_inv s \<Longrightarrow> timers_inv (add_three n s)"
proof -
  assume a: "timers_inv s"
  have c: "timers_inv t \<Longrightarrow> timers_inv (t\<lparr>m_sysclk_div_8_carry := x\<rparr>)"
    for t :: "'a timers_state_scheme" and x
    by (rule timers_inv_cong) simp_all
  show ?thesis
    unfolding add_three_def by (intro timers_inv_struct; simp add: Let_def preserves c a)
qed

lemma timers_inv_AddSysClkTicks [preserves]: "timers_inv s \<Longrightarrow> timers_inv (AddSysClkTicks n s)"
proof -
  assume a: "timers_inv s"
  have "timers_inv (s\<lparr>m_syclk_ticks_carry := x\<rparr>)" for x
    using a by (rule timers_inv_cong) simp_all
  then show ?thesis using a by (simp add: AddSysClkTicks_def Let_def case_prod_beta preserves)
qed

lemma timers_inv_InvokeEarly [preserves]: "timers_inv s \<Longrightarrow> timers_inv (sysclk_InvokeEarly s)"
  by (simp add: InvokeEarly_def Let_def sysclk_callback_def preserves)

lemma timers_inv_upd:
  assumes "timers_inv s" and "\<And>c. cs_ok c \<Longrightarrow> cs_ok (f c)"
  shows "timers_inv (upd_timer i f s)"
proof (rule timers_inv_I)
  show "cs_ok (timer_st j (upd_timer i f s))" if "j < 3" for j
    using assms timers_inv_nth [OF assms(1) that] that
    by (auto simp: timers_inv_def nth_modify_at_same_length)
qed (use assms in \<open>simp_all add: timers_inv_def\<close>)

lemma timers_inv_UpdateIRQ [preserves]:
  assumes "timers_inv s"
  shows "timers_inv (UpdateIRQ i s)"
proof (rule timers_inv_I)
  show "cs_ok (timer_st j (UpdateIRQ i s))" if "j < 3" for j
    using timers_inv_nth [OF assms that] UpdateIRQ_counter [of j s i] assms that
    by (simp add: cs_ok_def timers_inv_def)
qed (use assms in \<open>simp_all add: timers_inv_def\<close>)

lemma cs_ok_UpdateCountingEnabled [simp]: "cs_ok (UpdateCountingEnabled c) = cs_ok c"
  by (simp add: UpdateCountingEnabled_def Let_def cs_ok_def)

lemma timers_inv_SetGate [preserves]: "timers_inv s \<Longrightarrow> timers_inv (SetGate i b s)"
proof -
  assume a: "timers_inv s"
  have ok: "cs_ok c \<Longrightarrow> cs_ok (c\<lparr>cs_gate := b\<rparr>)" "cs_ok c \<Longrightarrow> cs_ok (c\<lparr>cs_counter := 0\<rparr>)"
    "cs_ok c \<Longrightarrow> cs_ok (c\<lparr>cs_mode := m\<rparr>)" for c m
    by (simp_all add: cs_ok_def)
  show ?thesis
    unfolding SetGate_def
    by (intro timers_inv_struct timers_inv_val; simp add: preserves timers_inv_upd ok a)
qed

lemma timers_inv_sync [preserves]:
  "timers_inv s \<Longrightarrow> (\<And>t. timers_inv t \<Longrightarrow> timers_inv (synchronize t)) \<Longrightarrow>
    timers_inv (sync_crtc pend synchronize i s)"
  by (simp add: sync_crtc_def)

lemma and_mask16: "val AND 0xFFFF \<le> (0xFFFF :: u32)"
  by (simp add: word_and_le1)

lemma timers_inv_WriteRegister [preserves]:
  assumes inv: "timers_inv s" and sync: "\<And>t. timers_inv t \<Longrightarrow> timers_inv (synchronize t)"
  shows "timers_inv (timers_WriteRegister pend synchronize offset val s)"
proof (cases "unat (drop_bit 4 offset AND 0x03) < 3")
  case i: True
  let ?i = "unat (drop_bit 4 offset AND 0x03)"
  define s1 where "s1 = sysclk_InvokeEarly (sync_crtc pend synchronize ?i s)"
  have s1: "timers_inv s1"
    unfolding s1_def using inv sync by (intro preserves) 
  have resched: "timers_inv t \<Longrightarrow> timers_inv (if c then UpdateSysClkEvent t else t)"
    for t :: "'a timers_state_scheme" and c
    by (simp add: preserves)
  have chk: "timers_inv (CheckForIRQ ?i old (upd_timer ?i f s1))"
    if "\<And>c. cs_ok c \<Longrightarrow> cs_target (f c) \<le> 0xFFFF" for old f
    using s1 i that
    by (intro timers_inv_CheckForIRQ)
      (auto simp: nth_modify_at_same_length timers_inv_def list_all_length cs_ok_def)
  have m: "cs_target (UpdateCountingEnabled c) = cs_target c" for c
    by (simp add: UpdateCountingEnabled_def Let_def)
  show ?thesis
    unfolding timers_WriteRegister_def Let_def s1_def [symmetric]
    using s1 i
    by (intro pred_if [where P = timers_inv] resched timers_inv_UpdateSysClkEvent timers_inv_UpdateIRQ chk)
      (simp_all add: m cs_ok_def and_mask16)
next
  case False
  then show ?thesis using inv by (simp add: timers_WriteRegister_def Let_def)
qed

lemma timers_inv_ReadRegister [preserves]:
  assumes inv: "timers_inv s" and sync: "\<And>t. timers_inv t \<Longrightarrow> timers_inv (synchronize t)"
  shows "timers_inv (snd (timers_ReadRegister pend synchronize offset s))"
proof -
  have "timers_inv (sysclk_InvokeEarly (sync_crtc pend synchronize i s))" for i
    using inv sync by (intro preserves)
  then show ?thesis
    using inv by (auto simp: timers_ReadRegister_def Let_def cs_ok_def intro!: timers_inv_upd)
qed

lemma timers_inv_Reset [preserves]:
  assumes "length (m_states s) = 3" and "0 < max_slice_ticks s"
  shows "timers_inv (timers_Reset s)"
  unfolding timers_Reset_def
  by (rule timers_inv_UpdateSysClkEvent) (use assms in \<open>auto simp: timers_inv_def list_all_iff cs_ok_def\<close>)

subsection \<open>Batched ticks\<close>

text \<open>
  The counter after \<open>n\<close> ticks: it counts modulo the target when it resets there, and modulo
  0xFFFF otherwise, whatever the batch.
\<close>

definition counter_period :: "counter_state \<Rightarrow> nat" where
  "counter_period c =
     (if reset_at_target (cs_mode c) \<and> 0 < cs_target c then unat (cs_target c) else 0xFFFF)"

definition in_period :: "counter_state \<Rightarrow> bool" where
  "in_period c \<longleftrightarrow> unat (cs_counter c) < counter_period c"

lemma unat_add_small:
  assumes "unat (a::u32) + nat n < 2 ^ 32" and "0 \<le> n"
  shows "unat (a + word_of_int n) = unat a + nat n"
proof -
  have "(word_of_int n :: u32) = word_of_nat (nat n)"
    using assms(2) by (simp add: word_of_nat_eq_iff)
  moreover have "unat (word_of_nat (nat n) :: u32) = nat n"
    using assms(1) by (simp add: unat_of_nat)
  ultimately show ?thesis
    using assms(1) by (simp add: unat_word_ariths)
qed

lemma counter_check_mod:
  assumes ok: "cs_ok c" and p: "in_period c" and n: "0 \<le> n" "n < 2 ^ 31"
  shows "unat (cs_counter (snd (counter_check (cs_counter c) (c\<lparr>cs_counter := cs_counter c + word_of_int n\<rparr>))))
    = (unat (cs_counter c) + nat n) mod counter_period c"
proof -
  have c: "unat (cs_counter c) < 0xFFFF" "unat (cs_target c) \<le> 0xFFFF"
    using ok by (simp_all add: cs_ok_def word_less_nat_alt word_le_nat_alt)
  have s: "unat (cs_counter c + word_of_int n) = unat (cs_counter c) + nat n"
    by (rule unat_add_small) (use n c in auto)
  show ?thesis
  proof (cases "reset_at_target (cs_mode c) \<and> 0 < cs_target c")
    case True
    let ?x = "unat (cs_counter c) + nat n" and ?t = "unat (cs_target c)"
    have t: "0 < ?t" and lt: "cs_counter c < cs_target c"
      using True p by (simp_all add: word_less_nat_alt in_period_def counter_period_def)
    have m: "?x mod ?t < 0xFFFF" using c t by (metis mod_less_divisor less_le_trans)
    have hit: "cs_target c \<le> cs_counter c + word_of_int n \<longleftrightarrow> ?t \<le> ?x"
      by (simp only: word_le_nat_alt s)
    have um: "unat ((cs_counter c + word_of_int n) mod cs_target c) = ?x mod ?t"
      by (simp only: unat_mod s)
    show ?thesis
    proof (cases "?t \<le> ?x")
      case h: True
      have "\<not> 0xFFFF \<le> (cs_counter c + word_of_int n) mod cs_target c"
        using m by (simp only: word_le_nat_alt um) simp
      then show ?thesis
        using True lt hit h um by (simp add: counter_check_def Let_def counter_period_def)
    next
      case h: False
      have "\<not> 0xFFFF \<le> cs_counter c + word_of_int n"
        using h c by (simp only: word_le_nat_alt s) simp
      then show ?thesis
        using True lt hit h s by (simp add: counter_check_def Let_def counter_period_def)
    qed
  next
    case False
    let ?x = "unat (cs_counter c) + nat n"
    have o: "0xFFFF \<le> cs_counter c + word_of_int n \<longleftrightarrow> 0xFFFF \<le> ?x"
      by (simp only: word_le_nat_alt s) simp
    have um: "unat ((cs_counter c + word_of_int n) mod 0xFFFF) = ?x mod 0xFFFF"
      by (simp only: unat_mod s) simp
    have "unat (cs_counter (snd (counter_check (cs_counter c) (c\<lparr>cs_counter := cs_counter c + word_of_int n\<rparr>)))) =
        (if 0xFFFF \<le> ?x then ?x mod 0xFFFF else ?x)"
      using o um s by (simp add: counter_check_def Let_def False)
    moreover have "counter_period c = 0xFFFF" using False by (auto simp: counter_period_def)
    ultimately show ?thesis by simp
  qed
qed

lemma AddTicks_counter:
  assumes inv: "timers_inv s" and i: "i < 3" and p: "in_period (timer_st i s)" and n: "0 \<le> n" "n < 2 ^ 31"
  shows "unat (cs_counter (timer_st i (AddTicks i n s))) =
      (unat (cs_counter (timer_st i s)) + nat n) mod counter_period (timer_st i s)"
    and "counter_period (timer_st i (AddTicks i n s)) = counter_period (timer_st i s)"
    and "in_period (timer_st i (AddTicks i n s))"
proof -
  let ?t = "upd_timer i (\<lambda>c. c\<lparr>cs_counter := cs_counter c + word_of_int n\<rparr>) s"
  have l: "i < length (m_states ?t)" "i < length (m_states s)" using inv i by (simp_all add: timers_inv_def)
  note c = CheckForIRQ_counter [OF l(1), of i "cs_counter (timer_st i s)"]
  have ok: "cs_ok (timer_st i s)" by (rule timers_inv_nth [OF inv i])
  show 1: "unat (cs_counter (timer_st i (AddTicks i n s))) =
      (unat (cs_counter (timer_st i s)) + nat n) mod counter_period (timer_st i s)"
    using c(1) counter_check_mod [OF ok p n] l(2) by (simp add: AddTicks_def Let_def nth_modify_at_same_length)
  show 2: "counter_period (timer_st i (AddTicks i n s)) = counter_period (timer_st i s)"
    using c(2,3) l(2) by (simp add: AddTicks_def Let_def nth_modify_at_same_length counter_period_def)
  have "0 < counter_period (timer_st i s)" using p by (simp add: in_period_def)
  then show "in_period (timer_st i (AddTicks i n s))"
    unfolding in_period_def 1 2 by (rule mod_less_divisor)
qed

subsection \<open>When the interrupt is raised\<close>

lemma CheckForIRQ_quiet:
  assumes "\<not> fst (counter_check old (timer_st i s))"
  shows "m_interrupt_status_register (CheckForIRQ i old s) = m_interrupt_status_register s"
  using assms by (simp add: CheckForIRQ_def Let_def case_prod_beta)

lemma sint_diff_u32:
  assumes "(a::u32) \<le> b" and "b \<le> 0xFFFF"
  shows "sint (b - a) = uint b - uint a"
proof -
  have le: "uint a \<le> uint b" "uint b \<le> 0xFFFF" using assms by (simp_all add: word_le_def)
  have "sint (b - a) = signed_take_bit 31 (uint (b - a))"
    by (simp add: sint_uint)
  also have "uint (b - a) = uint b - uint a"
    using assms(1) by (metis uint_minus_simple_alt)
  also have "signed_take_bit 31 (uint b - uint a) = uint b - uint a"
  proof (rule signed_take_bit_int_eq_self)
    have "uint b - uint a \<le> 0xFFFF" using le(2) uint_ge_0 [of a] by linarith
    then show "uint b - uint a < 2 ^ 31" by simp
  qed (use le in simp)
  finally show ?thesis .
qed

lemma timer_ticks_le: "timer_ticks i c m \<le> m"
  by (auto simp: timer_ticks_def Let_def min_def)

lemma GetTicks_le:
  assumes "\<not> cfg_cpu_overclock_active s" and "i < 3"
  shows "\<exists>m. GetTicksUntilNextInterrupt s \<le> max 1 (timer_ticks i (timer_st i s) m)"
proof -
  have "GetTicksUntilNextInterrupt s = max 1 (timer_ticks 2 (timer_st 2 s) (timer_ticks 1 (timer_st 1 s)
      (timer_ticks 0 (timer_st 0 s) (max_slice_ticks s))))"
    using assms(1) by (simp add: GetTicksUntilNextInterrupt_def ScaleTicksToOverclock_def numeral_2_eq_2)
  moreover note le = timer_ticks_le [of 1 "timer_st 1 s" "timer_ticks 0 (timer_st 0 s) (max_slice_ticks s)"]
    timer_ticks_le [of 2 "timer_st 2 s" "timer_ticks 1 (timer_st 1 s) (timer_ticks 0 (timer_st 0 s) (max_slice_ticks s))"]
  ultimately have "GetTicksUntilNextInterrupt s \<le> max 1 (timer_ticks 0 (timer_st 0 s) (max_slice_ticks s))"
    "GetTicksUntilNextInterrupt s \<le> max 1 (timer_ticks 1 (timer_st 1 s) (timer_ticks 0 (timer_st 0 s) (max_slice_ticks s)))"
    "GetTicksUntilNextInterrupt s \<le> max 1 (timer_ticks 2 (timer_st 2 s)
       (timer_ticks 1 (timer_st 1 s) (timer_ticks 0 (timer_st 0 s) (max_slice_ticks s))))"
    by linarith+
  moreover have "i = 0 \<or> i = 1 \<or> i = 2" using assms(2) by arith
  ultimately show ?thesis by blast
qed

lemma GetTicks_pos: "\<not> cfg_cpu_overclock_active s \<Longrightarrow> 1 \<le> GetTicksUntilNextInterrupt s"
  by (simp add: GetTicksUntilNextInterrupt_def ScaleTicksToOverclock_def)

lemma status_UpdateIRQ:
  "m_interrupt_status_register (UpdateIRQ i s) =
    (if interrupt_request_n (cs_mode (timer_st i s)) \<or>
        (\<not> irq_repeat (cs_mode (timer_st i s)) \<and> cs_irq_done (timer_st i s))
     then m_interrupt_status_register s
     else m_interrupt_status_register s OR push_bit (4 + i) 1)"
  by (simp add: UpdateIRQ_def Let_def InterruptRequest_def)

text \<open>In level mode an interrupt that is enabled reaches the interrupt controller.\<close>

lemma CheckForIRQ_raises:
  assumes i: "i < length (m_states s)" and r: "fst (counter_check old (timer_st i s))"
    and p: "\<not> irq_pulse_n (cs_mode (timer_st i s))"
    and d: "irq_repeat (cs_mode (timer_st i s)) \<or> \<not> cs_irq_done (timer_st i s)"
  shows "m_interrupt_status_register (CheckForIRQ i old s) = m_interrupt_status_register s OR push_bit (4 + i) 1"
proof -
  let ?c = "snd (counter_check old (timer_st i s))"
  have c: "irq_pulse_n (cs_mode ?c) = irq_pulse_n (cs_mode (timer_st i s))"
    "irq_repeat (cs_mode ?c) = irq_repeat (cs_mode (timer_st i s))" "cs_irq_done ?c = cs_irq_done (timer_st i s)"
    by (simp_all add: counter_check_def Let_def)
  show ?thesis
    using r p d c i
    by (auto simp: CheckForIRQ_def Let_def case_prod_beta status_UpdateIRQ nth_modify_at_same_length)
qed

lemma hit_iff:
  assumes c: "cs_ok c" and n: "0 \<le> n" "n < 2 ^ 31" and lt: "cs_counter c < cs_target c"
  shows "cs_target c \<le> cs_counter c + word_of_int n \<longleftrightarrow> unat (cs_target c) \<le> unat (cs_counter c) + nat n"
proof -
  have "unat (cs_counter c) < 0xFFFF" using c by (simp add: cs_ok_def word_less_nat_alt)
  then have s: "unat (cs_counter c + word_of_int n) = unat (cs_counter c) + nat n"
    by (intro unat_add_small) (use n in auto)
  show ?thesis by (simp only: word_le_nat_alt s)
qed

lemma no_early_irq:
  assumes inv: "timers_inv s" and oc: "\<not> cfg_cpu_overclock_active s" and i: "i < 3"
    and cnt: "cs_counting_enabled (timer_st i s)" "\<not> cs_external_counting_enabled (timer_st i s)"
    and t: "0 < cs_target (timer_st i s)" and n: "0 \<le> n" "n < GetTicksUntilNextInterrupt s" "n < 2 ^ 31"
  shows "\<not> fst (counter_check (cs_counter (timer_st i s))
    ((timer_st i s)\<lparr>cs_counter := cs_counter (timer_st i s) + word_of_int n\<rparr>))"
proof -
  let ?c = "timer_st i s"
  have ok: "cs_ok ?c" by (rule timers_inv_nth [OF inv i])
  have c: "unat (cs_counter ?c) < 0xFFFF" "unat (cs_target ?c) \<le> 0xFFFF" "0 < unat (cs_target ?c)"
    using ok t by (simp_all add: cs_ok_def word_less_nat_alt word_le_nat_alt)
  have s: "unat (cs_counter ?c + word_of_int n) = unat (cs_counter ?c) + nat n"
    by (rule unat_add_small) (use n c in auto)
  obtain m where m: "n < max 1 (timer_ticks i ?c m)"
    using GetTicks_le [OF oc i] n(2) by (meson less_le_trans)
  have hit: "\<not> (cs_target ?c \<le> cs_counter ?c + word_of_int n \<and> cs_counter ?c < cs_target ?c)"
    if "irq_at_target (cs_mode ?c)"
  proof
    assume h: "cs_target ?c \<le> cs_counter ?c + word_of_int n \<and> cs_counter ?c < cs_target ?c"
    then have x: "unat (cs_target ?c) \<le> unat (cs_counter ?c) + nat n"
      and lt: "unat (cs_counter ?c) < unat (cs_target ?c)"
      by (simp_all only: word_le_nat_alt word_less_nat_alt s)
    have "timer_ticks i ?c m \<le> sint (cs_target ?c - cs_counter ?c)"
      using that cnt h by (auto simp: timer_ticks_def Let_def)
    also have "\<dots> = uint (cs_target ?c) - uint (cs_counter ?c)"
      using h ok by (intro sint_diff_u32) (auto simp: cs_ok_def)
    finally have "n < max 1 (int (unat (cs_target ?c)) - int (unat (cs_counter ?c)))"
      using m by simp
    then show False using x lt n(1) by linarith
  qed
  have ovf: "\<not> 0xFFFF \<le> cs_counter ?c + word_of_int n" if "irq_on_overflow (cs_mode ?c)"
  proof -
    have "timer_ticks i ?c m \<le> sint (0xFFFF - cs_counter ?c)"
      using that cnt by (auto simp: timer_ticks_def Let_def)
    also have "\<dots> = uint (0xFFFF :: u32) - uint (cs_counter ?c)"
      using ok by (intro sint_diff_u32) (auto simp: cs_ok_def)
    finally have "n < max 1 (0xFFFF - int (unat (cs_counter ?c)))"
      using m by simp
    then have "unat (cs_counter ?c) + nat n < 0xFFFF" using c n(1) by linarith
    then show ?thesis by (simp only: word_le_nat_alt s) simp
  qed
  have small: "\<not> 0xFFFF \<le> x mod cs_target ?c" for x
  proof -
    have "x mod cs_target ?c < cs_target ?c" using t by (rule word_mod_less)
    also have "cs_target ?c \<le> 0xFFFF" using ok by (simp add: cs_ok_def)
    finally show ?thesis by simp
  qed
  show ?thesis
    using hit ovf small t by (auto simp: counter_check_def Let_def)
qed

subsection \<open>The timers' event\<close>

text \<open>The state above the event queue satisfies the timers' invariant, at the native clock.\<close>

definition timers_I :: "'a timers_state_ext irq_state_ext \<Rightarrow> bool" where
  "timers_I m \<longleftrightarrow> (let s = te_state.extend te_boot m
     in timers_inv s \<and> \<not> cfg_cpu_overclock_active s)"

lemma timers_I_more: "timers_I (te_state.more s) \<longleftrightarrow> timers_inv s \<and> \<not> cfg_cpu_overclock_active s"
proof -
  have "te_state.more (te_state.extend te_boot (te_state.more s)) = te_state.more s"
    by (simp add: te_state.extend_def)
  note f = timers_more_fields [OF this]
  show ?thesis
    by (simp add: timers_I_def Let_def timers_inv_def f)
qed

text \<open>
  The dispatch of event callbacks: the timers' own event, and \<open>others\<close> for the events of the
  other components.
\<close>

definition timers_dispatch ::
  "(nat \<Rightarrow> tick_count \<Rightarrow> tick_count \<Rightarrow> 'a timers_state_scheme \<Rightarrow> 'a timers_state_scheme)
    \<Rightarrow> nat \<Rightarrow> tick_count \<Rightarrow> tick_count \<Rightarrow> 'a timers_state_scheme \<Rightarrow> 'a timers_state_scheme" where
  "timers_dispatch others e ticks late s =
     (if e = m_sysclk_event then sysclk_callback ticks late s else others e ticks late s)"

lemma te_ready_view:
  assumes "te_view s = te_view t" and "I (te_state.more s) = I (te_state.more t)"
  shows "te_ready I s xs = te_ready I t xs" and "te_sorted_but e s xs = te_sorted_but e t xs"
    and "te_work s xs = te_work t xs"
  using assms te_view_fields [OF assms(1)] by (simp_all add: te_ready_def te_sorted_but_def te_work_def)

lemma sysclk_callback_ok:
  assumes r: "te_ready timers_I s xs" and h: "hd xs = m_sysclk_event"
    and b: "ordered \<longrightarrow> te_sorted_but m_sysclk_event s xs" and c: "s_current_event s = Some m_sysclk_event"
  shows "te_ready timers_I (sysclk_callback ticks late s) xs \<and>
    (ordered \<longrightarrow> te_sorted_but m_sysclk_event (sysclk_callback ticks late s) xs) \<and>
    te_work (sysclk_callback ticks late s) xs \<le> te_work s xs \<and>
    s_global_tick_counter (sysclk_callback ticks late s) = s_global_tick_counter s \<and>
    s_current_event (sysclk_callback ticks late s) = Some m_sysclk_event"
proof -
  let ?t = "add_three ticks s"
  have i: "timers_inv s" "\<not> cfg_cpu_overclock_active s"
    using r by (simp_all add: te_ready_def timers_I_more)
  have it: "timers_inv ?t" using i(1) by (rule preserves)
  have I: "timers_I (te_state.more ?t) = timers_I (te_state.more s)"
    using i it by (simp add: timers_I_more)
  note v = te_ready_view [OF te_view_add_three I] te_view_fields [OF te_view_add_three [of ticks s]]
  have e: "m_sysclk_event \<in> set xs" using r h by (cases xs) (auto simp: te_ready_def)
  have cb: "sysclk_callback ticks late s = Schedule m_sysclk_event (GetTicksUntilNextInterrupt ?t) ?t"
    using i by (simp add: sysclk_callback_def AddSysClkTicks_def UpdateSysClkEvent_def)
  have pos: "0 < GetTicksUntilNextInterrupt ?t"
    using GetTicks_pos [of ?t] i by simp
  have r': "te_ready timers_I ?t xs" and c': "s_current_event ?t = Some m_sysclk_event"
    and b': "ordered \<longrightarrow> te_sorted_but m_sysclk_event ?t xs"
    and w: "te_work ?t xs = te_work s xs" and g: "s_global_tick_counter ?t = s_global_tick_counter s"
    using r c b v by simp_all
  have "s_global_tick_counter (sysclk_callback ticks late s) = s_global_tick_counter s \<and>
      s_current_event (sysclk_callback ticks late s) = Some m_sysclk_event"
    using c' g by (simp add: cb frame)
  then show ?thesis
    using te_ready_Schedule_own [OF r' e c' pos b'] unfolding w cb [symmetric] by blast
qed

lemma timers_dispatch_contract:
  fixes others :: "nat \<Rightarrow> tick_count \<Rightarrow> tick_count \<Rightarrow> 'a timers_state_scheme \<Rightarrow> 'a timers_state_scheme"
  assumes "event_callbacks others timers_I ordered"
  shows "event_callbacks (timers_dispatch others) timers_I ordered"
proof
  fix s :: "'a timers_state_scheme" and xs e ticks late
  assume a: "te_ready timers_I s xs" "hd xs = e" "ordered \<longrightarrow> te_sorted_but e s xs" "s_current_event s = Some e"
  show "\<exists>ys. te_ready timers_I (timers_dispatch others e ticks late s) ys \<and>
      (ordered \<longrightarrow> te_sorted_but e (timers_dispatch others e ticks late s) ys) \<and>
      te_work (timers_dispatch others e ticks late s) ys \<le> te_work s xs \<and>
      s_global_tick_counter (timers_dispatch others e ticks late s) = s_global_tick_counter s \<and>
      s_current_event (timers_dispatch others e ticks late s) = Some e"
  proof (cases "e = m_sysclk_event")
    case True
    then show ?thesis
      using sysclk_callback_ok [of s xs ordered ticks late] a by (intro exI [of _ xs]) (simp add: timers_dispatch_def)
  next
    case False
    then show ?thesis
      using event_callbacks.callback_ok [OF assms a] by (simp add: timers_dispatch_def)
  qed
qed

text \<open>The machine whose only periodic event is the timers'.\<close>

definition no_other_events :: "nat \<Rightarrow> tick_count \<Rightarrow> tick_count \<Rightarrow> 's \<Rightarrow> 's" where
  "no_other_events e ticks late s = s"

interpretation timer_events: event_callbacks "timers_dispatch no_other_events" timers_I True
proof (rule timers_dispatch_contract, unfold_locales)
  fix s :: "'a timers_state_scheme" and xs e ticks late
  assume "te_ready timers_I s xs" "True \<longrightarrow> te_sorted_but e s xs" "s_current_event s = Some e"
  then show "\<exists>ys. te_ready timers_I (no_other_events e ticks late s) ys \<and>
      (True \<longrightarrow> te_sorted_but e (no_other_events e ticks late s) ys) \<and>
      te_work (no_other_events e ticks late s) ys \<le> te_work s xs \<and>
      s_global_tick_counter (no_other_events e ticks late s) = s_global_tick_counter s \<and>
      s_current_event (no_other_events e ticks late s) = Some e"
    by (intro exI [of _ xs]) (simp add: no_other_events_def)
qed


end
