(* ===== verification/TimersClaims.thy ===== *)
theory TimersClaims
  imports TimersSpec
begin

text \<open>
  The properties of the timers and of the event loop that drives them, with the two
  behaviours the modelling showed: an interrupt that is missed when the counter wraps past
  its target in one batch, and an event loop that does not end when the CPU is underclocked.
\<close>

subsection \<open>A concrete machine\<close>

definition cs_boot :: counter_state where
  "cs_boot = \<lparr>cs_mode = 0x400, cs_counter = 0, cs_target = 0, cs_gate = False,
     cs_use_external_clock = False, cs_external_counting_enabled = False,
     cs_counting_enabled = True, cs_irq_done = False\<rparr>"

definition timers_boot :: timers_state where
  "timers_boot = irq_state.extend (te_state.extend te_boot (irq_state.fields 0 0))
     (timers_state.fields [cs_boot, cs_boot, cs_boot] 0 0 False 1 1 3386880)"

lemmas timers_run_defs = timers_boot_def te_state.defs irq_state.defs timers_state.defs cs_boot_def

lemma timers_inv_boot: "timers_inv timers_boot"
  by (simp add: timers_inv_def timers_run_defs cs_ok_def)

text \<open>Timer 0 counts to 100 and starts again, with an interrupt.\<close>

definition timers_100 :: timers_state where
  "timers_100 = upd_timer 0 (\<lambda>c. c\<lparr>cs_mode := 0x458, cs_counter := 40, cs_target := 100\<rparr>) timers_boot"

lemma timers_100_fields:
  "timer_st 0 timers_100 = \<lparr>cs_mode = 0x458, cs_counter = 40, cs_target = 100, cs_gate = False,
     cs_use_external_clock = False, cs_external_counting_enabled = False,
     cs_counting_enabled = True, cs_irq_done = False\<rparr>"
  "timer_st 1 timers_100 = cs_boot" "timer_st (Suc 0) timers_100 = cs_boot" "timer_st 2 timers_100 = cs_boot"
  "max_slice_ticks timers_100 = 3386880" "\<not> cfg_cpu_overclock_active timers_100"
  "m_interrupt_status_register timers_100 = 0" "length (m_states timers_100) = 3"
  by (simp_all add: timers_100_def upd_timer_def modify_at_def timers_run_defs)

lemma timers_inv_100: "timers_inv timers_100"
proof (rule timers_inv_I)
  fix i :: nat assume "i < 3"
  then consider "i = 0" | "i = 1" | "i = 2" by arith
  then show "cs_ok (timer_st i timers_100)"
    by cases (simp_all only: timers_100_fields cs_ok_def cs_boot_def, simp_all)
qed (simp_all add: timers_100_fields)

lemma in_period_100: "in_period (timer_st 0 timers_100)"
  by (simp add: in_period_def counter_period_def timers_100_fields bit_numeral_rec)


subsection \<open>Properties\<close>

text \<open>
  Every access to the timers, whatever its operands, keeps each counter below 0xFFFF and
  each target at 16 bits: writing registers, reading them, the gate inputs, external ticks and
  the system clock's event. The GPU's synchronisation, which the register accesses call, is
  assumed to keep it too (it only calls these operations).
\<close>

theorem timers_in_range:
  assumes inv: "timers_inv s" and sync: "\<And>t. timers_inv t \<Longrightarrow> timers_inv (synchronize t)" and i: "i < 3"
  shows "timers_inv (timers_WriteRegister pend synchronize offset val s) \<and>
    timers_inv (snd (timers_ReadRegister pend synchronize offset s)) \<and>
    timers_inv (SetGate i b s) \<and> timers_inv (AddTicks i n s) \<and> timers_inv (AddSysClkTicks n s)"
  using timers_inv_WriteRegister [OF inv sync] timers_inv_ReadRegister [OF inv sync]
    timers_inv_SetGate [OF inv] timers_inv_AddTicks [OF inv i] timers_inv_AddSysClkTicks [OF inv]
  by simp

theorem timers_in_range_witness:
  "timers_inv (timers_WriteRegister (\<lambda>_. True) (AddTicks 0 5) 0x04 0x158 timers_100) \<and>
    timers_inv (snd (timers_ReadRegister (\<lambda>_. True) (AddTicks 0 5) 0x04 timers_100)) \<and>
    timers_inv (SetGate 0 True timers_100) \<and> timers_inv (AddTicks 0 70000 timers_100) \<and>
    timers_inv (AddSysClkTicks 70000 timers_100)"
  by (rule timers_in_range [OF timers_inv_100]) (simp_all add: timers_inv_AddTicks)

text \<open>
  Batching is exact. Adding \<open>a\<close> and then \<open>b\<close> ticks leaves the same count as adding
  \<open>a + b\<close> at once, namely the count modulo the timer's period.
\<close>

theorem AddTicks_batches:
  assumes inv: "timers_inv s" and i: "i < 3" and p: "in_period (timer_st i s)"
    and a: "0 \<le> a" and b: "0 \<le> b" and small: "a + b < 2 ^ 31"
  shows "cs_counter (timer_st i (AddTicks i b (AddTicks i a s))) = cs_counter (timer_st i (AddTicks i (a + b) s)) \<and>
    unat (cs_counter (timer_st i (AddTicks i (a + b) s))) =
      (unat (cs_counter (timer_st i s)) + nat (a + b)) mod counter_period (timer_st i s)"
proof -
  let ?s = "AddTicks i a s" and ?p = "counter_period (timer_st i s)"
  note A = AddTicks_counter [OF inv i p a]
  have a31: "a < 2 ^ 31" and b31: "b < 2 ^ 31" using a b small by linarith+
  have ab: "0 \<le> a + b" using a b by simp
  have e: "unat (cs_counter (timer_st i (AddTicks i (a + b) s))) =
      (unat (cs_counter (timer_st i s)) + nat (a + b)) mod ?p"
    by (rule AddTicks_counter(1) [OF inv i p ab small])
  have "unat (cs_counter (timer_st i (AddTicks i b ?s))) =
      (unat (cs_counter (timer_st i ?s)) + nat b) mod ?p"
    using AddTicks_counter(1) [OF timers_inv_AddTicks [OF inv i] i A(3) [OF a31] b b31] A(2) [OF a31] by simp
  also have "\<dots> = (unat (cs_counter (timer_st i s)) + nat a + nat b) mod ?p"
    unfolding A(1) [OF a31] by (rule mod_add_left_eq)
  also have "\<dots> = (unat (cs_counter (timer_st i s)) + nat (a + b)) mod ?p"
    using a b by (simp add: nat_add_distrib add.assoc)
  finally show ?thesis
    using e by (simp add: word_unat_eq_iff)
qed

theorem AddTicks_batches_witness:
  "cs_counter (timer_st 0 (AddTicks 0 150 (AddTicks 0 30 timers_100))) =
     cs_counter (timer_st 0 (AddTicks 0 (30 + 150) timers_100)) \<and>
   unat (cs_counter (timer_st 0 (AddTicks 0 (30 + 150) timers_100))) = 20"
  using AddTicks_batches [OF timers_inv_100 _ in_period_100, of 30 150]
  by (simp add: timers_100_fields counter_period_def bit_numeral_rec)











subsection \<open>A missed interrupt\<close>

text \<open>
  When a timer's count is already past its target, \<open>GetTicksUntilNextInterrupt\<close> announces
  the ticks to the target after the wrap; but if those ticks arrive in one batch the count
  passes 0xFFFF and lands on the target without \<open>CheckForIRQ\<close> seeing it cross, so no interrupt is
  requested.
\<close>

theorem target_missed_after_wrap:
  assumes inv: "timers_inv s" and i: "i < 3"
    and past: "cs_target (timer_st i s) < cs_counter (timer_st i s)" and t: "0 < cs_target (timer_st i s)"
    and ov: "\<not> irq_on_overflow (cs_mode (timer_st i s))"
    and n: "n = int (0xFFFF - unat (cs_counter (timer_st i s)) + unat (cs_target (timer_st i s)))"
  shows "m_interrupt_status_register (AddTicks i n s) = m_interrupt_status_register s \<and>
    cs_counter (timer_st i (AddTicks i n s)) = cs_target (timer_st i s)"
proof -
  let ?c = "timer_st i s" and ?f = "\<lambda>c. c\<lparr>cs_counter := cs_counter c + word_of_int n\<rparr>"
  let ?t = "upd_timer i ?f s"
  have l: "i < length (m_states s)" using inv i by (simp add: timers_inv_def)
  have c: "unat (cs_target ?c) < unat (cs_counter ?c)" "unat (cs_counter ?c) < 0xFFFF"
    using past timers_inv_nth [OF inv i] by (simp_all add: cs_ok_def word_less_nat_alt)
  have s: "unat (cs_counter ?c + word_of_int n) = 0xFFFF + unat (cs_target ?c)"
  proof -
    have nn: "nat n = 0xFFFF - unat (cs_counter ?c) + unat (cs_target ?c)" and n0: "0 \<le> n"
      by (simp_all only: n nat_int of_nat_0_le_iff)
    have sum: "unat (cs_counter ?c) + nat n = 0xFFFF + unat (cs_target ?c)"
      using nn c by linarith
    then have "unat (cs_counter ?c) + nat n < 2 ^ 32" using c by simp
    from unat_add_small [OF this n0] show ?thesis by (simp only: sum)
  qed
  have ge: "0xFFFF \<le> cs_counter ?c + word_of_int n"
    by (simp only: word_le_nat_alt s) simp
  have m: "(cs_counter ?c + word_of_int n) mod 0xFFFF = cs_target ?c"
    using c by (simp add: word_unat_eq_iff unat_mod s)
  have e: "timer_st i ?t = ?f ?c" using l by (simp add: nth_modify_at_same_length)
  have k: "\<not> fst (counter_check (cs_counter ?c) (?f ?c))"
    "cs_counter (snd (counter_check (cs_counter ?c) (?f ?c))) = cs_target ?c"
    using past t ov ge m by (auto simp: counter_check_def Let_def)
  show ?thesis
    using k CheckForIRQ_counter(1) [of i ?t i "cs_counter ?c"] l
    unfolding AddTicks_def Let_def by (subst CheckForIRQ_quiet) (simp_all only: e, simp_all)
qed

definition timers_past :: timers_state where
  "timers_past = upd_timer 0 (\<lambda>c. c\<lparr>cs_mode := 0x450, cs_counter := 0xFF00, cs_target := 0x10\<rparr>) timers_boot"

lemma timers_past_fields:
  "timer_st 0 timers_past = cs_boot\<lparr>cs_mode := 0x450, cs_counter := 0xFF00, cs_target := 0x10\<rparr>"
  "timer_st 1 timers_past = cs_boot" "timer_st (Suc 0) timers_past = cs_boot" "timer_st 2 timers_past = cs_boot"
  "max_slice_ticks timers_past = 3386880" "\<not> cfg_cpu_overclock_active timers_past"
  "m_interrupt_status_register timers_past = 0" "length (m_states timers_past) = 3"
  by (simp_all add: timers_past_def upd_timer_def modify_at_def timers_run_defs)

theorem target_missed_after_wrap_witness:
  "GetTicksUntilNextInterrupt timers_past = 0x10F \<and>
    m_interrupt_status_register (AddTicks 0 0x10F timers_past) = 0 \<and>
    cs_counter (timer_st 0 (AddTicks 0 0x10F timers_past)) = 0x10"
proof -
  have inv: "timers_inv timers_past"
  proof (rule timers_inv_I)
    fix i :: nat assume "i < 3"
    then consider "i = 0" | "i = 1" | "i = 2" by arith
    then show "cs_ok (timer_st i timers_past)"
      by cases (simp_all only: timers_past_fields cs_ok_def cs_boot_def, simp_all)
  qed (simp_all add: timers_past_fields)
  have "GetTicksUntilNextInterrupt timers_past = 0x10F"
    by (simp add: GetTicksUntilNextInterrupt_def ScaleTicksToOverclock_def timer_ticks_def Let_def
        timers_past_fields cs_boot_def bit_numeral_rec)
  then show ?thesis
    using target_missed_after_wrap [OF inv, of 0 "0x10F"]
    by (simp add: timers_past_fields cs_boot_def bit_numeral_rec)
qed

subsection \<open>An event loop that does not end\<close>

text \<open>If running the due head changes nothing, the inner loop runs forever.\<close>

lemma run_due_never:
  "run_due callback s = Some t \<Longrightarrow> run_head callback e s = s \<Longrightarrow> s_active_events_head s = Some e \<Longrightarrow>
    0 < dc s e"
proof (induction callback s t rule: run_due.raw_induct [rotated, consumes 1])
  case (1 f callback s t)
  then show ?case by (cases "dc s e \<le> 0") auto
qed

lemma run_due_fixpoint:
  assumes "run_head callback e s = s" and "s_active_events_head s = Some e" and "dc s e \<le> 0"
  shows "run_due callback s = None"
  using run_due_never [of callback s _ e] assms by (cases "run_due callback s") auto

text \<open>
  The CPU at half its clock (\<open>1/2\<close>, the option "50%"); timer 0 counts to 3, with an
  interrupt and a reset at the target; its event is the only one.
\<close>

definition half_clock :: timers_state where
  "half_clock = upd_timer 0 (\<lambda>c. c\<lparr>cs_mode := 0x458, cs_target := 3\<rparr>)
     (timers_boot\<lparr>cfg_cpu_overclock_active := True, cfg_cpu_overclock_denominator := 2\<rparr>)"

text \<open>The same machine two system ticks later, in the timers' callback.\<close>

definition half_clock_stuck :: timers_state where
  "half_clock_stuck = half_clock\<lparr>
     m_states := [cs_boot\<lparr>cs_mode := 0x458, cs_target := 3, cs_counter := 2\<rparr>,
                  cs_boot\<lparr>cs_mode := 0xC00, cs_counter := 2\<rparr>, cs_boot\<lparr>cs_mode := 0xC00, cs_counter := 2\<rparr>],
     te_nodes := (\<lambda>_. te_construct ''event'' 1 1)
       (m_sysclk_event := \<lparr>te_prev = None, te_next = None, te_downcount = 0,
          te_time_since_last_run = 0, te_period = 1, te_interval = 1, te_active = True,
          te_name = ''event''\<rparr>),
     s_active_events_head := Some m_sysclk_event, s_active_events_tail := Some m_sysclk_event,
     s_active_event_count := 1, s_current_event := Some m_sysclk_event,
     s_global_tick_counter := 1, downcount := 1\<rparr>"

lemma half_clock_fields:
  "timer_st 0 half_clock = cs_boot\<lparr>cs_mode := 0x458, cs_target := 3\<rparr>"
  "timer_st (Suc 0) half_clock = cs_boot" "timer_st 2 half_clock = cs_boot"
  "max_slice_ticks half_clock = 3386880" "cfg_cpu_overclock_active half_clock"
  "cfg_cpu_overclock_numerator half_clock = 1" "cfg_cpu_overclock_denominator half_clock = 2"
  by (simp_all add: half_clock_def upd_timer_def modify_at_def timers_run_defs)

lemma half_clock_stuck_fields:
  "m_states half_clock_stuck = [cs_boot\<lparr>cs_mode := 0x458, cs_target := 3, cs_counter := 2\<rparr>,
                  cs_boot\<lparr>cs_mode := 0xC00, cs_counter := 2\<rparr>, cs_boot\<lparr>cs_mode := 0xC00, cs_counter := 2\<rparr>]"
  "max_slice_ticks half_clock_stuck = 3386880" "cfg_cpu_overclock_active half_clock_stuck"
  "cfg_cpu_overclock_numerator half_clock_stuck = 1" "cfg_cpu_overclock_denominator half_clock_stuck = 2"
  "m_syclk_ticks_carry half_clock_stuck = 0"
  by (simp_all add: half_clock_stuck_def half_clock_def upd_timer_def timers_run_defs)

lemma half_ticks: "GetTicksUntilNextInterrupt half_clock = 1"
  "GetTicksUntilNextInterrupt half_clock_stuck = 0"
  by (simp_all add: half_clock_fields half_clock_stuck_fields cs_boot_def
      GetTicksUntilNextInterrupt_def ScaleTicksToOverclock_def timer_ticks_def Let_def bit_numeral_rec)

lemma half_unscale: "UnscaleTicksToOverclock 1 0 half_clock = (2, 0)"
  "UnscaleTicksToOverclock 0 0 half_clock_stuck = (0, 0)"
  by (simp_all add: half_clock_fields half_clock_stuck_fields UnscaleTicksToOverclock_def Let_def)

lemma AddTicks_quiet:
  assumes "i < length (m_states s)"
    and "counter_check (cs_counter (timer_st i s))
      ((timer_st i s)\<lparr>cs_counter := cs_counter (timer_st i s) + word_of_int n\<rparr>) = (False, c)"
  shows "AddTicks i n s = s\<lparr>m_states := (m_states s)[i := c]\<rparr>"
  using assms by (simp add: AddTicks_def Let_def CheckForIRQ_def upd_timer_def modify_at_def)

lemma add_three_first:
  fixes s :: "'a timers_state_scheme"
  assumes "m_states s = m_states half_clock"
  shows "add_three 2 s = s\<lparr>m_states := m_states half_clock_stuck\<rparr>"
proof -
  have m: "m_states s = [cs_boot\<lparr>cs_mode := 0x458, cs_target := 3\<rparr>, cs_boot, cs_boot]"
    using assms by (simp add: half_clock_def upd_timer_def modify_at_def timers_run_defs)
  note d = counter_check_def Let_def cs_boot_def assign_bit_def set_bit_eq bit_numeral_rec
  let ?A = "cs_boot\<lparr>cs_mode := 0x458, cs_target := 3, cs_counter := 2\<rparr>"
    and ?B = "cs_boot\<lparr>cs_mode := 0xC00, cs_counter := 2\<rparr>"
  have e0: "AddTicks 0 2 s = s\<lparr>m_states := [?A, cs_boot, cs_boot]\<rparr>"
    by (subst AddTicks_quiet [where c = ?A]) (simp_all add: d m)
  have e1: "AddTicks (Suc 0) 2 (s\<lparr>m_states := [?A, cs_boot, cs_boot]\<rparr>) = s\<lparr>m_states := [?A, ?B, cs_boot]\<rparr>"
    by (subst AddTicks_quiet [where c = ?B]) (simp_all add: d)
  have e2: "AddTicks 2 2 (s\<lparr>m_states := [?A, ?B, cs_boot]\<rparr>) = s\<lparr>m_states := [?A, ?B, ?B]\<rparr>"
    by (subst AddTicks_quiet [where c = ?B]) (simp_all add: d)
  have f: "cs_external_counting_enabled cs_boot = False" "cs_counting_enabled cs_boot = True"
    by (simp_all add: cs_boot_def)
  show ?thesis
    by (simp add: add_three_def m e0 e1 e2 f half_clock_stuck_fields)
qed

lemma add_three_stuck:
  fixes s :: "'a timers_state_scheme"
  assumes "m_states s = m_states half_clock_stuck"
  shows "add_three 0 s = s"
proof -
  have l: "length (m_states s) = 3" by (simp add: assms half_clock_stuck_fields)
  have q: "AddTicks i 0 s = s" if "i < 3" for i
  proof -
    have "i = 0 \<or> i = 1 \<or> i = 2" using that by arith
    then have "counter_check (cs_counter (timer_st i s)) (timer_st i s) = (False, timer_st i s)"
      by (elim disjE) (simp_all add: assms half_clock_stuck_fields counter_check_def Let_def cs_boot_def
          assign_bit_def set_bit_eq bit_numeral_rec)
    then show ?thesis
      using that l by (subst AddTicks_quiet [where c = "timer_st i s"]) simp_all
  qed
  have f: "cs_external_counting_enabled (timer_st 0 s) = False" "cs_counting_enabled (timer_st 0 s) = True"
    "cs_external_counting_enabled (timer_st 1 s) = False" "cs_counting_enabled (timer_st 1 s) = True"
    "cs_external_counting_enabled (timer_st 2 s) = False" "cs_counting_enabled (timer_st 2 s) = True"
    by (simp_all add: assms half_clock_stuck_fields cs_boot_def)
  show ?thesis
    using f by (simp add: add_three_def q)
qed

lemma stuck_run_head:
  "run_head (timers_dispatch no_other_events) m_sysclk_event half_clock_stuck = half_clock_stuck"
proof -
  let ?s1 = "set_node m_sysclk_event (\<lambda>n. n\<lparr>te_downcount := te_downcount n + te_interval n,
      te_time_since_last_run := 0\<rparr>) (half_clock_stuck\<lparr>s_current_event := Some m_sysclk_event\<rparr>)"
  have cb: "sysclk_callback 0 0 ?s1 = UpdateSysClkEvent (?s1\<lparr>m_syclk_ticks_carry := 0\<rparr>)"
    by (simp add: sysclk_callback_def AddSysClkTicks_def UnscaleTicksToOverclock_def Let_def
       set_node_def half_clock_stuck_fields add_three_stuck)
  have "GetTicksUntilNextInterrupt (?s1\<lparr>m_syclk_ticks_carry := 0\<rparr>) = GetTicksUntilNextInterrupt half_clock_stuck"
    by (simp add: GetTicksUntilNextInterrupt_def ScaleTicksToOverclock_def set_node_def Let_def)
  then have "sysclk_callback 0 0 ?s1 = Schedule m_sysclk_event 0 (?s1\<lparr>m_syclk_ticks_carry := 0\<rparr>)"
    using cb by (simp only: UpdateSysClkEvent_def half_ticks)
  also have "\<dots> = half_clock_stuck"
    by (simp add: Schedule_def Let_def set_node_def half_clock_stuck_def half_clock_def upd_timer_def
        timers_run_defs te_boot_def)
  finally have cb': "sysclk_callback 0 0 ?s1 = half_clock_stuck" .
  have n: "te_nodes half_clock_stuck m_sysclk_event = \<lparr>te_prev = None, te_next = None, te_downcount = 0,
      te_time_since_last_run = 0, te_period = 1, te_interval = 1, te_active = True, te_name = ''event''\<rparr>"
    by (simp add: half_clock_stuck_def)
  have "SortEvent m_sysclk_event half_clock_stuck = half_clock_stuck"
    by (simp add: SortEvent_def n)
  then show ?thesis
    using cb' by (simp add: run_head_def Let_def timers_dispatch_def n)
qed

text \<open>The machine when its event is due, one CPU tick after it was scheduled.\<close>

definition half_clock_run :: timers_state where
  "half_clock_run = AddPendingTicks 1 (UpdateSysClkEvent half_clock)"

definition half_clock_due :: timers_state where
  "half_clock_due = half_clock\<lparr>
     te_nodes := (\<lambda>_. te_construct ''event'' 1 1)
       (m_sysclk_event := \<lparr>te_prev = None, te_next = None, te_downcount = 0,
          te_time_since_last_run = 1, te_period = 1, te_interval = 1, te_active = True,
          te_name = ''event''\<rparr>),
     s_active_events_head := Some m_sysclk_event, s_active_events_tail := Some m_sysclk_event,
     s_active_event_count := 1, s_global_tick_counter := 1, downcount := 1\<rparr>"

lemma half_clock_slice: "start_slice 1 (ResetPendingTicks half_clock_run) = half_clock_due"
  and half_clock_pending: "pending_ticks half_clock_run = 1"
  and half_clock_head: "s_active_events_head half_clock_run = Some m_sysclk_event"
  and half_clock_dc: "dc half_clock_run m_sysclk_event = 1"
proof -
  have e: "half_clock_run = half_clock\<lparr>
     te_nodes := (\<lambda>_. te_construct ''event'' 1 1)
       (m_sysclk_event := \<lparr>te_prev = None, te_next = None, te_downcount = 1,
          te_time_since_last_run = 0, te_period = 1, te_interval = 1, te_active = True,
          te_name = ''event''\<rparr>),
     s_active_events_head := Some m_sysclk_event, s_active_events_tail := Some m_sysclk_event,
     s_active_event_count := 1, downcount := 1, pending_ticks := 1\<rparr>"
    unfolding half_clock_run_def UpdateSysClkEvent_def half_ticks
    by (simp add: AddPendingTicks_def te_run_defs half_clock_def upd_timer_def timers_run_defs cop0_boot_def
        HasPendingInterrupt_def)
  show "start_slice 1 (ResetPendingTicks half_clock_run) = half_clock_due"
    by (simp add: e start_slice_def ResetPendingTicks_def half_clock_due_def set_node_def Let_def)
      (simp add: half_clock_def upd_timer_def timers_run_defs te_boot_def)
  show "pending_ticks half_clock_run = 1" "s_active_events_head half_clock_run = Some m_sysclk_event"
    "dc half_clock_run m_sysclk_event = 1"
    by (simp_all add: e)
qed

lemma half_clock_first: "run_head (timers_dispatch no_other_events) m_sysclk_event half_clock_due = half_clock_stuck"
proof -
  let ?s1 = "set_node m_sysclk_event (\<lambda>n. n\<lparr>te_downcount := te_downcount n + te_interval n,
      te_time_since_last_run := 0\<rparr>) (half_clock_due\<lparr>s_current_event := Some m_sysclk_event\<rparr>)"
  let ?s2 = "?s1\<lparr>m_syclk_ticks_carry := 0, m_states := m_states half_clock_stuck\<rparr>"
  have f: "cfg_cpu_overclock_active half_clock_due" "cfg_cpu_overclock_numerator half_clock_due = 1"
    "cfg_cpu_overclock_denominator half_clock_due = 2" "m_syclk_ticks_carry half_clock_due = 0"
    "m_states half_clock_due = m_states half_clock" "max_slice_ticks half_clock_due = 3386880"
    by (simp_all add: half_clock_due_def half_clock_fields)
      (simp add: half_clock_def upd_timer_def timers_run_defs)
  have cb: "sysclk_callback 1 0 ?s1 = UpdateSysClkEvent ?s2"
    by (simp add: sysclk_callback_def AddSysClkTicks_def UnscaleTicksToOverclock_def Let_def
       set_node_def f add_three_first)
  have "GetTicksUntilNextInterrupt ?s2 = GetTicksUntilNextInterrupt half_clock_stuck"
    by (simp add: GetTicksUntilNextInterrupt_def ScaleTicksToOverclock_def set_node_def Let_def f
        half_clock_stuck_fields)
  then have "sysclk_callback 1 0 ?s1 = Schedule m_sysclk_event 0 ?s2"
    using cb by (simp only: UpdateSysClkEvent_def half_ticks)
  also have "\<dots> = half_clock_stuck"
    by (simp add: Schedule_def Let_def set_node_def half_clock_due_def half_clock_stuck_def half_clock_def
        upd_timer_def timers_run_defs te_boot_def)
  finally have cb': "sysclk_callback 1 0 ?s1 = half_clock_stuck" .
  have n: "te_nodes half_clock_due m_sysclk_event = \<lparr>te_prev = None, te_next = None, te_downcount = 0,
      te_time_since_last_run = 1, te_period = 1, te_interval = 1, te_active = True, te_name = ''event''\<rparr>"
    by (simp add: half_clock_due_def)
  have "SortEvent m_sysclk_event half_clock_stuck = half_clock_stuck"
    by (simp add: SortEvent_def half_clock_stuck_def)
  then show ?thesis
    using cb' by (simp add: run_head_def Let_def timers_dispatch_def n)
qed

text \<open>
  C36: with the CPU underclocked the event loop can run forever. \<open>ScaleTicksToOverclock\<close> rounds
  the last tick before a timer's interrupt down to 0, so the callback schedules its own event
  0 ticks ahead, is run again at once with no tick elapsed, and schedules it 0 ticks ahead
  again. Here the clock is halved and timer 0 counts to 3; one CPU tick (2 system ticks) after
  the timer was set up, \<open>RunEvents\<close> does not return.
\<close>

theorem underclocked_event_loop_hangs:
  "GetTicksUntilNextInterrupt half_clock = 1 \<and> pending_ticks half_clock_run = 1 \<and>
    RunEvents (timers_dispatch no_other_events) half_clock_run = None"
proof -
  let ?cb = "timers_dispatch no_other_events" and ?s = "ResetPendingTicks half_clock_run"
  have "run_due ?cb half_clock_stuck = None"
    by (rule run_due_fixpoint [OF stuck_run_head]) (simp_all add: half_clock_stuck_def)
  moreover have "s_active_events_head half_clock_due = Some m_sysclk_event" "dc half_clock_due m_sysclk_event = 0"
    by (simp_all add: half_clock_due_def)
  ultimately have "run_due ?cb half_clock_due = None"
    by (subst run_due.simps) (simp add: half_clock_first)
  moreover have "s_active_events_head ?s = Some m_sysclk_event" "dc ?s m_sysclk_event = 1"
    by (simp_all add: ResetPendingTicks_def half_clock_head half_clock_dc)
  ultimately have "run_slices ?cb 1 ?s = None"
    by (subst run_slices.simps) (simp add: half_clock_slice)
  then show ?thesis
    by (simp add: RunEvents_def half_clock_pending half_ticks)
qed

end
