(* ===== verification/HostState.thy ===== *)
theory HostState
  imports Timers
begin

text \<open>
  The globals of the host that the serial devices use: the ticks per second of
  \<open>System\<close> (\<open>system.cpp\<close>), the runahead replay flag, the mouse position of \<open>HostDisplay\<close>
  (\<open>host_display.h\<close>), and the files a memory card is kept in. The conversion of a screen
  position to the position of the beam belongs to the GPU and to the host's window and is done in
  floating point; it is the function \<open>screen_to_beam\<close> of the host's input, and
  \<open>ticks_to_gun_units\<close> scales its ticks to the light gun's clock.
\<close>

record host_input =
  m_mouse_position_x :: int
  m_mouse_position_y :: int
  screen_to_beam :: "int \<Rightarrow> int \<Rightarrow> (u32 \<times> u32) option"
  ticks_to_gun_units :: "u32 \<Rightarrow> u16"

record host_state = timers_state +
  g_ticks_per_second :: tick_count
  s_runahead_frames :: u32
  s_runahead_states_empty :: bool
  s_runahead_replay_pending :: bool
  g_host_input :: host_input
  host_files :: "string \<Rightarrow> u8 list option"
  host_writable :: "string \<Rightarrow> bool"

definition SetRunaheadReplayFlag :: "'a host_state_scheme \<Rightarrow> 'a host_state_scheme" where
  "SetRunaheadReplayFlag s =
     (if s_runahead_frames s = 0 \<or> s_runahead_states_empty s then s
      else s\<lparr>s_runahead_replay_pending := True\<rparr>)"

definition SetMousePosition :: "int \<Rightarrow> int \<Rightarrow> 'a host_state_scheme \<Rightarrow> 'a host_state_scheme" where
  "SetMousePosition x y s =
     s\<lparr>g_host_input := (g_host_input s)\<lparr>m_mouse_position_x := x, m_mouse_position_y := y\<rparr>\<rparr>"

end
