(* ===== verification/StateWrapper.thy ===== *)
theory StateWrapper
  imports Prelude
begin

text \<open>
  Save states: \<open>StateWrapper\<close> of \<open>src/common/state_wrapper.h\<close> and \<open>.cpp\<close>, through which every
  component's \<open>DoState\<close> writes its fields to a stream or reads them back. An operation
  \<open>Do(&x)\<close> takes the field and returns it with the wrapper: unchanged when writing, the value
  that was read when reading. The first failed read or write sets the error flag; every later read
  gives zero and every later write does nothing.

  The locale \<open>codec\<close> is the contract a component relies on: writing appends a fixed encoding,
  and reading it back into any field of the same shape gives the value that was written.
\<close>

subsection \<open>The stream\<close>

datatype sw_Mode = SW_Read | SW_Write

text \<open>
  \<open>sw_stream\<close> holds the bytes still to be read, or those written so far; \<open>sw_room\<close> is the number
  of bytes the stream still accepts.
\<close>

record state_wrapper =
  sw_mode :: sw_Mode
  sw_version :: nat
  sw_error :: bool
  sw_stream :: "u8 list"
  sw_room :: nat

definition sw_IsReading :: "state_wrapper \<Rightarrow> bool" where
  "sw_IsReading sw \<longleftrightarrow> sw_mode sw = SW_Read"

definition sw_get :: "nat \<Rightarrow> state_wrapper \<Rightarrow> u8 list \<times> state_wrapper" where
  "sw_get n sw =
     (if sw_error sw \<or> length (sw_stream sw) < n then (replicate n 0, sw\<lparr>sw_error := True\<rparr>)
      else (take n (sw_stream sw), sw\<lparr>sw_stream := drop n (sw_stream sw)\<rparr>))"

definition sw_put :: "u8 list \<Rightarrow> state_wrapper \<Rightarrow> state_wrapper" where
  "sw_put bs sw =
     (if sw_error sw then sw
      else if length bs \<le> sw_room sw
      then sw\<lparr>sw_stream := sw_stream sw @ bs, sw_room := sw_room sw - length bs\<rparr>
      else sw\<lparr>sw_error := True\<rparr>)"

definition DoBytes :: "u8 list \<Rightarrow> state_wrapper \<Rightarrow> u8 list \<times> state_wrapper" where
  "DoBytes bs sw = (if sw_IsReading sw then sw_get (length bs) sw else (bs, sw_put bs sw))"

subsection \<open>Values as bytes\<close>

text \<open>The host is little endian.\<close>

definition le_bytes :: "'w::len word \<Rightarrow> u8 list" where
  "le_bytes w = map (\<lambda>i. ucast (drop_bit (8 * i) w)) [0..<LENGTH('w) div 8]"

primrec of_le_bytes :: "u8 list \<Rightarrow> 'w::len word" where
  "of_le_bytes [] = 0"
| "of_le_bytes (b # bs) = ucast b OR push_bit 8 (of_le_bytes bs)"

lemma length_le_bytes [simp]: "length (le_bytes (w :: 'w::len word)) = LENGTH('w) div 8"
  by (simp add: le_bytes_def)

lemma bit_of_le_bytes:
  "bit (of_le_bytes bs :: 'w::len word) n \<longleftrightarrow>
     n < LENGTH('w) \<and> n div 8 < length bs \<and> bit (bs ! (n div 8)) (n mod 8)"
proof (induction bs arbitrary: n)
  case (Cons b bs)
  have "bit b n \<longleftrightarrow> n < 8 \<and> bit b n" by (auto dest: bit_imp_le_length)
  then show ?case
    by (cases "n < 8")
      (auto simp: bit_simps Cons.IH le_div_geq le_mod_geq dest: bit_imp_le_length)
qed simp

lemma of_le_le_bytes:
  fixes w :: "'w::len word"
  assumes "8 dvd LENGTH('w)"
  shows "of_le_bytes (le_bytes w) = w"
proof (rule bit_word_eqI)
  fix n
  assume n: "n < LENGTH('w)"
  then have "n div 8 < LENGTH('w) div 8" using assms by (auto elim!: dvdE)
  then show "bit (of_le_bytes (le_bytes w) :: 'w word) n = bit w n"
    using n by (simp add: bit_of_le_bytes le_bytes_def bit_simps)
qed

subsection \<open>The overloads of \<open>Do\<close>\<close>

definition Do_word :: "'w::len word \<Rightarrow> state_wrapper \<Rightarrow> 'w word \<times> state_wrapper" where
  "Do_word w sw =
     (if sw_IsReading sw
      then (let (bs, sw1) = sw_get (LENGTH('w) div 8) sw in (of_le_bytes bs, sw1))
      else (w, sw_put (le_bytes w) sw))"

text \<open>An enumeration is read and written through its underlying type, a \<open>bool\<close> as one byte.\<close>

definition Do_enum :: "('a \<Rightarrow> 'w::len word) \<Rightarrow> ('w word \<Rightarrow> 'a) \<Rightarrow> 'a \<Rightarrow> state_wrapper \<Rightarrow> 'a \<times> state_wrapper" where
  "Do_enum code decode x sw =
     (let (w, sw1) = Do_word (code x) sw in (if sw_IsReading sw then decode w else x, sw1))"

definition Do_bool :: "bool \<Rightarrow> state_wrapper \<Rightarrow> bool \<times> state_wrapper" where
  "Do_bool = Do_enum (\<lambda>b. of_bool b :: u8) (\<lambda>w. w \<noteq> 0)"

definition Do_s32 :: "int \<Rightarrow> state_wrapper \<Rightarrow> int \<times> state_wrapper" where
  "Do_s32 = Do_enum (\<lambda>i. word_of_int i :: u32) sint"

text \<open>
  An enumeration is the list of its names; a value read from the stream that is not one of them
  is a constructor \<open>unnamed\<close> of the model's type.
\<close>

definition enum_of :: "'e list \<Rightarrow> (u8 \<Rightarrow> 'e) \<Rightarrow> u8 \<Rightarrow> 'e" where
  "enum_of names unnamed w = (if unat w < length names then names ! unat w else unnamed w)"

fun enum_code :: "'e list \<Rightarrow> 'e \<Rightarrow> nat" where
  "enum_code [] e = 0"
| "enum_code (x # xs) e = (if x = e then 0 else Suc (enum_code xs e))"

fun DoArray :: "('a \<Rightarrow> state_wrapper \<Rightarrow> 'a \<times> state_wrapper) \<Rightarrow> 'a list \<Rightarrow> state_wrapper \<Rightarrow> 'a list \<times> state_wrapper" where
  "DoArray act [] sw = ([], sw)"
| "DoArray act (x # xs) sw =
     (let (y, sw1) = act x sw; (ys, sw2) = DoArray act xs sw1 in (y # ys, sw2))"

definition DoEx :: "('a \<Rightarrow> state_wrapper \<Rightarrow> 'a \<times> state_wrapper) \<Rightarrow> nat \<Rightarrow> 'a \<Rightarrow> 'a
    \<Rightarrow> state_wrapper \<Rightarrow> 'a \<times> state_wrapper" where
  "DoEx act version_introduced default_value x sw =
     (if sw_version sw < version_introduced then (default_value, sw) else act x sw)"

text \<open>A marker is stored as a string: its length and its characters; reading stops at a zero.\<close>

definition marker_bytes :: "string \<Rightarrow> u8 list" where
  "marker_bytes marker = map of_char marker"

definition DoMarker :: "string \<Rightarrow> state_wrapper \<Rightarrow> bool \<times> state_wrapper" where
  "DoMarker marker sw =
     (let (len, sw1) = Do_word (of_nat (length marker) :: u32) sw;
          (bs, sw2) = (if sw_IsReading sw then sw_get (unat len) sw1
                       else (marker_bytes marker, sw_put (marker_bytes marker) sw1))
      in (\<not> sw_error sw2 \<and> (\<not> sw_IsReading sw \<or> takeWhile (\<lambda>b. b \<noteq> 0) bs = marker_bytes marker), sw2))"

lemma nth_enum_code: "e \<in> set names \<Longrightarrow> names ! enum_code names e = e \<and> enum_code names e < length names"
  by (induction names) auto

lemma enum_of_code:
  assumes "e \<in> set names" and "length names \<le> 255"
  shows "enum_of names unnamed (of_nat (enum_code names e)) = e"
  using nth_enum_code [OF assms(1)] assms(2) by (simp add: enum_of_def unat_of_nat)

subsection \<open>A stream without errors\<close>

definition sw_reader :: "nat \<Rightarrow> u8 list \<Rightarrow> state_wrapper" where
  "sw_reader v bs = \<lparr>sw_mode = SW_Read, sw_version = v, sw_error = False, sw_stream = bs, sw_room = 0\<rparr>"

definition sw_writer :: "nat \<Rightarrow> u8 list \<Rightarrow> nat \<Rightarrow> state_wrapper" where
  "sw_writer v bs room = \<lparr>sw_mode = SW_Write, sw_version = v, sw_error = False, sw_stream = bs, sw_room = room\<rparr>"

lemma sw_modes [simp]:
  "sw_IsReading (sw_reader v bs)" "\<not> sw_IsReading (sw_writer v bs room)"
  "\<not> sw_error (sw_reader v bs)" "\<not> sw_error (sw_writer v bs room)"
  "sw_version (sw_reader v bs) = v" "sw_version (sw_writer v bs room) = v"
  by (simp_all add: sw_reader_def sw_writer_def sw_IsReading_def)

lemma sw_get_reader [simp]:
  "length bs = n \<Longrightarrow> sw_get n (sw_reader v (bs @ rest)) = (bs, sw_reader v rest)"
  by (auto simp: sw_get_def sw_reader_def)

lemma sw_put_writer [simp]:
  "length bs \<le> room \<Longrightarrow> sw_put bs (sw_writer v out room) = sw_writer v (out @ bs) (room - length bs)"
  by (simp add: sw_put_def sw_writer_def)

lemma sw_put_mode [simp]: "sw_IsReading (sw_put bs sw) = sw_IsReading sw" "sw_version (sw_put bs sw) = sw_version sw"
  by (simp_all add: sw_put_def sw_IsReading_def)

lemma sw_get_mode [simp]:
  "sw_IsReading (snd (sw_get n sw)) = sw_IsReading sw" "sw_version (snd (sw_get n sw)) = sw_version sw"
  "length (fst (sw_get n sw)) = n"
  by (auto simp: sw_get_def sw_IsReading_def)

subsection \<open>The contract of a field\<close>

text \<open>\<open>fits y x\<close>: the target \<open>y\<close> of a read has the shape of \<open>x\<close>, and \<open>x\<close> is a value the encoding keeps.\<close>

locale codec =
  fixes act :: "'a \<Rightarrow> state_wrapper \<Rightarrow> 'a \<times> state_wrapper"
    and enc :: "'a \<Rightarrow> u8 list"
    and fits :: "'a \<Rightarrow> 'a \<Rightarrow> bool"
  assumes written: "length (enc x) \<le> room \<Longrightarrow>
      act x (sw_writer v out room) = (x, sw_writer v (out @ enc x) (room - length (enc x)))"
    and read_back: "fits y x \<Longrightarrow> act y (sw_reader v (enc x @ rest)) = (x, sw_reader v rest)"
begin

text \<open>An array of such fields is encoded element by element.\<close>

lemma array_written:
  "length (concat (map enc xs)) \<le> room \<Longrightarrow>
   DoArray act xs (sw_writer v out room) =
     (xs, sw_writer v (out @ concat (map enc xs)) (room - length (concat (map enc xs))))"
  by (induction xs arbitrary: out room) (simp_all add: written)

lemma array_read_back:
  "list_all2 fits ys xs \<Longrightarrow>
   DoArray act ys (sw_reader v (concat (map enc xs) @ rest)) = (xs, sw_reader v rest)"
  by (induction ys xs rule: list_all2_induct) (simp_all add: read_back)

lemma versioned:
  assumes "n \<le> v"
  shows "length (enc x) \<le> room \<Longrightarrow>
      DoEx act n d x (sw_writer v out room) = (x, sw_writer v (out @ enc x) (room - length (enc x)))"
    and "fits y x \<Longrightarrow> DoEx act n d y (sw_reader v (enc x @ rest)) = (x, sw_reader v rest)"
  using assms by (simp_all add: DoEx_def written read_back)

end

subsection \<open>The contract of the overloads\<close>

lemma codec_word:
  assumes "8 dvd LENGTH('w::len)"
  shows "codec (Do_word :: 'w word \<Rightarrow> _) le_bytes (\<lambda>_ _. True)"
  by unfold_locales (simp_all add: Do_word_def of_le_le_bytes assms)

interpretation u8_codec: codec "Do_word :: u8 \<Rightarrow> _" le_bytes "\<lambda>_ _. True"
  by (rule codec_word) simp

interpretation u16_codec: codec "Do_word :: u16 \<Rightarrow> _" le_bytes "\<lambda>_ _. True"
  by (rule codec_word) simp

interpretation u32_codec: codec "Do_word :: u32 \<Rightarrow> _" le_bytes "\<lambda>_ _. True"
  by (rule codec_word) simp

lemma codec_enum:
  assumes "codec (Do_word :: 'w::len word \<Rightarrow> _) le_bytes (\<lambda>_ _. True)"
  shows "codec (Do_enum code decode) (\<lambda>x. le_bytes (code x :: 'w word)) (\<lambda>_ x. decode (code x) = x)"
proof -
  note w = codec.written [OF assms] codec.read_back [OF assms]
  show ?thesis by unfold_locales (simp_all add: Do_enum_def w)
qed

lemmas u8_enum = codec_enum [OF u8_codec.codec_axioms]
lemmas u32_enum = codec_enum [OF u32_codec.codec_axioms]

interpretation bool_codec: codec Do_bool "\<lambda>b. le_bytes (of_bool b :: u8)" "\<lambda>_ _. True"
  by unfold_locales (simp_all add: Do_bool_def Do_enum_def u8_codec.written u8_codec.read_back)

interpretation s32_codec: codec Do_s32 "\<lambda>i. le_bytes (word_of_int i :: u32)" "\<lambda>_ i. sint (word_of_int i :: u32) = i"
  unfolding Do_s32_def by (rule u32_enum)

lemmas codec_rules = u8_codec.written u16_codec.written u32_codec.written bool_codec.written s32_codec.written
  u8_codec.read_back u16_codec.read_back u32_codec.read_back bool_codec.read_back s32_codec.read_back

end
