(* ===== verification/MemoryCard.thy ===== *)
theory MemoryCard
  imports HostState StateWrapper
begin

text \<open>
  The memory card (\<open>src/core/memory_card.cpp\<close>) and its image
  (\<open>src/core/memory_card_image.cpp\<close>): 128 KiB in 1024 frames of 128 bytes, read and written over
  the serial port by a state machine that takes and returns one byte at a time. A frame that was
  written schedules an event which saves the image to its file.
\<close>

subsection \<open>The image\<close>

definition DATA_SIZE :: nat where "DATA_SIZE = 128 * 1024"
definition BLOCK_SIZE :: nat where "BLOCK_SIZE = 8192"
definition FRAME_SIZE :: nat where "FRAME_SIZE = 128"

definition GetChecksum :: "u8 list \<Rightarrow> u8" where
  "GetChecksum frame = fold (\<lambda>i c. c XOR frame ! i) [1..<FRAME_SIZE - 1] (frame ! 0)"

text \<open>\<open>GetFramePtr\<close>: the code writes through a pointer to the frame; \<open>on_frame\<close> does so to the 128 bytes there.\<close>

definition frame_offset :: "nat \<Rightarrow> nat \<Rightarrow> nat" where
  "frame_offset block frame = block * BLOCK_SIZE + frame * FRAME_SIZE"

definition get_frame :: "nat \<Rightarrow> 'a list \<Rightarrow> 'a list" where
  "get_frame frame data = take FRAME_SIZE (drop (frame_offset 0 frame) data)"

definition on_frame :: "nat \<Rightarrow> ('a list \<Rightarrow> 'a list) \<Rightarrow> 'a list \<Rightarrow> 'a list" where
  "on_frame frame f data =
     take (frame_offset 0 frame) data @ f (get_frame frame data) @ drop (frame_offset 0 frame + FRAME_SIZE) data"

definition with_checksum :: "u8 list \<Rightarrow> u8 list" where
  "with_checksum fptr = fptr[0x7F := GetChecksum fptr]"

definition blank_frame :: "u8 list" where
  "blank_frame = replicate FRAME_SIZE 0"

definition header_frame :: "u8 list" where
  "header_frame = with_checksum (blank_frame[0 := 0x4D, 1 := 0x43])"

definition directory_frame :: "u8 list" where
  "directory_frame = with_checksum (blank_frame[0 := 0xA0, 8 := 0xFF, 9 := 0xFF])"

definition broken_sector_frame :: "u8 list" where
  "broken_sector_frame =
     with_checksum (blank_frame[0 := 0xFF, 1 := 0xFF, 2 := 0xFF, 3 := 0xFF, 8 := 0xFF, 9 := 0xFF])"

definition Format :: "u8 list \<Rightarrow> u8 list" where
  "Format data =
     (let d0 = replicate (length data) 0xFF;
          d1 = on_frame 0 (\<lambda>_. header_frame) d0;
          d2 = fold (\<lambda>frame. on_frame frame (\<lambda>_. directory_frame)) [1..<16] d1;
          d3 = fold (\<lambda>frame. on_frame frame (\<lambda>_. broken_sector_frame)) [16..<36] d2;
          d4 = fold (\<lambda>frame. on_frame frame (\<lambda>_. blank_frame)) [36..<56] d3;
          d5 = fold (\<lambda>frame. on_frame frame (\<lambda>_. blank_frame)) [56..<63] d4
      in on_frame 63 (\<lambda>_. get_frame 0 d5) d5)"

text \<open>\<open>LoadFromFile\<close> and \<open>SaveToFile\<close>: a file of another size is refused, and a save that fails leaves the file alone.\<close>

definition LoadImage :: "u8 list \<Rightarrow> string \<Rightarrow> 'a host_state_scheme \<Rightarrow> bool \<times> u8 list" where
  "LoadImage data filename s =
     (case host_files s filename of
        Some bytes \<Rightarrow> if length bytes = DATA_SIZE then (True, bytes) else (False, data)
      | None \<Rightarrow> (False, data))"

definition SaveImage :: "u8 list \<Rightarrow> string \<Rightarrow> 'a host_state_scheme \<Rightarrow> bool \<times> 'a host_state_scheme" where
  "SaveImage data filename s =
     (if host_writable s filename then (True, s\<lparr>host_files := (host_files s)(filename := Some data)\<rparr>)
      else (False, s))"

subsection \<open>The card\<close>

datatype card_State =
    CIdle | CCommand
  | ReadCardID1 | ReadCardID2 | ReadAddressMSB | ReadAddressLSB | ReadACK1 | ReadACK2
  | ReadConfirmAddressMSB | ReadConfirmAddressLSB | ReadData | ReadChecksum | ReadEnd
  | WriteCardID1 | WriteCardID2 | WriteAddressMSB | WriteAddressLSB | WriteData | WriteChecksum
  | WriteACK1 | WriteACK2 | WriteEnd
  | CUnnamed u8

text \<open>\<open>CUnnamed\<close> is a value outside the enumeration, which a damaged save state can give.\<close>

record memory_card =
  card_save_event :: nat
  card_state :: card_State
  card_FLAG :: u8
  card_address :: u16
  card_sector_offset :: u8
  card_checksum :: u8
  card_last_byte :: u8
  card_changed :: bool
  card_data :: "u8 list"
  card_filename :: string

text \<open>\<open>FLAG.no_write_yet\<close> is bit 3.\<close>

definition set_no_write_yet :: "bool \<Rightarrow> memory_card \<Rightarrow> memory_card" where
  "set_no_write_yet b mc = mc\<lparr>card_FLAG := assign_bit 3 b (card_FLAG mc)\<rparr>"

definition SAVE_DELAY_IN_SECONDS :: int where "SAVE_DELAY_IN_SECONDS = 5"

definition GetSaveDelayInTicks :: "'a host_state_scheme \<Rightarrow> tick_count" where
  "GetSaveDelayInTicks s = g_ticks_per_second s * SAVE_DELAY_IN_SECONDS"

definition new_card :: "nat \<Rightarrow> memory_card" where
  "new_card event = set_no_write_yet True
     \<lparr>card_save_event = event, card_state = CIdle, card_FLAG = 0, card_address = 0, card_sector_offset = 0,
      card_checksum = 0, card_last_byte = 0, card_changed = False, card_data = replicate DATA_SIZE 0,
      card_filename = []\<rparr>"

text \<open>The constructor creates the save event, inactive.\<close>

definition MemoryCard_construct :: "nat \<Rightarrow> 'a host_state_scheme \<Rightarrow> memory_card \<times> 'a host_state_scheme" where
  "MemoryCard_construct event s =
     (new_card event,
      set_node event (\<lambda>_. te_construct ''Memory Card Host Flush'' (GetSaveDelayInTicks s) (GetSaveDelayInTicks s)) s)"

definition card_ResetTransferState :: "memory_card \<Rightarrow> memory_card" where
  "card_ResetTransferState mc =
     mc\<lparr>card_state := CIdle, card_address := 0, card_sector_offset := 0, card_checksum := 0, card_last_byte := 0\<rparr>"

definition SaveIfChanged :: "memory_card \<Rightarrow> 'a host_state_scheme \<Rightarrow> bool \<times> memory_card \<times> 'a host_state_scheme" where
  "SaveIfChanged mc s =
     (let s1 = Deactivate (card_save_event mc) s
      in if \<not> card_changed mc then (True, mc, s1)
         else let mc1 = mc\<lparr>card_changed := False\<rparr>
              in if card_filename mc1 = [] then (False, mc1, s1)
                 else let (ok, s2) = SaveImage (card_data mc1) (card_filename mc1) s1 in (ok, mc1, s2))"

definition QueueFileSave :: "memory_card \<Rightarrow> 'a host_state_scheme \<Rightarrow> 'a host_state_scheme" where
  "QueueFileSave mc s =
     (if te_active (te_nodes s (card_save_event mc)) \<or> card_filename mc = [] then s
      else Schedule (card_save_event mc) (GetSaveDelayInTicks s) s)"

definition card_Reset :: "memory_card \<Rightarrow> 'a host_state_scheme \<Rightarrow> memory_card \<times> 'a host_state_scheme" where
  "card_Reset mc s =
     (let (ok, mc1, s1) = SaveIfChanged (card_ResetTransferState mc) s in (set_no_write_yet True mc1, s1))"

definition card_Format :: "memory_card \<Rightarrow> memory_card" where
  "card_Format mc = mc\<lparr>card_data := Format (card_data mc), card_changed := True\<rparr>"

definition card_LoadFromFile :: "memory_card \<Rightarrow> 'a host_state_scheme \<Rightarrow> bool \<times> memory_card" where
  "card_LoadFromFile mc s =
     (let (ok, bytes) = LoadImage (card_data mc) (card_filename mc) s in (ok, mc\<lparr>card_data := bytes\<rparr>))"

definition card_Create :: "nat \<Rightarrow> 'a host_state_scheme \<Rightarrow> memory_card \<times> 'a host_state_scheme" where
  "card_Create event s = (let (mc, s1) = MemoryCard_construct event s in (card_Format mc, s1))"

definition card_Open :: "nat \<Rightarrow> string \<Rightarrow> 'a host_state_scheme \<Rightarrow> memory_card \<times> 'a host_state_scheme" where
  "card_Open event filename s =
     (let (mc, s1) = MemoryCard_construct event s;
          mc1 = mc\<lparr>card_filename := filename\<rparr>;
          (ok, mc2) = card_LoadFromFile mc1 s1
      in (if ok then mc2 else card_Format mc2, s1))"

definition SanitizeGameTitleForFileName :: "string \<Rightarrow> string" where
  "SanitizeGameTitleForFileName name =
     map (\<lambda>c. if c = CHR 0x5C \<or> c = CHR 0x2F \<or> c = CHR 0x3F \<or> c = CHR 0x2A then CHR 0x5F else c) name"

subsection \<open>The state machine of a transfer\<close>

text \<open>A reply is whether the byte is acknowledged, the byte sent back, and the card.\<close>

type_synonym card_reply = "bool \<times> u8 \<times> memory_card"

definition FIXED_REPLY_STATE :: "u8 \<Rightarrow> bool \<Rightarrow> card_State \<Rightarrow> memory_card \<Rightarrow> card_reply" where
  "FIXED_REPLY_STATE reply ack_value next_state mc = (ack_value, reply, mc\<lparr>card_state := next_state\<rparr>)"

definition ADDRESS_STATE_MSB :: "card_State \<Rightarrow> u8 \<Rightarrow> memory_card \<Rightarrow> card_reply" where
  "ADDRESS_STATE_MSB next_state data_in mc =
     (True, 0x00, mc\<lparr>card_address := ((card_address mc AND 0x00FF) OR push_bit 8 (ucast data_in)) AND 0x3FF,
                     card_state := next_state\<rparr>)"

definition ADDRESS_STATE_LSB :: "card_State \<Rightarrow> u8 \<Rightarrow> memory_card \<Rightarrow> card_reply" where
  "ADDRESS_STATE_LSB next_state data_in mc =
     (True, card_last_byte mc,
      mc\<lparr>card_address := ((card_address mc AND 0xFF00) OR ucast data_in) AND 0x3FF,
         card_sector_offset := 0, card_state := next_state\<rparr>)"

definition card_offset :: "memory_card \<Rightarrow> nat" where
  "card_offset mc = unat (card_address mc) * FRAME_SIZE + unat (card_sector_offset mc)"

definition add_checksum :: "u8 \<Rightarrow> memory_card \<Rightarrow> memory_card" where
  "add_checksum bits mc =
     mc\<lparr>card_checksum :=
          (if card_sector_offset mc = 0
           then ucast (drop_bit 8 (card_address mc)) XOR ucast (card_address mc) XOR bits
           else card_checksum mc XOR bits)\<rparr>"

definition next_offset :: "card_State \<Rightarrow> memory_card \<Rightarrow> memory_card" where
  "next_offset end_state mc =
     (let mc1 = mc\<lparr>card_sector_offset := card_sector_offset mc + 1\<rparr>
      in if unat (card_sector_offset mc1) = FRAME_SIZE
         then mc1\<lparr>card_state := end_state, card_sector_offset := 0\<rparr> else mc1)"

definition card_ReadData :: "memory_card \<Rightarrow> card_reply" where
  "card_ReadData mc =
     (let bits = card_data mc ! card_offset mc
      in (True, bits, next_offset ReadChecksum (add_checksum bits mc)))"

text \<open>The end of a frame queues the save.\<close>

definition card_WriteData :: "u8 \<Rightarrow> memory_card \<Rightarrow> 'a host_state_scheme \<Rightarrow> card_reply \<times> 'a host_state_scheme" where
  "card_WriteData data_in mc s =
     (let mc1 = add_checksum data_in mc;
          mc2 = (if card_sector_offset mc = 0 then set_no_write_yet False mc1 else mc1);
          offset = card_offset mc2;
          mc3 = mc2\<lparr>card_changed := card_changed mc2 \<or> card_data mc2 ! offset \<noteq> data_in,
                    card_data := (card_data mc2)[offset := data_in]\<rparr>;
          mc4 = next_offset WriteChecksum mc3
      in ((True, card_last_byte mc, mc4),
          if unat (card_sector_offset mc3 + 1) = FRAME_SIZE \<and> card_changed mc4 then QueueFileSave mc4 s else s))"

definition card_Idle :: "u8 \<Rightarrow> u8 \<Rightarrow> memory_card \<Rightarrow> card_reply" where
  "card_Idle data_in data_out mc =
     (if data_in = 0x81 then (True, 0xFF, mc\<lparr>card_state := CCommand\<rparr>) else (False, data_out, mc))"

definition card_Command :: "u8 \<Rightarrow> u8 \<Rightarrow> memory_card \<Rightarrow> card_reply" where
  "card_Command data_in data_out mc =
     (if data_in = 0x52 then (True, card_FLAG mc, mc\<lparr>card_state := ReadCardID1\<rparr>)
      else if data_in = 0x57 then (True, card_FLAG mc, mc\<lparr>card_state := WriteCardID1\<rparr>)
      else if data_in = 0x53 then (False, data_out, mc)
      else (False, card_FLAG mc, mc\<lparr>card_state := CIdle\<rparr>))"

fun card_switch :: "card_State \<Rightarrow> u8 \<Rightarrow> u8 \<Rightarrow> memory_card \<Rightarrow> 'a host_state_scheme \<Rightarrow> card_reply \<times> 'a host_state_scheme" where
  "card_switch ReadCardID1 data_in out mc s = (FIXED_REPLY_STATE 0x5A True ReadCardID2 mc, s)"
| "card_switch ReadCardID2 data_in out mc s = (FIXED_REPLY_STATE 0x5D True ReadAddressMSB mc, s)"
| "card_switch ReadAddressMSB data_in out mc s = (ADDRESS_STATE_MSB ReadAddressLSB data_in mc, s)"
| "card_switch ReadAddressLSB data_in out mc s = (ADDRESS_STATE_LSB ReadACK1 data_in mc, s)"
| "card_switch ReadACK1 data_in out mc s = (FIXED_REPLY_STATE 0x5C True ReadACK2 mc, s)"
| "card_switch ReadACK2 data_in out mc s = (FIXED_REPLY_STATE 0x5D True ReadConfirmAddressMSB mc, s)"
| "card_switch ReadConfirmAddressMSB data_in out mc s =
     (FIXED_REPLY_STATE (ucast (drop_bit 8 (card_address mc))) True ReadConfirmAddressLSB mc, s)"
| "card_switch ReadConfirmAddressLSB data_in out mc s =
     (FIXED_REPLY_STATE (ucast (card_address mc)) True ReadData mc, s)"
| "card_switch ReadData data_in out mc s = (card_ReadData mc, s)"
| "card_switch ReadChecksum data_in out mc s = (FIXED_REPLY_STATE (card_checksum mc) True ReadEnd mc, s)"
| "card_switch ReadEnd data_in out mc s = (FIXED_REPLY_STATE 0x47 True CIdle mc, s)"
| "card_switch WriteCardID1 data_in out mc s = (FIXED_REPLY_STATE 0x5A True WriteCardID2 mc, s)"
| "card_switch WriteCardID2 data_in out mc s = (FIXED_REPLY_STATE 0x5D True WriteAddressMSB mc, s)"
| "card_switch WriteAddressMSB data_in out mc s = (ADDRESS_STATE_MSB WriteAddressLSB data_in mc, s)"
| "card_switch WriteAddressLSB data_in out mc s = (ADDRESS_STATE_LSB WriteData data_in mc, s)"
| "card_switch WriteData data_in out mc s = card_WriteData data_in mc s"
| "card_switch WriteChecksum data_in out mc s = (FIXED_REPLY_STATE (card_checksum mc) True WriteACK1 mc, s)"
| "card_switch WriteACK1 data_in out mc s = (FIXED_REPLY_STATE 0x5C True WriteACK2 mc, s)"
| "card_switch WriteACK2 data_in out mc s = (FIXED_REPLY_STATE 0x5D True WriteEnd mc, s)"
| "card_switch WriteEnd data_in out mc s = (FIXED_REPLY_STATE 0x47 False CIdle mc, s)"
| "card_switch CIdle data_in out mc s = (card_Idle data_in out mc, s)"
| "card_switch CCommand data_in out mc s = (card_Command data_in out mc, s)"
| "card_switch (CUnnamed w) data_in out mc s = ((False, out, mc), s)"

text \<open>\<open>out\<close> is what \<open>*data_out\<close> holds before the call; some branches do not write it.\<close>

definition card_Transfer :: "u8 \<Rightarrow> u8 \<Rightarrow> memory_card \<Rightarrow> 'a host_state_scheme \<Rightarrow> card_reply \<times> 'a host_state_scheme" where
  "card_Transfer data_in out mc s =
     (let ((ack, data_out, mc1), s1) = card_switch (card_state mc) data_in out mc s
      in ((ack, data_out, mc1\<lparr>card_last_byte := data_in\<rparr>), s1))"

subsection \<open>Save states\<close>

definition card_State_names :: "card_State list" where
  "card_State_names =
     [CIdle, CCommand, ReadCardID1, ReadCardID2, ReadAddressMSB, ReadAddressLSB, ReadACK1, ReadACK2,
      ReadConfirmAddressMSB, ReadConfirmAddressLSB, ReadData, ReadChecksum, ReadEnd,
      WriteCardID1, WriteCardID2, WriteAddressMSB, WriteAddressLSB, WriteData, WriteChecksum,
      WriteACK1, WriteACK2, WriteEnd]"

fun card_State_code :: "card_State \<Rightarrow> u8" where
  "card_State_code (CUnnamed w) = w"
| "card_State_code e = of_nat (enum_code card_State_names e)"

definition card_DoState :: "memory_card \<Rightarrow> state_wrapper \<Rightarrow> 'a host_state_scheme
    \<Rightarrow> (bool \<times> memory_card \<times> state_wrapper) \<times> 'a host_state_scheme" where
  "card_DoState mc sw s =
     (let (mc0, s0) = (if sw_IsReading sw then snd (SaveIfChanged mc s) else (mc, s));
          (st, sw1) = Do_enum card_State_code (enum_of card_State_names CUnnamed) (card_state mc0) sw;
          (fl, sw2) = Do_word (card_FLAG mc0) sw1;
          (ad, sw3) = Do_word (card_address mc0) sw2;
          (so, sw4) = Do_word (card_sector_offset mc0) sw3;
          (ck, sw5) = Do_word (card_checksum mc0) sw4;
          (lb, sw6) = Do_word (card_last_byte mc0) sw5;
          (dt, sw7) = DoArray Do_word (card_data mc0) sw6;
          (ch, sw8) = Do_bool (card_changed mc0) sw7
      in ((\<not> sw_error sw8,
           mc0\<lparr>card_state := st, card_FLAG := fl, card_address := ad, card_sector_offset := so,
               card_checksum := ck, card_last_byte := lb, card_data := dt, card_changed := ch\<rparr>, sw8), s0))"

end
