(* ===== verification/MemoryCardSpec.thy ===== *)
theory MemoryCardSpec
  imports MemoryCard
begin

text \<open>
  Facts about the memory card: its invariant (the address and the offset stay inside the image),
  the frames of a formatted card, and what a whole exchange over the serial port reads and writes.
\<close>

subsection \<open>Frames\<close>

lemma length_on_frame:
  assumes "length data = DATA_SIZE" and "f < 1024" and "length (g (get_frame f data)) = FRAME_SIZE"
  shows "length (on_frame f g data) = DATA_SIZE"
  using assms by (simp add: on_frame_def frame_offset_def FRAME_SIZE_def DATA_SIZE_def)

lemma length_get_frame:
  "length data = DATA_SIZE \<Longrightarrow> f < 1024 \<Longrightarrow> length (get_frame f data) = FRAME_SIZE"
  by (simp add: get_frame_def frame_offset_def FRAME_SIZE_def DATA_SIZE_def)

lemma nth_get_frame:
  "length data = DATA_SIZE \<Longrightarrow> f < 1024 \<Longrightarrow> i < FRAME_SIZE \<Longrightarrow> get_frame f data ! i = data ! (f * FRAME_SIZE + i)"
  by (simp add: get_frame_def frame_offset_def FRAME_SIZE_def DATA_SIZE_def)

lemma nth_on_frame:
  assumes "length data = DATA_SIZE" and "f < 1024" and "length (g (get_frame f data)) = FRAME_SIZE" and "k < DATA_SIZE"
  shows "on_frame f g data ! k =
    (if f * FRAME_SIZE \<le> k \<and> k < f * FRAME_SIZE + FRAME_SIZE then g (get_frame f data) ! (k - f * FRAME_SIZE)
     else data ! k)"
proof -
  have "f * 128 + 128 \<le> length data" using assms(1,2) by (simp add: DATA_SIZE_def)
  then show ?thesis
    using assms(3) by (auto simp: on_frame_def frame_offset_def nth_append FRAME_SIZE_def)
qed

lemma get_on_frame:
  assumes "length data = DATA_SIZE" and "f < 1024" and "h < 1024" and "length (g (get_frame f data)) = FRAME_SIZE"
  shows "get_frame h (on_frame f g data) = (if h = f then g (get_frame f data) else get_frame h data)"
proof (rule nth_equalityI)
  show "length (get_frame h (on_frame f g data)) = length (if h = f then g (get_frame f data) else get_frame h data)"
    using assms by (simp add: length_get_frame length_on_frame)
  fix i
  assume "i < length (get_frame h (on_frame f g data))"
  then have i: "i < FRAME_SIZE" using assms by (simp add: length_get_frame length_on_frame)
  have k: "h * FRAME_SIZE + i < DATA_SIZE" using i assms(3) by (simp add: FRAME_SIZE_def DATA_SIZE_def)
  have "f * FRAME_SIZE \<le> h * FRAME_SIZE + i \<and> h * FRAME_SIZE + i < f * FRAME_SIZE + FRAME_SIZE \<longleftrightarrow> h = f"
    using i unfolding FRAME_SIZE_def by auto
  then show "get_frame h (on_frame f g data) ! i = (if h = f then g (get_frame f data) else get_frame h data) ! i"
    using nth_on_frame [where g = g, OF assms(1,2,4) k]
    by (simp add: nth_get_frame length_on_frame assms i)
qed

lemma frames_written:
  fixes a b :: nat and x :: "'a list" and data :: "'a list"
  assumes "length data = DATA_SIZE" and "length x = FRAME_SIZE" and "b \<le> 1024"
  defines "written \<equiv> fold (\<lambda>f. on_frame f (\<lambda>_. x)) [a..<b] data"
  shows "length written = DATA_SIZE"
    and "h < 1024 \<Longrightarrow> get_frame h written = (if a \<le> h \<and> h < b then x else get_frame h data)"
proof -
  have "length (fold (\<lambda>f. on_frame f (\<lambda>_. x)) [a..<b] data) = DATA_SIZE \<and>
    (\<forall>h < 1024. get_frame h (fold (\<lambda>f. on_frame f (\<lambda>_. x)) [a..<b] data) =
       (if a \<le> h \<and> h < b then x else get_frame h data))"
    using assms(3)
  proof (induction b)
    case (Suc b)
    then show ?case
      using assms by (cases "a \<le> b") (auto simp: length_on_frame get_on_frame)
  qed (simp add: assms)
  then show "length written = DATA_SIZE"
    and "h < 1024 \<Longrightarrow> get_frame h written = (if a \<le> h \<and> h < b then x else get_frame h data)"
    by (simp_all add: written_def)
qed

lemma formatted_frames:
  assumes "length data = DATA_SIZE"
  shows "length (Format data) = DATA_SIZE" and
    "h < 1024 \<Longrightarrow> get_frame h (Format data) =
       (if h = 0 \<or> h = 63 then header_frame
        else if h < 16 then directory_frame
        else if h < 36 then broken_sector_frame
        else if h < 63 then blank_frame
        else replicate FRAME_SIZE 0xFF)"
proof -
  have x: "length header_frame = FRAME_SIZE" "length directory_frame = FRAME_SIZE"
    "length broken_sector_frame = FRAME_SIZE" "length blank_frame = FRAME_SIZE"
    by (simp_all add: header_frame_def directory_frame_def broken_sector_frame_def blank_frame_def with_checksum_def)
  define d1 where "d1 = on_frame 0 (\<lambda>_. header_frame) (replicate (length data) 0xFF)"
  define d2 where "d2 = fold (\<lambda>frame. on_frame frame (\<lambda>_. directory_frame)) [1..<16] d1"
  define d3 where "d3 = fold (\<lambda>frame. on_frame frame (\<lambda>_. broken_sector_frame)) [16..<36] d2"
  define d4 where "d4 = fold (\<lambda>frame. on_frame frame (\<lambda>_. blank_frame)) [36..<56] d3"
  define d5 where "d5 = fold (\<lambda>frame. on_frame frame (\<lambda>_. blank_frame)) [56..<63] d4"
  have F: "Format data = on_frame 63 (\<lambda>_. get_frame 0 d5) d5"
    by (simp add: Format_def Let_def d1_def d2_def d3_def d4_def d5_def)
  have l1: "length d1 = DATA_SIZE" by (simp add: d1_def length_on_frame assms x)
  have l2: "length d2 = DATA_SIZE" unfolding d2_def by (rule frames_written(1) [OF l1 x(2)]) simp
  have l3: "length d3 = DATA_SIZE" unfolding d3_def by (rule frames_written(1) [OF l2 x(3)]) simp
  have l4: "length d4 = DATA_SIZE" unfolding d4_def by (rule frames_written(1) [OF l3 x(4)]) simp
  have l5: "length d5 = DATA_SIZE" unfolding d5_def by (rule frames_written(1) [OF l4 x(4)]) simp
  show "length (Format data) = DATA_SIZE"
    by (simp add: F length_on_frame l5 length_get_frame)
  assume h: "h < 1024"
  have g0: "get_frame k (replicate (length data) (0xFF :: u8)) = replicate FRAME_SIZE 0xFF" if "k < 1024" for k
    using that by (simp add: get_frame_def frame_offset_def assms FRAME_SIZE_def DATA_SIZE_def)
  have g1: "get_frame k d1 = (if k = 0 then header_frame else replicate FRAME_SIZE 0xFF)" if "k < 1024" for k
    using that g0 [unfolded assms] by (simp add: d1_def get_on_frame assms x)
  have g2: "get_frame k d2 = (if 1 \<le> k \<and> k < 16 then directory_frame else get_frame k d1)" if "k < 1024" for k
    unfolding d2_def by (rule frames_written(2) [OF l1 x(2) _ that]) simp
  have g3: "get_frame k d3 = (if 16 \<le> k \<and> k < 36 then broken_sector_frame else get_frame k d2)" if "k < 1024" for k
    unfolding d3_def by (rule frames_written(2) [OF l2 x(3) _ that]) simp
  have g4: "get_frame k d4 = (if 36 \<le> k \<and> k < 56 then blank_frame else get_frame k d3)" if "k < 1024" for k
    unfolding d4_def by (rule frames_written(2) [OF l3 x(4) _ that]) simp
  have g5: "get_frame k d5 = (if 56 \<le> k \<and> k < 63 then blank_frame else get_frame k d4)" if "k < 1024" for k
    unfolding d5_def by (rule frames_written(2) [OF l4 x(4) _ that]) simp
  have g6: "get_frame k (Format data) = (if k = 63 then get_frame 0 d5 else get_frame k d5)" if "k < 1024" for k
    using that by (simp add: F get_on_frame l5 length_get_frame)
  show "get_frame h (Format data) =
       (if h = 0 \<or> h = 63 then header_frame
        else if h < 16 then directory_frame
        else if h < 36 then broken_sector_frame
        else if h < 63 then blank_frame
        else replicate FRAME_SIZE 0xFF)"
    using g6 [OF h] h by (simp add: g5 g4 g3 g2 g1)
qed

lemma checksum_frames:
  "x \<in> {header_frame, directory_frame, broken_sector_frame, blank_frame} \<Longrightarrow> x ! 0x7F = GetChecksum x"
  by (auto simp: header_frame_def directory_frame_def broken_sector_frame_def blank_frame_def with_checksum_def
      GetChecksum_def FRAME_SIZE_def upt_rec numeral_eq_Suc)

subsection \<open>The invariant\<close>

definition card_inv :: "memory_card \<Rightarrow> bool" where
  "card_inv mc \<longleftrightarrow> length (card_data mc) = DATA_SIZE \<and> unat (card_address mc) < 0x400 \<and>
     unat (card_sector_offset mc) < FRAME_SIZE"

lemma card_inv_fields [simp]:
  "card_inv (card_state_update f mc) = card_inv mc" "card_inv (card_FLAG_update g mc) = card_inv mc"
  "card_inv (card_checksum_update g mc) = card_inv mc" "card_inv (card_last_byte_update g mc) = card_inv mc"
  "card_inv (card_changed_update h mc) = card_inv mc" "card_inv (card_filename_update n mc) = card_inv mc"
  "card_inv (set_no_write_yet b mc) = card_inv mc" "card_inv (add_checksum c mc) = card_inv mc"
  by (simp_all add: card_inv_def set_no_write_yet_def add_checksum_def)

lemma address_range: "unat ((w AND 0x3FF) :: u16) < 0x400"
proof -
  have "w AND 0x3FF = take_bit 10 w" by (simp add: take_bit_eq_mask mask_eq_exp_minus_1)
  then show ?thesis by (simp add: unsigned_take_bit_eq take_bit_nat_less_exp [of 10, simplified])
qed

lemma card_offset_range: "card_inv mc \<Longrightarrow> card_offset mc < length (card_data mc)"
  by (simp add: card_inv_def card_offset_def FRAME_SIZE_def DATA_SIZE_def)

lemma card_inv_next_offset [simp]: "card_inv mc \<Longrightarrow> card_inv (next_offset st mc)"
  by (auto simp: card_inv_def next_offset_def Let_def FRAME_SIZE_def unat_word_ariths)

lemma card_inv_switch:
  assumes "card_inv mc"
  shows "card_inv (snd (snd (fst (card_switch st data_in out mc s))))"
proof -
  have a: "card_inv (mc\<lparr>card_address := w AND 0x3FF\<rparr>)"
    "card_inv (mc\<lparr>card_address := w AND 0x3FF, card_sector_offset := 0\<rparr>)" for w
    using assms address_range [of w] by (simp_all add: card_inv_def FRAME_SIZE_def)
  have d: "card_inv (m\<lparr>card_changed := c, card_data := (card_data m)[o1 := x]\<rparr>)" if "card_inv m" for m c o1 x
    using that by (simp add: card_inv_def)
  show ?thesis
    using assms by (cases st) (simp_all add: FIXED_REPLY_STATE_def ADDRESS_STATE_MSB_def ADDRESS_STATE_LSB_def a d
        card_ReadData_def card_WriteData_def Let_def card_Idle_def card_Command_def)
qed

lemma card_inv_Transfer: "card_inv mc \<Longrightarrow> card_inv (snd (snd (fst (card_Transfer data_in out mc s))))"
  using card_inv_switch [of mc "card_state mc" data_in out s]
  by (simp add: card_Transfer_def Let_def case_prod_beta)

lemma card_inv_Reset [simp]:
  "card_inv (card_ResetTransferState mc) \<longleftrightarrow> length (card_data mc) = DATA_SIZE"
  "card_inv (fst (card_Reset mc s)) \<longleftrightarrow> length (card_data mc) = DATA_SIZE"
  by (simp_all add: card_inv_def card_ResetTransferState_def card_Reset_def SaveIfChanged_def Let_def
      FRAME_SIZE_def set_no_write_yet_def case_prod_beta)

lemma card_inv_Format: "card_inv mc \<Longrightarrow> card_inv (card_Format mc)"
  by (simp add: card_inv_def card_Format_def formatted_frames)

subsection \<open>A whole exchange\<close>

text \<open>The replies to a list of bytes, \<open>*data_out\<close> being 0xFF before each.\<close>

fun card_exchange :: "u8 list \<Rightarrow> memory_card \<Rightarrow> 'a host_state_scheme
    \<Rightarrow> (bool \<times> u8) list \<times> memory_card \<times> 'a host_state_scheme" where
  "card_exchange [] mc s = ([], mc, s)"
| "card_exchange (b # bs) mc s =
     (let ((ack, r, mc1), s1) = card_Transfer b 0xFF mc s;
          (rs, mc2, s2) = card_exchange bs mc1 s1
      in ((ack, r) # rs, mc2, s2))"

lemma card_exchange_append:
  "card_exchange (bs @ cs) mc s =
     (let (rs, mc1, s1) = card_exchange bs mc s; (rs', mc2, s2) = card_exchange cs mc1 s1 in (rs @ rs', mc2, s2))"
  by (induction bs arbitrary: mc s) (simp_all add: Let_def case_prod_beta)

definition sector_checksum :: "u16 \<Rightarrow> u8 list \<Rightarrow> u8" where
  "sector_checksum a ds = fold (\<lambda>b c. c XOR b) ds (ucast (drop_bit 8 a) XOR ucast a)"

text \<open>One byte in the data phase of either direction, \<open>o1\<close> being its place in the sector.\<close>

definition data_step :: "card_State \<Rightarrow> u8 \<Rightarrow> memory_card \<Rightarrow> memory_card \<Rightarrow> bool" where
  "data_step end_state b mc mc1 \<longleftrightarrow>
     card_address mc1 = card_address mc \<and>
     unat (card_sector_offset mc1) = (if unat (card_sector_offset mc) = 127 then 0 else Suc (unat (card_sector_offset mc))) \<and>
     card_state mc1 = (if unat (card_sector_offset mc) = 127 then end_state else card_state mc) \<and>
     card_checksum mc1 =
       (if card_sector_offset mc = 0 then sector_checksum (card_address mc) [b] else card_checksum mc XOR b)"

lemma next_offset_fields [simp]:
  "card_address (next_offset st m) = card_address m" "card_checksum (next_offset st m) = card_checksum m"
  "card_data (next_offset st m) = card_data m"
  "card_sector_offset (next_offset st m) =
     (if unat (card_sector_offset m + 1) = FRAME_SIZE then 0 else card_sector_offset m + 1)"
  "card_state (next_offset st m) = (if unat (card_sector_offset m + 1) = FRAME_SIZE then st else card_state m)"
  by (simp_all add: next_offset_def Let_def)

lemma card_field_updates [simp]:
  "card_address (set_no_write_yet b m) = card_address m" "card_checksum (set_no_write_yet b m) = card_checksum m"
  "card_data (set_no_write_yet b m) = card_data m" "card_state (set_no_write_yet b m) = card_state m"
  "card_sector_offset (set_no_write_yet b m) = card_sector_offset m"
  "card_address (add_checksum c m) = card_address m" "card_data (add_checksum c m) = card_data m"
  "card_state (add_checksum c m) = card_state m" "card_sector_offset (add_checksum c m) = card_sector_offset m"
  "card_offset (set_no_write_yet b m) = card_offset m" "card_offset (add_checksum c m) = card_offset m"
  by (simp_all add: set_no_write_yet_def add_checksum_def card_offset_def)

lemma next_offset_step:
  assumes "card_inv mc" and "card_address m = card_address mc" and "card_sector_offset m = card_sector_offset mc"
    and "card_state m = card_state mc" and "card_checksum m = card_checksum (add_checksum b mc)"
  shows "data_step st b mc (next_offset st m\<lparr>card_last_byte := x\<rparr>)"
proof -
  have o1: "unat (card_sector_offset mc) < 128" using assms(1) by (simp add: card_inv_def FRAME_SIZE_def)
  then have u: "unat (card_sector_offset mc + 1) = Suc (unat (card_sector_offset mc))" by (simp add: unat_word_ariths)
  have "unat (card_sector_offset mc + 1) = FRAME_SIZE \<longleftrightarrow> unat (card_sector_offset mc) = 127"
    by (simp add: u FRAME_SIZE_def)
  then show ?thesis
    using u assms by (simp add: data_step_def add_checksum_def sector_checksum_def xor.assoc)
qed

lemma read_byte:
  assumes "card_inv mc" and "card_state mc = ReadData"
  obtains mc1 where "card_Transfer b out mc s = ((True, card_data mc ! card_offset mc, mc1), s)"
    and "data_step ReadChecksum (card_data mc ! card_offset mc) mc mc1" and "card_data mc1 = card_data mc" and "card_inv mc1"
proof -
  define mc1 where "mc1 = next_offset ReadChecksum (add_checksum (card_data mc ! card_offset mc) mc)\<lparr>card_last_byte := b\<rparr>"
  have t: "card_Transfer b out mc s = ((True, card_data mc ! card_offset mc, mc1), s)"
    by (simp add: card_Transfer_def assms(2) card_ReadData_def Let_def mc1_def)
  moreover have "data_step ReadChecksum (card_data mc ! card_offset mc) mc mc1"
    unfolding mc1_def by (rule next_offset_step [OF assms(1)]) simp_all
  moreover have "card_data mc1 = card_data mc" by (simp add: mc1_def next_offset_def Let_def add_checksum_def)
  moreover have "card_inv mc1" using card_inv_Transfer [OF assms(1), of b out s] t by simp
  ultimately show thesis by (rule that)
qed

lemma write_byte:
  assumes "card_inv mc" and "card_state mc = WriteData"
  obtains mc1 s1 where "card_Transfer b out mc s = ((True, card_last_byte mc, mc1), s1)"
    and "data_step WriteChecksum b mc mc1" and "card_data mc1 = (card_data mc)[card_offset mc := b]" and "card_inv mc1"
proof -
  define mc1 where "mc1 = snd (snd (fst (card_Transfer b out mc s)))"
  define s1 where "s1 = snd (card_Transfer b out mc s)"
  have t: "card_Transfer b out mc s = ((True, card_last_byte mc, mc1), s1)"
    by (simp add: card_Transfer_def assms(2) card_WriteData_def Let_def mc1_def s1_def)
  have m: "mc1 = (let m2 = (if card_sector_offset mc = 0 then set_no_write_yet False (add_checksum b mc) else add_checksum b mc)
    in next_offset WriteChecksum (m2\<lparr>card_changed := card_changed m2 \<or> card_data m2 ! card_offset m2 \<noteq> b,
       card_data := (card_data m2)[card_offset m2 := b]\<rparr>)\<lparr>card_last_byte := b\<rparr>)"
    by (simp add: mc1_def card_Transfer_def assms(2) card_WriteData_def Let_def)
  have "data_step WriteChecksum b mc mc1"
    unfolding m Let_def by (rule next_offset_step [OF assms(1)]) simp_all
  moreover have "card_data mc1 = (card_data mc)[card_offset mc := b]"
    unfolding m Let_def by simp
  moreover have "card_inv mc1" using card_inv_Transfer [OF assms(1), of b out s] t by simp
  ultimately show thesis using t that by blast
qed

lemma write_bytes:
  assumes "card_inv mc" and "card_state mc = WriteData" and "unat (card_sector_offset mc) + length ds = 128"
  obtains rs mc1 s1 where "card_exchange ds mc s = (rs, mc1, s1)" and "map fst rs = replicate (length ds) True"
    and "card_inv mc1" and "card_state mc1 = WriteChecksum" and "card_address mc1 = card_address mc"
    and "card_data mc1 = take (card_offset mc) (card_data mc) @ ds @ drop (card_offset mc + length ds) (card_data mc)"
    and "card_checksum mc1 = (if card_sector_offset mc = 0 then sector_checksum (card_address mc) ds
           else fold (\<lambda>b c. c XOR b) ds (card_checksum mc))"
  using assms
proof (induction ds arbitrary: mc s thesis)
  case Nil
  have False using Nil.prems(2,4) by (simp add: card_inv_def FRAME_SIZE_def)
  then show ?case ..
next
  case (Cons b ds)
  obtain m s1 where t: "card_Transfer b 0xFF mc s = ((True, card_last_byte mc, m), s1)"
    and st: "data_step WriteChecksum b mc m" and d: "card_data m = (card_data mc)[card_offset mc := b]" and i: "card_inv m"
    by (rule write_byte [OF Cons.prems(2,3)])
  have o1: "card_offset mc < length (card_data mc)" by (rule card_offset_range [OF Cons.prems(2)])
  show ?case
  proof (cases ds)
    case Nil
    have last: "unat (card_sector_offset mc) = 127" using Cons.prems(4) Nil by simp
    show ?thesis
    proof (rule Cons.prems(1))
      show "card_exchange (b # ds) mc s = ([(True, card_last_byte mc)], m, s1)" using t by (simp add: Nil)
      show "card_data m = take (card_offset mc) (card_data mc) @ (b # ds) @ drop (card_offset mc + length (b # ds)) (card_data mc)"
        using o1 by (simp add: Nil d upd_conv_take_nth_drop)
      show "card_checksum m = (if card_sector_offset mc = 0 then sector_checksum (card_address mc) (b # ds)
           else fold (\<lambda>b c. c XOR b) (b # ds) (card_checksum mc))"
        using st by (simp add: Nil data_step_def)
    qed (use st last i Nil in \<open>simp_all add: data_step_def\<close>)
  next
    case (Cons c cs)
    have l: "unat (card_sector_offset m) = Suc (unat (card_sector_offset mc))" "card_state m = WriteData"
      "card_address m = card_address mc"
      using st Cons Cons.prems by (auto simp: data_step_def)
    have no: "card_sector_offset m \<noteq> 0" using l(1) by auto
    have co: "card_offset m = Suc (card_offset mc)" using l by (simp add: card_offset_def)
    have len: "unat (card_sector_offset m) + length ds = 128" using l(1) Cons.prems(4) by simp
    obtain rs m2 s2 where x: "card_exchange ds m s1 = (rs, m2, s2)" "map fst rs = replicate (length ds) True"
      "card_inv m2" "card_state m2 = WriteChecksum" "card_address m2 = card_address m"
      "card_data m2 = take (card_offset m) (card_data m) @ ds @ drop (card_offset m + length ds) (card_data m)"
      "card_checksum m2 = (if card_sector_offset m = 0 then sector_checksum (card_address m) ds
           else fold (\<lambda>b c. c XOR b) ds (card_checksum m))"
      by (rule Cons.IH [OF _ i l(2) len])
    show ?thesis
    proof (rule Cons.prems(1))
      show "card_exchange (b # ds) mc s = ((True, card_last_byte mc) # rs, m2, s2)" using t x(1) by simp
      show "card_data m2 = take (card_offset mc) (card_data mc) @ (b # ds) @
          drop (card_offset mc + length (b # ds)) (card_data mc)"
        using o1 by (simp add: x(6) d co take_Suc_conv_app_nth)
      show "card_checksum m2 = (if card_sector_offset mc = 0 then sector_checksum (card_address mc) (b # ds)
           else fold (\<lambda>b c. c XOR b) (b # ds) (card_checksum mc))"
        using st no by (simp add: x(7) data_step_def sector_checksum_def)
    qed (use x l in simp_all)
  qed
qed

lemma read_bytes:
  assumes "card_inv mc" and "card_state mc = ReadData" and "unat (card_sector_offset mc) + length bs = 128"
  obtains mc1 where
    "card_exchange bs mc s = (map (Pair True) (take (length bs) (drop (card_offset mc) (card_data mc))), mc1, s)"
    and "card_inv mc1" and "card_state mc1 = ReadChecksum" and "card_address mc1 = card_address mc"
    and "card_data mc1 = card_data mc"
    and "card_checksum mc1 =
      (let ds = take (length bs) (drop (card_offset mc) (card_data mc))
       in if card_sector_offset mc = 0 then sector_checksum (card_address mc) ds
          else fold (\<lambda>b c. c XOR b) ds (card_checksum mc))"
  using assms
proof (induction bs arbitrary: mc thesis)
  case Nil
  have False using Nil.prems(2,4) by (simp add: card_inv_def FRAME_SIZE_def)
  then show ?case ..
next
  case (Cons b bs)
  let ?d = "card_data mc ! card_offset mc"
  obtain m where t: "card_Transfer b 0xFF mc s = ((True, ?d, m), s)"
    and st: "data_step ReadChecksum ?d mc m" and d: "card_data m = card_data mc" and i: "card_inv m"
    by (rule read_byte [OF Cons.prems(2,3)])
  have o1: "card_offset mc < length (card_data mc)" by (rule card_offset_range [OF Cons.prems(2)])
  then have dr: "take (Suc n) (drop (card_offset mc) (card_data mc)) = ?d # take n (drop (Suc (card_offset mc)) (card_data mc))" for n
    by (simp add: Cons_nth_drop_Suc [symmetric])
  show ?case
  proof (cases "bs = []")
    case True
    have last: "unat (card_sector_offset mc) = 127" using Cons.prems(4) True by simp
    show ?thesis
    proof (rule Cons.prems(1))
      show "card_exchange (b # bs) mc s =
          (map (Pair True) (take (length (b # bs)) (drop (card_offset mc) (card_data mc))), m, s)"
        using t dr [of 0] by (simp add: True)
      show "card_checksum m = (let ds = take (length (b # bs)) (drop (card_offset mc) (card_data mc))
         in if card_sector_offset mc = 0 then sector_checksum (card_address mc) ds
            else fold (\<lambda>b c. c XOR b) ds (card_checksum mc))"
        using st dr [of 0] by (simp add: True data_step_def)
    qed (use st last d i in \<open>simp_all add: data_step_def\<close>)
  next
    case False
    then have "0 < length bs" by simp
    then have l: "unat (card_sector_offset m) = Suc (unat (card_sector_offset mc))" "card_state m = ReadData"
      "card_address m = card_address mc"
      using st Cons.prems by (auto simp: data_step_def)
    have no: "card_sector_offset m \<noteq> 0" using l(1) by auto
    have co: "card_offset m = Suc (card_offset mc)" using l by (simp add: card_offset_def)
    have len: "unat (card_sector_offset m) + length bs = 128" using l(1) Cons.prems(4) by simp
    obtain m2 where x:
      "card_exchange bs m s = (map (Pair True) (take (length bs) (drop (card_offset m) (card_data m))), m2, s)"
      "card_inv m2" "card_state m2 = ReadChecksum" "card_address m2 = card_address m" "card_data m2 = card_data m"
      "card_checksum m2 =
        (let ds = take (length bs) (drop (card_offset m) (card_data m))
         in if card_sector_offset m = 0 then sector_checksum (card_address m) ds
            else fold (\<lambda>b c. c XOR b) ds (card_checksum m))"
      by (rule Cons.IH [OF _ i l(2) len])
    show ?thesis
    proof (rule Cons.prems(1))
      show "card_exchange (b # bs) mc s =
          (map (Pair True) (take (length (b # bs)) (drop (card_offset mc) (card_data mc))), m2, s)"
        using t x(1) d co by (simp add: dr)
      show "card_checksum m2 = (let ds = take (length (b # bs)) (drop (card_offset mc) (card_data mc))
         in if card_sector_offset mc = 0 then sector_checksum (card_address mc) ds
            else fold (\<lambda>b c. c XOR b) ds (card_checksum mc))"
        using st no by (simp add: x(6) d co dr data_step_def sector_checksum_def)
    qed (use x l d in simp_all)
  qed
qed

text \<open>The bytes a program sends to write or to read the sector \<open>a\<close>.\<close>

definition write_sequence :: "u16 \<Rightarrow> u8 list \<Rightarrow> u8 list" where
  "write_sequence a ds =
     [0x81, 0x57, 0, 0, ucast (drop_bit 8 a), ucast a] @ ds @ [sector_checksum a ds, 0, 0, 0]"

definition read_sequence :: "u16 \<Rightarrow> u8 list" where
  "read_sequence a =
     [0x81, 0x52, 0, 0, ucast (drop_bit 8 a), ucast a, 0, 0, 0, 0] @ replicate 128 0 @ [0, 0]"

lemma received_address:
  fixes a old :: u16
  assumes "unat a < 0x400"
  shows "(((old AND 0xFF OR push_bit 8 (ucast (ucast (drop_bit 8 a) :: u8))) AND 0x3FF) AND 0xFF00 OR ucast (ucast a :: u8)) AND 0x3FF = a"
proof -
  have a: "take_bit 10 a = a" by (rule take_bit_word_id) (use assms in simp)
  have m: "(0x3FF :: u16) = mask 10" "(0xFF :: u16) = mask 8" "(0xFF00 :: u16) = push_bit 8 (mask 8)"
    by (simp_all add: mask_eq_exp_minus_1)
  have "bit a n \<Longrightarrow> n < 10" for n using arg_cong [OF a, of "\<lambda>w. bit w n"] by (simp add: bit_simps)
  then show ?thesis
    unfolding m by (intro bit_word_eqI) (auto simp: bit_simps)
qed

lemmas card_prefix_simps = card_Transfer_def Let_def card_Idle_def card_Command_def FIXED_REPLY_STATE_def
  ADDRESS_STATE_MSB_def ADDRESS_STATE_LSB_def

lemma write_prefix:
  assumes "card_inv mc" and "card_state mc = CIdle" and "unat a < 0x400"
  defines "mc1 \<equiv> mc\<lparr>card_state := WriteData, card_address := a, card_sector_offset := 0, card_last_byte := ucast a\<rparr>"
  obtains rs where "card_exchange [0x81, 0x57, 0, 0, ucast (drop_bit 8 a), ucast a] mc s = (rs, mc1, s)"
    and "list_all fst rs" and "length rs = 6" and "card_inv mc1"
proof (rule that)
  let ?rs = "[(True, 0xFF), (True, card_FLAG mc), (True, 0x5A), (True, 0x5D), (True, 0), (True, ucast (drop_bit 8 a))]"
  show "card_exchange [0x81, 0x57, 0, 0, ucast (drop_bit 8 a), ucast a] mc s = (?rs, mc1, s)"
    using received_address [OF assms(3), of "card_address mc", simplified]
    by (simp add: card_prefix_simps assms(2) mc1_def)
qed (use assms in \<open>simp_all add: card_inv_def FRAME_SIZE_def\<close>)

lemma read_prefix:
  assumes "card_inv mc" and "card_state mc = CIdle" and "unat a < 0x400"
  defines "mc1 \<equiv> mc\<lparr>card_state := ReadData, card_address := a, card_sector_offset := 0, card_last_byte := 0\<rparr>"
  obtains rs where
    "card_exchange [0x81, 0x52, 0, 0, ucast (drop_bit 8 a), ucast a, 0, 0, 0, 0] mc s = (rs, mc1, s)"
    and "list_all fst rs" and "length rs = 10" and "card_inv mc1"
proof (rule that)
  let ?rs = "[(True, 0xFF), (True, card_FLAG mc), (True, 0x5A), (True, 0x5D), (True, 0), (True, ucast (drop_bit 8 a)),
    (True, 0x5C), (True, 0x5D), (True, ucast (drop_bit 8 a)), (True, ucast a)]"
  show "card_exchange [0x81, 0x52, 0, 0, ucast (drop_bit 8 a), ucast a, 0, 0, 0, 0] mc s = (?rs, mc1, s)"
    using received_address [OF assms(3), of "card_address mc", simplified]
    by (simp add: card_prefix_simps assms(2) mc1_def)
qed (use assms in \<open>simp_all add: card_inv_def FRAME_SIZE_def\<close>)

lemma write_exchange:
  assumes "card_inv mc" and "card_state mc = CIdle" and "unat a < 0x400" and "length ds = FRAME_SIZE"
  obtains rs mc1 s1 where "card_exchange (write_sequence a ds) mc s = (rs @ [(False, 0x47)], mc1, s1)"
    and "list_all fst rs" and "card_inv mc1" and "card_state mc1 = CIdle"
    and "card_data mc1 = on_frame (unat a) (\<lambda>_. ds) (card_data mc)"
proof -
  define m where "m = mc\<lparr>card_state := WriteData, card_address := a, card_sector_offset := 0, card_last_byte := ucast a\<rparr>"
  obtain r1 where x1: "card_exchange [0x81, 0x57, 0, 0, ucast (drop_bit 8 a), ucast a] mc s = (r1, m, s)"
    "list_all fst r1" "card_inv m"
    using write_prefix [OF assms(1-3), of s] unfolding m_def by blast
  have o1: "unat (card_sector_offset m) + length ds = 128" "card_state m = WriteData" "card_offset m = unat a * FRAME_SIZE"
    "card_address m = a" "card_sector_offset m = 0" "card_data m = card_data mc"
    using assms(4) by (simp_all add: m_def card_offset_def FRAME_SIZE_def)
  obtain r2 m2 s2 where x2: "card_exchange ds m s = (r2, m2, s2)" "map fst r2 = replicate (length ds) True"
    "card_inv m2" "card_state m2 = WriteChecksum" "card_address m2 = a"
    "card_data m2 = take (unat a * FRAME_SIZE) (card_data mc) @ ds @ drop (unat a * FRAME_SIZE + length ds) (card_data mc)"
    "card_checksum m2 = sector_checksum a ds"
    by (rule write_bytes [OF x1(3) o1(2,1), of s]) (simp add: o1)
  define m3 where "m3 = m2\<lparr>card_state := CIdle, card_last_byte := 0\<rparr>"
  have x3: "card_exchange [sector_checksum a ds, 0, 0, 0] m2 s2 =
      ([(True, sector_checksum a ds), (True, 0x5C), (True, 0x5D)] @ [(False, 0x47)], m3, s2)"
    by (simp add: card_prefix_simps x2(4,7) m3_def)
  show thesis
  proof (rule that [of "r1 @ r2 @ [(True, sector_checksum a ds), (True, 0x5C), (True, 0x5D)]" m3 s2])
    show "card_exchange (write_sequence a ds) mc s =
        ((r1 @ r2 @ [(True, sector_checksum a ds), (True, 0x5C), (True, 0x5D)]) @ [(False, 0x47)], m3, s2)"
      unfolding write_sequence_def card_exchange_append x1(1) x2(1) x3 Let_def prod.case by simp
    have "\<forall>x \<in> set r2. fst x"
      using arg_cong [OF x2(2), of set] by (auto simp: set_replicate_conv_if split: if_splits)
    then show "list_all fst (r1 @ r2 @ [(True, sector_checksum a ds), (True, 0x5C), (True, 0x5D)])"
      using x1(2) by (auto simp: list_all_iff)
    show "card_data m3 = on_frame (unat a) (\<lambda>_. ds) (card_data mc)"
      by (simp add: m3_def x2(6) on_frame_def frame_offset_def assms(4))
  qed (use x2(3) in \<open>simp_all add: m3_def\<close>)
qed

lemma read_exchange:
  assumes "card_inv mc" and "card_state mc = CIdle" and "unat a < 0x400"
  obtains rs mc1 where "card_exchange (read_sequence a) mc s =
      (rs @ map (Pair True) (get_frame (unat a) (card_data mc))
         @ [(True, sector_checksum a (get_frame (unat a) (card_data mc))), (True, 0x47)], mc1, s)"
    and "list_all fst rs" and "length rs = 10" and "card_inv mc1" and "card_state mc1 = CIdle" and "card_data mc1 = card_data mc"
proof -
  define m where "m = mc\<lparr>card_state := ReadData, card_address := a, card_sector_offset := 0, card_last_byte := 0\<rparr>"
  obtain r1 where x1: "card_exchange [0x81, 0x52, 0, 0, ucast (drop_bit 8 a), ucast a, 0, 0, 0, 0] mc s = (r1, m, s)"
    "list_all fst r1" "length r1 = 10" "card_inv m"
    using read_prefix [OF assms(1-3), of s] unfolding m_def by blast
  have o1: "unat (card_sector_offset m) + length (replicate 128 (0 :: u8)) = 128" "card_state m = ReadData"
    "take 128 (drop (card_offset m) (card_data mc)) = get_frame (unat a) (card_data mc)"
    "card_address m = a" "card_sector_offset m = 0" "card_data m = card_data mc"
    by (simp_all add: m_def card_offset_def FRAME_SIZE_def get_frame_def frame_offset_def)
  obtain m2 where x2: "card_exchange (replicate 128 0) m s = (map (Pair True) (get_frame (unat a) (card_data mc)), m2, s)"
    "card_inv m2" "card_state m2 = ReadChecksum" "card_data m2 = card_data mc"
    "card_checksum m2 = sector_checksum a (get_frame (unat a) (card_data mc))"
    by (rule read_bytes [OF x1(4) o1(2,1), of s]) (simp add: o1 Let_def)
  define m3 where "m3 = m2\<lparr>card_state := CIdle, card_last_byte := 0\<rparr>"
  have x3: "card_exchange [0, 0] m2 s =
      ([(True, sector_checksum a (get_frame (unat a) (card_data mc))), (True, 0x47)], m3, s)"
    by (simp add: card_prefix_simps x2(3,5) m3_def)
  show thesis
  proof (rule that [of r1 m3])
    show "card_exchange (read_sequence a) mc s =
      (r1 @ map (Pair True) (get_frame (unat a) (card_data mc))
         @ [(True, sector_checksum a (get_frame (unat a) (card_data mc))), (True, 0x47)], m3, s)"
      unfolding read_sequence_def card_exchange_append x1(1) x2(1) x3 Let_def prod.case by simp
  qed (use x1 x2 in \<open>simp_all add: m3_def\<close>)
qed

end
