(* ===== verification/Controllers.thy ===== *)
theory Controllers
  imports HostState StateWrapper
begin

text \<open>
  The controllers without a command set of their own (\<open>digital_controller.cpp\<close>,
  \<open>playstation_mouse.cpp\<close>, \<open>negcon.cpp\<close>, \<open>namco_guncon.cpp\<close>, \<open>analog_joystick.cpp\<close>). Each is a
  record and a state machine \<open>Transfer\<close> that takes a byte and gives whether it is acknowledged,
  the byte sent back, and the controller; \<open>out\<close> is what \<open>*data_out\<close> holds before the call.

  The locale \<open>serial_device\<close> is what the port relies on: a controller stays well formed, and it
  stops acknowledging after a bounded number of bytes.
\<close>

subsection \<open>The contract\<close>

fun exchange :: "(u8 \<Rightarrow> u8 \<Rightarrow> 'd \<Rightarrow> bool \<times> u8 \<times> 'd) \<Rightarrow> u8 list \<Rightarrow> 'd \<Rightarrow> (bool \<times> u8) list \<times> 'd" where
  "exchange xfer [] d = ([], d)"
| "exchange xfer (b # bs) d =
     (let (ack, r, d1) = xfer b 0xFF d; (rs, d2) = exchange xfer bs d1 in ((ack, r) # rs, d2))"

locale serial_device =
  fixes xfer :: "u8 \<Rightarrow> u8 \<Rightarrow> 'd \<Rightarrow> bool \<times> u8 \<times> 'd"
    and reset_transfer :: "'d \<Rightarrow> 'd"
    and ok :: "'d \<Rightarrow> bool"
    and left :: "'d \<Rightarrow> nat"
    and most :: nat
  assumes ok_xfer: "ok d \<Longrightarrow> ok (snd (snd (xfer b out d)))"
    and ok_reset: "ok d \<Longrightarrow> ok (reset_transfer d)"
    and left_most: "ok d \<Longrightarrow> left d \<le> most"
    and acknowledged: "ok d \<Longrightarrow> fst (xfer b out d) \<Longrightarrow> left (snd (snd (xfer b out d))) < left d"
begin

lemma ok_exchange: "ok d \<Longrightarrow> ok (snd (exchange xfer bs d))"
  by (induction bs arbitrary: d) (auto simp: Let_def case_prod_beta ok_xfer)

lemma acknowledged_run: "ok d \<Longrightarrow> list_all fst (fst (exchange xfer bs d)) \<Longrightarrow> length bs \<le> left d"
proof (induction bs arbitrary: d)
  case (Cons b bs)
  let ?d = "snd (snd (xfer b 0xFF d))"
  have "length bs \<le> left ?d"
    using Cons.IH [of ?d] ok_xfer [of d b "0xFF"] Cons.prems by (simp add: Let_def case_prod_beta)
  moreover have "left ?d < left d"
    using acknowledged [of d b "0xFF"] Cons.prems by (simp add: Let_def case_prod_beta)
  ultimately show ?case by simp
qed simp

lemma acknowledged_most: "ok d \<Longrightarrow> list_all fst (fst (exchange xfer bs d)) \<Longrightarrow> length bs \<le> most"
  using acknowledged_run left_most by (meson le_trans)

end

subsection \<open>Buttons\<close>

text \<open>
  Buttons are active low. The first component is whether \<open>System::SetRunaheadReplayFlag\<close> is called.
\<close>

definition press_bit :: "nat \<Rightarrow> bool \<Rightarrow> u16 \<Rightarrow> bool \<times> u16" where
  "press_bit n pressed button_state =
     (if pressed then (bit button_state n, button_state AND NOT (push_bit n 1))
      else (\<not> bit button_state n, button_state OR push_bit n 1))"

text \<open>The classes with an index table compare the new state with the old one.\<close>

definition press_indexed :: "nat list \<Rightarrow> nat \<Rightarrow> bool \<Rightarrow> u16 \<Rightarrow> bool \<times> u16" where
  "press_indexed indices button pressed button_state =
     (let b = push_bit (indices ! button) 1;
          new_state = (if pressed then button_state AND NOT b else button_state OR b)
      in if new_state \<noteq> button_state then (True, new_state) else (False, button_state))"

definition with_flag :: "bool \<Rightarrow> 'a host_state_scheme \<Rightarrow> 'a host_state_scheme" where
  "with_flag b s = (if b then SetRunaheadReplayFlag s else s)"

subsection \<open>The digital controller\<close>

datatype digital_TransferState = DigIdle | DigReady | DigIDMSB | DigButtonsLSB | DigButtonsMSB | DigUnnamed u8

record digital_controller =
  dig_button_state :: u16
  dig_transfer_state :: digital_TransferState

definition digital_new :: digital_controller where
  "digital_new = \<lparr>dig_button_state = 0xFFFF, dig_transfer_state = DigIdle\<rparr>"

definition digital_Reset :: "digital_controller \<Rightarrow> digital_controller" where
  "digital_Reset c = c\<lparr>dig_transfer_state := DigIdle\<rparr>"

definition digital_ResetTransferState :: "digital_controller \<Rightarrow> digital_controller" where
  "digital_ResetTransferState c = c\<lparr>dig_transfer_state := DigIdle\<rparr>"

definition digital_SetButtonState :: "int \<Rightarrow> bool \<Rightarrow> digital_controller \<Rightarrow> bool \<times> digital_controller" where
  "digital_SetButtonState button_code pressed c =
     (if button_code < 0 \<or> button_code \<ge> 16 then (False, c)
      else let (flag, b) = press_bit (nat button_code) pressed (dig_button_state c)
           in (flag, c\<lparr>dig_button_state := b\<rparr>))"

definition digital_GetButtonStateBits :: "digital_controller \<Rightarrow> u32" where
  "digital_GetButtonStateBits c = ucast (dig_button_state c) XOR 0xFFFF"

definition digital_ID :: u16 where "digital_ID = 0x5A41"

definition digital_Transfer :: "u8 \<Rightarrow> u8 \<Rightarrow> digital_controller \<Rightarrow> bool \<times> u8 \<times> digital_controller" where
  "digital_Transfer data_in out c =
     (case dig_transfer_state c of
        DigIdle \<Rightarrow> if data_in = 0x01 then (True, 0xFF, c\<lparr>dig_transfer_state := DigReady\<rparr>) else (False, 0xFF, c)
      | DigReady \<Rightarrow> if data_in = 0x42 then (True, ucast digital_ID, c\<lparr>dig_transfer_state := DigIDMSB\<rparr>)
                   else (False, 0xFF, c)
      | DigIDMSB \<Rightarrow> (True, ucast (drop_bit 8 digital_ID), c\<lparr>dig_transfer_state := DigButtonsLSB\<rparr>)
      | DigButtonsLSB \<Rightarrow> (True, ucast (dig_button_state c), c\<lparr>dig_transfer_state := DigButtonsMSB\<rparr>)
      | DigButtonsMSB \<Rightarrow> (False, ucast (drop_bit 8 (dig_button_state c)), c\<lparr>dig_transfer_state := DigIdle\<rparr>)
      | DigUnnamed w \<Rightarrow> (False, out, c))"

definition digital_names :: "digital_TransferState list" where
  "digital_names = [DigIdle, DigReady, DigIDMSB, DigButtonsLSB, DigButtonsMSB]"

fun digital_code :: "digital_TransferState \<Rightarrow> u8" where
  "digital_code (DigUnnamed w) = w"
| "digital_code e = of_nat (enum_code digital_names e)"

definition digital_DoState :: "bool \<Rightarrow> digital_controller \<Rightarrow> state_wrapper \<Rightarrow> bool \<times> digital_controller \<times> state_wrapper" where
  "digital_DoState apply_input_state c sw =
     (if sw_error sw then (False, c, sw)
      else let (b, sw1) = Do_word (dig_button_state c) sw;
               c1 = (if apply_input_state then c\<lparr>dig_button_state := b\<rparr> else c);
               (t, sw2) = Do_enum digital_code (enum_of digital_names DigUnnamed) (dig_transfer_state c1) sw1
           in (True, c1\<lparr>dig_transfer_state := t\<rparr>, sw2))"

fun digital_left :: "digital_TransferState \<Rightarrow> nat" where
  "digital_left DigIdle = 4" | "digital_left DigReady = 3" | "digital_left DigIDMSB = 2"
| "digital_left DigButtonsLSB = 1" | "digital_left _ = 0"

lemma digital_left_most: "digital_left t \<le> 4"
  by (cases t) simp_all

interpretation digital: serial_device digital_Transfer digital_ResetTransferState "\<lambda>_. True"
  "\<lambda>c. digital_left (dig_transfer_state c)" 4
  by unfold_locales
    (auto simp: digital_left_most digital_Transfer_def split: digital_TransferState.splits if_splits)

subsection \<open>The mouse\<close>

datatype mouse_TransferState =
    MouIdle | MouReady | MouIDMSB | MouButtonsLSB | MouButtonsMSB | MouDeltaX | MouDeltaY | MouUnnamed u8

record mouse_controller =
  mou_last_host_position_x :: int
  mou_last_host_position_y :: int
  mou_button_state :: u16
  mou_delta_x :: s8
  mou_delta_y :: s8
  mou_transfer_state :: mouse_TransferState

definition mouse_new :: "host_input \<Rightarrow> mouse_controller" where
  "mouse_new h = \<lparr>mou_last_host_position_x = m_mouse_position_x h, mou_last_host_position_y = m_mouse_position_y h,
     mou_button_state = 0xFFFF, mou_delta_x = 0, mou_delta_y = 0, mou_transfer_state = MouIdle\<rparr>"

definition mouse_Reset :: "mouse_controller \<Rightarrow> mouse_controller" where
  "mouse_Reset c = c\<lparr>mou_transfer_state := MouIdle\<rparr>"

definition mouse_ResetTransferState :: "mouse_controller \<Rightarrow> mouse_controller" where
  "mouse_ResetTransferState c = c\<lparr>mou_transfer_state := MouIdle\<rparr>"

definition mouse_SetButtonState :: "int \<Rightarrow> bool \<Rightarrow> mouse_controller \<Rightarrow> bool \<times> mouse_controller" where
  "mouse_SetButtonState button_code pressed c =
     (if button_code < 0 \<or> button_code \<ge> 2 then (False, c)
      else let (flag, b) = press_indexed [11, 10] (nat button_code) pressed (mou_button_state c)
           in (flag, c\<lparr>mou_button_state := b\<rparr>))"

definition clamp_s8 :: "int \<Rightarrow> s8" where
  "clamp_s8 d = word_of_int (clamp d (-128) 127)"

text \<open>The differences of the positions are 32-bit subtractions.\<close>

definition mouse_UpdatePosition :: "host_input \<Rightarrow> mouse_controller \<Rightarrow> mouse_controller" where
  "mouse_UpdatePosition h c =
     (let delta_x = m_mouse_position_x h - mou_last_host_position_x c;
          delta_y = m_mouse_position_y h - mou_last_host_position_y c
      in c\<lparr>mou_last_host_position_x := m_mouse_position_x h, mou_last_host_position_y := m_mouse_position_y h,
           mou_delta_x := clamp_s8 delta_x, mou_delta_y := clamp_s8 delta_y\<rparr>)"

definition mouse_ID :: u16 where "mouse_ID = 0x5A12"

definition mouse_Transfer :: "host_input \<Rightarrow> u8 \<Rightarrow> u8 \<Rightarrow> mouse_controller \<Rightarrow> bool \<times> u8 \<times> mouse_controller" where
  "mouse_Transfer h data_in out c =
     (case mou_transfer_state c of
        MouIdle \<Rightarrow> if data_in = 0x01 then (True, 0xFF, c\<lparr>mou_transfer_state := MouReady\<rparr>) else (False, 0xFF, c)
      | MouReady \<Rightarrow> if data_in = 0x42 then (True, ucast mouse_ID, c\<lparr>mou_transfer_state := MouIDMSB\<rparr>)
                   else (False, 0xFF, c)
      | MouIDMSB \<Rightarrow> (True, ucast (drop_bit 8 mouse_ID), c\<lparr>mou_transfer_state := MouButtonsLSB\<rparr>)
      | MouButtonsLSB \<Rightarrow> (True, ucast (mou_button_state c), c\<lparr>mou_transfer_state := MouButtonsMSB\<rparr>)
      | MouButtonsMSB \<Rightarrow> (True, ucast (drop_bit 8 (mou_button_state c)), c\<lparr>mou_transfer_state := MouDeltaX\<rparr>)
      | MouDeltaX \<Rightarrow> (let c1 = mouse_UpdatePosition h c in (True, mou_delta_x c1, c1\<lparr>mou_transfer_state := MouDeltaY\<rparr>))
      | MouDeltaY \<Rightarrow> (False, mou_delta_y c, c\<lparr>mou_transfer_state := MouIdle\<rparr>)
      | MouUnnamed w \<Rightarrow> (False, out, c))"

definition mouse_names :: "mouse_TransferState list" where
  "mouse_names = [MouIdle, MouReady, MouIDMSB, MouButtonsLSB, MouButtonsMSB, MouDeltaX, MouDeltaY]"

fun mouse_code :: "mouse_TransferState \<Rightarrow> u8" where
  "mouse_code (MouUnnamed w) = w"
| "mouse_code e = of_nat (enum_code mouse_names e)"

definition mouse_DoState :: "bool \<Rightarrow> mouse_controller \<Rightarrow> state_wrapper \<Rightarrow> bool \<times> mouse_controller \<times> state_wrapper" where
  "mouse_DoState apply_input_state c sw =
     (if sw_error sw then (False, c, sw)
      else let (b, sw1) = Do_word (mou_button_state c) sw;
               (dx, sw2) = Do_word (mou_delta_x c) sw1;
               (dy, sw3) = Do_word (mou_delta_y c) sw2;
               c1 = (if apply_input_state then c\<lparr>mou_button_state := b, mou_delta_x := dx, mou_delta_y := dy\<rparr> else c);
               (t, sw4) = Do_enum mouse_code (enum_of mouse_names MouUnnamed) (mou_transfer_state c1) sw3
           in (True, c1\<lparr>mou_transfer_state := t\<rparr>, sw4))"

fun mouse_left :: "mouse_TransferState \<Rightarrow> nat" where
  "mouse_left MouIdle = 6" | "mouse_left MouReady = 5" | "mouse_left MouIDMSB = 4" | "mouse_left MouButtonsLSB = 3"
| "mouse_left MouButtonsMSB = 2" | "mouse_left MouDeltaX = 1" | "mouse_left _ = 0"

lemma mouse_left_most: "mouse_left t \<le> 6"
  by (cases t) simp_all

interpretation mouse: serial_device "mouse_Transfer h" mouse_ResetTransferState "\<lambda>_. True"
  "\<lambda>c. mouse_left (mou_transfer_state c)" 6 for h
  by unfold_locales
    (auto simp: mouse_left_most mouse_Transfer_def Let_def split: mouse_TransferState.splits if_splits)

subsection \<open>The NeGcon\<close>

datatype negcon_TransferState =
    NegIdle | NegReady | NegIDMSB | NegButtonsLSB | NegButtonsMSB | NegAnalogSteering | NegAnalogI | NegAnalogII
  | NegAnalogL | NegUnnamed u8

text \<open>The axes are \<open>Steering\<close>, \<open>I\<close>, \<open>II\<close> and \<open>L\<close>.\<close>

record negcon_controller =
  neg_axis_state :: "u8 list"
  neg_button_state :: u16
  neg_transfer_state :: negcon_TransferState

definition negcon_new :: negcon_controller where
  "negcon_new = \<lparr>neg_axis_state = (replicate 4 0)[0 := 0x80], neg_button_state = 0xFFFF, neg_transfer_state = NegIdle\<rparr>"

definition negcon_Reset :: "negcon_controller \<Rightarrow> negcon_controller" where
  "negcon_Reset c = c\<lparr>neg_transfer_state := NegIdle\<rparr>"

definition negcon_ResetTransferState :: "negcon_controller \<Rightarrow> negcon_controller" where
  "negcon_ResetTransferState c = c\<lparr>neg_transfer_state := NegIdle\<rparr>"

definition negcon_SetAxis :: "nat \<Rightarrow> u8 \<Rightarrow> negcon_controller \<Rightarrow> bool \<times> negcon_controller" where
  "negcon_SetAxis axis v c =
     (if v \<noteq> neg_axis_state c ! axis then (True, c\<lparr>neg_axis_state := (neg_axis_state c)[axis := v]\<rparr>) else (False, c))"

definition negcon_SetButtonState :: "int \<Rightarrow> bool \<Rightarrow> negcon_controller \<Rightarrow> bool \<times> negcon_controller" where
  "negcon_SetButtonState button_code pressed c =
     (if button_code < 0 \<or> button_code \<ge> 8 then (False, c)
      else let (flag, b) = press_indexed [3, 4, 5, 6, 7, 11, 12, 13] (nat button_code) pressed (neg_button_state c)
           in (flag, c\<lparr>neg_button_state := b\<rparr>))"

definition negcon_GetButtonStateBits :: "negcon_controller \<Rightarrow> u32" where
  "negcon_GetButtonStateBits c = ucast (neg_button_state c) XOR 0xFFFF"

definition negcon_GetAnalogInputBytes :: "negcon_controller \<Rightarrow> u32" where
  "negcon_GetAnalogInputBytes c =
     push_bit 24 (ucast (neg_axis_state c ! 3)) OR push_bit 16 (ucast (neg_axis_state c ! 2)) OR
     push_bit 8 (ucast (neg_axis_state c ! 1)) OR ucast (neg_axis_state c ! 0)"

definition negcon_ID :: u16 where "negcon_ID = 0x5A23"

definition negcon_Transfer :: "u8 \<Rightarrow> u8 \<Rightarrow> negcon_controller \<Rightarrow> bool \<times> u8 \<times> negcon_controller" where
  "negcon_Transfer data_in out c =
     (case neg_transfer_state c of
        NegIdle \<Rightarrow> if data_in = 0x01 then (True, 0xFF, c\<lparr>neg_transfer_state := NegReady\<rparr>) else (False, 0xFF, c)
      | NegReady \<Rightarrow> if data_in = 0x42 then (True, ucast negcon_ID, c\<lparr>neg_transfer_state := NegIDMSB\<rparr>)
                   else (False, 0xFF, c)
      | NegIDMSB \<Rightarrow> (True, ucast (drop_bit 8 negcon_ID), c\<lparr>neg_transfer_state := NegButtonsLSB\<rparr>)
      | NegButtonsLSB \<Rightarrow> (True, ucast (neg_button_state c), c\<lparr>neg_transfer_state := NegButtonsMSB\<rparr>)
      | NegButtonsMSB \<Rightarrow> (True, ucast (drop_bit 8 (neg_button_state c)), c\<lparr>neg_transfer_state := NegAnalogSteering\<rparr>)
      | NegAnalogSteering \<Rightarrow> (True, neg_axis_state c ! 0, c\<lparr>neg_transfer_state := NegAnalogI\<rparr>)
      | NegAnalogI \<Rightarrow> (True, neg_axis_state c ! 1, c\<lparr>neg_transfer_state := NegAnalogII\<rparr>)
      | NegAnalogII \<Rightarrow> (True, neg_axis_state c ! 2, c\<lparr>neg_transfer_state := NegAnalogL\<rparr>)
      | NegAnalogL \<Rightarrow> (False, neg_axis_state c ! 3, c\<lparr>neg_transfer_state := NegIdle\<rparr>)
      | NegUnnamed w \<Rightarrow> (False, out, c))"

definition negcon_names :: "negcon_TransferState list" where
  "negcon_names = [NegIdle, NegReady, NegIDMSB, NegButtonsLSB, NegButtonsMSB, NegAnalogSteering, NegAnalogI,
     NegAnalogII, NegAnalogL]"

fun negcon_code :: "negcon_TransferState \<Rightarrow> u8" where
  "negcon_code (NegUnnamed w) = w"
| "negcon_code e = of_nat (enum_code negcon_names e)"

definition negcon_DoState :: "bool \<Rightarrow> negcon_controller \<Rightarrow> state_wrapper \<Rightarrow> bool \<times> negcon_controller \<times> state_wrapper" where
  "negcon_DoState apply_input_state c sw =
     (if sw_error sw then (False, c, sw)
      else let (b, sw1) = Do_word (neg_button_state c) sw;
               c1 = (if apply_input_state then c\<lparr>neg_button_state := b\<rparr> else c);
               (t, sw2) = Do_enum negcon_code (enum_of negcon_names NegUnnamed) (neg_transfer_state c1) sw1
           in (True, c1\<lparr>neg_transfer_state := t\<rparr>, sw2))"

fun negcon_left :: "negcon_TransferState \<Rightarrow> nat" where
  "negcon_left NegIdle = 8" | "negcon_left NegReady = 7" | "negcon_left NegIDMSB = 6" | "negcon_left NegButtonsLSB = 5"
| "negcon_left NegButtonsMSB = 4" | "negcon_left NegAnalogSteering = 3" | "negcon_left NegAnalogI = 2"
| "negcon_left NegAnalogII = 1" | "negcon_left _ = 0"

lemma negcon_left_most: "negcon_left t \<le> 8"
  by (cases t) simp_all

interpretation negcon: serial_device negcon_Transfer negcon_ResetTransferState "\<lambda>c. length (neg_axis_state c) = 4"
  "\<lambda>c. negcon_left (neg_transfer_state c)" 8
  by unfold_locales
    (auto simp: negcon_left_most negcon_Transfer_def negcon_ResetTransferState_def
      split: negcon_TransferState.splits if_splits)

subsection \<open>The light gun\<close>

datatype guncon_TransferState =
    GunIdle | GunReady | GunIDMSB | GunButtonsLSB | GunButtonsMSB | GunXLSB | GunXMSB | GunYLSB | GunYMSB
  | GunUnnamed u8

record guncon_controller =
  gun_button_state :: u16
  gun_position_x :: u16
  gun_position_y :: u16
  gun_shoot_offscreen :: bool
  gun_transfer_state :: guncon_TransferState

definition guncon_new :: guncon_controller where
  "guncon_new = \<lparr>gun_button_state = 0xFFFF, gun_position_x = 0, gun_position_y = 0, gun_shoot_offscreen = False,
     gun_transfer_state = GunIdle\<rparr>"

definition guncon_Reset :: "guncon_controller \<Rightarrow> guncon_controller" where
  "guncon_Reset c = c\<lparr>gun_transfer_state := GunIdle\<rparr>"

definition guncon_ResetTransferState :: "guncon_controller \<Rightarrow> guncon_controller" where
  "guncon_ResetTransferState c = c\<lparr>gun_transfer_state := GunIdle\<rparr>"

text \<open>Button 3 is \<open>ShootOffscreen\<close>, which presses the trigger (button 0) as well.\<close>

definition guncon_SetButton :: "nat \<Rightarrow> bool \<Rightarrow> guncon_controller \<Rightarrow> bool \<times> guncon_controller" where
  "guncon_SetButton button pressed c =
     (let (flag, b) = press_indexed [13, 3, 14, 0] button pressed (gun_button_state c)
      in (flag, c\<lparr>gun_button_state := b\<rparr>))"

definition guncon_SetButtonState :: "int \<Rightarrow> bool \<Rightarrow> guncon_controller \<Rightarrow> bool \<times> guncon_controller" where
  "guncon_SetButtonState button_code pressed c =
     (if button_code < 0 \<or> button_code \<ge> 4 then (False, c)
      else if button_code = 3
      then if gun_shoot_offscreen c \<noteq> pressed then guncon_SetButton 0 pressed (c\<lparr>gun_shoot_offscreen := pressed\<rparr>)
           else (False, c)
      else guncon_SetButton (nat button_code) pressed c)"

definition guncon_UpdatePosition :: "host_input \<Rightarrow> guncon_controller \<Rightarrow> guncon_controller" where
  "guncon_UpdatePosition h c =
     (let mouse_x = m_mouse_position_x h; mouse_y = m_mouse_position_y h;
          beam = (if mouse_x < 0 \<or> mouse_y < 0 then None else screen_to_beam h mouse_x mouse_y)
      in case beam of
           Some (tick, line) \<Rightarrow>
             if gun_shoot_offscreen c then c\<lparr>gun_position_x := 0x01, gun_position_y := 0x0A\<rparr>
             else c\<lparr>gun_position_x := ticks_to_gun_units h tick, gun_position_y := ucast line\<rparr>
         | None \<Rightarrow> c\<lparr>gun_position_x := 0x01, gun_position_y := 0x0A\<rparr>)"

definition guncon_ID :: u16 where "guncon_ID = 0x5A63"

definition guncon_Transfer :: "host_input \<Rightarrow> u8 \<Rightarrow> u8 \<Rightarrow> guncon_controller \<Rightarrow> bool \<times> u8 \<times> guncon_controller" where
  "guncon_Transfer h data_in out c =
     (case gun_transfer_state c of
        GunIdle \<Rightarrow> if data_in = 0x01 then (True, 0xFF, c\<lparr>gun_transfer_state := GunReady\<rparr>) else (False, 0xFF, c)
      | GunReady \<Rightarrow> if data_in = 0x42 then (True, ucast guncon_ID, c\<lparr>gun_transfer_state := GunIDMSB\<rparr>)
                   else (False, 0xFF, c)
      | GunIDMSB \<Rightarrow> (True, ucast (drop_bit 8 guncon_ID), c\<lparr>gun_transfer_state := GunButtonsLSB\<rparr>)
      | GunButtonsLSB \<Rightarrow> (True, ucast (gun_button_state c), c\<lparr>gun_transfer_state := GunButtonsMSB\<rparr>)
      | GunButtonsMSB \<Rightarrow> (True, ucast (drop_bit 8 (gun_button_state c)), c\<lparr>gun_transfer_state := GunXLSB\<rparr>)
      | GunXLSB \<Rightarrow> (let c1 = guncon_UpdatePosition h c
                   in (True, ucast (gun_position_x c1), c1\<lparr>gun_transfer_state := GunXMSB\<rparr>))
      | GunXMSB \<Rightarrow> (True, ucast (drop_bit 8 (gun_position_x c)), c\<lparr>gun_transfer_state := GunYLSB\<rparr>)
      | GunYLSB \<Rightarrow> (True, ucast (gun_position_y c), c\<lparr>gun_transfer_state := GunYMSB\<rparr>)
      | GunYMSB \<Rightarrow> (False, ucast (drop_bit 8 (gun_position_y c)), c\<lparr>gun_transfer_state := GunIdle\<rparr>)
      | GunUnnamed w \<Rightarrow> (False, out, c))"

definition guncon_names :: "guncon_TransferState list" where
  "guncon_names = [GunIdle, GunReady, GunIDMSB, GunButtonsLSB, GunButtonsMSB, GunXLSB, GunXMSB, GunYLSB, GunYMSB]"

fun guncon_code :: "guncon_TransferState \<Rightarrow> u8" where
  "guncon_code (GunUnnamed w) = w"
| "guncon_code e = of_nat (enum_code guncon_names e)"

definition guncon_DoState :: "bool \<Rightarrow> guncon_controller \<Rightarrow> state_wrapper \<Rightarrow> bool \<times> guncon_controller \<times> state_wrapper" where
  "guncon_DoState apply_input_state c sw =
     (if sw_error sw then (False, c, sw)
      else let (b, sw1) = Do_word (gun_button_state c) sw;
               (x, sw2) = Do_word (gun_position_x c) sw1;
               (y, sw3) = Do_word (gun_position_y c) sw2;
               c1 = (if apply_input_state then c\<lparr>gun_button_state := b, gun_position_x := x, gun_position_y := y\<rparr> else c);
               (t, sw4) = Do_enum guncon_code (enum_of guncon_names GunUnnamed) (gun_transfer_state c1) sw3
           in (True, c1\<lparr>gun_transfer_state := t\<rparr>, sw4))"

fun guncon_left :: "guncon_TransferState \<Rightarrow> nat" where
  "guncon_left GunIdle = 8" | "guncon_left GunReady = 7" | "guncon_left GunIDMSB = 6" | "guncon_left GunButtonsLSB = 5"
| "guncon_left GunButtonsMSB = 4" | "guncon_left GunXLSB = 3" | "guncon_left GunXMSB = 2" | "guncon_left GunYLSB = 1"
| "guncon_left _ = 0"

lemma guncon_left_most: "guncon_left t \<le> 8"
  by (cases t) simp_all

interpretation guncon: serial_device "guncon_Transfer h" guncon_ResetTransferState "\<lambda>_. True"
  "\<lambda>c. guncon_left (gun_transfer_state c)" 8 for h
  by unfold_locales
    (auto simp: guncon_left_most guncon_Transfer_def Let_def split: guncon_TransferState.splits if_splits)

subsection \<open>The analog joystick\<close>

datatype joystick_TransferState =
    JoyIdle | JoyReady | JoyIDMSB | JoyButtonsLSB | JoyButtonsMSB | JoyRightAxisX | JoyRightAxisY | JoyLeftAxisX
  | JoyLeftAxisY | JoyUnnamed u8

text \<open>The axes are \<open>LeftX\<close>, \<open>LeftY\<close>, \<open>RightX\<close> and \<open>RightY\<close>.\<close>

record joystick_controller =
  joy_analog_mode :: bool
  joy_button_state :: u16
  joy_axis_state :: "u8 list"
  joy_transfer_state :: joystick_TransferState

definition joystick_new :: joystick_controller where
  "joystick_new = \<lparr>joy_analog_mode = True, joy_button_state = 0xFFFF, joy_axis_state = replicate 4 0x80,
     joy_transfer_state = JoyIdle\<rparr>"

definition joystick_Reset :: "joystick_controller \<Rightarrow> joystick_controller" where
  "joystick_Reset c = c\<lparr>joy_transfer_state := JoyIdle\<rparr>"

definition joystick_ResetTransferState :: "joystick_controller \<Rightarrow> joystick_controller" where
  "joystick_ResetTransferState c = c\<lparr>joy_transfer_state := JoyIdle\<rparr>"

definition joystick_SetAxis :: "nat \<Rightarrow> u8 \<Rightarrow> joystick_controller \<Rightarrow> bool \<times> joystick_controller" where
  "joystick_SetAxis axis v c = (joy_axis_state c ! axis \<noteq> v, c\<lparr>joy_axis_state := (joy_axis_state c)[axis := v]\<rparr>)"

definition joystick_ToggleAnalogMode :: "joystick_controller \<Rightarrow> joystick_controller" where
  "joystick_ToggleAnalogMode c = c\<lparr>joy_analog_mode := \<not> joy_analog_mode c\<rparr>"

text \<open>Button 16 is \<open>Mode\<close>.\<close>

definition joystick_SetButtonState :: "int \<Rightarrow> bool \<Rightarrow> joystick_controller \<Rightarrow> bool \<times> joystick_controller" where
  "joystick_SetButtonState button_code pressed c =
     (if button_code < 0 \<or> button_code \<ge> 17 then (False, c)
      else if button_code = 16 then (False, if pressed then joystick_ToggleAnalogMode c else c)
      else let (flag, b) = press_bit (nat button_code) pressed (joy_button_state c)
           in (flag, c\<lparr>joy_button_state := b\<rparr>))"

definition joystick_GetButtonStateBits :: "joystick_controller \<Rightarrow> u32" where
  "joystick_GetButtonStateBits c = ucast (joy_button_state c) XOR 0xFFFF"

definition joystick_GetAnalogInputBytes :: "joystick_controller \<Rightarrow> u32" where
  "joystick_GetAnalogInputBytes c =
     push_bit 24 (ucast (joy_axis_state c ! 1)) OR push_bit 16 (ucast (joy_axis_state c ! 0)) OR
     push_bit 8 (ucast (joy_axis_state c ! 3)) OR ucast (joy_axis_state c ! 2)"

definition joystick_GetID :: "joystick_controller \<Rightarrow> u16" where
  "joystick_GetID c = (if joy_analog_mode c then 0x5A53 else 0x5A41)"

definition joystick_Transfer :: "u8 \<Rightarrow> u8 \<Rightarrow> joystick_controller \<Rightarrow> bool \<times> u8 \<times> joystick_controller" where
  "joystick_Transfer data_in out c =
     (case joy_transfer_state c of
        JoyIdle \<Rightarrow> if data_in = 0x01 then (True, 0xFF, c\<lparr>joy_transfer_state := JoyReady\<rparr>) else (False, 0xFF, c)
      | JoyReady \<Rightarrow> if data_in = 0x42 then (True, ucast (joystick_GetID c), c\<lparr>joy_transfer_state := JoyIDMSB\<rparr>)
                   else (False, 0xFF, c)
      | JoyIDMSB \<Rightarrow> (True, ucast (drop_bit 8 (joystick_GetID c)), c\<lparr>joy_transfer_state := JoyButtonsLSB\<rparr>)
      | JoyButtonsLSB \<Rightarrow> (True, ucast (joy_button_state c), c\<lparr>joy_transfer_state := JoyButtonsMSB\<rparr>)
      | JoyButtonsMSB \<Rightarrow>
          (joy_analog_mode c, ucast (drop_bit 8 (joy_button_state c)),
           c\<lparr>joy_transfer_state := if joy_analog_mode c then JoyRightAxisX else JoyIdle\<rparr>)
      | JoyRightAxisX \<Rightarrow> (True, joy_axis_state c ! 2, c\<lparr>joy_transfer_state := JoyRightAxisY\<rparr>)
      | JoyRightAxisY \<Rightarrow> (True, joy_axis_state c ! 3, c\<lparr>joy_transfer_state := JoyLeftAxisX\<rparr>)
      | JoyLeftAxisX \<Rightarrow> (True, joy_axis_state c ! 0, c\<lparr>joy_transfer_state := JoyLeftAxisY\<rparr>)
      | JoyLeftAxisY \<Rightarrow> (False, joy_axis_state c ! 1, c\<lparr>joy_transfer_state := JoyIdle\<rparr>)
      | JoyUnnamed w \<Rightarrow> (False, out, c))"

definition joystick_names :: "joystick_TransferState list" where
  "joystick_names = [JoyIdle, JoyReady, JoyIDMSB, JoyButtonsLSB, JoyButtonsMSB, JoyRightAxisX, JoyRightAxisY,
     JoyLeftAxisX, JoyLeftAxisY]"

fun joystick_code :: "joystick_TransferState \<Rightarrow> u8" where
  "joystick_code (JoyUnnamed w) = w"
| "joystick_code e = of_nat (enum_code joystick_names e)"

definition joystick_DoState :: "bool \<Rightarrow> joystick_controller \<Rightarrow> state_wrapper \<Rightarrow> bool \<times> joystick_controller \<times> state_wrapper" where
  "joystick_DoState apply_input_state c sw =
     (if sw_error sw then (False, c, sw)
      else let (m, sw1) = Do_bool (joy_analog_mode c) sw;
               (b, sw2) = Do_word (joy_button_state c) sw1;
               (xs, sw3) = DoArray Do_word (joy_axis_state c) sw2;
               c1 = c\<lparr>joy_analog_mode := m\<rparr>;
               c2 = (if apply_input_state then c1\<lparr>joy_button_state := b, joy_axis_state := xs\<rparr> else c1);
               (t, sw4) = Do_enum joystick_code (enum_of joystick_names JoyUnnamed) (joy_transfer_state c2) sw3
           in (True, c2\<lparr>joy_transfer_state := t\<rparr>, sw4))"

fun joystick_left :: "joystick_TransferState \<Rightarrow> nat" where
  "joystick_left JoyIdle = 8" | "joystick_left JoyReady = 7" | "joystick_left JoyIDMSB = 6" | "joystick_left JoyButtonsLSB = 5"
| "joystick_left JoyButtonsMSB = 4" | "joystick_left JoyRightAxisX = 3" | "joystick_left JoyRightAxisY = 2"
| "joystick_left JoyLeftAxisX = 1" | "joystick_left _ = 0"

lemma joystick_left_most: "joystick_left t \<le> 8"
  by (cases t) simp_all

interpretation joystick: serial_device joystick_Transfer joystick_ResetTransferState "\<lambda>c. length (joy_axis_state c) = 4"
  "\<lambda>c. joystick_left (joy_transfer_state c)" 8
  by unfold_locales
    (auto simp: joystick_left_most joystick_Transfer_def joystick_ResetTransferState_def
      split: joystick_TransferState.splits if_splits)

end
