(* ===== verification/AnalogController.thy ===== *)
theory AnalogController
  imports Controllers
begin

text \<open>
  The controllers with a command set: \<open>AnalogController\<close> (the DualShock,
  \<open>src/core/analog_controller.cpp\<close>) and \<open>NeGconRumble\<close> (\<open>src/core/negcon_rumble.cpp\<close>). The two classes
  hold the same fields and share most of their text; the common fields are the record
  \<open>command_controller\<close>, and an operation whose text is the same in both is a function on it.

  A command is answered from an eight-byte buffer, one byte per step; \<open>cc_command_step\<close> counts
  the steps and \<open>cc_response_length\<close> bounds them. The remainder by the response length is undefined
  in C++ when the length is zero; \<open>command_ok\<close> rules that out.
\<close>

subsection \<open>The common state\<close>

datatype cc_Command =
    CmdIdle | CmdReady | CmdReadPad | CmdConfigModeSetMode | CmdSetAnalogMode | CmdGetAnalogMode
  | Command46 | Command47 | Command4C | CmdGetSetRumble | CmdUnnamed u8

record command_controller =
  cc_command :: cc_Command
  cc_command_step :: nat
  cc_rx_buffer :: "u8 list"
  cc_tx_buffer :: "u8 list"
  cc_response_length :: nat
  cc_rumble_bias :: u8
  cc_analog_mode :: bool
  cc_analog_locked :: bool
  cc_dualshock_enabled :: bool
  cc_configuration_mode :: bool
  cc_axis_state :: "u8 list"
  cc_rumble_config :: "u8 list"
  cc_large_motor_index :: int
  cc_small_motor_index :: int
  cc_analog_toggle_queued :: bool
  cc_status_byte :: u8
  cc_button_state :: u16
  cc_motor_state :: "u8 list"

record analog_controller = command_controller +
  ac_force_analog :: bool
  ac_old_force_analog :: bool
  ac_analog_dpad_in_digital_mode :: bool
  ac_digital_mode_extra_halfwords :: u8
  ac_command_param :: u8
  ac_legacy_rumble_unlocked :: bool

type_synonym negcon_rumble = command_controller

definition LargeMotor :: nat where "LargeMotor = 0"
definition SmallMotor :: nat where "SmallMotor = 1"

definition SetMotorState :: "nat \<Rightarrow> u8 \<Rightarrow> 'a command_controller_scheme \<Rightarrow> 'a command_controller_scheme" where
  "SetMotorState motor v c = c\<lparr>cc_motor_state := (cc_motor_state c)[motor := v]\<rparr>"

definition ResetRumbleConfig :: "'a command_controller_scheme \<Rightarrow> 'a command_controller_scheme" where
  "ResetRumbleConfig c =
     SetMotorState SmallMotor 0 (SetMotorState LargeMotor 0
       (c\<lparr>cc_rumble_config := replicate 6 0xFF, cc_large_motor_index := - 1, cc_small_motor_index := - 1\<rparr>))"

definition SetMotorStateForConfigIndex :: "int \<Rightarrow> u8 \<Rightarrow> 'a command_controller_scheme \<Rightarrow> 'a command_controller_scheme" where
  "SetMotorStateForConfigIndex index v c =
     (if cc_small_motor_index c = index then SetMotorState SmallMotor (if v AND 0x01 \<noteq> 0 then 255 else 0) c
      else if cc_large_motor_index c = index then SetMotorState LargeMotor v c
      else c)"

definition command_SetAxis :: "nat \<Rightarrow> u8 \<Rightarrow> 'a command_controller_scheme \<Rightarrow> bool \<times> 'a command_controller_scheme" where
  "command_SetAxis axis v c =
     (v \<noteq> cc_axis_state c ! axis, c\<lparr>cc_axis_state := (cc_axis_state c)[axis := v]\<rparr>)"

definition command_GetButtonStateBits :: "'a command_controller_scheme \<Rightarrow> u32" where
  "command_GetButtonStateBits c = ucast (cc_button_state c) XOR 0xFFFF"

text \<open>\<open>ProcessAnalogModeToggle\<close>, with the class's \<open>SetAnalogMode\<close> as its argument.\<close>

definition ProcessAnalogModeToggle :: "(bool \<Rightarrow> 'a command_controller_scheme \<Rightarrow> 'a command_controller_scheme)
    \<Rightarrow> 'a command_controller_scheme \<Rightarrow> 'a command_controller_scheme" where
  "ProcessAnalogModeToggle set_mode c =
     (if cc_analog_locked c then c
      else let c1 = ResetRumbleConfig (set_mode (\<not> cc_analog_mode c) c)
           in if cc_dualshock_enabled c1 then c1\<lparr>cc_status_byte := 0x00\<rparr> else c1)"

definition command_ResetTransferState :: "(bool \<Rightarrow> 'a command_controller_scheme \<Rightarrow> 'a command_controller_scheme)
    \<Rightarrow> 'a command_controller_scheme \<Rightarrow> 'a command_controller_scheme" where
  "command_ResetTransferState set_mode c =
     (let c1 = (if cc_analog_toggle_queued c
                then (ProcessAnalogModeToggle set_mode c)\<lparr>cc_analog_toggle_queued := False\<rparr> else c)
      in c1\<lparr>cc_command := CmdIdle, cc_command_step := 0\<rparr>)"

definition toggle_or_queue :: "(bool \<Rightarrow> 'a command_controller_scheme \<Rightarrow> 'a command_controller_scheme)
    \<Rightarrow> 'a command_controller_scheme \<Rightarrow> 'a command_controller_scheme" where
  "toggle_or_queue set_mode c =
     (if cc_command c = CmdIdle then ProcessAnalogModeToggle set_mode c
      else c\<lparr>cc_analog_toggle_queued := True\<rparr>)"

subsection \<open>Answering a command\<close>

text \<open>The \<open>Ready\<close> state: the response to each command byte; \<open>None\<close> is a command that is not answered.\<close>

definition start_response :: "cc_Command \<Rightarrow> nat \<Rightarrow> u8 list \<Rightarrow> 'a command_controller_scheme \<Rightarrow> 'a command_controller_scheme" where
  "start_response command halfwords bytes c =
     c\<lparr>cc_response_length := (halfwords + 1) * 2, cc_command := command, cc_tx_buffer := bytes\<rparr>"

definition command_Ready :: "nat \<Rightarrow> u8 \<Rightarrow> u8 \<Rightarrow> 'a command_controller_scheme \<Rightarrow> 'a command_controller_scheme option" where
  "command_Ready halfwords id_byte data_in c =
     (let answer = (\<lambda>command rest. start_response command halfwords (id_byte # cc_status_byte c # rest) c);
          zeros = [0x00, 0x00, 0x00, 0x00, 0x00, 0x00];
          config = cc_configuration_mode c
      in if data_in = 0x42 then Some (answer CmdReadPad zeros)
         else if data_in = 0x43 then Some (answer CmdConfigModeSetMode zeros)
         else if config \<and> data_in = 0x44 then Some (ResetRumbleConfig (answer CmdSetAnalogMode zeros))
         else if config \<and> data_in = 0x45
         then Some (answer CmdGetAnalogMode [0x01, 0x02, of_bool (cc_analog_mode c), 0x02, 0x01, 0x00])
         else if config \<and> data_in = 0x46 then Some (answer Command46 zeros)
         else if config \<and> data_in = 0x47 then Some (answer Command47 [0x00, 0x00, 0x02, 0x00, 0x01, 0x00])
         else if config \<and> data_in = 0x4C then Some (answer Command4C zeros)
         else if config \<and> data_in = 0x4D
         then Some ((answer CmdGetSetRumble zeros)\<lparr>cc_large_motor_index := - 1, cc_small_motor_index := - 1\<rparr>)
         else None)"

definition set_tx :: "nat \<Rightarrow> u8 \<Rightarrow> 'a command_controller_scheme \<Rightarrow> 'a command_controller_scheme" where
  "set_tx i v c = c\<lparr>cc_tx_buffer := (cc_tx_buffer c)[i := v]\<rparr>"

text \<open>The buttons and, in analog or configuration mode, the axes in the order they are sent.\<close>

definition pad_bytes :: "u8 \<Rightarrow> nat list \<Rightarrow> 'a command_controller_scheme \<Rightarrow> 'a command_controller_scheme" where
  "pad_bytes button_mask order c =
     (let step = cc_command_step c; analog = cc_configuration_mode c \<or> cc_analog_mode c
      in if step = 2 then set_tx step (ucast (cc_button_state c) AND button_mask) c
         else if step = 3 then set_tx step (ucast (drop_bit 8 (cc_button_state c))) c
         else if 4 \<le> step \<and> step \<le> 7 \<and> analog then set_tx step (cc_axis_state c ! (order ! (step - 4))) c
         else c)"

definition legacy_rumble :: "'a command_controller_scheme \<Rightarrow> 'a command_controller_scheme" where
  "legacy_rumble c =
     (let legacy_rumble_on = (cc_rx_buffer c ! 2 AND 0xC0 = 0x40 \<and> cc_rx_buffer c ! 3 AND 0x01 \<noteq> 0)
      in SetMotorState SmallMotor (if legacy_rumble_on then 255 else 0) c)"

definition command_ReadPad :: "u8 \<Rightarrow> nat list \<Rightarrow> u8 \<Rightarrow> 'a command_controller_scheme \<Rightarrow> 'a command_controller_scheme" where
  "command_ReadPad button_mask order data_in c =
     (let step = cc_command_step c; rumble_index = int step - 2; c1 = pad_bytes button_mask order c
      in if 2 \<le> step \<and> step \<le> 7
         then if cc_dualshock_enabled c1 then SetMotorStateForConfigIndex rumble_index data_in c1
              else if step = 3 then legacy_rumble c1 else c1
         else c1)"

definition command_ConfigMode :: "u8 \<Rightarrow> nat list \<Rightarrow> u8 \<Rightarrow> 'a command_controller_scheme \<Rightarrow> 'a command_controller_scheme" where
  "command_ConfigMode button_mask order data_in c =
     (let c1 = (if cc_configuration_mode c then c else pad_bytes button_mask order c)
      in if int (cc_command_step c1) = int (cc_response_length c1) - 1
         then let c2 = c1\<lparr>cc_configuration_mode := (cc_rx_buffer c1 ! 2 = 1)\<rparr>
              in if cc_configuration_mode c2 then c2\<lparr>cc_dualshock_enabled := True, cc_status_byte := 0x5A\<rparr> else c2
         else c1)"

definition command_Command46 :: "u8 \<Rightarrow> 'a command_controller_scheme \<Rightarrow> 'a command_controller_scheme" where
  "command_Command46 data_in c =
     (if cc_command_step c = 2
      then if data_in = 0x00 then set_tx 7 0x0A (set_tx 6 0x00 (set_tx 5 0x02 (set_tx 4 0x01 c)))
           else if data_in = 0x01 then set_tx 7 0x14 (set_tx 6 0x01 (set_tx 5 0x01 (set_tx 4 0x01 c)))
           else c
      else c)"

definition command_Command47 :: "u8 \<Rightarrow> 'a command_controller_scheme \<Rightarrow> 'a command_controller_scheme" where
  "command_Command47 data_in c =
     (if cc_command_step c = 2 \<and> data_in \<noteq> 0x00
      then set_tx 7 0x00 (set_tx 6 0x00 (set_tx 5 0x00 (set_tx 4 0x00 c))) else c)"

definition command_Command4C :: "u8 \<Rightarrow> 'a command_controller_scheme \<Rightarrow> 'a command_controller_scheme" where
  "command_Command4C data_in c =
     (if cc_command_step c = 2
      then if data_in = 0x00 then set_tx 5 0x04 c else if data_in = 0x01 then set_tx 5 0x07 c else c
      else c)"

definition command_GetSetRumble :: "u8 \<Rightarrow> 'a command_controller_scheme \<Rightarrow> 'a command_controller_scheme" where
  "command_GetSetRumble data_in c =
     (let step = cc_command_step c;
          rumble_index = int step - 2;
          c1 = (if rumble_index \<ge> 0
                then let r = nat rumble_index;
                         c' = set_tx step (cc_rumble_config c ! r) c;
                         c'' = c'\<lparr>cc_rumble_config := (cc_rumble_config c')[r := data_in]\<rparr>
                     in if data_in = 0x00 then c''\<lparr>cc_small_motor_index := rumble_index\<rparr>
                        else if data_in = 0x01 then c''\<lparr>cc_large_motor_index := rumble_index\<rparr>
                        else c''
                else c)
      in if step = 7
         then let c2 = (if cc_large_motor_index c1 = - 1 then SetMotorState LargeMotor 0 c1 else c1)
              in if cc_small_motor_index c2 = - 1 then SetMotorState SmallMotor 0 c2 else c2
         else c1)"

text \<open>The end of \<open>Transfer\<close>: the byte of this step, and the next step.\<close>

definition command_reply :: "'a command_controller_scheme \<Rightarrow> bool \<times> u8 \<times> 'a command_controller_scheme" where
  "command_reply c =
     (let data_out = cc_tx_buffer c ! cc_command_step c;
          c1 = c\<lparr>cc_command_step := (cc_command_step c + 1) mod cc_response_length c\<rparr>;
          ack = cc_command_step c1 \<noteq> 0
      in (ack, data_out,
          if cc_command_step c1 = 0
          then c1\<lparr>cc_command := CmdIdle, cc_rx_buffer := replicate 8 0, cc_tx_buffer := replicate 8 0\<rparr>
          else c1))"

text \<open>\<open>Transfer\<close> with the class's parts as arguments: its answer in the \<open>Ready\<close> state and the body of each command.\<close>

definition command_Transfer ::
  "(u8 \<Rightarrow> 'a command_controller_scheme \<Rightarrow> 'a command_controller_scheme option)
    \<Rightarrow> (cc_Command \<Rightarrow> u8 \<Rightarrow> 'a command_controller_scheme \<Rightarrow> 'a command_controller_scheme)
    \<Rightarrow> u8 \<Rightarrow> u8 \<Rightarrow> 'a command_controller_scheme \<Rightarrow> bool \<times> u8 \<times> 'a command_controller_scheme" where
  "command_Transfer ready body data_in out c0 =
     (let c = c0\<lparr>cc_rx_buffer := (cc_rx_buffer c0)[cc_command_step c0 := data_in]\<rparr>
      in if cc_command c = CmdIdle
         then if data_in = 0x01 then (True, 0xFF, c\<lparr>cc_command := CmdReady\<rparr>) else (False, 0xFF, c)
         else if cc_command c = CmdReady
         then (case ready data_in c of Some c1 \<Rightarrow> command_reply c1 | None \<Rightarrow> (False, 0xFF, c))
         else command_reply (body (cc_command c) data_in c))"

definition cc_Command_names :: "cc_Command list" where
  "cc_Command_names = [CmdIdle, CmdReady, CmdReadPad, CmdConfigModeSetMode, CmdSetAnalogMode, CmdGetAnalogMode,
     Command46, Command47, Command4C, CmdGetSetRumble]"

fun cc_Command_code :: "cc_Command \<Rightarrow> u8" where
  "cc_Command_code (CmdUnnamed w) = w"
| "cc_Command_code e = of_nat (enum_code cc_Command_names e)"

subsection \<open>The DualShock\<close>

definition analog_Reset :: "'a analog_controller_scheme \<Rightarrow> 'a analog_controller_scheme" where
  "analog_Reset c =
     (ResetRumbleConfig
        (c\<lparr>cc_command := CmdIdle, cc_command_step := 0, cc_rx_buffer := replicate 8 0, cc_tx_buffer := replicate 8 0,
           cc_analog_mode := False, cc_configuration_mode := False, cc_motor_state := replicate 2 0,
           cc_dualshock_enabled := False\<rparr>))\<lparr>cc_status_byte := 0x5A\<rparr>"

text \<open>The constructor; the buffers are not initialised before \<open>Reset\<close> fills them.\<close>

definition analog_new :: "analog_controller" where
  "analog_new = analog_Reset
     \<lparr>cc_command = CmdIdle, cc_command_step = 0, cc_rx_buffer = [], cc_tx_buffer = [], cc_response_length = 0,
      cc_rumble_bias = 8, cc_analog_mode = False, cc_analog_locked = False, cc_dualshock_enabled = False,
      cc_configuration_mode = False, cc_axis_state = replicate 4 0x80, cc_rumble_config = replicate 6 0,
      cc_large_motor_index = - 1, cc_small_motor_index = - 1, cc_analog_toggle_queued = False, cc_status_byte = 0x5A,
      cc_button_state = 0xFFFF, cc_motor_state = replicate 2 0, ac_force_analog = False, ac_old_force_analog = False,
      ac_analog_dpad_in_digital_mode = False, ac_digital_mode_extra_halfwords = 0, ac_command_param = 0,
      ac_legacy_rumble_unlocked = False\<rparr>"

definition analog_SetAnalogMode :: "bool \<Rightarrow> 'a analog_controller_scheme \<Rightarrow> 'a analog_controller_scheme" where
  "analog_SetAnalogMode enabled c =
     (if ac_force_analog c \<and> cc_analog_mode c = ac_force_analog c then c
      else if cc_analog_mode c = enabled then c
      else c\<lparr>cc_analog_mode := enabled\<rparr>)"

definition analog_ResetTransferState :: "'a analog_controller_scheme \<Rightarrow> 'a analog_controller_scheme" where
  "analog_ResetTransferState = command_ResetTransferState analog_SetAnalogMode"

text \<open>Button 16 is \<open>Analog\<close>.\<close>

definition analog_SetButtonState :: "int \<Rightarrow> bool \<Rightarrow> 'a analog_controller_scheme \<Rightarrow> bool \<times> 'a analog_controller_scheme" where
  "analog_SetButtonState button_code pressed c0 =
     (if button_code < 0 \<or> button_code \<ge> 17 then (False, c0)
      else let c = (if ac_force_analog c0 \<noteq> ac_old_force_analog c0
                    then toggle_or_queue analog_SetAnalogMode (c0\<lparr>ac_old_force_analog := ac_force_analog c0\<rparr>) else c0)
           in if button_code = 16 then (False, if pressed then toggle_or_queue analog_SetAnalogMode c else c)
              else let (flag, b) = press_bit (nat button_code) pressed (cc_button_state c)
                   in (flag, c\<lparr>cc_button_state := b\<rparr>))"

definition analog_GetAnalogInputBytes :: "'a analog_controller_scheme \<Rightarrow> u32" where
  "analog_GetAnalogInputBytes c =
     push_bit 24 (ucast (cc_axis_state c ! 1)) OR push_bit 16 (ucast (cc_axis_state c ! 0)) OR
     push_bit 8 (ucast (cc_axis_state c ! 3)) OR ucast (cc_axis_state c ! 2)"

text \<open>The thresholds are 64.5 and 191.5 cut to whole numbers.\<close>

definition GetExtraButtonMaskLSB :: "'a analog_controller_scheme \<Rightarrow> u8" where
  "GetExtraButtonMaskLSB c =
     (if \<not> ac_analog_dpad_in_digital_mode c \<or> cc_analog_mode c \<or> cc_configuration_mode c then 0xFF
      else let left = cc_axis_state c ! 0 \<le> 64;
               right = cc_axis_state c ! 0 \<ge> 191;
               up = cc_axis_state c ! 1 \<le> 64;
               down = cc_axis_state c ! 1 \<ge> 191
           in NOT (push_bit 7 (of_bool left) OR push_bit 5 (of_bool right) OR push_bit 4 (of_bool up) OR
                   push_bit 6 (of_bool down)))"

definition analog_GetResponseNumHalfwords :: "'a analog_controller_scheme \<Rightarrow> nat" where
  "analog_GetResponseNumHalfwords c =
     (if cc_configuration_mode c \<or> cc_analog_mode c then 0x3
      else unat (0x1 + ac_digital_mode_extra_halfwords c))"

definition analog_GetModeID :: "'a analog_controller_scheme \<Rightarrow> u8" where
  "analog_GetModeID c = (if cc_configuration_mode c then 0xF else if cc_analog_mode c then 0x7 else 0x4)"

definition analog_GetIDByte :: "'a analog_controller_scheme \<Rightarrow> u8" where
  "analog_GetIDByte c = push_bit 4 (analog_GetModeID c) OR of_nat (analog_GetResponseNumHalfwords c)"

definition analog_cmd_SetAnalogMode :: "u8 \<Rightarrow> 'a analog_controller_scheme \<Rightarrow> 'a analog_controller_scheme" where
  "analog_cmd_SetAnalogMode data_in c =
     (if cc_command_step c = 2
      then if data_in = 0x00 \<or> data_in = 0x01 then analog_SetAnalogMode (data_in = 0x01) c else c
      else if cc_command_step c = 3
      then if data_in = 0x02 \<or> data_in = 0x03 then c\<lparr>cc_analog_locked := (data_in = 0x03)\<rparr> else c
      else c)"

text \<open>The order of the axes: \<open>RightX\<close>, \<open>RightY\<close>, \<open>LeftX\<close>, \<open>LeftY\<close>.\<close>

fun analog_body :: "cc_Command \<Rightarrow> u8 \<Rightarrow> 'a analog_controller_scheme \<Rightarrow> 'a analog_controller_scheme" where
  "analog_body CmdReadPad data_in c = command_ReadPad (GetExtraButtonMaskLSB c) [2, 3, 0, 1] data_in c"
| "analog_body CmdConfigModeSetMode data_in c = command_ConfigMode (GetExtraButtonMaskLSB c) [2, 3, 0, 1] data_in c"
| "analog_body CmdSetAnalogMode data_in c = analog_cmd_SetAnalogMode data_in c"
| "analog_body Command46 data_in c = command_Command46 data_in c"
| "analog_body Command47 data_in c = command_Command47 data_in c"
| "analog_body Command4C data_in c = command_Command4C data_in c"
| "analog_body CmdGetSetRumble data_in c = command_GetSetRumble data_in c"
| "analog_body _ data_in c = c"

definition analog_Transfer :: "u8 \<Rightarrow> u8 \<Rightarrow> 'a analog_controller_scheme \<Rightarrow> bool \<times> u8 \<times> 'a analog_controller_scheme" where
  "analog_Transfer =
     command_Transfer (\<lambda>data_in c. command_Ready (analog_GetResponseNumHalfwords c) (analog_GetIDByte c) data_in c)
       analog_body"

definition analog_LoadSettings :: "bool \<Rightarrow> bool \<Rightarrow> int \<Rightarrow> 'a analog_controller_scheme \<Rightarrow> 'a analog_controller_scheme" where
  "analog_LoadSettings force_analog analog_dpad vibration_bias c =
     c\<lparr>ac_force_analog := force_analog, ac_analog_dpad_in_digital_mode := analog_dpad,
       cc_rumble_bias := of_nat (min (unat (word_of_int vibration_bias :: u32)) 255)\<rparr>"

definition analog_DoState :: "bool \<Rightarrow> 'a analog_controller_scheme \<Rightarrow> state_wrapper
    \<Rightarrow> bool \<times> 'a analog_controller_scheme \<times> state_wrapper" where
  "analog_DoState apply_input_state c sw =
     (if sw_error sw then (False, c, sw)
      else let old_analog_mode = cc_analog_mode c;
               (am, sw1) = Do_bool (cc_analog_mode c) sw;
               (de, sw2) = Do_bool (cc_dualshock_enabled c) sw1;
               (lr, sw3) = DoEx Do_bool 44 False (ac_legacy_rumble_unlocked c) sw2;
               (cm, sw4) = Do_bool (cc_configuration_mode c) sw3;
               (cp, sw5) = Do_word (ac_command_param c) sw4;
               (sb, sw6) = DoEx Do_word 55 0x5A (cc_status_byte c) sw5;
               (bs, sw7) = DoEx Do_word 44 0xFFFF (cc_button_state c) sw6;
               c1 = c\<lparr>cc_analog_mode := am, cc_dualshock_enabled := de, ac_legacy_rumble_unlocked := lr,
                      cc_configuration_mode := cm, ac_command_param := cp, cc_status_byte := sb\<rparr>;
               c2 = (if apply_input_state then c1\<lparr>cc_button_state := bs\<rparr> else c1\<lparr>cc_analog_mode := old_analog_mode\<rparr>);
               (cmd, sw8) = Do_enum cc_Command_code (enum_of cc_Command_names CmdUnnamed) (cc_command c2) sw7;
               (rc, sw9) = DoEx (DoArray Do_word) 45 (replicate 6 0xFF) (cc_rumble_config c2) sw8;
               (li, sw10) = DoEx Do_s32 45 (- 1) (cc_large_motor_index c2) sw9;
               (si, sw11) = DoEx Do_s32 45 (- 1) (cc_small_motor_index c2) sw10;
               (tq, sw12) = DoEx Do_bool 45 False (cc_analog_toggle_queued c2) sw11;
               (ms, sw13) = DoArray Do_word (cc_motor_state c2) sw12;
               c3 = c2\<lparr>cc_command := cmd, cc_rumble_config := rc, cc_large_motor_index := li, cc_small_motor_index := si,
                       cc_analog_toggle_queued := tq\<rparr>;
               c4 = (if sw_IsReading sw13 then SetMotorState 1 (ms ! 1) (SetMotorState 0 (ms ! 0) c3) else c3)
           in (True, c4, sw13))"

subsection \<open>The NeGcon with rumble\<close>

definition negcon_rumble_Reset :: "negcon_rumble \<Rightarrow> negcon_rumble" where
  "negcon_rumble_Reset c =
     (ResetRumbleConfig
        (c\<lparr>cc_command := CmdIdle, cc_command_step := 0, cc_rx_buffer := replicate 8 0, cc_tx_buffer := replicate 8 0,
           cc_analog_mode := True, cc_configuration_mode := False, cc_motor_state := replicate 2 0,
           cc_dualshock_enabled := True\<rparr>))\<lparr>cc_status_byte := 0x5A\<rparr>"

definition negcon_rumble_new :: negcon_rumble where
  "negcon_rumble_new = negcon_rumble_Reset
     \<lparr>cc_command = CmdIdle, cc_command_step = 0, cc_rx_buffer = [], cc_tx_buffer = [], cc_response_length = 0,
      cc_rumble_bias = 8, cc_analog_mode = False, cc_analog_locked = False, cc_dualshock_enabled = False,
      cc_configuration_mode = False, cc_axis_state = (replicate 4 0)[0 := 0x80], cc_rumble_config = replicate 6 0,
      cc_large_motor_index = - 1, cc_small_motor_index = - 1, cc_analog_toggle_queued = False, cc_status_byte = 0x5A,
      cc_button_state = 0xFFFF, cc_motor_state = replicate 2 0\<rparr>"

definition negcon_rumble_SetAnalogMode :: "bool \<Rightarrow> negcon_rumble \<Rightarrow> negcon_rumble" where
  "negcon_rumble_SetAnalogMode enabled c = (if cc_analog_mode c = enabled then c else c\<lparr>cc_analog_mode := enabled\<rparr>)"

definition negcon_rumble_ResetTransferState :: "negcon_rumble \<Rightarrow> negcon_rumble" where
  "negcon_rumble_ResetTransferState = command_ResetTransferState negcon_rumble_SetAnalogMode"

text \<open>Button 8 is \<open>Analog\<close>.\<close>

definition negcon_rumble_SetButtonState :: "int \<Rightarrow> bool \<Rightarrow> negcon_rumble \<Rightarrow> bool \<times> negcon_rumble" where
  "negcon_rumble_SetButtonState button_code pressed c =
     (if button_code < 0 \<or> button_code \<ge> 9 then (False, c)
      else if button_code = 8 then (False, if pressed then toggle_or_queue negcon_rumble_SetAnalogMode c else c)
      else let (flag, b) = press_indexed [3, 4, 5, 6, 7, 11, 12, 13, 0] (nat button_code) pressed (cc_button_state c)
           in (flag, c\<lparr>cc_button_state := b\<rparr>))"

definition negcon_rumble_GetAnalogInputBytes :: "negcon_rumble \<Rightarrow> u32" where
  "negcon_rumble_GetAnalogInputBytes c =
     push_bit 24 (ucast (cc_axis_state c ! 3)) OR push_bit 16 (ucast (cc_axis_state c ! 2)) OR
     push_bit 8 (ucast (cc_axis_state c ! 1)) OR ucast (cc_axis_state c ! 0)"

definition negcon_rumble_GetExtraButtonMaskLSB :: "negcon_rumble \<Rightarrow> u8" where
  "negcon_rumble_GetExtraButtonMaskLSB c = 0xFF"

definition negcon_rumble_GetResponseNumHalfwords :: "negcon_rumble \<Rightarrow> nat" where
  "negcon_rumble_GetResponseNumHalfwords c = (if cc_configuration_mode c \<or> cc_analog_mode c then 0x3 else 0x1)"

definition negcon_rumble_GetModeID :: "negcon_rumble \<Rightarrow> u8" where
  "negcon_rumble_GetModeID c = (if cc_configuration_mode c then 0xF else if cc_analog_mode c then 0x2 else 0x4)"

definition negcon_rumble_GetIDByte :: "negcon_rumble \<Rightarrow> u8" where
  "negcon_rumble_GetIDByte c =
     push_bit 4 (negcon_rumble_GetModeID c) OR of_nat (negcon_rumble_GetResponseNumHalfwords c)"

text \<open>The \<open>SetAnalogMode\<close> command only sets the lock.\<close>

definition negcon_rumble_cmd_SetAnalogMode :: "u8 \<Rightarrow> negcon_rumble \<Rightarrow> negcon_rumble" where
  "negcon_rumble_cmd_SetAnalogMode data_in c =
     (if cc_command_step c = 3
      then if data_in = 0x02 \<or> data_in = 0x03 then c\<lparr>cc_analog_locked := (data_in = 0x03)\<rparr> else c
      else c)"

text \<open>The order of the axes: \<open>Steering\<close>, \<open>I\<close>, \<open>II\<close>, \<open>L\<close>.\<close>

fun negcon_rumble_body :: "cc_Command \<Rightarrow> u8 \<Rightarrow> negcon_rumble \<Rightarrow> negcon_rumble" where
  "negcon_rumble_body CmdReadPad data_in c =
     command_ReadPad (negcon_rumble_GetExtraButtonMaskLSB c) [0, 1, 2, 3] data_in c"
| "negcon_rumble_body CmdConfigModeSetMode data_in c =
     command_ConfigMode (negcon_rumble_GetExtraButtonMaskLSB c) [0, 1, 2, 3] data_in c"
| "negcon_rumble_body CmdSetAnalogMode data_in c = negcon_rumble_cmd_SetAnalogMode data_in c"
| "negcon_rumble_body Command46 data_in c = command_Command46 data_in c"
| "negcon_rumble_body Command47 data_in c = command_Command47 data_in c"
| "negcon_rumble_body Command4C data_in c = command_Command4C data_in c"
| "negcon_rumble_body CmdGetSetRumble data_in c = command_GetSetRumble data_in c"
| "negcon_rumble_body _ data_in c = c"

definition negcon_rumble_Transfer :: "u8 \<Rightarrow> u8 \<Rightarrow> negcon_rumble \<Rightarrow> bool \<times> u8 \<times> negcon_rumble" where
  "negcon_rumble_Transfer =
     command_Transfer
       (\<lambda>data_in c. command_Ready (negcon_rumble_GetResponseNumHalfwords c) (negcon_rumble_GetIDByte c) data_in c)
       negcon_rumble_body"

definition negcon_rumble_DoState :: "bool \<Rightarrow> negcon_rumble \<Rightarrow> state_wrapper \<Rightarrow> bool \<times> negcon_rumble \<times> state_wrapper" where
  "negcon_rumble_DoState apply_input_state c sw =
     (if sw_error sw then (False, c, sw)
      else let old_analog_mode = cc_analog_mode c;
               (am, sw1) = Do_bool (cc_analog_mode c) sw;
               (de, sw2) = Do_bool (cc_dualshock_enabled c) sw1;
               (cm, sw3) = Do_bool (cc_configuration_mode c) sw2;
               (sb, sw4) = DoEx Do_word 55 0x5A (cc_status_byte c) sw3;
               (bs, sw5) = DoEx Do_word 44 0xFFFF (cc_button_state c) sw4;
               c1 = c\<lparr>cc_analog_mode := am, cc_dualshock_enabled := de, cc_configuration_mode := cm, cc_status_byte := sb\<rparr>;
               c2 = (if apply_input_state then c1\<lparr>cc_button_state := bs\<rparr> else c1\<lparr>cc_analog_mode := old_analog_mode\<rparr>);
               (cmd, sw6) = Do_enum cc_Command_code (enum_of cc_Command_names CmdUnnamed) (cc_command c2) sw5;
               (rc, sw7) = DoEx (DoArray Do_word) 45 (replicate 6 0xFF) (cc_rumble_config c2) sw6;
               (li, sw8) = DoEx Do_s32 45 (- 1) (cc_large_motor_index c2) sw7;
               (si, sw9) = DoEx Do_s32 45 (- 1) (cc_small_motor_index c2) sw8;
               (tq, sw10) = DoEx Do_bool 45 False (cc_analog_toggle_queued c2) sw9;
               (ms, sw11) = DoArray Do_word (cc_motor_state c2) sw10;
               c3 = c2\<lparr>cc_command := cmd, cc_rumble_config := rc, cc_large_motor_index := li, cc_small_motor_index := si,
                       cc_analog_toggle_queued := tq\<rparr>;
               c4 = (if sw_IsReading sw11 then SetMotorState 1 (ms ! 1) (SetMotorState 0 (ms ! 0) c3) else c3)
           in (True, c4, sw11))"

end
