(* ===== verification/AnalogSpec.thy ===== *)
theory AnalogSpec
  imports AnalogController
begin

text \<open>
  The controllers with a command set are well-formed serial devices. \<open>command_shape\<close> is what the
  bodies of the commands leave alone: the command, its step, the length of the response and of the
  arrays. The locale \<open>command_set\<close> is the contract of a class's own parts, and every class that
  meets it is a \<open>serial_device\<close>.
\<close>

subsection \<open>What a command leaves alone\<close>

definition command_shape where
  "command_shape c = (cc_command c, cc_command_step c, cc_response_length c, length (cc_rx_buffer c),
     length (cc_tx_buffer c), length (cc_axis_state c), length (cc_rumble_config c), length (cc_motor_state c),
     command_controller.more c)"

lemma shape_updates [simp]:
  "command_shape (SetMotorState i v c) = command_shape c"
  "command_shape (set_tx j v c) = command_shape c"
  "command_shape (c\<lparr>cc_small_motor_index := k\<rparr>) = command_shape c"
  "command_shape (c\<lparr>cc_large_motor_index := k\<rparr>) = command_shape c"
  "command_shape (c\<lparr>cc_configuration_mode := b\<rparr>) = command_shape c"
  "command_shape (c\<lparr>cc_analog_mode := b\<rparr>) = command_shape c"
  "command_shape (c\<lparr>cc_analog_locked := b\<rparr>) = command_shape c"
  "command_shape (c\<lparr>cc_dualshock_enabled := b\<rparr>) = command_shape c"
  "command_shape (c\<lparr>cc_analog_toggle_queued := b\<rparr>) = command_shape c"
  "command_shape (c\<lparr>cc_status_byte := v\<rparr>) = command_shape c"
  "command_shape (c\<lparr>cc_button_state := w\<rparr>) = command_shape c"
  by (simp_all add: command_shape_def SetMotorState_def set_tx_def)

lemma shape_lists:
  "length xs = length (cc_rumble_config c) \<Longrightarrow> command_shape (c\<lparr>cc_rumble_config := xs\<rparr>) = command_shape c"
  "length xs = length (cc_rx_buffer c) \<Longrightarrow> command_shape (c\<lparr>cc_rx_buffer := xs\<rparr>) = command_shape c"
  by (simp_all add: command_shape_def)

lemma shape_bodies [simp]:
  "command_shape (SetMotorStateForConfigIndex i v c) = command_shape c"
  "command_shape (pad_bytes m order c) = command_shape c"
  "command_shape (command_ReadPad m order v c) = command_shape c"
  "command_shape (command_ConfigMode m order v c) = command_shape c"
  "command_shape (command_Command46 v c) = command_shape c"
  "command_shape (command_Command47 v c) = command_shape c"
  "command_shape (command_Command4C v c) = command_shape c"
proof -
  show a: "command_shape (SetMotorStateForConfigIndex i v c) = command_shape c" for i v c
    by (simp add: SetMotorStateForConfigIndex_def)
  show b: "command_shape (pad_bytes m order c) = command_shape c" for m order c
    by (simp add: pad_bytes_def Let_def)
  show "command_shape (command_ReadPad m order v c) = command_shape c"
    by (simp add: command_ReadPad_def Let_def a b legacy_rumble_def)
  show "command_shape (command_ConfigMode m order v c) = command_shape c"
    by (simp add: command_ConfigMode_def Let_def b)
  show "command_shape (command_Command46 v c) = command_shape c"
    "command_shape (command_Command47 v c) = command_shape c"
    "command_shape (command_Command4C v c) = command_shape c"
    by (simp_all add: command_Command46_def command_Command47_def command_Command4C_def)
qed

lemma shape_GetSetRumble [simp]: "command_shape (command_GetSetRumble v c) = command_shape c"
proof -
  have r: "command_shape (c1\<lparr>cc_rumble_config := (cc_rumble_config c1)[i := v]\<rparr>) = command_shape c1"
    for i v and c1 :: "'a command_controller_scheme"
    by (rule shape_lists) simp
  show ?thesis by (simp add: command_GetSetRumble_def Let_def r)
qed

subsection \<open>Well-formed command states\<close>

definition command_ok :: "'a command_controller_scheme \<Rightarrow> bool" where
  "command_ok c \<longleftrightarrow> length (cc_rx_buffer c) = 8 \<and> length (cc_tx_buffer c) = 8 \<and> length (cc_axis_state c) = 4 \<and>
     length (cc_rumble_config c) = 6 \<and> length (cc_motor_state c) = 2 \<and>
     (if cc_command c = CmdIdle \<or> cc_command c = CmdReady then cc_command_step c = 0
      else 0 < cc_command_step c \<and> cc_command_step c < cc_response_length c \<and> cc_response_length c \<le> 8)"

lemma command_ok_shape: "command_shape c = command_shape d \<Longrightarrow> command_ok c = command_ok d"
  by (simp add: command_shape_def command_ok_def)

lemma command_ok_index: "command_ok c \<Longrightarrow> cc_command_step c < 8"
  by (auto simp: command_ok_def split: if_splits)

definition command_left :: "'a command_controller_scheme \<Rightarrow> nat" where
  "command_left c = (if cc_command c = CmdIdle then 8 else if cc_command c = CmdReady then 7
     else cc_response_length c - 1 - cc_command_step c)"

definition command_started :: "'a command_controller_scheme \<Rightarrow> 'a command_controller_scheme \<Rightarrow> bool" where
  "command_started c d \<longleftrightarrow> cc_command d \<noteq> CmdIdle \<and> cc_command d \<noteq> CmdReady \<and> cc_response_length d \<in> {4, 8} \<and>
     command_shape (d\<lparr>cc_command := cc_command c, cc_response_length := cc_response_length c\<rparr>) = command_shape c"

lemma command_Ready_started:
  assumes "command_Ready halfwords id_byte b c = Some d" and "halfwords \<in> {1, 3}" and "length (cc_tx_buffer c) = 8"
    and "length (cc_rumble_config c) = 6"
  shows "command_started c d"
  using assms by (auto simp: command_Ready_def Let_def start_response_def command_started_def command_shape_def
      ResetRumbleConfig_def SetMotorState_def split: if_splits)

text \<open>The step that is replied to, in a command.\<close>

lemma command_reply_ok:
  assumes "length (cc_rx_buffer c) = 8" and "length (cc_tx_buffer c) = 8" and "length (cc_axis_state c) = 4"
    and "length (cc_rumble_config c) = 6" and "length (cc_motor_state c) = 2"
    and "cc_command c \<noteq> CmdIdle" and "cc_command c \<noteq> CmdReady" and "cc_command_step c < cc_response_length c"
    and "cc_response_length c \<le> 8"
  shows "command_ok (snd (snd (command_reply c)))"
    and "fst (command_reply c) \<Longrightarrow> Suc (command_left (snd (snd (command_reply c)))) \<le> cc_response_length c - 1 - cc_command_step c"
proof -
  have m: "Suc (cc_command_step c) mod cc_response_length c =
      (if Suc (cc_command_step c) = cc_response_length c then 0 else Suc (cc_command_step c))"
    using assms(8) by simp
  show "command_ok (snd (snd (command_reply c)))"
    using assms by (auto simp: command_reply_def Let_def m command_ok_def)
  show "fst (command_reply c) \<Longrightarrow> Suc (command_left (snd (snd (command_reply c)))) \<le> cc_response_length c - 1 - cc_command_step c"
    using assms by (auto simp: command_reply_def Let_def m command_left_def split: if_splits)
qed

subsection \<open>The contract of a command set\<close>

locale command_set =
  fixes ready :: "u8 \<Rightarrow> 'a command_controller_scheme \<Rightarrow> 'a command_controller_scheme option"
    and body :: "cc_Command \<Rightarrow> u8 \<Rightarrow> 'a command_controller_scheme \<Rightarrow> 'a command_controller_scheme"
    and set_mode :: "bool \<Rightarrow> 'a command_controller_scheme \<Rightarrow> 'a command_controller_scheme"
    and extra :: "'a command_controller_scheme \<Rightarrow> bool"
  assumes extra_more: "command_controller.more c = command_controller.more d \<Longrightarrow> extra c = extra d"
    and body_shape: "command_shape (body cmd b c) = command_shape c"
    and mode_shape: "command_shape (set_mode m c) = command_shape c"
    and ready_started: "extra c \<Longrightarrow> command_ok c \<Longrightarrow> ready b c = Some d \<Longrightarrow> command_started c d"
begin

abbreviation device_ok where
  "device_ok c \<equiv> command_ok c \<and> extra c"

lemma toggle_ok: "device_ok c \<Longrightarrow> device_ok (ProcessAnalogModeToggle set_mode c)"
proof -
  assume ok: "device_ok c"
  have "command_shape (ResetRumbleConfig (set_mode b c)) = command_shape c" for b
    using mode_shape [of b c] ok
    by (simp add: ResetRumbleConfig_def command_shape_def SetMotorState_def command_ok_def)
  then have "command_shape (ProcessAnalogModeToggle set_mode c) = command_shape c"
    by (simp add: ProcessAnalogModeToggle_def Let_def)
  then show "device_ok (ProcessAnalogModeToggle set_mode c)"
    using ok command_ok_shape [of "ProcessAnalogModeToggle set_mode c" c] extra_more [of "ProcessAnalogModeToggle set_mode c" c]
    by (simp add: command_shape_def)
qed

lemma reset_ok: "device_ok c \<Longrightarrow> device_ok (command_ResetTransferState set_mode c)"
proof -
  assume ok: "device_ok c"
  define c1 where "c1 = (if cc_analog_toggle_queued c
    then (ProcessAnalogModeToggle set_mode c)\<lparr>cc_analog_toggle_queued := False\<rparr> else c)"
  have e: "extra (d\<lparr>cc_analog_toggle_queued := q\<rparr>) = extra d" "extra (d\<lparr>cc_command := cmd, cc_command_step := n\<rparr>) = extra d"
    for d q cmd n by (rule extra_more; simp)+
  have "device_ok c1" using toggle_ok [OF ok] ok by (auto simp: c1_def e command_ok_def)
  then show "device_ok (command_ResetTransferState set_mode c)"
    by (simp add: command_ResetTransferState_def Let_def c1_def [symmetric] e command_ok_def)
qed

lemma more_reply: "command_controller.more (snd (snd (command_reply c))) = command_controller.more c"
  by (simp add: command_reply_def Let_def)

lemma transfer_ok:
  assumes "device_ok c"
  shows "device_ok (snd (snd (command_Transfer ready body b out c)))"
    and "fst (command_Transfer ready body b out c) \<Longrightarrow>
      command_left (snd (snd (command_Transfer ready body b out c))) < command_left c"
proof -
  define c1 where "c1 = c\<lparr>cc_rx_buffer := (cc_rx_buffer c)[cc_command_step c := b]\<rparr>"
  have s1: "command_shape c1 = command_shape c" unfolding c1_def by (rule shape_lists) simp
  then have ok1: "device_ok c1"
    using assms command_ok_shape [of c1 c] extra_more [of c1 c] by (simp add: command_shape_def)
  have x: "extra d = extra c" if "command_controller.more d = command_controller.more c" for d by (rule extra_more [OF that])
  have t: "command_Transfer ready body b out c =
      (if cc_command c = CmdIdle
       then if b = 0x01 then (True, 0xFF, c1\<lparr>cc_command := CmdReady\<rparr>) else (False, 0xFF, c1)
       else if cc_command c = CmdReady
       then (case ready b c1 of Some d \<Rightarrow> command_reply d | None \<Rightarrow> (False, 0xFF, c1))
       else command_reply (body (cc_command c) b c1))"
    unfolding command_Transfer_def Let_def c1_def [symmetric] using s1 by (simp add: command_shape_def)
  consider "cc_command c = CmdIdle" | "cc_command c = CmdReady" "ready b c1 = None"
    | d where "cc_command c = CmdReady" "ready b c1 = Some d"
    | "cc_command c \<noteq> CmdIdle" "cc_command c \<noteq> CmdReady" by fastforce
  then have "device_ok (snd (snd (command_Transfer ready body b out c))) \<and>
      (fst (command_Transfer ready body b out c) \<longrightarrow>
         command_left (snd (snd (command_Transfer ready body b out c))) < command_left c)"
  proof cases
    case 1
    then show ?thesis using ok1 s1 x [of "c1\<lparr>cc_command := CmdReady\<rparr>"] x [of c1] by (auto simp: t command_ok_def command_left_def command_shape_def)
  next
    case 2
    then show ?thesis using ok1 by (simp add: t)
  next
    case 3
    have st: "command_started c1 d" by (rule ready_started) (use ok1 3 in simp_all)
    have c1: "cc_command c1 = CmdReady" using 3 s1 by (simp add: command_shape_def)
    have d: "length (cc_rx_buffer d) = 8" "length (cc_tx_buffer d) = 8" "length (cc_axis_state d) = 4"
      "length (cc_rumble_config d) = 6" "length (cc_motor_state d) = 2" "cc_command d \<noteq> CmdIdle"
      "cc_command d \<noteq> CmdReady" "cc_command_step d = 0" "cc_response_length d \<le> 8" "0 < cc_response_length d"
      "command_controller.more d = command_controller.more c"
      using s1 st ok1 c1 by (auto simp: command_started_def command_shape_def command_ok_def)
    show ?thesis
      using command_reply_ok [OF d(1-7)] d(8-) x [of "snd (snd (command_reply d))"] assms 3 by (auto simp: t more_reply command_left_def)
  next
    case 4
    define d where "d = body (cc_command c) b c1"
    have "command_shape d = command_shape c" by (simp add: d_def body_shape s1)
    then have d: "length (cc_rx_buffer d) = 8" "length (cc_tx_buffer d) = 8" "length (cc_axis_state d) = 4"
      "length (cc_rumble_config d) = 6" "length (cc_motor_state d) = 2" "cc_command d \<noteq> CmdIdle"
      "cc_command d \<noteq> CmdReady" "cc_command_step d < cc_response_length d" "cc_response_length d \<le> 8"
      "command_controller.more d = command_controller.more c" "cc_response_length d = cc_response_length c"
      "cc_command_step d = cc_command_step c"
      using assms 4 by (auto simp: command_shape_def command_ok_def)
    have "command_left c = cc_response_length c - 1 - cc_command_step c" using 4 by (simp add: command_left_def)
    then show ?thesis
      using command_reply_ok [OF d(1-9)] d(10-) x [of "snd (snd (command_reply d))"] assms 4
      by (simp add: t d_def [symmetric] more_reply Suc_le_eq)
  qed
  then show "device_ok (snd (snd (command_Transfer ready body b out c)))"
    and "fst (command_Transfer ready body b out c) \<Longrightarrow>
      command_left (snd (snd (command_Transfer ready body b out c))) < command_left c"
    by simp_all
qed

lemma left_most: "command_ok c \<Longrightarrow> command_left c \<le> 8"
  by (auto simp: command_ok_def command_left_def split: if_splits)

end

sublocale command_set \<subseteq> device: serial_device "command_Transfer ready body" "command_ResetTransferState set_mode"
  "\<lambda>c. command_ok c \<and> extra c" command_left 8
  by unfold_locales (use transfer_ok reset_ok left_most in auto)

subsection \<open>The two classes\<close>

lemma halfwords_analog: "ac_digital_mode_extra_halfwords c = 0 \<Longrightarrow> analog_GetResponseNumHalfwords c \<in> {1, 3}"
  by (simp add: analog_GetResponseNumHalfwords_def)

lemma ac_more:
  fixes c d :: "'a analog_controller_scheme"
  assumes "command_controller.more c = command_controller.more d"
  shows "ac_digital_mode_extra_halfwords c = ac_digital_mode_extra_halfwords d"
  using assms by (cases c; cases d; simp)

interpretation analog: command_set "\<lambda>b c. command_Ready (analog_GetResponseNumHalfwords c) (analog_GetIDByte c) b c"
  analog_body analog_SetAnalogMode "\<lambda>c. ac_digital_mode_extra_halfwords c = 0"
proof
  show "command_shape (analog_body cmd b c) = command_shape c" for cmd b and c :: "'a analog_controller_scheme"
    by (cases cmd) (simp_all add: analog_cmd_SetAnalogMode_def analog_SetAnalogMode_def)
  show "command_shape (analog_SetAnalogMode m c) = command_shape c" for m and c :: "'a analog_controller_scheme"
    by (simp add: analog_SetAnalogMode_def)
  show "command_started c d" if "ac_digital_mode_extra_halfwords c = 0" "command_ok c"
    "command_Ready (analog_GetResponseNumHalfwords c) (analog_GetIDByte c) b c = Some d"
    for c d :: "'a analog_controller_scheme" and b
    by (rule command_Ready_started [OF that(3) halfwords_analog [OF that(1)]]) (use that(2) in \<open>simp_all add: command_ok_def\<close>)
  show "(ac_digital_mode_extra_halfwords c = 0) = (ac_digital_mode_extra_halfwords d = 0)"
    if "command_controller.more c = command_controller.more d" for c d :: "'a analog_controller_scheme"
    using ac_more [OF that] by simp
qed

interpretation negcon_rumble: command_set
  "\<lambda>b c. command_Ready (negcon_rumble_GetResponseNumHalfwords c) (negcon_rumble_GetIDByte c) b c"
  negcon_rumble_body negcon_rumble_SetAnalogMode "\<lambda>_. True"
proof
  show "command_shape (negcon_rumble_body cmd b c) = command_shape c" for cmd b c
    by (cases cmd) (simp_all add: negcon_rumble_cmd_SetAnalogMode_def)
  show "command_shape (negcon_rumble_SetAnalogMode m c) = command_shape c" for m c
    by (simp add: negcon_rumble_SetAnalogMode_def)
  show "command_started c d" if "command_ok c"
    "command_Ready (negcon_rumble_GetResponseNumHalfwords c) (negcon_rumble_GetIDByte c) b c = Some d" for c d b
    by (rule command_Ready_started [OF that(2)])
      (use that(1) in \<open>simp_all add: command_ok_def negcon_rumble_GetResponseNumHalfwords_def\<close>)
qed simp

definition analog_ok :: "'a analog_controller_scheme \<Rightarrow> bool" where
  "analog_ok c \<longleftrightarrow> command_ok c \<and> ac_digital_mode_extra_halfwords c = 0"

lemmas analog_device = analog.device.serial_device_axioms [folded analog_Transfer_def analog_ResetTransferState_def]
lemmas negcon_rumble_device =
  negcon_rumble.device.serial_device_axioms [folded negcon_rumble_Transfer_def negcon_rumble_ResetTransferState_def, simplified]

lemma analog_new_ok: "analog_ok analog_new" "command_ok negcon_rumble_new"
  by (simp_all add: analog_ok_def analog_new_def analog_Reset_def negcon_rumble_new_def negcon_rumble_Reset_def
      ResetRumbleConfig_def SetMotorState_def command_ok_def)

end
