(* ===== verification/PadState.thy ===== *)
theory PadState
  imports MemoryCardSpec AnalogSpec
begin

text \<open>
  The devices behind the controller ports: the controllers as one type with the virtual functions
  of \<open>Controller\<close> (\<open>src/core/controller.cpp\<close>) dispatched on it, and the state of the pads
  (\<open>Pad\<close> of \<open>src/core/pad.h\<close> and \<open>Multitap\<close> of \<open>src/core/multitap.h\<close>).
\<close>

subsection \<open>Controllers\<close>

datatype controller =
    DigitalController digital_controller
  | AnalogController analog_controller
  | AnalogJoystick joystick_controller
  | NamcoGunCon guncon_controller
  | PlayStationMouse mouse_controller
  | NeGcon negcon_controller
  | NeGconRumble negcon_rumble

text \<open>\<open>ControllerType\<close>, as the number it is saved as; 0 is \<open>None\<close>.\<close>

fun GetType :: "controller \<Rightarrow> u32" where
  "GetType (DigitalController c) = 1"
| "GetType (AnalogController c) = 2"
| "GetType (AnalogJoystick c) = 3"
| "GetType (NamcoGunCon c) = 4"
| "GetType (PlayStationMouse c) = 5"
| "GetType (NeGcon c) = 6"
| "GetType (NeGconRumble c) = 7"

definition Controller_Create :: "host_input \<Rightarrow> u32 \<Rightarrow> controller option" where
  "Controller_Create h type =
     (if type = 1 then Some (DigitalController digital_new)
      else if type = 2 then Some (AnalogController analog_new)
      else if type = 3 then Some (AnalogJoystick joystick_new)
      else if type = 4 then Some (NamcoGunCon guncon_new)
      else if type = 5 then Some (PlayStationMouse (mouse_new h))
      else if type = 6 then Some (NeGcon negcon_new)
      else if type = 7 then Some (NeGconRumble negcon_rumble_new)
      else None)"

fun controller_Reset :: "controller \<Rightarrow> controller" where
  "controller_Reset (DigitalController c) = DigitalController (digital_Reset c)"
| "controller_Reset (AnalogController c) = AnalogController (analog_Reset c)"
| "controller_Reset (AnalogJoystick c) = AnalogJoystick (joystick_Reset c)"
| "controller_Reset (NamcoGunCon c) = NamcoGunCon (guncon_Reset c)"
| "controller_Reset (PlayStationMouse c) = PlayStationMouse (mouse_Reset c)"
| "controller_Reset (NeGcon c) = NeGcon (negcon_Reset c)"
| "controller_Reset (NeGconRumble c) = NeGconRumble (negcon_rumble_Reset c)"

fun controller_ResetTransferState :: "controller \<Rightarrow> controller" where
  "controller_ResetTransferState (DigitalController c) = DigitalController (digital_ResetTransferState c)"
| "controller_ResetTransferState (AnalogController c) = AnalogController (analog_ResetTransferState c)"
| "controller_ResetTransferState (AnalogJoystick c) = AnalogJoystick (joystick_ResetTransferState c)"
| "controller_ResetTransferState (NamcoGunCon c) = NamcoGunCon (guncon_ResetTransferState c)"
| "controller_ResetTransferState (PlayStationMouse c) = PlayStationMouse (mouse_ResetTransferState c)"
| "controller_ResetTransferState (NeGcon c) = NeGcon (negcon_ResetTransferState c)"
| "controller_ResetTransferState (NeGconRumble c) = NeGconRumble (negcon_rumble_ResetTransferState c)"

definition map_reply :: "('d \<Rightarrow> 'e) \<Rightarrow> bool \<times> u8 \<times> 'd \<Rightarrow> bool \<times> u8 \<times> 'e" where
  "map_reply f r = (case r of (ack, data_out, d) \<Rightarrow> (ack, data_out, f d))"

fun controller_Transfer :: "host_input \<Rightarrow> u8 \<Rightarrow> u8 \<Rightarrow> controller \<Rightarrow> bool \<times> u8 \<times> controller" where
  "controller_Transfer h b out (DigitalController c) = map_reply DigitalController (digital_Transfer b out c)"
| "controller_Transfer h b out (AnalogController c) = map_reply AnalogController (analog_Transfer b out c)"
| "controller_Transfer h b out (AnalogJoystick c) = map_reply AnalogJoystick (joystick_Transfer b out c)"
| "controller_Transfer h b out (NamcoGunCon c) = map_reply NamcoGunCon (guncon_Transfer h b out c)"
| "controller_Transfer h b out (PlayStationMouse c) = map_reply PlayStationMouse (mouse_Transfer h b out c)"
| "controller_Transfer h b out (NeGcon c) = map_reply NeGcon (negcon_Transfer b out c)"
| "controller_Transfer h b out (NeGconRumble c) = map_reply NeGconRumble (negcon_rumble_Transfer b out c)"

definition map_flag :: "('d \<Rightarrow> 'e) \<Rightarrow> bool \<times> 'd \<Rightarrow> bool \<times> 'e" where
  "map_flag f r = (case r of (flag, d) \<Rightarrow> (flag, f d))"

fun controller_SetButtonState :: "int \<Rightarrow> bool \<Rightarrow> controller \<Rightarrow> bool \<times> controller" where
  "controller_SetButtonState k p (DigitalController c) = map_flag DigitalController (digital_SetButtonState k p c)"
| "controller_SetButtonState k p (AnalogController c) = map_flag AnalogController (analog_SetButtonState k p c)"
| "controller_SetButtonState k p (AnalogJoystick c) = map_flag AnalogJoystick (joystick_SetButtonState k p c)"
| "controller_SetButtonState k p (NamcoGunCon c) = map_flag NamcoGunCon (guncon_SetButtonState k p c)"
| "controller_SetButtonState k p (PlayStationMouse c) = map_flag PlayStationMouse (mouse_SetButtonState k p c)"
| "controller_SetButtonState k p (NeGcon c) = map_flag NeGcon (negcon_SetButtonState k p c)"
| "controller_SetButtonState k p (NeGconRumble c) = map_flag NeGconRumble (negcon_rumble_SetButtonState k p c)"

text \<open>The base class answers 0 for the classes that do not report their buttons, and nothing for those without axes.\<close>

fun controller_GetButtonStateBits :: "controller \<Rightarrow> u32" where
  "controller_GetButtonStateBits (DigitalController c) = digital_GetButtonStateBits c"
| "controller_GetButtonStateBits (AnalogController c) = command_GetButtonStateBits c"
| "controller_GetButtonStateBits (AnalogJoystick c) = joystick_GetButtonStateBits c"
| "controller_GetButtonStateBits (NeGcon c) = negcon_GetButtonStateBits c"
| "controller_GetButtonStateBits (NeGconRumble c) = command_GetButtonStateBits c"
| "controller_GetButtonStateBits _ = 0"

fun controller_GetAnalogInputBytes :: "controller \<Rightarrow> u32 option" where
  "controller_GetAnalogInputBytes (AnalogController c) = Some (analog_GetAnalogInputBytes c)"
| "controller_GetAnalogInputBytes (AnalogJoystick c) = Some (joystick_GetAnalogInputBytes c)"
| "controller_GetAnalogInputBytes (NeGcon c) = Some (negcon_GetAnalogInputBytes c)"
| "controller_GetAnalogInputBytes (NeGconRumble c) = Some (negcon_rumble_GetAnalogInputBytes c)"
| "controller_GetAnalogInputBytes _ = None"

definition map_saved :: "('d \<Rightarrow> 'e) \<Rightarrow> bool \<times> 'd \<times> state_wrapper \<Rightarrow> bool \<times> 'e \<times> state_wrapper" where
  "map_saved f r = (case r of (ok, d, sw) \<Rightarrow> (ok, f d, sw))"

fun controller_DoState :: "bool \<Rightarrow> controller \<Rightarrow> state_wrapper \<Rightarrow> bool \<times> controller \<times> state_wrapper" where
  "controller_DoState a (DigitalController c) sw = map_saved DigitalController (digital_DoState a c sw)"
| "controller_DoState a (AnalogController c) sw = map_saved AnalogController (analog_DoState a c sw)"
| "controller_DoState a (AnalogJoystick c) sw = map_saved AnalogJoystick (joystick_DoState a c sw)"
| "controller_DoState a (NamcoGunCon c) sw = map_saved NamcoGunCon (guncon_DoState a c sw)"
| "controller_DoState a (PlayStationMouse c) sw = map_saved PlayStationMouse (mouse_DoState a c sw)"
| "controller_DoState a (NeGcon c) sw = map_saved NeGcon (negcon_DoState a c sw)"
| "controller_DoState a (NeGconRumble c) sw = map_saved NeGconRumble (negcon_rumble_DoState a c sw)"

subsection \<open>The state of the ports\<close>

datatype multitap_TransferState = TapIdle | TapMemoryCard | TapControllerCommand | TapSingleController | TapAllControllers
  | TapUnnamed u8

record multitap =
  tap_transfer_state :: multitap_TransferState
  tap_selected_slot :: u8
  tap_controller_transfer_step :: u32
  tap_invalid_transfer_all_command :: bool
  tap_transfer_all_controllers :: bool
  tap_current_controller_done :: bool
  tap_transfer_buffer :: "u8 list"
  tap_base_index :: nat
  tap_enabled :: bool

datatype pad_State = PadIdle | PadTransmitting | PadWaitingForACK | PadUnnamed u32
datatype pad_ActiveDevice = ActiveNone | ActiveController | ActiveMemoryCard | ActiveMultitap

record pad_state = host_state +
  m_controllers :: "controller option list"
  m_memory_cards :: "memory_card option list"
  m_multitaps :: "multitap list"
  m_transfer_event :: nat
  m_pad_state :: pad_State
  m_JOY_CTRL :: u16
  m_JOY_STAT :: u32
  m_JOY_MODE :: u16
  m_JOY_BAUD :: u16
  m_active_device :: pad_ActiveDevice
  m_receive_buffer :: u8
  m_transmit_buffer :: u8
  m_transmit_value :: u8
  m_receive_buffer_full :: bool
  m_transmit_buffer_full :: bool

definition NUM_CONTROLLER_AND_CARD_PORTS :: nat where "NUM_CONTROLLER_AND_CARD_PORTS = 8"
definition NUM_MULTITAPS :: nat where "NUM_MULTITAPS = 2"

definition set_controller :: "nat \<Rightarrow> controller option \<Rightarrow> 'a pad_state_scheme \<Rightarrow> 'a pad_state_scheme" where
  "set_controller i c s = s\<lparr>m_controllers := (m_controllers s)[i := c]\<rparr>"

definition set_card :: "nat \<Rightarrow> memory_card option \<Rightarrow> 'a pad_state_scheme \<Rightarrow> 'a pad_state_scheme" where
  "set_card i c s = s\<lparr>m_memory_cards := (m_memory_cards s)[i := c]\<rparr>"

definition upd_tap :: "nat \<Rightarrow> (multitap \<Rightarrow> multitap) \<Rightarrow> 'a pad_state_scheme \<Rightarrow> 'a pad_state_scheme" where
  "upd_tap i f s = s\<lparr>m_multitaps := modify_at i f (m_multitaps s)\<rparr>"

text \<open>\<open>Controller::Transfer\<close> and \<open>MemoryCard::Transfer\<close> on a device of the ports; a slot without one gives \<open>None\<close>.\<close>

definition port_controller_Transfer :: "nat \<Rightarrow> u8 \<Rightarrow> u8 \<Rightarrow> 'a pad_state_scheme \<Rightarrow> (bool \<times> u8 \<times> 'a pad_state_scheme) option" where
  "port_controller_Transfer i b out s =
     map_option (\<lambda>c. map_reply (\<lambda>d. set_controller i (Some d) s) (controller_Transfer (g_host_input s) b out c))
       (m_controllers s ! i)"

definition port_card_Transfer :: "nat \<Rightarrow> u8 \<Rightarrow> u8 \<Rightarrow> 'a pad_state_scheme \<Rightarrow> (bool \<times> u8 \<times> 'a pad_state_scheme) option" where
  "port_card_Transfer i b out s =
     map_option (\<lambda>c. let ((ack, data_out, d), s1) = card_Transfer b out c s in (ack, data_out, set_card i (Some d) s1))
       (m_memory_cards s ! i)"

end
