(* ===== verification/Multitap.thy ===== *)
theory Multitap
  imports PadState
begin

text \<open>
  The multitap (\<open>src/core/multitap.cpp\<close>): four controllers and four memory cards behind one port,
  addressed one at a time by the first byte, or all four controllers polled at once through a
  32-byte buffer, of which a transfer returns what the transfer before it has collected.

  The functions work on the whole of the pads' state, since a multitap reaches its devices through
  \<open>g_pad\<close>; \<open>t\<close> is the number of the multitap.
\<close>

definition tap_Reset :: "multitap \<Rightarrow> multitap" where
  "tap_Reset m =
     m\<lparr>tap_transfer_state := TapIdle, tap_selected_slot := 0, tap_controller_transfer_step := 0,
       tap_transfer_all_controllers := False, tap_invalid_transfer_all_command := False,
       tap_current_controller_done := False, tap_transfer_buffer := replicate 32 0xFF\<rparr>"

definition tap_new :: multitap where
  "tap_new = tap_Reset
     \<lparr>tap_transfer_state = TapIdle, tap_selected_slot = 0, tap_controller_transfer_step = 0,
      tap_invalid_transfer_all_command = False, tap_transfer_all_controllers = False,
      tap_current_controller_done = False, tap_transfer_buffer = replicate 32 0, tap_base_index = 0,
      tap_enabled = False\<rparr>"

definition SetEnable :: "bool \<Rightarrow> nat \<Rightarrow> multitap \<Rightarrow> multitap" where
  "SetEnable enable base_index m =
     (if tap_enabled m \<noteq> enable \<or> tap_base_index m \<noteq> base_index
      then tap_Reset (m\<lparr>tap_enabled := enable, tap_base_index := base_index\<rparr>) else m)"

datatype multitap_mode = TapsDisabled | Port1Only | Port2Only | BothPorts

fun UpdateMultitaps :: "multitap_mode \<Rightarrow> 'a pad_state_scheme \<Rightarrow> 'a pad_state_scheme" where
  "UpdateMultitaps TapsDisabled s = upd_tap 1 (SetEnable False 0) (upd_tap 0 (SetEnable False 0) s)"
| "UpdateMultitaps Port1Only s = upd_tap 1 (SetEnable False 0) (upd_tap 0 (SetEnable True 0) s)"
| "UpdateMultitaps Port2Only s = upd_tap 1 (SetEnable True 1) (upd_tap 0 (SetEnable False 0) s)"
| "UpdateMultitaps BothPorts s = upd_tap 1 (SetEnable True 4) (upd_tap 0 (SetEnable True 0) s)"

definition tap_ResetTransferState :: "multitap \<Rightarrow> multitap" where
  "tap_ResetTransferState m =
     m\<lparr>tap_transfer_state := TapIdle, tap_selected_slot := 0, tap_controller_transfer_step := 0,
       tap_current_controller_done := False\<rparr>"

definition IsReadingMemoryCard :: "multitap \<Rightarrow> bool" where
  "IsReadingMemoryCard m \<longleftrightarrow> tap_enabled m \<and> tap_transfer_state m = TapMemoryCard"

definition GetMultitapIDByte :: u8 where "GetMultitapIDByte = 0x80"
definition GetStatusByte :: u8 where "GetStatusByte = 0x5A"

subsection \<open>One byte to a device\<close>

definition tap_TransferController :: "nat \<Rightarrow> nat \<Rightarrow> u8 \<Rightarrow> u8 \<Rightarrow> 'a pad_state_scheme \<Rightarrow> bool \<times> u8 \<times> 'a pad_state_scheme" where
  "tap_TransferController t slot data_in out s =
     (case port_controller_Transfer (tap_base_index (m_multitaps s ! t) + slot) data_in out s of
        Some r \<Rightarrow> r
      | None \<Rightarrow> (False, 0xFF, s))"

definition tap_TransferMemoryCard :: "nat \<Rightarrow> nat \<Rightarrow> u8 \<Rightarrow> u8 \<Rightarrow> 'a pad_state_scheme \<Rightarrow> bool \<times> u8 \<times> 'a pad_state_scheme" where
  "tap_TransferMemoryCard t slot data_in out s =
     (case port_card_Transfer (tap_base_index (m_multitaps s ! t) + slot) data_in out s of
        Some r \<Rightarrow> r
      | None \<Rightarrow> (False, 0xFF, s))"

subsection \<open>The state machine\<close>

abbreviation tap_selected :: "nat \<Rightarrow> 'a pad_state_scheme \<Rightarrow> nat" where
  "tap_selected t s \<equiv> unat (tap_selected_slot (m_multitaps s ! t))"

text \<open>The access byte for the remaining controllers, when all are polled; their replies are dropped.\<close>

definition access_others :: "nat \<Rightarrow> 'a pad_state_scheme \<Rightarrow> 'a pad_state_scheme" where
  "access_others t s =
     fold (\<lambda>i s'. if i \<noteq> tap_selected t s' then snd (snd (tap_TransferController t i 0x01 0 s')) else s') [0..<4] s"

definition tap_Idle :: "nat \<Rightarrow> u8 \<Rightarrow> u8 \<Rightarrow> 'a pad_state_scheme \<Rightarrow> bool \<times> u8 \<times> 'a pad_state_scheme" where
  "tap_Idle t data_in out s =
     (if data_in \<in> {0x81, 0x82, 0x83, 0x84}
      then let s1 = upd_tap t (\<lambda>m. m\<lparr>tap_selected_slot := (data_in AND 0x0F) - 1\<rparr>) s;
               (ack, r, s2) = tap_TransferMemoryCard t (tap_selected t s1) 0x81 out s1
           in (ack, r, if ack then upd_tap t (\<lambda>m. m\<lparr>tap_transfer_state := TapMemoryCard\<rparr>) s2 else s2)
      else if data_in \<in> {0x01, 0x02, 0x03, 0x04}
      then let s1 = upd_tap t (\<lambda>m. m\<lparr>tap_selected_slot := data_in - 1\<rparr>) s;
               (ack, r, s2) = tap_TransferController t (tap_selected t s1) 0x01 out s1
           in if ack
              then let s3 = upd_tap t (\<lambda>m. m\<lparr>tap_transfer_state := TapControllerCommand\<rparr>) s2
                   in (ack, r, if tap_transfer_all_controllers (m_multitaps s3 ! t) then access_others t s3 else s3)
              else (ack, r, s2)
      else (False, 0xFF, s))"

definition tap_Card :: "nat \<Rightarrow> u8 \<Rightarrow> u8 \<Rightarrow> 'a pad_state_scheme \<Rightarrow> bool \<times> u8 \<times> 'a pad_state_scheme" where
  "tap_Card t data_in out s =
     (let (ack, r, s1) = tap_TransferMemoryCard t (tap_selected t s) data_in out s
      in (ack, r, if ack then s1 else upd_tap t (\<lambda>m. m\<lparr>tap_transfer_state := TapIdle\<rparr>) s1))"

definition tap_Single :: "nat \<Rightarrow> u8 \<Rightarrow> u8 \<Rightarrow> 'a pad_state_scheme \<Rightarrow> bool \<times> u8 \<times> 'a pad_state_scheme" where
  "tap_Single t data_in out s =
     (let (ack, r, s1) = tap_TransferController t (tap_selected t s) data_in out s
      in (ack, r, if ack then s1 else upd_tap t (\<lambda>m. m\<lparr>tap_transfer_state := TapIdle\<rparr>) s1))"

definition tap_Command :: "nat \<Rightarrow> u8 \<Rightarrow> u8 \<Rightarrow> 'a pad_state_scheme \<Rightarrow> bool \<times> u8 \<times> 'a pad_state_scheme" where
  "tap_Command t data_in out s =
     (let m = m_multitaps s ! t
      in if tap_controller_transfer_step m = 0
         then let (ack, r, s1) =
                    (if tap_transfer_all_controllers m
                     then (True, GetMultitapIDByte,
                           upd_tap t (\<lambda>m. m\<lparr>tap_invalid_transfer_all_command := (data_in \<noteq> 0x42)\<rparr>) s)
                     else tap_TransferController t (tap_selected t s) data_in out s)
              in (ack, r, upd_tap t (\<lambda>m. m\<lparr>tap_controller_transfer_step := tap_controller_transfer_step m + 1\<rparr>) s1)
         else if tap_controller_transfer_step m = 1
         then let (ack, r, s1) =
                    (if tap_transfer_all_controllers m
                     then (\<not> tap_invalid_transfer_all_command m, GetStatusByte,
                           upd_tap t (\<lambda>m. m\<lparr>tap_selected_slot := 0, tap_transfer_state := TapAllControllers\<rparr>) s)
                     else let (ack, r, s1) = tap_TransferController t (tap_selected t s) 0x00 out s
                          in (ack, r, upd_tap t (\<lambda>m. m\<lparr>tap_transfer_state := TapSingleController\<rparr>) s1))
              in (ack, r, upd_tap t (\<lambda>m. m\<lparr>tap_transfer_all_controllers := bit data_in 0,
                                           tap_controller_transfer_step := 0\<rparr>) s1)
         else (False, out, s))"

text \<open>
  The buffer has 32 bytes and the step is not checked against that; \<open>tap_All\<close> describes the code
  for the steps below 32.
\<close>

definition tap_All :: "nat \<Rightarrow> u8 \<Rightarrow> 'a pad_state_scheme \<Rightarrow> bool \<times> u8 \<times> 'a pad_state_scheme" where
  "tap_All t data_in s =
     (let m = m_multitaps s ! t;
          step = unat (tap_controller_transfer_step m);
          r = tap_transfer_buffer m ! step;
          s1 = (if tap_current_controller_done m
                then upd_tap t (\<lambda>m. m\<lparr>tap_transfer_buffer := (tap_transfer_buffer m)[step := 0xFF]\<rparr>) s
                else let (ack, v, s') = tap_TransferController t (tap_selected t s) data_in r s
                     in upd_tap t (\<lambda>m. m\<lparr>tap_transfer_buffer := (tap_transfer_buffer m)[step := v],
                                        tap_current_controller_done := \<not> ack\<rparr>) s');
          s2 = upd_tap t (\<lambda>m. m\<lparr>tap_controller_transfer_step := tap_controller_transfer_step m + 1\<rparr>) s1
      in if tap_controller_transfer_step (m_multitaps s2 ! t) mod 8 = 0
         then let s3 = upd_tap t (\<lambda>m. m\<lparr>tap_current_controller_done := False,
                                        tap_selected_slot := (tap_selected_slot m + 1) mod 4\<rparr>) s2
              in (tap_selected_slot (m_multitaps s3 ! t) \<noteq> 0, r, s3)
         else (True, r, s2))"

definition tap_Transfer :: "nat \<Rightarrow> u8 \<Rightarrow> u8 \<Rightarrow> 'a pad_state_scheme \<Rightarrow> bool \<times> u8 \<times> 'a pad_state_scheme" where
  "tap_Transfer t data_in out s =
     (case tap_transfer_state (m_multitaps s ! t) of
        TapIdle \<Rightarrow> tap_Idle t data_in out s
      | TapMemoryCard \<Rightarrow> tap_Card t data_in out s
      | TapControllerCommand \<Rightarrow> tap_Command t data_in out s
      | TapSingleController \<Rightarrow> tap_Single t data_in out s
      | TapAllControllers \<Rightarrow> tap_All t data_in s
      | TapUnnamed w \<Rightarrow> (False, out, s))"

subsection \<open>Save states\<close>

definition tap_names :: "multitap_TransferState list" where
  "tap_names = [TapIdle, TapMemoryCard, TapControllerCommand, TapSingleController, TapAllControllers]"

fun tap_code :: "multitap_TransferState \<Rightarrow> u8" where
  "tap_code (TapUnnamed w) = w"
| "tap_code e = of_nat (enum_code tap_names e)"

definition tap_DoState :: "multitap \<Rightarrow> state_wrapper \<Rightarrow> bool \<times> multitap \<times> state_wrapper" where
  "tap_DoState m sw =
     (let (t, sw1) = Do_enum tap_code (enum_of tap_names TapUnnamed) (tap_transfer_state m) sw;
          (sl, sw2) = Do_word (tap_selected_slot m) sw1;
          (st, sw3) = Do_word (tap_controller_transfer_step m) sw2;
          (iv, sw4) = Do_bool (tap_invalid_transfer_all_command m) sw3;
          (al, sw5) = Do_bool (tap_transfer_all_controllers m) sw4;
          (dn, sw6) = Do_bool (tap_current_controller_done m) sw5;
          (bf, sw7) = DoArray Do_word (tap_transfer_buffer m) sw6
      in (\<not> sw_error sw7,
          m\<lparr>tap_transfer_state := t, tap_selected_slot := sl, tap_controller_transfer_step := st,
            tap_invalid_transfer_all_command := iv, tap_transfer_all_controllers := al,
            tap_current_controller_done := dn, tap_transfer_buffer := bf\<rparr>, sw7))"

end
