(* ===== verification/Pad.thy ===== *)
theory Pad
  imports Multitap
begin

text \<open>
  The controller ports (\<open>src/core/pad.cpp\<close>): the \<open>JOY_*\<close> registers, the serial transfer of a byte
  as a timing event, the acknowledge of the device as a second one, and the choice of the device a
  byte goes to. The event's callback is \<open>TransferEvent\<close>; the register read of \<open>JOY_DATA\<close> and
  \<open>JOY_STAT\<close> runs it early.
\<close>

subsection \<open>Registers\<close>

text \<open>
  The fields of the unions \<open>JOY_CTRL\<close> and \<open>JOY_STAT\<close>: \<open>TXEN\<close> 0, \<open>SELECT\<close> 1, \<open>RXEN\<close> 2, \<open>ACK\<close> 4,
  \<open>RESET\<close> 6, \<open>ACKINTEN\<close> 12, \<open>SLOT\<close> 13; \<open>TXRDY\<close> 0, \<open>RXFIFONEMPTY\<close> 1, \<open>TXDONE\<close> 2, \<open>ACKINPUT\<close> 7, \<open>INTR\<close> 9.
\<close>

definition JOY_SLOT :: "'a pad_state_scheme \<Rightarrow> nat" where
  "JOY_SLOT s = unat (bf_get 13 1 (m_JOY_CTRL s))"

definition IsTransmitting :: "'a pad_state_scheme \<Rightarrow> bool" where
  "IsTransmitting s \<longleftrightarrow> m_pad_state s \<noteq> PadIdle"

definition CanTransfer :: "'a pad_state_scheme \<Rightarrow> bool" where
  "CanTransfer s \<longleftrightarrow> m_transmit_buffer_full s \<and> bit (m_JOY_CTRL s) 1 \<and> bit (m_JOY_CTRL s) 0"

definition GetTransferTicks :: "'a pad_state_scheme \<Rightarrow> tick_count" where
  "GetTransferTicks s = uint (m_JOY_BAUD s) * 8"

definition GetACKTicks :: "bool \<Rightarrow> tick_count" where
  "GetACKTicks memory_card = (if memory_card then 170 else 450)"

definition UpdateJoyStat :: "'a pad_state_scheme \<Rightarrow> 'a pad_state_scheme" where
  "UpdateJoyStat s =
     s\<lparr>m_JOY_STAT :=
         assign_bit 0 (\<not> m_transmit_buffer_full s)
           (assign_bit 2 (\<not> m_transmit_buffer_full s \<and> m_pad_state s \<noteq> PadTransmitting)
             (assign_bit 1 (m_receive_buffer_full s) (m_JOY_STAT s)))\<rparr>"

subsection \<open>Transfers\<close>

definition EndTransfer :: "'a pad_state_scheme \<Rightarrow> 'a pad_state_scheme" where
  "EndTransfer s = Deactivate (m_transfer_event s) (s\<lparr>m_pad_state := PadIdle\<rparr>)"

definition BeginTransfer :: "'a pad_state_scheme \<Rightarrow> 'a pad_state_scheme" where
  "BeginTransfer s =
     (let s1 = s\<lparr>m_JOY_CTRL := assign_bit 2 True (m_JOY_CTRL s), m_transmit_value := m_transmit_buffer s,
                 m_transmit_buffer_full := False, m_pad_state := PadTransmitting\<rparr>
      in SetPeriodAndSchedule (m_transfer_event s1) (GetTransferTicks s1) s1)"

definition ResetDeviceTransferState :: "'a pad_state_scheme \<Rightarrow> 'a pad_state_scheme" where
  "ResetDeviceTransferState s =
     s\<lparr>m_controllers := map (map_option controller_ResetTransferState) (m_controllers s),
       m_memory_cards := map (map_option card_ResetTransferState) (m_memory_cards s),
       m_multitaps := map tap_ResetTransferState (m_multitaps s),
       m_active_device := ActiveNone\<rparr>"

definition pad_SoftReset :: "'a pad_state_scheme \<Rightarrow> 'a pad_state_scheme" where
  "pad_SoftReset s0 =
     (let s = (if IsTransmitting s0 then EndTransfer s0 else s0)
      in UpdateJoyStat (ResetDeviceTransferState
           (s\<lparr>m_JOY_CTRL := 0, m_JOY_STAT := 0, m_JOY_MODE := 0, m_receive_buffer := 0,
              m_receive_buffer_full := False, m_transmit_buffer := 0, m_transmit_buffer_full := False\<rparr>)))"

text \<open>The card in a slot is reset after the controller, and saves its image if it has changed.\<close>

definition reset_slot :: "nat \<Rightarrow> 'a pad_state_scheme \<Rightarrow> 'a pad_state_scheme" where
  "reset_slot i s =
     (let s1 = set_controller i (map_option controller_Reset (m_controllers s ! i)) s
      in case m_memory_cards s1 ! i of
           Some c \<Rightarrow> (let (d, s2) = card_Reset c s1 in set_card i (Some d) s2)
         | None \<Rightarrow> s1)"

definition pad_Reset :: "'a pad_state_scheme \<Rightarrow> 'a pad_state_scheme" where
  "pad_Reset s =
     (let s1 = fold reset_slot [0..<NUM_CONTROLLER_AND_CARD_PORTS] (pad_SoftReset s)
      in s1\<lparr>m_multitaps := map tap_Reset (m_multitaps s1)\<rparr>)"

definition pad_Initialize :: "'a pad_state_scheme \<Rightarrow> 'a pad_state_scheme" where
  "pad_Initialize s =
     pad_Reset (set_node (m_transfer_event s) (\<lambda>_. te_construct ''Pad Serial Transfer'' 1 1) s)"

text \<open>The device a byte goes to, and its reply; without a device \<open>data_in\<close> stays 0xFF.\<close>

definition device_index :: "'a pad_state_scheme \<Rightarrow> nat" where
  "device_index s = (if tap_enabled (m_multitaps s ! 0) then 4 else JOY_SLOT s)"

definition to_controller :: "u8 \<Rightarrow> 'a pad_state_scheme \<Rightarrow> bool \<times> u8 \<times> 'a pad_state_scheme" where
  "to_controller data_out s =
     (case port_controller_Transfer (device_index s) data_out 0xFF s of Some r \<Rightarrow> r | None \<Rightarrow> (False, 0xFF, s))"

definition to_card :: "u8 \<Rightarrow> u8 \<Rightarrow> 'a pad_state_scheme \<Rightarrow> bool \<times> u8 \<times> 'a pad_state_scheme" where
  "to_card data_out data_in s =
     (case port_card_Transfer (device_index s) data_out data_in s of Some r \<Rightarrow> r | None \<Rightarrow> (False, data_in, s))"

definition to_multitap :: "u8 \<Rightarrow> 'a pad_state_scheme \<Rightarrow> bool \<times> u8 \<times> 'a pad_state_scheme" where
  "to_multitap data_out s =
     (if tap_enabled (m_multitaps s ! JOY_SLOT s) then tap_Transfer (JOY_SLOT s) data_out 0xFF s
      else (False, 0xFF, s))"

definition to_any :: "u8 \<Rightarrow> 'a pad_state_scheme \<Rightarrow> bool \<times> u8 \<times> 'a pad_state_scheme" where
  "to_any data_out s =
     (if tap_enabled (m_multitaps s ! JOY_SLOT s)
      then let (ack, data_in, s1) = tap_Transfer (JOY_SLOT s) data_out 0xFF s
           in (ack, data_in, if ack then s1\<lparr>m_active_device := ActiveMultitap\<rparr> else s1)
      else let (ack, data_in, s1) = to_controller data_out s
           in if ack then (ack, data_in, s1\<lparr>m_active_device := ActiveController\<rparr>)
              else let (ack2, data_in2, s2) = to_card data_out data_in s1
                   in (ack2, data_in2, if ack2 then s2\<lparr>m_active_device := ActiveMemoryCard\<rparr> else s2))"

definition device_transfer :: "u8 \<Rightarrow> 'a pad_state_scheme \<Rightarrow> bool \<times> u8 \<times> 'a pad_state_scheme" where
  "device_transfer data_out s =
     (case m_active_device s of
        ActiveNone \<Rightarrow> to_any data_out s
      | ActiveController \<Rightarrow> to_controller data_out s
      | ActiveMemoryCard \<Rightarrow> to_card data_out 0xFF s
      | ActiveMultitap \<Rightarrow> to_multitap data_out s)"

definition memcard_transfer :: "'a pad_state_scheme \<Rightarrow> bool" where
  "memcard_transfer s \<longleftrightarrow> m_active_device s = ActiveMemoryCard \<or>
     (m_active_device s = ActiveMultitap \<and> IsReadingMemoryCard (m_multitaps s ! JOY_SLOT s))"

definition DoTransfer :: "tick_count \<Rightarrow> 'a pad_state_scheme \<Rightarrow> 'a pad_state_scheme" where
  "DoTransfer ticks_late s0 =
     (let s = s0\<lparr>m_JOY_CTRL := assign_bit 2 True (m_JOY_CTRL s0)\<rparr>;
          (ack, data_in, s1) = device_transfer (m_transmit_value s) s;
          s2 = s1\<lparr>m_receive_buffer := data_in, m_receive_buffer_full := True\<rparr>
      in UpdateJoyStat
           (if \<not> ack then EndTransfer (s2\<lparr>m_active_device := ActiveNone\<rparr>)
            else SetPeriodAndSchedule (m_transfer_event s2) (GetACKTicks (memcard_transfer s2))
                   (s2\<lparr>m_pad_state := PadWaitingForACK\<rparr>)))"

definition DoACK :: "'a pad_state_scheme \<Rightarrow> 'a pad_state_scheme" where
  "DoACK s =
     (let s1 = s\<lparr>m_JOY_STAT := assign_bit 7 True (m_JOY_STAT s)\<rparr>;
          s2 = (if bit (m_JOY_CTRL s1) 12
                then InterruptRequest (irq_number IRQ_IRQ7) (s1\<lparr>m_JOY_STAT := assign_bit 9 True (m_JOY_STAT s1)\<rparr>)
                else s1);
          s3 = UpdateJoyStat (EndTransfer s2)
      in if CanTransfer s3 then BeginTransfer s3 else s3)"

definition TransferEvent :: "tick_count \<Rightarrow> 'a pad_state_scheme \<Rightarrow> 'a pad_state_scheme" where
  "TransferEvent ticks_late s = (if m_pad_state s = PadTransmitting then DoTransfer ticks_late s else DoACK s)"

definition transfer_callback :: "tick_count \<Rightarrow> tick_count \<Rightarrow> 'a pad_state_scheme \<Rightarrow> 'a pad_state_scheme" where
  "transfer_callback ticks ticks_late = TransferEvent ticks_late"

subsection \<open>Register accesses\<close>

definition InvokeTransferEarly :: "'a pad_state_scheme \<Rightarrow> 'a pad_state_scheme" where
  "InvokeTransferEarly s =
     (if IsTransmitting s then InvokeEarly transfer_callback (m_transfer_event s) False s else s)"

definition four_times :: "u8 \<Rightarrow> u32" where
  "four_times v = ucast v OR push_bit 8 (ucast v) OR push_bit 16 (ucast v) OR push_bit 24 (ucast v)"

definition pad_ReadRegister :: "u32 \<Rightarrow> 'a pad_state_scheme \<Rightarrow> u32 \<times> 'a pad_state_scheme" where
  "pad_ReadRegister offset s =
     (if offset = 0x00
      then let s1 = InvokeTransferEarly s;
               v = (if m_receive_buffer_full s1 then m_receive_buffer s1 else 0xFF)
           in (four_times v, UpdateJoyStat (s1\<lparr>m_receive_buffer_full := False\<rparr>))
      else if offset = 0x04
      then let s1 = InvokeTransferEarly s
           in (m_JOY_STAT s1, s1\<lparr>m_JOY_STAT := assign_bit 7 False (m_JOY_STAT s1)\<rparr>)
      else if offset = 0x08 then (ucast (m_JOY_MODE s), s)
      else if offset = 0x0A then (ucast (m_JOY_CTRL s), s)
      else if offset = 0x0E then (ucast (m_JOY_BAUD s), s)
      else (0xFFFFFFFF, s))"

definition write_JOY_CTRL :: "u32 \<Rightarrow> 'a pad_state_scheme \<Rightarrow> 'a pad_state_scheme" where
  "write_JOY_CTRL v s0 =
     (let s1 = s0\<lparr>m_JOY_CTRL := ucast v\<rparr>;
          s2 = (if bit (m_JOY_CTRL s1) 6 then pad_SoftReset s1 else s1);
          s3 = (if bit (m_JOY_CTRL s2) 4 then s2\<lparr>m_JOY_STAT := assign_bit 9 False (m_JOY_STAT s2)\<rparr> else s2);
          s4 = (if \<not> bit (m_JOY_CTRL s3) 1 then ResetDeviceTransferState s3 else s3);
          s5 = (if \<not> bit (m_JOY_CTRL s4) 1 \<or> \<not> bit (m_JOY_CTRL s4) 0
                then if IsTransmitting s4 then EndTransfer s4 else s4
                else if \<not> IsTransmitting s4 \<and> CanTransfer s4 then BeginTransfer s4 else s4)
      in UpdateJoyStat s5)"

definition pad_WriteRegister :: "u32 \<Rightarrow> u32 \<Rightarrow> 'a pad_state_scheme \<Rightarrow> 'a pad_state_scheme" where
  "pad_WriteRegister offset v s =
     (if offset = 0x00
      then let s1 = s\<lparr>m_transmit_buffer := ucast v, m_transmit_buffer_full := True\<rparr>
           in if \<not> IsTransmitting s1 \<and> CanTransfer s1 then BeginTransfer s1 else s1
      else if offset = 0x0A then write_JOY_CTRL v s
      else if offset = 0x08 then s\<lparr>m_JOY_MODE := ucast v\<rparr>
      else if offset = 0x0E then s\<lparr>m_JOY_BAUD := ucast v\<rparr>
      else s)"

subsection \<open>Changing the devices\<close>

definition SetController :: "nat \<Rightarrow> controller option \<Rightarrow> 'a pad_state_scheme \<Rightarrow> 'a pad_state_scheme" where
  "SetController slot dev s = set_controller slot dev s"

text \<open>The card that is replaced is saved by its destructor.\<close>

definition SetMemoryCard :: "nat \<Rightarrow> memory_card option \<Rightarrow> 'a pad_state_scheme \<Rightarrow> 'a pad_state_scheme" where
  "SetMemoryCard slot dev s =
     (let s1 = (case m_memory_cards s ! slot of Some c \<Rightarrow> snd (snd (SaveIfChanged c s)) | None \<Rightarrow> s)
      in set_card slot dev s1)"

definition press_button :: "nat \<Rightarrow> int \<Rightarrow> bool \<Rightarrow> 'a pad_state_scheme \<Rightarrow> 'a pad_state_scheme" where
  "press_button slot button_code pressed s =
     (case m_controllers s ! slot of
        Some c \<Rightarrow> (let (flag, d) = controller_SetButtonState button_code pressed c
                   in with_flag flag (set_controller slot (Some d) s))
      | None \<Rightarrow> s)"

text \<open>The callback of a memory card's save event.\<close>

definition flush_callback :: "nat \<Rightarrow> 'a pad_state_scheme \<Rightarrow> 'a pad_state_scheme" where
  "flush_callback i s =
     (case m_memory_cards s ! i of
        Some c \<Rightarrow> (let (ok, d, s1) = SaveIfChanged c s in set_card i (Some d) s1)
      | None \<Rightarrow> s)"

subsection \<open>Save states\<close>

definition saved_type :: "controller option \<Rightarrow> u32" where
  "saved_type c = (case c of Some d \<Rightarrow> GetType d | None \<Rightarrow> 0)"

text \<open>
  A controller of another type than the saved one is reset, and the saved fields are read into a
  controller that is thrown away; \<open>None\<close> of the result is a controller type that cannot be created.
\<close>

definition pad_DoStateController :: "nat \<Rightarrow> state_wrapper \<Rightarrow> 'a pad_state_scheme \<Rightarrow> bool \<times> state_wrapper \<times> 'a pad_state_scheme" where
  "pad_DoStateController i sw s =
     (let controller_type = saved_type (m_controllers s ! i);
          (state_type, sw1) = Do_word controller_type sw;
          s1 = (if controller_type \<noteq> state_type
                then set_controller i (map_option controller_Reset (m_controllers s ! i)) s else s)
      in if state_type = 0 then (True, sw1, s1)
         else let (ok, sw2) = DoMarker ''Controller'' sw1
              in if \<not> ok then (False, sw2, s1)
                 else case m_controllers s1 ! i of
                        Some c \<Rightarrow>
                          if GetType c = state_type
                          then let (ok, d, sw3) = controller_DoState False c sw2 in (ok, sw3, set_controller i (Some d) s1)
                          else (case Controller_Create (g_host_input s1) state_type of
                                  Some dummy \<Rightarrow> (let (ok, d, sw3) = controller_DoState False dummy sw2 in (ok, sw3, s1))
                                | None \<Rightarrow> (True, sw2, s1))
                      | None \<Rightarrow>
                          (case Controller_Create (g_host_input s1) state_type of
                             Some dummy \<Rightarrow> (let (ok, d, sw3) = controller_DoState False dummy sw2 in (ok, sw3, s1))
                           | None \<Rightarrow> (True, sw2, s1)))"

text \<open>
  A card in the saved state but not in the port is created, with a new event \<open>ev\<close>;
  \<open>card_from_state\<close> of the code is never set, so its branch is left out.
\<close>

definition pad_DoStateMemcard :: "nat \<Rightarrow> nat \<Rightarrow> state_wrapper \<Rightarrow> 'a pad_state_scheme \<Rightarrow> bool \<times> state_wrapper \<times> 'a pad_state_scheme" where
  "pad_DoStateMemcard ev i sw s =
     (let (present, sw1) = Do_bool (m_memory_cards s ! i \<noteq> None) sw;
          s1 = (if present \<and> m_memory_cards s ! i = None
                then let (c, s') = card_Create ev s in set_card i (Some c) s' else s);
          (ok, sw2, s2) =
            (if present
             then let (marked, sw') = DoMarker ''MemoryCard'' sw1
                  in if \<not> marked then (False, sw', s1)
                     else (case m_memory_cards s1 ! i of
                             Some c \<Rightarrow> (let ((ok, d, sw''), s') = card_DoState c sw' s1 in (ok, sw'', set_card i (Some d) s'))
                           | None \<Rightarrow> (False, sw', s1))
             else (True, sw1, s1))
      in if \<not> ok then (False, sw2, s2)
         else if \<not> sw_IsReading sw2 then (True, sw2, s2)
         else (True, sw2, if \<not> present \<and> m_memory_cards s2 ! i \<noteq> None then SetMemoryCard i None s2 else s2))"

definition pad_State_names :: "pad_State list" where
  "pad_State_names = [PadIdle, PadTransmitting, PadWaitingForACK]"

fun pad_State_code :: "pad_State \<Rightarrow> u32" where
  "pad_State_code (PadUnnamed w) = w"
| "pad_State_code e = of_nat (enum_code pad_State_names e)"

definition pad_State_of :: "u32 \<Rightarrow> pad_State" where
  "pad_State_of w = (if unat w < 3 then pad_State_names ! unat w else PadUnnamed w)"

text \<open>The ports in order; \<open>evs\<close> gives the event of a card that is created. A state before version 50 has two ports.\<close>

fun pad_DoState_ports :: "(nat \<Rightarrow> nat) \<Rightarrow> nat list \<Rightarrow> state_wrapper \<Rightarrow> 'a pad_state_scheme
    \<Rightarrow> bool \<times> state_wrapper \<times> 'a pad_state_scheme" where
  "pad_DoState_ports evs [] sw s = (True, sw, s)"
| "pad_DoState_ports evs (i # is) sw s =
     (if sw_version sw < 50 \<and> i \<ge> 2
      then pad_DoState_ports evs is sw
             (SetMemoryCard i None (set_controller i (map_option controller_Reset (m_controllers s ! i)) s))
      else let (ok1, sw1, s1) = pad_DoStateController i sw s
           in if \<not> ok1 then (False, sw1, s1)
              else let (ok2, sw2, s2) = pad_DoStateMemcard (evs i) i sw1 s1
                   in if \<not> ok2 then (False, sw2, s2) else pad_DoState_ports evs is sw2 s2)"

fun pad_DoState_taps :: "nat list \<Rightarrow> state_wrapper \<Rightarrow> 'a pad_state_scheme \<Rightarrow> bool \<times> state_wrapper \<times> 'a pad_state_scheme" where
  "pad_DoState_taps [] sw s = (True, sw, s)"
| "pad_DoState_taps (t # ts) sw s =
     (let (ok, m, sw1) = tap_DoState (m_multitaps s ! t) sw;
          s1 = upd_tap t (\<lambda>_. m) s
      in if \<not> ok then (False, sw1, s1) else pad_DoState_taps ts sw1 s1)"

definition pad_DoState_registers :: "state_wrapper \<Rightarrow> 'a pad_state_scheme \<Rightarrow> bool \<times> state_wrapper \<times> 'a pad_state_scheme" where
  "pad_DoState_registers sw s =
     (let (st, sw1) = Do_enum pad_State_code pad_State_of (m_pad_state s) sw;
          (ct, sw2) = Do_word (m_JOY_CTRL s) sw1;
          (sa, sw3) = Do_word (m_JOY_STAT s) sw2;
          (mo, sw4) = Do_word (m_JOY_MODE s) sw3;
          (ba, sw5) = Do_word (m_JOY_BAUD s) sw4;
          (rb, sw6) = Do_word (m_receive_buffer s) sw5;
          (tb, sw7) = Do_word (m_transmit_buffer s) sw6;
          (rf, sw8) = Do_bool (m_receive_buffer_full s) sw7;
          (tf, sw9) = Do_bool (m_transmit_buffer_full s) sw8;
          s1 = s\<lparr>m_pad_state := st, m_JOY_CTRL := ct, m_JOY_STAT := sa, m_JOY_MODE := mo, m_JOY_BAUD := ba,
                 m_receive_buffer := rb, m_transmit_buffer := tb, m_receive_buffer_full := rf,
                 m_transmit_buffer_full := tf\<rparr>;
          s2 = (if sw_IsReading sw9 \<and> IsTransmitting s1 then Activate (m_transfer_event s1) s1 else s1)
      in (\<not> sw_error sw9, sw9, s2))"

definition pad_DoState :: "(nat \<Rightarrow> nat) \<Rightarrow> state_wrapper \<Rightarrow> 'a pad_state_scheme \<Rightarrow> bool \<times> state_wrapper \<times> 'a pad_state_scheme" where
  "pad_DoState evs sw s =
     (let (ok1, sw1, s1) = pad_DoState_ports evs [0..<NUM_CONTROLLER_AND_CARD_PORTS] sw s
      in if \<not> ok1 then (False, sw1, s1)
         else let (ok2, sw2, s2) =
                    (if sw_version sw1 \<ge> 50 then pad_DoState_taps [0..<NUM_MULTITAPS] sw1 s1 else (True, sw1, s1))
              in if \<not> ok2 then (False, sw2, s2) else pad_DoState_registers sw2 s2)"

end
