(* ===== verification/Sio.thy ===== *)
theory Sio
  imports PadState
begin

text \<open>
  The serial port (\<open>src/core/sio.cpp\<close>). Nothing is ever connected to it: the data register reads
  as 0xFF, the status says that the other side is ready, and no transfer takes place.
\<close>

record sio_state = pad_state +
  m_SIO_CTRL :: u16
  m_SIO_STAT :: u32
  m_SIO_MODE :: u16
  m_SIO_BAUD :: u16

text \<open>\<open>TXRDY\<close> is bit 0 of the status, \<open>TXDONE\<close> 2, \<open>DSRINPUTLEVEL\<close> 7, \<open>CTSINPUTLEVEL\<close> 8; \<open>RESET\<close> is bit 6 of the control.\<close>

definition sio_SoftReset :: "'a sio_state_scheme \<Rightarrow> 'a sio_state_scheme" where
  "sio_SoftReset s =
     s\<lparr>m_SIO_CTRL := 0,
       m_SIO_STAT := assign_bit 0 True (assign_bit 2 True (assign_bit 8 True (assign_bit 7 True 0))),
       m_SIO_MODE := 0, m_SIO_BAUD := 0xDC\<rparr>"

definition sio_ReadRegister :: "u32 \<Rightarrow> 'a sio_state_scheme \<Rightarrow> u32" where
  "sio_ReadRegister offset s =
     (if offset = 0x00 then 0xFF OR push_bit 8 0xFF OR push_bit 16 0xFF OR push_bit 24 0xFF
      else if offset = 0x04 then m_SIO_STAT s
      else if offset = 0x08 then ucast (m_SIO_MODE s)
      else if offset = 0x0A then ucast (m_SIO_CTRL s)
      else if offset = 0x0E then ucast (m_SIO_BAUD s)
      else 0xFFFFFFFF)"

definition sio_WriteRegister :: "u32 \<Rightarrow> u32 \<Rightarrow> 'a sio_state_scheme \<Rightarrow> 'a sio_state_scheme" where
  "sio_WriteRegister offset v s =
     (if offset = 0x0A
      then let s1 = s\<lparr>m_SIO_CTRL := ucast v\<rparr> in if bit (m_SIO_CTRL s1) 6 then sio_SoftReset s1 else s1
      else if offset = 0x08 then s\<lparr>m_SIO_MODE := ucast v\<rparr>
      else if offset = 0x0E then s\<lparr>m_SIO_BAUD := ucast v\<rparr>
      else s)"

definition sio_DoState :: "state_wrapper \<Rightarrow> 'a sio_state_scheme \<Rightarrow> bool \<times> state_wrapper \<times> 'a sio_state_scheme" where
  "sio_DoState sw s =
     (let (ct, sw1) = Do_word (m_SIO_CTRL s) sw;
          (st, sw2) = Do_word (m_SIO_STAT s) sw1;
          (mo, sw3) = Do_word (m_SIO_MODE s) sw2;
          (ba, sw4) = Do_word (m_SIO_BAUD s) sw3
      in (\<not> sw_error sw4, sw4,
          s\<lparr>m_SIO_CTRL := ct, m_SIO_STAT := st, m_SIO_MODE := mo, m_SIO_BAUD := ba\<rparr>))"

end
