(* ===== verification/PadSpec.thy ===== *)
theory PadSpec
  imports Pad Sio
begin

text \<open>
  What the pads keep. \<open>pads_ok\<close> says that every device is well formed and that every index the
  ports use is inside its array. The locale \<open>pad_devices\<close> is the contract of a byte sent to a
  device: a property that the devices' own fields and the save events of the cards preserve holds
  after it. \<open>pad_host\<close> extends it to the rest of the machine: a property that the event queue, the
  interrupt line and the pads' registers preserve too holds after every operation of the pads.
\<close>

subsection \<open>Well-formed devices\<close>

fun controller_ok :: "controller \<Rightarrow> bool" where
  "controller_ok (AnalogController c) \<longleftrightarrow> analog_ok c"
| "controller_ok (AnalogJoystick c) \<longleftrightarrow> length (joy_axis_state c) = 4"
| "controller_ok (NeGcon c) \<longleftrightarrow> length (neg_axis_state c) = 4"
| "controller_ok (NeGconRumble c) \<longleftrightarrow> command_ok c"
| "controller_ok _ \<longleftrightarrow> True"

fun controller_left :: "controller \<Rightarrow> nat" where
  "controller_left (DigitalController c) = digital_left (dig_transfer_state c)"
| "controller_left (AnalogController c) = command_left c"
| "controller_left (AnalogJoystick c) = joystick_left (joy_transfer_state c)"
| "controller_left (NamcoGunCon c) = guncon_left (gun_transfer_state c)"
| "controller_left (PlayStationMouse c) = mouse_left (mou_transfer_state c)"
| "controller_left (NeGcon c) = negcon_left (neg_transfer_state c)"
| "controller_left (NeGconRumble c) = command_left c"

lemma map_reply_simps [simp]:
  "fst (map_reply f r) = fst r" "fst (snd (map_reply f r)) = fst (snd r)" "snd (snd (map_reply f r)) = f (snd (snd r))"
  by (simp_all add: map_reply_def split: prod.split)

lemmas analog_laws = analog_device [THEN serial_device.ok_xfer] analog_device [THEN serial_device.ok_reset]
  analog_device [THEN serial_device.acknowledged] analog_device [THEN serial_device.left_most]

lemmas negcon_rumble_laws = negcon_rumble_device [THEN serial_device.ok_xfer]
  negcon_rumble_device [THEN serial_device.ok_reset]
  negcon_rumble_device [THEN serial_device.acknowledged] negcon_rumble_device [THEN serial_device.left_most]

text \<open>Every controller meets the contract of a serial device, whichever class it is of.\<close>

interpretation controllers: serial_device "controller_Transfer h" controller_ResetTransferState controller_ok controller_left 8
  for h
proof
  fix d b out
  assume ok: "controller_ok d"
  show "controller_ok (snd (snd (controller_Transfer h b out d)))"
    using ok analog_laws(1) negcon_rumble_laws(1) joystick.ok_xfer negcon.ok_xfer
    by (cases d) (simp_all add: analog_ok_def)
  show "controller_ok (controller_ResetTransferState d)"
    using ok analog_laws(2) negcon_rumble_laws(2) joystick.ok_reset negcon.ok_reset
    by (cases d) (simp_all add: analog_ok_def)
  show "controller_left d \<le> 8"
    using ok by (cases d) (simp_all add: analog_ok_def analog_laws(4) negcon_rumble_laws(4)
      order_trans [OF digital_left_most] order_trans [OF joystick_left_most] order_trans [OF negcon_left_most]
      order_trans [OF mouse_left_most] order_trans [OF guncon_left_most])
  show "fst (controller_Transfer h b out d) \<Longrightarrow> controller_left (snd (snd (controller_Transfer h b out d))) < controller_left d"
    using ok analog_laws(3) negcon_rumble_laws(3) digital.acknowledged joystick.acknowledged negcon.acknowledged
      mouse.acknowledged guncon.acknowledged
    by (cases d) (simp_all add: analog_ok_def)
qed

lemma command_ok_reset:
  assumes "length (cc_axis_state c) = 4"
  shows "command_ok (ResetRumbleConfig (c\<lparr>cc_command := CmdIdle, cc_command_step := 0, cc_rx_buffer := replicate 8 0,
     cc_tx_buffer := replicate 8 0, cc_analog_mode := a, cc_configuration_mode := False, cc_motor_state := replicate 2 0,
     cc_dualshock_enabled := d\<rparr>)\<lparr>cc_status_byte := b\<rparr>)"
  using assms by (simp add: command_ok_def ResetRumbleConfig_def SetMotorState_def)

lemma controller_ok_Reset: "controller_ok c \<Longrightarrow> controller_ok (controller_Reset c)"
  by (cases c) (auto simp: analog_ok_def analog_Reset_def negcon_rumble_Reset_def joystick_Reset_def negcon_Reset_def
      command_ok_def ResetRumbleConfig_def SetMotorState_def)

lemma controller_ok_Create: "Controller_Create h type = Some c \<Longrightarrow> controller_ok c"
  by (auto simp: Controller_Create_def analog_new_ok joystick_new_def negcon_new_def split: if_splits)

lemma command_ok_more [simp]:
  "command_ok (c\<lparr>ac_old_force_analog := b\<rparr>) = command_ok c"
  by (simp add: command_ok_def)

lemma analog_ok_toggle: "analog_ok c \<Longrightarrow> analog_ok (toggle_or_queue analog_SetAnalogMode c)"
  using analog.toggle_ok [of c] by (auto simp: toggle_or_queue_def analog_ok_def command_ok_def)

lemma controller_ok_SetButtonState:
  assumes "controller_ok c"
  shows "controller_ok (snd (controller_SetButtonState k p c))"
proof (cases c)
  case (AnalogController a)
  have b: "analog_ok (a\<lparr>cc_button_state := w\<rparr>) = analog_ok a" for w and a :: analog_controller
    by (simp add: analog_ok_def command_ok_def)
  have f: "analog_ok (a\<lparr>ac_old_force_analog := w\<rparr>) = analog_ok a" for w and a :: analog_controller
    by (simp add: analog_ok_def command_ok_def)
  show ?thesis
    using assms AnalogController
    by (simp add: analog_SetButtonState_def Let_def case_prod_beta map_flag_def b f analog_ok_toggle)
next
  case (NeGconRumble n)
  have b: "command_ok (a\<lparr>cc_button_state := w\<rparr>) = command_ok a" "command_ok (a\<lparr>cc_analog_toggle_queued := q\<rparr>) = command_ok a"
    for w q and a :: negcon_rumble
    by (simp_all add: command_ok_def)
  have t: "command_ok (ProcessAnalogModeToggle negcon_rumble_SetAnalogMode a)" if "command_ok a" for a
    using negcon_rumble.toggle_ok [of a] that by simp
  show ?thesis
    using assms NeGconRumble t
    by (simp add: negcon_rumble_SetButtonState_def Let_def case_prod_beta map_flag_def b toggle_or_queue_def)
qed (use assms in \<open>simp_all add: map_flag_def case_prod_beta joystick_SetButtonState_def negcon_SetButtonState_def
  joystick_ToggleAnalogMode_def Let_def\<close>)

subsection \<open>Well-formed ports\<close>

definition tap_ok :: "multitap \<Rightarrow> bool" where
  "tap_ok m \<longleftrightarrow> tap_base_index m \<le> 4 \<and> unat (tap_selected_slot m) < 4 \<and> length (tap_transfer_buffer m) = 32"

definition all_present :: "('d \<Rightarrow> bool) \<Rightarrow> 'd option list \<Rightarrow> bool" where
  "all_present ok ds \<longleftrightarrow> list_all (pred_option ok) ds"

definition pads_ok :: "'a pad_state_scheme \<Rightarrow> bool" where
  "pads_ok s \<longleftrightarrow> length (m_controllers s) = 8 \<and> length (m_memory_cards s) = 8 \<and> length (m_multitaps s) = 2 \<and>
     all_present controller_ok (m_controllers s) \<and> all_present card_inv (m_memory_cards s) \<and>
     list_all tap_ok (m_multitaps s)"

lemma all_present_nth: "all_present ok ds \<Longrightarrow> i < length ds \<Longrightarrow> ds ! i = Some d \<Longrightarrow> ok d"
  by (auto simp: all_present_def list_all_length)

lemma all_present_update: "all_present ok ds \<Longrightarrow> pred_option ok d \<Longrightarrow> all_present ok (ds[i := d])"
  using set_update_subset_insert [of ds i d] by (auto simp: all_present_def list_all_iff)

lemma all_present_map: "all_present ok ds \<Longrightarrow> (\<And>d. ok d \<Longrightarrow> ok (f d)) \<Longrightarrow> all_present ok (map (map_option f) ds)"
  by (auto simp: all_present_def list_all_iff pred_option_def)

lemma tap_ok_new: "tap_ok tap_new"
  by (simp add: tap_ok_def tap_new_def tap_Reset_def)

lemma tap_ok_simps [simp]:
  "tap_ok m \<Longrightarrow> tap_ok (tap_Reset m)" "tap_ok m \<Longrightarrow> tap_ok (tap_ResetTransferState m)"
  "tap_ok (m\<lparr>tap_transfer_state := t\<rparr>) = tap_ok m" "tap_ok (m\<lparr>tap_controller_transfer_step := n\<rparr>) = tap_ok m"
  "tap_ok (m\<lparr>tap_invalid_transfer_all_command := b\<rparr>) = tap_ok m"
  "tap_ok (m\<lparr>tap_transfer_all_controllers := b\<rparr>) = tap_ok m"
  "tap_ok (m\<lparr>tap_current_controller_done := b\<rparr>) = tap_ok m"
  "tap_ok m \<Longrightarrow> tap_ok (m\<lparr>tap_transfer_buffer := (tap_transfer_buffer m)[i := v]\<rparr>)"
  by (simp_all add: tap_ok_def tap_Reset_def tap_ResetTransferState_def)

lemma tap_ok_slot:
  "tap_ok m \<Longrightarrow> unat sl < 4 \<Longrightarrow> tap_ok (m\<lparr>tap_selected_slot := sl\<rparr>)"
  by (simp add: tap_ok_def)

lemma tap_ok_SetEnable: "tap_ok m \<Longrightarrow> b \<le> 4 \<Longrightarrow> tap_ok (SetEnable e b m)"
  by (simp add: SetEnable_def tap_ok_def tap_Reset_def)

lemma pads_ok_index:
  "pads_ok s \<Longrightarrow> t < 2 \<Longrightarrow> slot < 4 \<Longrightarrow> tap_base_index (m_multitaps s ! t) + slot < 8"
  "pads_ok s \<Longrightarrow> JOY_SLOT s < 2" "pads_ok s \<Longrightarrow> device_index s < 8"
proof -
  show "pads_ok s \<Longrightarrow> t < 2 \<Longrightarrow> slot < 4 \<Longrightarrow> tap_base_index (m_multitaps s ! t) + slot < 8"
    by (auto simp: pads_ok_def list_all_length tap_ok_def)
  show j: "pads_ok s \<Longrightarrow> JOY_SLOT s < 2"
    using unat_bf_get_less [of 13 1 "m_JOY_CTRL s"] by (simp add: JOY_SLOT_def)
  show "pads_ok s \<Longrightarrow> device_index s < 8" using j by (simp add: device_index_def)
qed

subsection \<open>What every operation of the pads preserves\<close>

text \<open>The save events of the cards, which the ports never change.\<close>

definition card_events :: "memory_card option list \<Rightarrow> nat option list" where
  "card_events ms = map (map_option card_save_event) ms"

text \<open>Neither an exchange with a card nor a save changes the ports or the card's save event.\<close>

lemma pads_more_fields:
  fixes s t :: "'a pad_state_scheme"
  assumes "te_state.more s = te_state.more t"
  shows "m_memory_cards s = m_memory_cards t" "m_controllers s = m_controllers t" "m_multitaps s = m_multitaps t"
    "m_pad_state s = m_pad_state t" "m_transfer_event s = m_transfer_event t" "m_JOY_CTRL s = m_JOY_CTRL t"
    "m_JOY_STAT s = m_JOY_STAT t" "m_active_device s = m_active_device t"
    "m_transmit_buffer_full s = m_transmit_buffer_full t" "m_receive_buffer_full s = m_receive_buffer_full t"
  using assms by (cases s; cases t; simp)+

lemmas Schedule_pads [simp] = pads_more_fields [OF te_rest_fields(4) [OF te_rest_Schedule]]

lemmas Deactivate_pads [simp] = pads_more_fields [OF te_rest_fields(4) [OF te_rest_Deactivate]]

lemma card_Transfer_ports [simp]: "m_memory_cards (snd (card_Transfer b out c s)) = m_memory_cards s"
proof -
  have "m_memory_cards (QueueFileSave d s) = m_memory_cards s" for d by (simp add: QueueFileSave_def)
  then show ?thesis by (cases "card_state c") (simp_all add: card_Transfer_def Let_def case_prod_beta card_WriteData_def)
qed

lemma SaveIfChanged_ports [simp]: "m_memory_cards (snd (snd (SaveIfChanged c s))) = m_memory_cards s"
  by (simp add: SaveIfChanged_def Let_def SaveImage_def case_prod_beta)

lemma card_event_simps [simp]:
  "card_save_event (card_ResetTransferState c) = card_save_event c"
  "card_save_event (fst (snd (SaveIfChanged c s))) = card_save_event c"
  "card_save_event (fst (card_Reset c s)) = card_save_event c"
  by (simp_all add: card_ResetTransferState_def SaveIfChanged_def card_Reset_def set_no_write_yet_def Let_def case_prod_beta)

lemma card_event_steps [simp]:
  "card_save_event (next_offset st c) = card_save_event c" "card_save_event (add_checksum b c) = card_save_event c"
  "card_save_event (set_no_write_yet f c) = card_save_event c"
  by (simp_all add: next_offset_def add_checksum_def set_no_write_yet_def Let_def)

lemma card_event_switch: "card_save_event (snd (snd (fst (card_switch st b out c s)))) = card_save_event c"
  by (cases st) (simp_all add: FIXED_REPLY_STATE_def ADDRESS_STATE_MSB_def ADDRESS_STATE_LSB_def card_ReadData_def
    card_WriteData_def card_Idle_def card_Command_def Let_def)

lemma card_event_Transfer [simp]: "card_save_event (snd (snd (fst (card_Transfer b out c s)))) = card_save_event c"
  using card_event_switch [of "card_state c" b out c s] by (simp add: card_Transfer_def Let_def case_prod_beta)

locale pad_devices =
  fixes P :: "'a pad_state_scheme \<Rightarrow> bool"
  assumes ports: "P s \<Longrightarrow> pads_ok s"
    and devices: "P s \<Longrightarrow> pads_ok (s\<lparr>m_controllers := cs, m_memory_cards := ms, m_multitaps := ts\<rparr>) \<Longrightarrow>
      card_events ms = card_events (m_memory_cards s) \<Longrightarrow>
      P (s\<lparr>m_controllers := cs, m_memory_cards := ms, m_multitaps := ts\<rparr>)"
    and active: "P s \<Longrightarrow> P (s\<lparr>m_active_device := ad\<rparr>)"
    and save_event: "P s \<Longrightarrow> Some e \<in> set (card_events (m_memory_cards s)) \<Longrightarrow> P (Schedule e n s)"
begin

lemma controllers_update:
  assumes "P s" and "length cs = 8" and "all_present controller_ok cs"
  shows "P (s\<lparr>m_controllers := cs\<rparr>)"
  using devices [where s = s and cs = cs and ms = "m_memory_cards s" and ts = "m_multitaps s"] ports [OF assms(1)] assms by (simp add: pads_ok_def)

lemma cards_update:
  assumes "P s" and "length ms = 8" and "all_present card_inv ms" and "card_events ms = card_events (m_memory_cards s)"
  shows "P (s\<lparr>m_memory_cards := ms\<rparr>)"
  using devices [where s = s and cs = "m_controllers s" and ms = ms and ts = "m_multitaps s"] ports [OF assms(1)] assms by (simp add: pads_ok_def)

lemma taps_update:
  assumes "P s" and "length ts = 2" and "list_all tap_ok ts"
  shows "P (s\<lparr>m_multitaps := ts\<rparr>)"
  using devices [where s = s and cs = "m_controllers s" and ms = "m_memory_cards s" and ts = ts] ports [OF assms(1)] assms by (simp add: pads_ok_def)

lemma put_controller: "P s \<Longrightarrow> pred_option controller_ok c \<Longrightarrow> P (set_controller i c s)"
  using ports [of s] by (simp add: set_controller_def controllers_update pads_ok_def all_present_update)

lemma put_card:
  assumes "P s" and "card_inv c" and "m_memory_cards s ! i = Some d" and "card_save_event c = card_save_event d"
  shows "P (set_card i (Some c) s)"
proof -
  have "card_events ((m_memory_cards s)[i := Some c]) = card_events (m_memory_cards s)"
  proof (cases "i < length (m_memory_cards s)")
    case True
    then have "card_events (m_memory_cards s) ! i = Some (card_save_event c)"
      using assms(3,4) by (simp add: card_events_def)
    then show ?thesis by (simp add: card_events_def map_update) (metis list_update_id)
  qed (simp add: list_update_beyond)
  then show ?thesis
    using ports [OF assms(1)] assms by (simp add: set_card_def cards_update pads_ok_def all_present_update)
qed

lemma put_tap: "P s \<Longrightarrow> (tap_ok (m_multitaps s ! i) \<Longrightarrow> tap_ok (f (m_multitaps s ! i))) \<Longrightarrow> P (upd_tap i f s)"
  using ports [of s]
  by (cases "i < 2") (auto simp: upd_tap_def pads_ok_def list_all_length nth_list_update modify_at_def intro!: taps_update)

lemma card_transfer:
  assumes "P s" and "Some (card_save_event c) \<in> set (card_events (m_memory_cards s))"
  shows "P (snd (card_Transfer b out c s))"
proof -
  have "P (QueueFileSave d s)" if "card_save_event d = card_save_event c" for d
    using assms that by (simp add: QueueFileSave_def save_event)
  then show ?thesis
    using assms(1) by (cases "card_state c") (simp_all add: card_Transfer_def Let_def case_prod_beta card_WriteData_def)
qed

lemma port_controller:
  assumes "P s" and "i < 8"
  shows "pred_option (\<lambda>r. P (snd (snd r))) (port_controller_Transfer i b out s)"
proof (cases "m_controllers s ! i")
  case (Some c)
  then have "controller_ok c"
    using ports [OF assms(1)] assms(2) by (auto simp: pads_ok_def dest: all_present_nth)
  then show ?thesis
    using Some by (simp add: port_controller_Transfer_def put_controller assms(1) controllers.ok_xfer)
qed (simp add: port_controller_Transfer_def)

lemma port_card:
  assumes "P s" and "i < 8"
  shows "pred_option (\<lambda>r. P (snd (snd r))) (port_card_Transfer i b out s)"
proof (cases "m_memory_cards s ! i")
  case (Some c)
  then have "card_inv c"
    using ports [OF assms(1)] assms(2) by (auto simp: pads_ok_def dest: all_present_nth)
  moreover have "Some (card_save_event c) \<in> set (card_events (m_memory_cards s))"
    using Some ports [OF assms(1)] assms(2) nth_mem [of i "card_events (m_memory_cards s)"]
    by (simp add: card_events_def pads_ok_def)
  ultimately show ?thesis
    using Some card_inv_Transfer [of c b out s] card_transfer [OF assms(1), of c b out]
    by (simp add: port_card_Transfer_def Let_def case_prod_beta put_card)
qed (simp add: port_card_Transfer_def)

text \<open>A byte to a device behind a multitap.\<close>

lemma tap_index:
  assumes "P s" and "t < 2" and "slot < 4"
  shows "tap_base_index (m_multitaps s ! t) + slot < 8"
  by (rule pads_ok_index(1) [OF ports [OF assms(1)] assms(2,3)])

lemma tap_slot: "P s \<Longrightarrow> t < 2 \<Longrightarrow> tap_selected t s < 4"
  using ports [of s] by (auto simp: pads_ok_def list_all_length tap_ok_def)

lemma tap_controller:
  assumes "P s" and "t < 2" and "slot < 4"
  shows "P (snd (snd (tap_TransferController t slot b out s)))"
  using port_controller [OF assms(1) tap_index [OF assms], of b out] assms(1)
  by (auto simp: tap_TransferController_def split: option.split)

lemma tap_card:
  assumes "P s" and "t < 2" and "slot < 4"
  shows "P (snd (snd (tap_TransferMemoryCard t slot b out s)))"
  using port_card [OF assms(1) tap_index [OF assms], of b out] assms(1)
  by (auto simp: tap_TransferMemoryCard_def split: option.split)

lemma others: "P s \<Longrightarrow> t < 2 \<Longrightarrow> P (access_others t s)"
proof -
  assume p: "P s" and t: "t < 2"
  have "P (fold (\<lambda>i s'. if i \<noteq> tap_selected t s' then snd (snd (tap_TransferController t i 0x01 0 s')) else s') is u)"
    if "P u" "list_all (\<lambda>i. i < 4) is" for "is" u
    using that by (induction "is" arbitrary: u) (auto simp: tap_controller t)
  from this [OF p, of "[0..<4]"] show ?thesis by (simp add: access_others_def list_all_iff)
qed

lemma low_slot: "data \<in> {0x81, 0x82, 0x83, 0x84} \<Longrightarrow> unat ((data AND 0x0F) - 1 :: u8) < 4"
  "data \<in> {0x01, 0x02, 0x03, 0x04} \<Longrightarrow> unat (data - 1 :: u8) < 4"
  by auto

lemma tap_idle:
  assumes "P s" and "t < 2"
  shows "P (snd (snd (tap_Idle t b out s)))"
proof -
  have sel: "P (upd_tap t (\<lambda>m. m\<lparr>tap_selected_slot := sl\<rparr>) s)" if "unat sl < 4" for sl
    by (rule put_tap [OF assms(1) tap_ok_slot]) (simp_all add: that)
  have st: "P (upd_tap t (\<lambda>m. m\<lparr>tap_transfer_state := ts\<rparr>) u)" if "P u" for ts u
    by (rule put_tap [OF that]) simp
  consider "b \<in> {0x81, 0x82, 0x83, 0x84}" | "b \<notin> {0x81, 0x82, 0x83, 0x84}" "b \<in> {0x01, 0x02, 0x03, 0x04}"
    | "b \<notin> {0x81, 0x82, 0x83, 0x84}" "b \<notin> {0x01, 0x02, 0x03, 0x04}" by blast
  then show ?thesis
  proof cases
    case 1
    define s1 where "s1 = upd_tap t (\<lambda>m. m\<lparr>tap_selected_slot := (b AND 0x0F) - 1\<rparr>) s"
    have s1: "P s1" unfolding s1_def by (rule sel [OF low_slot(1) [OF 1]])
    note p = tap_card [OF s1 assms(2) tap_slot [OF s1 assms(2)]]
    show ?thesis
      unfolding tap_Idle_def if_P [OF 1] Let_def s1_def [symmetric] case_prod_beta by (simp add: p st)
  next
    case 2
    define s1 where "s1 = upd_tap t (\<lambda>m. m\<lparr>tap_selected_slot := b - 1\<rparr>) s"
    have s1: "P s1" unfolding s1_def by (rule sel [OF low_slot(2) [OF 2(2)]])
    note p = tap_controller [OF s1 assms(2) tap_slot [OF s1 assms(2)]]
    show ?thesis
      unfolding tap_Idle_def if_not_P [OF 2(1)] if_P [OF 2(2)] Let_def s1_def [symmetric] case_prod_beta
      by (simp add: p st others assms(2))
  qed (simp add: tap_Idle_def assms(1))
qed

lemma tap_steps:
  assumes "P s" and "t < 2"
  shows "P (snd (snd (tap_Card t b out s)))" "P (snd (snd (tap_Single t b out s)))"
    "P (snd (snd (tap_Command t b out s)))"
proof -
  have u: "P (upd_tap t f v)" if "P v" "\<And>m. tap_ok m \<Longrightarrow> tap_ok (f m)" for f v by (rule put_tap [OF that(1) that(2)])
  have z: "tap_ok m \<Longrightarrow> tap_ok (m\<lparr>tap_selected_slot := 0\<rparr>)" for m by (simp add: tap_ok_def)
  note c = tap_controller [OF assms tap_slot [OF assms]]
  show "P (snd (snd (tap_Card t b out s)))"
    using tap_card [OF assms tap_slot [OF assms]] by (simp add: tap_Card_def Let_def case_prod_beta u)
  show "P (snd (snd (tap_Single t b out s)))"
    by (simp add: tap_Single_def Let_def case_prod_beta u c)
  show "P (snd (snd (tap_Command t b out s)))"
    using assms(1) by (simp add: tap_Command_def Let_def case_prod_beta u c z)
qed

lemma tap_all:
  assumes "P s" and "t < 2"
  shows "P (snd (snd (tap_All t b s)))"
proof -
  have u: "P (upd_tap t f v)" if "P v" "\<And>m. tap_ok m \<Longrightarrow> tap_ok (f m)" for f v by (rule put_tap [OF that(1) that(2)])
  have n: "unat ((w + 1) mod 4 :: u8) < 4" for w :: u8
    using word_mod_less_divisor [of "4 :: u8" "w + 1"] by (simp add: word_less_nat_alt)
  have sl: "tap_ok m \<Longrightarrow> tap_ok (m\<lparr>tap_current_controller_done := d, tap_selected_slot := (tap_selected_slot m + 1) mod 4\<rparr>)"
    for m d by (simp add: tap_ok_slot n)
  have bf: "tap_ok m \<Longrightarrow> tap_ok (m\<lparr>tap_transfer_buffer := (tap_transfer_buffer m)[i := v], tap_current_controller_done := d\<rparr>)"
    for m i v d by simp
  note c = tap_controller [OF assms tap_slot [OF assms]]
  show ?thesis
    by (simp add: tap_All_def Let_def case_prod_beta u c sl bf assms(1))
qed

lemma tap: "P s \<Longrightarrow> t < 2 \<Longrightarrow> P (snd (snd (tap_Transfer t b out s)))"
  by (simp add: tap_Transfer_def tap_idle tap_steps tap_all split: multitap_TransferState.split)

text \<open>A byte to a device of the port, and the two events of a transfer.\<close>

lemma direct:
  assumes "P s"
  shows "P (snd (snd (to_controller b s)))" "P (snd (snd (to_card b out s)))" "P (snd (snd (to_multitap b s)))"
proof -
  note i = pads_ok_index(2,3) [OF ports [OF assms]]
  show "P (snd (snd (to_controller b s)))"
    using port_controller [OF assms i(2), of b 255] assms by (auto simp: to_controller_def split: option.split)
  show "P (snd (snd (to_card b out s)))"
    using port_card [OF assms i(2), of b out] assms by (auto simp: to_card_def split: option.split)
  show "P (snd (snd (to_multitap b s)))"
    by (simp add: to_multitap_def tap assms i(1))
qed

lemma any_device: "P s \<Longrightarrow> P (snd (snd (to_any b s)))"
  using pads_ok_index(2) [OF ports] by (simp add: to_any_def Let_def case_prod_beta tap direct active)

lemma device: "P s \<Longrightarrow> P (snd (snd (device_transfer b s)))"
  by (simp add: device_transfer_def any_device direct split: pad_ActiveDevice.split)

end

locale pad_host = pad_devices P for P :: "'a pad_state_scheme \<Rightarrow> bool" +
  assumes registers: "P s \<Longrightarrow> P (s\<lparr>m_JOY_CTRL := c\<rparr>)" "P s \<Longrightarrow> P (s\<lparr>m_JOY_STAT := st\<rparr>)"
      "P s \<Longrightarrow> P (s\<lparr>m_JOY_MODE := c\<rparr>)" "P s \<Longrightarrow> P (s\<lparr>m_JOY_BAUD := c\<rparr>)"
    and transfer: "P s \<Longrightarrow> P (s\<lparr>m_pad_state := ps\<rparr>)"
    and buffers: "P s \<Longrightarrow> P (s\<lparr>m_receive_buffer := b\<rparr>)" "P s \<Longrightarrow> P (s\<lparr>m_transmit_buffer := b\<rparr>)"
      "P s \<Longrightarrow> P (s\<lparr>m_transmit_value := b\<rparr>)" "P s \<Longrightarrow> P (s\<lparr>m_receive_buffer_full := f\<rparr>)"
      "P s \<Longrightarrow> P (s\<lparr>m_transmit_buffer_full := f\<rparr>)"
    and queue: "P s \<Longrightarrow> P (Schedule e n s)" "P s \<Longrightarrow> P (Deactivate e s)" "P s \<Longrightarrow> P (set_node e g s)"
      "P s \<Longrightarrow> P (SortEvent e s)"
    and interrupt: "P s \<Longrightarrow> P (InterruptRequest q s)"
    and files: "P s \<Longrightarrow> P (s\<lparr>host_files := fs\<rparr>)"
begin

lemma period: "P s \<Longrightarrow> P (SetPeriodAndSchedule e n s)"
  by (simp add: SetPeriodAndSchedule_def SetInterval_def SetPeriod_def queue)

lemma joy_stat: "P s \<Longrightarrow> P (UpdateJoyStat s)"
  by (simp add: UpdateJoyStat_def registers)

lemma end_transfer: "P s \<Longrightarrow> P (EndTransfer s)"
  by (simp add: EndTransfer_def queue transfer)

lemma begin_transfer: "P s \<Longrightarrow> P (BeginTransfer s)"
  by (simp add: BeginTransfer_def Let_def period registers buffers transfer)

lemma save_card: "P s \<Longrightarrow> P (snd (snd (SaveIfChanged c s)))"
  by (simp add: SaveIfChanged_def Let_def SaveImage_def case_prod_beta queue files)

lemma reset_devices: "P s \<Longrightarrow> P (ResetDeviceTransferState s)"
proof -
  assume p: "P s"
  have "pads_ok (s\<lparr>m_controllers := map (map_option controller_ResetTransferState) (m_controllers s),
     m_memory_cards := map (map_option card_ResetTransferState) (m_memory_cards s),
     m_multitaps := map tap_ResetTransferState (m_multitaps s)\<rparr>)"
    using ports [OF p]
    by (auto simp: pads_ok_def controllers.ok_reset list_all_iff card_inv_def FRAME_SIZE_def card_ResetTransferState_def
        intro!: all_present_map)
  moreover have "card_events (map (map_option card_ResetTransferState) (m_memory_cards s)) = card_events (m_memory_cards s)"
    by (simp add: card_events_def option.map_comp comp_def)
  ultimately show ?thesis using active [OF devices [OF p]] by (simp add: ResetDeviceTransferState_def)
qed

lemma soft_reset: "P s \<Longrightarrow> P (pad_SoftReset s)"
  by (simp add: pad_SoftReset_def Let_def joy_stat reset_devices registers buffers end_transfer)

lemma slot_reset: "P s \<Longrightarrow> i < 8 \<Longrightarrow> P (reset_slot i s)"
proof -
  assume p: "P s" and i: "i < 8"
  let ?s1 = "set_controller i (map_option controller_Reset (m_controllers s ! i)) s"
  have "pred_option controller_ok (map_option controller_Reset (m_controllers s ! i))"
    using ports [OF p] i
    by (cases "m_controllers s ! i") (auto simp: pads_ok_def intro!: controller_ok_Reset dest: all_present_nth)
  then have s1: "P ?s1" by (rule put_controller [OF p])
  show ?thesis
  proof (cases "m_memory_cards s ! i")
    case (Some c)
    then have "card_inv c" using ports [OF p] i by (auto simp: pads_ok_def dest: all_present_nth)
    then have "length (card_data c) = DATA_SIZE" by (simp add: card_inv_def)
    then have "card_inv (fst (card_Reset c ?s1))" by simp
    moreover have "P (snd (card_Reset c ?s1))"
      using save_card [OF s1, of "card_ResetTransferState c"] by (simp add: card_Reset_def Let_def case_prod_beta)
    moreover have "m_memory_cards ?s1 ! i = Some c" by (simp add: set_controller_def Some)
    moreover have "m_memory_cards (snd (card_Reset c ?s1)) = m_memory_cards ?s1"
      by (simp add: card_Reset_def Let_def case_prod_beta)
    ultimately show ?thesis by (simp add: reset_slot_def Let_def case_prod_beta put_card)
  qed (use s1 in \<open>simp add: reset_slot_def Let_def set_controller_def\<close>)
qed

lemma reset: "P s \<Longrightarrow> P (pad_Reset s)"
proof -
  assume p: "P s"
  have f: "P (fold reset_slot is t)" if "P t" "list_all (\<lambda>i. i < 8) is" for "is" t
    using that by (induction "is" arbitrary: t) (simp_all add: slot_reset)
  have "P (fold reset_slot [0..<8] (pad_SoftReset s))"
    by (rule f [OF soft_reset [OF p]]) (simp add: list_all_iff)
  then show ?thesis
    unfolding pad_Reset_def Let_def NUM_CONTROLLER_AND_CARD_PORTS_def
    by (rule taps_update) (use ports [OF f [OF soft_reset [OF p]], of "[0..<8]"] in \<open>auto simp: pads_ok_def list_all_iff\<close>)
qed

lemma do_transfer: "P s \<Longrightarrow> P (DoTransfer late s)"
  by (simp add: DoTransfer_def Let_def case_prod_beta joy_stat end_transfer period transfer buffers device registers active)

lemma do_ack: "P s \<Longrightarrow> P (DoACK s)"
  by (simp add: DoACK_def Let_def joy_stat end_transfer begin_transfer interrupt registers)

lemma event: "P s \<Longrightarrow> P (transfer_callback ticks late s)"
  by (simp add: transfer_callback_def TransferEvent_def do_transfer do_ack)

lemma invoke_early: "P s \<Longrightarrow> P (InvokeTransferEarly s)"
  by (simp add: InvokeTransferEarly_def InvokeEarly_def Let_def queue event)

lemma flush: "P s \<Longrightarrow> P (flush_callback i s)"
proof (cases "m_memory_cards s ! i")
  case (Some c)
  assume p: "P s"
  show ?thesis
  proof (cases "i < 8")
    case True
    then have "card_inv c" using ports [OF p] Some by (auto simp: pads_ok_def dest: all_present_nth)
    then have "card_inv (fst (snd (SaveIfChanged c s)))" by (simp add: SaveIfChanged_def Let_def case_prod_beta)
    then show ?thesis using Some save_card [OF p, of c] by (simp add: flush_callback_def Let_def case_prod_beta put_card)
  next
    case False
    then have "P (set_card i d t)" if "P t" for d t
      using ports [OF that] by (auto simp: set_card_def pads_ok_def list_update_beyond intro!: cards_update that)
    then show ?thesis
      using Some save_card [OF p, of c] by (simp add: flush_callback_def Let_def case_prod_beta)
  qed
qed (simp add: flush_callback_def)

lemma read_register: "P s \<Longrightarrow> P (snd (pad_ReadRegister i s))"
  by (simp add: pad_ReadRegister_def Let_def joy_stat invoke_early buffers registers)

lemma write_control: "P s \<Longrightarrow> P (write_JOY_CTRL v s)"
  by (simp add: write_JOY_CTRL_def Let_def joy_stat soft_reset reset_devices end_transfer begin_transfer registers)

lemma write_register: "P s \<Longrightarrow> P (pad_WriteRegister i v s)"
  by (simp add: pad_WriteRegister_def Let_def write_control begin_transfer registers buffers)

end

end
