(* ===== verification/SavedState.thy ===== *)
theory SavedState
  imports PadSpec
begin

text \<open>
  What a save state keeps of the serial devices. The locale \<open>state_saver\<close> is the contract of a
  component's \<open>DoState\<close>: it writes an encoding of the component, and reading the encoding into
  another component of the same shape gives \<open>merge\<close> of the two, which says what of the target is
  kept because the stream does not hold it.
\<close>

subsection \<open>The contract of a component\<close>

locale state_saver =
  fixes save :: "'a \<Rightarrow> state_wrapper \<Rightarrow> bool \<times> 'a \<times> state_wrapper"
    and enc :: "'a \<Rightarrow> u8 list"
    and fits :: "'a \<Rightarrow> 'a \<Rightarrow> bool"
    and merge :: "'a \<Rightarrow> 'a \<Rightarrow> 'a"
    and since :: nat
  assumes saved: "since \<le> v \<Longrightarrow> length (enc x) \<le> room \<Longrightarrow>
      save x (sw_writer v out room) = (True, x, sw_writer v (out @ enc x) (room - length (enc x)))"
    and loaded: "since \<le> v \<Longrightarrow> fits y x \<Longrightarrow> save y (sw_reader v (enc x @ rest)) = (True, merge y x, sw_reader v rest)"
begin

lemma saved_then_loaded:
  assumes "since \<le> v" and "length (enc x) \<le> room" and "fits y x"
  shows "save y (sw_reader v (sw_stream (snd (snd (save x (sw_writer v [] room)))))) = (True, merge y x, sw_reader v [])"
  using loaded [OF assms(1,3), of "[]"] by (simp add: saved [OF assms(1,2)]) (simp add: sw_writer_def)

end

definition flag_byte :: "bool \<Rightarrow> u8 list" where
  "flag_byte b = le_bytes (of_bool b :: u8)"

lemma length_flag_byte [simp]: "length (flag_byte b) = 1"
  by (simp add: flag_byte_def)

lemmas flag_rules = bool_codec.written [folded flag_byte_def] bool_codec.read_back [folded flag_byte_def]

text \<open>A field of an enumeration comes back when it has a name.\<close>

lemmas field_rules = u8_codec.written u16_codec.written u32_codec.written s32_codec.written
  u8_codec.read_back u16_codec.read_back u32_codec.read_back s32_codec.read_back flag_rules
  u8_codec.array_written u8_codec.array_read_back u8_enum [THEN codec.written] u32_enum [THEN codec.written]
  u8_enum [THEN codec.read_back] u32_enum [THEN codec.read_back]

subsection \<open>Memory cards\<close>

definition card_bytes :: "memory_card \<Rightarrow> u8 list" where
  "card_bytes c = le_bytes (card_State_code (card_state c)) @ le_bytes (card_FLAG c) @ le_bytes (card_address c) @
     le_bytes (card_sector_offset c) @ le_bytes (card_checksum c) @ le_bytes (card_last_byte c) @
     concat (map le_bytes (card_data c)) @ flag_byte (card_changed c)"

definition card_named :: "memory_card \<Rightarrow> bool" where
  "card_named c \<longleftrightarrow> card_state c \<in> set card_State_names"

lemma card_named_code:
  assumes "card_named c"
  shows "enum_of card_State_names CUnnamed (card_State_code (card_state c)) = card_state c"
proof -
  have "card_State_code (card_state c) = of_nat (enum_code card_State_names (card_state c))"
    using assms by (cases "card_state c") (simp_all add: card_named_def card_State_names_def)
  moreover have "length card_State_names \<le> 255" by (simp add: card_State_names_def)
  ultimately show ?thesis using enum_of_code [of "card_state c" card_State_names CUnnamed] assms by (simp add: card_named_def)
qed

interpretation card_saver: state_saver "\<lambda>c sw. fst (card_DoState c sw s)" card_bytes
  "\<lambda>d c. card_named c \<and> length (card_data d) = length (card_data c)"
  "\<lambda>d c. c\<lparr>card_save_event := card_save_event d, card_filename := card_filename d\<rparr>" 0
  for s :: "'a host_state_scheme"
proof
  fix c d :: memory_card and v room out rest
  show "fst (card_DoState c (sw_writer v out room) s) =
      (True, c, sw_writer v (out @ card_bytes c) (room - length (card_bytes c)))"
    if "length (card_bytes c) \<le> room"
    using that by (simp add: card_DoState_def card_bytes_def field_rules)
  show "fst (card_DoState d (sw_reader v (card_bytes c @ rest)) s) =
      (True, c\<lparr>card_save_event := card_save_event d, card_filename := card_filename d\<rparr>, sw_reader v rest)"
    if "card_named c \<and> length (card_data d) = length (card_data c)"
    using that by (simp add: card_DoState_def card_bytes_def field_rules card_named_code list_all2_conv_all_nth
        SaveIfChanged_def Let_def case_prod_beta)
qed

subsection \<open>Controllers\<close>

text \<open>Without \<open>apply_input_state\<close> the buttons are read and thrown away: only the state of the transfer comes back.\<close>

lemma named_codes:
  "t \<in> set digital_names \<Longrightarrow> enum_of digital_names DigUnnamed (digital_code t) = t"
  "m \<in> set mouse_names \<Longrightarrow> enum_of mouse_names MouUnnamed (mouse_code m) = m"
  "n \<in> set negcon_names \<Longrightarrow> enum_of negcon_names NegUnnamed (negcon_code n) = n"
  "g \<in> set guncon_names \<Longrightarrow> enum_of guncon_names GunUnnamed (guncon_code g) = g"
  "j \<in> set joystick_names \<Longrightarrow> enum_of joystick_names JoyUnnamed (joystick_code j) = j"
  "k \<in> set cc_Command_names \<Longrightarrow> enum_of cc_Command_names CmdUnnamed (cc_Command_code k) = k"
  "x \<in> set tap_names \<Longrightarrow> enum_of tap_names TapUnnamed (tap_code x) = x"
  by (auto simp: enum_of_def digital_names_def mouse_names_def negcon_names_def guncon_names_def joystick_names_def
      cc_Command_names_def tap_names_def)

definition command_bytes :: "'a command_controller_scheme \<Rightarrow> u8 list" where
  "command_bytes c = le_bytes (cc_Command_code (cc_command c)) @ concat (map le_bytes (cc_rumble_config c)) @
     le_bytes (word_of_int (cc_large_motor_index c) :: u32) @ le_bytes (word_of_int (cc_small_motor_index c) :: u32) @
     flag_byte (cc_analog_toggle_queued c) @ concat (map le_bytes (cc_motor_state c))"

fun controller_bytes :: "controller \<Rightarrow> u8 list" where
  "controller_bytes (DigitalController c) = le_bytes (dig_button_state c) @ le_bytes (digital_code (dig_transfer_state c))"
| "controller_bytes (PlayStationMouse c) = le_bytes (mou_button_state c) @ le_bytes (mou_delta_x c) @ le_bytes (mou_delta_y c) @ le_bytes (mouse_code (mou_transfer_state c))"
| "controller_bytes (NeGcon c) = le_bytes (neg_button_state c) @ le_bytes (negcon_code (neg_transfer_state c))"
| "controller_bytes (NamcoGunCon c) = le_bytes (gun_button_state c) @ le_bytes (gun_position_x c) @ le_bytes (gun_position_y c) @ le_bytes (guncon_code (gun_transfer_state c))"
| "controller_bytes (AnalogJoystick c) = flag_byte (joy_analog_mode c) @ le_bytes (joy_button_state c) @
     concat (map le_bytes (joy_axis_state c)) @ le_bytes (joystick_code (joy_transfer_state c))"
| "controller_bytes (AnalogController c) = flag_byte (cc_analog_mode c) @ flag_byte (cc_dualshock_enabled c) @
     flag_byte (ac_legacy_rumble_unlocked c) @ flag_byte (cc_configuration_mode c) @ le_bytes (ac_command_param c) @
     le_bytes (cc_status_byte c) @ le_bytes (cc_button_state c) @ command_bytes c"
| "controller_bytes (NeGconRumble c) = flag_byte (cc_analog_mode c) @ flag_byte (cc_dualshock_enabled c) @
     flag_byte (cc_configuration_mode c) @ le_bytes (cc_status_byte c) @ le_bytes (cc_button_state c) @ command_bytes c"

text \<open>What the stream holds of \<open>c\<close>, in \<open>d\<close>.\<close>

definition command_merge :: "'a command_controller_scheme \<Rightarrow> 'a command_controller_scheme \<Rightarrow> 'a command_controller_scheme" where
  "command_merge d c = d\<lparr>cc_command := cc_command c, cc_dualshock_enabled := cc_dualshock_enabled c,
     cc_configuration_mode := cc_configuration_mode c, cc_status_byte := cc_status_byte c,
     cc_rumble_config := cc_rumble_config c, cc_large_motor_index := cc_large_motor_index c,
     cc_small_motor_index := cc_small_motor_index c, cc_analog_toggle_queued := cc_analog_toggle_queued c,
     cc_motor_state := cc_motor_state c\<rparr>"

fun controller_merge :: "controller \<Rightarrow> controller \<Rightarrow> controller" where
  "controller_merge (DigitalController d) (DigitalController c) = DigitalController (d\<lparr>dig_transfer_state := dig_transfer_state c\<rparr>)"
| "controller_merge (PlayStationMouse d) (PlayStationMouse c) = PlayStationMouse (d\<lparr>mou_transfer_state := mou_transfer_state c\<rparr>)"
| "controller_merge (NeGcon d) (NeGcon c) = NeGcon (d\<lparr>neg_transfer_state := neg_transfer_state c\<rparr>)"
| "controller_merge (NamcoGunCon d) (NamcoGunCon c) = NamcoGunCon (d\<lparr>gun_transfer_state := gun_transfer_state c\<rparr>)"
| "controller_merge (AnalogJoystick d) (AnalogJoystick c) =
     AnalogJoystick (d\<lparr>joy_analog_mode := joy_analog_mode c, joy_transfer_state := joy_transfer_state c\<rparr>)"
| "controller_merge (AnalogController d) (AnalogController c) =
     AnalogController (command_merge d c\<lparr>ac_command_param := ac_command_param c,
       ac_legacy_rumble_unlocked := ac_legacy_rumble_unlocked c\<rparr>)"
| "controller_merge (NeGconRumble d) (NeGconRumble c) = NeGconRumble (command_merge d c)"
| "controller_merge d c = d"

definition command_named :: "'a command_controller_scheme \<Rightarrow> bool" where
  "command_named c \<longleftrightarrow> cc_command c \<in> set cc_Command_names \<and> length (cc_rumble_config c) = 6 \<and>
     length (cc_motor_state c) = 2 \<and> - 1 \<le> cc_large_motor_index c \<and> cc_large_motor_index c < 6 \<and>
     - 1 \<le> cc_small_motor_index c \<and> cc_small_motor_index c < 6"

fun controller_fits :: "controller \<Rightarrow> controller \<Rightarrow> bool" where
  "controller_fits (DigitalController d) (DigitalController c) \<longleftrightarrow> dig_transfer_state c \<in> set digital_names"
| "controller_fits (PlayStationMouse d) (PlayStationMouse c) \<longleftrightarrow> mou_transfer_state c \<in> set mouse_names"
| "controller_fits (NeGcon d) (NeGcon c) \<longleftrightarrow> neg_transfer_state c \<in> set negcon_names"
| "controller_fits (NamcoGunCon d) (NamcoGunCon c) \<longleftrightarrow> gun_transfer_state c \<in> set guncon_names"
| "controller_fits (AnalogJoystick d) (AnalogJoystick c) \<longleftrightarrow>
     length (joy_axis_state d) = length (joy_axis_state c) \<and> joy_transfer_state c \<in> set joystick_names"
| "controller_fits (AnalogController d) (AnalogController c) \<longleftrightarrow>
     command_named c \<and> length (cc_rumble_config d) = 6 \<and> length (cc_motor_state d) = 2"
| "controller_fits (NeGconRumble d) (NeGconRumble c) \<longleftrightarrow>
     command_named c \<and> length (cc_rumble_config d) = 6 \<and> length (cc_motor_state d) = 2"
| "controller_fits d c \<longleftrightarrow> False"

lemma motor_words:
  assumes "length ms = 2" and "length (cc_motor_state d) = 2"
  shows "SetMotorState (Suc 0) (ms ! Suc 0) (SetMotorState 0 (ms ! 0) d) = d\<lparr>cc_motor_state := ms\<rparr>"
proof -
  obtain a b where "ms = [a, b]" using assms(1) by (cases ms; cases "tl ms") auto
  moreover obtain x y where "cc_motor_state d = [x, y]" using assms(2) by (cases "cc_motor_state d"; cases "tl (cc_motor_state d)") auto
  ultimately show ?thesis by (simp add: SetMotorState_def)
qed

lemma index_word: "- 1 \<le> i \<Longrightarrow> i < 6 \<Longrightarrow> sint (word_of_int i :: u32) = i"
  by (simp add: sint_sbintrunc' signed_take_bit_int_eq_self)

lemma analog_saved:
  fixes c d :: analog_controller
  assumes "55 \<le> v"
  shows "length (controller_bytes (AnalogController c)) \<le> room \<Longrightarrow> analog_DoState False c (sw_writer v out room) =
      (True, c, sw_writer v (out @ controller_bytes (AnalogController c)) (room - length (controller_bytes (AnalogController c))))"
    and "controller_fits (AnalogController d) (AnalogController c) \<Longrightarrow>
      analog_DoState False d (sw_reader v (controller_bytes (AnalogController c) @ rest)) =
        (True, command_merge d c\<lparr>ac_command_param := ac_command_param c,
           ac_legacy_rumble_unlocked := ac_legacy_rumble_unlocked c\<rparr>, sw_reader v rest)"
proof -
  show "analog_DoState False c (sw_writer v out room) =
      (True, c, sw_writer v (out @ controller_bytes (AnalogController c)) (room - length (controller_bytes (AnalogController c))))"
    if "length (controller_bytes (AnalogController c)) \<le> room"
    using that assms by (simp add: analog_DoState_def DoEx_def add.assoc command_bytes_def field_rules)
  show "analog_DoState False d (sw_reader v (controller_bytes (AnalogController c) @ rest)) =
        (True, command_merge d c\<lparr>ac_command_param := ac_command_param c,
           ac_legacy_rumble_unlocked := ac_legacy_rumble_unlocked c\<rparr>, sw_reader v rest)"
    if "controller_fits (AnalogController d) (AnalogController c)"
    using that assms by (simp add: analog_DoState_def DoEx_def add.assoc command_bytes_def field_rules
      command_named_def named_codes index_word list_all2_conv_all_nth motor_words command_merge_def)
qed

lemma negcon_rumble_saved:
  fixes c d :: negcon_rumble
  assumes "55 \<le> v"
  shows "length (controller_bytes (NeGconRumble c)) \<le> room \<Longrightarrow> negcon_rumble_DoState False c (sw_writer v out room) =
      (True, c, sw_writer v (out @ controller_bytes (NeGconRumble c)) (room - length (controller_bytes (NeGconRumble c))))"
    and "controller_fits (NeGconRumble d) (NeGconRumble c) \<Longrightarrow>
      negcon_rumble_DoState False d (sw_reader v (controller_bytes (NeGconRumble c) @ rest)) =
        (True, command_merge d c, sw_reader v rest)"
proof -
  show "negcon_rumble_DoState False c (sw_writer v out room) =
      (True, c, sw_writer v (out @ controller_bytes (NeGconRumble c)) (room - length (controller_bytes (NeGconRumble c))))"
    if "length (controller_bytes (NeGconRumble c)) \<le> room"
    using that assms by (simp add: negcon_rumble_DoState_def DoEx_def add.assoc command_bytes_def field_rules)
  show "negcon_rumble_DoState False d (sw_reader v (controller_bytes (NeGconRumble c) @ rest)) =
        (True, command_merge d c, sw_reader v rest)"
    if "controller_fits (NeGconRumble d) (NeGconRumble c)"
    using that assms by (simp add: negcon_rumble_DoState_def DoEx_def add.assoc command_bytes_def field_rules
      command_named_def named_codes index_word list_all2_conv_all_nth motor_words command_merge_def)
qed

lemma controller_fits_type: "controller_fits d c \<Longrightarrow> GetType d = GetType c"
  by (cases d; cases c; simp)

lemmas simple_saves = digital_DoState_def mouse_DoState_def negcon_DoState_def guncon_DoState_def joystick_DoState_def

interpretation controller_saver: state_saver "controller_DoState False" controller_bytes controller_fits controller_merge 55
proof
  fix c d :: controller and v room :: nat and out rest
  assume v: "55 \<le> v"
  show "controller_DoState False c (sw_writer v out room) =
      (True, c, sw_writer v (out @ controller_bytes c) (room - length (controller_bytes c)))"
    if "length (controller_bytes c) \<le> room"
    using that
  proof (cases c)
    case (AnalogController a)
    then show ?thesis using that by (simp add: map_saved_def analog_saved(1) [OF v])
  next
    case (NeGconRumble n)
    then show ?thesis using that by (simp add: map_saved_def negcon_rumble_saved(1) [OF v])
  qed (simp_all add: map_saved_def simple_saves field_rules add.assoc)
  show "controller_DoState False d (sw_reader v (controller_bytes c @ rest)) = (True, controller_merge d c, sw_reader v rest)"
    if "controller_fits d c"
    using that analog_saved(2) [OF v] negcon_rumble_saved(2) [OF v]
    by (cases "(d, c)" rule: controller_fits.cases)
      (simp_all add: map_saved_def simple_saves field_rules named_codes list_all2_conv_all_nth)
qed

subsection \<open>Multitaps and registers\<close>

definition tap_bytes :: "multitap \<Rightarrow> u8 list" where
  "tap_bytes m = le_bytes (tap_code (tap_transfer_state m)) @ le_bytes (tap_selected_slot m) @
     le_bytes (tap_controller_transfer_step m) @ flag_byte (tap_invalid_transfer_all_command m) @
     flag_byte (tap_transfer_all_controllers m) @ flag_byte (tap_current_controller_done m) @
     concat (map le_bytes (tap_transfer_buffer m))"

definition tap_fits :: "multitap \<Rightarrow> multitap \<Rightarrow> bool" where
  "tap_fits d m \<longleftrightarrow> tap_transfer_state m \<in> set tap_names \<and> length (tap_transfer_buffer d) = length (tap_transfer_buffer m)"

definition tap_merge :: "multitap \<Rightarrow> multitap \<Rightarrow> multitap" where
  "tap_merge d m = m\<lparr>tap_base_index := tap_base_index d, tap_enabled := tap_enabled d\<rparr>"

interpretation tap_saver: state_saver tap_DoState tap_bytes tap_fits tap_merge 0
proof
  fix c d :: multitap and v room :: nat and out rest
  show "tap_DoState c (sw_writer v out room) = (True, c, sw_writer v (out @ tap_bytes c) (room - length (tap_bytes c)))"
    if "length (tap_bytes c) \<le> room"
    using that by (simp add: tap_DoState_def tap_bytes_def field_rules add.assoc)
  show "tap_DoState d (sw_reader v (tap_bytes c @ rest)) = (True, tap_merge d c, sw_reader v rest)" if "tap_fits d c"
    using that by (simp add: tap_DoState_def tap_bytes_def field_rules tap_fits_def named_codes list_all2_conv_all_nth
        tap_merge_def)
qed

definition register_bytes :: "'a pad_state_scheme \<Rightarrow> u8 list" where
  "register_bytes s = le_bytes (pad_State_code (m_pad_state s)) @ le_bytes (m_JOY_CTRL s) @ le_bytes (m_JOY_STAT s) @
     le_bytes (m_JOY_MODE s) @ le_bytes (m_JOY_BAUD s) @ le_bytes (m_receive_buffer s) @ le_bytes (m_transmit_buffer s) @
     flag_byte (m_receive_buffer_full s) @ flag_byte (m_transmit_buffer_full s)"

text \<open>The byte in transmission and the active device are not among the registers that are saved.\<close>

definition register_merge :: "'a pad_state_scheme \<Rightarrow> 'a pad_state_scheme \<Rightarrow> 'a pad_state_scheme" where
  "register_merge t s =
     (let t1 = t\<lparr>m_pad_state := m_pad_state s, m_JOY_CTRL := m_JOY_CTRL s, m_JOY_STAT := m_JOY_STAT s,
        m_JOY_MODE := m_JOY_MODE s, m_JOY_BAUD := m_JOY_BAUD s, m_receive_buffer := m_receive_buffer s,
        m_transmit_buffer := m_transmit_buffer s, m_receive_buffer_full := m_receive_buffer_full s,
        m_transmit_buffer_full := m_transmit_buffer_full s\<rparr>
      in if IsTransmitting t1 then Activate (m_transfer_event t1) t1 else t1)"

definition swap_result :: "bool \<times> 'b \<times> 'c \<Rightarrow> bool \<times> 'c \<times> 'b" where
  "swap_result r = (case r of (ok, x, y) \<Rightarrow> (ok, y, x))"

lemma pad_State_code_of: "x \<in> set pad_State_names \<Longrightarrow> pad_State_of (pad_State_code x) = x"
  by (auto simp: pad_State_names_def pad_State_of_def)

lemma own_registers:
  "s\<lparr>m_pad_state := m_pad_state s, m_JOY_CTRL := m_JOY_CTRL s, m_JOY_STAT := m_JOY_STAT s,
     m_JOY_MODE := m_JOY_MODE s, m_JOY_BAUD := m_JOY_BAUD s, m_receive_buffer := m_receive_buffer s,
     m_transmit_buffer := m_transmit_buffer s, m_receive_buffer_full := m_receive_buffer_full s,
     m_transmit_buffer_full := m_transmit_buffer_full s\<rparr> = s"
  by (cases s) simp

interpretation register_saver: state_saver "\<lambda>s sw. swap_result (pad_DoState_registers sw s)" register_bytes
  "\<lambda>t s. m_pad_state s \<in> set pad_State_names" register_merge 0
proof
  fix s t :: "'a pad_state_scheme" and v room :: nat and out rest
  show "swap_result (pad_DoState_registers (sw_writer v out room) s) =
      (True, s, sw_writer v (out @ register_bytes s) (room - length (register_bytes s)))"
    if "length (register_bytes s) \<le> room"
    using that
    by (simp add: pad_DoState_registers_def swap_result_def register_bytes_def field_rules add.assoc own_registers)
  show "swap_result (pad_DoState_registers (sw_reader v (register_bytes s @ rest)) t) =
      (True, register_merge t s, sw_reader v rest)" if "m_pad_state s \<in> set pad_State_names"
    using that by (simp add: pad_DoState_registers_def swap_result_def register_bytes_def field_rules pad_State_code_of
        register_merge_def Let_def)
qed

subsection \<open>Markers\<close>

definition marked :: "string \<Rightarrow> u8 list" where
  "marked m = le_bytes (of_nat (length m) :: u32) @ marker_bytes m"

lemma marker_saved:
  assumes "length m < 2 ^ 32" and "0 \<notin> set (marker_bytes m)"
  shows "length (marked m) \<le> room \<Longrightarrow> DoMarker m (sw_writer v out room) =
      (True, sw_writer v (out @ marked m) (room - length (marked m)))"
    and "DoMarker m (sw_reader v (marked m @ rest)) = (True, sw_reader v rest)"
proof -
  have u: "unat (of_nat (length m) :: u32) = length m" using assms(1) by (simp add: unat_of_nat)
  have l: "length (marker_bytes m) = length m" by (simp add: marker_bytes_def)
  have t: "takeWhile (\<lambda>b. b \<noteq> 0) (marker_bytes m) = marker_bytes m"
    using assms(2) by (auto intro!: takeWhile_eq_all_conv [THEN iffD2])
  show "length (marked m) \<le> room \<Longrightarrow> DoMarker m (sw_writer v out room) =
      (True, sw_writer v (out @ marked m) (room - length (marked m)))"
    by (simp add: DoMarker_def marked_def field_rules)
  show "DoMarker m (sw_reader v (marked m @ rest)) = (True, sw_reader v rest)"
    by (simp add: DoMarker_def marked_def field_rules u l t)
qed

lemma markers:
  "length ''Controller'' < 2 ^ 32" "0 \<notin> set (marker_bytes ''Controller'')"
  "length ''MemoryCard'' < 2 ^ 32" "0 \<notin> set (marker_bytes ''MemoryCard'')"
  by (simp_all add: marker_bytes_def of_char_def)

lemmas marker_rules = marker_saved [OF markers(1,2)] marker_saved [OF markers(3,4)]

subsection \<open>The ports\<close>

text \<open>The machine \<open>t\<close> a state of \<open>s\<close> is loaded into has the same devices in its ports.\<close>

definition controller_slot_bytes :: "controller option \<Rightarrow> u8 list" where
  "controller_slot_bytes c = (case c of None \<Rightarrow> le_bytes (0 :: u32)
     | Some d \<Rightarrow> le_bytes (GetType d) @ marked ''Controller'' @ controller_bytes d)"

definition card_slot_bytes :: "memory_card option \<Rightarrow> u8 list" where
  "card_slot_bytes m = (case m of None \<Rightarrow> flag_byte False
     | Some d \<Rightarrow> flag_byte True @ marked ''MemoryCard'' @ card_bytes d)"

definition slot_bytes :: "'a pad_state_scheme \<Rightarrow> nat \<Rightarrow> u8 list" where
  "slot_bytes s i = controller_slot_bytes (m_controllers s ! i) @ card_slot_bytes (m_memory_cards s ! i)"

definition slot_fits :: "'a pad_state_scheme \<Rightarrow> 'b pad_state_scheme \<Rightarrow> nat \<Rightarrow> bool" where
  "slot_fits t s i \<longleftrightarrow> rel_option controller_fits (m_controllers t ! i) (m_controllers s ! i) \<and>
     rel_option (\<lambda>d c. card_named c \<and> length (card_data d) = length (card_data c)) (m_memory_cards t ! i) (m_memory_cards s ! i)"

definition option_merge :: "('d \<Rightarrow> 'd \<Rightarrow> 'd) \<Rightarrow> 'd option \<Rightarrow> 'd option \<Rightarrow> 'd option" where
  "option_merge f d c = (case (d, c) of (Some x, Some y) \<Rightarrow> Some (f x y) | _ \<Rightarrow> d)"

definition card_merge :: "memory_card \<Rightarrow> memory_card \<Rightarrow> memory_card" where
  "card_merge d c = c\<lparr>card_save_event := card_save_event d, card_filename := card_filename d\<rparr>"

text \<open>The state after loading: a card of \<open>t\<close> that has changed is saved to its file first.\<close>

definition load_slot :: "'b pad_state_scheme \<Rightarrow> nat \<Rightarrow> 'a pad_state_scheme \<Rightarrow> 'a pad_state_scheme" where
  "load_slot s i t =
     (let t1 = set_controller i (option_merge controller_merge (m_controllers t ! i) (m_controllers s ! i)) t
      in case m_memory_cards t1 ! i of
           None \<Rightarrow> t1
         | Some d \<Rightarrow> set_card i (option_merge card_merge (Some d) (m_memory_cards s ! i)) (snd (snd (SaveIfChanged d t1))))"

lemma set_same [simp]: "set_controller i (m_controllers s ! i) s = s" "set_card i (m_memory_cards s ! i) s = s"
  by (cases s; simp add: set_controller_def set_card_def)+

lemma GetType_not_none: "GetType c \<noteq> 0"
  by (cases c) simp_all

lemma controller_slot:
  assumes "55 \<le> v"
  shows "length (controller_slot_bytes (m_controllers s ! i)) \<le> room \<Longrightarrow>
      pad_DoStateController i (sw_writer v out room) s =
        (True, sw_writer v (out @ controller_slot_bytes (m_controllers s ! i))
          (room - length (controller_slot_bytes (m_controllers s ! i))), s)"
    and "rel_option controller_fits (m_controllers t ! i) c \<Longrightarrow>
      pad_DoStateController i (sw_reader v (controller_slot_bytes c @ rest)) t =
        (True, sw_reader v rest, set_controller i (option_merge controller_merge (m_controllers t ! i) c) t)"
proof -
  show "pad_DoStateController i (sw_writer v out room) s =
        (True, sw_writer v (out @ controller_slot_bytes (m_controllers s ! i))
          (room - length (controller_slot_bytes (m_controllers s ! i))), s)"
    if "length (controller_slot_bytes (m_controllers s ! i)) \<le> room"
  proof (cases "m_controllers s ! i")
    case None
    then show ?thesis using that by (simp add: pad_DoStateController_def saved_type_def controller_slot_bytes_def field_rules)
  next
    case (Some c)
    then have "set_controller i (Some c) s = s" using set_same(1) [of i s] by simp
    then show ?thesis
      using that Some by (simp add: pad_DoStateController_def saved_type_def controller_slot_bytes_def field_rules marker_rules
          controller_saver.saved [OF assms] GetType_not_none add.assoc)
  qed
  show "pad_DoStateController i (sw_reader v (controller_slot_bytes c @ rest)) t =
        (True, sw_reader v rest, set_controller i (option_merge controller_merge (m_controllers t ! i) c) t)"
    if fits: "rel_option controller_fits (m_controllers t ! i) c"
  proof (cases c)
    case None
    then have n: "m_controllers t ! i = None" using fits by simp
    then have "set_controller i None t = t" using set_same(1) [of i t] by simp
    then show ?thesis
      using None n by (simp add: pad_DoStateController_def saved_type_def controller_slot_bytes_def field_rules option_merge_def)
  next
    case (Some d)
    then obtain e where e: "m_controllers t ! i = Some e" "controller_fits e d" using fits by (auto elim: option.rel_cases)
    then show ?thesis
      using Some controller_fits_type [OF e(2)]
      by (simp add: pad_DoStateController_def saved_type_def controller_slot_bytes_def field_rules marker_rules option_merge_def
          controller_saver.loaded [OF assms e(2)] GetType_not_none)
  qed
qed

lemma snd_card_DoState:
  "snd (card_DoState c sw s) = (if sw_IsReading sw then snd (snd (SaveIfChanged c s)) else s)"
  by (simp add: card_DoState_def Let_def case_prod_beta)

lemma card_slot:
  "length (card_slot_bytes (m_memory_cards s ! i)) \<le> room \<Longrightarrow>
     pad_DoStateMemcard ev i (sw_writer v out room) s =
       (True, sw_writer v (out @ card_slot_bytes (m_memory_cards s ! i)) (room - length (card_slot_bytes (m_memory_cards s ! i))), s)"
  "rel_option (\<lambda>d c. card_named c \<and> length (card_data d) = length (card_data c)) (m_memory_cards t ! i) m \<Longrightarrow>
     pad_DoStateMemcard ev i (sw_reader v (card_slot_bytes m @ rest)) t =
       (True, sw_reader v rest,
        case m_memory_cards t ! i of None \<Rightarrow> t
        | Some d \<Rightarrow> set_card i (option_merge card_merge (Some d) m) (snd (snd (SaveIfChanged d t))))"
proof -
  show "pad_DoStateMemcard ev i (sw_writer v out room) s =
       (True, sw_writer v (out @ card_slot_bytes (m_memory_cards s ! i)) (room - length (card_slot_bytes (m_memory_cards s ! i))), s)"
    if "length (card_slot_bytes (m_memory_cards s ! i)) \<le> room"
  proof (cases "m_memory_cards s ! i")
    case None
    then show ?thesis using that by (simp add: pad_DoStateMemcard_def card_slot_bytes_def field_rules)
  next
    case (Some c)
    then have "set_card i (Some c) s = s" using set_same(2) [of i s] by simp
    then show ?thesis
      using that Some card_saver.saved [where v = v and x = c and s = s] by (simp add: pad_DoStateMemcard_def card_slot_bytes_def field_rules
          marker_rules Let_def case_prod_beta snd_card_DoState add.assoc)
  qed
  show "pad_DoStateMemcard ev i (sw_reader v (card_slot_bytes m @ rest)) t =
       (True, sw_reader v rest,
        case m_memory_cards t ! i of None \<Rightarrow> t
        | Some d \<Rightarrow> set_card i (option_merge card_merge (Some d) m) (snd (snd (SaveIfChanged d t))))"
    if fits: "rel_option (\<lambda>d c. card_named c \<and> length (card_data d) = length (card_data c)) (m_memory_cards t ! i) m"
  proof (cases m)
    case None
    then show ?thesis using fits by (simp add: pad_DoStateMemcard_def card_slot_bytes_def field_rules)
  next
    case (Some c)
    then obtain d where d: "m_memory_cards t ! i = Some d" "card_named c \<and> length (card_data d) = length (card_data c)"
      using fits by (auto elim: option.rel_cases)
    then show ?thesis
      using Some card_saver.loaded [OF _ d(2), where v = v and s = t] by (simp add: pad_DoStateMemcard_def card_slot_bytes_def field_rules
          marker_rules Let_def case_prod_beta snd_card_DoState option_merge_def card_merge_def)
  qed
qed

text \<open>All the ports in turn.\<close>

lemma ports_saved:
  assumes "55 \<le> v" and "length (concat (map (slot_bytes s) js)) \<le> room"
  shows "pad_DoState_ports evs js (sw_writer v out room) s =
    (True, sw_writer v (out @ concat (map (slot_bytes s) js)) (room - length (concat (map (slot_bytes s) js))), s)"
  using assms(2)
proof (induction js arbitrary: out room)
  case (Cons i js)
  then show ?case
    using assms(1) by (simp add: controller_slot(1) card_slot(1) slot_bytes_def add.assoc)
qed simp

lemma SaveIfChanged_fields [simp]:
  "m_controllers (snd (snd (SaveIfChanged c s))) = m_controllers s" "m_multitaps (snd (snd (SaveIfChanged c s))) = m_multitaps s"
  "m_transmit_value (snd (snd (SaveIfChanged c s))) = m_transmit_value s"
  "m_active_device (snd (snd (SaveIfChanged c s))) = m_active_device s"
proof -
  have "m_transmit_value (Deactivate e s) = m_transmit_value s" for e
    using te_rest_fields(4) [OF te_rest_Deactivate [of e s]] by (cases s; cases "Deactivate e s"; simp)
  then show "m_controllers (snd (snd (SaveIfChanged c s))) = m_controllers s"
    "m_multitaps (snd (snd (SaveIfChanged c s))) = m_multitaps s"
    "m_transmit_value (snd (snd (SaveIfChanged c s))) = m_transmit_value s"
    "m_active_device (snd (snd (SaveIfChanged c s))) = m_active_device s"
    by (simp_all add: SaveIfChanged_def Let_def SaveImage_def case_prod_beta)
qed

lemma load_slot_fields:
  fixes s :: "'b pad_state_scheme" and t :: "'a pad_state_scheme" and i :: nat
  defines "u \<equiv> load_slot s i t"
  shows "m_controllers u = (m_controllers t)[i := option_merge controller_merge (m_controllers t ! i) (m_controllers s ! i)]"
    and "m_memory_cards u = (m_memory_cards t)[i := option_merge card_merge (m_memory_cards t ! i) (m_memory_cards s ! i)]"
    and "m_multitaps u = m_multitaps t" and "m_transmit_value u = m_transmit_value t" and "m_active_device u = m_active_device t"
  by (simp_all add: u_def load_slot_def Let_def set_controller_def set_card_def option_merge_def split: option.split)
    (metis list_update_id)

lemma ports_loaded:
  fixes s :: "'b pad_state_scheme" and t :: "'a pad_state_scheme"
  assumes "55 \<le> v" and "distinct js" and "list_all (slot_fits t s) js"
  shows "pad_DoState_ports evs js (sw_reader v (concat (map (slot_bytes s) js) @ rest)) t =
    (True, sw_reader v rest, fold (load_slot s) js t)"
  using assms(2,3)
proof (induction js arbitrary: t)
  case (Cons i js)
  let ?t1 = "set_controller i (option_merge controller_merge (m_controllers t ! i) (m_controllers s ! i)) t"
  have c: "rel_option controller_fits (m_controllers t ! i) (m_controllers s ! i)"
    "rel_option (\<lambda>d c. card_named c \<and> length (card_data d) = length (card_data c)) (m_memory_cards ?t1 ! i) (m_memory_cards s ! i)"
    using Cons.prems by (simp_all add: slot_fits_def set_controller_def)
  have l: "(case m_memory_cards ?t1 ! i of None \<Rightarrow> ?t1
      | Some d \<Rightarrow> set_card i (option_merge card_merge (Some d) (m_memory_cards s ! i)) (snd (snd (SaveIfChanged d ?t1)))) =
      load_slot s i t"
    by (simp add: load_slot_def Let_def)
  have other: "x \<in> set js \<Longrightarrow> i \<noteq> x" for x using Cons.prems(1) by auto
  have "list_all (slot_fits (load_slot s i t) s) js"
    using other Cons.prems by (simp add: list_all_iff slot_fits_def load_slot_fields)
  from Cons.IH [OF _ this] show ?case
    using Cons.prems assms(1) controller_slot(2) [OF assms(1) c(1)] card_slot(2) [OF c(2)]
    by (simp add: slot_bytes_def l)
qed simp

lemma loaded_ports:
  fixes s :: "'b pad_state_scheme" and t :: "'a pad_state_scheme" and j :: nat
  assumes "distinct js" and "list_all (\<lambda>i. i < length (m_controllers t) \<and> i < length (m_memory_cards t)) js"
  defines "u \<equiv> fold (load_slot s) js t"
  shows "length (m_controllers u) = length (m_controllers t) \<and> length (m_memory_cards u) = length (m_memory_cards t) \<and>
    m_multitaps u = m_multitaps t \<and> m_transmit_value u = m_transmit_value t \<and> m_active_device u = m_active_device t \<and>
    m_controllers u ! j = (if j \<in> set js then option_merge controller_merge (m_controllers t ! j) (m_controllers s ! j) else m_controllers t ! j) \<and>
    m_memory_cards u ! j = (if j \<in> set js then option_merge card_merge (m_memory_cards t ! j) (m_memory_cards s ! j) else m_memory_cards t ! j)"
  using assms(1,2) unfolding u_def
proof (induction js arbitrary: t)
  case (Cons i js)
  show ?case
    using Cons.IH [of "load_slot s i t"] Cons.prems by (auto simp: load_slot_fields nth_list_update)
qed simp

subsection \<open>The whole of the pads\<close>

definition pads_bytes :: "'a pad_state_scheme \<Rightarrow> u8 list" where
  "pads_bytes s = concat (map (slot_bytes s) [0..<NUM_CONTROLLER_AND_CARD_PORTS]) @
     tap_bytes (m_multitaps s ! 0) @ tap_bytes (m_multitaps s ! 1) @ register_bytes s"

definition pads_fit :: "'a pad_state_scheme \<Rightarrow> 'b pad_state_scheme \<Rightarrow> bool" where
  "pads_fit t s \<longleftrightarrow> list_all (slot_fits t s) [0..<NUM_CONTROLLER_AND_CARD_PORTS] \<and> tap_fits (m_multitaps t ! 0) (m_multitaps s ! 0) \<and>
     tap_fits (m_multitaps t ! 1) (m_multitaps s ! 1) \<and> m_pad_state s \<in> set pad_State_names"

lemma upd_tap_same: "upd_tap t (\<lambda>_. m_multitaps s ! t) s = s"
  by (cases s) (simp add: upd_tap_def modify_at_def)

lemma upd_tap_other: "t \<noteq> u \<Longrightarrow> m_multitaps (upd_tap t f s) ! u = m_multitaps s ! u"
  by (simp add: upd_tap_def modify_at_def)

lemma pads_saved:
  assumes "55 \<le> v" and "length (pads_bytes s) \<le> room"
  shows "pad_DoState evs (sw_writer v out room) s =
    (True, sw_writer v (out @ pads_bytes s) (room - length (pads_bytes s)), s)"
proof -
  have two: "[0..<NUM_MULTITAPS] = [0, 1]" by (simp add: NUM_MULTITAPS_def numeral_eq_Suc)
  have r: "pad_DoState_registers (sw_writer v out' room') s =
      (True, sw_writer v (out' @ register_bytes s) (room' - length (register_bytes s)), s)"
    if "length (register_bytes s) \<le> room'" for out' room'
    using register_saver.saved [OF _ that, of v out'] by (auto simp: swap_result_def split: prod.splits)
  show ?thesis
    using assms ports_saved [OF assms(1), where s = s and js = "[0..<NUM_CONTROLLER_AND_CARD_PORTS]" and room = room and out = out and evs = evs]
    by (simp add: pad_DoState_def two pads_bytes_def tap_saver.saved upd_tap_same
        r add.assoc)
qed

lemma pair_of_two: "length xs = 2 \<Longrightarrow> \<exists>a b. xs = [a, b]"
  by (cases xs; cases "tl xs") auto

lemma pads_loaded:
  fixes s t :: "'a pad_state_scheme"
  assumes "55 \<le> v" and "pads_fit t s" and "pads_ok t" and "pads_ok s"
  obtains u where "pad_DoState evs (sw_reader v (pads_bytes s @ rest)) t = (True, sw_reader v rest, register_merge u s)"
    and "m_controllers u = map2 (option_merge controller_merge) (m_controllers t) (m_controllers s)"
    and "m_memory_cards u = map2 (option_merge card_merge) (m_memory_cards t) (m_memory_cards s)"
    and "m_multitaps u = map2 tap_merge (m_multitaps t) (m_multitaps s)"
    and "m_transmit_value u = m_transmit_value t" and "m_active_device u = m_active_device t"
proof -
  define p where "p = fold (load_slot s) [0..<NUM_CONTROLLER_AND_CARD_PORTS] t"
  have two: "[0..<NUM_MULTITAPS] = [0, 1]" by (simp add: NUM_MULTITAPS_def numeral_eq_Suc)
  have len: "length (m_controllers t) = 8" "length (m_memory_cards t) = 8" "length (m_controllers s) = 8"
    "length (m_memory_cards s) = 8" "length (m_multitaps t) = 2" "length (m_multitaps s) = 2"
    using assms(3,4) by (simp_all add: pads_ok_def)
  have p: "pad_DoState_ports evs [0..<NUM_CONTROLLER_AND_CARD_PORTS] (sw_reader v (concat (map (slot_bytes s) [0..<NUM_CONTROLLER_AND_CARD_PORTS]) @ rest')) t =
      (True, sw_reader v rest', p)" for rest'
    unfolding p_def by (rule ports_loaded [OF assms(1)]) (use assms(2) in \<open>simp_all add: pads_fit_def\<close>)
  have all: "list_all (\<lambda>i. i < length (m_controllers t) \<and> i < length (m_memory_cards t)) [0..<NUM_CONTROLLER_AND_CARD_PORTS]"
    unfolding list_all_iff set_upt by (simp add: len NUM_CONTROLLER_AND_CARD_PORTS_def)
  have in_ports: "j \<in> set [0..<NUM_CONTROLLER_AND_CARD_PORTS] \<longleftrightarrow> j < 8" for j
    unfolding set_upt by (simp add: NUM_CONTROLLER_AND_CARD_PORTS_def)
  note q = loaded_ports [where s = s, OF distinct_upt all, folded p_def, unfolded in_ports]
  have taps: "m_multitaps p = m_multitaps t" using q [of 0] by (elim conjE)
  obtain a b c d where ab: "m_multitaps t = [a, b]" "m_multitaps s = [c, d]"
    using len(5,6) pair_of_two [of "m_multitaps t"] pair_of_two [of "m_multitaps s"] by blast
  define u where "u = p\<lparr>m_multitaps := [tap_merge a c, tap_merge b d]\<rparr>"
  have fits: "tap_fits a c" "tap_fits b d" "m_pad_state s \<in> set pad_State_names"
    using assms(2) by (simp_all add: pads_fit_def ab)
  have r: "pad_DoState_registers (sw_reader v (register_bytes s @ rest)) u = (True, sw_reader v rest, register_merge u s)"
    using register_saver.loaded [OF _ fits(3), where v = v and y = u and rest = rest] by (auto simp: swap_result_def split: prod.splits)
  have "pad_DoState_taps [0, 1] (sw_reader v (tap_bytes c @ tap_bytes d @ rest')) p = (True, sw_reader v rest', u)" for rest'
    using fits(1,2) by (simp add: tap_saver.loaded taps ab upd_tap_def modify_at_def u_def)
  then have "pad_DoState evs (sw_reader v (pads_bytes s @ rest)) t = (True, sw_reader v rest, register_merge u s)"
    using assms(1) by (simp add: pad_DoState_def two pads_bytes_def p ab r)
  moreover have "m_controllers u = map2 (option_merge controller_merge) (m_controllers t) (m_controllers s)"
    "m_memory_cards u = map2 (option_merge card_merge) (m_memory_cards t) (m_memory_cards s)"
    using q len by (auto simp: u_def intro!: nth_equalityI)
  moreover have "m_multitaps u = map2 tap_merge (m_multitaps t) (m_multitaps s)"
    "m_transmit_value u = m_transmit_value t" "m_active_device u = m_active_device t"
    using q [of 0] by (simp_all add: u_def ab)
  ultimately show thesis by (rule that)
qed

lemma te_rest_Activate: "te_rest (Activate e s) = te_rest s"
  by (simp add: Activate_def)

lemma register_merge_pads:
  "m_controllers (register_merge u s) = m_controllers u" "m_memory_cards (register_merge u s) = m_memory_cards u"
  "m_multitaps (register_merge u s) = m_multitaps u" "m_pad_state (register_merge u s) = m_pad_state s"
  "m_JOY_CTRL (register_merge u s) = m_JOY_CTRL s" "m_JOY_STAT (register_merge u s) = m_JOY_STAT s"
  "m_receive_buffer_full (register_merge u s) = m_receive_buffer_full s"
  "m_transmit_buffer_full (register_merge u s) = m_transmit_buffer_full s"
  "m_active_device (register_merge u s) = m_active_device u"
  by (simp_all add: register_merge_def Let_def pads_more_fields [OF te_rest_fields(4) [OF te_rest_Activate]])

end
