(* ===== verification/PadBoot.thy ===== *)
theory PadBoot
  imports PadSpec TimersClaims
begin

text \<open>
  The machine the instances of the properties start from, up to the serial port: a digital
  controller and a formatted memory card in the first slot, nothing in the others, no multitap.
\<close>

definition boot_input :: host_input where
  "boot_input = \<lparr>m_mouse_position_x = 0, m_mouse_position_y = 0, screen_to_beam = (\<lambda>x y. None),
     ticks_to_gun_units = ucast\<rparr>"

definition boot_card :: memory_card where
  "boot_card = card_Format (new_card 5)"

definition host_boot :: host_state where
  "host_boot = timers_state.extend timers_boot
     (host_state.fields 33868800 0 True False boot_input (\<lambda>_. None) (\<lambda>_. True))"

definition pad_boot :: pad_state where
  "pad_boot = host_state.extend host_boot
     (pad_state.fields ((replicate 8 None)[0 := Some (DigitalController digital_new)]) ((replicate 8 None)[0 := Some boot_card])
        [tap_new, tap_new] 4 PadIdle 0 0 0 0 ActiveNone 0 0 0 False False)"

definition sio_boot :: sio_state where
  "sio_boot = sio_SoftReset (pad_state.extend pad_boot (sio_state.fields 0 0 0 0))"

lemmas sio_run_defs = sio_boot_def sio_SoftReset_def pad_boot_def host_boot_def sio_state.defs pad_state.defs
  host_state.defs timers_state.defs irq_state.defs te_state.defs timers_boot_def te_boot_def

lemma boot_card_inv: "card_inv boot_card"
  unfolding boot_card_def
  by (rule card_inv_Format) (simp add: card_inv_def new_card_def set_no_write_yet_def FRAME_SIZE_def)

lemma boot_ports:
  "m_controllers sio_boot = Some (DigitalController digital_new) # replicate 7 None"
  "m_memory_cards sio_boot = Some boot_card # replicate 7 None" "m_multitaps sio_boot = [tap_new, tap_new]"
  by (simp_all add: sio_run_defs numeral_eq_Suc)

lemma pads_ok_boot: "pads_ok sio_boot"
  by (simp add: pads_ok_def boot_ports all_present_def list_all_iff boot_card_inv tap_ok_new)

end
