(* ===== verification/EventFlags.thy ===== *)
theory EventFlags
  imports EventRun
begin

text \<open>
  Which events are active after an operation of the queue: only \<open>Schedule\<close>, \<open>Activate\<close> and
  \<open>Deactivate\<close> change the flag of an event, and only of their own.
\<close>

lemma active_set_node [simp]:
  "te_active (te_nodes (set_node e f s) x) = (if x = e then te_active (f (te_nodes s e)) else te_active (te_nodes s x))"
  by (simp add: set_node_def)

lemma active_updates [simp]:
  "te_nodes (s_active_events_head_update h s) = te_nodes s" "te_nodes (s_active_events_tail_update h s) = te_nodes s"
  "te_nodes (s_active_event_count_update k s) = te_nodes s" "te_nodes (downcount_update d s) = te_nodes s"
  "te_nodes (UpdateCPUDowncount s) = te_nodes s"
  by (simp_all add: UpdateCPUDowncount_def split: option.split)

lemma active_links [simp]:
  "te_active (te_nodes (unlink e s) x) = te_active (te_nodes s x)"
  "te_active (te_nodes (insert_after c e s) x) = te_active (te_nodes s x)"
  "te_active (te_nodes (insert_before c e s) x) = te_active (te_nodes s x)"
  "te_active (te_nodes (insert_front e s) x) = te_active (te_nodes s x)"
  "te_active (te_nodes (insert_back e s) x) = te_active (te_nodes s x)"
  by (simp_all add: unlink_def insert_after_def insert_before_def insert_front_def insert_back_def Let_def split: option.split)

lemma active_queue [simp]:
  "te_active (te_nodes (SortEvent e s) x) = te_active (te_nodes s x)"
  "te_active (te_nodes (AddActiveEvent e s) x) = te_active (te_nodes s x)"
  "te_active (te_nodes (RemoveActiveEvent e s) x) = te_active (te_nodes s x)"
  by (simp_all add: SortEvent_def AddActiveEvent_def RemoveActiveEvent_def unlink_def Let_def split: option.split prod.split)

lemma active_Schedule [simp]: "te_active (te_nodes (Schedule e n s) x) \<longleftrightarrow> x = e \<or> te_active (te_nodes s x)"
  by (simp add: Schedule_def Let_def)

lemma active_Deactivate [simp]: "te_active (te_nodes (Deactivate e s) x) \<longleftrightarrow> x \<noteq> e \<and> te_active (te_nodes s x)"
  by (simp add: Deactivate_def)

lemma active_Activate [simp]: "te_active (te_nodes (Activate e s) x) \<longleftrightarrow> x = e \<or> te_active (te_nodes s x)"
  by (simp add: Activate_def)

lemma active_SetPeriodAndSchedule [simp]:
  "te_active (te_nodes (SetPeriodAndSchedule e n s) x) \<longleftrightarrow> x = e \<or> te_active (te_nodes s x)"
  "te_active (te_nodes (SetIntervalAndSchedule e n s) x) \<longleftrightarrow> x = e \<or> te_active (te_nodes s x)"
  by (simp_all add: SetPeriodAndSchedule_def SetIntervalAndSchedule_def SetInterval_def SetPeriod_def)

end
