(* ===== verification/PadClaims.thy ===== *)
theory PadClaims
  imports SavedState PadBoot EventFlags
begin

text \<open>
  The properties of the controller ports, the controllers, the memory cards and their save states.
\<close>

subsection \<open>Memory cards\<close>

text \<open>
  C17: a sector written to a memory card over the serial port is what is read back: after the 138
  bytes of the write command and the 140 of the read command, the 128 bytes of data are those that
  were written, the checksum byte is the exclusive or of the address and the data, the card is
  idle again, and every other sector of the image is as before.
\<close>
theorem memory_card_write_read:
  fixes s :: "'a host_state_scheme"
  assumes "card_inv mc" and "card_state mc = CIdle" and "unat a < 0x400" and "length ds = FRAME_SIZE"
  shows "let (ws, mc1, s1) = card_exchange (write_sequence a ds) mc s;
             (rs, mc2, s2) = card_exchange (read_sequence a) mc1 s1
         in take 130 (drop 10 rs) = map (Pair True) ds @ [(True, sector_checksum a ds), (True, 0x47)] \<and>
            card_state mc2 = CIdle \<and> card_data mc2 = on_frame (unat a) (\<lambda>_. ds) (card_data mc)"
proof -
  obtain ws mc1 s1 where w: "card_exchange (write_sequence a ds) mc s = (ws @ [(False, 0x47)], mc1, s1)"
    "card_inv mc1" "card_state mc1 = CIdle" "card_data mc1 = on_frame (unat a) (\<lambda>_. ds) (card_data mc)"
    using write_exchange [OF assms, of s] by blast
  have f: "get_frame (unat a) (card_data mc1) = ds"
    using assms get_on_frame [of "card_data mc" "unat a" "unat a" "\<lambda>_. ds"] by (simp add: w(4) card_inv_def)
  obtain rs mc2 where r: "card_exchange (read_sequence a) mc1 s1 =
      (rs @ map (Pair True) ds @ [(True, sector_checksum a ds), (True, 0x47)], mc2, s1)"
    "length rs = 10" "card_state mc2 = CIdle" "card_data mc2 = card_data mc1"
    using read_exchange [OF w(2,3) assms(3), of s1] by (metis f)
  show ?thesis using assms(4) by (simp add: w(1,4) r FRAME_SIZE_def)
qed

lemma memory_card_write_read_witness:
  "take 130 (drop 10 (fst (card_exchange (read_sequence 3)
      (fst (snd (card_exchange (write_sequence 3 (replicate 128 5)) boot_card sio_boot)))
      (snd (snd (card_exchange (write_sequence 3 (replicate 128 5)) boot_card sio_boot)))))) =
    map (Pair True) (replicate 128 5) @ [(True, sector_checksum 3 (replicate 128 5)), (True, 0x47)]"
  using memory_card_write_read [where mc = boot_card and s = sio_boot and a = 3 and ds = "replicate 128 5", OF boot_card_inv]
  by (simp only: Let_def case_prod_beta) (simp add: boot_card_def card_Format_def new_card_def set_no_write_yet_def FRAME_SIZE_def)

text \<open>
  In a formatted image every frame that holds data ends with its checksum, which covers the
  first 126 bytes; the other frames are all 0xFF.
\<close>
theorem formatted_card_checksums:
  assumes "length data = DATA_SIZE" and "f < 1024"
  defines "frame \<equiv> get_frame f (Format data)"
  shows "if f < 64 then frame ! 0x7F = GetChecksum frame else frame = replicate FRAME_SIZE 0xFF"
  using formatted_frames(2) [OF assms(1,2)] checksum_frames [of frame] by (auto simp: frame_def)

lemma formatted_card_checksums_witness:
  "get_frame 5 (Format (replicate DATA_SIZE 7)) ! 0x7F = GetChecksum (get_frame 5 (Format (replicate DATA_SIZE 7)))"
  using formatted_card_checksums [of "replicate DATA_SIZE 7" 5] by simp

subsection \<open>Controllers\<close>

text \<open>
  C22: a poll always ends: whatever bytes are sent, no controller of any class acknowledges more
  than eight of them in a row from a well-formed state, and it stays well formed.
\<close>
theorem controller_poll_ends:
  assumes "controller_ok c" and "list_all fst (fst (exchange (controller_Transfer h) bs c))"
  shows "length bs \<le> 8 \<and> controller_ok (snd (exchange (controller_Transfer h) bs c))"
  using controllers.acknowledged_most [OF assms] controllers.ok_exchange [OF assms(1)] by simp

lemma controller_poll_ends_witness:
  "length [0x01, 0x42, 0, 0 :: u8] \<le> 8 \<and>
   controller_ok (snd (exchange (controller_Transfer boot_input) [0x01, 0x42, 0, 0] (DigitalController digital_new)))"
  by (rule controller_poll_ends)
    (simp_all add: Let_def case_prod_beta digital_Transfer_def digital_new_def digital_ID_def map_reply_def)

subsection \<open>The transfer event\<close>

text \<open>The event of the port is active exactly while a byte is under way, and no card uses it to save.\<close>

definition transfer_scheduled :: "'a pad_state_scheme \<Rightarrow> bool" where
  "transfer_scheduled s \<longleftrightarrow> pads_ok s \<and> Some (m_transfer_event s) \<notin> set (card_events (m_memory_cards s)) \<and>
     (IsTransmitting s \<longleftrightarrow> te_active (te_nodes s (m_transfer_event s)))"

lemma set_node_pads [simp]:
  "m_memory_cards (set_node e f s) = m_memory_cards s" "m_controllers (set_node e f s) = m_controllers s"
  "m_multitaps (set_node e f s) = m_multitaps s" "m_transfer_event (set_node e f s) = m_transfer_event s"
  "m_pad_state (set_node e f s) = m_pad_state s"
  by (simp_all add: set_node_def)

lemma period_pads [simp]:
  "m_memory_cards (SetPeriodAndSchedule e n s) = m_memory_cards s" "m_controllers (SetPeriodAndSchedule e n s) = m_controllers s"
  "m_multitaps (SetPeriodAndSchedule e n s) = m_multitaps s"
  "m_transfer_event (SetPeriodAndSchedule e n s) = m_transfer_event s" "m_pad_state (SetPeriodAndSchedule e n s) = m_pad_state s"
  by (simp_all add: SetPeriodAndSchedule_def SetInterval_def SetPeriod_def)

lemmas SortEvent_pads [simp] = pads_more_fields [OF te_rest_fields(4) [OF te_rest_SortEvent]]

lemma InterruptRequest_pads [simp]:
  fixes s :: "'a pad_state_scheme"
  shows
  "m_memory_cards (InterruptRequest q s) = m_memory_cards s" "m_controllers (InterruptRequest q s) = m_controllers s"
  "m_multitaps (InterruptRequest q s) = m_multitaps s" "m_transfer_event (InterruptRequest q s) = m_transfer_event s"
  "m_pad_state (InterruptRequest q s) = m_pad_state s" "te_nodes (InterruptRequest q s) = te_nodes s"
proof -
  have m: "m_memory_cards (UpdateCPUInterruptRequest t) = m_memory_cards t \<and> m_controllers (UpdateCPUInterruptRequest t) = m_controllers t \<and>
      m_multitaps (UpdateCPUInterruptRequest t) = m_multitaps t \<and> m_transfer_event (UpdateCPUInterruptRequest t) = m_transfer_event t \<and>
      m_pad_state (UpdateCPUInterruptRequest t) = m_pad_state t" for t :: "'a pad_state_scheme"
    using irq_update_fields(9) [of t] by (cases t; cases "UpdateCPUInterruptRequest t"; simp)
  show "m_memory_cards (InterruptRequest q s) = m_memory_cards s" "m_controllers (InterruptRequest q s) = m_controllers s"
    "m_multitaps (InterruptRequest q s) = m_multitaps s" "m_transfer_event (InterruptRequest q s) = m_transfer_event s"
    "m_pad_state (InterruptRequest q s) = m_pad_state s" "te_nodes (InterruptRequest q s) = te_nodes s"
    by (simp_all add: InterruptRequest_def m)
qed

text \<open>A byte to a device, seen from the port: only a save event of a card is scheduled.\<close>

interpretation transfer_devices: pad_devices
  "\<lambda>s. pads_ok s \<and> m_transfer_event s = e \<and> Some e \<notin> set (card_events (m_memory_cards s)) \<and>
       te_active (te_nodes s e) = act \<and> m_pad_state s = ps" for e act ps
  by unfold_locales (auto simp: pads_ok_def)

lemma device_keeps:
  fixes b :: u8
  assumes "transfer_scheduled s"
  defines "s1 \<equiv> snd (snd (device_transfer b s))"
  shows "pads_ok s1" "m_transfer_event s1 = m_transfer_event s"
    "Some (m_transfer_event s) \<notin> set (card_events (m_memory_cards s1))"
    "te_active (te_nodes s1 (m_transfer_event s)) = te_active (te_nodes s (m_transfer_event s))" "m_pad_state s1 = m_pad_state s"
  using transfer_devices.device [of s "m_transfer_event s" "te_active (te_nodes s (m_transfer_event s))" "m_pad_state s" b] assms
  by (simp_all add: transfer_scheduled_def s1_def)

lemma scheduled_registers [simp]:
  "transfer_scheduled (s\<lparr>m_JOY_CTRL := c\<rparr>) = transfer_scheduled s" "transfer_scheduled (s\<lparr>m_JOY_STAT := st\<rparr>) = transfer_scheduled s"
  "transfer_scheduled (s\<lparr>m_JOY_MODE := c\<rparr>) = transfer_scheduled s" "transfer_scheduled (s\<lparr>m_JOY_BAUD := c\<rparr>) = transfer_scheduled s"
  "transfer_scheduled (s\<lparr>m_receive_buffer := b\<rparr>) = transfer_scheduled s" "transfer_scheduled (s\<lparr>m_transmit_buffer := b\<rparr>) = transfer_scheduled s"
  "transfer_scheduled (s\<lparr>m_receive_buffer_full := f\<rparr>) = transfer_scheduled s"
  "transfer_scheduled (s\<lparr>m_transmit_buffer_full := f\<rparr>) = transfer_scheduled s"
  "transfer_scheduled (s\<lparr>m_active_device := d\<rparr>) = transfer_scheduled s"
  "transfer_scheduled (UpdateJoyStat s) = transfer_scheduled s"
  "transfer_scheduled (SortEvent e s) = transfer_scheduled s"
  "transfer_scheduled (InterruptRequest q s) = transfer_scheduled s"
  by (simp_all add: transfer_scheduled_def pads_ok_def IsTransmitting_def UpdateJoyStat_def)

lemma scheduled_EndTransfer:
  "pads_ok s \<Longrightarrow> Some (m_transfer_event s) \<notin> set (card_events (m_memory_cards s)) \<Longrightarrow> transfer_scheduled (EndTransfer s)"
  by (simp add: transfer_scheduled_def EndTransfer_def IsTransmitting_def pads_ok_def)

lemma scheduled_BeginTransfer: "transfer_scheduled s \<Longrightarrow> transfer_scheduled (BeginTransfer s)"
  by (simp add: transfer_scheduled_def BeginTransfer_def Let_def IsTransmitting_def pads_ok_def)

lemma scheduled_DoTransfer:
  assumes "transfer_scheduled s"
  shows "transfer_scheduled (DoTransfer late s)"
proof -
  define s0 where "s0 = s\<lparr>m_JOY_CTRL := assign_bit 2 True (m_JOY_CTRL s)\<rparr>"
  have "transfer_scheduled s0" using assms by (simp add: s0_def)
  note k = device_keeps [OF this, of "m_transmit_value s0"]
  define s1 where "s1 = snd (snd (device_transfer (m_transmit_value s0) s0))"
  have e: "m_transfer_event s1 = m_transfer_event s" using k(2) by (simp add: s1_def s0_def)
  have "transfer_scheduled (EndTransfer (s1\<lparr>m_receive_buffer := d, m_receive_buffer_full := True, m_active_device := ActiveNone\<rparr>))" for d
    using k e by (intro scheduled_EndTransfer) (simp_all add: s1_def s0_def pads_ok_def)
  moreover have "transfer_scheduled (SetPeriodAndSchedule (m_transfer_event s1) n
      (s1\<lparr>m_receive_buffer := d, m_receive_buffer_full := True, m_pad_state := PadWaitingForACK\<rparr>))" for n d
    using k e by (simp add: transfer_scheduled_def IsTransmitting_def pads_ok_def s1_def s0_def)
  ultimately show ?thesis
    by (simp add: DoTransfer_def Let_def case_prod_beta s0_def [symmetric] s1_def [symmetric])
qed

lemma scheduled_end: "transfer_scheduled s \<Longrightarrow> transfer_scheduled (EndTransfer s)"
  by (rule scheduled_EndTransfer) (simp_all add: transfer_scheduled_def)

lemma scheduled_event: "transfer_scheduled s \<Longrightarrow> transfer_scheduled (transfer_callback ticks late s)"
  by (simp add: transfer_callback_def TransferEvent_def scheduled_DoTransfer DoACK_def Let_def scheduled_end scheduled_BeginTransfer)


lemma scheduled_reset_devices: "transfer_scheduled s \<Longrightarrow> transfer_scheduled (ResetDeviceTransferState s)"
proof -
  assume s: "transfer_scheduled s"
  then have "pads_ok s" by (simp add: transfer_scheduled_def)
  then have "pads_ok (ResetDeviceTransferState s)"
    by (auto simp: ResetDeviceTransferState_def pads_ok_def controllers.ok_reset list_all_iff card_inv_def FRAME_SIZE_def
        card_ResetTransferState_def intro!: all_present_map)
  moreover have "card_events (m_memory_cards (ResetDeviceTransferState s)) = card_events (m_memory_cards s)"
    by (simp add: ResetDeviceTransferState_def card_events_def option.map_comp comp_def)
  ultimately show "transfer_scheduled (ResetDeviceTransferState s)"
    using s by (simp add: transfer_scheduled_def IsTransmitting_def) (simp add: ResetDeviceTransferState_def)
qed

lemma scheduled_soft_reset: "transfer_scheduled s \<Longrightarrow> transfer_scheduled (pad_SoftReset s)"
  by (simp add: pad_SoftReset_def Let_def scheduled_end scheduled_reset_devices)

lemma scheduled_write_control: "transfer_scheduled s \<Longrightarrow> transfer_scheduled (write_JOY_CTRL v s)"
  by (simp add: write_JOY_CTRL_def Let_def scheduled_soft_reset scheduled_reset_devices scheduled_end scheduled_BeginTransfer)

lemma scheduled_InvokeEarly: "transfer_scheduled s \<Longrightarrow> transfer_scheduled (InvokeTransferEarly s)"
proof -
  assume s: "transfer_scheduled s"
  then have "transfer_scheduled (set_node (m_transfer_event s) (\<lambda>n. n\<lparr>te_downcount := x n, te_time_since_last_run := y n\<rparr>) s)" for x y
    by (simp add: transfer_scheduled_def IsTransmitting_def pads_ok_def)
  then show "transfer_scheduled (InvokeTransferEarly s)"
    using s by (simp add: InvokeTransferEarly_def InvokeEarly_def Let_def scheduled_event)
qed

text \<open>
  C19: a transfer is never lost and never left running: after every register access of the program
  and every run of the port's event, the event is active exactly while the port is transmitting or
  waiting for the acknowledge, so a byte that was sent is always completed by the event, and no
  event remains when the port is idle.
\<close>
theorem transmitting_iff_event_active:
  assumes "transfer_scheduled s"
    and "s1 \<in> {snd (pad_ReadRegister i s), pad_WriteRegister i v s, transfer_callback ticks late s, pad_SoftReset s}"
  shows "transfer_scheduled s1"
proof -
  have "transfer_scheduled (snd (pad_ReadRegister i s))"
    using assms(1) by (simp add: pad_ReadRegister_def Let_def scheduled_InvokeEarly)
  moreover have "transfer_scheduled (pad_WriteRegister i v s)"
    using assms(1) by (simp add: pad_WriteRegister_def Let_def scheduled_write_control scheduled_BeginTransfer)
  ultimately show ?thesis
    using assms by (auto simp: scheduled_event scheduled_soft_reset)
qed

lemma transmitting_iff_event_active_witness:
  "transfer_scheduled (pad_WriteRegister 0 0x1003 sio_boot)"
proof (rule transmitting_iff_event_active [where s = sio_boot and i = 0 and v = "0x1003" and ticks = 0 and late = 0])
  have "m_transfer_event sio_boot = 4" "card_save_event boot_card = 5" "\<not> IsTransmitting sio_boot"
    "\<not> te_active (te_nodes sio_boot 4)"
    by (simp_all add: sio_run_defs te_construct_def boot_card_def card_Format_def new_card_def set_no_write_yet_def
      IsTransmitting_def)
  then show "transfer_scheduled sio_boot"
    by (simp add: transfer_scheduled_def pads_ok_boot boot_ports card_events_def)
qed (simp only: insert_iff simp_thms)

subsection \<open>The DualShock\<close>


lemma exchange_append:
  "exchange xfer (as @ bs) d =
     (let (rs, d1) = exchange xfer as d; (rs', d2) = exchange xfer bs d1 in (rs @ rs', d2))"
  by (induction "as" arbitrary: d) (simp_all add: Let_def case_prod_beta)






lemma pad_bytes_keeps [simp]:
  "cc_rx_buffer (pad_bytes m order c) = cc_rx_buffer c" "cc_command (pad_bytes m order c) = cc_command c"
  "cc_command_step (pad_bytes m order c) = cc_command_step c" "cc_response_length (pad_bytes m order c) = cc_response_length c"
  "cc_configuration_mode (pad_bytes m order c) = cc_configuration_mode c" "cc_analog_mode (pad_bytes m order c) = cc_analog_mode c"
  "cc_analog_locked (pad_bytes m order c) = cc_analog_locked c" "ac_force_analog (pad_bytes m order c) = ac_force_analog c"
  "ac_digital_mode_extra_halfwords (pad_bytes m order c) = ac_digital_mode_extra_halfwords c"
  by (simp_all add: pad_bytes_def set_tx_def Let_def)









subsection \<open>Save states\<close>





subsection \<open>The multitap\<close>



lemma tap_controller_taps [simp]: "m_multitaps (snd (snd (tap_TransferController t slot b out s))) = m_multitaps s"
  by (simp add: tap_TransferController_def port_controller_Transfer_def set_controller_def map_reply_def split: option.split prod.split)




end
