(* ===== verification/Memory.thy ===== *)
theory Memory
  imports Prelude
begin

text \<open>
  Byte-addressed memory, little endian, as \<open>std::memcpy\<close> to and from \<open>Bus::g_ram\<close> sees it on
  the hosts the program supports. A memory is a function from 32-bit addresses; the code
  masks every address with the RAM size, and the lemmas on masked walks say that it stays
  inside. \<open>read_word\<close> after \<open>write_word\<close> is the locale \<open>word_memory\<close>, for aligned addresses.
\<close>

type_synonym mem = "u32 \<Rightarrow> u8"

definition word_of_bytes :: "u8 \<Rightarrow> u8 \<Rightarrow> u8 \<Rightarrow> u8 \<Rightarrow> u32" where
  "word_of_bytes b0 b1 b2 b3 =
     ucast b0 OR push_bit 8 (ucast b1) OR push_bit 16 (ucast b2) OR push_bit 24 (ucast b3)"

definition byte_of_word :: "nat \<Rightarrow> u32 \<Rightarrow> u8" where
  "byte_of_word k w = ucast (drop_bit (8 * k) w)"

definition read_word :: "mem \<Rightarrow> u32 \<Rightarrow> u32" where
  "read_word m a = word_of_bytes (m a) (m (a + 1)) (m (a + 2)) (m (a + 3))"

definition write_word :: "u32 \<Rightarrow> u32 \<Rightarrow> mem \<Rightarrow> mem" where
  "write_word a v m = m(a := byte_of_word 0 v, a + 1 := byte_of_word 1 v,
     a + 2 := byte_of_word 2 v, a + 3 := byte_of_word 3 v)"

lemma bit_word_of_bytes:
  "bit (word_of_bytes b0 b1 b2 b3) n \<longleftrightarrow>
    (if n < 8 then bit b0 n else if n < 16 then bit b1 (n - 8)
     else if n < 24 then bit b2 (n - 16) else bit b3 (n - 24))"
  by (auto simp: word_of_bytes_def bit_simps not_less dest: bit_imp_le_length)

lemma bit_byte_of_word: "bit (byte_of_word k w) n \<longleftrightarrow> n < 8 \<and> bit w (8 * k + n)"
  by (auto simp: byte_of_word_def bit_simps dest: bit_imp_le_length)

lemma word_of_bytes_of_word [simp]:
  "word_of_bytes (byte_of_word 0 w) (byte_of_word (Suc 0) w) (byte_of_word 2 w) (byte_of_word 3 w) = w"
  by (rule bit_word_eqI) (auto simp: bit_word_of_bytes bit_byte_of_word not_less)

lemma byte_of_word_of_bytes [simp]:
  "byte_of_word 0 (word_of_bytes b0 b1 b2 b3) = b0"
  "byte_of_word (Suc 0) (word_of_bytes b0 b1 b2 b3) = b1"
  "byte_of_word 2 (word_of_bytes b0 b1 b2 b3) = b2"
  "byte_of_word 3 (word_of_bytes b0 b1 b2 b3) = b3"
  by (rule bit_word_eqI, auto simp: bit_word_of_bytes bit_byte_of_word)+

subsection \<open>Aligned words\<close>

abbreviation aligned :: "u32 \<Rightarrow> bool" where
  "aligned a \<equiv> a AND 3 = 0"

lemma aligned_bits: "aligned a \<longleftrightarrow> \<not> bit a 0 \<and> \<not> bit a 1"
proof -
  have m: "(3 :: u32) = mask 2" by (simp add: mask_eq_exp_minus_1)
  have "a AND 3 = 0 \<longleftrightarrow> (\<forall>n. \<not> bit (a AND mask 2) n)"
    unfolding m by (metis bit_0_eq bit_word_eqI bot_apply bot_bool_def)
  also have "\<dots> \<longleftrightarrow> \<not> bit a 0 \<and> \<not> bit a 1"
    by (auto simp: bit_and_iff bit_mask_iff less_Suc_eq numeral_2_eq_2)
  finally show ?thesis .
qed

lemma unat_aligned: "aligned a \<longleftrightarrow> unat a mod 4 = 0"
proof -
  have m: "(3 :: u32) = mask 2" by (simp add: mask_eq_exp_minus_1)
  have "unat (a AND 3) = unat a mod 4"
    unfolding m by (simp only: flip: take_bit_eq_mask) (simp add: unsigned_take_bit_eq take_bit_eq_mod unat_mod)
  then show ?thesis by (simp add: word_unat_eq_iff)
qed

lemma aligned_add_unat:
  assumes "aligned a" and "k < 4"
  shows "unat (a + word_of_nat k) = unat a + k"
proof -
  have "unat a mod 4 = 0" using assms(1) by (simp only: unat_aligned)
  moreover have "unat a < 4294967296" using unsigned_less [of a] by simp
  ultimately have "unat a + k < 4294967296" using assms(2) by presburger
  moreover have "unat (word_of_nat k :: u32) = k" using assms(2) by (simp add: unat_of_nat)
  ultimately show ?thesis by (simp add: unat_word_ariths)
qed

lemma aligned_bytes_distinct:
  assumes a: "aligned a" and b: "aligned b" and k: "k < 4" "l < 4"
  shows "a + word_of_nat k = b + word_of_nat l \<longleftrightarrow> a = b \<and> k = l"
proof -
  have "unat a mod 4 = 0" "unat b mod 4 = 0" using a b by (simp_all only: unat_aligned)
  then have "unat a + k = unat b + l \<longleftrightarrow> unat a = unat b \<and> k = l" using k by presburger
  then show ?thesis
    using aligned_add_unat [OF a k(1)] aligned_add_unat [OF b k(2)]
    by (metis word_unat_eq_iff)
qed

lemmas aligned_offsets =
  aligned_bytes_distinct [where k = 0] aligned_bytes_distinct [where k = 1]
  aligned_bytes_distinct [where k = 2] aligned_bytes_distinct [where k = 3]

lemma write_word_nth:
  assumes a: "aligned a" and b: "aligned b" and l: "l < 4"
  shows "write_word a v m (b + word_of_nat l) = (if a = b then byte_of_word l v else m (b + word_of_nat l))"
proof -
  have "l = 0 \<or> l = 1 \<or> l = 2 \<or> l = 3" using l by arith
  then show ?thesis
    using aligned_bytes_distinct [OF b a l, of 0] aligned_bytes_distinct [OF b a l, of 1]
      aligned_bytes_distinct [OF b a l, of 2] aligned_bytes_distinct [OF b a l, of 3]
    by (elim disjE) (auto simp: write_word_def)
qed

lemma read_write_word:
  assumes "aligned a" and "aligned b"
  shows "read_word (write_word a v m) b = (if a = b then v else read_word m b)"
  using write_word_nth [OF assms, of 0] write_word_nth [OF assms, of 1]
    write_word_nth [OF assms, of 2] write_word_nth [OF assms, of 3]
  by (simp add: read_word_def)

subsection \<open>The contract of a word memory\<close>

locale word_memory =
  fixes rd :: "'m \<Rightarrow> 'a \<Rightarrow> 'v" and wr :: "'a \<Rightarrow> 'v \<Rightarrow> 'm \<Rightarrow> 'm" and ok :: "'a \<Rightarrow> bool"
  assumes rd_wr: "ok a \<Longrightarrow> ok b \<Longrightarrow> rd (wr a v m) b = (if a = b then v else rd m b)"
begin

text \<open>Writing a list of values at given addresses, in order.\<close>

fun wr_all :: "('a \<times> 'v) list \<Rightarrow> 'm \<Rightarrow> 'm" where
  "wr_all [] m = m"
| "wr_all ((a, v) # avs) m = wr_all avs (wr a v m)"

lemma wr_all_append: "wr_all (xs @ ys) m = wr_all ys (wr_all xs m)"
  by (induction xs arbitrary: m) auto

lemma rd_wr_all_out:
  "ok b \<Longrightarrow> (\<And>a v. (a, v) \<in> set avs \<Longrightarrow> ok a) \<Longrightarrow> b \<notin> fst ` set avs \<Longrightarrow> rd (wr_all avs m) b = rd m b"
proof (induction avs arbitrary: m)
  case (Cons av avs)
  obtain a v where av: "av = (a, v)" by (cases av)
  have a: "ok a" "b \<noteq> a" using Cons.prems av by auto
  then have "rd (wr_all avs (wr a v m)) b = rd (wr a v m) b"
    using Cons.prems av by (intro Cons.IH) auto
  then show ?case using a Cons.prems(1) av by (simp add: rd_wr)
qed simp

lemma rd_wr_all_in:
  "(\<And>a v. (a, v) \<in> set avs \<Longrightarrow> ok a) \<Longrightarrow> distinct (map fst avs) \<Longrightarrow> (b, w) \<in> set avs \<Longrightarrow>
    rd (wr_all avs m) b = w"
proof (induction avs arbitrary: m)
  case (Cons av avs)
  obtain a v where av: "av = (a, v)" by (cases av)
  show ?case
  proof (cases "(b, w) = (a, v)")
    case True
    then have "b \<notin> fst ` set avs" "ok b" using Cons.prems av by auto
    then show ?thesis
      using True av Cons.prems rd_wr_all_out [of b avs "wr a v m"] by (auto simp: rd_wr)
  next
    case False
    then have "(b, w) \<in> set avs" using Cons.prems av by auto
    then show ?thesis using Cons av by auto
  qed
qed simp

end

interpretation ram: word_memory read_word write_word aligned
  by unfold_locales (rule read_write_word)

end
