(* ===== verification/Dma.thy ===== *)
theory Dma
  imports Pad Sio Memory
begin

text \<open>
  The DMA controller (\<open>src/core/dma.cpp\<close>, \<open>src/core/dma.h\<close>): seven channels between RAM and
  the devices, in three modes, cut into slices by a timing event that halts and resumes the
  transfers. A transfer runs synchronously in the register write, request or event that
  starts it, and the devices it calls may call back \<open>SetRequest\<close>.

  The devices are code of other components: \<open>dma_env\<close> collects the functions of the GPU, the
  SPU, the MDEC and the CD-ROM that the controller calls, as functions on the whole
  machine state, so a device may change anything, the channel's own request included.
  Channel numbers are natural numbers below 7 (\<open>MDECin\<close> 0, \<open>MDECout\<close> 1, \<open>GPU\<close> 2, \<open>CDROM\<close> 3,
  \<open>SPU\<close> 4, \<open>PIO\<close> 5, \<open>OTC\<close> 6). A device that is read is given the function that stores words at
  the destination pointer, and calls it when it copies its words there: what it does not
  store keeps the old contents of RAM or of \<open>m_transfer_buffer\<close>. The pointer is assumed to
  stay valid (a nested transfer that reallocates the buffer would leave it dangling).
\<close>

subsection \<open>State\<close>

record channel_state =
  base_address :: u32
  block_control :: u32
  channel_control :: u32
  ch_request :: bool

abbreviation (input) copy_to_device :: "u32 \<Rightarrow> bool" where "copy_to_device c \<equiv> bit c 0"
abbreviation (input) address_step_reverse :: "u32 \<Rightarrow> bool" where "address_step_reverse c \<equiv> bit c 1"
abbreviation (input) dma_sync_mode :: "u32 \<Rightarrow> u32" where "dma_sync_mode c \<equiv> bf_get 9 2 c"
abbreviation (input) enable_busy :: "u32 \<Rightarrow> bool" where "enable_busy c \<equiv> bit c 24"
abbreviation (input) start_trigger :: "u32 \<Rightarrow> bool" where "start_trigger c \<equiv> bit c 28"

record dma_state = sio_state +
  m_dma :: "channel_state list"
  m_DPCR :: u32
  m_DICR :: u32
  m_max_slice_ticks :: tick_count
  m_halt_ticks :: tick_count
  m_halt_ticks_remaining :: tick_count
  g_ram :: mem
  g_ram_mask :: u32
  m_transfer_buffer :: "u32 list"

record 's dma_env =
  BeginDMAWrite :: "'s \<Rightarrow> bool \<times> 's"
  gpu_DMAWrite :: "u32 \<Rightarrow> u32 \<Rightarrow> 's \<Rightarrow> 's"
  EndDMAWrite :: "'s \<Rightarrow> 's"
  spu_DMAWrite :: "u32 list \<Rightarrow> 's \<Rightarrow> 's"
  mdec_DMAWrite :: "u32 list \<Rightarrow> 's \<Rightarrow> 's"
  gpu_DMARead :: "(u32 list \<Rightarrow> 's \<Rightarrow> 's) \<Rightarrow> nat \<Rightarrow> 's \<Rightarrow> 's"
  cdrom_DMARead :: "(u32 list \<Rightarrow> 's \<Rightarrow> 's) \<Rightarrow> nat \<Rightarrow> 's \<Rightarrow> 's"
  spu_DMARead :: "(u32 list \<Rightarrow> 's \<Rightarrow> 's) \<Rightarrow> nat \<Rightarrow> 's \<Rightarrow> 's"
  mdec_DMARead :: "(u32 list \<Rightarrow> 's \<Rightarrow> 's) \<Rightarrow> nat \<Rightarrow> 's \<Rightarrow> 's"
  InvalidateCodePages :: "u32 \<Rightarrow> nat \<Rightarrow> 's \<Rightarrow> 's"

abbreviation (input) CH_MDECin :: nat where "CH_MDECin \<equiv> 0"
abbreviation (input) CH_MDECout :: nat where "CH_MDECout \<equiv> 1"
abbreviation (input) CH_GPU :: nat where "CH_GPU \<equiv> 2"
abbreviation (input) CH_CDROM :: nat where "CH_CDROM \<equiv> 3"
abbreviation (input) CH_SPU :: nat where "CH_SPU \<equiv> 4"
abbreviation (input) CH_OTC :: nat where "CH_OTC \<equiv> 6"

text \<open>The address of \<open>m_unhalt_event\<close> in the event store.\<close>

definition m_unhalt_event :: nat where "m_unhalt_event = 1"

abbreviation chan :: "nat \<Rightarrow> 'a dma_state_scheme \<Rightarrow> channel_state" where
  "chan i s \<equiv> m_dma s ! i"

definition upd_chan :: "nat \<Rightarrow> (channel_state \<Rightarrow> channel_state) \<Rightarrow> 'a dma_state_scheme \<Rightarrow> 'a dma_state_scheme" where
  "upd_chan i f s = s\<lparr>m_dma := modify_at i f (m_dma s)\<rparr>"

definition GetAddressMask :: "'a dma_state_scheme \<Rightarrow> u32" where
  "GetAddressMask s = g_ram_mask s AND 0xFFFFFFFC"

definition GetWordCount :: "u32 \<Rightarrow> nat" where
  "GetWordCount bc = (if bf_get 0 16 bc = 0 then 0x10000 else unat (bf_get 0 16 bc))"

definition GetBlockSize :: "u32 \<Rightarrow> nat" where
  "GetBlockSize bc = (if bf_get 0 16 bc = 0 then 0x10000 else unat (bf_get 0 16 bc))"

definition GetBlockCount :: "u32 \<Rightarrow> nat" where
  "GetBlockCount bc = (if bf_get 16 16 bc = 0 then 0x10000 else unat (bf_get 16 16 bc))"

definition GetDMARAMTickCount :: "nat \<Rightarrow> tick_count" where
  "GetDMARAMTickCount word_count = int (word_count + (word_count + 15) div 16)"

definition DMA_BASE_ADDRESS_MASK :: u32 where "DMA_BASE_ADDRESS_MASK = 0x00FFFFFF"
definition CHANNEL_CONTROL_WRITE_MASK :: u32 where "CHANNEL_CONTROL_WRITE_MASK = 0x71770703"
definition DICR_WRITE_MASK :: u32 where "DICR_WRITE_MASK = 0x00FF803F"
definition DICR_RESET_MASK :: u32 where "DICR_RESET_MASK = 0x7F000000"

subsection \<open>Interrupts and enables\<close>

definition GetMasterEnable :: "nat \<Rightarrow> u32 \<Rightarrow> bool" where
  "GetMasterEnable ch dpcr \<longleftrightarrow> drop_bit (ch * 4 + 3) dpcr AND 1 \<noteq> 0"

definition IsIRQEnabled :: "nat \<Rightarrow> u32 \<Rightarrow> bool" where
  "IsIRQEnabled ch dicr \<longleftrightarrow> drop_bit (ch + 16) dicr AND 1 \<noteq> 0"

definition SetIRQFlag :: "nat \<Rightarrow> u32 \<Rightarrow> u32" where
  "SetIRQFlag ch dicr = dicr OR push_bit (ch + 24) 1"

definition UpdateMasterFlag :: "u32 \<Rightarrow> u32" where
  "UpdateMasterFlag dicr =
     assign_bit 31 (bit dicr 23 \<and> (drop_bit 16 dicr AND 0x7F) AND (drop_bit 24 dicr AND 0x7F) \<noteq> 0) dicr"

definition dma_UpdateIRQ :: "'a dma_state_scheme \<Rightarrow> 'a dma_state_scheme" where
  "dma_UpdateIRQ s =
     (let s1 = s\<lparr>m_DICR := UpdateMasterFlag (m_DICR s)\<rparr>
      in if bit (m_DICR s1) 31 then InterruptRequest (irq_number IRQ_DMA) s1 else s1)"

definition IsTransferHalted :: "'a dma_state_scheme \<Rightarrow> bool" where
  "IsTransferHalted s \<longleftrightarrow> te_active (te_nodes s m_unhalt_event)"

definition CanTransferChannel :: "nat \<Rightarrow> bool \<Rightarrow> 'a dma_state_scheme \<Rightarrow> bool" where
  "CanTransferChannel ch ignore_halt s \<longleftrightarrow>
     (if \<not> GetMasterEnable ch (m_DPCR s) then False
      else if \<not> enable_busy (channel_control (chan ch s)) then False
      else if dma_sync_mode (channel_control (chan ch s)) \<noteq> 0 \<and> IsTransferHalted s \<and> \<not> ignore_halt then False
      else ch_request (chan ch s))"

definition GetTransferSliceTicks :: "'a dma_state_scheme \<Rightarrow> tick_count" where
  "GetTransferSliceTicks s = (if IsTransmitting s then 100 else m_max_slice_ticks s)"

definition GetTransferHaltTicks :: "'a dma_state_scheme \<Rightarrow> tick_count" where
  "GetTransferHaltTicks s = (if IsTransmitting s then 100 else m_halt_ticks s)"

definition HaltTransfer :: "tick_count \<Rightarrow> 'a dma_state_scheme \<Rightarrow> 'a dma_state_scheme" where
  "HaltTransfer duration s =
     (let s1 = s\<lparr>m_halt_ticks_remaining := m_halt_ticks_remaining s + duration\<rparr>
      in if \<not> te_active (te_nodes s1 m_unhalt_event)
         then SetIntervalAndSchedule m_unhalt_event (m_halt_ticks_remaining s1) s1 else s1)"

subsection \<open>Moving words\<close>

text \<open>The masked walk: \<open>n\<close> words from \<open>address\<close>, each address masked after the step.\<close>

fun walk_addresses :: "u32 \<Rightarrow> u32 \<Rightarrow> nat \<Rightarrow> u32 \<Rightarrow> u32 list" where
  "walk_addresses mk increment 0 address = []"
| "walk_addresses mk increment (Suc n) address =
     address # walk_addresses mk increment n ((address + increment) AND mk)"

definition gather :: "mem \<Rightarrow> u32 \<Rightarrow> u32 \<Rightarrow> nat \<Rightarrow> u32 \<Rightarrow> u32 list" where
  "gather m mk increment n address = map (read_word m) (walk_addresses mk increment n address)"

fun scatter :: "u32 \<Rightarrow> u32 \<Rightarrow> u32 list \<Rightarrow> u32 \<Rightarrow> mem \<Rightarrow> mem" where
  "scatter mk increment [] address m = m"
| "scatter mk increment (v # vs) address m =
     scatter mk increment vs ((address + increment) AND mk) (write_word address v m)"

text \<open>Reading and writing an array of words in place, through a pointer into RAM.\<close>

definition read_words :: "mem \<Rightarrow> u32 \<Rightarrow> nat \<Rightarrow> u32 list" where
  "read_words m address n = map (\<lambda>i. read_word m (address + 4 * word_of_nat i)) [0..<n]"

fun write_words :: "u32 \<Rightarrow> u32 list \<Rightarrow> mem \<Rightarrow> mem" where
  "write_words address [] m = m"
| "write_words address (v # vs) m = write_words (address + 4) vs (write_word address v m)"

text \<open>The address after the walk, which the code leaves in \<open>address\<close>.\<close>

fun walk_end :: "u32 \<Rightarrow> u32 \<Rightarrow> nat \<Rightarrow> u32 \<Rightarrow> u32" where
  "walk_end mk increment 0 address = address"
| "walk_end mk increment (Suc n) address = walk_end mk increment n ((address + increment) AND mk)"

definition use_temp_buffer :: "u32 \<Rightarrow> u32 \<Rightarrow> u32 \<Rightarrow> nat \<Rightarrow> bool" where
  "use_temp_buffer mk address increment word_count \<longleftrightarrow>
     sint increment < 0 \<or> (address + increment * word_of_nat word_count) AND mk \<le> address"

text \<open>The transfer buffer grows and never shrinks; writing at its start keeps the rest.\<close>

definition resize_buffer :: "nat \<Rightarrow> u32 list \<Rightarrow> u32 list" where
  "resize_buffer n b = (if length b < n then b @ replicate (n - length b) 0 else b)"

definition overlay :: "u32 list \<Rightarrow> u32 list \<Rightarrow> u32 list" where
  "overlay vs b = vs @ drop (length vs) b"

text \<open>The GPU takes the words one at a time, reading RAM as it goes.\<close>

fun gpu_write_loop :: "('a dma_state_scheme) dma_env \<Rightarrow> u32 \<Rightarrow> u32 \<Rightarrow> nat \<Rightarrow> u32
    \<Rightarrow> 'a dma_state_scheme \<Rightarrow> 'a dma_state_scheme" where
  "gpu_write_loop env mk increment 0 address s = s"
| "gpu_write_loop env mk increment (Suc n) address s =
     gpu_write_loop env mk increment n ((address + increment) AND mk)
       (gpu_DMAWrite env address (read_word (g_ram s) address) s)"

definition TransferMemoryToDevice :: "('a dma_state_scheme) dma_env \<Rightarrow> nat \<Rightarrow> u32 \<Rightarrow> u32 \<Rightarrow> nat
    \<Rightarrow> 'a dma_state_scheme \<Rightarrow> tick_count \<times> 'a dma_state_scheme" where
  "TransferMemoryToDevice env ch address increment word_count s =
     (let mk = GetAddressMask s;
          temp = (ch \<noteq> CH_GPU \<and> use_temp_buffer mk address increment word_count);
          s0 = (if temp then s\<lparr>m_transfer_buffer := overlay (gather (g_ram s) mk increment word_count address)
                                 (resize_buffer word_count (m_transfer_buffer s))\<rparr> else s);
          src = (if temp then take word_count (m_transfer_buffer s0)
                 else read_words (g_ram s) address word_count);
          s' = (if ch = CH_GPU then
                  (let (ok, s1) = BeginDMAWrite env s0
                   in if ok then EndDMAWrite env (gpu_write_loop env mk increment word_count address s1)
                      else s1)
                else if ch = CH_SPU then spu_DMAWrite env src s0
                else if ch = CH_MDECin then mdec_DMAWrite env src s0
                else s0)
      in (GetDMARAMTickCount word_count, s'))"

text \<open>The ordering table: every entry points to the one below, the last is the terminator.\<close>

fun clear_table :: "u32 \<Rightarrow> nat \<Rightarrow> u32 \<Rightarrow> mem \<Rightarrow> mem" where
  "clear_table mk 0 address m = write_word address 0xFFFFFF m"
| "clear_table mk (Suc n) address m =
     clear_table mk n ((address - 4) AND mk) (write_word address ((address - 4) AND mk) m)"

definition device_read :: "('a dma_state_scheme) dma_env \<Rightarrow> nat \<Rightarrow> nat
    \<Rightarrow> (u32 list \<Rightarrow> 'a dma_state_scheme \<Rightarrow> 'a dma_state_scheme) \<Rightarrow> 'a dma_state_scheme \<Rightarrow> 'a dma_state_scheme" where
  "device_read env ch word_count put s =
     (if ch = CH_GPU then gpu_DMARead env put word_count s
      else if ch = CH_CDROM then cdrom_DMARead env put word_count s
      else if ch = CH_SPU then spu_DMARead env put word_count s
      else if ch = CH_MDECout then mdec_DMARead env put word_count s
      else put (replicate word_count 0xFFFFFFFF) s)"

text \<open>Storing words at the destination pointer: in the buffer, or in RAM.\<close>

definition put_buffer :: "u32 list \<Rightarrow> 'a dma_state_scheme \<Rightarrow> 'a dma_state_scheme" where
  "put_buffer vs s = s\<lparr>m_transfer_buffer := overlay vs (m_transfer_buffer s)\<rparr>"

definition put_ram :: "u32 \<Rightarrow> u32 list \<Rightarrow> 'a dma_state_scheme \<Rightarrow> 'a dma_state_scheme" where
  "put_ram address vs s = s\<lparr>g_ram := write_words address vs (g_ram s)\<rparr>"

definition TransferDeviceToMemory :: "('a dma_state_scheme) dma_env \<Rightarrow> nat \<Rightarrow> u32 \<Rightarrow> u32 \<Rightarrow> nat
    \<Rightarrow> 'a dma_state_scheme \<Rightarrow> tick_count \<times> 'a dma_state_scheme" where
  "TransferDeviceToMemory env ch address increment word_count s =
     (let mk = GetAddressMask s
      in if ch = CH_OTC then
           (GetDMARAMTickCount word_count,
            InvalidateCodePages env (walk_end mk (- 4) (word_count - 1) address) word_count
              (s\<lparr>g_ram := clear_table mk (word_count - 1) address (g_ram s)\<rparr>))
         else
           if use_temp_buffer mk address increment word_count then
             (let s1 = device_read env ch word_count put_buffer
                         (s\<lparr>m_transfer_buffer := resize_buffer word_count (m_transfer_buffer s)\<rparr>);
                  s2 = s1\<lparr>g_ram := scatter mk increment (take word_count (m_transfer_buffer s1)) address (g_ram s1)\<rparr>
              in (GetDMARAMTickCount word_count,
                  InvalidateCodePages env (walk_end mk increment word_count address) word_count s2))
           else
             (GetDMARAMTickCount word_count,
              InvalidateCodePages env address word_count
                (device_read env ch word_count (put_ram address) s)))"

definition transfer_block :: "('a dma_state_scheme) dma_env \<Rightarrow> bool \<Rightarrow> nat \<Rightarrow> u32 \<Rightarrow> u32 \<Rightarrow> nat
    \<Rightarrow> 'a dma_state_scheme \<Rightarrow> tick_count \<times> 'a dma_state_scheme" where
  "transfer_block env to_device ch address increment n s =
     (if to_device then TransferMemoryToDevice env ch address increment n s
      else TransferDeviceToMemory env ch address increment n s)"

subsection \<open>The transfer modes\<close>

lemma TransferMemoryToDevice_ticks [simp]:
  "fst (TransferMemoryToDevice env ch a inc n s) = GetDMARAMTickCount n"
  by (simp add: TransferMemoryToDevice_def Let_def)

lemma GetDMARAMTickCount_nonneg [simp]: "0 \<le> GetDMARAMTickCount n"
  by (simp add: GetDMARAMTickCount_def)

text \<open>
  The linked list: every node costs at least 10 ticks of the slice, so the loop ends. The
  result is the address of the next node.
\<close>

function linked_list_loop :: "('a dma_state_scheme) dma_env \<Rightarrow> nat \<Rightarrow> u32 \<Rightarrow> u32 \<Rightarrow> tick_count
    \<Rightarrow> 'a dma_state_scheme \<Rightarrow> u32 \<times> 'a dma_state_scheme" where
  "linked_list_loop env ch mk current_address remaining_ticks s =
     (if ch_request (chan ch s) \<and> remaining_ticks > 0 then
        (let header = read_word (g_ram s) (current_address AND mk);
             s1 = AddPendingTicks 10 s;
             word_count = unat (drop_bit 24 header);
             next_address = header AND 0x00FFFFFF;
             (used, s2) =
               (if word_count > 0 then
                  (let (block_ticks, s') = TransferMemoryToDevice env ch ((current_address + 4) AND mk) 4
                         word_count (AddPendingTicks 5 s1)
                   in (15 + block_ticks, AddPendingTicks block_ticks s'))
                else (10, s1))
         in if next_address AND 0x800000 \<noteq> 0 then (next_address, s2)
            else linked_list_loop env ch mk next_address (remaining_ticks - used) s2)
      else (current_address, s))"
  by pat_completeness auto
termination
proof (relation "measure (\<lambda>(env, ch, mk, a, r, s). nat r)", goal_cases)
  case (2 env ch mk a r s header s1 wc nxt us used s2)
  have "10 \<le> used"
    using 2(6,7) by (cases "wc > 0") (auto simp: case_prod_beta Let_def)
  then show ?case using 2(1) by simp
qed simp

declare linked_list_loop.simps [simp del]

fun request_loop :: "('a dma_state_scheme) dma_env \<Rightarrow> bool \<Rightarrow> nat \<Rightarrow> u32 \<Rightarrow> u32 \<Rightarrow> nat \<Rightarrow> nat \<Rightarrow> u32
    \<Rightarrow> tick_count \<Rightarrow> 'a dma_state_scheme \<Rightarrow> nat \<times> u32 \<times> 'a dma_state_scheme" where
  "request_loop env to_device ch mk increment block_size 0 current_address ticks_remaining s =
     (0, current_address, s)"
| "request_loop env to_device ch mk increment block_size (Suc blocks) current_address ticks_remaining s =
     (let (ticks, s1) = transfer_block env to_device ch (current_address AND mk) increment block_size s;
          s2 = AddPendingTicks ticks s1;
          next_address = current_address + increment * word_of_nat block_size
      in if ch_request (chan ch s2) \<and> blocks > 0 \<and> ticks_remaining - ticks > 0
         then request_loop env to_device ch mk increment block_size blocks next_address
                (ticks_remaining - ticks) s2
         else (blocks, next_address, s2))"

definition complete_transfer :: "nat \<Rightarrow> 'a dma_state_scheme \<Rightarrow> 'a dma_state_scheme" where
  "complete_transfer ch s =
     (let s1 = upd_chan ch (\<lambda>c. c\<lparr>channel_control := assign_bit 24 False (channel_control c)\<rparr>) s
      in if IsIRQEnabled ch (m_DICR s1)
         then dma_UpdateIRQ (s1\<lparr>m_DICR := SetIRQFlag ch (m_DICR s1)\<rparr>) else s1)"

definition manual_transfer :: "('a dma_state_scheme) dma_env \<Rightarrow> nat \<Rightarrow> 'a dma_state_scheme \<Rightarrow> bool \<times> 'a dma_state_scheme" where
  "manual_transfer env ch s =
     (let cs = chan ch s;
          increment = (if address_step_reverse (channel_control cs) then - 4 else 4);
          (used_ticks, s1) = transfer_block env (copy_to_device (channel_control cs)) ch
             (base_address cs AND GetAddressMask s) increment (GetWordCount (block_control cs)) s
      in (True, complete_transfer ch (AddPendingTicks used_ticks s1)))"

definition linked_list_transfer :: "('a dma_state_scheme) dma_env \<Rightarrow> nat \<Rightarrow> 'a dma_state_scheme \<Rightarrow> bool \<times> 'a dma_state_scheme" where
  "linked_list_transfer env ch s =
     (if \<not> copy_to_device (channel_control (chan ch s)) then (True, s)
      else
        let (current_address, s1) = linked_list_loop env ch (GetAddressMask s) (base_address (chan ch s))
              (GetTransferSliceTicks s) s;
            s2 = upd_chan ch (base_address_update (\<lambda>_. current_address)) s1
        in if current_address AND 0x800000 \<noteq> 0 then (True, complete_transfer ch s2)
           else if ch_request (chan ch s2) then (False, HaltTransfer (GetTransferHaltTicks s2) s2)
           else (True, s2))"

definition request_transfer :: "('a dma_state_scheme) dma_env \<Rightarrow> nat \<Rightarrow> 'a dma_state_scheme \<Rightarrow> bool \<times> 'a dma_state_scheme" where
  "request_transfer env ch s =
     (let cs = chan ch s;
          increment = (if address_step_reverse (channel_control cs) then - 4 else 4);
          (blocks_remaining, current_address, s1) =
             request_loop env (copy_to_device (channel_control cs)) ch (GetAddressMask s) increment
               (GetBlockSize (block_control cs)) (GetBlockCount (block_control cs)) (base_address cs)
               (GetTransferSliceTicks s) s;
          s2 = upd_chan ch (\<lambda>c. c\<lparr>base_address := current_address AND DMA_BASE_ADDRESS_MASK,
                 block_control := bf_set 16 16 (word_of_nat blocks_remaining) (block_control c)\<rparr>) s1
      in if blocks_remaining > 0 then
           (if ch_request (chan ch s2) then
              (False, if \<not> te_active (te_nodes s2 m_unhalt_event)
                      then HaltTransfer (GetTransferHaltTicks s2) s2 else s2)
            else (True, s2))
         else (True, complete_transfer ch s2))"

text \<open>The result is \<open>False\<close> when the transfers are to be halted.\<close>

definition TransferChannel :: "('a dma_state_scheme) dma_env \<Rightarrow> nat \<Rightarrow> 'a dma_state_scheme \<Rightarrow> bool \<times> 'a dma_state_scheme" where
  "TransferChannel env ch s =
     (let s1 = upd_chan ch (\<lambda>c. c\<lparr>channel_control := assign_bit 28 False (channel_control c)\<rparr>) s;
          mode = dma_sync_mode (channel_control (chan ch s1))
      in if mode = 0 then manual_transfer env ch s1
         else if mode = 2 then linked_list_transfer env ch s1
         else if mode = 1 then request_transfer env ch s1
         else (True, complete_transfer ch s1))"

text \<open>The channels in ascending order, until one of them halts the transfers.\<close>

fun transfer_channels :: "('a dma_state_scheme) dma_env \<Rightarrow> nat list \<Rightarrow> 'a dma_state_scheme \<Rightarrow> bool \<times> 'a dma_state_scheme" where
  "transfer_channels env [] s = (True, s)"
| "transfer_channels env (i # is) s =
     (if CanTransferChannel i False s then
        (let (go_on, s1) = TransferChannel env i s
         in if go_on then transfer_channels env is s1 else (False, s1))
      else transfer_channels env is s)"

definition UnhaltTransfer :: "('a dma_state_scheme) dma_env \<Rightarrow> tick_count \<Rightarrow> 'a dma_state_scheme \<Rightarrow> 'a dma_state_scheme" where
  "UnhaltTransfer env ticks s =
     (let s1 = Deactivate m_unhalt_event (s\<lparr>m_halt_ticks_remaining := m_halt_ticks_remaining s - ticks\<rparr>);
          (finished, s2) = transfer_channels env [0..<7] s1
      in if finished then s2\<lparr>m_halt_ticks_remaining := 0\<rparr> else s2)"

definition SetRequest :: "('a dma_state_scheme) dma_env \<Rightarrow> nat \<Rightarrow> bool \<Rightarrow> 'a dma_state_scheme \<Rightarrow> 'a dma_state_scheme" where
  "SetRequest env ch req s =
     (if ch_request (chan ch s) = req then s
      else let s1 = upd_chan ch (ch_request_update (\<lambda>_. req)) s
           in if CanTransferChannel ch False s1 then snd (TransferChannel env ch s1) else s1)"

subsection \<open>Registers\<close>

definition dma_ClearState :: "'a dma_state_scheme \<Rightarrow> 'a dma_state_scheme" where
  "dma_ClearState s =
     s\<lparr>m_dma := map (\<lambda>_. \<lparr>base_address = 0, block_control = 0, channel_control = 0, ch_request = False\<rparr>) (m_dma s),
       m_DPCR := 0x07654321, m_DICR := 0, m_halt_ticks_remaining := 0\<rparr>"

definition dma_Reset :: "'a dma_state_scheme \<Rightarrow> 'a dma_state_scheme" where
  "dma_Reset s = Deactivate m_unhalt_event (dma_ClearState s)"

definition dma_ReadRegister :: "u32 \<Rightarrow> 'a dma_state_scheme \<Rightarrow> u32" where
  "dma_ReadRegister offset s =
     (let i = unat (drop_bit 4 offset); port = offset AND 0x0F
      in if i < 7 then
           (if port = 0x00 then base_address (chan i s)
            else if port = 0x04 then block_control (chan i s)
            else if port = 0x08 then channel_control (chan i s)
            else 0xFFFFFFFF)
         else if offset = 0x70 then m_DPCR s
         else if offset = 0x74 then m_DICR s
         else 0xFFFFFFFF)"

definition write_DICR :: "u32 \<Rightarrow> u32 \<Rightarrow> u32" where
  "write_DICR val dicr =
     UpdateMasterFlag (masked_write DICR_WRITE_MASK dicr val AND NOT (val AND DICR_RESET_MASK))"

definition dma_WriteRegister :: "('a dma_state_scheme) dma_env \<Rightarrow> u32 \<Rightarrow> u32 \<Rightarrow> 'a dma_state_scheme \<Rightarrow> 'a dma_state_scheme" where
  "dma_WriteRegister env offset val s =
     (let i = unat (drop_bit 4 offset); port = offset AND 0x0F
      in if i < 7 then
           (if port = 0x00 then upd_chan i (base_address_update (\<lambda>_. val AND DMA_BASE_ADDRESS_MASK)) s
            else if port = 0x04 then upd_chan i (block_control_update (\<lambda>_. val)) s
            else if port = 0x08 then
              (let ignore_halt = (\<not> enable_busy (channel_control (chan i s)) \<and> bit val 24);
                   s1 = upd_chan i (\<lambda>c. c\<lparr>channel_control :=
                          masked_write CHANNEL_CONTROL_WRITE_MASK (channel_control c) val\<rparr>) s;
                   s2 = (if i = CH_OTC
                         then SetRequest env i (start_trigger (channel_control (chan i s1))) s1 else s1)
               in if CanTransferChannel i ignore_halt s2 then snd (TransferChannel env i s2) else s2)
            else s)
         else if offset = 0x70 then snd (transfer_channels env [0..<7] (s\<lparr>m_DPCR := val\<rparr>))
         else if offset = 0x74 then s\<lparr>m_DICR := write_DICR val (m_DICR s)\<rparr>
         else s)"

end
