(* ===== verification/DmaSpec.thy ===== *)
theory DmaSpec
  imports Dma PadBoot
begin

text \<open>
  Lemmas about the DMA controller: the masked walks through RAM, the ordering table, the
  interrupt register, and what a transfer preserves when the devices preserve it (the locale
  \<open>dma_devices\<close>).
\<close>

subsection \<open>Masked addresses\<close>

text \<open>The two RAM sizes the code sets up: 2 MB and 8 MB.\<close>

definition ram_bits :: "u32 \<Rightarrow> nat" where
  "ram_bits rm = (if rm = 0x7FFFFF then 23 else 21)"

definition ram_ok :: "'a dma_state_scheme \<Rightarrow> bool" where
  "ram_ok s \<longleftrightarrow> g_ram_mask s = 0x1FFFFF \<or> g_ram_mask s = 0x7FFFFF"

lemma GetAddressMask_bits:
  assumes "ram_ok s"
  shows "bit (GetAddressMask s) n \<longleftrightarrow> 2 \<le> n \<and> n < ram_bits (g_ram_mask s)"
proof -
  have a: "(0xFFFFFFFC :: u32) = NOT (mask 2)" and b: "(0x1FFFFF :: u32) = mask 21" and c: "(0x7FFFFF :: u32) = mask 23"
    by (simp_all add: mask_eq_exp_minus_1)
  show ?thesis
    using assms unfolding ram_ok_def
  proof (elim disjE)
    assume r: "g_ram_mask s = 0x1FFFFF"
    have k: "ram_bits (g_ram_mask s) = 21" by (simp add: ram_bits_def r)
    show ?thesis unfolding k unfolding GetAddressMask_def r a b bit_and_iff bit_not_iff bit_mask_iff by auto
  next
    assume r: "g_ram_mask s = 0x7FFFFF"
    have k: "ram_bits (g_ram_mask s) = 23" by (simp add: ram_bits_def r)
    show ?thesis unfolding k unfolding GetAddressMask_def r a c bit_and_iff bit_not_iff bit_mask_iff by auto
  qed
qed

definition dma_address :: "nat \<Rightarrow> u32 \<Rightarrow> bool" where
  "dma_address k a \<longleftrightarrow> aligned a \<and> unat a < 2 ^ k"

lemma ram_bits_cases: "ram_bits rm = 21 \<or> ram_bits rm = 23"
  by (simp add: ram_bits_def)

lemma and_mask_take_bit:
  assumes mk: "\<And>n. bit mk n \<longleftrightarrow> 2 \<le> n \<and> n < k" and a: "aligned a"
  shows "(a :: u32) AND mk = take_bit k a"
proof (rule bit_word_eqI)
  fix n
  have "bit a n \<Longrightarrow> 2 \<le> n"
    using a unfolding aligned_bits by (metis One_nat_def Suc_1 less_2_cases_iff not_less)
  then show "bit (a AND mk) n = bit (take_bit k a) n"
    by (auto simp: bit_and_iff mk bit_take_bit_iff)
qed

lemma aligned_add: "aligned a \<Longrightarrow> aligned b \<Longrightarrow> aligned (a + b)"
proof -
  assume "aligned a" "aligned b"
  then have m: "unat a mod 4 = 0" "unat b mod 4 = 0" by (simp_all only: unat_aligned)
  have "unat (a + b) mod 4 = (unat a + unat b) mod 4"
    by (simp add: unat_word_ariths mod_mod_cancel)
  also have "\<dots> = 0" using m by presburger
  finally show "aligned (a + b)" by (simp only: unat_aligned)
qed

lemma unat_and_mask:
  assumes mk: "\<And>n. bit mk n \<longleftrightarrow> 2 \<le> n \<and> n < k" and k: "k < 32" and a: "aligned a"
  shows "unat ((a :: u32) AND mk) = unat a mod 2 ^ k"
  by (simp only: and_mask_take_bit [OF mk a] unsigned_take_bit_eq) (simp only: take_bit_eq_mod)

lemma dma_address_and_mask:
  assumes mk: "\<And>n. bit mk n \<longleftrightarrow> 2 \<le> n \<and> n < k" and k: "2 \<le> k" "k < 32"
  shows "dma_address k (a AND mk)"
proof -
  have al: "aligned (a AND mk)"
    unfolding aligned_bits by (simp add: bit_and_iff mk)
  moreover have "(a AND mk) AND mk = a AND mk" by (simp add: and.assoc)
  then have "unat (a AND mk) = unat (a AND mk) mod 2 ^ k"
    using unat_and_mask [OF mk k(2) al] by simp
  then have "unat (a AND mk) < 2 ^ k" by (metis mod_less_divisor zero_less_numeral zero_less_power)
  ultimately show ?thesis by (simp add: dma_address_def)
qed

lemma dma_address_id:
  assumes mk: "\<And>n. bit mk n \<longleftrightarrow> 2 \<le> n \<and> n < k" and k: "k < 32" and a: "dma_address k a"
  shows "a AND mk = a"
  using unat_and_mask [OF mk k, of a] a by (simp add: dma_address_def word_unat_eq_iff)

lemma length_walk_addresses [simp]: "length (walk_addresses mk increment n a) = n"
  by (induction n arbitrary: a) auto

subsection \<open>The fast path\<close>

text \<open>
  When the transfer runs upwards and does not wrap, the masked walk visits consecutive words,
  so reading through a pointer into RAM gives the same words.
\<close>

lemma no_wrap_unat:
  assumes mk: "\<And>n. bit mk n \<longleftrightarrow> 2 \<le> n \<and> n < k" and k: "21 \<le> k" "k < 32"
    and a: "dma_address k a" and n: "n \<le> 0x10000" and t: "\<not> use_temp_buffer mk a 4 n"
  shows "unat a + 4 * n < 2 ^ k"
proof (rule ccontr)
  assume "\<not> unat a + 4 * n < 2 ^ k"
  then have ge: "2 ^ k \<le> unat a + 4 * n" by simp
  have U: "(2::nat) ^ 21 \<le> 2 ^ k" "(2::nat) ^ k \<le> 2 ^ 31"
    by (rule power_increasing; use k in simp)+
  have al: "aligned a" and lt: "unat a < 2 ^ k" using a by (simp_all add: dma_address_def)
  have n4: "unat (4 * word_of_nat n :: u32) = 4 * n"
    using n by (simp add: unat_word_ariths unat_of_nat)
  have "4 * n < 2 ^ 21" using n by simp
  then have s: "unat (a + 4 * word_of_nat n) = unat a + 4 * n"
    using n4 lt U by (simp add: unat_word_ariths)
  have al': "aligned (a + 4 * word_of_nat n)"
    using al by (intro aligned_add) (simp_all only: unat_aligned n4, simp)
  have "(unat a + 4 * n) mod 2 ^ k = unat a + 4 * n - 2 ^ k"
    using ge lt U \<open>4 * n < 2 ^ 21\<close> by (simp add: le_mod_geq)
  then have "unat ((a + 4 * word_of_nat n) AND mk) = unat a + 4 * n - 2 ^ k"
    using unat_and_mask [OF mk k(2) al'] s by simp
  also have "\<dots> \<le> unat a" using U \<open>4 * n < 2 ^ 21\<close> by simp
  finally have "use_temp_buffer mk a 4 n"
    by (simp add: use_temp_buffer_def word_le_nat_alt)
  then show False using t by simp
qed

lemma walk_addresses_consecutive:
  assumes mk: "\<And>n. bit mk n \<longleftrightarrow> 2 \<le> n \<and> n < k" and k: "2 \<le> k" "k < 32"
  shows "dma_address k a \<Longrightarrow> unat a + 4 * n < 2 ^ k \<Longrightarrow>
    walk_addresses mk 4 n a = map (\<lambda>i. a + 4 * word_of_nat i) [0..<n]"
proof (induction n arbitrary: a)
  case (Suc n)
  have U: "(2::nat) ^ k \<le> 2 ^ 31" by (rule power_increasing; use k in simp)
  have u: "unat (a + 4) = unat a + 4"
    using Suc.prems(2) U by (simp add: unat_word_ariths)
  have "aligned (a + 4)" using Suc.prems(1) by (intro aligned_add) (simp_all add: dma_address_def)
  then have d: "dma_address k (a + 4)" using Suc.prems(2) u by (simp add: dma_address_def)
  have "walk_addresses mk 4 (Suc n) a = a # map (\<lambda>i. (a + 4) + 4 * word_of_nat i) [0..<n]"
    using Suc.IH [OF d] Suc.prems(2) u dma_address_id [OF mk k(2) d] by simp
  also have "\<dots> = map (\<lambda>i. a + 4 * word_of_nat i) [0..<Suc n]"
    unfolding upt_conv_Cons [OF zero_less_Suc] map_Suc_upt [symmetric]
    by (simp add: algebra_simps o_def)
  finally show ?case .
qed simp

lemma read_words_gather:
  assumes mk: "\<And>n. bit mk n \<longleftrightarrow> 2 \<le> n \<and> n < k" and k: "21 \<le> k" "k < 32"
    and a: "dma_address k a" and n: "n \<le> 0x10000" and t: "\<not> use_temp_buffer mk a 4 n"
  shows "read_words m a n = gather m mk 4 n a"
  using walk_addresses_consecutive [OF mk _ k(2) a no_wrap_unat [OF mk k a n t]] k
  by (simp add: gather_def read_words_def o_def)

subsection \<open>The ordering table\<close>

text \<open>Entry \<open>i\<close> of the table that starts at \<open>a\<close> and runs downwards.\<close>

definition table_entry :: "u32 \<Rightarrow> u32 \<Rightarrow> nat \<Rightarrow> u32" where
  "table_entry mk a i = (a - 4 * word_of_nat i) AND mk"

lemma aligned_diff4: "aligned a \<Longrightarrow> aligned (a - 4 * word_of_nat i)"
proof -
  have m: "(3 :: u32) = mask 2" by (simp add: mask_eq_exp_minus_1)
  assume "aligned a"
  then have "take_bit 2 a = 0" unfolding m by (simp only: take_bit_eq_mask)
  then have d: "4 dvd a" by (simp add: take_bit_eq_0_iff)
  have "(4::u32) dvd a - 4 * word_of_nat i" using d by (intro dvd_diff dvd_triv_left)
  then have "take_bit 2 (a - 4 * word_of_nat i) = 0" by (simp add: take_bit_eq_0_iff)
  then show ?thesis unfolding m by (simp only: take_bit_eq_mask)
qed

lemma uint_and_mask:
  assumes mk: "\<And>n. bit mk n \<longleftrightarrow> 2 \<le> n \<and> n < k" and a: "aligned a"
  shows "uint ((a :: u32) AND mk) = uint a mod 2 ^ k"
  by (simp only: and_mask_take_bit [OF mk a] unsigned_take_bit_eq) (simp only: take_bit_eq_mod)

lemma uint_table_entry:
  assumes mk: "\<And>n. bit mk n \<longleftrightarrow> 2 \<le> n \<and> n < k" and k: "k \<le> 32" and a: "aligned a"
  shows "uint (table_entry mk a i) = (uint a - 4 * int i) mod 2 ^ k"
proof -
  have e: "a - 4 * word_of_nat i = word_of_int (uint a - 4 * int i)"
    by simp
  have d: "(2 :: int) ^ k dvd 2 ^ 32" using k by (rule le_imp_power_dvd)
  have "uint (table_entry mk a i) = uint (a - 4 * word_of_nat i) mod 2 ^ k"
    unfolding table_entry_def by (rule uint_and_mask [OF mk aligned_diff4 [OF a]])
  also have "\<dots> = ((uint a - 4 * int i) mod 2 ^ 32) mod 2 ^ k"
    unfolding e uint_word_of_int by simp
  also have "\<dots> = (uint a - 4 * int i) mod 2 ^ k"
    using d by (simp only: mod_mod_cancel)
  finally show ?thesis .
qed

lemma table_entry_aligned:
  assumes mk: "\<And>n. bit mk n \<longleftrightarrow> 2 \<le> n \<and> n < k"
  shows "aligned (table_entry mk a i)"
  unfolding aligned_bits table_entry_def by (simp add: bit_and_iff mk)

lemma table_entry_step:
  assumes mk: "\<And>n. bit mk n \<longleftrightarrow> 2 \<le> n \<and> n < k" and k: "k \<le> 32" and a: "aligned a"
  shows "(table_entry mk a i - 4) AND mk = table_entry mk a (Suc i)"
proof -
  have "(table_entry mk a i - 4) AND mk = table_entry mk (table_entry mk a i) 1"
    by (simp add: table_entry_def)
  moreover have "uint (table_entry mk (table_entry mk a i) 1) = uint (table_entry mk a (Suc i))"
    by (simp add: uint_table_entry [OF mk k table_entry_aligned [OF mk]] uint_table_entry [OF mk k a]
        mod_diff_left_eq algebra_simps)
  ultimately show ?thesis by (simp add: word_uint_eq_iff)
qed

lemma table_entry_inj:
  assumes mk: "\<And>n. bit mk n \<longleftrightarrow> 2 \<le> n \<and> n < k" and k: "k \<le> 32" and a: "aligned a"
    and n: "4 * n \<le> 2 ^ k" and i: "i < n" "j < n" and eq: "table_entry mk a i = table_entry mk a j"
  shows "i = j"
proof -
  have "(uint a - 4 * int i) mod 2 ^ k = (uint a - 4 * int j) mod 2 ^ k"
    using eq by (metis uint_table_entry [OF mk k a])
  then have "2 ^ k dvd (uint a - 4 * int i) - (uint a - 4 * int j)"
    by (simp only: mod_eq_dvd_iff)
  then have "2 ^ k dvd 4 * (int j - int i)" by (simp add: algebra_simps)
  moreover have "\<bar>4 * (int j - int i)\<bar> < 2 ^ k"
  proof -
    have "4 * int n \<le> 2 ^ k" using n by (metis of_nat_le_iff of_nat_mult of_nat_numeral of_nat_power)
    have "\<bar>int j - int i\<bar> < int n" using i by simp
    then have "4 * \<bar>int j - int i\<bar> < 4 * int n" by (simp only: mult_less_cancel_left_pos zero_less_numeral)
    then show ?thesis
      unfolding abs_mult abs_numeral using \<open>4 * int n \<le> 2 ^ k\<close> by (rule less_le_trans)
  qed
  ultimately have "4 * (int j - int i) = 0"
    using dvd_imp_le_int [of "4 * (int j - int i)" "2 ^ k"] by fastforce
  then show ?thesis by simp
qed

lemma clear_table_writes:
  assumes mk: "\<And>n. bit mk n \<longleftrightarrow> 2 \<le> n \<and> n < k" and k: "k \<le> 32" and a: "aligned a"
  shows "clear_table mk n (table_entry mk a j) m =
    ram.wr_all (map (\<lambda>i. (table_entry mk a i, table_entry mk a (Suc i))) [j..<j + n] @
      [(table_entry mk a (j + n), 0xFFFFFF)]) m"
proof (induction n arbitrary: j m)
  case (Suc n)
  have "clear_table mk (Suc n) (table_entry mk a j) m =
      clear_table mk n (table_entry mk a (Suc j))
        (write_word (table_entry mk a j) (table_entry mk a (Suc j)) m)"
    by (simp add: table_entry_step [OF mk k a])
  moreover have "[j..<j + Suc n] = j # [Suc j..<Suc j + n]" by (simp add: upt_conv_Cons)
  ultimately show ?case by (simp only: Suc.IH) simp
qed simp

lemma clear_table_spec:
  assumes mk: "\<And>n. bit mk n \<longleftrightarrow> 2 \<le> n \<and> n < k" and k: "k \<le> 32" and a: "dma_address k a"
    and n: "0 < n" "4 * n \<le> 2 ^ k"
  shows "i < n - 1 \<Longrightarrow> read_word (clear_table mk (n - 1) a m) (table_entry mk a i) = table_entry mk a (Suc i)"
    and "read_word (clear_table mk (n - 1) a m) (table_entry mk a (n - 1)) = 0xFFFFFF"
    and "aligned b \<Longrightarrow> (\<And>i. i < n \<Longrightarrow> b \<noteq> table_entry mk a i) \<Longrightarrow>
      read_word (clear_table mk (n - 1) a m) b = read_word m b"
proof -
  have al: "aligned a" using a by (simp add: dma_address_def)
  let ?e = "table_entry mk a"
  let ?ws = "map (\<lambda>i. (?e i, ?e (Suc i))) [0..<n - 1] @ [(?e (n - 1), 0xFFFFFF)]"
  have "uint (?e 0) = uint a"
  proof -
    have "int (unat a) < int (2 ^ k)"
      using a unfolding of_nat_less_iff dma_address_def by simp
    then have "uint a < 2 ^ k" by simp
    then show ?thesis using uint_table_entry [OF mk k al, of 0] by simp
  qed
  then have e0: "?e 0 = a" by (simp add: word_uint_eq_iff)
  have c: "clear_table mk (n - 1) a m = ram.wr_all ?ws m"
    using clear_table_writes [OF mk k al, of "n - 1" 0 m] by (simp add: e0)
  have ok: "\<And>x v. (x, v) \<in> set ?ws \<Longrightarrow> aligned x"
    using table_entry_aligned [OF mk] by auto
  have fs: "map fst ?ws = map ?e [0..<n]"
    using n(1) by (cases n) simp_all
  have "distinct (map ?e [0..<n])"
    using table_entry_inj [OF mk k al n(2)] by (auto simp: distinct_map inj_on_def)
  then have d: "distinct (map fst ?ws)" unfolding fs .
  have out: "fst ` set ?ws = ?e ` {..<n}"
    using arg_cong [OF fs, of set] by (simp only: set_map set_upt) auto
  show "i < n - 1 \<Longrightarrow> read_word (clear_table mk (n - 1) a m) (?e i) = ?e (Suc i)"
    unfolding c by (rule ram.rd_wr_all_in [OF ok d]) auto
  show "read_word (clear_table mk (n - 1) a m) (?e (n - 1)) = 0xFFFFFF"
    unfolding c by (rule ram.rd_wr_all_in [OF ok d]) auto
  show "aligned b \<Longrightarrow> (\<And>i. i < n \<Longrightarrow> b \<noteq> ?e i) \<Longrightarrow>
      read_word (clear_table mk (n - 1) a m) b = read_word m b"
    unfolding c by (rule ram.rd_wr_all_out [OF _ ok]) (simp_all only: out, auto)
qed

subsection \<open>The interrupt register\<close>

lemma bit_and_1: "(w AND 1 \<noteq> 0) \<longleftrightarrow> bit (w :: u32) 0"
  by (simp add: and_one_eq bit_0 even_iff_mod_2_eq_zero)

lemma IsIRQEnabled_bit: "IsIRQEnabled ch d \<longleftrightarrow> bit d (ch + 16)"
  unfolding IsIRQEnabled_def bit_and_1 by (simp add: bit_drop_bit_eq)

lemma GetMasterEnable_bit: "GetMasterEnable ch d \<longleftrightarrow> bit d (ch * 4 + 3)"
  unfolding GetMasterEnable_def bit_and_1 by (simp add: bit_drop_bit_eq)

lemma word_neq_0_bit: "(w :: u32) \<noteq> 0 \<longleftrightarrow> (\<exists>n. bit w n)"
  by (metis bit_0_eq bit_word_eqI bot_apply bot_bool_def)

text \<open>The master flag: the enable bit, and some channel with both its enable and its flag.\<close>

definition dicr_master :: "u32 \<Rightarrow> bool" where
  "dicr_master d \<longleftrightarrow> bit d 23 \<and> (\<exists>i < 7. bit d (16 + i) \<and> bit d (24 + i))"

lemma bit_UpdateMasterFlag:
  "bit (UpdateMasterFlag d) n \<longleftrightarrow> (if n = 31 then dicr_master d else bit d n)"
proof -
  have m: "(0x7F :: u32) = mask 7" by (simp add: mask_eq_exp_minus_1)
  have "((drop_bit 16 d AND 0x7F) AND (drop_bit 24 d AND 0x7F) \<noteq> 0) \<longleftrightarrow>
      (\<exists>i < 7. bit d (16 + i) \<and> bit d (24 + i))"
    unfolding m word_neq_0_bit bit_and_iff bit_mask_iff bit_drop_bit_eq
    by (auto intro: exI [of _ "_ :: nat"])
  then show ?thesis by (auto simp: UpdateMasterFlag_def dicr_master_def)
qed

lemma dicr_master_cong: "(\<And>n. n < 31 \<Longrightarrow> bit d n = bit e n) \<Longrightarrow> dicr_master d = dicr_master e"
  unfolding dicr_master_def by (intro conj_cong refl ex_cong1) auto

lemma dicr_master_UpdateMasterFlag [simp]: "dicr_master (UpdateMasterFlag d) = dicr_master d"
  by (rule dicr_master_cong) (simp add: bit_UpdateMasterFlag)

lemma DICR_masks:
  "bit DICR_WRITE_MASK n \<longleftrightarrow> n < 6 \<or> n = 15 \<or> (16 \<le> n \<and> n < 24)"
  "bit DICR_RESET_MASK n \<longleftrightarrow> 24 \<le> n \<and> n < 31"
proof -
  have w: "DICR_WRITE_MASK = mask 6 OR push_bit 15 (mask 9)" and r: "DICR_RESET_MASK = push_bit 24 (mask 7)"
    by (simp_all add: DICR_WRITE_MASK_def DICR_RESET_MASK_def mask_eq_exp_minus_1)
  show "bit DICR_WRITE_MASK n \<longleftrightarrow> n < 6 \<or> n = 15 \<or> (16 \<le> n \<and> n < 24)"
    unfolding w bit_or_iff bit_push_bit_iff bit_mask_iff by auto
  show "bit DICR_RESET_MASK n \<longleftrightarrow> 24 \<le> n \<and> n < 31"
    unfolding r bit_push_bit_iff bit_mask_iff by auto
qed

lemma bit_write_DICR:
  "n \<noteq> 31 \<Longrightarrow> bit (write_DICR val d) n \<longleftrightarrow>
    (if 24 \<le> n \<and> n < 31 then bit d n \<and> \<not> bit val n
     else if n < 6 \<or> n = 15 \<or> (16 \<le> n \<and> n < 24) then bit val n else bit d n)"
  "bit (write_DICR val d) 31 = dicr_master (write_DICR val d)"
proof -
  show "n \<noteq> 31 \<Longrightarrow> bit (write_DICR val d) n \<longleftrightarrow>
    (if 24 \<le> n \<and> n < 31 then bit d n \<and> \<not> bit val n
     else if n < 6 \<or> n = 15 \<or> (16 \<le> n \<and> n < 24) then bit val n else bit d n)"
    by (auto simp: write_DICR_def bit_UpdateMasterFlag bit_masked_write bit_and_iff bit_or_iff bit_not_iff DICR_masks
        dest: bit_imp_le_length)
  show "bit (write_DICR val d) 31 = dicr_master (write_DICR val d)"
    by (simp add: write_DICR_def bit_UpdateMasterFlag)
qed

lemma dma_InterruptRequest [simp]:
  fixes s :: "'a dma_state_scheme"
  shows "m_dma (InterruptRequest irq s) = m_dma s" "m_DICR (InterruptRequest irq s) = m_DICR s"
    "m_DPCR (InterruptRequest irq s) = m_DPCR s" "g_ram (InterruptRequest irq s) = g_ram s"
  using InterruptRequest_frame(8) [of irq s]
  by (cases s; cases "InterruptRequest irq s"; simp)+

lemma complete_transfer_spec:
  assumes "ch < length (m_dma s)" and "ch < 7"
  shows "\<not> enable_busy (channel_control (chan ch (complete_transfer ch s)))"
    and "IsIRQEnabled ch (m_DICR s) \<Longrightarrow> bit (m_DICR (complete_transfer ch s)) (ch + 24)"
    and "IsIRQEnabled ch (m_DICR s) \<Longrightarrow> bit (m_DICR s) 23 \<Longrightarrow>
      bit (m_interrupt_status_register (complete_transfer ch s)) 3"
    and "\<not> IsIRQEnabled ch (m_DICR s) \<Longrightarrow>
      m_DICR (complete_transfer ch s) = m_DICR s \<and>
      m_interrupt_status_register (complete_transfer ch s) = m_interrupt_status_register s"
proof -
  let ?s1 = "upd_chan ch (\<lambda>c. c\<lparr>channel_control := assign_bit 24 False (channel_control c)\<rparr>) s"
  let ?d = "SetIRQFlag ch (m_DICR s)"
  have u [simp]: "m_DICR ?s1 = m_DICR s" "m_interrupt_status_register ?s1 = m_interrupt_status_register s"
    "m_dma ?s1 = modify_at ch (\<lambda>c. c\<lparr>channel_control := assign_bit 24 False (channel_control c)\<rparr>) (m_dma s)"
    by (simp_all add: upd_chan_def)
  have d: "bit ?d n \<longleftrightarrow> bit (m_DICR s) n \<or> n = ch + 24" for n
    using assms(2) by (auto simp: SetIRQFlag_def bit_simps dest: bit_imp_le_length)
  show "\<not> enable_busy (channel_control (chan ch (complete_transfer ch s)))"
    using assms by (simp add: complete_transfer_def dma_UpdateIRQ_def Let_def nth_modify_at_same_length)
  show "\<not> IsIRQEnabled ch (m_DICR s) \<Longrightarrow>
      m_DICR (complete_transfer ch s) = m_DICR s \<and>
      m_interrupt_status_register (complete_transfer ch s) = m_interrupt_status_register s"
    by (simp add: complete_transfer_def Let_def)
  assume e: "IsIRQEnabled ch (m_DICR s)"
  then have eb: "bit (m_DICR s) (ch + 16)" by (simp only: IsIRQEnabled_bit)
  have m: "m_DICR (complete_transfer ch s) = UpdateMasterFlag ?d"
    using e by (simp add: complete_transfer_def dma_UpdateIRQ_def Let_def)
  show "bit (m_DICR (complete_transfer ch s)) (ch + 24)"
    using assms(2) d by (simp add: m bit_UpdateMasterFlag)
  assume "bit (m_DICR s) 23"
  then have "bit (UpdateMasterFlag ?d) 31"
    using d eb assms(2) by (auto simp: bit_UpdateMasterFlag dicr_master_def add.commute intro!: exI [of _ ch])
  then show "bit (m_interrupt_status_register (complete_transfer ch s)) 3"
    using e by (simp add: complete_transfer_def dma_UpdateIRQ_def Let_def status_InterruptRequest)
qed

subsection \<open>What the devices are asked to preserve\<close>

text \<open>
  A property of the machine that every device function the controller calls preserves, and
  that does not depend on the controller's own registers, the RAM or the pending ticks.
\<close>

locale dma_devices =
  fixes env :: "('a dma_state_scheme) dma_env" and P :: "'a dma_state_scheme \<Rightarrow> bool"
  assumes begin_write: "P s \<Longrightarrow> P (snd (BeginDMAWrite env s))"
    and gpu_write: "P s \<Longrightarrow> P (gpu_DMAWrite env a v s)"
    and end_write: "P s \<Longrightarrow> P (EndDMAWrite env s)"
    and spu_write: "P s \<Longrightarrow> P (spu_DMAWrite env vs s)"
    and mdec_write: "P s \<Longrightarrow> P (mdec_DMAWrite env vs s)"
    and gpu_read: "(\<And>vs s. P s \<Longrightarrow> P (put vs s)) \<Longrightarrow> P s \<Longrightarrow> P (gpu_DMARead env put n s)"
    and cdrom_read: "(\<And>vs s. P s \<Longrightarrow> P (put vs s)) \<Longrightarrow> P s \<Longrightarrow> P (cdrom_DMARead env put n s)"
    and spu_read: "(\<And>vs s. P s \<Longrightarrow> P (put vs s)) \<Longrightarrow> P s \<Longrightarrow> P (spu_DMARead env put n s)"
    and mdec_read: "(\<And>vs s. P s \<Longrightarrow> P (put vs s)) \<Longrightarrow> P s \<Longrightarrow> P (mdec_DMARead env put n s)"
    and invalidate: "P s \<Longrightarrow> P (InvalidateCodePages env a n s)"
    and own_fields: "P s \<Longrightarrow> P (s\<lparr>g_ram := m\<rparr>)" "P s \<Longrightarrow> P (s\<lparr>m_transfer_buffer := b\<rparr>)"
    and ticks: "P s \<Longrightarrow> P (AddPendingTicks t s)"
    and channels: "P s \<Longrightarrow> P (upd_chan i f s)"
begin

lemma gpu_write_loop: "P s \<Longrightarrow> P (gpu_write_loop env mk inc n a s)"
  by (induction n arbitrary: a s) (simp_all add: gpu_write)

lemma to_device: "P s \<Longrightarrow> P (snd (TransferMemoryToDevice env ch a inc n s))"
  by (simp add: TransferMemoryToDevice_def Let_def case_prod_beta begin_write end_write spu_write
      mdec_write gpu_write_loop own_fields)

lemma read: "(\<And>vs s. P s \<Longrightarrow> P (put vs s)) \<Longrightarrow> P s \<Longrightarrow> P (device_read env ch n put s)"
  by (simp add: device_read_def gpu_read cdrom_read spu_read mdec_read)

lemma to_memory: "P s \<Longrightarrow> P (snd (TransferDeviceToMemory env ch a inc n s))"
  by (simp add: TransferDeviceToMemory_def Let_def invalidate own_fields read put_buffer_def put_ram_def)

lemma block: "P s \<Longrightarrow> P (snd (transfer_block env d ch a inc n s))"
  by (simp add: transfer_block_def to_device to_memory)

lemma linked_list: "P s \<Longrightarrow> P (snd (linked_list_loop env ch mk a r s))"
proof (induction "nat r" arbitrary: a r s rule: less_induct)
  case less
  show ?case
  proof (cases "ch_request (chan ch s) \<and> r > 0")
    case True
    note step = linked_list_loop.simps [of env ch mk a r s]
    let ?w = "unat (drop_bit 24 (read_word (g_ram s) (a AND mk)))"
    have w: "P (AddPendingTicks t (snd (TransferMemoryToDevice env ch b 4 n (AddPendingTicks 5 (AddPendingTicks 10 s)))))"
      for t b n
      by (intro ticks to_device less.prems)
    have ih: "\<And>b t s'. 0 < t \<Longrightarrow> P s' \<Longrightarrow> P (snd (linked_list_loop env ch mk b (r - t) s'))"
      using True by (intro less.hyps) auto
    have p: "0 < 15 + GetDMARAMTickCount n" for n
      by (rule add_pos_nonneg) simp_all
    show ?thesis
      using True by (subst step) (simp add: Let_def case_prod_beta ih w p ticks [OF less.prems])
  next
    case False
    then show ?thesis using less.prems by (subst linked_list_loop.simps) (simp only: if_not_P snd_conv if_False)
  qed
qed

lemma request: "P s \<Longrightarrow> P (snd (snd (request_loop env d ch mk inc bs n a t s)))"
  by (induction n arbitrary: a t s) (simp_all add: Let_def case_prod_beta block ticks)

lemma update_irq:
  assumes "\<And>s f. P s \<Longrightarrow> P (m_DICR_update f s)" and "\<And>s irq. P s \<Longrightarrow> P (InterruptRequest irq s)"
  shows "P s \<Longrightarrow> P (dma_UpdateIRQ s)"
  by (simp add: dma_UpdateIRQ_def Let_def assms)

end

text \<open>
  The same with the interrupt register, the interrupt line and the events, for the whole of
  a transfer.
\<close>

locale dma_machine = dma_devices env P
  for env :: "('a dma_state_scheme) dma_env" and P :: "'a dma_state_scheme \<Rightarrow> bool" +
  assumes dicr: "P s \<Longrightarrow> P (m_DICR_update f s)"
    and irq: "P s \<Longrightarrow> P (InterruptRequest i s)"
    and halt: "P s \<Longrightarrow> P (HaltTransfer t s)"
begin

lemma complete: "P s \<Longrightarrow> P (complete_transfer ch s)"
  by (simp add: complete_transfer_def Let_def channels update_irq dicr irq)

lemma manual: "P s \<Longrightarrow> P (snd (manual_transfer env ch s))"
  by (simp add: manual_transfer_def Let_def case_prod_beta complete ticks block)

lemma list_mode: "P s \<Longrightarrow> P (snd (linked_list_transfer env ch s))"
  by (simp add: linked_list_transfer_def Let_def case_prod_beta complete halt channels linked_list)

lemma request_mode: "P s \<Longrightarrow> P (snd (request_transfer env ch s))"
  by (simp add: request_transfer_def Let_def case_prod_beta complete halt channels request)

lemma transfer: "P s \<Longrightarrow> P (snd (TransferChannel env ch s))"
  by (simp add: TransferChannel_def Let_def complete channels manual list_mode request_mode)

lemma all_channels: "P s \<Longrightarrow> P (snd (transfer_channels env is s))"
  by (induction "is" arbitrary: s) (simp_all add: case_prod_beta transfer)

lemma set_request: "P s \<Longrightarrow> P (SetRequest env ch req s)"
  by (simp add: SetRequest_def Let_def channels transfer)

end

subsection \<open>The length of a slice\<close>

text \<open>Devices that leave the CPU's pending ticks alone: then the slice is bounded.\<close>

definition steady_devices :: "('a dma_state_scheme) dma_env \<Rightarrow> bool" where
  "steady_devices env \<longleftrightarrow> (\<forall>s. pending_ticks (snd (BeginDMAWrite env s)) = pending_ticks s \<and>
     (\<forall>a v. pending_ticks (gpu_DMAWrite env a v s) = pending_ticks s) \<and>
     pending_ticks (EndDMAWrite env s) = pending_ticks s \<and>
     (\<forall>vs. pending_ticks (spu_DMAWrite env vs s) = pending_ticks s) \<and>
     (\<forall>vs. pending_ticks (mdec_DMAWrite env vs s) = pending_ticks s))"

lemma steady_gpu_loop:
  "steady_devices env \<Longrightarrow> pending_ticks (gpu_write_loop env mk inc n a s) = pending_ticks s"
  by (induction n arbitrary: a s) (simp_all add: steady_devices_def)

lemma steady_to_device:
  "steady_devices env \<Longrightarrow> pending_ticks (snd (TransferMemoryToDevice env ch a inc n s)) = pending_ticks s"
  using steady_gpu_loop [of env]
  by (simp add: TransferMemoryToDevice_def Let_def case_prod_beta steady_devices_def)

lemma pending_AddPendingTicks [simp]: "pending_ticks (AddPendingTicks t s) = pending_ticks s + t"
  by (simp add: AddPendingTicks_def)

lemma GetDMARAMTickCount_bound: "n \<le> 255 \<Longrightarrow> GetDMARAMTickCount n \<le> 271"
  unfolding GetDMARAMTickCount_def by simp

lemma byte3_less: "unat (drop_bit 24 (w :: u32)) < 256"
proof -
  have "unat w < 2 ^ 32" using unsigned_less [of w] by simp
  then show ?thesis by (simp add: drop_bit_eq_div unat_div)
qed

lemma linked_list_slice:
  assumes st: "steady_devices env" and r: "0 \<le> r"
  shows "pending_ticks s \<le> pending_ticks (snd (linked_list_loop env ch mk a r s))"
    and "pending_ticks (snd (linked_list_loop env ch mk a r s)) \<le> pending_ticks s + r + 285"
proof -
  have "pending_ticks s \<le> pending_ticks (snd (linked_list_loop env ch mk a r s)) \<and>
     pending_ticks (snd (linked_list_loop env ch mk a r s)) \<le> pending_ticks s + max 0 (r + 285)"
  proof (induction "nat r" arbitrary: a r s rule: less_induct)
    case less
    show ?case
    proof (cases "ch_request (chan ch s) \<and> r > 0")
      case True
      let ?w = "unat (drop_bit 24 (read_word (g_ram s) (a AND mk)))"
      have w: "GetDMARAMTickCount ?w \<le> 271"
        using byte3_less [of "read_word (g_ram s) (a AND mk)"] by (intro GetDMARAMTickCount_bound) linarith
      have z: "0 \<le> GetDMARAMTickCount ?w" by simp
      let ?nx = "read_word (g_ram s) (a AND mk) AND 0xFFFFFF"
      let ?ok = "\<lambda>x. pending_ticks s \<le> pending_ticks (snd x) \<and>
        pending_ticks (snd x) \<le> pending_ticks s + max 0 (r + 285)"
      have ih: "?ok (linked_list_loop env ch mk b (r - t) s')"
        if "0 < t" "t \<le> 286" "pending_ticks s' = pending_ticks s + t" for b t s'
        using less.hyps [of "r - t" s' b] True that by auto
      have node: "?ok (linked_list_loop env ch mk ?nx (r - (15 + GetDMARAMTickCount ?w))
          (AddPendingTicks (GetDMARAMTickCount ?w) (snd (TransferMemoryToDevice env ch ((a + 4) AND mk) 4 ?w
             (AddPendingTicks 5 (AddPendingTicks 10 s))))))"
      proof (intro ih)
        show "0 < 15 + GetDMARAMTickCount ?w" using z by linarith
      qed (use w in \<open>simp_all add: steady_to_device [OF st]\<close>)
      have empty: "?ok (linked_list_loop env ch mk ?nx (r - 10) (AddPendingTicks 10 s))"
        by (intro ih) simp_all
      have last: "?ok (b, AddPendingTicks (GetDMARAMTickCount ?w) (snd (TransferMemoryToDevice env ch ((a + 4) AND mk) 4 ?w
             (AddPendingTicks 5 (AddPendingTicks 10 s)))))" "?ok (b, AddPendingTicks 10 s)" for b
        using True w z by (simp_all add: steady_to_device [OF st])
      show ?thesis
        unfolding linked_list_loop.simps [of env ch mk a r s] if_P [OF True] Let_def case_prod_beta
        using node empty last
        by (cases "0 < ?w"; cases "?nx AND 0x800000 \<noteq> 0")
          (simp_all only: if_True if_False fst_conv snd_conv not_False_eq_True not_True_eq_False
             TransferMemoryToDevice_ticks simp_thms)
    next
      case False
      then show ?thesis
        by (subst (1 2) linked_list_loop.simps) (simp only: if_not_P snd_conv if_False, simp)
    qed
  qed
  then show "pending_ticks s \<le> pending_ticks (snd (linked_list_loop env ch mk a r s))"
    and "pending_ticks (snd (linked_list_loop env ch mk a r s)) \<le> pending_ticks s + r + 285"
    using r by auto
qed

end
