(* ===== verification/DmaClaims.thy ===== *)
theory DmaClaims
  imports DmaSpec
begin

text \<open>
  The properties of the DMA controller.
\<close>

subsection \<open>A concrete machine\<close>

definition dma_idle_env :: "dma_state dma_env" where
  "dma_idle_env = \<lparr>BeginDMAWrite = (\<lambda>s. (True, s)), gpu_DMAWrite = (\<lambda>a v s. s), EndDMAWrite = id,
     spu_DMAWrite = (\<lambda>vs s. s), mdec_DMAWrite = (\<lambda>vs s. s), gpu_DMARead = (\<lambda>put n s. put (replicate n 0) s),
     cdrom_DMARead = (\<lambda>put n s. put (replicate n 0) s), spu_DMARead = (\<lambda>put n s. put (replicate n 0) s),
     mdec_DMARead = (\<lambda>put n s. put (replicate n 0) s),
     InvalidateCodePages = (\<lambda>a n s. s)\<rparr>"

definition idle_channel :: channel_state where
  "idle_channel = \<lparr>base_address = 0, block_control = 0, channel_control = 0, ch_request = False\<rparr>"

definition dma_boot :: dma_state where
  "dma_boot = sio_state.extend sio_boot
     (dma_state.fields (replicate 7 idle_channel) 0x07654321 0 1000 100 0 (\<lambda>a. 0) 0x1FFFFF [])"

lemmas dma_run_defs = dma_boot_def idle_channel_def dma_state.defs sio_run_defs

lemma dma_boot_fields:
  "g_ram_mask dma_boot = 0x1FFFFF" "g_ram dma_boot = (\<lambda>a. 0)" "ram_ok dma_boot"
  "m_DICR dma_boot = 0" "length (m_dma dma_boot) = 7" "pending_ticks dma_boot = 0"
  by (simp_all add: dma_run_defs ram_ok_def)

lemma GetAddressMask_boot: "GetAddressMask dma_boot = 0x1FFFFC"
  by (simp add: GetAddressMask_def dma_boot_fields)

subsection \<open>Halting\<close>

lemma te_active_AddActiveEvent [simp]:
  "te_active (te_nodes (AddActiveEvent e s) x) \<longleftrightarrow> te_active (te_nodes s x)"
  by (simp add: AddActiveEvent_def Let_def set_node_def UpdateCPUDowncount_def
      split: option.splits prod.splits)

lemma te_active_HaltTransfer: "te_active (te_nodes (HaltTransfer t s) m_unhalt_event)"
  by (simp add: HaltTransfer_def Let_def SetIntervalAndSchedule_def Schedule_def SetInterval_def set_node_def)

lemma manual_halted: "fst (manual_transfer env ch s)"
  by (simp add: manual_transfer_def Let_def case_prod_beta)

lemma linked_list_halted:
  "fst (linked_list_transfer env ch s) \<or> IsTransferHalted (snd (linked_list_transfer env ch s))"
  by (simp add: linked_list_transfer_def Let_def case_prod_beta IsTransferHalted_def te_active_HaltTransfer)

lemma request_halted:
  "fst (request_transfer env ch s) \<or> IsTransferHalted (snd (request_transfer env ch s))"
  by (simp add: request_transfer_def Let_def case_prod_beta IsTransferHalted_def te_active_HaltTransfer)

subsection \<open>Properties\<close>

text \<open>
  C34: clearing the ordering table (channel 6) writes a linked list into RAM: every entry holds
  the address of the entry 4 bytes below, modulo the size of the RAM, the last one holds the
  terminator 0xFFFFFF, and no other aligned word changes, for a table of up to 0x10000 words
  (the count register's range) starting at any word of RAM.
\<close>

theorem ordering_table_cleared:
  assumes ram: "ram_ok s" and a: "dma_address (ram_bits (g_ram_mask s)) a"
    and n: "0 < n" "n \<le> 0x10000"
    and inv: "\<And>b k t. g_ram (InvalidateCodePages env b k t) = g_ram t"
  shows "let m = g_ram (snd (TransferDeviceToMemory env CH_OTC a inc n s));
             entry = table_entry (GetAddressMask s) a
         in (\<forall>i. i < n - 1 \<longrightarrow> read_word m (entry i) = entry (i + 1)) \<and>
            read_word m (entry (n - 1)) = 0xFFFFFF \<and>
            (\<forall>b. aligned b \<longrightarrow> b \<notin> entry ` {..<n} \<longrightarrow> read_word m b = read_word (g_ram s) b)"
proof -
  note mk = GetAddressMask_bits [OF ram]
  have k: "ram_bits (g_ram_mask s) \<le> 32" "21 \<le> ram_bits (g_ram_mask s)"
    using ram_bits_cases [of "g_ram_mask s"] by auto
  have "(2::nat) ^ 21 \<le> 2 ^ ram_bits (g_ram_mask s)" by (rule power_increasing) (use k in simp_all)
  then have n4: "4 * n \<le> 2 ^ ram_bits (g_ram_mask s)" using n(2) by simp
  note c = clear_table_spec [OF mk k(1) a n(1) n4]
  have m: "g_ram (snd (TransferDeviceToMemory env CH_OTC a inc n s)) =
      clear_table (GetAddressMask s) (n - 1) a (g_ram s)"
    by (simp add: TransferDeviceToMemory_def Let_def inv)
  show ?thesis
    unfolding Let_def m
  proof (intro conjI allI impI)
    fix i assume "i < n - 1"
    then show "read_word (clear_table (GetAddressMask s) (n - 1) a (g_ram s)) (table_entry (GetAddressMask s) a i) =
        table_entry (GetAddressMask s) a (i + 1)"
      using c(1) [of i "g_ram s"] by simp
  next
    fix b assume "aligned b" and "b \<notin> table_entry (GetAddressMask s) a ` {..<n}"
    then show "read_word (clear_table (GetAddressMask s) (n - 1) a (g_ram s)) b = read_word (g_ram s) b"
      by (intro c(3)) auto
  qed (rule c(2))
qed

theorem ordering_table_cleared_witness:
  "let m = g_ram (snd (TransferDeviceToMemory dma_idle_env CH_OTC 0x100 0 4 dma_boot));
       entry = table_entry (GetAddressMask dma_boot) 0x100
   in (\<forall>i. i < 4 - 1 \<longrightarrow> read_word m (entry i) = entry (i + 1)) \<and>
      read_word m (entry (4 - 1)) = 0xFFFFFF \<and>
      (\<forall>b. aligned b \<longrightarrow> b \<notin> entry ` {..<4} \<longrightarrow> read_word m b = read_word (g_ram dma_boot) b)"
  by (rule ordering_table_cleared)
    (simp_all add: dma_boot_fields dma_address_def ram_bits_def dma_idle_env_def)

text \<open>
  The fast path is the slow path: a block handed to the SPU or the MDEC consists of the
  words the masked walk visits, whether the code reads RAM through a pointer or gathers the
  words into its buffer, for steps in both directions and blocks that wrap around the RAM.
\<close>

theorem memory_to_device_words:
  assumes ram: "ram_ok s" and a: "dma_address (ram_bits (g_ram_mask s)) a"
    and n: "n \<le> 0x10000" and inc: "inc = 4 \<or> inc = - 4"
  shows "(\<exists>b. TransferMemoryToDevice env CH_SPU a inc n s =
      (GetDMARAMTickCount n, spu_DMAWrite env (gather (g_ram s) (GetAddressMask s) inc n a) (s\<lparr>m_transfer_buffer := b\<rparr>))) \<and>
    (\<exists>b. TransferMemoryToDevice env CH_MDECin a inc n s =
      (GetDMARAMTickCount n, mdec_DMAWrite env (gather (g_ram s) (GetAddressMask s) inc n a) (s\<lparr>m_transfer_buffer := b\<rparr>)))"
proof -
  note mk = GetAddressMask_bits [OF ram]
  have k: "21 \<le> ram_bits (g_ram_mask s)" "ram_bits (g_ram_mask s) < 32"
    using ram_bits_cases [of "g_ram_mask s"] by auto
  have g: "read_words (g_ram s) a n = gather (g_ram s) (GetAddressMask s) inc n a"
    if t: "\<not> use_temp_buffer (GetAddressMask s) a inc n"
  proof (cases "inc = 4")
    case True
    then show ?thesis using read_words_gather [OF mk k a n] t by simp
  next
    case False
    then have "sint inc < 0" using inc by simp
    then show ?thesis using t by (simp add: use_temp_buffer_def)
  qed
  show ?thesis
  proof (cases "use_temp_buffer (GetAddressMask s) a inc n")
    case True
    then show ?thesis
      by (intro conjI exI [of _ "overlay (gather (g_ram s) (GetAddressMask s) inc n a)
            (resize_buffer n (m_transfer_buffer s))"])
        (simp_all add: TransferMemoryToDevice_def Let_def overlay_def gather_def)
  next
    case False
    then show ?thesis
      by (intro conjI exI [of _ "m_transfer_buffer s"])
        (simp_all add: TransferMemoryToDevice_def Let_def g)
  qed
qed

theorem memory_to_device_words_witness:
  "(\<exists>b. TransferMemoryToDevice dma_idle_env CH_SPU 0x1FFFF8 4 4 dma_boot =
      (GetDMARAMTickCount 4, spu_DMAWrite dma_idle_env (gather (g_ram dma_boot) (GetAddressMask dma_boot) 4 4 0x1FFFF8) (dma_boot\<lparr>m_transfer_buffer := b\<rparr>))) \<and>
    (\<exists>b. TransferMemoryToDevice dma_idle_env CH_MDECin 0x1FFFF8 4 4 dma_boot =
      (GetDMARAMTickCount 4, mdec_DMAWrite dma_idle_env (gather (g_ram dma_boot) (GetAddressMask dma_boot) 4 4 0x1FFFF8) (dma_boot\<lparr>m_transfer_buffer := b\<rparr>)))"
  by (rule memory_to_device_words) (simp_all add: dma_boot_fields dma_address_def ram_bits_def)

text \<open>
  A slice of a linked list takes a bounded time: it adds at most the slice length plus
  285 ticks to the CPU's pending ticks (one node of 255 words beyond the limit), whatever
  list the RAM holds, a circular one included, when the devices add no ticks of their own.
\<close>

theorem linked_list_slice_bound:
  assumes "steady_devices env" and "0 \<le> max_ticks"
  shows "pending_ticks s \<le> pending_ticks (snd (linked_list_loop env ch mk a max_ticks s)) \<and>
    pending_ticks (snd (linked_list_loop env ch mk a max_ticks s)) \<le> pending_ticks s + max_ticks + 285"
  using linked_list_slice [OF assms] by blast

theorem linked_list_slice_bound_witness:
  "pending_ticks dma_boot \<le> pending_ticks (snd (linked_list_loop dma_idle_env 2 0x1FFFFC 0x100 1000 dma_boot)) \<and>
    pending_ticks (snd (linked_list_loop dma_idle_env 2 0x1FFFFC 0x100 1000 dma_boot)) \<le> pending_ticks dma_boot + 1000 + 285"
  by (rule linked_list_slice_bound) (simp_all add: steady_devices_def dma_idle_env_def)

text \<open>
  Writing the interrupt register: a channel's flag is cleared exactly when 1 is written to
  it, the writable bits take the written value, the others keep theirs, and bit 31 becomes
  the master flag: the master enable, and some channel with its enable and its flag set.
\<close>

theorem write_DICR_bits:
  "bit (m_DICR (dma_WriteRegister env 0x74 val s)) n \<longleftrightarrow>
    (if n = 31 then dicr_master (m_DICR (dma_WriteRegister env 0x74 val s))
     else if 24 \<le> n \<and> n < 31 then bit (m_DICR s) n \<and> \<not> bit val n
     else if n < 6 \<or> n = 15 \<or> (16 \<le> n \<and> n < 24) then bit val n else bit (m_DICR s) n)"
proof -
  have w: "m_DICR (dma_WriteRegister env 0x74 val s) = write_DICR val (m_DICR s)"
    by (simp add: dma_WriteRegister_def Let_def)
  show ?thesis
    unfolding w by (cases "n = 31") (simp_all only: bit_write_DICR not_False_eq_True if_True if_False simp_thms)
qed

text \<open>
  At the end of a transfer the channel's busy bit is clear; if its interrupt is enabled its
  flag is set, and with the master enable the DMA interrupt reaches the interrupt
  controller; if it is not enabled neither register changes.
\<close>

theorem transfer_completion:
  assumes "ch < 7" and "length (m_dma s) = 7"
  shows "\<not> enable_busy (channel_control (chan ch (complete_transfer ch s))) \<and>
    (if IsIRQEnabled ch (m_DICR s)
     then bit (m_DICR (complete_transfer ch s)) (ch + 24) \<and>
       (bit (m_DICR s) 23 \<longrightarrow> bit (m_interrupt_status_register (complete_transfer ch s)) 3)
     else m_DICR (complete_transfer ch s) = m_DICR s \<and>
       m_interrupt_status_register (complete_transfer ch s) = m_interrupt_status_register s)"
  using complete_transfer_spec [of ch s] assms by simp

theorem transfer_completion_witness:
  "\<not> enable_busy (channel_control (chan 2 (complete_transfer 2 dma_boot))) \<and>
    (if IsIRQEnabled 2 (m_DICR dma_boot)
     then bit (m_DICR (complete_transfer 2 dma_boot)) (2 + 24) \<and>
       (bit (m_DICR dma_boot) 23 \<longrightarrow> bit (m_interrupt_status_register (complete_transfer 2 dma_boot)) 3)
     else m_DICR (complete_transfer 2 dma_boot) = m_DICR dma_boot \<and>
       m_interrupt_status_register (complete_transfer 2 dma_boot) = m_interrupt_status_register dma_boot)"
  by (rule transfer_completion) (simp_all add: dma_boot_fields)

text \<open>
  C37: a transfer that asks for the others to be halted has left the unhalt event active, in
  every mode and whatever the devices did, so the transfers are always resumed.
\<close>

theorem halted_transfer_is_resumed:
  "fst (TransferChannel env ch s) \<or> IsTransferHalted (snd (TransferChannel env ch s))"
  unfolding TransferChannel_def Let_def
  by (simp add: manual_halted linked_list_halted request_halted)

end
