(* ===== verification/MdecMath.thy ===== *)
theory MdecMath
  imports BitField "HOL-Library.Signed_Division"
begin

text \<open>
  The arithmetic of the macroblock decoder (\<open>src/core/mdec.cpp\<close>), without its state: the value
  a run-length code stands for, the two inverse transforms, the colour conversions and the
  packing of the pixels. Values of type \<open>int16_t\<close>, \<open>int32_t\<close> and \<open>int64_t\<close> are integers;
  a conversion to a narrower type is written out (\<open>to_s16\<close>, \<open>to_s32\<close>), and the lemmas bound the
  sums that the code computes at \<open>int32_t\<close>. A block is a list of 64 integers.
\<close>

subsection \<open>Conversions\<close>

definition to_s16 :: "int \<Rightarrow> int" where
  "to_s16 x = signed_take_bit 15 x"

definition to_s32 :: "int \<Rightarrow> int" where
  "to_s32 x = signed_take_bit 31 x"

definition clamp :: "int \<Rightarrow> int \<Rightarrow> int \<Rightarrow> int" where
  "clamp x lo hi = (if x < lo then lo else if hi < x then hi else x)"

text \<open>\<open>static_cast<int32_t>(static_cast<uint32_t>(x) << k) >> k\<close>: the low \<open>32 - k\<close> bits, sign extended.\<close>

definition sext :: "nat \<Rightarrow> int \<Rightarrow> int" where
  "sext k x = sint (signed_drop_bit k (push_bit k (word_of_int x :: u32)))"

definition coefficient10 :: "u16 \<Rightarrow> int" where
  "coefficient10 n = sext 22 (uint n)"

definition run_length :: "u16 \<Rightarrow> nat" where
  "run_length n = unat (drop_bit 10 n AND 0x3F)"

subsection \<open>Run-length codes\<close>

definition zagzig :: "nat list" where
  "zagzig = [0,  1,  8,  16, 9,  2,  3,  10, 17, 24, 32, 25, 18, 11, 4,  5,
             12, 19, 26, 33, 40, 48, 41, 34, 27, 20, 13, 6,  7,  14, 21, 28,
             35, 42, 49, 56, 57, 50, 43, 36, 29, 22, 15, 23, 30, 37, 44, 51,
             58, 59, 52, 45, 38, 31, 39, 46, 53, 60, 61, 54, 47, 55, 62, 63]"

definition zigzag :: "nat list" where
  "zigzag = [0,  8,  1,  2,  9,  16, 24, 17, 10, 3,  4,  11, 18, 25, 32, 40,
             33, 26, 19, 12, 5,  6,  13, 20, 27, 34, 41, 48, 56, 49, 42, 35,
             28, 21, 14, 7,  15, 22, 29, 36, 43, 50, 57, 58, 51, 44, 37, 30,
             23, 31, 38, 45, 52, 59, 60, 53, 46, 39, 47, 54, 61, 62, 55, 63]"

text \<open>The value of the first code of a block and of a later one, for each decoder.\<close>

definition old_dc :: "u8 list \<Rightarrow> nat \<Rightarrow> u16 \<Rightarrow> int" where
  "old_dc qt q n =
     clamp (if q = 0 then coefficient10 n * 2 else coefficient10 n * uint (qt ! 0)) (- 0x400) 0x3FF"

definition old_ac :: "u8 list \<Rightarrow> nat \<Rightarrow> nat \<Rightarrow> u16 \<Rightarrow> int" where
  "old_ac qt q k n =
     clamp (if q = 0 then coefficient10 n * 2
            else (coefficient10 n * uint (qt ! k) * int q + 4) sdiv 8) (- 0x400) 0x3FF"

definition rounding_bias :: "int \<Rightarrow> int" where
  "rounding_bias v = (if v = 0 then 0 else if v < 0 then 8 else - 8)"

definition new_dc :: "u8 list \<Rightarrow> nat \<Rightarrow> u16 \<Rightarrow> int" where
  "new_dc qt q n =
     (let val = coefficient10 n
      in clamp (if q = 0 then to_s32 (val * 2 ^ 5)
                else to_s32 (val * uint (qt ! 0) * 2 ^ 4) + rounding_bias val) (- 0x4000) 0x3FFF)"

definition new_ac :: "u8 list \<Rightarrow> nat \<Rightarrow> nat \<Rightarrow> u16 \<Rightarrow> int" where
  "new_ac qt q k n =
     (let val = coefficient10 n; scq = int q * uint (qt ! k)
      in clamp (if scq = 0 then to_s32 (val * 2 ^ 5)
                else to_s32 (drop_bit 3 (val * scq) * 2 ^ 4) + rounding_bias val) (- 0x4000) 0x3FFF)"

definition old_put_dc :: "u8 list \<Rightarrow> nat \<Rightarrow> u16 \<Rightarrow> int list \<Rightarrow> int list" where
  "old_put_dc qt q n blk = blk[(if q > 0 then zagzig ! 0 else 0) := to_s16 (old_dc qt q n)]"

definition old_put_ac :: "u8 list \<Rightarrow> nat \<Rightarrow> nat \<Rightarrow> u16 \<Rightarrow> int list \<Rightarrow> int list" where
  "old_put_ac qt q k n blk = blk[(if q > 0 then zagzig ! k else k) := to_s16 (old_ac qt q k n)]"

definition new_put_dc :: "u8 list \<Rightarrow> nat \<Rightarrow> u16 \<Rightarrow> int list \<Rightarrow> int list" where
  "new_put_dc qt q n blk = blk[zigzag ! 0 := to_s16 (new_dc qt q n)]"

definition new_put_ac :: "u8 list \<Rightarrow> nat \<Rightarrow> nat \<Rightarrow> u16 \<Rightarrow> int list \<Rightarrow> int list" where
  "new_put_ac qt q k n blk = blk[zigzag ! k := to_s16 (new_ac qt q k n)]"

subsection \<open>The inverse transforms\<close>

definition sum8 :: "(nat \<Rightarrow> int) \<Rightarrow> int" where
  "sum8 f = sum_list (map f [0..<8])"

definition idct_new_pass1 :: "int list \<Rightarrow> int list \<Rightarrow> int list" where
  "idct_new_pass1 sc blk =
     map (\<lambda>i. let x = i mod 8; y = i div 8
              in drop_bit 15 (sum8 (\<lambda>z. (blk ! (x * 8 + z) * sc ! (z * 8 + y)) sdiv 8) + 0x4000)) [0..<64]"

definition IDCT_New :: "int list \<Rightarrow> int list \<Rightarrow> int list" where
  "IDCT_New sc blk =
     (let temp = idct_new_pass1 sc blk
      in map (\<lambda>i. let x = i div 8; y = i mod 8
                  in to_s16 (clamp (sext 23 (drop_bit 15
                       (sum8 (\<lambda>z. (temp ! (x * 8 + z) * sc ! (z * 8 + y)) sdiv 8) + 0x4000))) (- 128) 127)) [0..<64])"

definition idct_old_pass1 :: "int list \<Rightarrow> int list \<Rightarrow> int list" where
  "idct_old_pass1 sc blk =
     map (\<lambda>i. let x = i mod 8; y = i div 8
              in sum8 (\<lambda>u. blk ! (u * 8 + x) * sc ! (u * 8 + y))) [0..<64]"

definition IDCT_Old :: "int list \<Rightarrow> int list \<Rightarrow> int list" where
  "IDCT_Old sc blk =
     (let temp = idct_old_pass1 sc blk
      in map (\<lambda>i. let x = i mod 8; y = i div 8;
                      total = sum8 (\<lambda>u. temp ! (u + y * 8) * sc ! (u * 8 + x))
                  in to_s16 (clamp (sext 23 (drop_bit 32 total + drop_bit 31 total mod 2)) (- 128) 127)) [0..<64])"

subsection \<open>Colours\<close>



definition new_r :: "int \<Rightarrow> int \<Rightarrow> int" where
  "new_r Y Cr = clamp (sext 23 (Y + drop_bit 8 (359 * Cr + 0x80))) (- 128) 127"

definition new_g :: "int \<Rightarrow> int \<Rightarrow> int \<Rightarrow> int" where
  "new_g Y Cb Cr = clamp (sext 23 (Y + drop_bit 8 (((- 88 * Cb) AND NOT 0x1F) + ((- 183 * Cr) AND NOT 0x07) + 0x80))) (- 128) 127"

definition new_b :: "int \<Rightarrow> int \<Rightarrow> int" where
  "new_b Y Cb = clamp (sext 23 (Y + drop_bit 8 (454 * Cb + 0x80))) (- 128) 127"

definition add_value :: "bool \<Rightarrow> int" where
  "add_value output_signed = (if output_signed then 0 else 0x80)"

text \<open>\<open>static_cast<uint32_t>(r) | (static_cast<uint32_t>(g) << 8) | (static_cast<uint32_t>(b) << 16)\<close>\<close>

definition pack_rgb :: "int \<Rightarrow> int \<Rightarrow> int \<Rightarrow> u32" where
  "pack_rgb r g b = word_of_int r OR push_bit 8 (word_of_int g) OR push_bit 16 (word_of_int b)"

definition new_pixel :: "bool \<Rightarrow> int \<Rightarrow> int \<Rightarrow> int \<Rightarrow> u32" where
  "new_pixel output_signed Cr Cb Y =
     pack_rgb (new_r Y Cr + add_value output_signed) (new_g Y Cb Cr + add_value output_signed)
       (new_b Y Cb + add_value output_signed)"

text \<open>
  The old decoder computes with \<open>float\<close>. A product of one of its four constants with an
  \<open>int16_t\<close>, and the sum of two of them, is a multiple of 2 ^ - 25; \<open>f32_round\<close> rounds such a
  number, given in that unit, to 24 bits, ties to even, and the conversion to \<open>int16_t\<close>
  truncates. (Without contraction of the multiplication and the addition.)
\<close>

definition bit_length :: "int \<Rightarrow> nat" where
  "bit_length n = length (takeWhile (\<lambda>k. 2 ^ k \<le> n) [0..<64])"

definition f32_round :: "int \<Rightarrow> int" where
  "f32_round n =
     (let a = \<bar>n\<bar>; k = bit_length a - 24
      in if k = 0 then n
         else let q = a div 2 ^ k; r = a mod 2 ^ k; half = 2 ^ (k - 1);
                  q' = (if half < r \<or> (r = half \<and> odd q) then q + 1 else q)
              in sgn n * (q' * 2 ^ k))"

definition f32_mul :: "int \<Rightarrow> int \<Rightarrow> int" where
  "f32_mul c x = f32_round (c * x)"

definition f32_trunc :: "int \<Rightarrow> int" where
  "f32_trunc n = to_s16 (n sdiv 2 ^ 25)"

definition old_G :: "int \<Rightarrow> int \<Rightarrow> int" where
  "old_G B R = f32_trunc (f32_round (f32_mul (- 11532658) B + f32_mul (- 23967930) R))"

definition old_R :: "int \<Rightarrow> int" where "old_R R = f32_trunc (f32_mul 47043312 R)"
definition old_B :: "int \<Rightarrow> int" where "old_B B = f32_trunc (f32_mul 59458452 B)"

definition old_pixel :: "bool \<Rightarrow> int \<Rightarrow> int \<Rightarrow> int \<Rightarrow> u32" where
  "old_pixel output_signed Cr Cb Y =
     (let comp = (\<lambda>c. uint (word_of_int (to_s16 (clamp (Y + c) (- 128) 127) + add_value output_signed) :: u16))
      in pack_rgb (comp (old_R Cr)) (comp (old_G Cb Cr)) (comp (old_B Cb)))"

definition mono_pixel :: "bool \<Rightarrow> int \<Rightarrow> u32" where
  "mono_pixel output_signed Y = word_of_int (clamp (sext 23 Y) (- 128) 127 + add_value output_signed)"

text \<open>One 8x8 quarter of the macroblock, and a monochrome block.\<close>

definition yuv_quarter :: "(int \<Rightarrow> int \<Rightarrow> int \<Rightarrow> u32) \<Rightarrow> nat \<Rightarrow> nat \<Rightarrow> int list \<Rightarrow> int list \<Rightarrow> int list \<Rightarrow> u32 list \<Rightarrow> u32 list" where
  "yuv_quarter pixel xx yy Crblk Cbblk Yblk rgb =
     fold (\<lambda>i rgb. let x = i mod 8; y = i div 8; c = (x + xx) div 2 + ((y + yy) div 2) * 8
                    in rgb[(x + xx) + (y + yy) * 16 := pixel (Crblk ! c) (Cbblk ! c) (Yblk ! (x + y * 8))])
       [0..<64] rgb"

definition YUVToMono :: "bool \<Rightarrow> int list \<Rightarrow> u32 list \<Rightarrow> u32 list" where
  "YUVToMono output_signed Yblk rgb = map (mono_pixel output_signed) (take 64 Yblk) @ drop 64 rgb"

subsection \<open>Packing the pixels\<close>

fun pack4_words :: "nat \<Rightarrow> u32 list \<Rightarrow> u32 list" where
  "pack4_words 0 ps = []"
| "pack4_words (Suc n) ps =
     fold (\<lambda>j w. w OR push_bit (4 * j) (drop_bit 4 (ps ! j))) [1..<8] (drop_bit 4 (ps ! 0))
       # pack4_words n (drop 8 ps)"

fun pack8_words :: "nat \<Rightarrow> u32 list \<Rightarrow> u32 list" where
  "pack8_words 0 ps = []"
| "pack8_words (Suc n) ps =
     (ps ! 0 OR push_bit 8 (ps ! 1) OR push_bit 16 (ps ! 2) OR push_bit 24 (ps ! 3))
       # pack8_words n (drop 4 ps)"

text \<open>The state machine that packs four pixels into three words.\<close>

fun pack24_words :: "nat \<Rightarrow> u32 \<Rightarrow> u32 list \<Rightarrow> u32 list" where
  "pack24_words st rgb [] = []"
| "pack24_words st rgb (p # ps) =
     (if st = 0 then pack24_words 1 p ps
      else if st = 1 then (rgb OR push_bit 24 (p AND 0xFF)) # pack24_words 2 (drop_bit 8 p) ps
      else if st = 2 then (rgb OR push_bit 16 p) # pack24_words 3 (drop_bit 16 p) ps
      else (rgb OR push_bit 8 p) # pack24_words 0 rgb ps)"

definition E8TO5 :: "u32 \<Rightarrow> u32" where
  "E8TO5 color = min (drop_bit 3 (color + 4)) 0x1F"

definition color15_new :: "u32 \<Rightarrow> u32 \<Rightarrow> u32" where
  "color15_new a c =
     E8TO5 (c AND 0xFF) OR push_bit 5 (E8TO5 (drop_bit 8 c AND 0xFF)) OR
     push_bit 10 (E8TO5 (drop_bit 16 c AND 0xFF)) OR a"

definition color15_old :: "u16 \<Rightarrow> u32 \<Rightarrow> u16" where
  "color15_old a c =
     ucast (drop_bit 3 c AND 0x1F) OR push_bit 5 (ucast (drop_bit 11 c AND 0x1F)) OR
     push_bit 10 (ucast (drop_bit 19 c AND 0x1F)) OR a"

fun pack15_new :: "u32 \<Rightarrow> u32 list \<Rightarrow> u32 list" where
  "pack15_new a (c1 # c2 # cs) = (color15_new a c1 OR push_bit 16 (color15_new a c2)) # pack15_new a cs"
| "pack15_new a _ = []"

fun pack15_old :: "u16 \<Rightarrow> u32 list \<Rightarrow> u32 list" where
  "pack15_old a (c1 # c2 # cs) =
     (ucast (color15_old a c1) OR push_bit 16 (ucast (color15_old a c2))) # pack15_old a cs"
| "pack15_old a _ = []"

text \<open>Halfwords as the bytes \<open>memcpy\<close> sees.\<close>

definition bytes_of_halfwords :: "u16 list \<Rightarrow> u8 list" where
  "bytes_of_halfwords vs = concat (map (\<lambda>h. [ucast h, ucast (drop_bit 8 h)]) vs)"

end
