(* ===== verification/Mdec.thy ===== *)
theory Mdec
  imports Dma MdecMath FifoQueue "HOL-Library.Monad_Syntax"
begin

text \<open>
  The macroblock decoder (\<open>src/core/mdec.cpp\<close>): commands and run-length codes come in through
  a FIFO of halfwords, decoded pixels leave through a FIFO of words, and a state machine
  (\<open>Execute\<close>) moves between them. Finished macroblocks are copied out by a timing event.

  \<open>UpdateStatus\<close> calls \<open>DMA::SetRequest\<close>, which may run a transfer that calls the decoder
  again: the DMA controller's function is the argument \<open>req\<close>. The loop of \<open>Execute\<close> is a
  partial function: \<open>None\<close> means that it does not return.
\<close>

subsection \<open>State\<close>

datatype mdec_mode = MDEC_Idle | DecodingMacroblock | WritingMacroblock | SetIqTable | SetScaleTable | NoCommand

record mdec_state = dma_state +
  m_status :: u32
  m_enable_dma_in :: bool
  m_enable_dma_out :: bool
  m_data_in_fifo :: "u16 fifo"
  m_data_out_fifo :: "u32 fifo"
  m_state :: mdec_mode
  m_remaining_halfwords :: nat
  m_iq_uv :: "u8 list"
  m_iq_y :: "u8 list"
  m_scale_table :: "int list"
  m_blocks :: "int list list"
  m_current_block :: nat
  m_current_coefficient :: nat
  m_current_q_scale :: nat
  m_block_rgb :: "u32 list"
  m_total_blocks_decoded :: u32
  use_old_mdec_routines :: bool

abbreviation (input) NUM_BLOCKS :: nat where "NUM_BLOCKS \<equiv> 6"
abbreviation (input) TICKS_PER_BLOCK :: int where "TICKS_PER_BLOCK \<equiv> 448"

abbreviation (input) status_output_depth :: "u32 \<Rightarrow> u32" where "status_output_depth w \<equiv> bf_get 25 2 w"
abbreviation (input) status_output_signed :: "u32 \<Rightarrow> bool" where "status_output_signed w \<equiv> bit w 24"
abbreviation (input) status_output_bit15 :: "u32 \<Rightarrow> u32" where "status_output_bit15 w \<equiv> bf_get 23 1 w"

text \<open>The address of \<open>m_block_copy_out_event\<close> in the event store.\<close>

definition m_block_copy_out_event :: nat where "m_block_copy_out_event = 2"

type_synonym 's request_line = "nat \<Rightarrow> bool \<Rightarrow> 's \<Rightarrow> 's"

definition HasPendingBlockCopyOut :: "'a mdec_state_scheme \<Rightarrow> bool" where
  "HasPendingBlockCopyOut s \<longleftrightarrow> te_active (te_nodes s m_block_copy_out_event)"

definition ResetDecoder :: "'a mdec_state_scheme \<Rightarrow> 'a mdec_state_scheme" where
  "ResetDecoder s = s\<lparr>m_current_block := 0, m_current_coefficient := 64, m_current_q_scale := 0\<rparr>"

definition status_fields :: "'a mdec_state_scheme \<Rightarrow> u32 \<Rightarrow> u32" where
  "status_fields s w =
     bf_set 16 3 (word_of_nat ((m_current_block s + 4) mod NUM_BLOCKS))
       (bf_set 0 16 (word_of_int (int (m_remaining_halfwords s div 2) - 1))
         (assign_bit 29 (m_state s \<noteq> MDEC_Idle)
           (assign_bit 30 (IsFull (m_data_in_fifo s))
             (assign_bit 31 (IsEmpty (m_data_out_fifo s)) w))))"

definition UpdateStatus :: "('a mdec_state_scheme) request_line \<Rightarrow> 'a mdec_state_scheme \<Rightarrow> 'a mdec_state_scheme" where
  "UpdateStatus req s =
     (let s1 = s\<lparr>m_status := status_fields s (m_status s)\<rparr>;
          data_in_request = (m_enable_dma_in s1 \<and> GetSpace (m_data_in_fifo s1) \<ge> 32 * 2);
          s2 = req CH_MDECin data_in_request (s1\<lparr>m_status := assign_bit 28 data_in_request (m_status s1)\<rparr>);
          data_out_request = (m_enable_dma_out s2 \<and> \<not> IsEmpty (m_data_out_fifo s2))
      in req CH_MDECout data_out_request (s2\<lparr>m_status := assign_bit 27 data_out_request (m_status s2)\<rparr>))"

definition SoftReset :: "('a mdec_state_scheme) request_line \<Rightarrow> 'a mdec_state_scheme \<Rightarrow> 'a mdec_state_scheme" where
  "SoftReset req s =
     UpdateStatus req (Deactivate m_block_copy_out_event
       (s\<lparr>m_status := 0, m_enable_dma_in := False, m_enable_dma_out := False,
          m_data_in_fifo := Clear (m_data_in_fifo s), m_data_out_fifo := Clear (m_data_out_fifo s),
          m_state := MDEC_Idle, m_remaining_halfwords := 0, m_current_block := 0,
          m_current_coefficient := 64, m_current_q_scale := 0\<rparr>))"

definition mdec_Reset :: "('a mdec_state_scheme) request_line \<Rightarrow> 'a mdec_state_scheme \<Rightarrow> 'a mdec_state_scheme" where
  "mdec_Reset req s = SoftReset req (Deactivate m_block_copy_out_event s)"

subsection \<open>Run-length decoding\<close>

text \<open>One halfword: \<open>Pop\<close> and \<open>m_remaining_halfwords--\<close>, when there is one.\<close>

definition can_read :: "'a mdec_state_scheme \<Rightarrow> bool" where
  "can_read s \<longleftrightarrow> \<not> IsEmpty (m_data_in_fifo s) \<and> m_remaining_halfwords s > 0"

definition next_halfword :: "'a mdec_state_scheme \<Rightarrow> u16 \<times> 'a mdec_state_scheme" where
  "next_halfword s =
     (let (n, q) = Pop (m_data_in_fifo s)
      in (n, s\<lparr>m_data_in_fifo := q, m_remaining_halfwords := m_remaining_halfwords s - 1\<rparr>))"

function skip_padding :: "'a mdec_state_scheme \<Rightarrow> u16 option \<times> 'a mdec_state_scheme" where
  "skip_padding s =
     (if \<not> can_read s then (None, s)
      else let (n, s1) = next_halfword s
           in if n = 0xFE00 then skip_padding s1 else (Some n, s1))"
  by pat_completeness auto
termination
  by (relation "measure m_remaining_halfwords") (auto simp: can_read_def next_halfword_def Let_def case_prod_beta)

declare skip_padding.simps [simp del]

definition upd_block :: "nat \<Rightarrow> (int list \<Rightarrow> int list) \<Rightarrow> 'a mdec_state_scheme \<Rightarrow> 'a mdec_state_scheme" where
  "upd_block b f s = s\<lparr>m_blocks := modify_at b f (m_blocks s)\<rparr>"

function rle_coefficients :: "(nat \<Rightarrow> nat \<Rightarrow> u16 \<Rightarrow> int list \<Rightarrow> int list) \<Rightarrow> nat
    \<Rightarrow> 'a mdec_state_scheme \<Rightarrow> bool \<times> 'a mdec_state_scheme" where
  "rle_coefficients put_ac b s =
     (if \<not> can_read s then (False, s)
      else let (n, s1) = next_halfword s;
               k = m_current_coefficient s1 + run_length n + 1;
               s2 = s1\<lparr>m_current_coefficient := k\<rparr>;
               s3 = (if k < 64 then upd_block b (put_ac (m_current_q_scale s2) k n) s2 else s2)
           in if k \<ge> 63 then (True, s3\<lparr>m_current_coefficient := 64\<rparr>)
              else rle_coefficients put_ac b s3)"
  by pat_completeness auto
termination
  by (relation "measure (\<lambda>(p, b, s). m_remaining_halfwords s)")
    (auto simp: can_read_def next_halfword_def Let_def case_prod_beta upd_block_def)

declare rle_coefficients.simps [simp del]

definition DecodeRLE :: "(nat \<Rightarrow> u16 \<Rightarrow> int list \<Rightarrow> int list) \<Rightarrow> (nat \<Rightarrow> nat \<Rightarrow> u16 \<Rightarrow> int list \<Rightarrow> int list) \<Rightarrow> nat
    \<Rightarrow> 'a mdec_state_scheme \<Rightarrow> bool \<times> 'a mdec_state_scheme" where
  "DecodeRLE put_dc put_ac b s =
     (if m_current_coefficient s = 64 then
        case skip_padding (upd_block b (\<lambda>_. replicate 64 0) s) of
          (None, s1) \<Rightarrow> (False, s1)
        | (Some n, s1) \<Rightarrow>
            let q = unat (drop_bit 10 n)
            in rle_coefficients put_ac b
                 (upd_block b (put_dc q n) (s1\<lparr>m_current_coefficient := 0, m_current_q_scale := q\<rparr>))
      else rle_coefficients put_ac b s)"

definition DecodeRLE_Old :: "nat \<Rightarrow> u8 list \<Rightarrow> 'a mdec_state_scheme \<Rightarrow> bool \<times> 'a mdec_state_scheme" where
  "DecodeRLE_Old b qt s = DecodeRLE (old_put_dc qt) (old_put_ac qt) b s"

definition DecodeRLE_New :: "nat \<Rightarrow> u8 list \<Rightarrow> 'a mdec_state_scheme \<Rightarrow> bool \<times> 'a mdec_state_scheme" where
  "DecodeRLE_New b qt s = DecodeRLE (new_put_dc qt) (new_put_ac qt) b s"

text \<open>A block: the codes, then the transform, by the decoder the settings select.\<close>

definition decode_block :: "nat \<Rightarrow> u8 list \<Rightarrow> 'a mdec_state_scheme \<Rightarrow> bool \<times> 'a mdec_state_scheme" where
  "decode_block b qt s =
     (let (ok, s1) = (if use_old_mdec_routines s then DecodeRLE_Old b qt s else DecodeRLE_New b qt s)
      in if ok then (True, upd_block b (if use_old_mdec_routines s then IDCT_Old (m_scale_table s1)
                                         else IDCT_New (m_scale_table s1)) s1)
         else (False, s1))"

subsection \<open>Macroblocks\<close>

definition ScheduleBlockCopyOut :: "tick_count \<Rightarrow> 'a mdec_state_scheme \<Rightarrow> 'a mdec_state_scheme" where
  "ScheduleBlockCopyOut ticks s = SetIntervalAndSchedule m_block_copy_out_event ticks s"

definition DecodeMonoMacroblock :: "'a mdec_state_scheme \<Rightarrow> bool \<times> 'a mdec_state_scheme" where
  "DecodeMonoMacroblock s =
     (if \<not> IsEmpty (m_data_out_fifo s) then (False, s)
      else let (ok, s1) = decode_block 0 (m_iq_y s) s
           in if \<not> ok then (False, s1)
              else let s2 = (ResetDecoder s1)\<lparr>m_state := WritingMacroblock\<rparr>;
                       s3 = s2\<lparr>m_block_rgb := YUVToMono (status_output_signed (m_status s2))
                                 (m_blocks s2 ! 0) (m_block_rgb s2)\<rparr>;
                       s4 = ScheduleBlockCopyOut (TICKS_PER_BLOCK * 6) s3
                   in (True, s4\<lparr>m_total_blocks_decoded := m_total_blocks_decoded s4 + 1\<rparr>))"

text \<open>
  The loop over the blocks of a coloured macroblock, with the number of blocks that are left
  as its fuel (\<open>m_current_block\<close> grows by one per iteration).
\<close>

fun decode_blocks :: "nat \<Rightarrow> 'a mdec_state_scheme \<Rightarrow> bool \<times> 'a mdec_state_scheme" where
  "decode_blocks 0 s = (True, s)"
| "decode_blocks (Suc n) s =
     (let (ok, s1) = decode_block (m_current_block s)
                       (if m_current_block s \<ge> 2 then m_iq_y s else m_iq_uv s) s
      in if \<not> ok then (False, s1)
         else decode_blocks n (s1\<lparr>m_current_block := m_current_block s1 + 1\<rparr>))"

definition yuv_to_rgb :: "'a mdec_state_scheme \<Rightarrow> u32 list" where
  "yuv_to_rgb s =
     (let pixel = (if use_old_mdec_routines s then old_pixel else new_pixel) (status_output_signed (m_status s));
          q = (\<lambda>xx yy n. yuv_quarter pixel xx yy (m_blocks s ! 0) (m_blocks s ! 1) (m_blocks s ! n))
      in q 8 8 5 (q 0 8 4 (q 8 0 3 (q 0 0 2 (m_block_rgb s)))))"

definition DecodeColoredMacroblock :: "'a mdec_state_scheme \<Rightarrow> bool \<times> 'a mdec_state_scheme" where
  "DecodeColoredMacroblock s =
     (let (ok, s1) = decode_blocks (NUM_BLOCKS - m_current_block s) s
      in if \<not> ok then (False, s1)
         else if \<not> IsEmpty (m_data_out_fifo s1) then (False, s1)
         else let s2 = (ResetDecoder s1)\<lparr>m_state := WritingMacroblock\<rparr>;
                  s3 = s2\<lparr>m_block_rgb := yuv_to_rgb s2,
                          m_total_blocks_decoded := m_total_blocks_decoded s2 + 4\<rparr>
              in (True, ScheduleBlockCopyOut (TICKS_PER_BLOCK * 6) s3))"

definition HandleDecodeMacroblockCommand :: "'a mdec_state_scheme \<Rightarrow> bool \<times> 'a mdec_state_scheme" where
  "HandleDecodeMacroblockCommand s =
     (if status_output_depth (m_status s) \<le> 1 then DecodeMonoMacroblock s else DecodeColoredMacroblock s)"

subsection \<open>Tables\<close>

definition HandleSetQuantTableCommand :: "'a mdec_state_scheme \<Rightarrow> 'a mdec_state_scheme" where
  "HandleSetQuantTableCommand s =
     (let (vs, q) = PopRange 32 (m_data_in_fifo s);
          s1 = s\<lparr>m_data_in_fifo := q, m_remaining_halfwords := sub_u32 (m_remaining_halfwords s) 32,
                 m_iq_y := bytes_of_halfwords vs\<rparr>
      in if m_remaining_halfwords s1 > 0
         then (let (vs', q') = PopRange 32 (m_data_in_fifo s1)
               in s1\<lparr>m_data_in_fifo := q', m_iq_uv := bytes_of_halfwords vs'\<rparr>)
         else s1)"

definition HandleSetScaleCommand :: "'a mdec_state_scheme \<Rightarrow> 'a mdec_state_scheme" where
  "HandleSetScaleCommand s =
     (let (vs, q) = PopRange 64 (m_data_in_fifo s)
      in s\<lparr>m_data_in_fifo := q, m_remaining_halfwords := sub_u32 (m_remaining_halfwords s) 32,
           m_scale_table := map sint vs\<rparr>)"

subsection \<open>The state machine\<close>

text \<open>The command word: the words that follow it and the new state.\<close>

definition decode_command :: "u32 \<Rightarrow> nat \<times> mdec_mode" where
  "decode_command cw =
     (let command = bf_get 29 3 cw; parameter_word_count = unat (bf_get 0 16 cw)
      in if command = 1 then (parameter_word_count, DecodingMacroblock)
         else if command = 2 then (16 + (if cw AND 1 \<noteq> 0 then 16 else 0), SetIqTable)
         else if command = 3 then (32, SetScaleTable)
         else (parameter_word_count, NoCommand))"

text \<open>The \<open>Idle\<close> case up to \<open>UpdateStatus\<close>.\<close>

definition start_command :: "'a mdec_state_scheme \<Rightarrow> 'a mdec_state_scheme" where
  "start_command s =
     (let cw = ucast (Peek 0 (m_data_in_fifo s)) OR push_bit 16 (ucast (Peek 1 (m_data_in_fifo s)));
          (num_words, new_state) = decode_command cw
      in s\<lparr>m_status := bf_set 23 1 (bf_get 25 1 cw) (assign_bit 24 (bit cw 26) (bf_set 25 2 (bf_get 27 2 cw) (m_status s))),
           m_data_in_fifo := Remove 2 (m_data_in_fifo s), m_data_out_fifo := Clear (m_data_out_fifo s),
           m_remaining_halfwords := num_words * 2, m_state := new_state\<rparr>)"

text \<open>One iteration of the loop: \<open>Inl\<close> is \<open>goto finished\<close>, \<open>Inr\<close> is \<open>continue\<close>.\<close>

definition execute_step :: "('a mdec_state_scheme) request_line \<Rightarrow> 'a mdec_state_scheme
    \<Rightarrow> 'a mdec_state_scheme + 'a mdec_state_scheme" where
  "execute_step req s =
     (case m_state s of
        MDEC_Idle \<Rightarrow>
          if GetSize (m_data_in_fifo s) < 2 then Inl s else Inr (UpdateStatus req (start_command s))
      | DecodingMacroblock \<Rightarrow>
          (let (done_block, s1) = HandleDecodeMacroblockCommand s
           in if done_block then Inl s1
              else if m_remaining_halfwords s1 = 0 \<and> m_current_block s1 \<noteq> NUM_BLOCKS
                   then Inr ((ResetDecoder s1)\<lparr>m_state := MDEC_Idle\<rparr>)
                   else Inl s1)
      | WritingMacroblock \<Rightarrow> Inl s
      | SetIqTable \<Rightarrow>
          if GetSize (m_data_in_fifo s) < m_remaining_halfwords s then Inl s
          else Inr (UpdateStatus req ((HandleSetQuantTableCommand s)\<lparr>m_state := MDEC_Idle\<rparr>))
      | SetScaleTable \<Rightarrow>
          if GetSize (m_data_in_fifo s) < m_remaining_halfwords s then Inl s
          else Inr (UpdateStatus req ((HandleSetScaleCommand s)\<lparr>m_state := MDEC_Idle\<rparr>))
      | NoCommand \<Rightarrow>
          (let words_to_consume = min (m_remaining_halfwords s) (GetSize (m_data_in_fifo s));
               s1 = s\<lparr>m_data_in_fifo := Remove words_to_consume (m_data_in_fifo s),
                      m_remaining_halfwords := m_remaining_halfwords s - words_to_consume\<rparr>
           in if m_remaining_halfwords s1 = 0 then Inl s1
              else Inr (UpdateStatus req (s1\<lparr>m_state := MDEC_Idle\<rparr>))))"

partial_function (option) execute_loop :: "('a mdec_state_scheme) request_line \<Rightarrow> 'a mdec_state_scheme
    \<Rightarrow> 'a mdec_state_scheme option" where
  "execute_loop req s =
     (case execute_step req s of Inl t \<Rightarrow> Some t | Inr t \<Rightarrow> execute_loop req t)"

definition mdec_Execute :: "('a mdec_state_scheme) request_line \<Rightarrow> 'a mdec_state_scheme \<Rightarrow> 'a mdec_state_scheme option" where
  "mdec_Execute req s = map_option (UpdateStatus req) (execute_loop req s)"

text \<open>The words that \<open>CopyOutBlock\<close> pushes, by the output depth.\<close>

definition output_words :: "'a mdec_state_scheme \<Rightarrow> u32 list" where
  "output_words s =
     (let depth = status_output_depth (m_status s); a = push_bit 15 (status_output_bit15 (m_status s))
      in if depth = 0 then pack4_words 8 (m_block_rgb s)
         else if depth = 1 then pack8_words 16 (m_block_rgb s)
         else if depth = 2 then pack24_words 0 0 (m_block_rgb s)
         else if use_old_mdec_routines s then pack15_old (ucast a) (m_block_rgb s)
         else pack15_new a (m_block_rgb s))"

definition CopyOutBlock :: "('a mdec_state_scheme) request_line \<Rightarrow> 'a mdec_state_scheme \<Rightarrow> 'a mdec_state_scheme option" where
  "CopyOutBlock req s =
     (let s1 = Deactivate m_block_copy_out_event s;
          s2 = s1\<lparr>m_data_out_fifo := fold Push (output_words s1) (m_data_out_fifo s1)\<rparr>;
          s3 = s2\<lparr>m_state := (if m_remaining_halfwords s2 = 0 then MDEC_Idle else DecodingMacroblock)\<rparr>
      in mdec_Execute req s3)"

subsection \<open>Registers and DMA\<close>

definition WriteCommandRegister :: "('a mdec_state_scheme) request_line \<Rightarrow> u32 \<Rightarrow> 'a mdec_state_scheme \<Rightarrow> 'a mdec_state_scheme option" where
  "WriteCommandRegister req val s =
     mdec_Execute req (s\<lparr>m_data_in_fifo := Push (ucast (drop_bit 16 val)) (Push (ucast val) (m_data_in_fifo s))\<rparr>)"

definition ReadDataRegister :: "('a mdec_state_scheme) request_line \<Rightarrow> 'a mdec_state_scheme \<Rightarrow> (u32 \<times> 'a mdec_state_scheme) option" where
  "ReadDataRegister req s =
     (if IsEmpty (m_data_out_fifo s) \<and> \<not> HasPendingBlockCopyOut s then Some (0xFFFFFFFF, s)
      else let s1 = (if IsEmpty (m_data_out_fifo s)
                     then AddPendingTicks (GetTicksUntilNextExecution m_block_copy_out_event s) s else s);
               (val, q) = Pop (m_data_out_fifo s1);
               s2 = s1\<lparr>m_data_out_fifo := q\<rparr>
           in if IsEmpty q then map_option (Pair val) (mdec_Execute req s2)
              else Some (val, UpdateStatus req s2))"

definition mdec_ReadRegister :: "('a mdec_state_scheme) request_line \<Rightarrow> u32 \<Rightarrow> 'a mdec_state_scheme \<Rightarrow> (u32 \<times> 'a mdec_state_scheme) option" where
  "mdec_ReadRegister req offset s =
     (if offset = 0 then ReadDataRegister req s
      else if offset = 4 then Some (m_status s, s)
      else Some (0xFFFFFFFF, s))"

definition mdec_WriteRegister :: "('a mdec_state_scheme) request_line \<Rightarrow> u32 \<Rightarrow> u32 \<Rightarrow> 'a mdec_state_scheme \<Rightarrow> 'a mdec_state_scheme option" where
  "mdec_WriteRegister req offset val s =
     (if offset = 0 then WriteCommandRegister req val s
      else if offset = 4 then
        (let s1 = (if bit val 31 then SoftReset req s else s)
         in mdec_Execute req (s1\<lparr>m_enable_dma_in := bit val 30, m_enable_dma_out := bit val 29\<rparr>))
      else Some s)"

definition mdec_read :: "('a mdec_state_scheme) request_line \<Rightarrow> (u32 list \<Rightarrow> 'a mdec_state_scheme \<Rightarrow> 'a mdec_state_scheme)
    \<Rightarrow> nat \<Rightarrow> 'a mdec_state_scheme \<Rightarrow> 'a mdec_state_scheme option" where
  "mdec_read req put word_count s =
     (let words_to_read = min word_count (GetSize (m_data_out_fifo s));
          s1 = (if words_to_read > 0
                then (let (vs, q) = PopRange words_to_read (m_data_out_fifo s)
                      in put vs (s\<lparr>m_data_out_fifo := q\<rparr>)) else s)
      in if IsEmpty (m_data_out_fifo s1) then mdec_Execute req s1 else Some s1)"

definition halfwords_of_words :: "u32 list \<Rightarrow> u16 list" where
  "halfwords_of_words ws = concat (map (\<lambda>w. [ucast w, ucast (drop_bit 16 w)]) ws)"

definition mdec_write :: "('a mdec_state_scheme) request_line \<Rightarrow> u32 list \<Rightarrow> 'a mdec_state_scheme \<Rightarrow> 'a mdec_state_scheme option" where
  "mdec_write req ws s =
     (let halfwords_to_write = min (length ws * 2)
            (unat ((word_of_nat (GetSpace (m_data_in_fifo s)) :: u32) AND NOT 2))
      in mdec_Execute req
           (s\<lparr>m_data_in_fifo := PushRange (take halfwords_to_write (halfwords_of_words ws)) (m_data_in_fifo s)\<rparr>))"

end
