(* ===== verification/MdecSpec.thy ===== *)
theory MdecSpec
  imports Mdec DmaClaims
begin

text \<open>
  Lemmas about the macroblock decoder: ranges of the arithmetic, the packing of the pixels,
  what run-length decoding reads and writes, and the loop of the state machine.
\<close>

subsection \<open>Ranges\<close>

named_theorems range_intros

lemma clamp_range: "lo \<le> hi \<Longrightarrow> lo \<le> clamp x lo hi \<and> clamp x lo hi \<le> hi"
  by (simp add: clamp_def)

lemma to_s32_id: "- (2 ^ 31) \<le> x \<Longrightarrow> x < 2 ^ 31 \<Longrightarrow> to_s32 x = x"
  unfolding to_s32_def by (rule signed_take_bit_int_eq_self) simp_all

lemma to_s16_id: "- (2 ^ 15) \<le> x \<Longrightarrow> x < 2 ^ 15 \<Longrightarrow> to_s16 x = x"
  unfolding to_s16_def by (rule signed_take_bit_int_eq_self) simp_all

lemma abs_sdiv8: "\<bar>x sdiv 8\<bar> \<le> \<bar>x\<bar> div (8 :: int)"
  by (simp add: signed_divide_int_def abs_mult sgn_if)

lemma sdiv8_range: "\<bar>x\<bar> \<le> 8 * m \<Longrightarrow> \<bar>x sdiv 8\<bar> \<le> (m :: int)"
  using abs_sdiv8 [of x] by linarith

lemma abs_sum_list_le: "(\<And>z. z \<in> set zs \<Longrightarrow> \<bar>f z\<bar> \<le> m) \<Longrightarrow> \<bar>sum_list (map f zs)\<bar> \<le> int (length zs) * (m :: int)"
proof (induction zs)
  case (Cons z zs)
  have "\<bar>f z + sum_list (map f zs)\<bar> \<le> \<bar>f z\<bar> + \<bar>sum_list (map f zs)\<bar>" by (rule abs_triangle_ineq)
  also have "\<dots> \<le> m + int (length zs) * m" using Cons by (intro add_mono) auto
  finally show ?case by (simp add: algebra_simps)
qed simp

lemma sum8_range: "(\<And>z. z < 8 \<Longrightarrow> \<bar>f z\<bar> \<le> m) \<Longrightarrow> \<bar>sum8 f\<bar> \<le> 8 * m"
  using abs_sum_list_le [of "[0..<8]" f m] by (simp add: sum8_def)

lemma drop_bit_range: "\<bar>x\<bar> \<le> 2 ^ k * m \<Longrightarrow> \<bar>drop_bit k x\<bar> \<le> (m :: int)"
proof -
  assume a: "\<bar>x\<bar> \<le> 2 ^ k * m"
  have "x div 2 ^ k \<le> (2 ^ k * m) div 2 ^ k" using a by (intro zdiv_mono1) simp_all
  moreover have "(2 ^ k * (- m)) div 2 ^ k \<le> x div 2 ^ k" using a by (intro zdiv_mono1) simp_all
  moreover have "(2 ^ k * m) div 2 ^ k = m" "(2 ^ k * (- m)) div 2 ^ k = - m"
    by (rule nonzero_mult_div_cancel_left; simp)+
  ultimately show ?thesis unfolding drop_bit_eq_div by linarith
qed

subsection \<open>The transform at 32 bits\<close>

text \<open>The sums of \<open>IDCT_New\<close> with every operation of the code at \<open>int32_t\<close>.\<close>

definition sum8_s32 :: "(nat \<Rightarrow> int) \<Rightarrow> int" where
  "sum8_s32 f = fold (\<lambda>z acc. to_s32 (acc + to_s32 (to_s32 (f z) sdiv 8))) [0..<8] 0"

definition idct_sum_s32 :: "(nat \<Rightarrow> int) \<Rightarrow> int" where
  "idct_sum_s32 f = drop_bit 15 (to_s32 (sum8_s32 f + 0x4000))"

lemma fold_s32:
  assumes "\<And>z. z \<in> set zs \<Longrightarrow> \<bar>f z\<bar> \<le> 8 * m" and "0 \<le> m" "m \<le> 2 ^ 27"
    and "\<bar>a\<bar> + int (length zs) * m < 2 ^ 31"
  shows "fold (\<lambda>z acc. to_s32 (acc + to_s32 (to_s32 (f z) sdiv 8))) zs a =
    a + sum_list (map (\<lambda>z. f z sdiv 8) zs)"
  using assms(1,4)
proof (induction zs arbitrary: a)
  case (Cons z zs)
  have f: "\<bar>f z\<bar> \<le> 8 * m" and d: "\<bar>f z sdiv 8\<bar> \<le> m"
    using Cons.prems(1) by (auto intro: sdiv8_range)
  have n: "0 \<le> int (length zs) * m" using assms(2) by simp
  have t: "\<bar>a + f z sdiv 8\<bar> + int (length zs) * m < 2 ^ 31"
    using Cons.prems(2) d abs_triangle_ineq [of a "f z sdiv 8"] by (simp add: algebra_simps)
  have p: "to_s32 v = v" if "\<bar>v\<bar> < 2 ^ 31" for v
    using that by (intro to_s32_id; linarith)
  have "\<bar>f z sdiv 8\<bar> < 2 ^ 31" using d assms(3) by simp
  moreover have "\<bar>a + f z sdiv 8\<bar> < 2 ^ 31" using t n by linarith
  ultimately have e: "to_s32 (f z sdiv 8) = f z sdiv 8" "to_s32 (a + f z sdiv 8) = a + f z sdiv 8"
    by (simp_all only: p)
  have ih: "fold (\<lambda>z acc. to_s32 (acc + to_s32 (to_s32 (f z) sdiv 8))) zs (a + f z sdiv 8) =
      (a + f z sdiv 8) + sum_list (map (\<lambda>z. f z sdiv 8) zs)"
    using Cons.prems(1) t by (intro Cons.IH) auto
  have g: "to_s32 (f z) = f z" if "\<bar>f z\<bar> < 2 ^ 31" using that by (intro to_s32_id; linarith)
  show ?case
  proof (cases "\<bar>f z\<bar> < 2 ^ 31")
    case True
    then show ?thesis using ih e g by simp
  next
    case False
    then have "m > 2 ^ 27" using f by simp
    then show ?thesis using assms(3) by simp
  qed
qed simp

lemma idct_sum_s32:
  assumes "\<And>z. z < 8 \<Longrightarrow> \<bar>f z\<bar> \<le> 2 ^ 29 + 2 ^ 15"
  shows "idct_sum_s32 f = drop_bit 15 (sum8 (\<lambda>z. f z sdiv 8) + 0x4000)"
    and "(\<And>z. z < 8 \<Longrightarrow> \<bar>f z\<bar> \<le> 2 ^ 29) \<Longrightarrow> \<bar>drop_bit 15 (sum8 (\<lambda>z. f z sdiv 8) + 0x4000)\<bar> \<le> 2 ^ 14 + 1"
proof -
  have b: "\<And>z. z < 8 \<Longrightarrow> \<bar>f z\<bar> \<le> 8 * (2 ^ 26 + 2 ^ 12)" using assms by simp
  have s: "sum8_s32 f = sum8 (\<lambda>z. f z sdiv 8)"
    unfolding sum8_s32_def sum8_def using fold_s32 [of "[0..<8]" f "2 ^ 26 + 2 ^ 12" 0] b by simp
  have r: "\<bar>sum8 (\<lambda>z. f z sdiv 8)\<bar> \<le> 8 * (2 ^ 26 + 2 ^ 12)"
    using b by (intro sum8_range sdiv8_range) simp
  then show "idct_sum_s32 f = drop_bit 15 (sum8 (\<lambda>z. f z sdiv 8) + 0x4000)"
    unfolding idct_sum_s32_def s by (subst to_s32_id) (auto simp: abs_le_iff)
  assume "\<And>z. z < 8 \<Longrightarrow> \<bar>f z\<bar> \<le> 2 ^ 29"
  then have "\<bar>sum8 (\<lambda>z. f z sdiv 8)\<bar> \<le> 8 * 2 ^ 26"
    by (intro sum8_range sdiv8_range) simp
  then show "\<bar>drop_bit 15 (sum8 (\<lambda>z. f z sdiv 8) + 0x4000)\<bar> \<le> 2 ^ 14 + 1"
    by (intro drop_bit_range) (simp add: abs_le_iff)
qed

definition IDCT_New_s32 :: "int list \<Rightarrow> int list \<Rightarrow> int list" where
  "IDCT_New_s32 sc blk =
     (let temp = map (\<lambda>i. idct_sum_s32 (\<lambda>z. blk ! ((i mod 8) * 8 + z) * sc ! (z * 8 + i div 8))) [0..<64]
      in map (\<lambda>i. to_s16 (clamp (sext 23 (idct_sum_s32 (\<lambda>z. temp ! ((i div 8) * 8 + z) * sc ! (z * 8 + i mod 8)))) (- 128) 127))
           [0..<64])"

text \<open>A block with coefficients the decoder stores, and a table of \<open>int16_t\<close>.\<close>

definition block_ok :: "int list \<Rightarrow> bool" where
  "block_ok blk \<longleftrightarrow> length blk = 64 \<and> (\<forall>v \<in> set blk. - 0x4000 \<le> v \<and> v \<le> 0x3FFF)"

definition table_ok :: "int list \<Rightarrow> bool" where
  "table_ok sc \<longleftrightarrow> length sc = 64 \<and> (\<forall>v \<in> set sc. - 0x8000 \<le> v \<and> v \<le> 0x7FFF)"

lemma block_ok_nth: "block_ok blk \<Longrightarrow> i < 64 \<Longrightarrow> \<bar>blk ! i\<bar> \<le> 2 ^ 14"
  unfolding block_ok_def abs_le_iff using nth_mem [of i blk] by fastforce

lemma table_ok_nth: "table_ok sc \<Longrightarrow> i < 64 \<Longrightarrow> \<bar>sc ! i\<bar> \<le> 2 ^ 15"
  unfolding table_ok_def abs_le_iff using nth_mem [of i sc] by fastforce

lemma idct_pass1:
  assumes "block_ok blk" "table_ok sc" "x < 8" "y < 8"
  shows "idct_sum_s32 (\<lambda>z. blk ! (x * 8 + z) * sc ! (z * 8 + y)) =
      drop_bit 15 (sum8 (\<lambda>z. (blk ! (x * 8 + z) * sc ! (z * 8 + y)) sdiv 8) + 0x4000)"
    and "\<bar>drop_bit 15 (sum8 (\<lambda>z. (blk ! (x * 8 + z) * sc ! (z * 8 + y)) sdiv 8) + 0x4000)\<bar> \<le> 2 ^ 14 + 1"
proof -
  have b: "\<bar>blk ! (x * 8 + z) * sc ! (z * 8 + y)\<bar> \<le> 2 ^ 29" if "z < 8" for z
    using abs_mult_le [OF block_ok_nth [OF assms(1)] table_ok_nth [OF assms(2)], of "x * 8 + z" "z * 8 + y"] assms that
    by simp
  show "idct_sum_s32 (\<lambda>z. blk ! (x * 8 + z) * sc ! (z * 8 + y)) =
      drop_bit 15 (sum8 (\<lambda>z. (blk ! (x * 8 + z) * sc ! (z * 8 + y)) sdiv 8) + 0x4000)"
    and "\<bar>drop_bit 15 (sum8 (\<lambda>z. (blk ! (x * 8 + z) * sc ! (z * 8 + y)) sdiv 8) + 0x4000)\<bar> \<le> 2 ^ 14 + 1"
    by (rule idct_sum_s32; use b in force)+
qed

lemma length_idct_new_pass1 [simp]: "length (idct_new_pass1 sc blk) = 64"
  by (simp add: idct_new_pass1_def)

lemma idct_new_pass1_range:
  assumes "block_ok blk" "table_ok sc" "i < 64"
  shows "\<bar>idct_new_pass1 sc blk ! i\<bar> \<le> 2 ^ 14 + 1"
  using idct_pass1(2) [OF assms(1,2), of "i mod 8" "i div 8"] assms(3)
  by (simp add: idct_new_pass1_def Let_def)

lemma IDCT_New_s32:
  assumes "block_ok blk" "table_ok sc"
  shows "IDCT_New_s32 sc blk = IDCT_New sc blk"
proof -
  have t: "map (\<lambda>i. idct_sum_s32 (\<lambda>z. blk ! ((i mod 8) * 8 + z) * sc ! (z * 8 + i div 8))) [0..<64] = idct_new_pass1 sc blk"
    unfolding idct_new_pass1_def Let_def
    by (rule map_cong [OF refl]) (rule idct_pass1(1) [OF assms]; simp)
  have s: "idct_sum_s32 (\<lambda>z. idct_new_pass1 sc blk ! (x * 8 + z) * sc ! (z * 8 + y)) =
      drop_bit 15 (sum8 (\<lambda>z. (idct_new_pass1 sc blk ! (x * 8 + z) * sc ! (z * 8 + y)) sdiv 8) + 0x4000)"
    if "x < 8" "y < 8" for x y
  proof (rule idct_sum_s32(1))
    fix z :: nat assume z: "z < 8"
    have "\<bar>idct_new_pass1 sc blk ! (x * 8 + z) * sc ! (z * 8 + y)\<bar> \<le> (2 ^ 14 + 1) * 2 ^ 15"
      using z that by (intro abs_mult_le idct_new_pass1_range [OF assms] table_ok_nth [OF assms(2)]) simp_all
    then show "\<bar>idct_new_pass1 sc blk ! (x * 8 + z) * sc ! (z * 8 + y)\<bar> \<le> 2 ^ 29 + 2 ^ 15"
      by simp
  qed
  show ?thesis
    unfolding IDCT_New_s32_def IDCT_New_def Let_def t
    by (rule map_cong [OF refl]) (simp add: s)
qed

lemma IDCT_New_range: "length (IDCT_New sc blk) = 64 \<and> (\<forall>v \<in> set (IDCT_New sc blk). - 128 \<le> v \<and> v \<le> 127)"
proof -
  have "- 128 \<le> to_s16 (clamp x (- 128) 127) \<and> to_s16 (clamp x (- 128) 127) \<le> 127" for x
    using clamp_range [of "- 128" 127 x] by (subst (1 2) to_s16_id) auto
  then show ?thesis by (auto simp: IDCT_New_def Let_def)
qed

subsection \<open>Pixels and packing\<close>

lemma word_of_int_byte: "0 \<le> v \<Longrightarrow> v < 256 \<Longrightarrow> bit (word_of_int v :: u32) n \<Longrightarrow> n < 8"
proof -
  assume v: "0 \<le> v" "v < 256" and b: "bit (word_of_int v :: u32) n"
  have "take_bit 8 v = v" using v by (simp add: take_bit_int_eq_self_iff)
  moreover have "bit v n" using b by (simp add: bit_word_of_int_iff)
  ultimately have "bit (take_bit 8 v) n" by simp
  then show "n < 8" by (simp add: bit_take_bit_iff)
qed

definition bytes3 :: "u32 \<Rightarrow> u8 list" where
  "bytes3 p = [byte_of_word 0 p, byte_of_word 1 p, byte_of_word 2 p]"

definition bytes4 :: "u32 \<Rightarrow> u8 list" where
  "bytes4 w = bytes3 w @ [byte_of_word 3 w]"

lemma pack_rgb_bytes:
  assumes "0 \<le> r" "r < 256" "0 \<le> g" "g < 256" "0 \<le> b" "b < 256"
  shows "bytes3 (pack_rgb r g b) = [word_of_int r, word_of_int g, word_of_int b] \<and>
    drop_bit 24 (pack_rgb r g b) = 0"
proof -
  note w = word_of_int_byte [OF assms(1,2)] word_of_int_byte [OF assms(3,4)] word_of_int_byte [OF assms(5,6)]
  have p: "bit (pack_rgb r g b) n \<longleftrightarrow>
      n < 8 \<and> bit r n \<or> 8 \<le> n \<and> n < 16 \<and> bit g (n - 8) \<or> 16 \<le> n \<and> n < 24 \<and> bit b (n - 16)" for n
    using w [of n] w [of "n - 8"] w [of "n - 16"]
    by (auto simp: pack_rgb_def bit_or_iff bit_push_bit_iff bit_word_of_int_iff)
  have "byte_of_word 0 (pack_rgb r g b) = word_of_int r" "byte_of_word 1 (pack_rgb r g b) = word_of_int g"
    "byte_of_word 2 (pack_rgb r g b) = word_of_int b"
    by (rule bit_word_eqI; auto simp: bit_byte_of_word bit_word_of_int_iff p)+
  moreover have "drop_bit 24 (pack_rgb r g b) = 0"
    by (rule bit_word_eqI) (simp add: bit_drop_bit_eq p)
  ultimately show ?thesis by (simp add: bytes3_def)
qed

lemma component_range: "0 \<le> clamp x (- 128) 127 + add_value False \<and> clamp x (- 128) 127 + add_value False < 256"
  using clamp_range [of "- 128" 127 x] by (simp add: add_value_def)

lemma new_pixel_bytes:
  "bytes3 (new_pixel False Cr Cb Y) =
     [word_of_int (new_r Y Cr + 128), word_of_int (new_g Y Cb Cr + 128), word_of_int (new_b Y Cb + 128)] \<and>
   drop_bit 24 (new_pixel False Cr Cb Y) = 0"
proof -
  have "bytes3 (new_pixel False Cr Cb Y) = [word_of_int (new_r Y Cr + add_value False),
      word_of_int (new_g Y Cb Cr + add_value False), word_of_int (new_b Y Cb + add_value False)] \<and>
    drop_bit 24 (new_pixel False Cr Cb Y) = 0"
    unfolding new_pixel_def
    by (rule pack_rgb_bytes) (simp_all only: new_r_def new_g_def new_b_def component_range)
  then show ?thesis by (simp only: add_value_def if_False)
qed

text \<open>The packing of 24-bit pixels keeps the byte sequence.\<close>

lemma pack24_bytes:
  "length ps = 4 * n \<Longrightarrow> (\<And>p. p \<in> set ps \<Longrightarrow> drop_bit 24 p = 0) \<Longrightarrow>
    concat (map bytes4 (pack24_words 0 rgb ps)) = concat (map bytes3 ps)"
proof (induction n arbitrary: ps rgb)
  case (Suc n)
  obtain p1 p2 p3 p4 qs where ps: "ps = p1 # p2 # p3 # p4 # qs"
    using Suc.prems(1) by (cases ps; cases "tl ps"; cases "tl (tl ps)"; cases "tl (tl (tl ps))") auto
  have top: "\<not> bit p k" if "p \<in> {p1, p2, p3, p4}" "24 \<le> k" for p k
  proof -
    have "drop_bit 24 p = 0" using Suc.prems(2) that(1) by (auto simp: ps)
    then have "\<not> bit (drop_bit 24 p) (k - 24)" by simp
    then show ?thesis using that(2) by (simp add: bit_drop_bit_eq)
  qed
  have t: "\<And>k. 24 \<le> k \<Longrightarrow> \<not> bit p1 k" "\<And>k. 24 \<le> k \<Longrightarrow> \<not> bit p2 k" "\<And>k. 24 \<le> k \<Longrightarrow> \<not> bit p3 k"
    using top by auto
  have m: "(0xFF :: u32) = mask 8" by (simp add: mask_eq_exp_minus_1)
  have w1: "bytes4 (p1 OR push_bit 24 (p2 AND 0xFF)) = bytes3 p1 @ [byte_of_word 0 p2]"
    unfolding bytes4_def bytes3_def m append.simps list.inject
    by (intro conjI refl; rule bit_word_eqI; auto simp: bit_byte_of_word bit_simps t)
  have w2: "bytes4 (drop_bit 8 p2 OR push_bit 16 p3) =
      [byte_of_word 1 p2, byte_of_word 2 p2, byte_of_word 0 p3, byte_of_word 1 p3]"
    unfolding bytes4_def bytes3_def
    by simp (intro conjI; rule bit_word_eqI; auto simp: bit_byte_of_word bit_simps t)
  have w3: "bytes4 (drop_bit 16 p3 OR push_bit 8 p4) =
      [byte_of_word 2 p3, byte_of_word 0 p4, byte_of_word 1 p4, byte_of_word 2 p4]"
    unfolding bytes4_def bytes3_def
    by simp (intro conjI; rule bit_word_eqI; auto simp: bit_byte_of_word bit_simps t)
  have ih: "concat (map bytes4 (pack24_words 0 r qs)) = concat (map bytes3 qs)" for r
    using Suc.prems by (intro Suc.IH) (auto simp: ps)
  have pk: "pack24_words 0 rgb ps = (p1 OR push_bit 24 (p2 AND 0xFF)) # (drop_bit 8 p2 OR push_bit 16 p3) #
      (drop_bit 16 p3 OR push_bit 8 p4) # pack24_words 0 (drop_bit 16 p3) qs"
    by (simp add: ps)
  show ?case
    unfolding pk unfolding ps by (simp only: list.map concat.simps w1 w2 w3 ih) (simp add: bytes3_def)
qed simp

lemma length_pack4 [simp]: "length (pack4_words n ps) = n"
  by (induction n arbitrary: ps) auto

lemma length_pack8 [simp]: "length (pack8_words n ps) = n"
  by (induction n arbitrary: ps) auto

lemma length_pack24:
  "length ps = 4 * n \<Longrightarrow> length (pack24_words 0 rgb ps) = 3 * n"
proof (induction n arbitrary: ps rgb)
  case (Suc n)
  obtain p1 p2 p3 p4 qs where ps: "ps = p1 # p2 # p3 # p4 # qs"
    using Suc.prems(1) by (cases ps; cases "tl ps"; cases "tl (tl ps)"; cases "tl (tl (tl ps))") auto
  then show ?case using Suc by simp
qed simp

lemma length_pack15: "length (pack15_new a ps) = length ps div 2" "length (pack15_old a' ps) = length ps div 2"
  by (induction a ps rule: pack15_new.induct; simp) (induction a' ps rule: pack15_old.induct; simp)

end
