(* ===== verification/MdecLoop.thy ===== *)
theory MdecLoop
  imports MdecSpec
begin

text \<open>
  The state machine of the macroblock decoder: the invariant of its state, what run-length
  decoding consumes, and the termination of the loop of \<open>Execute\<close>. The request line is
  required to leave the decoder alone (\<open>quiet\<close>): then no transfer nests.
\<close>

subsection \<open>The invariant\<close>

definition in_fifo_ok :: "'a mdec_state_scheme \<Rightarrow> bool" where
  "in_fifo_ok s \<longleftrightarrow> fifo_inv (m_data_in_fifo s) \<and> fifo_capacity (m_data_in_fifo s) = 512"

definition out_fifo_ok :: "'a mdec_state_scheme \<Rightarrow> bool" where
  "out_fifo_ok s \<longleftrightarrow> fifo_inv (m_data_out_fifo s) \<and> fifo_capacity (m_data_out_fifo s) = 192"

definition mode_ok :: "'a mdec_state_scheme \<Rightarrow> bool" where
  "mode_ok s \<longleftrightarrow> m_remaining_halfwords s < 2 ^ 18 \<and>
     (m_state s = SetIqTable \<longrightarrow> m_remaining_halfwords s = 32 \<or> m_remaining_halfwords s = 64) \<and>
     (m_state s = SetScaleTable \<longrightarrow> m_remaining_halfwords s = 64) \<and>
     (m_state s = WritingMacroblock \<longrightarrow> IsEmpty (m_data_out_fifo s))"

definition mdec_blocks_ok :: "'a mdec_state_scheme \<Rightarrow> bool" where
  "mdec_blocks_ok s \<longleftrightarrow> length (m_blocks s) = 6 \<and> (\<forall>b \<in> set (m_blocks s). length b = 64) \<and>
     length (m_block_rgb s) = 256 \<and> m_current_block s \<le> 6"

definition mdec_inv :: "'a mdec_state_scheme \<Rightarrow> bool" where
  "mdec_inv s \<longleftrightarrow> in_fifo_ok s \<and> out_fifo_ok s \<and> mode_ok s \<and> mdec_blocks_ok s"

text \<open>What the invariant and the loop depend on.\<close>

definition mdec_view where
  "mdec_view s = ((m_data_in_fifo s, m_data_out_fifo s, m_state s, m_remaining_halfwords s),
     m_blocks s, m_block_rgb s, m_current_block s, m_current_coefficient s, m_current_q_scale s)"

lemma mdec_view_fields:
  assumes "mdec_view s = mdec_view t"
  shows "m_data_in_fifo s = m_data_in_fifo t" "m_data_out_fifo s = m_data_out_fifo t"
    "m_state s = m_state t" "m_remaining_halfwords s = m_remaining_halfwords t"
    "m_blocks s = m_blocks t" "m_block_rgb s = m_block_rgb t" "m_current_block s = m_current_block t"
    "m_current_coefficient s = m_current_coefficient t"
  using assms by (simp_all add: mdec_view_def)

lemma mdec_inv_cong: "mdec_view s = mdec_view t \<Longrightarrow> mdec_inv s = mdec_inv t"
proof -
  assume "mdec_view s = mdec_view t"
  note f = mdec_view_fields [OF this]
  show ?thesis
    by (simp only: f mdec_inv_def in_fifo_ok_def out_fifo_ok_def mode_ok_def mdec_blocks_ok_def)
qed

definition quiet :: "('a mdec_state_scheme) request_line \<Rightarrow> bool" where
  "quiet req \<longleftrightarrow> (\<forall>ch b s. mdec_view (req ch b s) = mdec_view s)"

lemma quiet_UpdateStatus:
  assumes "quiet req"
  shows "mdec_view (UpdateStatus req s) = mdec_view s"
proof -
  have st: "mdec_view (t\<lparr>m_status := w\<rparr>) = mdec_view t" for t :: "'a mdec_state_scheme" and w
    by (simp add: mdec_view_def)
  have q: "mdec_view (req ch b t) = mdec_view t" for ch b t using assms by (simp add: quiet_def)
  show ?thesis by (simp add: UpdateStatus_def Let_def q st)
qed

subsection \<open>What decoding consumes\<close>

text \<open>\<open>t\<close> is \<open>s\<close> after some halfwords of its input have been read, the counter with them.\<close>

definition consumed :: "'a mdec_state_scheme \<Rightarrow> 'a mdec_state_scheme \<Rightarrow> bool" where
  "consumed s t \<longleftrightarrow> in_fifo_ok t \<and>
     (\<exists>n \<le> m_remaining_halfwords s. fifo_items (m_data_in_fifo t) = drop n (fifo_items (m_data_in_fifo s)) \<and>
        n \<le> m_size (m_data_in_fifo s) \<and> m_remaining_halfwords t = m_remaining_halfwords s - n) \<and>
     m_data_out_fifo t = m_data_out_fifo s \<and> m_state t = m_state s \<and> m_status t = m_status s \<and>
     m_block_rgb t = m_block_rgb s \<and> length (m_blocks t) = length (m_blocks s) \<and>
     ((\<forall>b \<in> set (m_blocks s). length b = 64) \<longrightarrow> (\<forall>b \<in> set (m_blocks t). length b = 64)) \<and>
     te_view t = te_view s \<and> use_old_mdec_routines t = use_old_mdec_routines s"

lemma consumed_refl: "in_fifo_ok s \<Longrightarrow> consumed s s"
  by (auto simp: consumed_def intro: exI [of _ 0])

lemma consumed_trans: "consumed s t \<Longrightarrow> consumed t u \<Longrightarrow> consumed s u"
proof -
  assume st: "consumed s t" and tu: "consumed t u"
  obtain n where n: "n \<le> m_remaining_halfwords s" "n \<le> m_size (m_data_in_fifo s)"
    "fifo_items (m_data_in_fifo t) = drop n (fifo_items (m_data_in_fifo s))"
    "m_remaining_halfwords t = m_remaining_halfwords s - n" using st unfolding consumed_def by blast
  obtain k where k: "k \<le> m_remaining_halfwords t" "k \<le> m_size (m_data_in_fifo t)"
    "fifo_items (m_data_in_fifo u) = drop k (fifo_items (m_data_in_fifo t))"
    "m_remaining_halfwords u = m_remaining_halfwords t - k" using tu unfolding consumed_def by blast
  have "m_size (m_data_in_fifo t) = m_size (m_data_in_fifo s) - n"
    using arg_cong [OF n(3), of length] by simp
  then have "\<exists>j \<le> m_remaining_halfwords s. fifo_items (m_data_in_fifo u) = drop j (fifo_items (m_data_in_fifo s)) \<and>
      j \<le> m_size (m_data_in_fifo s) \<and> m_remaining_halfwords u = m_remaining_halfwords s - j"
    using n k by (intro exI [of _ "n + k"]) (auto simp: add.commute)
  then show ?thesis using st tu by (simp add: consumed_def)
qed

lemma consumed_next:
  assumes "in_fifo_ok s" "can_read s"
  shows "consumed s (snd (next_halfword s))"
    and "fst (next_halfword s) = hd (fifo_items (m_data_in_fifo s))"
    and "m_remaining_halfwords (snd (next_halfword s)) = m_remaining_halfwords s - 1"
    and "m_current_coefficient (snd (next_halfword s)) = m_current_coefficient s"
    and "m_current_block (snd (next_halfword s)) = m_current_block s"
proof -
  have i: "fifo_inv (m_data_in_fifo s)" and p: "0 < m_size (m_data_in_fifo s)" "0 < m_remaining_halfwords s"
    using assms by (auto simp: in_fifo_ok_def can_read_def IsEmpty_def)
  show "consumed s (snd (next_halfword s))"
    using assms fifo_inv_RemoveOne [OF i p(1)] fifo_items_RemoveOne [OF i p(1)] p
    by (auto simp: consumed_def next_halfword_def Let_def case_prod_beta Pop_def in_fifo_ok_def te_view_def
        drop_Suc intro!: exI [of _ "Suc 0"])
  show "fst (next_halfword s) = hd (fifo_items (m_data_in_fifo s))"
    by (simp add: next_halfword_def Let_def case_prod_beta Pop_def hd_fifo_items [OF i p(1)])
qed (simp_all add: next_halfword_def Let_def case_prod_beta)

lemma consumed_upd_block:
  assumes "in_fifo_ok s" "\<And>blk. length (f blk) = 64 \<or> length (f blk) = length blk"
  shows "consumed s (upd_block b f s)"
proof -
  have "length blk = 64" if "blk \<in> set ((m_blocks s)[b := f (m_blocks s ! b)])"
    "\<forall>blk \<in> set (m_blocks s). length blk = 64" for blk
  proof (cases "b < length (m_blocks s)")
    case True
    then have "m_blocks s ! b \<in> set (m_blocks s)" by simp
    then have "length (f (m_blocks s ! b)) = 64" using that(2) assms(2) by metis
    then show ?thesis using that set_update_subset_insert [of "m_blocks s" b] by (metis insertE subsetD)
  next
    case False
    then have "(m_blocks s)[b := f (m_blocks s ! b)] = m_blocks s" by (intro list_update_beyond) simp
    then show ?thesis using that by simp
  qed
  then show ?thesis
    using assms(1) unfolding consumed_def
    by (auto simp: upd_block_def modify_at_def in_fifo_ok_def te_view_def intro: exI [of _ 0])
qed

lemma consumed_fields [intro]:
  "consumed s t \<Longrightarrow> consumed s (t\<lparr>m_current_coefficient := k\<rparr>)"
  "consumed s t \<Longrightarrow> consumed s (t\<lparr>m_current_q_scale := q\<rparr>)"
  "consumed s t \<Longrightarrow> consumed s (t\<lparr>m_current_block := c\<rparr>)"
  by (simp_all add: consumed_def in_fifo_ok_def te_view_def)

lemma consumed_in_fifo: "consumed s t \<Longrightarrow> in_fifo_ok t"
  by (simp add: consumed_def)

lemma skip_padding_consumed:
  "in_fifo_ok s \<Longrightarrow> consumed s (snd (skip_padding s)) \<and>
    (fst (skip_padding s) = None \<longrightarrow> \<not> can_read (snd (skip_padding s))) \<and>
    m_current_block (snd (skip_padding s)) = m_current_block s"
proof (induction s rule: skip_padding.induct)
  case (1 s)
  show ?case
  proof (cases "can_read s")
    case True
    note c = consumed_next [OF 1(2) True]
    have ok: "in_fifo_ok (snd (next_halfword s))" by (rule consumed_in_fifo [OF c(1)])
    have ih: "fst (next_halfword s) = 0xFE00 \<Longrightarrow>
      consumed (snd (next_halfword s)) (snd (skip_padding (snd (next_halfword s)))) \<and>
      (fst (skip_padding (snd (next_halfword s))) = None \<longrightarrow> \<not> can_read (snd (skip_padding (snd (next_halfword s))))) \<and>
      m_current_block (snd (skip_padding (snd (next_halfword s)))) = m_current_block (snd (next_halfword s))"
      using True ok by (intro 1(1)) (auto simp: prod_eq_iff)
    show ?thesis
      using ih c True consumed_trans [OF c(1)]
      by (subst (1 2 3 4) skip_padding.simps) (auto simp: case_prod_beta Let_def)
  next
    case False
    then show ?thesis using 1(2) by (subst (1 2 3 4) skip_padding.simps) (simp add: consumed_refl)
  qed
qed

lemma rle_coefficients_consumed:
  assumes put: "\<And>q k n blk. length (put_ac q k n blk) = length blk"
  shows "in_fifo_ok s \<Longrightarrow> consumed s (snd (rle_coefficients put_ac b s)) \<and>
    (fst (rle_coefficients put_ac b s) \<or> \<not> can_read (snd (rle_coefficients put_ac b s))) \<and>
    m_current_block (snd (rle_coefficients put_ac b s)) = m_current_block s"
proof (induction "m_remaining_halfwords s" arbitrary: s rule: less_induct)
  case less
  show ?case
  proof (cases "can_read s")
    case True
    note c = consumed_next [OF less.prems True]
    let ?s1 = "snd (next_halfword s)" and ?n = "fst (next_halfword s)"
    let ?k = "m_current_coefficient ?s1 + run_length ?n + 1"
    let ?s2 = "?s1\<lparr>m_current_coefficient := ?k\<rparr>"
    let ?s3 = "if ?k < 64 then upd_block b (put_ac (m_current_q_scale ?s2) ?k ?n) ?s2 else ?s2"
    have c2: "consumed s ?s2" using c(1) by (rule consumed_fields)
    have c3: "consumed s ?s3"
      using consumed_trans [OF c2 consumed_upd_block [OF consumed_in_fifo [OF c2]]] c2 put by auto
    have f3: "m_remaining_halfwords ?s3 = m_remaining_halfwords s - 1" "m_current_block ?s3 = m_current_block s"
      using c by (simp_all add: upd_block_def)
    have lt: "m_remaining_halfwords ?s3 < m_remaining_halfwords s"
      using f3 True by (simp add: can_read_def)
    note ih = less.hyps [OF lt consumed_in_fifo [OF c3]]
    have eq: "rle_coefficients put_ac b s =
        (if ?k \<ge> 63 then (True, ?s3\<lparr>m_current_coefficient := 64\<rparr>) else rle_coefficients put_ac b ?s3)"
      using True by (subst rle_coefficients.simps) (simp only: Let_def case_prod_beta not_True_eq_False if_False)
    show ?thesis
    proof (cases "?k \<ge> 63")
      case True
      have r: "rle_coefficients put_ac b s = (True, ?s3\<lparr>m_current_coefficient := 64\<rparr>)"
        using eq True by (simp only: if_True)
      have cb: "m_current_block (?s3\<lparr>m_current_coefficient := 64\<rparr>) = m_current_block s"
        using f3(2) by simp
      show ?thesis unfolding r snd_conv fst_conv using consumed_fields(1) [OF c3] cb by blast
    next
      case False
      then have r: "rle_coefficients put_ac b s = rle_coefficients put_ac b ?s3"
        using eq by (simp only: if_False)
      show ?thesis unfolding r using ih consumed_trans [OF c3] f3(2) by metis
    qed
  next
    case False
    then show ?thesis using less.prems by (subst (1 2 3 4) rle_coefficients.simps) (simp add: consumed_refl)
  qed
qed

lemma DecodeRLE_consumed:
  assumes s: "in_fifo_ok s" and dc: "\<And>q n blk. length (put_dc q n blk) = length blk"
    and ac: "\<And>q k n blk. length (put_ac q k n blk) = length blk"
  shows "consumed s (snd (DecodeRLE put_dc put_ac b s)) \<and>
    (fst (DecodeRLE put_dc put_ac b s) \<or> \<not> can_read (snd (DecodeRLE put_dc put_ac b s))) \<and>
    m_current_block (snd (DecodeRLE put_dc put_ac b s)) = m_current_block s"
proof (cases "m_current_coefficient s = 64")
  case True
  let ?z = "upd_block b (\<lambda>_. replicate 64 0) s"
  have cz: "consumed s ?z" using s by (rule consumed_upd_block) simp
  have bz: "m_current_block ?z = m_current_block s" by (simp add: upd_block_def)
  note sp = skip_padding_consumed [OF consumed_in_fifo [OF cz]]
  show ?thesis
  proof (cases "skip_padding ?z")
    case (Pair res s1)
    have c1: "consumed s s1" and b1: "m_current_block s1 = m_current_block s"
      using consumed_trans [OF cz] sp Pair bz by auto
    show ?thesis
    proof (cases res)
      case None
      then show ?thesis using True Pair sp c1 b1 by (simp add: DecodeRLE_def)
    next
      case (Some n)
      let ?q = "unat (drop_bit 10 n)"
      let ?u = "upd_block b (put_dc ?q n) (s1\<lparr>m_current_coefficient := 0, m_current_q_scale := ?q\<rparr>)"
      have cu': "consumed s (s1\<lparr>m_current_coefficient := 0, m_current_q_scale := ?q\<rparr>)"
        using c1 by (intro consumed_fields)
      have cu: "consumed s ?u"
        by (rule consumed_trans [OF cu' consumed_upd_block [OF consumed_in_fifo [OF cu']]]) (simp add: dc)
      have bu: "m_current_block ?u = m_current_block s" using b1 by (simp add: upd_block_def)
      have r: "DecodeRLE put_dc put_ac b s = rle_coefficients put_ac b ?u"
        using True Pair Some by (simp add: DecodeRLE_def Let_def)
      show ?thesis
        unfolding r using rle_coefficients_consumed [where b = b, OF ac consumed_in_fifo [OF cu]] consumed_trans [OF cu] bu
        by auto
    qed
  qed
next
  case False
  then show ?thesis using rle_coefficients_consumed [where b = b, OF ac s] by (simp add: DecodeRLE_def)
qed

lemma length_puts [simp]:
  "length (old_put_dc qt q n blk) = length blk" "length (old_put_ac qt q k n blk) = length blk"
  "length (new_put_dc qt q n blk) = length blk" "length (new_put_ac qt q k n blk) = length blk"
  by (simp_all add: old_put_dc_def old_put_ac_def new_put_dc_def new_put_ac_def)

lemma length_IDCT [simp]: "length (IDCT_New sc blk) = 64" "length (IDCT_Old sc blk) = 64"
  by (simp_all add: IDCT_New_def IDCT_Old_def Let_def)

lemma current_block_upd_block: "m_current_block (upd_block b f t) = m_current_block t"
  by (simp add: upd_block_def)

lemma decode_block_consumed:
  assumes s: "in_fifo_ok s"
  shows "consumed s (snd (decode_block b qt s)) \<and>
    (fst (decode_block b qt s) \<or> \<not> can_read (snd (decode_block b qt s))) \<and>
    m_current_block (snd (decode_block b qt s)) = m_current_block s"
proof -
  let ?d = "if use_old_mdec_routines s then DecodeRLE_Old b qt s else DecodeRLE_New b qt s"
  have d: "consumed s (snd ?d) \<and> (fst ?d \<or> \<not> can_read (snd ?d)) \<and> m_current_block (snd ?d) = m_current_block s"
    using DecodeRLE_consumed [OF s, of "old_put_dc qt" "old_put_ac qt" b]
      DecodeRLE_consumed [OF s, of "new_put_dc qt" "new_put_ac qt" b]
    by (auto simp: DecodeRLE_Old_def DecodeRLE_New_def)
  let ?f = "if use_old_mdec_routines s then IDCT_Old (m_scale_table (snd ?d)) else IDCT_New (m_scale_table (snd ?d))"
  have cd: "consumed s (snd ?d)" using d by blast
  have c: "consumed s (upd_block b ?f (snd ?d))"
    by (rule consumed_trans [OF cd consumed_upd_block [OF consumed_in_fifo [OF cd]]]) simp
  have e: "decode_block b qt s = (if fst ?d then (True, upd_block b ?f (snd ?d)) else (False, snd ?d))"
    unfolding decode_block_def Let_def case_prod_beta by (rule refl)
  have cb: "m_current_block (upd_block b ?f (snd ?d)) = m_current_block (snd ?d)"
    by (rule current_block_upd_block)
  show ?thesis
    unfolding e using d c cb by (cases "fst ?d") (simp_all only: if_True if_False fst_conv snd_conv simp_thms)
qed

lemma decode_blocks_consumed:
  "in_fifo_ok s \<Longrightarrow> consumed s (snd (decode_blocks n s)) \<and>
    (fst (decode_blocks n s) \<or> \<not> can_read (snd (decode_blocks n s))) \<and>
    m_current_block (snd (decode_blocks n s)) \<le> m_current_block s + n"
proof (induction n arbitrary: s)
  case (Suc n)
  let ?d = "decode_block (m_current_block s) (if m_current_block s \<ge> 2 then m_iq_y s else m_iq_uv s) s"
  note d = decode_block_consumed [OF Suc.prems, of "m_current_block s" "if m_current_block s \<ge> 2 then m_iq_y s else m_iq_uv s"]
  let ?t = "(snd ?d)\<lparr>m_current_block := m_current_block (snd ?d) + 1\<rparr>"
  have t: "consumed s ?t" using d by blast
  note ih = Suc.IH [OF consumed_in_fifo [OF t]]
  show ?case
  proof (cases "fst ?d")
    case True
    then have e: "decode_blocks (Suc n) s = decode_blocks n ?t" by (simp add: case_prod_beta)
    show ?thesis unfolding e using ih consumed_trans [OF t] d by simp
  next
    case False
    then have e: "decode_blocks (Suc n) s = (False, snd ?d)" by (simp add: case_prod_beta)
    show ?thesis unfolding e using d False by simp
  qed
qed (simp add: consumed_refl)

subsection \<open>A macroblock\<close>

lemma mdec_view_more:
  fixes s t :: "'a mdec_state_scheme"
  shows "te_state.more s = te_state.more t \<Longrightarrow> mdec_view s = mdec_view t \<and> m_status s = m_status t"
  by (cases s; cases t) (simp add: mdec_view_def)

lemma mdec_more_Schedule:
  "te_state.more (ScheduleBlockCopyOut ticks s) = te_state.more s" "te_state.more (Deactivate e s) = te_state.more s"
  by (simp_all add: ScheduleBlockCopyOut_def SetIntervalAndSchedule_def SetInterval_def Deactivate_def
      set_node_def Let_def frame)

lemmas mdec_view_Schedule [simp] =
  mdec_view_more [OF mdec_more_Schedule(1), THEN conjunct1] mdec_view_more [OF mdec_more_Schedule(2), THEN conjunct1]
  mdec_view_more [OF mdec_more_Schedule(1), THEN conjunct2] mdec_view_more [OF mdec_more_Schedule(2), THEN conjunct2]

text \<open>The state after some decoding, and after a whole macroblock.\<close>

lemma consumed_inv:
  assumes c: "consumed s t" and inv: "mdec_inv s" and st: "m_state s = DecodingMacroblock" and b: "m_current_block t \<le> 6"
  shows "mdec_inv t" and "m_size (m_data_in_fifo t) \<le> m_size (m_data_in_fifo s)"
    and "m_state t = DecodingMacroblock" and "m_data_out_fifo t = m_data_out_fifo s"
proof -
  obtain n where n: "fifo_items (m_data_in_fifo t) = drop n (fifo_items (m_data_in_fifo s))"
    "m_remaining_halfwords t = m_remaining_halfwords s - n"
    using c unfolding consumed_def by blast
  have "m_size (m_data_in_fifo t) = m_size (m_data_in_fifo s) - n"
    using arg_cong [OF n(1), of length] by simp
  then show "m_size (m_data_in_fifo t) \<le> m_size (m_data_in_fifo s)" by simp
  show "m_state t = DecodingMacroblock" "m_data_out_fifo t = m_data_out_fifo s"
    using c st by (simp_all add: consumed_def)
  show "mdec_inv t"
    using st c inv b n(2) by (auto simp: mdec_inv_def consumed_def out_fifo_ok_def mode_ok_def mdec_blocks_ok_def)
qed

lemma length_yuv_quarter [simp]: "length (yuv_quarter pixel xx yy cr cb y rgb) = length rgb"
proof -
  have "length (fold (\<lambda>i rgb. rgb[f i := g i]) is rgb) = length rgb" for f :: "nat \<Rightarrow> nat" and g :: "nat \<Rightarrow> u32" and "is"
    by (induction "is" arbitrary: rgb) auto
  then show ?thesis by (simp add: yuv_quarter_def Let_def)
qed

lemma length_yuv_to_rgb [simp]: "length (yuv_to_rgb s) = length (m_block_rgb s)"
  by (simp add: yuv_to_rgb_def Let_def)

lemma length_YUVToMono [simp]: "length ys = 64 \<Longrightarrow> length rgb = 256 \<Longrightarrow> length (YUVToMono sg ys rgb) = 256"
  by (simp add: YUVToMono_def)

text \<open>The state before the copy-out is scheduled.\<close>

definition finish_macroblock :: "u32 list \<Rightarrow> 'a mdec_state_scheme \<Rightarrow> 'a mdec_state_scheme" where
  "finish_macroblock rgb t = ((ResetDecoder t)\<lparr>m_state := WritingMacroblock, m_block_rgb := rgb\<rparr>)"

lemma finish_macroblock_inv:
  assumes "mdec_inv t" "IsEmpty (m_data_out_fifo t)" "length rgb = 256"
    and "mdec_view u = mdec_view (finish_macroblock rgb t)"
  shows "mdec_inv u" and "m_data_in_fifo u = m_data_in_fifo t" and "m_data_out_fifo u = m_data_out_fifo t"
    and "m_state u = WritingMacroblock"
proof -
  have "mdec_inv (finish_macroblock rgb t)"
    using assms(1-3) by (auto simp: mdec_inv_def finish_macroblock_def ResetDecoder_def in_fifo_ok_def out_fifo_ok_def
        mode_ok_def mdec_blocks_ok_def)
  then show "mdec_inv u" using mdec_inv_cong [OF assms(4)] by simp
  show "m_data_in_fifo u = m_data_in_fifo t" "m_data_out_fifo u = m_data_out_fifo t" "m_state u = WritingMacroblock"
    using mdec_view_fields [OF assms(4)] by (simp_all add: finish_macroblock_def ResetDecoder_def)
qed

text \<open>The outcome of an attempt to decode a macroblock: done, or still decoding.\<close>

definition decode_outcome :: "'a mdec_state_scheme \<Rightarrow> bool \<times> 'a mdec_state_scheme \<Rightarrow> bool" where
  "decode_outcome s r \<longleftrightarrow> mdec_inv (snd r) \<and> m_size (m_data_in_fifo (snd r)) \<le> m_size (m_data_in_fifo s) \<and>
     m_data_out_fifo (snd r) = m_data_out_fifo s \<and>
     m_state (snd r) = (if fst r then WritingMacroblock else DecodingMacroblock)"

lemma decode_outcome_False:
  "consumed s t \<Longrightarrow> mdec_inv s \<Longrightarrow> m_state s = DecodingMacroblock \<Longrightarrow> m_current_block t \<le> 6 \<Longrightarrow>
    decode_outcome s (False, t)"
  by (simp add: decode_outcome_def consumed_inv)

lemma decode_outcome_True:
  assumes "consumed s t" "mdec_inv s" "m_state s = DecodingMacroblock" "m_current_block t \<le> 6"
    and "IsEmpty (m_data_out_fifo s)" "length rgb = 256" and "mdec_view u = mdec_view (finish_macroblock rgb t)"
  shows "decode_outcome s (True, u)"
proof -
  note c = consumed_inv [OF assms(1-4)]
  have "IsEmpty (m_data_out_fifo t)" using c(4) assms(5) by simp
  note f = finish_macroblock_inv [OF c(1) this assms(6,7)]
  show ?thesis using c f by (simp add: decode_outcome_def)
qed

lemma mdec_view_simps [simp]:
  "mdec_view (s\<lparr>m_total_blocks_decoded := n\<rparr>) = mdec_view s" "mdec_view (s\<lparr>m_status := w\<rparr>) = mdec_view s"
  by (simp_all add: mdec_view_def)

lemma DecodeMono_outcome:
  assumes inv: "mdec_inv s" and st: "m_state s = DecodingMacroblock"
  shows "decode_outcome s (DecodeMonoMacroblock s)"
proof -
  have i: "in_fifo_ok s" and b: "m_current_block s \<le> 6" using inv by (simp_all add: mdec_inv_def mdec_blocks_ok_def)
  let ?d = "decode_block 0 (m_iq_y s) s"
  have d: "consumed s (snd ?d)" and db: "m_current_block (snd ?d) \<le> 6"
    using decode_block_consumed [OF i] b by auto
  have bl: "length (m_blocks (snd ?d) ! 0) = 64" "length (m_block_rgb (snd ?d)) = 256"
    using consumed_inv(1) [OF d inv st db] by (auto simp: mdec_inv_def mdec_blocks_ok_def)
  show ?thesis
  proof (cases "IsEmpty (m_data_out_fifo s)")
    case False
    then show ?thesis
      using decode_outcome_False [OF consumed_refl [OF i] inv st b] by (simp add: DecodeMonoMacroblock_def)
  next
    case e: True
    show ?thesis
    proof (cases "fst ?d")
      case False
      then show ?thesis
        using e decode_outcome_False [OF d inv st db] by (simp add: DecodeMonoMacroblock_def case_prod_beta)
    next
      case True
      let ?rgb = "YUVToMono (status_output_signed (m_status (snd ?d))) (m_blocks (snd ?d) ! 0) (m_block_rgb (snd ?d))"
      have eq: "DecodeMonoMacroblock s = (True, let s4 = ScheduleBlockCopyOut (TICKS_PER_BLOCK * 6) (finish_macroblock ?rgb (snd ?d))
          in s4\<lparr>m_total_blocks_decoded := m_total_blocks_decoded s4 + 1\<rparr>)"
        using e True by (simp add: DecodeMonoMacroblock_def case_prod_beta Let_def finish_macroblock_def ResetDecoder_def)
      show ?thesis
        unfolding eq Let_def
        by (rule decode_outcome_True [OF d inv st db e, of ?rgb]) (simp_all add: bl)
    qed
  qed
qed

lemma DecodeColored_outcome:
  assumes inv: "mdec_inv s" and st: "m_state s = DecodingMacroblock"
  shows "decode_outcome s (DecodeColoredMacroblock s)"
proof -
  have i: "in_fifo_ok s" and b: "m_current_block s \<le> 6" using inv by (simp_all add: mdec_inv_def mdec_blocks_ok_def)
  let ?d = "decode_blocks (NUM_BLOCKS - m_current_block s) s"
  have d: "consumed s (snd ?d)" and db: "m_current_block (snd ?d) \<le> 6"
    using decode_blocks_consumed [OF i, of "NUM_BLOCKS - m_current_block s"] b by auto
  have bl: "length (m_block_rgb (snd ?d)) = 256" and o: "m_data_out_fifo (snd ?d) = m_data_out_fifo s"
    using consumed_inv [OF d inv st db] by (auto simp: mdec_inv_def mdec_blocks_ok_def)
  show ?thesis
  proof (cases "fst ?d \<and> IsEmpty (m_data_out_fifo s)")
    case False
    then show ?thesis
      using decode_outcome_False [OF d inv st db] o by (auto simp: DecodeColoredMacroblock_def case_prod_beta)
  next
    case True
    let ?t = "(ResetDecoder (snd ?d))\<lparr>m_state := WritingMacroblock\<rparr>"
    have eq: "DecodeColoredMacroblock s = (True, ScheduleBlockCopyOut (TICKS_PER_BLOCK * 6)
        (?t\<lparr>m_block_rgb := yuv_to_rgb ?t, m_total_blocks_decoded := m_total_blocks_decoded ?t + 4\<rparr>))"
      using True o by (simp add: DecodeColoredMacroblock_def case_prod_beta Let_def)
    have len: "length (yuv_to_rgb ?t) = 256" using bl by (simp add: ResetDecoder_def)
    show ?thesis
      unfolding eq
      by (rule decode_outcome_True [OF d inv st db _ len])
        (use True in \<open>simp_all add: finish_macroblock_def\<close>)
  qed
qed

lemma HandleDecode_outcome:
  "mdec_inv s \<Longrightarrow> m_state s = DecodingMacroblock \<Longrightarrow> decode_outcome s (HandleDecodeMacroblockCommand s)"
  by (simp add: HandleDecodeMacroblockCommand_def DecodeMono_outcome DecodeColored_outcome)

subsection \<open>The loop\<close>

definition mdec_work :: "'a mdec_state_scheme \<Rightarrow> nat" where
  "mdec_work s = 2 * m_size (m_data_in_fifo s) + (if m_state s = MDEC_Idle then 0 else 1)"

lemma mdec_work_cong: "mdec_view s = mdec_view t \<Longrightarrow> mdec_work s = mdec_work t"
  using mdec_view_fields [of s t] by (simp add: mdec_work_def)

lemma PopRange_spec:
  assumes "fifo_inv q" "n \<le> m_size q"
  shows "fifo_inv (snd (PopRange n q)) \<and> fst (PopRange n q) = take n (fifo_items q) \<and>
    fifo_items (snd (PopRange n q)) = drop n (fifo_items q) \<and> fifo_capacity (snd (PopRange n q)) = fifo_capacity q \<and>
    m_size (snd (PopRange n q)) = m_size q - n"
proof -
  have a: "fifo_inv (snd (PopRange n q)) \<and> fst (PopRange n q) = take n (fifo_items q) \<and>
    fifo_items (snd (PopRange n q)) = drop n (fifo_items q) \<and> fifo_capacity (snd (PopRange n q)) = fifo_capacity q"
    using fifo.pop_n_spec [of q n] assms by (simp add: PopRange_pop_n)
  then have "length (fifo_items (snd (PopRange n q))) = length (fifo_items q) - n" by simp
  then have "m_size (snd (PopRange n q)) = m_size q - n" by (simp only: length_fifo_items)
  then show ?thesis using a by blast
qed

lemma Remove_spec:
  assumes "fifo_inv q" "n \<le> m_size q"
  shows "fifo_inv (Remove n q) \<and> fifo_items (Remove n q) = drop n (fifo_items q) \<and>
    fifo_capacity (Remove n q) = fifo_capacity q \<and> m_size (Remove n q) = m_size q - n"
proof -
  have "length (fifo_items (Remove n q)) = length (fifo_items q) - n" using Remove_fifo [OF assms] by simp
  then have "m_size (Remove n q) = m_size q - n" by (simp only: length_fifo_items)
  then show ?thesis using Remove_fifo [OF assms] by blast
qed

text \<open>The three kinds of command that set tables or skip words, and the start of a command.\<close>

lemma SetQuant_inv:
  assumes inv: "mdec_inv s" and st: "m_state s = SetIqTable"
    and sz: "m_remaining_halfwords s \<le> m_size (m_data_in_fifo s)"
  shows "mdec_inv ((HandleSetQuantTableCommand s)\<lparr>m_state := MDEC_Idle\<rparr>) \<and>
    m_size (m_data_in_fifo (HandleSetQuantTableCommand s)) < m_size (m_data_in_fifo s)"
proof -
  let ?q = "m_data_in_fifo s"
  have q: "fifo_inv ?q" "fifo_capacity ?q = 512" and rem: "m_remaining_halfwords s = 32 \<or> m_remaining_halfwords s = 64"
    using inv st by (simp_all add: mdec_inv_def in_fifo_ok_def mode_ok_def)
  have n: "32 \<le> m_size ?q" using rem sz by auto
  note p = PopRange_spec [OF q(1) n]
  have n2: "m_remaining_halfwords s = 64 \<Longrightarrow> 32 \<le> m_size (snd (PopRange 32 ?q))" using p sz by simp
  note p2 = PopRange_spec [OF _ n2]
  show ?thesis
    using rem
  proof
    assume r: "m_remaining_halfwords s = 32"
    then show ?thesis using inv p q n
      by (simp add: HandleSetQuantTableCommand_def case_prod_beta Let_def mdec_inv_def in_fifo_ok_def out_fifo_ok_def
          mode_ok_def mdec_blocks_ok_def)
  next
    assume r: "m_remaining_halfwords s = 64"
    then show ?thesis using inv p p2 q n
      by (simp add: HandleSetQuantTableCommand_def case_prod_beta Let_def mdec_inv_def in_fifo_ok_def out_fifo_ok_def
          mode_ok_def mdec_blocks_ok_def)
  qed
qed

lemma SetScale_inv:
  assumes inv: "mdec_inv s" and st: "m_state s = SetScaleTable"
    and sz: "m_remaining_halfwords s \<le> m_size (m_data_in_fifo s)"
  shows "mdec_inv ((HandleSetScaleCommand s)\<lparr>m_state := MDEC_Idle\<rparr>) \<and>
    m_size (m_data_in_fifo (HandleSetScaleCommand s)) < m_size (m_data_in_fifo s)"
proof -
  have q: "fifo_inv (m_data_in_fifo s)" "fifo_capacity (m_data_in_fifo s) = 512" and n: "64 \<le> m_size (m_data_in_fifo s)"
    and r: "m_remaining_halfwords s = 64"
    using inv st sz by (simp_all add: mdec_inv_def in_fifo_ok_def mode_ok_def)
  show ?thesis using inv PopRange_spec [OF q(1) n] q n r
    by (simp add: HandleSetScaleCommand_def case_prod_beta Let_def mdec_inv_def in_fifo_ok_def out_fifo_ok_def
        mode_ok_def mdec_blocks_ok_def)
qed

lemma start_command_inv:
  assumes inv: "mdec_inv s" and sz: "2 \<le> m_size (m_data_in_fifo s)"
  shows "mdec_inv (start_command s) \<and> m_size (m_data_in_fifo (start_command s)) + 2 = m_size (m_data_in_fifo s)"
proof -
  let ?cw = "ucast (Peek 0 (m_data_in_fifo s)) OR push_bit 16 (ucast (Peek 1 (m_data_in_fifo s))) :: u32"
  have q: "fifo_inv (m_data_in_fifo s)" using inv by (simp add: mdec_inv_def in_fifo_ok_def)
  have m: "bf_get 0 16 ?cw = take_bit 16 (drop_bit 0 ?cw)" by (rule bf_get_take_bit)
  have "unat (bf_get 0 16 ?cw) < 2 ^ 16"
    unfolding m unsigned_take_bit_eq by (rule take_bit_nat_less_exp)
  then have d: "fst (decode_command ?cw) \<le> 2 ^ 16 - 1 \<and>
      (snd (decode_command ?cw) = SetIqTable \<longrightarrow> fst (decode_command ?cw) = 16 \<or> fst (decode_command ?cw) = 32) \<and>
      (snd (decode_command ?cw) = SetScaleTable \<longrightarrow> fst (decode_command ?cw) = 32) \<and>
      snd (decode_command ?cw) \<noteq> WritingMacroblock"
    unfolding decode_command_def Let_def by (auto simp del: bf_get_take_bit)
  have c: "fifo_inv (Clear (m_data_out_fifo s))" using inv by (simp add: mdec_inv_def out_fifo_ok_def fifo_inv_Clear)
  show ?thesis
    using inv Remove_spec [OF q sz] d c sz
    unfolding start_command_def Let_def case_prod_beta
    by (auto simp add: mdec_inv_def in_fifo_ok_def out_fifo_ok_def mode_ok_def mdec_blocks_ok_def)
qed

text \<open>One step keeps the invariant, and a step that continues does less work.\<close>

definition step_ok :: "'a mdec_state_scheme \<Rightarrow> 'a mdec_state_scheme + 'a mdec_state_scheme \<Rightarrow> bool" where
  "step_ok s r \<longleftrightarrow> (case r of Inl t \<Rightarrow> mdec_inv t | Inr t \<Rightarrow> mdec_inv t \<and> mdec_work t < mdec_work s)"

lemma step_ok_Inr:
  assumes "quiet req" "mdec_inv t" "mdec_work t < mdec_work s"
  shows "step_ok s (Inr (UpdateStatus req t))"
  using mdec_inv_cong [OF quiet_UpdateStatus [OF assms(1)], of t] mdec_work_cong [OF quiet_UpdateStatus [OF assms(1)], of t]
    assms(2,3)
  by (simp add: step_ok_def)

lemma step_ok_Inl: "mdec_inv t \<Longrightarrow> step_ok s (Inl t)"
  by (simp add: step_ok_def)

lemma idle_inv: "mdec_inv s \<Longrightarrow> mdec_inv (s\<lparr>m_state := MDEC_Idle\<rparr>)"
  by (simp add: mdec_inv_def in_fifo_ok_def out_fifo_ok_def mode_ok_def mdec_blocks_ok_def)

lemma ResetDecoder_inv: "mdec_inv s \<Longrightarrow> mdec_inv (ResetDecoder s)"
  by (simp add: ResetDecoder_def mdec_inv_def in_fifo_ok_def out_fifo_ok_def mode_ok_def mdec_blocks_ok_def)

lemma execute_step_ok:
  assumes q: "quiet req" and inv: "mdec_inv s"
  shows "step_ok s (execute_step req s)"
proof (cases "m_state s")
  case MDEC_Idle
  show ?thesis
  proof (cases "GetSize (m_data_in_fifo s) < 2")
    case True
    then show ?thesis using MDEC_Idle inv by (simp add: execute_step_def step_ok_def)
  next
    case False
    then have "mdec_inv (start_command s)" "m_size (m_data_in_fifo (start_command s)) + 2 = m_size (m_data_in_fifo s)"
      using start_command_inv [OF inv] by (simp_all add: GetSize_def)
    then have "step_ok s (Inr (UpdateStatus req (start_command s)))"
      by (intro step_ok_Inr [OF q]) (simp_all add: mdec_work_def MDEC_Idle)
    then show ?thesis using False MDEC_Idle by (simp add: execute_step_def)
  qed
next
  case DecodingMacroblock
  note d = HandleDecode_outcome [OF inv DecodingMacroblock, unfolded decode_outcome_def]
  let ?t = "snd (HandleDecodeMacroblockCommand s)"
  have "step_ok s (Inl ?t)" using d by (intro step_ok_Inl) simp
  moreover have "step_ok s (Inr ((ResetDecoder ?t)\<lparr>m_state := MDEC_Idle\<rparr>))" if "\<not> fst (HandleDecodeMacroblockCommand s)"
  proof -
    have "mdec_work ((ResetDecoder ?t)\<lparr>m_state := MDEC_Idle\<rparr>) < mdec_work s"
      using d DecodingMacroblock by (simp add: mdec_work_def ResetDecoder_def)
    then show ?thesis using idle_inv [OF ResetDecoder_inv, of ?t] d by (simp add: step_ok_def)
  qed
  ultimately show ?thesis by (simp add: execute_step_def DecodingMacroblock Let_def case_prod_beta)
next
  case SetIqTable
  show ?thesis
    using SetQuant_inv [OF inv SetIqTable] inv SetIqTable
    by (auto simp: execute_step_def GetSize_def not_less mdec_work_def intro!: step_ok_Inr [OF q] step_ok_Inl)
next
  case SetScaleTable
  show ?thesis
    using SetScale_inv [OF inv SetScaleTable] inv SetScaleTable
    by (auto simp: execute_step_def GetSize_def not_less mdec_work_def intro!: step_ok_Inr [OF q] step_ok_Inl)
next
  case NoCommand
  let ?n = "min (m_remaining_halfwords s) (GetSize (m_data_in_fifo s))"
  let ?t = "s\<lparr>m_data_in_fifo := Remove ?n (m_data_in_fifo s), m_remaining_halfwords := m_remaining_halfwords s - ?n\<rparr>"
  have n: "?n \<le> m_size (m_data_in_fifo s)" by (simp add: GetSize_def)
  have f: "fifo_inv (m_data_in_fifo s)" using inv by (simp add: mdec_inv_def in_fifo_ok_def)
  note rs = Remove_spec [OF f n]
  have t: "mdec_inv ?t"
    using inv rs NoCommand
    by (simp add: mdec_inv_def in_fifo_ok_def out_fifo_ok_def mode_ok_def mdec_blocks_ok_def less_imp_diff_less)
  have i: "mdec_inv (?t\<lparr>m_state := MDEC_Idle\<rparr>)"
    using t by (rule idle_inv)
  have w: "mdec_work (?t\<lparr>m_state := MDEC_Idle\<rparr>) < mdec_work s"
    using rs NoCommand by (simp add: mdec_work_def)
  show ?thesis
    unfolding execute_step_def NoCommand mdec_mode.case Let_def
    using step_ok_Inl [OF t] step_ok_Inr [OF q i w] by (cases "m_remaining_halfwords ?t = 0") (simp_all only: if_True if_False simp_thms)
qed (simp add: execute_step_def step_ok_def inv)

lemma execute_loop_returns:
  assumes q: "quiet req"
  shows "mdec_inv s \<Longrightarrow> \<exists>t. execute_loop req s = Some t \<and> mdec_inv t"
proof (induction "mdec_work s" arbitrary: s rule: less_induct)
  case less
  show ?case
  proof (cases "execute_step req s")
    case (Inl t)
    then have "execute_loop req s = Some t" by (subst execute_loop.simps) simp
    then show ?thesis using execute_step_ok [OF q less.prems] Inl by (simp add: step_ok_def)
  next
    case (Inr t)
    then have "mdec_inv t" "mdec_work t < mdec_work s"
      using execute_step_ok [OF q less.prems] by (simp_all add: step_ok_def)
    moreover have "execute_loop req s = execute_loop req t" using Inr by (subst execute_loop.simps) simp
    ultimately show ?thesis using less.hyps by simp
  qed
qed

lemma Execute_returns:
  assumes "quiet req" "mdec_inv s"
  shows "\<exists>t. mdec_Execute req s = Some t \<and> mdec_inv t"
  using execute_loop_returns [OF assms] mdec_inv_cong [OF quiet_UpdateStatus [OF assms(1)]]
  by (auto simp: mdec_Execute_def)

end
