(* ===== verification/MdecClaims.thy ===== *)
theory MdecClaims
  imports MdecLoop
begin

text \<open>
  The properties of the macroblock decoder, with three behaviours the modelling showed: a
  skipped command that is never left, a read that underflows the output FIFO, and a DMA
  write that drops a word although there is space for it.
\<close>

subsection \<open>A concrete decoder\<close>

definition mdec_boot :: mdec_state where
  "mdec_boot = dma_state.extend dma_boot
     (mdec_state.fields 0 False False (new_fifo 512 0) (new_fifo 192 0) MDEC_Idle 0
        (replicate 64 0) (replicate 64 0) (replicate 64 0) (replicate 6 (replicate 64 0)) 0 64 0
        (replicate 256 0) 0 False)"

lemmas mdec_run_defs = mdec_boot_def mdec_state.defs dma_run_defs

lemma mdec_boot_fields:
  "m_data_in_fifo mdec_boot = new_fifo 512 0" "m_data_out_fifo mdec_boot = new_fifo 192 0"
  "m_state mdec_boot = MDEC_Idle" "m_remaining_halfwords mdec_boot = 0"
  "m_blocks mdec_boot = replicate 6 (replicate 64 0)" "m_block_rgb mdec_boot = replicate 256 0"
  "m_current_block mdec_boot = 0" "m_status mdec_boot = 0"
  by (simp_all add: mdec_run_defs)

lemma mdec_inv_boot: "mdec_inv mdec_boot"
  by (simp add: mdec_inv_def in_fifo_ok_def out_fifo_ok_def mode_ok_def mdec_blocks_ok_def mdec_boot_fields
      fifo_inv_new new_fifo_def [of _ "0 :: 32 word"] new_fifo_def [of _ "0 :: 16 word"] fifo_inv_def)

definition quiet_req :: "mdec_state request_line" where "quiet_req ch b s = s"

lemma quiet_quiet_req: "quiet quiet_req"
  by (simp add: quiet_def quiet_req_def)

subsection \<open>Pushing\<close>


lemma in_fifo_Push2:
  assumes "mdec_inv s" "m_size (m_data_in_fifo s) + 2 \<le> 512"
  shows "mdec_inv (s\<lparr>m_data_in_fifo := Push b (Push a (m_data_in_fifo s))\<rparr>)"
    and "fifo_items (Push b (Push a (m_data_in_fifo s))) = fifo_items (m_data_in_fifo s) @ [a, b]"
proof -
  let ?q = "m_data_in_fifo s"
  have q: "fifo_inv ?q" "fifo_capacity ?q = 512" using assms(1) by (simp_all add: mdec_inv_def in_fifo_ok_def)
  have sp: "fifo_inv (fifo.push_all [a, b] ?q) \<and> fifo_items (fifo.push_all [a, b] ?q) = fifo_items ?q @ [a, b] \<and>
      fifo_capacity (fifo.push_all [a, b] ?q) = fifo_capacity ?q"
    using q assms(2) by (intro fifo.push_all_spec) simp_all
  show "mdec_inv (s\<lparr>m_data_in_fifo := Push b (Push a ?q)\<rparr>)"
    using assms(1) sp q by (simp add: mdec_inv_def in_fifo_ok_def out_fifo_ok_def mode_ok_def mdec_blocks_ok_def)
  show "fifo_items (Push b (Push a ?q)) = fifo_items ?q @ [a, b]" using sp by simp
qed




lemma mdec_view_enables [simp]:
  "mdec_view (s\<lparr>m_enable_dma_in := a\<rparr>) = mdec_view s" "mdec_view (s\<lparr>m_enable_dma_out := b\<rparr>) = mdec_view s"
  by (simp_all add: mdec_view_def)


subsection \<open>Properties\<close>





text \<open>
  A 24-bit macroblock is packed without a gap: the 256 pixels become 192 words, exactly what the
  output FIFO holds, and the bytes of the words are the red, green and blue bytes of the
  pixels in their order.
\<close>

theorem output_24bit_bytes:
  assumes len: "length (m_block_rgb s) = 256" and depth: "status_output_depth (m_status s) = 2"
    and clean: "\<forall>p \<in> set (m_block_rgb s). drop_bit 24 p = 0"
  shows "length (output_words s) = 192 \<and>
    concat (map bytes4 (output_words s)) = concat (map bytes3 (m_block_rgb s))"
proof -
  have o: "output_words s = pack24_words 0 0 (m_block_rgb s)"
    unfolding output_words_def Let_def depth by simp
  show ?thesis
    unfolding o using pack24_bytes [of "m_block_rgb s" 64] length_pack24 [of "m_block_rgb s" 64] len clean by simp
qed

definition mdec_24bit :: mdec_state where
  "mdec_24bit = mdec_boot\<lparr>m_status := 0x04000000\<rparr>"

theorem output_24bit_bytes_witness:
  "length (output_words mdec_24bit) = 192 \<and>
    concat (map bytes4 (output_words mdec_24bit)) = concat (map bytes3 (m_block_rgb mdec_24bit))"
proof (rule output_24bit_bytes)
  have "take_bit 2 (drop_bit 25 (0x04000000 :: u32)) = 2" by simp
  then show "status_output_depth (m_status mdec_24bit) = 2"
    by (simp add: mdec_24bit_def bf_get_take_bit)
qed (simp_all add: mdec_24bit_def mdec_boot_fields)



text \<open>
  Every unsigned pixel is three clean bytes: red, green and blue in 0 to 255, and nothing above
  them, for all values of the three blocks.
\<close>

theorem unsigned_pixel_bytes:
  "bytes3 (new_pixel False Cr Cb Y) =
     [word_of_int (new_r Y Cr + 128), word_of_int (new_g Y Cb Cr + 128), word_of_int (new_b Y Cb + 128)] \<and>
   drop_bit 24 (new_pixel False Cr Cb Y) = 0"
  by (rule new_pixel_bytes)

text \<open>
  A command the decoder does not know is never left: once its parameter words are there, every
  further word that is written stays in the FIFO and the decoder stays in \<open>NoCommand\<close>, busy,
  until it is reset (the code goes back to \<open>Idle\<close> only while parameters are missing).
\<close>

theorem unknown_command_never_ends:
  assumes q: "quiet req" and inv: "mdec_inv s" and st: "m_state s = NoCommand"
    and sz: "m_size (m_data_in_fifo s) \<le> 510" and last: "m_remaining_halfwords s \<le> m_size (m_data_in_fifo s) + 2"
  shows "\<exists>t. mdec_WriteRegister req 0 val s = Some t \<and> m_state t = NoCommand \<and> m_remaining_halfwords t = 0 \<and>
    m_size (m_data_in_fifo t) = m_size (m_data_in_fifo s) + 2 - m_remaining_halfwords s"
proof -
  let ?q = "Push (ucast (drop_bit 16 val)) (Push (ucast val) (m_data_in_fifo s))"
  let ?n = "m_remaining_halfwords s"
  have i: "mdec_inv (s\<lparr>m_data_in_fifo := ?q\<rparr>)" and items: "fifo_items ?q = fifo_items (m_data_in_fifo s) @ [ucast val, ucast (drop_bit 16 val)]"
    using in_fifo_Push2 [OF inv, of "ucast (drop_bit 16 val)" "ucast val"] sz by simp_all
  have len: "m_size ?q = m_size (m_data_in_fifo s) + 2"
    using arg_cong [OF items, of length] by simp
  have fq: "fifo_inv ?q" using i by (simp add: mdec_inv_def in_fifo_ok_def)
  have r: "m_size (Remove ?n ?q) = m_size ?q - ?n"
    using Remove_spec [OF fq, of ?n] last len by simp
  let ?t = "s\<lparr>m_data_in_fifo := Remove ?n ?q, m_remaining_halfwords := 0\<rparr>"
  have "execute_step req (s\<lparr>m_data_in_fifo := ?q\<rparr>) = Inl ?t"
    using st last len by (simp add: execute_step_def Let_def GetSize_def)
  then have e: "mdec_WriteRegister req 0 val s = Some (UpdateStatus req ?t)"
    by (simp add: mdec_WriteRegister_def WriteCommandRegister_def mdec_Execute_def execute_loop.simps)
  show ?thesis
    using mdec_view_fields [OF quiet_UpdateStatus [OF q, of ?t]] st r len by (simp add: e)
qed

definition mdec_no_command :: mdec_state where
  "mdec_no_command = mdec_boot\<lparr>m_state := NoCommand, m_remaining_halfwords := 2\<rparr>"

theorem unknown_command_never_ends_witness:
  "\<exists>t. mdec_WriteRegister quiet_req 0 7 mdec_no_command = Some t \<and> m_state t = NoCommand \<and> m_remaining_halfwords t = 0 \<and>
    m_size (m_data_in_fifo t) = m_size (m_data_in_fifo mdec_no_command) + 2 - m_remaining_halfwords mdec_no_command"
proof (rule unknown_command_never_ends [OF quiet_quiet_req])
  show "mdec_inv mdec_no_command"
    using mdec_inv_boot
    by (simp add: mdec_no_command_def mdec_inv_def in_fifo_ok_def out_fifo_ok_def mode_ok_def mdec_blocks_ok_def)
qed (simp_all add: mdec_no_command_def mdec_boot_fields new_fifo_def)

text \<open>
  Reading the data register while a macroblock is about to be copied out adds the waiting time to
  the CPU's ticks but does not run the event: it pops the empty FIFO, whose size becomes
  2 ^ 32 - 1, so that the FIFO no longer counts as empty.
\<close>

theorem read_while_pending_underflows:
  assumes q: "quiet req" and e: "IsEmpty (m_data_out_fifo s)" and p: "HasPendingBlockCopyOut s"
  shows "\<exists>v t. mdec_ReadRegister req 0 s = Some (v, t) \<and> m_size (m_data_out_fifo t) = 2 ^ 32 - 1 \<and>
    \<not> IsEmpty (m_data_out_fifo t)"
proof -
  have sz: "m_size (RemoveOne (m_data_out_fifo s)) = 2 ^ 32 - 1"
    using e by (simp add: IsEmpty_def RemoveOne_def sub_u32_def)
  let ?s1 = "AddPendingTicks (GetTicksUntilNextExecution m_block_copy_out_event s) s"
  let ?t = "?s1\<lparr>m_data_out_fifo := RemoveOne (m_data_out_fifo s)\<rparr>"
  have o: "m_data_out_fifo ?s1 = m_data_out_fifo s" by (simp add: AddPendingTicks_def)
  have r: "mdec_ReadRegister req 0 s = Some (fst (Pop (m_data_out_fifo s)), UpdateStatus req ?t)"
    using e p sz o by (simp add: mdec_ReadRegister_def ReadDataRegister_def Let_def Pop_def IsEmpty_def)
  have "m_data_out_fifo (UpdateStatus req ?t) = RemoveOne (m_data_out_fifo s)"
    using mdec_view_fields(2) [OF quiet_UpdateStatus [OF q, of ?t]] by simp
  then show ?thesis using r sz by (intro exI) (auto simp: IsEmpty_def)
qed

definition mdec_pending :: mdec_state where
  "mdec_pending = mdec_boot\<lparr>te_nodes := (te_nodes mdec_boot)(m_block_copy_out_event :=
     (te_nodes mdec_boot m_block_copy_out_event)\<lparr>te_active := True\<rparr>)\<rparr>"

theorem read_while_pending_underflows_witness:
  "\<exists>v t. mdec_ReadRegister quiet_req 0 mdec_pending = Some (v, t) \<and> m_size (m_data_out_fifo t) = 2 ^ 32 - 1 \<and>
    \<not> IsEmpty (m_data_out_fifo t)"
proof (rule read_while_pending_underflows [OF quiet_quiet_req])
  show "HasPendingBlockCopyOut mdec_pending" by (simp add: HasPendingBlockCopyOut_def mdec_pending_def)
  have "m_data_out_fifo mdec_pending = new_fifo 192 0" by (simp add: mdec_pending_def mdec_boot_fields)
  then show "IsEmpty (m_data_out_fifo mdec_pending)" by (simp add: IsEmpty_def new_fifo_def)
qed

text \<open>
  A DMA write with room for exactly one word drops all its words: \<open>GetSpace() & ~2\<close>
  clears bit 1 of the number of free halfwords (it was meant to round it down to whole
  words, bit 0), so of 2 free halfwords none is used.
\<close>

theorem dma_write_drops_word:
  assumes q: "fifo_inv (m_data_in_fifo s)" and sp: "GetSpace (m_data_in_fifo s) = 2"
  shows "mdec_write req ws s = mdec_Execute req s"
proof -
  have z: "unat ((2 :: u32) AND NOT 2) = 0" by simp
  have p: "PushRange [] (m_data_in_fifo s) = m_data_in_fifo s"
    using q by (simp add: PushRange_def Let_def memcpy_at_def fifo_inv_def)
  show ?thesis by (simp add: mdec_write_def Let_def sp z p)
qed

definition mdec_almost_full :: mdec_state where
  "mdec_almost_full = mdec_boot\<lparr>m_data_in_fifo :=
     \<lparr>m_ptr = replicate 512 0, m_head = 0, m_tail = 510, m_size = 510\<rparr>\<rparr>"

theorem dma_write_drops_word_witness:
  "mdec_write quiet_req [0x12345678] mdec_almost_full = mdec_Execute quiet_req mdec_almost_full"
  by (rule dma_write_drops_word) (simp_all add: mdec_almost_full_def fifo_inv_def GetSpace_def)

end
