(* ===== verification/SpuVoice.thy ===== *)
theory SpuVoice
  imports BitField
begin

text \<open>
  A voice of the sound processor (\<open>src/core/spu.h\<close>, \<open>spu.cpp\<close>): the envelope that steps a volume,
  the volume sweeps, the attack, decay, sustain and release phases, the decoding of a block of
  compressed samples and the interpolation between them. A 16-bit sample or volume is a word read
  with \<open>sint\<close>; the intermediate results, which the code keeps in \<open>int32_t\<close>, are integers, and
  \<open>SpuSpec\<close> shows that they fit.
\<close>

definition Clamp16 :: "int \<Rightarrow> int" where
  "Clamp16 v = (if v < - 0x8000 then - 0x8000 else if v > 0x7FFF then 0x7FFF else v)"

definition ApplyVolume :: "int \<Rightarrow> s16 \<Rightarrow> int" where
  "ApplyVolume sample volume = drop_bit 15 (sample * sint volume)"

subsection \<open>Envelopes\<close>

record envelope =
  env_counter :: int
  env_rate :: nat
  env_decreasing :: bool
  env_exponential :: bool

text \<open>\<open>ComputeADSRTableEntries\<close>: the ticks between two steps, and the step.\<close>

definition adsr_ticks :: "nat \<Rightarrow> int" where
  "adsr_ticks rate = (if rate < 48 then 1 else push_bit (rate div 4 - 11) 1)"

definition adsr_step :: "bool \<Rightarrow> nat \<Rightarrow> int" where
  "adsr_step decreasing rate =
     (let step = (if decreasing then - 8 + int (rate mod 4) else 7 - int (rate mod 4))
      in if rate < 48 then push_bit (11 - rate div 4) step else step)"

definition envelope_Reset :: "nat \<Rightarrow> bool \<Rightarrow> bool \<Rightarrow> envelope" where
  "envelope_Reset rate decreasing exponential =
     \<lparr>env_counter = adsr_ticks rate, env_rate = rate, env_decreasing = decreasing, env_exponential = exponential\<rparr>"

text \<open>The step and the ticks to the next one, changed by an exponential envelope.\<close>

definition envelope_step :: "envelope \<Rightarrow> s16 \<Rightarrow> int \<times> int" where
  "envelope_step e level =
     (let step = adsr_step (env_decreasing e) (env_rate e);
          ticks = adsr_ticks (env_rate e)
      in if \<not> env_exponential e then (step, ticks)
         else if env_decreasing e then (drop_bit 15 (step * sint level), ticks)
         else if sint level \<ge> 0x6000
         then (if env_rate e < 40 then (drop_bit 2 step, ticks)
               else if env_rate e \<ge> 44 then (step, drop_bit 2 ticks)
               else (drop_bit 1 step, drop_bit 1 ticks))
         else (step, ticks))"

definition envelope_Tick :: "s16 \<Rightarrow> envelope \<Rightarrow> s16 \<times> envelope" where
  "envelope_Tick level e0 =
     (let e = e0\<lparr>env_counter := env_counter e0 - 1\<rparr>
      in if env_counter e > 0 then (level, e)
         else let (this_step, ticks) = envelope_step e level
              in (word_of_int (min (max (sint level + this_step) 0) 0x7FFF), e\<lparr>env_counter := ticks\<rparr>))"

subsection \<open>Volumes\<close>

record sweep =
  sweep_envelope :: envelope
  envelope_active :: bool
  current_level :: s16

definition zero_sweep :: sweep where
  "zero_sweep = \<lparr>sweep_envelope = \<lparr>env_counter = 0, env_rate = 0, env_decreasing = False, env_exponential = False\<rparr>,
     envelope_active = False, current_level = 0\<rparr>"

text \<open>A volume register: sweep mode is bit 15, exponential 14, decreasing 13, the rate bits 0 to 6; else half the volume.\<close>

definition sweep_Reset :: "u16 \<Rightarrow> sweep \<Rightarrow> sweep" where
  "sweep_Reset reg v =
     (if \<not> bit reg 15
      then v\<lparr>current_level := bf_get_signed 0 15 reg * 2, envelope_active := False\<rparr>
      else v\<lparr>sweep_envelope := envelope_Reset (unat (bf_get 0 7 reg)) (bit reg 13) (bit reg 14), envelope_active := True\<rparr>)"

definition sweep_Tick :: "sweep \<Rightarrow> sweep" where
  "sweep_Tick v =
     (if \<not> envelope_active v then v
      else let (level, e) = envelope_Tick (current_level v) (sweep_envelope v)
           in v\<lparr>current_level := level, sweep_envelope := e,
                envelope_active := (if env_decreasing e then sint level > 0 else sint level < 0x7FFF)\<rparr>)"

subsection \<open>Voices\<close>

datatype adsr_phase = PhaseOff | PhaseAttack | PhaseDecay | PhaseSustain | PhaseRelease

record voice =
  current_address :: u16
  voice_regs :: "u16 list"
  voice_counter :: u32
  current_block_flags :: u8
  is_first_block :: bool
  current_block_samples :: "s16 list"
  adpcm_last_samples :: "s16 \<times> s16"
  last_volume :: int
  left_volume :: sweep
  right_volume :: sweep
  adsr_envelope :: envelope
  adsr_phase :: adsr_phase
  adsr_target :: s16
  has_samples :: bool
  ignore_loop_address :: bool

text \<open>
  The registers: volume left and right, sample rate, start address, the two halves of \<open>ADSRRegister\<close>,
  the volume of the envelope, repeat address.
\<close>

definition adpcm_sample_rate :: "voice \<Rightarrow> u16" where "adpcm_sample_rate v = voice_regs v ! 2"
definition adpcm_start_address :: "voice \<Rightarrow> u16" where "adpcm_start_address v = voice_regs v ! 3"
definition adsr_bits :: "voice \<Rightarrow> u32" where
  "adsr_bits v = ucast (voice_regs v ! 4) OR push_bit 16 (ucast (voice_regs v ! 5))"
definition adsr_volume :: "voice \<Rightarrow> s16" where "adsr_volume v = voice_regs v ! 6"
definition adpcm_repeat_address :: "voice \<Rightarrow> u16" where "adpcm_repeat_address v = voice_regs v ! 7"

definition set_voice_reg :: "nat \<Rightarrow> u16 \<Rightarrow> voice \<Rightarrow> voice" where
  "set_voice_reg i x v = v\<lparr>voice_regs := (voice_regs v)[i := x]\<rparr>"

definition interpolation_index :: "voice \<Rightarrow> nat" where
  "interpolation_index v = unat (bf_get 4 8 (voice_counter v))"

definition sample_index :: "voice \<Rightarrow> nat" where
  "sample_index v = unat (bf_get 12 5 (voice_counter v))"

definition IsOn :: "voice \<Rightarrow> bool" where
  "IsOn v \<longleftrightarrow> adsr_phase v \<noteq> PhaseOff"

fun GetNextADSRPhase :: "adsr_phase \<Rightarrow> adsr_phase" where
  "GetNextADSRPhase PhaseAttack = PhaseDecay"
| "GetNextADSRPhase PhaseDecay = PhaseSustain"
| "GetNextADSRPhase PhaseSustain = PhaseSustain"
| "GetNextADSRPhase _ = PhaseOff"

text \<open>
  \<open>ADSRRegister\<close>: sustain level 0 to 3, decay rate 4 to 7, attack rate 8 to 14, attack exponential 15,
  release rate 16 to 20, release exponential 21, sustain rate 22 to 28, sustain decreasing 30,
  sustain exponential 31.
\<close>

definition UpdateADSREnvelope :: "voice \<Rightarrow> voice" where
  "UpdateADSREnvelope v =
     (let r = adsr_bits v
      in case adsr_phase v of
           PhaseOff \<Rightarrow> v\<lparr>adsr_target := 0, adsr_envelope := envelope_Reset 0 False False\<rparr>
         | PhaseAttack \<Rightarrow>
             v\<lparr>adsr_target := 32767, adsr_envelope := envelope_Reset (unat (bf_get 8 7 r)) False (bit r 15)\<rparr>
         | PhaseDecay \<Rightarrow>
             v\<lparr>adsr_target := word_of_int (min (uint ((bf_get 0 4 r + 1) * 0x800)) 0x7FFF),
               adsr_envelope := envelope_Reset (unat (bf_get 4 4 r) * 4) True True\<rparr>
         | PhaseSustain \<Rightarrow>
             v\<lparr>adsr_target := 0, adsr_envelope := envelope_Reset (unat (bf_get 22 7 r)) (bit r 30) (bit r 31)\<rparr>
         | PhaseRelease \<Rightarrow>
             v\<lparr>adsr_target := 0, adsr_envelope := envelope_Reset (unat (bf_get 16 5 r) * 4) True (bit r 21)\<rparr>)"

definition reached_target :: "voice \<Rightarrow> bool" where
  "reached_target v \<longleftrightarrow>
     (if env_decreasing (adsr_envelope v) then sint (adsr_volume v) \<le> sint (adsr_target v)
      else sint (adsr_volume v) \<ge> sint (adsr_target v))"

definition TickADSR :: "voice \<Rightarrow> voice" where
  "TickADSR v0 =
     (let (level, e) = envelope_Tick (adsr_volume v0) (adsr_envelope v0);
          v = (set_voice_reg 6 level v0)\<lparr>adsr_envelope := e\<rparr>
      in if adsr_phase v \<noteq> PhaseSustain \<and> reached_target v
         then UpdateADSREnvelope (v\<lparr>adsr_phase := GetNextADSRPhase (adsr_phase v)\<rparr>)
         else v)"

definition KeyOn :: "voice \<Rightarrow> voice" where
  "KeyOn v =
     UpdateADSREnvelope
       ((set_voice_reg 6 0 v)
          \<lparr>current_address := adpcm_start_address v AND NOT 1, voice_counter := 0, adpcm_last_samples := (0, 0),
           current_block_samples := (current_block_samples v)[28 := 0, 29 := 0, 30 := 0],
           has_samples := False, is_first_block := True, ignore_loop_address := False, adsr_phase := PhaseAttack\<rparr>)"

definition KeyOff :: "voice \<Rightarrow> voice" where
  "KeyOff v =
     (if adsr_phase v = PhaseOff \<or> adsr_phase v = PhaseRelease then v
      else UpdateADSREnvelope (v\<lparr>adsr_phase := PhaseRelease\<rparr>))"

definition ForceOff :: "voice \<Rightarrow> voice" where
  "ForceOff v = (if adsr_phase v = PhaseOff then v else (set_voice_reg 6 0 v)\<lparr>adsr_phase := PhaseOff\<rparr>)"

subsection \<open>Compressed samples\<close>

text \<open>\<open>ADPCMBlock\<close>: the shift and the filter, the flags and 14 bytes with two samples each.\<close>

record adpcm_block =
  shift_filter :: u8
  block_flags :: u8
  block_data :: "u8 list"

definition GetShift_block :: "adpcm_block \<Rightarrow> nat" where
  "GetShift_block b = (let shift = unat (bf_get 0 4 (shift_filter b)) in if shift > 12 then 9 else shift)"

definition GetFilter :: "adpcm_block \<Rightarrow> nat" where
  "GetFilter b = min (unat (bf_get 4 3 (shift_filter b))) 4"

definition GetNibble :: "nat \<Rightarrow> adpcm_block \<Rightarrow> u8" where
  "GetNibble index b = drop_bit (index mod 2 * 4) (block_data b ! (index div 2)) AND 0x0F"

definition filter_table_pos :: "int list" where "filter_table_pos = [0, 60, 115, 98, 122]"
definition filter_table_neg :: "int list" where "filter_table_neg = [0, 0, - 52, - 55, - 60]"

definition adpcm_sample :: "adpcm_block \<Rightarrow> nat \<Rightarrow> s16 \<times> s16 \<Rightarrow> int" where
  "adpcm_sample b i lasts =
     drop_bit (GetShift_block b) (sint (push_bit 12 (ucast (GetNibble i b)) :: s16))
     + drop_bit 6 (sint (fst lasts) * filter_table_pos ! GetFilter b)
     + drop_bit 6 (sint (snd lasts) * filter_table_neg ! GetFilter b)"

fun decode_samples :: "adpcm_block \<Rightarrow> nat list \<Rightarrow> s16 \<times> s16 \<Rightarrow> s16 list \<times> (s16 \<times> s16)" where
  "decode_samples b [] lasts = ([], lasts)"
| "decode_samples b (i # is) lasts =
     (let s = word_of_int (Clamp16 (adpcm_sample b i lasts));
          (ss, lasts') = decode_samples b is (s, fst lasts)
      in (s # ss, lasts'))"

definition DecodeBlock :: "adpcm_block \<Rightarrow> voice \<Rightarrow> voice" where
  "DecodeBlock b v =
     (let old = current_block_samples v;
          (samples, lasts) = decode_samples b [0..<28] (adpcm_last_samples v)
      in v\<lparr>current_block_samples := [old ! 28, old ! 29, old ! 30] @ samples, adpcm_last_samples := lasts,
           current_block_flags := block_flags b\<rparr>)"

subsection \<open>Interpolation\<close>

definition gauss :: "int list" where
  "gauss = [
     - 1, - 1, - 1, - 1, - 1, - 1, - 1, - 1, - 1, - 1, - 1, - 1, - 1, - 1, - 1, - 1,
     0, 0, 0, 0, 0, 0, 0, 1, 1, 1, 1, 2, 2, 2, 3, 3,
     3, 4, 4, 5, 5, 6, 7, 7, 8, 9, 9, 10, 11, 12, 13, 14,
     15, 16, 17, 18, 19, 21, 22, 24, 25, 27, 28, 30, 32, 33, 35, 37,
     39, 41, 44, 46, 48, 51, 53, 56, 58, 61, 64, 67, 70, 73, 77, 80,
     84, 87, 91, 95, 99, 103, 107, 111, 116, 120, 125, 130, 135, 140, 145, 150,
     156, 161, 167, 173, 179, 186, 192, 199, 205, 212, 219, 227, 234, 242, 250, 257,
     266, 274, 283, 291, 300, 309, 319, 328, 338, 348, 358, 369, 379, 390, 401, 412,
     424, 436, 448, 460, 473, 485, 498, 512, 525, 539, 553, 567, 582, 597, 612, 627,
     643, 659, 675, 692, 708, 726, 743, 761, 779, 797, 816, 835, 854, 874, 894, 914,
     935, 956, 977, 999, 1020, 1043, 1066, 1089, 1112, 1136, 1160, 1184, 1209, 1234, 1260, 1286,
     1312, 1339, 1366, 1394, 1422, 1450, 1479, 1508, 1537, 1567, 1598, 1628, 1660, 1691, 1723, 1756,
     1789, 1822, 1856, 1890, 1924, 1959, 1995, 2031, 2067, 2104, 2141, 2179, 2217, 2256, 2295, 2334,
     2374, 2415, 2456, 2497, 2539, 2582, 2624, 2668, 2712, 2756, 2801, 2846, 2892, 2938, 2985, 3032,
     3079, 3128, 3176, 3225, 3275, 3325, 3376, 3427, 3479, 3531, 3584, 3637, 3691, 3745, 3799, 3855,
     3910, 3967, 4023, 4081, 4138, 4197, 4255, 4315, 4374, 4435, 4495, 4557, 4619, 4681, 4744, 4807,
     4871, 4935, 5000, 5065, 5131, 5197, 5264, 5332, 5399, 5468, 5536, 5606, 5676, 5746, 5817, 5888,
     5959, 6032, 6104, 6177, 6251, 6325, 6400, 6475, 6550, 6626, 6702, 6779, 6856, 6934, 7012, 7091,
     7170, 7249, 7329, 7409, 7490, 7571, 7653, 7735, 7817, 7900, 7983, 8066, 8150, 8234, 8319, 8404,
     8489, 8575, 8661, 8748, 8834, 8922, 9009, 9097, 9185, 9273, 9362, 9451, 9541, 9630, 9720, 9811,
     9901, 9992, 10083, 10174, 10266, 10358, 10450, 10542, 10635, 10727, 10820, 10913, 11007, 11100, 11194, 11288,
     11382, 11476, 11571, 11665, 11760, 11855, 11950, 12045, 12140, 12236, 12331, 12427, 12522, 12618, 12714, 12809,
     12905, 13001, 13097, 13193, 13289, 13385, 13481, 13577, 13673, 13769, 13865, 13961, 14056, 14152, 14248, 14343,
     14439, 14534, 14630, 14725, 14820, 14915, 15010, 15104, 15199, 15293, 15387, 15481, 15575, 15669, 15762, 15855,
     15948, 16041, 16133, 16226, 16317, 16409, 16500, 16592, 16682, 16773, 16863, 16953, 17042, 17131, 17220, 17308,
     17396, 17484, 17571, 17658, 17744, 17830, 17916, 18001, 18086, 18170, 18254, 18337, 18420, 18502, 18584, 18665,
     18746, 18826, 18905, 18985, 19063, 19141, 19219, 19295, 19372, 19447, 19522, 19597, 19671, 19744, 19816, 19888,
     19959, 20030, 20100, 20169, 20238, 20306, 20373, 20439, 20505, 20570, 20634, 20698, 20760, 20822, 20884, 20944,
     21004, 21063, 21121, 21178, 21235, 21290, 21345, 21399, 21452, 21505, 21556, 21607, 21657, 21706, 21754, 21801,
     21848, 21893, 21938, 21982, 22025, 22066, 22107, 22148, 22187, 22225, 22262, 22299, 22334, 22369, 22402, 22435,
     22467, 22498, 22527, 22556, 22584, 22611, 22637, 22662, 22686, 22709, 22731, 22752, 22772, 22791, 22809, 22826,
     22842, 22857, 22872, 22885, 22897, 22908, 22918, 22927, 22935, 22942, 22948, 22953, 22957, 22960, 22962, 22963]"

definition interpolation_sum :: "nat \<Rightarrow> nat \<Rightarrow> s16 list \<Rightarrow> int" where
  "interpolation_sum i s samples =
     gauss ! (0x0FF - i) * sint (samples ! (s - 3)) + gauss ! (0x1FF - i) * sint (samples ! (s - 2))
     + gauss ! (0x100 + i) * sint (samples ! (s - 1)) + gauss ! i * sint (samples ! s)"

definition Interpolate :: "voice \<Rightarrow> int" where
  "Interpolate v = drop_bit 15 (interpolation_sum (interpolation_index v) (3 + sample_index v) (current_block_samples v))"

end
