(* ===== verification/Spu.thy ===== *)
theory Spu
  imports Mdec SpuVoice
begin

text \<open>
  The sound processor (\<open>src/core/spu.cpp\<close>) as the object \<open>g_spu\<close>, with the audio stream it writes
  to (\<open>src/libretro/libretro_audio_stream.cpp\<close>). This theory holds the state and what works on
  \<open>g_spu\<close> alone: the noise, the reverberation and the RAM. Its RAM is addressed like the machine's;
  every address is masked with its size.
\<close>

subsection \<open>State\<close>

datatype RAMTransferMode = Stopped | ManualWrite | DMAWrite | DMARead

record spu =
  m_ticks_carry :: tick_count
  m_cpu_ticks_per_spu_tick :: tick_count
  m_cpu_tick_divider :: tick_count
  m_SPUCNT :: u16
  m_SPUSTAT :: u16
  m_transfer_control :: u16
  m_transfer_address_reg :: u16
  m_transfer_address :: u32
  m_irq_address :: u16
  m_capture_buffer_position :: u16
  m_main_volume_left_reg :: u16
  m_main_volume_right_reg :: u16
  m_main_volume_left :: sweep
  m_main_volume_right :: sweep
  m_cd_audio_volume_left :: s16
  m_cd_audio_volume_right :: s16
  m_external_volume_left :: s16
  m_external_volume_right :: s16
  m_key_on_register :: u32
  m_key_off_register :: u32
  m_endx_register :: u32
  m_pitch_modulation_enable_register :: u32
  m_noise_mode_register :: u32
  m_noise_count :: u32
  m_noise_level :: u32
  m_reverb_on_register :: u32
  m_reverb_base_address :: u32
  m_reverb_current_address :: u32
  vLOUT :: s16
  vROUT :: s16
  mBASE :: u16
  reverb_rev :: "u16 list"
  m_reverb_downsample_buffer :: "s16 list list"
  m_reverb_upsample_buffer :: "s16 list list"
  m_reverb_resample_buffer_position :: nat
  m_voices :: "voice list"
  m_transfer_fifo :: "u16 fifo"
  m_spu_ram :: mem

text \<open>The samples the front end has been given are kept in \<open>frontend_audio\<close>.\<close>

record audio_stream =
  m_silent_mode :: bool
  m_buffer :: "s16 fifo"
  frontend_audio :: "s16 list"

record spu_state = mdec_state +
  g_spu :: spu
  g_audio_stream :: audio_stream
  cfg_audio_fast_hook :: bool
  g_retro_skip_audio_this_frame :: bool

definition RAM_SIZE :: nat where "RAM_SIZE = 512 * 1024"
definition RAM_MASK :: u32 where "RAM_MASK = 0x7FFFF"
definition NUM_VOICES :: nat where "NUM_VOICES = 24"
definition SYSCLK_TICKS_PER_SPU_TICK :: int where "SYSCLK_TICKS_PER_SPU_TICK = 33868800 div 44100"
definition TRANSFER_TICKS_PER_HALFWORD :: int where "TRANSFER_TICKS_PER_HALFWORD = 16"
definition CAPTURE_BUFFER_SIZE_PER_CHANNEL :: nat where "CAPTURE_BUFFER_SIZE_PER_CHANNEL = 0x400"

text \<open>
  \<open>SPUCNT\<close>: enable 15, mute\_n 14, noise clock 8 to 13, reverb master enable 7, irq9 enable 6, transfer mode
  4 and 5, CD audio reverb 2, CD audio enable 0. \<open>SPUSTAT\<close>: second half of the capture buffer 11, transfer
  busy 10, DMA write request 9, DMA read request 8, DMA request 7, irq9 flag 6, mode 0 to 5.
\<close>

definition ram_transfer_mode :: "u16 \<Rightarrow> RAMTransferMode" where
  "ram_transfer_mode w = [Stopped, ManualWrite, DMAWrite, DMARead] ! unat (bf_get 4 2 w)"

definition upd_spu :: "(spu \<Rightarrow> spu) \<Rightarrow> 'a spu_state_scheme \<Rightarrow> 'a spu_state_scheme" where
  "upd_spu f s = s\<lparr>g_spu := f (g_spu s)\<rparr>"

definition upd_voice :: "nat \<Rightarrow> (voice \<Rightarrow> voice) \<Rightarrow> spu \<Rightarrow> spu" where
  "upd_voice i f r = r\<lparr>m_voices := modify_at i f (m_voices r)\<rparr>"

definition upd_stat :: "(u16 \<Rightarrow> u16) \<Rightarrow> spu \<Rightarrow> spu" where
  "upd_stat f r = r\<lparr>m_SPUSTAT := f (m_SPUSTAT r)\<rparr>"

text \<open>A halfword of the RAM, little endian.\<close>

definition ram_half :: "mem \<Rightarrow> u32 \<Rightarrow> u16" where
  "ram_half m a = ucast (m a) OR push_bit 8 (ucast (m (a + 1)))"

definition set_ram_half :: "u32 \<Rightarrow> u16 \<Rightarrow> mem \<Rightarrow> mem" where
  "set_ram_half a v m = m(a := ucast v, a + 1 := ucast (drop_bit 8 v))"

subsection \<open>Flags of the registers\<close>

definition IsVoiceReverbEnabled :: "nat \<Rightarrow> spu \<Rightarrow> bool" where
  "IsVoiceReverbEnabled i r \<longleftrightarrow> bit (m_reverb_on_register r) i"

definition IsVoiceNoiseEnabled :: "nat \<Rightarrow> spu \<Rightarrow> bool" where
  "IsVoiceNoiseEnabled i r \<longleftrightarrow> bit (m_noise_mode_register r) i"

definition IsPitchModulationEnabled :: "nat \<Rightarrow> spu \<Rightarrow> bool" where
  "IsPitchModulationEnabled i r \<longleftrightarrow> i > 0 \<and> bit (m_pitch_modulation_enable_register r) i"

definition GetVoiceNoiseLevel :: "spu \<Rightarrow> int" where
  "GetVoiceNoiseLevel r = sint (ucast (m_noise_level r) :: s16)"

definition IsRAMIRQTriggerable :: "spu \<Rightarrow> bool" where
  "IsRAMIRQTriggerable r \<longleftrightarrow> bit (m_SPUCNT r) 6 \<and> \<not> bit (m_SPUSTAT r) 6"

definition CheckRAMIRQ :: "u32 \<Rightarrow> spu \<Rightarrow> bool" where
  "CheckRAMIRQ address r \<longleftrightarrow> ucast (m_irq_address r) * 8 = address"

definition CheckForLateRAMIRQs :: "spu \<Rightarrow> bool" where
  "CheckForLateRAMIRQs r \<longleftrightarrow>
     list_ex (\<lambda>v. has_samples v \<and>
         (let address = ucast (current_address v) * 8
          in CheckRAMIRQ address r \<or> CheckRAMIRQ ((address + 8) AND RAM_MASK) r)) (m_voices r)"

subsection \<open>Noise\<close>

definition noise_wave_add :: "nat list" where
  "noise_wave_add =
     [1, 0, 0, 1, 0, 1, 1, 0, 1, 0, 0, 1, 0, 1, 1, 0, 1, 0, 0, 1, 0, 1, 1, 0, 1, 0, 0, 1, 0, 1, 1, 0,
      0, 1, 1, 0, 1, 0, 0, 1, 0, 1, 1, 0, 1, 0, 0, 1, 0, 1, 1, 0, 1, 0, 0, 1, 0, 1, 1, 0, 1, 0, 0, 1]"

definition noise_freq_add :: "u32 list" where "noise_freq_add = [0, 84, 140, 180, 210]"

definition noise_period :: "spu \<Rightarrow> u32" where
  "noise_period r = push_bit 16 (drop_bit (unat (bf_get 8 6 (m_SPUCNT r)) div 4) 0x8000)"

definition UpdateNoise :: "spu \<Rightarrow> spu" where
  "UpdateNoise r =
     (let add = noise_freq_add ! (unat (bf_get 8 6 (m_SPUCNT r)) mod 4);
          count1 = m_noise_count r + (0x10000 + add);
          count = (if count1 AND 0xFFFF \<ge> noise_freq_add ! 4 then count1 + 0x10000 - add else count1);
          r1 = r\<lparr>m_noise_count := count\<rparr>
      in if count < noise_period r then r1
         else r1\<lparr>m_noise_count := count mod noise_period r,
                 m_noise_level := push_bit 1 (m_noise_level r) OR
                   word_of_nat (noise_wave_add ! unat (drop_bit 10 (m_noise_level r) AND 63))\<rparr>)"

subsection \<open>Reverberation\<close>

definition ReverbMemoryAddress :: "u32 \<Rightarrow> spu \<Rightarrow> u32" where
  "ReverbMemoryAddress address r =
     (let offset = m_reverb_current_address r + (address AND 0x3FFFF);
          offset2 = offset + (m_reverb_base_address r AND (if bit offset 18 then - 1 else 0))
      in (offset2 AND 0x3FFFF) * 2)"

definition ReverbRead :: "u32 \<Rightarrow> u32 \<Rightarrow> spu \<Rightarrow> int" where
  "ReverbRead address offset r =
     sint (ram_half (m_spu_ram r) (ReverbMemoryAddress (push_bit 2 address + offset) r))"

definition ReverbWrite :: "u32 \<Rightarrow> s16 \<Rightarrow> spu \<Rightarrow> spu" where
  "ReverbWrite address data r =
     r\<lparr>m_spu_ram := set_ram_half (ReverbMemoryAddress (push_bit 2 address) r) data (m_spu_ram r)\<rparr>"

definition s_reverb_resample_coefficients :: "int list" where
  "s_reverb_resample_coefficients =
     [- 1, 2, - 10, 35, - 103, 266, - 616, 1332, - 2960, 10246, 10246, - 2960, 1332, - 616, 266, - 103, 35, - 10, 2, - 1]"

text \<open>\<open>src\<close> is a pointer into a buffer: the buffer and the index.\<close>

definition reverb4422_sum :: "s16 list \<Rightarrow> nat \<Rightarrow> int" where
  "reverb4422_sum src p =
     sum_list (map (\<lambda>i. s_reverb_resample_coefficients ! i * sint (src ! (p + i * 2))) [0..<20])
     + 0x4000 * sint (src ! (p + 19))"

definition Reverb4422 :: "s16 list \<Rightarrow> nat \<Rightarrow> int" where
  "Reverb4422 src p = Clamp16 (drop_bit 15 (reverb4422_sum src p))"

definition reverb2244_sum :: "s16 list \<Rightarrow> nat \<Rightarrow> int" where
  "reverb2244_sum src p = sum_list (map (\<lambda>i. s_reverb_resample_coefficients ! i * sint (src ! (p + i))) [0..<20])"

definition Reverb2244 :: "bool \<Rightarrow> s16 list \<Rightarrow> nat \<Rightarrow> int" where
  "Reverb2244 phase src p =
     (if phase then sint (src ! (p + 9)) else Clamp16 (drop_bit 14 (reverb2244_sum src p)))"

definition ReverbSat :: "int \<Rightarrow> s16" where
  "ReverbSat v = word_of_int (Clamp16 v)"

definition ReverbNeg :: "s16 \<Rightarrow> s16" where
  "ReverbNeg samp = (if samp = 0x8000 then 0x7FFF else - samp)"

definition IIASM :: "s16 \<Rightarrow> int \<Rightarrow> int" where
  "IIASM alpha insamp =
     (if sint alpha = - 32768 then if insamp = - 32768 then 0 else insamp * - 65536
      else insamp * (32768 - sint alpha))"

text \<open>
  The registers \<open>rev\<close>: FB\_SRC\_A 0, FB\_SRC\_B 1, IIR\_ALPHA 2, ACC\_COEF\_A to D 3 to 6, IIR\_COEF 7, FB\_ALPHA 8,
  FB\_X 9, and for the channels from 10 on IIR\_DEST\_A, ACC\_SRC\_A, ACC\_SRC\_B, IIR\_SRC\_A, IIR\_DEST\_B,
  ACC\_SRC\_C, ACC\_SRC\_D, IIR\_SRC\_B, MIX\_DEST\_A, MIX\_DEST\_B, IN\_COEF.
\<close>

definition rev_signed :: "nat \<Rightarrow> spu \<Rightarrow> int" where "rev_signed k r = sint (reverb_rev r ! k)"
definition rev_addr :: "nat \<Rightarrow> spu \<Rightarrow> u32" where "rev_addr k r = ucast (reverb_rev r ! k)"

text \<open>The first half of a channel: the two reflections are read, filtered and written back.\<close>

definition iir_input :: "nat \<Rightarrow> nat \<Rightarrow> int \<Rightarrow> spu \<Rightarrow> s16" where
  "iir_input src lr downsampled r =
     ReverbSat (drop_bit 1 (drop_bit 14 (ReverbRead (rev_addr src r) 0 r * rev_signed 7 r)
                            + drop_bit 14 (downsampled * rev_signed (30 + lr) r)))"

definition iir_output :: "nat \<Rightarrow> s16 \<Rightarrow> spu \<Rightarrow> s16" where
  "iir_output dest input r =
     ReverbSat (drop_bit 1 (drop_bit 14 (sint input * rev_signed 2 r)
                            + drop_bit 14 (IIASM (reverb_rev r ! 2) (ReverbRead (rev_addr dest r) (- 1) r))))"

definition reverb_reflect :: "nat \<Rightarrow> int \<Rightarrow> spu \<Rightarrow> spu" where
  "reverb_reflect lr downsampled r =
     (let iir_a = iir_output (10 + lr) (iir_input (16 + lr) lr downsampled r) r;
          iir_b = iir_output (18 + lr) (iir_input (24 + (1 - lr)) lr downsampled r) r
      in ReverbWrite (rev_addr (18 + lr) r) iir_b (ReverbWrite (rev_addr (10 + lr) r) iir_a r))"

text \<open>The second half: four delayed reads are summed and passed through two all-pass filters.\<close>

definition reverb_acc :: "nat \<Rightarrow> spu \<Rightarrow> int" where
  "reverb_acc lr r =
     drop_bit 14 (ReverbRead (rev_addr (12 + lr) r) 0 r * rev_signed 3 r)
     + drop_bit 14 (ReverbRead (rev_addr (14 + lr) r) 0 r * rev_signed 4 r)
     + drop_bit 14 (ReverbRead (rev_addr (20 + lr) r) 0 r * rev_signed 5 r)
     + drop_bit 14 (ReverbRead (rev_addr (22 + lr) r) 0 r * rev_signed 6 r)"

definition reverb_mix :: "nat \<Rightarrow> spu \<Rightarrow> s16 \<times> s16 \<times> s16" where
  "reverb_mix lr r =
     (let fb_a = ReverbRead (rev_addr (26 + lr) r - rev_addr 0 r) 0 r;
          fb_b = ReverbRead (rev_addr (28 + lr) r - rev_addr 1 r) 0 r;
          mda = ReverbSat (drop_bit 1 (reverb_acc lr r + drop_bit 14 (fb_a * sint (ReverbNeg (reverb_rev r ! 8)))));
          mdb = ReverbSat (fb_a + drop_bit 1 (drop_bit 14 (sint mda * rev_signed 8 r)
                                            + drop_bit 14 (fb_b * sint (ReverbNeg (reverb_rev r ! 9)))));
          ivb = ReverbSat (fb_b + drop_bit 15 (sint mdb * rev_signed 9 r))
      in (mda, mdb, ivb))"

definition reverb_channel :: "nat \<Rightarrow> int \<Rightarrow> spu \<Rightarrow> spu" where
  "reverb_channel lr downsampled r0 =
     (let master = bit (m_SPUCNT r0) 7;
          r = (if master then reverb_reflect lr downsampled r0 else r0);
          (mda, mdb, ivb) = reverb_mix lr r;
          r1 = (if master then ReverbWrite (rev_addr (28 + lr) r) mdb (ReverbWrite (rev_addr (26 + lr) r) mda r) else r);
          half = m_reverb_resample_buffer_position r1 div 2
      in r1\<lparr>m_reverb_upsample_buffer :=
             modify_at lr (\<lambda>b. b[half := ivb, half + 0x20 := ivb]) (m_reverb_upsample_buffer r1)\<rparr>)"

text \<open>\<open>pos | 0x40\<close> is \<open>pos + 0x40\<close> for a position below 64, and \<open>(pos - 38) & 0x3F\<close> a remainder.\<close>

definition downsample_put :: "nat \<Rightarrow> s16 \<Rightarrow> spu \<Rightarrow> spu" where
  "downsample_put lr x r =
     (let pos = m_reverb_resample_buffer_position r
      in r\<lparr>m_reverb_downsample_buffer := modify_at lr (\<lambda>b. b[pos := x, pos + 0x40 := x]) (m_reverb_downsample_buffer r)\<rparr>)"

definition upsampled :: "bool \<Rightarrow> nat \<Rightarrow> spu \<Rightarrow> int" where
  "upsampled phase lr r =
     Reverb2244 phase (m_reverb_upsample_buffer r ! lr)
       (nat ((int (m_reverb_resample_buffer_position r div 2) - 19) mod 0x20))"

definition advance_reverb :: "spu \<Rightarrow> spu" where
  "advance_reverb r =
     (let a = (m_reverb_current_address r + 1) AND 0x3FFFF
      in r\<lparr>m_reverb_current_address := if a = 0 then m_reverb_base_address r else a\<rparr>)"

definition ProcessReverb :: "s16 \<Rightarrow> s16 \<Rightarrow> spu \<Rightarrow> int \<times> int \<times> spu" where
  "ProcessReverb left_in right_in r =
     (let r1 = downsample_put 1 right_in (downsample_put 0 left_in r);
          pos = m_reverb_resample_buffer_position r1;
          p = nat ((int pos - 38) mod 0x40);
          odd_pos = (pos mod 2 = 1);
          r2 = (if odd_pos
                then let d0 = Reverb4422 (m_reverb_downsample_buffer r1 ! 0) p;
                         d1 = Reverb4422 (m_reverb_downsample_buffer r1 ! 1) p
                     in advance_reverb (reverb_channel 1 d1 (reverb_channel 0 d0 r1))
                else r1);
          out0 = upsampled (\<not> odd_pos) 0 r2;
          out1 = upsampled (\<not> odd_pos) 1 r2;
          r3 = r2\<lparr>m_reverb_resample_buffer_position := (pos + 1) mod 0x40\<rparr>
      in (ApplyVolume out0 (vLOUT r3), ApplyVolume out1 (vROUT r3), r3))"

end
