(* ===== verification/Bus.thy ===== *)
theory Bus
  imports Spu
begin

text \<open>
  The bus (\<open>src/core/bus.cpp\<close>): the physical memory map, the memory control registers and
  the access times they give, the scratchpad and the instruction cache, and the dispatch of
  every load and store to RAM, BIOS, expansion ports and device registers.

  A C++ template over the access type and size is a function with these as arguments, and an
  access through \<open>uint32_t& value\<close> returns the ticks, the value and the state. The interrupt
  controller, the DMA controller, the timers, the pads and the serial port are called directly; the other devices and the
  code cache's page invalidation are the functions of \<open>bus_env\<close>. The
  register functions of the macroblock decoder are among them because they may not return
  (\<open>mdec_ReadRegister\<close> and \<open>mdec_WriteRegister\<close> are partial).
\<close>

subsection \<open>State\<close>

text \<open>
  The caches and the cache control register belong to \<open>CPU::State\<close>. \<open>icache_data\<close> has
  \<open>ICACHE_SIZE\<close> bytes; it is a memory, so that a byte beyond it can be named.
\<close>

record bus_state = spu_state +
  dcache :: mem
  icache_tags :: "u32 list"
  icache_data :: mem
  cache_control :: u32
  g_bios :: mem
  m_ram_code_bits :: "bool list"
  m_MEMCTRL :: "u32 list"
  m_ram_size_reg :: u32
  m_exp1_access_time :: "tick_count list"
  m_exp2_access_time :: "tick_count list"
  m_bios_access_time :: "tick_count list"
  m_cdrom_access_time :: "tick_count list"
  m_spu_access_time :: "tick_count list"
  m_exp1_rom :: "u8 list"
  m_tty_line_buffer :: "u8 list"

record 's bus_env =
  dma_devs :: "'s dma_env"
  crtc_scanline_pending :: "'s \<Rightarrow> bool"
  crtc_synchronize :: "'s \<Rightarrow> 's"
  cdrom_ReadRegister :: "u32 \<Rightarrow> 's \<Rightarrow> u8 \<times> 's"
  cdrom_WriteRegister :: "u32 \<Rightarrow> u8 \<Rightarrow> 's \<Rightarrow> 's"
  gpu_ReadRegister :: "u32 \<Rightarrow> 's \<Rightarrow> u32 \<times> 's"
  gpu_WriteRegister :: "u32 \<Rightarrow> u32 \<Rightarrow> 's \<Rightarrow> 's"
  io_mdec_ReadRegister :: "u32 \<Rightarrow> 's \<Rightarrow> u32 \<times> 's"
  io_mdec_WriteRegister :: "u32 \<Rightarrow> u32 \<Rightarrow> 's \<Rightarrow> 's"
  io_spu_ReadRegister :: "u32 \<Rightarrow> 's \<Rightarrow> u16 \<times> 's"
  io_spu_WriteRegister :: "u32 \<Rightarrow> u16 \<Rightarrow> 's \<Rightarrow> 's"
  InvalidateBlocksWithPageIndex :: "nat \<Rightarrow> 's \<Rightarrow> 's"

datatype access_type = AccRead | AccWrite
datatype access_size = AccByte | AccHalfWord | AccWord

fun size_index :: "access_size \<Rightarrow> nat" where
  "size_index AccByte = 0"
| "size_index AccHalfWord = 1"
| "size_index AccWord = 2"

fun size_aligned :: "access_size \<Rightarrow> u32 \<Rightarrow> bool" where
  "size_aligned AccByte address \<longleftrightarrow> True"
| "size_aligned AccHalfWord address \<longleftrightarrow> IsAlignedPow2 address 2"
| "size_aligned AccWord address \<longleftrightarrow> IsAlignedPow2 address 4"

fun truncate_to :: "access_size \<Rightarrow> u32 \<Rightarrow> u32" where
  "truncate_to AccByte v = ucast (ucast v :: u8)"
| "truncate_to AccHalfWord v = ucast (ucast v :: u16)"
| "truncate_to AccWord v = v"

abbreviation (input) RAM_READ_TICKS :: int where "RAM_READ_TICKS \<equiv> 6"
abbreviation (input) HOST_PAGE_SIZE :: nat where "HOST_PAGE_SIZE \<equiv> 4096"
abbreviation (input) RAM_MIRROR_END :: u32 where "RAM_MIRROR_END \<equiv> 0x800000"
abbreviation (input) BIOS_BASE :: u32 where "BIOS_BASE \<equiv> 0x1FC00000"
abbreviation (input) BIOS_END :: u32 where "BIOS_END \<equiv> 0x1FC80000"

subsection \<open>Bytes and halfwords in memory\<close>

definition read_half :: "mem \<Rightarrow> u32 \<Rightarrow> u16" where
  "read_half m a = ucast (m a) OR push_bit 8 (ucast (m (a + 1)))"

definition write_half :: "u32 \<Rightarrow> u16 \<Rightarrow> mem \<Rightarrow> mem" where
  "write_half a v m = m(a := ucast v, a + 1 := ucast (drop_bit 8 v))"

text \<open>The \<open>memcpy\<close> of a byte, halfword or word between a memory and the value.\<close>

fun mem_load :: "access_size \<Rightarrow> mem \<Rightarrow> u32 \<Rightarrow> u32" where
  "mem_load AccByte m a = ucast (m a)"
| "mem_load AccHalfWord m a = ucast (read_half m a)"
| "mem_load AccWord m a = read_word m a"

fun mem_store :: "access_size \<Rightarrow> u32 \<Rightarrow> u32 \<Rightarrow> mem \<Rightarrow> mem" where
  "mem_store AccByte a v m = m(a := ucast v)"
| "mem_store AccHalfWord a v m = write_half a (ucast v) m"
| "mem_store AccWord a v m = write_word a v m"

subsection \<open>Memory timing\<close>

definition MEMDELAY_WRITE_MASK :: u32 where "MEMDELAY_WRITE_MASK = 0xAF1FFFFF"
definition COMDELAY_WRITE_MASK :: u32 where "COMDELAY_WRITE_MASK = 0x0003FFFF"

definition CalculateMemoryTiming :: "u32 \<Rightarrow> u32 \<Rightarrow> tick_count list" where
  "CalculateMemoryTiming mem_delay common_delay =
     (let com0 = uint (bf_get 0 4 common_delay); com2 = uint (bf_get 8 4 common_delay);
          com3 = uint (bf_get 12 4 common_delay); access_time = uint (bf_get 4 4 mem_delay);
          d0 = (if bit mem_delay 8 then com0 - 1 else 0);
          d2 = (if bit mem_delay 10 then com2 else 0);
          mn = (if bit mem_delay 11 then com3 else 0);
          first1 = d0 + d2; seq1 = d0 + d2;
          first2 = (if first1 < 6 then first1 + 1 else first1);
          first3 = first2 + access_time + 2; seq3 = seq1 + access_time + 2;
          first = (if first3 < mn + 6 then mn + 6 else first3);
          seq = (if seq3 < mn + 2 then mn + 2 else seq3);
          half = (if bit mem_delay 12 then first else first + seq);
          wd = (if bit mem_delay 12 then first + seq else first + seq + seq + seq)
      in [max (first - 1) 0, max (half - 1) 0, max (wd - 1) 0])"

definition RecalculateMemoryTimings :: "'a bus_state_scheme \<Rightarrow> 'a bus_state_scheme" where
  "RecalculateMemoryTimings s =
     (let r = m_MEMCTRL s
      in s\<lparr>m_bios_access_time := CalculateMemoryTiming (r ! 4) (r ! 8),
           m_cdrom_access_time := CalculateMemoryTiming (r ! 6) (r ! 8),
           m_spu_access_time := CalculateMemoryTiming (r ! 5) (r ! 8)\<rparr>)"

definition bus_Reset :: "'a bus_state_scheme \<Rightarrow> 'a bus_state_scheme" where
  "bus_Reset s =
     RecalculateMemoryTimings
       (s\<lparr>g_ram := (\<lambda>_. 0),
          m_MEMCTRL := [0x1F000000, 0x1F802000, 0x0013243F, 0x00003022, 0x0013243F, 0x200931E1,
                        0x00020843, 0x00070777, 0x00031125],
          m_ram_size_reg := 0x00000B88,
          m_ram_code_bits := map (\<lambda>_. False) (m_ram_code_bits s)\<rparr>)"

definition SetExpansionROM :: "u8 list \<Rightarrow> 'a bus_state_scheme \<Rightarrow> 'a bus_state_scheme" where
  "SetExpansionROM data s = s\<lparr>m_exp1_rom := data\<rparr>"

definition SetBIOS :: "u8 list \<Rightarrow> 'a bus_state_scheme \<Rightarrow> 'a bus_state_scheme" where
  "SetBIOS img s =
     (if length img = 0x80000
      then s\<lparr>g_bios := (\<lambda>a. if unat a < 0x80000 then img ! unat a else g_bios s a)\<rparr> else s)"

subsection \<open>Code pages\<close>

definition IsRAMCodePage :: "nat \<Rightarrow> 'a bus_state_scheme \<Rightarrow> bool" where
  "IsRAMCodePage index s = m_ram_code_bits s ! index"

text \<open>The protection of the fast memory pages is not modelled: only the flags are.\<close>

definition SetRAMCodePage :: "nat \<Rightarrow> 'a bus_state_scheme \<Rightarrow> 'a bus_state_scheme" where
  "SetRAMCodePage index s =
     (if m_ram_code_bits s ! index then s else s\<lparr>m_ram_code_bits := (m_ram_code_bits s)[index := True]\<rparr>)"

definition ClearRAMCodePage :: "nat \<Rightarrow> 'a bus_state_scheme \<Rightarrow> 'a bus_state_scheme" where
  "ClearRAMCodePage index s =
     (if \<not> m_ram_code_bits s ! index then s else s\<lparr>m_ram_code_bits := (m_ram_code_bits s)[index := False]\<rparr>)"

definition GetRAMCodePageIndex :: "u32 \<Rightarrow> 'a bus_state_scheme \<Rightarrow> nat" where
  "GetRAMCodePageIndex address s = unat (address AND g_ram_mask s) div HOST_PAGE_SIZE"

text \<open>\<open>CodeCache::InvalidateCodePages\<close>, which the DMA controller calls after writing to RAM.\<close>

definition bus_InvalidateCodePages :: "('a bus_state_scheme) bus_env \<Rightarrow> u32 \<Rightarrow> nat \<Rightarrow> 'a bus_state_scheme \<Rightarrow> 'a bus_state_scheme" where
  "bus_InvalidateCodePages env address word_count s =
     (let start_page = unat address div HOST_PAGE_SIZE;
          end_page = unat (ucast ((ucast address + word_of_nat word_count * 4 - 4 :: u64) div 4096) :: u32)
      in fold (\<lambda>page t. if m_ram_code_bits t ! page then InvalidateBlocksWithPageIndex env page t else t)
           [start_page..<end_page + 1] s)"

subsection \<open>Register values of narrower accesses\<close>

definition FIXUP_HALFWORD_OFFSET :: "access_size \<Rightarrow> u32 \<Rightarrow> u32" where
  "FIXUP_HALFWORD_OFFSET sz offset = (if sz \<noteq> AccByte then offset else offset AND NOT 1)"

definition FIXUP_HALFWORD_READ_VALUE :: "access_size \<Rightarrow> u32 \<Rightarrow> u32 \<Rightarrow> u32" where
  "FIXUP_HALFWORD_READ_VALUE sz offset v =
     (if sz \<noteq> AccByte then v else drop_bit (unat (offset AND 1) * 8) v)"

definition FIXUP_HALFWORD_WRITE_VALUE :: "access_size \<Rightarrow> u32 \<Rightarrow> u32 \<Rightarrow> u32" where
  "FIXUP_HALFWORD_WRITE_VALUE sz offset v =
     (if sz \<noteq> AccByte then v else push_bit (unat (offset AND 1) * 8) v)"

definition FIXUP_WORD_OFFSET :: "access_size \<Rightarrow> u32 \<Rightarrow> u32" where
  "FIXUP_WORD_OFFSET sz offset = (if sz = AccWord then offset else offset AND NOT 3)"

definition FIXUP_WORD_READ_VALUE :: "access_size \<Rightarrow> u32 \<Rightarrow> u32 \<Rightarrow> u32" where
  "FIXUP_WORD_READ_VALUE sz offset v =
     (if sz = AccWord then v else drop_bit (unat (offset AND 3) * 8) v)"

definition FIXUP_WORD_WRITE_VALUE :: "access_size \<Rightarrow> u32 \<Rightarrow> u32 \<Rightarrow> u32" where
  "FIXUP_WORD_WRITE_VALUE sz offset v =
     (if sz = AccWord then v else push_bit (unat (offset AND 3) * 8) v)"

subsection \<open>The areas of the memory map\<close>

text \<open>
  Each takes the offset into its area, the value to write and the state, and returns the
  ticks (negative: a bus error), the value read and the state.
\<close>

type_synonym 's bus_access = "u32 \<Rightarrow> u32 \<Rightarrow> 's \<Rightarrow> tick_count \<times> u32 \<times> 's"

definition DoInvalidAccess :: "access_type \<Rightarrow> 's bus_access" where
  "DoInvalidAccess ty address v s = (if ty = AccRead then (1, 0xFFFFFFFF, s) else (0, v, s))"

definition write_ram :: "('a bus_state_scheme) bus_env \<Rightarrow> access_size \<Rightarrow> bool \<Rightarrow> u32 \<Rightarrow> u32 \<Rightarrow> 'a bus_state_scheme \<Rightarrow> 'a bus_state_scheme" where
  "write_ram env sz skip_redundant_writes off v s =
     (let page_index = unat off div HOST_PAGE_SIZE;
          invalidate = (\<lambda>t. if m_ram_code_bits t ! page_index
                            then InvalidateBlocksWithPageIndex env page_index t else t);
          store = (\<lambda>t. t\<lparr>g_ram := mem_store sz off v (g_ram t)\<rparr>);
          new_value = (case sz of AccByte \<Rightarrow> ucast (ucast v :: u8) | AccHalfWord \<Rightarrow> ucast (ucast v :: u16) | AccWord \<Rightarrow> v)
      in if skip_redundant_writes
         then (if mem_load sz (g_ram s) off \<noteq> new_value then invalidate (store s) else s)
         else store (invalidate s))"

definition DoRAMAccess :: "('a bus_state_scheme) bus_env \<Rightarrow> access_type \<Rightarrow> access_size \<Rightarrow> bool \<Rightarrow> ('a bus_state_scheme) bus_access" where
  "DoRAMAccess env ty sz skip_redundant_writes offset v s =
     (let off = offset AND g_ram_mask s
      in if ty = AccRead then (RAM_READ_TICKS, mem_load sz (g_ram s) off, s)
         else (0, v, write_ram env sz skip_redundant_writes off v s))"

definition DoBIOSAccess :: "access_type \<Rightarrow> access_size \<Rightarrow> ('a bus_state_scheme) bus_access" where
  "DoBIOSAccess ty sz offset v s =
     (m_bios_access_time s ! size_index sz,
      if ty = AccRead then mem_load sz (g_bios s) (offset AND 0x7FFFF) else v, s)"

definition DoEXP1Access :: "access_type \<Rightarrow> access_size \<Rightarrow> ('a bus_state_scheme) bus_access" where
  "DoEXP1Access ty sz offset v s =
     (if ty = AccRead
      then (m_exp1_access_time s ! size_index sz,
            if m_exp1_rom s = [] then 0xFFFFFFFF
            else if offset = 0x20018 then 1
            else let transfer_size = 2 ^ size_index sz
                 in if length (m_exp1_rom s) < unat (offset + transfer_size) then 0
                    else mem_load sz (\<lambda>a. m_exp1_rom s ! unat a) offset,
            s)
      else (0, v, s))"

definition DoEXP2Access :: "access_type \<Rightarrow> access_size \<Rightarrow> ('a bus_state_scheme) bus_access" where
  "DoEXP2Access ty sz offset v s =
     (if ty = AccRead
      then (m_exp2_access_time s ! size_index sz, if offset = 0x21 then 0x04 OR 0x08 else 0xFFFFFFFF, s)
      else (0, v,
            if offset = 0x23 \<or> offset = 0x80
            then (if v = 13 then s
                  else if v = 10 then s\<lparr>m_tty_line_buffer := []\<rparr>
                  else s\<lparr>m_tty_line_buffer := m_tty_line_buffer s @ [ucast v]\<rparr>)
            else s))"

definition DoEXP3Access :: "access_type \<Rightarrow> ('a bus_state_scheme) bus_access" where
  "DoEXP3Access ty offset v s = (0, if ty = AccRead then 0xFFFFFFFF else v, s)"

definition DoUnknownEXPAccess :: "access_type \<Rightarrow> ('a bus_state_scheme) bus_access" where
  "DoUnknownEXPAccess ty address v s = (if ty = AccRead then - 1 else 0, v, s)"

definition memctrl_index :: "access_size \<Rightarrow> u32 \<Rightarrow> nat" where
  "memctrl_index sz offset = unat (FIXUP_WORD_OFFSET sz offset) div 4"

definition DoMemoryControlAccess :: "access_type \<Rightarrow> access_size \<Rightarrow> ('a bus_state_scheme) bus_access" where
  "DoMemoryControlAccess ty sz offset v s =
     (let index = memctrl_index sz offset
      in if ty = AccRead then (2, FIXUP_WORD_READ_VALUE sz offset (m_MEMCTRL s ! index), s)
         else let v' = FIXUP_WORD_WRITE_VALUE sz offset v;
                  write_mask = (if index = 8 then COMDELAY_WRITE_MASK else MEMDELAY_WRITE_MASK);
                  new_value = masked_write write_mask (m_MEMCTRL s ! index) v'
              in (0, v',
                  if m_MEMCTRL s ! index \<noteq> new_value
                  then RecalculateMemoryTimings (s\<lparr>m_MEMCTRL := (m_MEMCTRL s)[index := new_value]\<rparr>) else s))"

definition DoMemoryControl2Access :: "access_type \<Rightarrow> ('a bus_state_scheme) bus_access" where
  "DoMemoryControl2Access ty offset v s =
     (if offset \<noteq> 0x00 then DoInvalidAccess ty (0x1F801060 OR offset) v s
      else if ty = AccRead then (2, m_ram_size_reg s, s)
      else (0, v, s\<lparr>m_ram_size_reg := v\<rparr>))"

subsection \<open>Device registers\<close>

text \<open>
  Most devices have registers of one width, and a narrower access is shifted into place: a
  byte of a halfword register, or a byte or halfword of a word register.
\<close>

definition half_registers :: "(u32 \<Rightarrow> 's \<Rightarrow> u32 \<times> 's) \<Rightarrow> (u32 \<Rightarrow> u32 \<Rightarrow> 's \<Rightarrow> 's) \<Rightarrow> access_type \<Rightarrow> access_size \<Rightarrow> 's bus_access" where
  "half_registers rd wr ty sz offset v s =
     (if ty = AccRead
      then (let (r, t) = rd (FIXUP_HALFWORD_OFFSET sz offset) s
            in (2, FIXUP_HALFWORD_READ_VALUE sz offset r, t))
      else (0, v, wr (FIXUP_HALFWORD_OFFSET sz offset) (FIXUP_HALFWORD_WRITE_VALUE sz offset v) s))"

definition word_registers :: "(u32 \<Rightarrow> 's \<Rightarrow> u32 \<times> 's) \<Rightarrow> (u32 \<Rightarrow> u32 \<Rightarrow> 's \<Rightarrow> 's) \<Rightarrow> access_type \<Rightarrow> access_size \<Rightarrow> 's bus_access" where
  "word_registers rd wr ty sz offset v s =
     (if ty = AccRead
      then (let (r, t) = rd (FIXUP_WORD_OFFSET sz offset) s
            in (2, FIXUP_WORD_READ_VALUE sz offset r, t))
      else (0, v, wr (FIXUP_WORD_OFFSET sz offset) (FIXUP_WORD_WRITE_VALUE sz offset v) s))"

definition DoPadAccess :: "access_type \<Rightarrow> access_size \<Rightarrow> ('a bus_state_scheme) bus_access" where
  "DoPadAccess = half_registers pad_ReadRegister pad_WriteRegister"

definition DoSIOAccess :: "access_type \<Rightarrow> access_size \<Rightarrow> ('a bus_state_scheme) bus_access" where
  "DoSIOAccess = half_registers (\<lambda>offset s. (sio_ReadRegister offset s, s)) sio_WriteRegister"

text \<open>The CD-ROM controller's registers are bytes: a wider access is one access per byte.\<close>

fun cdrom_read_bytes :: "'s bus_env \<Rightarrow> nat \<Rightarrow> u32 \<Rightarrow> 's \<Rightarrow> u32 \<times> 's" where
  "cdrom_read_bytes env 0 offset s = (0, s)"
| "cdrom_read_bytes env (Suc n) offset s =
     (let (b, t) = cdrom_ReadRegister env offset s; (r, t') = cdrom_read_bytes env n (offset + 1) t
      in (ucast b OR push_bit 8 r, t'))"

fun cdrom_write_bytes :: "'s bus_env \<Rightarrow> nat \<Rightarrow> u32 \<Rightarrow> u32 \<Rightarrow> 's \<Rightarrow> 's" where
  "cdrom_write_bytes env 0 offset v s = s"
| "cdrom_write_bytes env (Suc n) offset v s =
     cdrom_write_bytes env n (offset + 1) (drop_bit 8 v) (cdrom_WriteRegister env offset (ucast v) s)"

definition DoCDROMAccess :: "('a bus_state_scheme) bus_env \<Rightarrow> access_type \<Rightarrow> access_size \<Rightarrow> ('a bus_state_scheme) bus_access" where
  "DoCDROMAccess env ty sz offset v s =
     (if ty = AccRead
      then (let (r, t) = cdrom_read_bytes env (2 ^ size_index sz) offset s
            in (m_cdrom_access_time t ! size_index sz, r, t))
      else (0, v, cdrom_write_bytes env (2 ^ size_index sz) offset v s))"

definition DoGPUAccess :: "'s bus_env \<Rightarrow> access_type \<Rightarrow> access_size \<Rightarrow> 's bus_access" where
  "DoGPUAccess env = word_registers (gpu_ReadRegister env) (gpu_WriteRegister env)"

definition DoMDECAccess :: "'s bus_env \<Rightarrow> access_type \<Rightarrow> access_size \<Rightarrow> 's bus_access" where
  "DoMDECAccess env = word_registers (io_mdec_ReadRegister env) (io_mdec_WriteRegister env)"

definition DoAccessInterruptController :: "access_type \<Rightarrow> access_size \<Rightarrow> ('a bus_state_scheme) bus_access" where
  "DoAccessInterruptController = word_registers (\<lambda>offset s. (irq_ReadRegister offset s, s)) irq_WriteRegister"

definition DoAccessTimers :: "('a bus_state_scheme) bus_env \<Rightarrow> access_type \<Rightarrow> access_size \<Rightarrow> ('a bus_state_scheme) bus_access" where
  "DoAccessTimers env =
     word_registers (timers_ReadRegister (crtc_scanline_pending env) (crtc_synchronize env))
       (timers_WriteRegister (crtc_scanline_pending env) (crtc_synchronize env))"

definition DoDMAAccess :: "('a bus_state_scheme) bus_env \<Rightarrow> access_type \<Rightarrow> access_size \<Rightarrow> ('a bus_state_scheme) bus_access" where
  "DoDMAAccess env =
     word_registers (\<lambda>offset s. (dma_ReadRegister offset s, s)) (dma_WriteRegister (dma_devs env))"

definition DoAccessSPU :: "('a bus_state_scheme) bus_env \<Rightarrow> access_type \<Rightarrow> access_size \<Rightarrow> ('a bus_state_scheme) bus_access" where
  "DoAccessSPU env ty sz offset v s =
     (if ty = AccRead
      then (case sz of
              AccWord \<Rightarrow>
                (let (lsb, t) = io_spu_ReadRegister env offset s; (msb, t') = io_spu_ReadRegister env (offset + 2) t
                 in (m_spu_access_time t' ! 2, ucast lsb OR push_bit 16 (ucast msb), t'))
            | AccHalfWord \<Rightarrow>
                (let (r, t) = io_spu_ReadRegister env offset s in (m_spu_access_time t ! 1, ucast r, t))
            | AccByte \<Rightarrow>
                (let (r, t) = io_spu_ReadRegister env (FIXUP_HALFWORD_OFFSET sz offset) s
                 in (m_spu_access_time t ! 0, FIXUP_HALFWORD_READ_VALUE sz offset (ucast r), t)))
      else (0, v,
            case sz of
              AccWord \<Rightarrow> io_spu_WriteRegister env (offset + 2) (ucast (drop_bit 16 v)) (io_spu_WriteRegister env offset (ucast v) s)
            | AccHalfWord \<Rightarrow> io_spu_WriteRegister env offset (ucast v) s
            | AccByte \<Rightarrow> io_spu_WriteRegister env (FIXUP_HALFWORD_OFFSET sz offset)
                           (ucast (FIXUP_HALFWORD_READ_VALUE sz offset v)) s))"

subsection \<open>The scratchpad and the instruction cache\<close>

definition DoScratchpadAccess :: "access_type \<Rightarrow> access_size \<Rightarrow> ('a bus_state_scheme) bus_access" where
  "DoScratchpadAccess ty sz address v s =
     (let cache_offset = address AND 0x3FF
      in if ty = AccRead then (0, mem_load sz (dcache s) cache_offset, s)
         else (0, v, s\<lparr>dcache := mem_store sz cache_offset v (dcache s)\<rparr>))"

definition GetICacheLine :: "u32 \<Rightarrow> nat" where
  "GetICacheLine address = unat (drop_bit 4 address AND 0xFF)"

definition GetICacheLineOffset :: "u32 \<Rightarrow> u32" where
  "GetICacheLineOffset address = address AND 0xF"

definition GetICacheTagForAddress :: "u32 \<Rightarrow> u32" where
  "GetICacheTagForAddress address = address AND 0xFFFFFFF0"

definition GetICacheTagMaskForAddress :: "u32 \<Rightarrow> u32" where
  "GetICacheTagMaskForAddress address = 0xFFFFFFF0 OR ([1, 2, 4, 8] ! unat (drop_bit 2 address AND 0x03))"

definition CompareICacheTag :: "u32 \<Rightarrow> 'a bus_state_scheme \<Rightarrow> bool" where
  "CompareICacheTag address s \<longleftrightarrow>
     icache_tags s ! GetICacheLine address AND GetICacheTagMaskForAddress address = GetICacheTagForAddress address"

text \<open>The index into \<open>icache_data\<close> of the word at an address.\<close>

definition icache_index :: "u32 \<Rightarrow> u32" where
  "icache_index address = word_of_nat (GetICacheLine address * 16) + GetICacheLineOffset address"

definition ReadICache :: "u32 \<Rightarrow> 'a bus_state_scheme \<Rightarrow> u32" where
  "ReadICache address s = read_word (icache_data s) (icache_index address)"

definition WriteICache :: "u32 \<Rightarrow> u32 \<Rightarrow> 'a bus_state_scheme \<Rightarrow> 'a bus_state_scheme" where
  "WriteICache address v s =
     s\<lparr>icache_tags := (icache_tags s)[GetICacheLine address := GetICacheTagForAddress address OR 0x0F],
       icache_data := write_word (icache_index address) v (icache_data s)\<rparr>"

definition ClearICache :: "'a bus_state_scheme \<Rightarrow> 'a bus_state_scheme" where
  "ClearICache s =
     s\<lparr>icache_data := (\<lambda>a. if a < 0x1000 then 0 else icache_data s a),
       icache_tags := map (\<lambda>_. 0x0F) (icache_tags s)\<rparr>"

definition WriteCacheControl :: "u32 \<Rightarrow> 'a bus_state_scheme \<Rightarrow> 'a bus_state_scheme" where
  "WriteCacheControl v s = s\<lparr>cache_control := v\<rparr>"

subsection \<open>The memory map\<close>

definition access_physical :: "('a bus_state_scheme) bus_env \<Rightarrow> access_type \<Rightarrow> access_size \<Rightarrow> ('a bus_state_scheme) bus_access" where
  "access_physical env ty sz address v s =
     (if address < RAM_MIRROR_END then DoRAMAccess env ty sz False address v s
      else if BIOS_BASE \<le> address \<and> address < BIOS_END then DoBIOSAccess ty sz (address - BIOS_BASE) v s
      else if address < 0x1F000000 then DoInvalidAccess ty address v s
      else if address < 0x1F800000 then DoEXP1Access ty sz (address AND 0x7FFFFF) v s
      else if address < 0x1F801000 then DoInvalidAccess ty address v s
      else if address < 0x1F801040 then DoMemoryControlAccess ty sz (address AND 0x3F) v s
      else if address < 0x1F801050 then DoPadAccess ty sz (address AND 0xF) v s
      else if address < 0x1F801060 then DoSIOAccess ty sz (address AND 0xF) v s
      else if address < 0x1F801070 then DoMemoryControl2Access ty (address AND 0xF) v s
      else if address < 0x1F801080 then DoAccessInterruptController ty sz (address AND 0xF) v s
      else if address < 0x1F801100 then DoDMAAccess env ty sz (address AND 0x7F) v s
      else if address < 0x1F801140 then DoAccessTimers env ty sz (address AND 0x3F) v s
      else if address < 0x1F801800 then DoInvalidAccess ty address v s
      else if address < 0x1F801810 then DoCDROMAccess env ty sz (address AND 0xF) v s
      else if address < 0x1F801820 then DoGPUAccess env ty sz (address AND 0xF) v s
      else if address < 0x1F801830 then DoMDECAccess env ty sz (address AND 0xF) v s
      else if address < 0x1F801C00 then DoInvalidAccess ty address v s
      else if address < 0x1F802000 then DoAccessSPU env ty sz (address AND 0x3FF) v s
      else if address < 0x1F802000 then DoInvalidAccess ty address v s
      else if address < 0x1F804000 then DoEXP2Access ty sz (address AND 0x1FFF) v s
      else if address < 0x1FA00000 then DoUnknownEXPAccess ty address v s
      else if address < 0x1FA00001 then DoEXP3Access ty (address AND 0) v s
      else DoInvalidAccess ty address v s)"

definition DoMemoryAccess :: "('a bus_state_scheme) bus_env \<Rightarrow> access_type \<Rightarrow> access_size \<Rightarrow> ('a bus_state_scheme) bus_access" where
  "DoMemoryAccess env ty sz address v s =
     (let top = drop_bit 29 address; paddr = VirtualAddressToPhysical address;
          error = (if ty = AccRead then 0xFFFFFFFF else v)
      in if top = 0 \<or> top = 4 then
           (if ty = AccWrite \<and> sr_Isc (sr (cop0_regs s)) then (0, v, WriteICache address v s)
            else if paddr AND 0xFFFFFC00 = 0x1F800000 then DoScratchpadAccess ty sz paddr v s
            else access_physical env ty sz paddr v s)
         else if top = 5 then access_physical env ty sz paddr v s
         else if top = 6 \<or> top = 7 then
           (if address = 0xFFFE0130
            then (if ty = AccRead then (0, cache_control s, s) else (0, v, WriteCacheControl v s))
            else (- 1, error, s))
         else (- 1, error, s))"

subsection \<open>Instruction reads and the cache's fill\<close>

text \<open>
  \<open>DoInstructionRead\<close> reads \<open>word_count\<close> words into a memory at \<open>to\<close>: the destination is the
  line of the cache or the next instruction. The first component is its result; a failed read
  stores zeros. Raising the exception is the caller's business here (\<open>CpuFetch\<close>).
\<close>

definition copy_words :: "mem \<Rightarrow> u32 \<Rightarrow> nat \<Rightarrow> u32 \<Rightarrow> mem \<Rightarrow> mem" where
  "copy_words src from word_count to m =
     fold (\<lambda>k m. write_word (to + word_of_nat (4 * k)) (read_word src (from + word_of_nat (4 * k))) m) [0..<word_count] m"

definition DoInstructionRead :: "bool \<Rightarrow> bool \<Rightarrow> nat \<Rightarrow> u32 \<Rightarrow> u32 \<Rightarrow> mem \<Rightarrow> 'a bus_state_scheme
    \<Rightarrow> bool \<times> mem \<times> 'a bus_state_scheme" where
  "DoInstructionRead add_ticks icache_read word_count address to m s =
     (let paddr = address AND 0x1FFFFFFF
      in if paddr < RAM_MIRROR_END then
           (True, copy_words (g_ram s) (paddr AND g_ram_mask s) word_count to m,
            if add_ticks then AddPendingTicks ((if icache_read then 1 else RAM_READ_TICKS) * int word_count) s else s)
         else if BIOS_BASE \<le> paddr \<and> paddr < BIOS_END then
           (True, copy_words (g_bios s) ((paddr - BIOS_BASE) AND 0x7FFFF) word_count to m,
            if add_ticks then AddPendingTicks (m_bios_access_time s ! 2 * int word_count) s else s)
         else (False, copy_words (\<lambda>_. 0) 0 word_count to m, s))"

definition GetInstructionReadTicks :: "u32 \<Rightarrow> 'a bus_state_scheme \<Rightarrow> tick_count" where
  "GetInstructionReadTicks address s =
     (let paddr = address AND 0x1FFFFFFF
      in if paddr < RAM_MIRROR_END then RAM_READ_TICKS
         else if BIOS_BASE \<le> paddr \<and> paddr < BIOS_END then m_bios_access_time s ! 2
         else 0)"

definition GetICacheFillTicks :: "u32 \<Rightarrow> 'a bus_state_scheme \<Rightarrow> tick_count" where
  "GetICacheFillTicks address s =
     (let paddr = address AND 0x1FFFFFFF; words = uint ((16 - (paddr AND 0xF)) div 4)
      in if paddr < RAM_MIRROR_END then words
         else if BIOS_BASE \<le> paddr \<and> paddr < BIOS_END then m_bios_access_time s ! 2 * words
         else 0)"

fun update_tags :: "nat \<Rightarrow> u32 \<Rightarrow> tick_count \<Rightarrow> u32 list \<Rightarrow> tick_count \<times> u32 list" where
  "update_tags 0 pc cached_ticks_per_line tags = (0, tags)"
| "update_tags (Suc n) pc cached_ticks_per_line tags =
     (let line = GetICacheLine pc; miss = (tags ! line \<noteq> pc);
          (ticks, tags') = update_tags n (pc + 16) cached_ticks_per_line (if miss then tags[line := pc] else tags)
      in (ticks + (if miss then cached_ticks_per_line else 0), tags'))"

definition CheckAndUpdateICacheTags :: "nat \<Rightarrow> tick_count \<Rightarrow> 'a bus_state_scheme \<Rightarrow> 'a bus_state_scheme" where
  "CheckAndUpdateICacheTags line_count uncached_ticks s =
     (let current_pc = regs s ! reg_pc AND 0xFFFFFFF0
      in if IsCachedAddress current_pc
         then (let (ticks, tags) = update_tags line_count current_pc (GetICacheFillTicks current_pc s) (icache_tags s)
               in AddPendingTicks ticks (s\<lparr>icache_tags := tags\<rparr>))
         else AddPendingTicks uncached_ticks s)"

definition FillICache :: "u32 \<Rightarrow> 'a bus_state_scheme \<Rightarrow> u32 \<times> 'a bus_state_scheme" where
  "FillICache address s =
     (let line = GetICacheLine address; k = unat (drop_bit 2 address AND 0x03);
          from = address AND (0xFFFFFFF0 OR word_of_nat (4 * k));
          (ok, m, t) = DoInstructionRead True True (4 - k) from (word_of_nat (line * 16 + 4 * k)) (icache_data s) s;
          tag = GetICacheTagForAddress address OR ([0, 1, 3, 7] ! k);
          t1 = t\<lparr>icache_data := m, icache_tags := (icache_tags t)[line := tag]\<rparr>
      in (ReadICache address t1, t1))"

definition SafeReadInstruction :: "u32 \<Rightarrow> 'a bus_state_scheme \<Rightarrow> u32 option" where
  "SafeReadInstruction addr s =
     (let top = drop_bit 29 addr
      in if top = 0 \<or> top = 4 \<or> top = 5
         then (case DoInstructionRead False False 1 addr 0 (\<lambda>_. 0) s of
                 (ok, m, t) \<Rightarrow> if ok then Some (read_word m 0) else None)
         else None)"

end
