(* ===== verification/BusAccess.thy ===== *)
theory BusAccess
  imports Bus
begin

text \<open>
  The accesses of the bus that raise no exception: the debugger's and cheats' \<open>SafeRead\<close> and
  \<open>SafeWrite\<close> functions, the pointers the recompiler reads and writes through, and the
  recompiler's own memory functions (\<open>Recompiler::Thunks\<close>), which return an exception number
  instead of raising it.
\<close>

subsection \<open>Safe accesses\<close>

text \<open>The result is \<open>None\<close> where the code returns false.\<close>

definition DoSafeMemoryAccess :: "('a bus_state_scheme) bus_env \<Rightarrow> access_type \<Rightarrow> access_size \<Rightarrow> u32 \<Rightarrow> u32
    \<Rightarrow> 'a bus_state_scheme \<Rightarrow> (u32 \<times> 'a bus_state_scheme) option" where
  "DoSafeMemoryAccess env ty sz address v s =
     (let top = drop_bit 29 address; paddr = VirtualAddressToPhysical address
      in if (top = 0 \<or> top = 4) \<and> paddr AND 0xFFFFFC00 = 0x1F800000
         then Some (snd (DoScratchpadAccess ty sz paddr v s))
         else if top = 0 \<or> top = 4 \<or> top = 5 then
           (if paddr < RAM_MIRROR_END then Some (snd (DoRAMAccess env ty sz True paddr v s))
            else if ty = AccRead \<and> BIOS_BASE \<le> paddr \<and> paddr < BIOS_END
            then Some (snd (DoBIOSAccess ty sz (paddr - BIOS_BASE) v s))
            else None)
         else None)"

definition SafeReadMemoryByte :: "('a bus_state_scheme) bus_env \<Rightarrow> u32 \<Rightarrow> 'a bus_state_scheme \<Rightarrow> u8 option" where
  "SafeReadMemoryByte env addr s = map_option (\<lambda>(v, t). ucast v) (DoSafeMemoryAccess env AccRead AccByte addr 0 s)"

definition SafeReadMemoryHalfWord :: "('a bus_state_scheme) bus_env \<Rightarrow> u32 \<Rightarrow> 'a bus_state_scheme \<Rightarrow> u16 option" where
  "SafeReadMemoryHalfWord env addr s =
     (if addr AND 1 = 0
      then map_option (\<lambda>(v, t). ucast v) (DoSafeMemoryAccess env AccRead AccHalfWord addr 0 s)
      else (case (SafeReadMemoryByte env addr s, SafeReadMemoryByte env (addr + 1) s) of
              (Some low, Some high) \<Rightarrow> Some (push_bit 8 (ucast high) OR ucast low)
            | _ \<Rightarrow> None))"

definition SafeReadMemoryWord :: "('a bus_state_scheme) bus_env \<Rightarrow> u32 \<Rightarrow> 'a bus_state_scheme \<Rightarrow> u32 option" where
  "SafeReadMemoryWord env addr s =
     (if addr AND 3 = 0 then map_option fst (DoSafeMemoryAccess env AccRead AccWord addr 0 s)
      else (case (SafeReadMemoryHalfWord env addr s, SafeReadMemoryHalfWord env (addr + 2) s) of
              (Some low, Some high) \<Rightarrow> Some (push_bit 16 (ucast high) OR ucast low)
            | _ \<Rightarrow> None))"

text \<open>
  A write returns its success and the state: when the first half of a split write succeeds and
  the second fails, the first has been stored.
\<close>

definition safe_write :: "('a bus_state_scheme) bus_env \<Rightarrow> access_size \<Rightarrow> u32 \<Rightarrow> u32 \<Rightarrow> 'a bus_state_scheme \<Rightarrow> bool \<times> 'a bus_state_scheme" where
  "safe_write env sz addr v s =
     (case DoSafeMemoryAccess env AccWrite sz addr v s of None \<Rightarrow> (False, s) | Some (v', t) \<Rightarrow> (True, t))"

definition and_then :: "bool \<times> 's \<Rightarrow> ('s \<Rightarrow> bool \<times> 's) \<Rightarrow> bool \<times> 's" where
  "and_then r f = (if fst r then f (snd r) else r)"

definition SafeWriteMemoryByte :: "('a bus_state_scheme) bus_env \<Rightarrow> u32 \<Rightarrow> u8 \<Rightarrow> 'a bus_state_scheme \<Rightarrow> bool \<times> 'a bus_state_scheme" where
  "SafeWriteMemoryByte env addr v s = safe_write env AccByte addr (ucast v) s"

definition SafeWriteMemoryHalfWord :: "('a bus_state_scheme) bus_env \<Rightarrow> u32 \<Rightarrow> u16 \<Rightarrow> 'a bus_state_scheme \<Rightarrow> bool \<times> 'a bus_state_scheme" where
  "SafeWriteMemoryHalfWord env addr v s =
     (if addr AND 1 = 0 then safe_write env AccHalfWord addr (ucast v) s
      else and_then (SafeWriteMemoryByte env addr (ucast v) s)
             (SafeWriteMemoryByte env (addr + 1) (ucast (drop_bit 8 v))))"

definition SafeWriteMemoryWord :: "('a bus_state_scheme) bus_env \<Rightarrow> u32 \<Rightarrow> u32 \<Rightarrow> 'a bus_state_scheme \<Rightarrow> bool \<times> 'a bus_state_scheme" where
  "SafeWriteMemoryWord env addr v s =
     (if addr AND 3 = 0 then safe_write env AccWord addr v s
      else and_then (SafeWriteMemoryHalfWord env addr (ucast (drop_bit 16 v)) s)
             (SafeWriteMemoryHalfWord env (addr + 2) (ucast (drop_bit 16 v))))"

subsection \<open>Pointers\<close>

text \<open>A pointer into one of the host's arrays, with the index.\<close>

datatype host_pointer = RamPointer u32 | DcachePointer u32 | BiosPointer u32

definition GetDirectReadMemoryPointer :: "u32 \<Rightarrow> access_size \<Rightarrow> 'a bus_state_scheme \<Rightarrow> (host_pointer \<times> tick_count) option" where
  "GetDirectReadMemoryPointer address sz s =
     (let seg = drop_bit 29 address; paddr = VirtualAddressToPhysical address
      in if seg \<noteq> 0 \<and> seg \<noteq> 4 \<and> seg \<noteq> 5 then None
         else if paddr < RAM_MIRROR_END then Some (RamPointer (paddr AND g_ram_mask s), RAM_READ_TICKS)
         else if paddr AND 0xFFFFFC00 = 0x1F800000 then Some (DcachePointer (paddr AND 0x3FF), 0)
         else if BIOS_BASE \<le> paddr \<and> paddr < BIOS_END
         then Some (BiosPointer (paddr AND 0x7FFFF), m_bios_access_time s ! size_index sz)
         else None)"

definition GetDirectWriteMemoryPointer :: "u32 \<Rightarrow> host_pointer option" where
  "GetDirectWriteMemoryPointer address =
     (let seg = drop_bit 29 address; paddr = VirtualAddressToPhysical address
      in if seg \<noteq> 0 \<and> seg \<noteq> 4 \<and> seg \<noteq> 5 then None
         else if paddr AND 0xFFFFFC00 = 0x1F800000 then Some (DcachePointer (paddr AND 0x3FF))
         else None)"

fun deref_load :: "access_size \<Rightarrow> host_pointer \<Rightarrow> 'a bus_state_scheme \<Rightarrow> u32" where
  "deref_load sz (RamPointer i) s = mem_load sz (g_ram s) i"
| "deref_load sz (DcachePointer i) s = mem_load sz (dcache s) i"
| "deref_load sz (BiosPointer i) s = mem_load sz (g_bios s) i"

subsection \<open>The recompiler's memory functions\<close>

text \<open>A read returns the value, or the negated exception number in 64 bits.\<close>

definition negated_exception :: "exception \<Rightarrow> u64" where
  "negated_exception e = - ucast (exception_code e)"

definition thunk_read :: "('a bus_state_scheme) bus_env \<Rightarrow> access_size \<Rightarrow> u32 \<Rightarrow> 'a bus_state_scheme \<Rightarrow> u64 \<times> 'a bus_state_scheme" where
  "thunk_read env sz address s =
     (if \<not> size_aligned sz address
      then (negated_exception Exc_AdEL, s\<lparr>cop0_regs := cop0_regs s\<lparr>BadVaddr := address\<rparr>\<rparr>)
      else (case DoMemoryAccess env AccRead sz address 0 s of
              (cycles, v, t) \<Rightarrow> if cycles < 0 then (negated_exception Exc_DBE, t)
                               else (ucast v, AddPendingTicks cycles t)))"

definition thunk_write :: "('a bus_state_scheme) bus_env \<Rightarrow> access_size \<Rightarrow> u32 \<Rightarrow> u32 \<Rightarrow> 'a bus_state_scheme \<Rightarrow> u32 \<times> 'a bus_state_scheme" where
  "thunk_write env sz address v s =
     (if \<not> size_aligned sz address
      then (exception_code Exc_AdES, s\<lparr>cop0_regs := cop0_regs s\<lparr>BadVaddr := address\<rparr>\<rparr>)
      else (case DoMemoryAccess env AccWrite sz address v s of
              (cycles, v', t) \<Rightarrow> (if cycles < 0 then exception_code Exc_DBE else 0, t)))"

definition unchecked_read :: "('a bus_state_scheme) bus_env \<Rightarrow> access_size \<Rightarrow> u32 \<Rightarrow> 'a bus_state_scheme \<Rightarrow> u32 \<times> 'a bus_state_scheme" where
  "unchecked_read env sz address s =
     (case DoMemoryAccess env AccRead sz address 0 s of (cycles, v, t) \<Rightarrow> (v, AddPendingTicks cycles t))"

definition unchecked_write :: "('a bus_state_scheme) bus_env \<Rightarrow> access_size \<Rightarrow> u32 \<Rightarrow> u32 \<Rightarrow> 'a bus_state_scheme \<Rightarrow> 'a bus_state_scheme" where
  "unchecked_write env sz address v s =
     (case DoMemoryAccess env AccWrite sz address v s of (cycles, v', t) \<Rightarrow> AddPendingTicks cycles t)"

end
