(* ===== verification/BusSpec.thy ===== *)
theory BusSpec
  imports BusAccess DmaSpec
begin

text \<open>
  Lemmas about the bus: loads and stores of every size through the mirrors of RAM, the lines of
  the instruction cache, and what an access preserves when the devices preserve it (the
  locale \<open>bus_devices\<close>).
\<close>

subsection \<open>Sizes\<close>

lemma size_aligned_bits:
  "size_aligned AccHalfWord a \<longleftrightarrow> \<not> bit a 0"
  "size_aligned AccWord a \<longleftrightarrow> aligned a"
proof -
  have "IsAlignedPow2 a 2 \<longleftrightarrow> a AND 1 = 0" unfolding IsAlignedPow2_def by simp
  then show "size_aligned AccHalfWord a \<longleftrightarrow> \<not> bit a 0" using bit_and_1 [of a] by (simp only: size_aligned.simps) blast
  show "size_aligned AccWord a \<longleftrightarrow> aligned a" by (simp add: IsAlignedPow2_def)
qed

lemma read_write_half: "read_half (write_half a v m) a = v"
  by (rule bit_word_eqI) (auto simp: read_half_def write_half_def bit_simps not_less dest: bit_imp_le_length)

lemma mem_load_store [simp]: "mem_load sz (mem_store sz a v m) a = truncate_to sz v"
  by (cases sz) (simp_all add: read_write_half read_word_def write_word_def)

text \<open>A store touches only the aligned word its address lies in.\<close>

definition word_base :: "u32 \<Rightarrow> u32" where "word_base a = a AND NOT 3"

lemma bit_word_base: "bit (word_base a) n \<longleftrightarrow> bit a n \<and> 2 \<le> n"
proof -
  have m: "(3 :: u32) = mask 2" by (simp add: mask_eq_exp_minus_1)
  show ?thesis unfolding word_base_def m by (auto simp: bit_and_iff bit_not_iff bit_mask_iff dest: bit_imp_le_length)
qed

lemma aligned_word_base: "aligned (word_base a)"
  by (simp add: aligned_bits bit_word_base)

lemma word_base_id: "aligned a \<Longrightarrow> word_base a = a"
proof (rule bit_word_eqI)
  fix n assume a: "aligned a"
  then have "bit a n \<Longrightarrow> 2 \<le> n"
    unfolding aligned_bits by (metis One_nat_def Suc_1 less_2_cases_iff not_less)
  then show "bit (word_base a) n = bit a n"
    by (auto simp: bit_word_base)
qed

lemma unat_word_base: "unat (word_base a) = 4 * (unat a div 4)"
proof -
  have e: "word_base a = push_bit 2 (drop_bit 2 a)"
    by (rule bit_word_eqI)
      (auto simp only: bit_word_base bit_push_bit_iff bit_drop_bit_eq comp_def le_add_diff_inverse possible_bit_word)
  have l: "unat a < 2 ^ 32" using unsigned_less [of a] by simp
  have d: "unat (drop_bit 2 a) = unat a div 4"
    by (simp add: unsigned_drop_bit_eq drop_bit_eq_div unat_div)
  have "4 * (unat a div 4) < 2 ^ 32" using l by simp
  then show ?thesis
    unfolding e unsigned_push_bit_eq d by (simp add: push_bit_eq_mult take_bit_nat_eq_self)
qed

lemma within_word:
  fixes x k :: nat
  assumes "x mod 4 + k < 4"
  shows "(x + k) div 4 = x div 4" and "x < 4 * n \<Longrightarrow> x + k < 4 * n"
proof -
  obtain q r where x: "x = 4 * q + r" and r: "r < 4" "x mod 4 = r"
    by (metis mod_less_divisor mult_div_mod_eq zero_less_numeral)
  have e: "x + k = 4 * q + (r + k)" using x by simp
  have "x div 4 = q" unfolding x using r(1) by simp
  moreover have "(4 * q + (r + k)) div 4 = q" using assms r(2) by simp
  ultimately show "(x + k) div 4 = x div 4" unfolding e by simp
  assume "x < 4 * n"
  then have "q < n" using x by linarith
  then show "x + k < 4 * n" using e assms r(2) by linarith
qed

lemma word_base_add:
  assumes "k < 4" and "unat a mod 4 + k < 4"
  shows "word_base (a + word_of_nat k) = word_base a"
proof -
  have "unat a < 4 * 1073741824" using unsigned_less [of a] by simp
  then have "unat a + k < 4 * 1073741824" by (rule within_word(2) [OF assms(2)])
  moreover have "unat (word_of_nat k :: u32) = k" using assms(1) by (simp add: unat_of_nat)
  ultimately have s: "unat (a + word_of_nat k) = unat a + k" by (simp add: unat_word_ariths)
  show ?thesis unfolding word_unat_eq_iff unat_word_base s within_word(1) [OF assms(2)] by (rule refl)
qed

lemma mem_store_other:
  assumes al: "size_aligned sz a" and ne: "word_base b \<noteq> word_base a"
  shows "mem_store sz a v m b = m b"
proof (cases sz)
  case AccByte
  then show ?thesis using ne by auto
next
  case AccHalfWord
  have "\<not> bit a 0" using al AccHalfWord size_aligned_bits(1) by blast
  then have "even (unat a)" by (metis bit_0 bit_unsigned_iff)
  then have "unat a mod 4 + 1 < 4" by presburger
  then have "word_base (a + 1) = word_base a" using word_base_add [of 1 a] by simp
  then show ?thesis using AccHalfWord ne by (auto simp: write_half_def)
next
  case AccWord
  have "aligned a" using al AccWord size_aligned_bits(2) by blast
  then have "unat a mod 4 = 0" by (simp only: unat_aligned)
  then have "word_base (a + 1) = word_base a" "word_base (a + 2) = word_base a" "word_base (a + 3) = word_base a"
    using word_base_add [of 1 a] word_base_add [of 2 a] word_base_add [of 3 a] by simp_all
  then show ?thesis using AccWord ne by (auto simp: write_word_def)
qed

lemma read_word_store_other:
  assumes "size_aligned sz a" and b: "aligned b" and "b \<noteq> word_base a"
  shows "read_word (mem_store sz a v m) b = read_word m b"
proof -
  have z: "unat b mod 4 = 0" using b by (simp only: unat_aligned)
  have "word_base (b + 1) = b" "word_base (b + 2) = b" "word_base (b + 3) = b" "word_base b = b"
    using word_base_add [of 1 b] word_base_add [of 2 b] word_base_add [of 3 b] z word_base_id [OF b] by simp_all
  then show ?thesis using assms by (simp add: read_word_def mem_store_other)
qed

subsection \<open>RAM through its mirrors\<close>

definition ram_address :: "u32 \<Rightarrow> bool" where
  "ram_address va \<longleftrightarrow> drop_bit 29 va \<in> {0, 4, 5} \<and> VirtualAddressToPhysical va < RAM_MIRROR_END"

definition ram_offset :: "u32 \<Rightarrow> 'a bus_state_scheme \<Rightarrow> u32" where
  "ram_offset va s = VirtualAddressToPhysical va AND g_ram_mask s"

lemma not_scratchpad: "a < 0x800000 \<Longrightarrow> a AND 0xFFFFFC00 \<noteq> (0x1F800000 :: u32)"
proof
  assume "a < 0x800000" and e: "a AND 0xFFFFFC00 = (0x1F800000 :: u32)"
  have "a AND 0xFFFFFC00 \<le> a" by (rule word_and_le2)
  then have "0x1F800000 \<le> a" unfolding e .
  also note \<open>a < 0x800000\<close>
  finally show False by simp
qed

lemma DoMemoryAccess_RAM:
  assumes "ram_address va" and "ty = AccRead \<or> \<not> sr_Isc (sr (cop0_regs s))"
  shows "DoMemoryAccess env ty sz va v s = DoRAMAccess env ty sz False (VirtualAddressToPhysical va) v s"
proof -
  have t: "drop_bit 29 va = 0 \<or> drop_bit 29 va = 4 \<or> drop_bit 29 va = 5"
    and p: "VirtualAddressToPhysical va < RAM_MIRROR_END"
    using assms(1) by (auto simp: ram_address_def)
  have "\<not> (ty = AccWrite \<and> sr_Isc (sr (cop0_regs s)))" using assms(2) by auto
  then show ?thesis
    using t p not_scratchpad [OF p]
    by (elim disjE) (simp_all only: DoMemoryAccess_def access_physical_def Let_def if_True if_False simp_thms, simp_all)
qed

lemma size_aligned_and:
  assumes "size_aligned sz a" shows "size_aligned sz (a AND m)"
proof (cases sz)
  case AccHalfWord
  then show ?thesis using assms size_aligned_bits(1) [of a] size_aligned_bits(1) [of "a AND m"] by (simp add: bit_and_iff)
next
  case AccWord
  then show ?thesis using assms size_aligned_bits(2) [of a] size_aligned_bits(2) [of "a AND m"]
    by (simp add: aligned_bits bit_and_iff)
qed simp

lemma size_aligned_ram_offset: "size_aligned sz va \<Longrightarrow> size_aligned sz (ram_offset va s)"
  by (simp add: ram_offset_def VirtualAddressToPhysical_def size_aligned_and)

text \<open>A code cache that leaves the bus alone when it drops the blocks of a page.\<close>

definition quiet_code_cache :: "('a bus_state_scheme) bus_env \<Rightarrow> bool" where
  "quiet_code_cache env \<longleftrightarrow> (\<forall>page s. g_ram (InvalidateBlocksWithPageIndex env page s) = g_ram s \<and>
     g_ram_mask (InvalidateBlocksWithPageIndex env page s) = g_ram_mask s)"

lemma g_ram_write_ram:
  "quiet_code_cache env \<Longrightarrow> g_ram (write_ram env sz False off v s) = mem_store sz off v (g_ram s)"
  "quiet_code_cache env \<Longrightarrow> g_ram_mask (write_ram env sz False off v s) = g_ram_mask s"
  by (simp_all add: write_ram_def Let_def quiet_code_cache_def)

lemma store_ram:
  assumes q: "quiet_code_cache env" and a: "ram_address va" and isc: "\<not> sr_Isc (sr (cop0_regs s))"
    and t: "t = snd (snd (DoMemoryAccess env AccWrite sz va v s))"
  shows "g_ram t = mem_store sz (ram_offset va s) v (g_ram s)" and "g_ram_mask t = g_ram_mask s"
  unfolding t using a isc
  by (simp_all add: DoMemoryAccess_RAM DoRAMAccess_def Let_def ram_offset_def g_ram_write_ram [OF q])

lemma load_ram:
  "ram_address va \<Longrightarrow> DoMemoryAccess env AccRead sz va v s = (6, mem_load sz (g_ram s) (ram_offset va s), s)"
  by (simp add: DoMemoryAccess_RAM DoRAMAccess_def Let_def ram_offset_def)

subsection \<open>Lines of the instruction cache\<close>

definition word_offset :: "nat \<Rightarrow> u32" where "word_offset j = word_of_nat (4 * j)"

text \<open>The word \<open>j\<close> of the line an address lies in.\<close>

definition line_word :: "u32 \<Rightarrow> nat \<Rightarrow> u32" where
  "line_word a j = (a AND NOT (mask 4)) OR word_offset j"

definition word_in_line :: "u32 \<Rightarrow> nat" where
  "word_in_line a = unat (drop_bit 2 a AND 0x03)"

lemma four_bits:
  "bit (4 :: u32) n \<longleftrightarrow> n = 2" "bit (8 :: u32) n \<longleftrightarrow> n = 3" "bit (12 :: u32) n \<longleftrightarrow> n = 2 \<or> n = 3"
proof -
  have a: "(4 :: u32) = 2 ^ 2" "(8 :: u32) = 2 ^ 3" "(12 :: u32) = 2 ^ 2 OR 2 ^ 3" by simp_all
  show "bit (4 :: u32) n \<longleftrightarrow> n = 2" "bit (8 :: u32) n \<longleftrightarrow> n = 3" "bit (12 :: u32) n \<longleftrightarrow> n = 2 \<or> n = 3"
    unfolding a bit_or_iff bit_exp_iff by auto
qed

lemma bit_word_offset:
  "j < 4 \<Longrightarrow> bit (word_offset j) n \<longleftrightarrow> (n = 2 \<and> odd j) \<or> (n = 3 \<and> 2 \<le> j)"
proof -
  assume "j < 4"
  have w: "word_offset 0 = 0" "word_offset 1 = 4" "word_offset 2 = 8" "word_offset 3 = 12"
    by (simp_all add: word_offset_def)
  from \<open>j < 4\<close> have "j = 0 \<or> j = 1 \<or> j = 2 \<or> j = 3" by arith
  then show ?thesis by (elim disjE) (simp_all only: w four_bits bit_0_eq bot_apply, simp_all)
qed

lemma unat_and_3: "unat (x AND mask 2 :: u32) = of_bool (bit x 0) + 2 * of_bool (bit x 1)"
proof -
  have "unat (x AND mask 2) = take_bit (Suc (Suc 0)) (unat x)"
    by (simp add: unsigned_take_bit_eq numeral_2_eq_2 flip: take_bit_eq_mask)
  also have "\<dots> = of_bool (bit (unat x) 0) + 2 * of_bool (bit (unat x) 1)"
    by (simp add: take_bit_Suc bit_0 bit_Suc mod2_eq_if)
  finally show ?thesis by (simp add: bit_unsigned_iff)
qed

lemma bit_line_word:
  "j < 4 \<Longrightarrow> bit (line_word a j) n \<longleftrightarrow> (4 \<le> n \<and> bit a n) \<or> (n = 2 \<and> odd j) \<or> (n = 3 \<and> 2 \<le> j)"
  by (auto simp: line_word_def bit_or_iff bit_and_iff bit_not_iff bit_mask_iff bit_word_offset dest: bit_imp_le_length)

lemma line_word_parts:
  assumes j: "j < 4"
  shows "aligned (line_word a j)"
    and "GetICacheLine (line_word a j) = GetICacheLine a"
    and "GetICacheTagForAddress (line_word a j) = a AND NOT (mask 4)"
    and "GetICacheLineOffset (line_word a j) = word_offset j"
    and "word_in_line (line_word a j) = j"
proof -
  note b = bit_line_word [OF j, of a]
  have m: "(0xFFFFFFF0 :: u32) = NOT (mask 4)" "(0xF :: u32) = mask 4" "(3 :: u32) = mask 2"
    by (simp_all add: mask_eq_exp_minus_1)
  show "aligned (line_word a j)" unfolding aligned_bits by (simp add: b)
  have "drop_bit 4 (line_word a j) = drop_bit 4 a"
    by (rule bit_word_eqI) (auto simp: bit_drop_bit_eq b)
  then show "GetICacheLine (line_word a j) = GetICacheLine a" by (simp only: GetICacheLine_def)
  show "GetICacheTagForAddress (line_word a j) = a AND NOT (mask 4)"
    unfolding GetICacheTagForAddress_def m
    by (rule bit_word_eqI) (auto simp: bit_and_iff bit_not_iff bit_mask_iff b)
  show "GetICacheLineOffset (line_word a j) = word_offset j"
    unfolding GetICacheLineOffset_def m
    by (rule bit_word_eqI) (auto simp: bit_and_iff bit_mask_iff b bit_word_offset [OF j])
  have "word_in_line (line_word a j) = of_bool (odd j) + 2 * of_bool (2 \<le> j)"
    unfolding word_in_line_def m unat_and_3 bit_drop_bit_eq comp_def by (simp add: b)
  also have "\<dots> = j" using j by (cases "2 \<le> j") (auto simp: odd_iff_mod_2_eq_one, presburger+)
  finally show "word_in_line (line_word a j) = j" .
qed

lemma GetICacheLine_less: "GetICacheLine a < 256"
proof -
  have m: "(0xFF :: u32) = mask 8" by (simp add: mask_eq_exp_minus_1)
  have "unat (drop_bit 4 a AND mask 8) < 2 ^ 8" by (rule unat_less_of_bits) (simp add: bit_and_iff bit_mask_iff)
  then show ?thesis unfolding GetICacheLine_def m by simp
qed

lemma line_word_add: "j < 4 \<Longrightarrow> line_word a j = (a AND NOT (mask 4)) + word_offset j"
proof -
  assume j: "j < 4"
  show ?thesis unfolding line_word_def
    by (rule disjunctive_add [symmetric])
      (auto simp: bit_and_iff bit_not_iff bit_mask_iff bit_word_offset [OF j])
qed

lemma word_offset_diff: "k \<le> j \<Longrightarrow> word_offset k + word_of_nat (4 * (j - k)) = word_offset j"
  by (simp add: word_offset_def flip: of_nat_add of_nat_mult) (simp add: algebra_simps)

lemma line_word_and:
  assumes j: "j < 4" and M: "bit M 2" "bit M 3"
  shows "line_word a j AND M = line_word (a AND M) j"
  by (rule bit_word_eqI) (use M in \<open>auto simp: bit_and_iff bit_line_word [OF j]\<close>)

lemma line_word_step:
  "k \<le> j \<Longrightarrow> j < 4 \<Longrightarrow> line_word a k + word_of_nat (4 * (j - k)) = line_word a j"
  using word_offset_diff [of k j] by (simp add: line_word_add add.assoc)

lemma line_word_self: "aligned a \<Longrightarrow> line_word a (word_in_line a) = a"
proof -
  assume al: "aligned a"
  have m: "(3 :: u32) = mask 2" by (simp add: mask_eq_exp_minus_1)
  have k: "word_in_line a = of_bool (bit a 2) + 2 * of_bool (bit a 3)"
    unfolding word_in_line_def m unat_and_3 bit_drop_bit_eq comp_def by simp
  then have "word_in_line a < 4" by simp
  note b = bit_line_word [OF this, of a]
  show ?thesis
  proof (rule bit_word_eqI)
    fix n :: nat
    have "n = 0 \<or> n = 1 \<or> n = 2 \<or> n = 3 \<or> 4 \<le> n" by arith
    then show "bit (line_word a (word_in_line a)) n = bit a n"
      using al unfolding aligned_bits b unfolding k by (elim disjE) auto
  qed
qed

lemma word_in_line_less: "word_in_line a < 4"
proof -
  have m: "(3 :: u32) = mask 2" by (simp add: mask_eq_exp_minus_1)
  show ?thesis unfolding word_in_line_def m unat_and_3 by simp
qed

lemma aligned_add_words: "aligned to \<Longrightarrow> aligned (to + word_of_nat (4 * i))"
proof -
  assume "aligned to"
  then have "unat to mod 4 = 0" by (simp only: unat_aligned)
  moreover have "unat (to + word_of_nat (4 * i)) mod 4 = (unat to + 4 * i) mod 4"
    by (simp add: unat_word_ariths unat_of_nat mod_mod_cancel mod_simps)
  ultimately have "unat (to + word_of_nat (4 * i)) mod 4 = 0" by presburger
  then show ?thesis by (simp only: unat_aligned)
qed

lemma copy_words_Suc:
  "copy_words src from (Suc n) to m =
     write_word (to + word_of_nat (4 * n)) (read_word src (from + word_of_nat (4 * n))) (copy_words src from n to m)"
  by (simp add: copy_words_def)

lemma read_copy_words:
  assumes "aligned to" and "i < n" and "n \<le> 1024"
  shows "read_word (copy_words src from n to m) (to + word_of_nat (4 * i)) = read_word src (from + word_of_nat (4 * i))"
  using assms(2,3)
proof (induction n)
  case (Suc n)
  have "unat (word_of_nat (4 * i) :: u32) = 4 * i" "unat (word_of_nat (4 * n) :: u32) = 4 * n"
    using Suc.prems by (simp_all only: unat_of_nat) simp_all
  then have "to + word_of_nat (4 * n) = to + word_of_nat (4 * i) \<longleftrightarrow> n = i"
    by (metis add_left_cancel mult_cancel1 zero_neq_numeral)
  then show ?case
    using Suc by (cases "n = i")
      (simp_all only: copy_words_Suc read_write_word [OF aligned_add_words aligned_add_words, OF assms(1) assms(1)] if_True if_False, simp)
qed simp

text \<open>
  Filling the line from word \<open>k\<close> on: the words from \<open>k\<close> to 3 hit and hold what memory holds,
  the words before it miss.
\<close>

lemma icache_index_line_word:
  "j < 4 \<Longrightarrow> icache_index (line_word a j) = word_of_nat (GetICacheLine a * 16) + word_offset j"
  by (simp only: icache_index_def line_word_parts)

lemma tag_masks:
  assumes "k < 4" and "j < 4"
  shows "[0, 1, 3, 7] ! k = (mask k :: u32)" and "[1, 2, 4, 8] ! j = (2 ^ j :: u32)"
proof -
  have "k = 0 \<or> k = 1 \<or> k = 2 \<or> k = 3" "j = 0 \<or> j = 1 \<or> j = 2 \<or> j = 3" using assms by arith+
  then show "[0, 1, 3, 7] ! k = (mask k :: u32)" "[1, 2, 4, 8] ! j = (2 ^ j :: u32)"
    by (auto simp: mask_eq_exp_minus_1)
qed

lemma tag_compare:
  assumes "k < 4" and "j < 4"
  shows "((a AND NOT (mask 4)) OR mask k) AND (NOT (mask 4) OR 2 ^ j) = (a AND NOT (mask 4) :: u32) \<longleftrightarrow> k \<le> j"
proof
  assume e: "((a AND NOT (mask 4)) OR mask k) AND (NOT (mask 4) OR 2 ^ j) = (a AND NOT (mask 4) :: u32)"
  have "bit (((a AND NOT (mask 4)) OR mask k) AND (NOT (mask 4) OR 2 ^ j)) j \<longleftrightarrow> j < k" "\<not> bit (a AND NOT (mask 4)) j"
    using assms by (auto simp: bit_and_iff bit_or_iff bit_not_iff bit_mask_iff bit_exp_iff)
  then show "k \<le> j" unfolding e by simp
next
  assume "k \<le> j"
  then show "((a AND NOT (mask 4)) OR mask k) AND (NOT (mask 4) OR 2 ^ j) = (a AND NOT (mask 4) :: u32)"
    by (intro bit_word_eqI) (use assms in \<open>auto simp: bit_and_iff bit_or_iff bit_not_iff bit_mask_iff bit_exp_iff\<close>)
qed

lemma CompareICacheTag_filled:
  assumes j: "j < 4" and k: "k < 4"
    and tag: "icache_tags t ! GetICacheLine a = GetICacheTagForAddress a OR ([0, 1, 3, 7] ! k)"
  shows "CompareICacheTag (line_word a j) t \<longleftrightarrow> k \<le> j"
proof -
  have m: "(0xFFFFFFF0 :: u32) = NOT (mask 4)" by (simp add: mask_eq_exp_minus_1)
  have w: "unat (drop_bit 2 (line_word a j) AND 0x03) = j"
    using line_word_parts(5) [OF j, of a] by (simp only: word_in_line_def)
  show ?thesis
    unfolding CompareICacheTag_def GetICacheTagMaskForAddress_def w line_word_parts(2,3) [OF j] tag
    unfolding GetICacheTagForAddress_def m tag_masks [OF k j]
    by (rule tag_compare [OF k j])
qed

lemma phys_mask_bits: "bit (0x1FFFFFFF :: u32) n \<longleftrightarrow> n < 29"
proof -
  have m: "(0x1FFFFFFF :: u32) = mask 29" by (simp add: mask_eq_exp_minus_1)
  show ?thesis unfolding m bit_mask_iff by auto
qed

lemma ram_mask_bits: "ram_ok s \<Longrightarrow> bit (g_ram_mask s) n \<longleftrightarrow> n < ram_bits (g_ram_mask s)"
proof -
  have m: "(0x1FFFFF :: u32) = mask 21" "(0x7FFFFF :: u32) = mask 23" by (simp_all add: mask_eq_exp_minus_1)
  assume "ram_ok s"
  then consider "g_ram_mask s = 0x1FFFFF" | "g_ram_mask s = 0x7FFFFF" unfolding ram_ok_def by blast
  then show ?thesis
  proof cases
    case 1
    have b: "ram_bits (g_ram_mask s) = 21" by (simp add: ram_bits_def 1)
    show ?thesis unfolding b unfolding 1 m bit_mask_iff by auto
  next
    case 2
    have b: "ram_bits (g_ram_mask s) = 23" by (simp add: ram_bits_def 2)
    show ?thesis unfolding b unfolding 2 m bit_mask_iff by auto
  qed
qed

lemma ram_offset_line_word:
  assumes "ram_ok s" and "j < 4"
  shows "ram_offset (line_word a j) s = line_word (ram_offset a s) j"
proof -
  have p: "bit (0x1FFFFFFF :: u32) 2" "bit (0x1FFFFFFF :: u32) 3" by (simp_all only: phys_mask_bits)
  have r: "bit (g_ram_mask s) 2" "bit (g_ram_mask s) 3"
    using ram_bits_cases [of "g_ram_mask s"] by (auto simp: ram_mask_bits [OF assms(1)])
  show ?thesis
    by (simp only: ram_offset_def VirtualAddressToPhysical_def
      line_word_and [OF assms(2) p] line_word_and [OF assms(2) r])
qed

lemma fill_line:
  assumes fill: "FillICache a s = (w, t)" and a: "aligned a" "VirtualAddressToPhysical a < RAM_MIRROR_END"
    and ok: "ram_ok s" "length (icache_tags s) = 256" and j: "j < 4"
  shows "CompareICacheTag (line_word a j) t \<longleftrightarrow> word_in_line a \<le> j"
    and "word_in_line a \<le> j \<Longrightarrow> ReadICache (line_word a j) t = read_word (g_ram s) (ram_offset (line_word a j) s)"
    and "w = ReadICache a t"
    and "pending_ticks t = pending_ticks s + (4 - int (word_in_line a))"
proof -
  define k where "k = word_in_line a"
  have k: "k < 4" unfolding k_def by (rule word_in_line_less)
  have self: "line_word a k = a" unfolding k_def by (rule line_word_self [OF a(1)])
  have from_self: "a AND (0xFFFFFFF0 OR word_of_nat (4 * k)) = a"
  proof -
    have m: "(0xFFFFFFF0 :: u32) = NOT (mask 4)" by (simp add: mask_eq_exp_minus_1)
    have "a AND (NOT (mask 4) OR word_offset k) = line_word a k"
      by (rule bit_word_eqI, subst (1) self [symmetric])
        (auto simp: bit_and_iff bit_or_iff bit_not_iff bit_mask_iff bit_line_word [OF k] bit_word_offset [OF k])
    then show ?thesis unfolding m self word_offset_def .
  qed
  have p: "a AND 0x1FFFFFFF < RAM_MIRROR_END" using a(2) by (simp only: VirtualAddressToPhysical_def)
  let ?to = "word_of_nat (GetICacheLine a * 16 + 4 * k) :: u32"
  have "t = (AddPendingTicks (int (4 - k)) s)
      \<lparr>icache_data := copy_words (g_ram s) (ram_offset a s) (4 - k) ?to (icache_data s),
       icache_tags := (icache_tags s)[GetICacheLine a := GetICacheTagForAddress a OR ([0, 1, 3, 7] ! k)]\<rparr>
      \<and> w = ReadICache a t"
    using fill p unfolding FillICache_def Let_def DoInstructionRead_def word_in_line_def [symmetric] k_def [symmetric] from_self
    by (auto simp: AddPendingTicks_def ram_offset_def VirtualAddressToPhysical_def)
  then have t: "t = (AddPendingTicks (int (4 - k)) s)
      \<lparr>icache_data := copy_words (g_ram s) (ram_offset a s) (4 - k) ?to (icache_data s),
       icache_tags := (icache_tags s)[GetICacheLine a := GetICacheTagForAddress a OR ([0, 1, 3, 7] ! k)]\<rparr>"
    and "w = ReadICache a t" by blast+
  show "w = ReadICache a t" by fact
  show "pending_ticks t = pending_ticks s + (4 - int (word_in_line a))"
    using k unfolding t by (simp add: AddPendingTicks_def k_def)
  have "icache_tags t ! GetICacheLine a = GetICacheTagForAddress a OR ([0, 1, 3, 7] ! k)"
    using ok(2) GetICacheLine_less [of a] unfolding t by simp
  from CompareICacheTag_filled [OF j k this] show "CompareICacheTag (line_word a j) t \<longleftrightarrow> word_in_line a \<le> j"
    by (simp only: k_def)
  assume kj: "word_in_line a \<le> j"
  have al: "aligned ?to"
  proof -
    have "unat ?to = GetICacheLine a * 16 + 4 * k"
      using GetICacheLine_less [of a] k by (simp only: unat_of_nat) simp
    then show ?thesis by (simp only: unat_aligned) presburger
  qed
  have idx: "icache_index (line_word a j) = ?to + word_of_nat (4 * (j - k))"
    using word_offset_diff [of k j] kj
    by (simp only: icache_index_line_word [OF j] k_def [symmetric] word_offset_def of_nat_add add.assoc)
  have src: "ram_offset a s + word_of_nat (4 * (j - k)) = ram_offset (line_word a j) s"
    using line_word_step [of k j "ram_offset a s"] ram_offset_line_word [OF ok(1) k, of a]
      ram_offset_line_word [OF ok(1) j, of a] kj j self by (simp only: k_def)
  show "ReadICache (line_word a j) t = read_word (g_ram s) (ram_offset (line_word a j) s)"
    unfolding ReadICache_def idx src [symmetric] unfolding t
    using read_copy_words [OF al, of "j - k" "4 - k"] j k kj by (simp add: k_def)
qed

end
