(* ===== verification/CpuTypes.thy ===== *)
theory CpuTypes
  imports CpuState
begin

text \<open>
  The instruction word (\<open>src/core/cpu_types.h\<close>) and its classification
  (\<open>src/core/cpu_types.cpp\<close>), which the code cache and the recompiler rely on. An enum of
  opcodes is a datatype; a field whose value names no constant of the enum decodes to the last
  constructor.
\<close>

subsection \<open>Opcodes\<close>

datatype InstructionOp =
    Op_funct | Op_b | Op_j | Op_jal | Op_beq | Op_bne | Op_blez | Op_bgtz
  | Op_addi | Op_addiu | Op_slti | Op_sltiu | Op_andi | Op_ori | Op_xori | Op_lui
  | Op_cop0 | Op_cop1 | Op_cop2 | Op_cop3
  | Op_lb | Op_lh | Op_lwl | Op_lw | Op_lbu | Op_lhu | Op_lwr
  | Op_sb | Op_sh | Op_swl | Op_sw | Op_swr
  | Op_lwc0 | Op_lwc1 | Op_lwc2 | Op_lwc3 | Op_swc0 | Op_swc1 | Op_swc2 | Op_swc3
  | Op_reserved

definition op_table :: "(nat \<times> InstructionOp) list" where
  "op_table =
     [(0, Op_funct), (1, Op_b), (2, Op_j), (3, Op_jal), (4, Op_beq), (5, Op_bne), (6, Op_blez), (7, Op_bgtz),
      (8, Op_addi), (9, Op_addiu), (10, Op_slti), (11, Op_sltiu), (12, Op_andi), (13, Op_ori), (14, Op_xori),
      (15, Op_lui), (16, Op_cop0), (17, Op_cop1), (18, Op_cop2), (19, Op_cop3), (32, Op_lb), (33, Op_lh),
      (34, Op_lwl), (35, Op_lw), (36, Op_lbu), (37, Op_lhu), (38, Op_lwr), (40, Op_sb), (41, Op_sh),
      (42, Op_swl), (43, Op_sw), (46, Op_swr), (48, Op_lwc0), (49, Op_lwc1), (50, Op_lwc2), (51, Op_lwc3),
      (56, Op_swc0), (57, Op_swc1), (58, Op_swc2), (59, Op_swc3)]"

datatype InstructionFunct =
    Fn_sll | Fn_srl | Fn_sra | Fn_sllv | Fn_srlv | Fn_srav | Fn_jr | Fn_jalr | Fn_syscall | Fn_break
  | Fn_mfhi | Fn_mthi | Fn_mflo | Fn_mtlo | Fn_mult | Fn_multu | Fn_div | Fn_divu
  | Fn_add | Fn_addu | Fn_sub | Fn_subu | Fn_and | Fn_or | Fn_xor | Fn_nor | Fn_slt | Fn_sltu
  | Fn_reserved

definition funct_table :: "(nat \<times> InstructionFunct) list" where
  "funct_table =
     [(0, Fn_sll), (2, Fn_srl), (3, Fn_sra), (4, Fn_sllv), (6, Fn_srlv), (7, Fn_srav), (8, Fn_jr), (9, Fn_jalr),
      (12, Fn_syscall), (13, Fn_break), (16, Fn_mfhi), (17, Fn_mthi), (18, Fn_mflo), (19, Fn_mtlo),
      (24, Fn_mult), (25, Fn_multu), (26, Fn_div), (27, Fn_divu), (32, Fn_add), (33, Fn_addu), (34, Fn_sub),
      (35, Fn_subu), (36, Fn_and), (37, Fn_or), (38, Fn_xor), (39, Fn_nor), (42, Fn_slt), (43, Fn_sltu)]"

datatype CopCommonInstruction = Cop_mfcn | Cop_cfcn | Cop_mtcn | Cop_ctcn | Cop_other
datatype Cop0Instruction = Cop0_tlbr | Cop0_tlbwi | Cop0_tlbwr | Cop0_tlbp | Cop0_rfe | Cop0_other

definition lookup_or :: "'b \<Rightarrow> (nat \<times> 'b) list \<Rightarrow> nat \<Rightarrow> 'b" where
  "lookup_or d table n = (case map_of table n of Some x \<Rightarrow> x | None \<Rightarrow> d)"

subsection \<open>Fields\<close>

definition inst_op :: "u32 \<Rightarrow> InstructionOp" where
  "inst_op w = lookup_or Op_reserved op_table (unat (bf_get 26 6 w))"

definition inst_funct :: "u32 \<Rightarrow> InstructionFunct" where
  "inst_funct w = lookup_or Fn_reserved funct_table (unat (bf_get 0 6 w))"

definition inst_rs :: "u32 \<Rightarrow> nat" where "inst_rs w = unat (bf_get 21 5 w)"
definition inst_rt :: "u32 \<Rightarrow> nat" where "inst_rt w = unat (bf_get 16 5 w)"
definition inst_rd :: "u32 \<Rightarrow> nat" where "inst_rd w = unat (bf_get 11 5 w)"
definition inst_shamt :: "u32 \<Rightarrow> nat" where "inst_shamt w = unat (bf_get 6 5 w)"
definition inst_target :: "u32 \<Rightarrow> u32" where "inst_target w = bf_get 0 26 w"
definition inst_cop_n :: "u32 \<Rightarrow> u32" where "inst_cop_n w = bf_get 26 2 w"
definition imm_sext32 :: "u32 \<Rightarrow> u32" where "imm_sext32 w = scast (ucast (bf_get 0 16 w) :: s16)"
definition imm_zext32 :: "u32 \<Rightarrow> u32" where "imm_zext32 w = bf_get 0 16 w"

definition IsCommonInstruction :: "u32 \<Rightarrow> bool" where
  "IsCommonInstruction w \<longleftrightarrow> \<not> bit w 25"

definition CommonOp :: "u32 \<Rightarrow> CopCommonInstruction" where
  "CommonOp w = lookup_or Cop_other [(0, Cop_mfcn), (2, Cop_cfcn), (4, Cop_mtcn), (6, Cop_ctcn)]
     (unat (drop_bit 21 w AND 0xF))"

definition Cop0Op :: "u32 \<Rightarrow> Cop0Instruction" where
  "Cop0Op w = lookup_or Cop0_other [(1, Cop0_tlbr), (2, Cop0_tlbwi), (4, Cop0_tlbwr), (8, Cop0_tlbp), (16, Cop0_rfe)]
     (unat (w AND 0x3F))"

lemma inst_reg_less [simp]:
  "inst_rs w < 32" "inst_rt w < 32" "inst_rd w < 32" "inst_shamt w < 32"
  using unat_bf_get_less [where cnt = 5 and data = w] by (simp_all add: inst_rs_def inst_rt_def inst_rd_def inst_shamt_def)

subsection \<open>Classification\<close>

definition IsNopInstruction :: "u32 \<Rightarrow> bool" where
  "IsNopInstruction w \<longleftrightarrow> w = 0"

definition IsBranchInstruction :: "u32 \<Rightarrow> bool" where
  "IsBranchInstruction w \<longleftrightarrow>
     (case inst_op w of
        Op_j \<Rightarrow> True | Op_jal \<Rightarrow> True | Op_b \<Rightarrow> True | Op_beq \<Rightarrow> True | Op_bgtz \<Rightarrow> True | Op_blez \<Rightarrow> True
      | Op_bne \<Rightarrow> True
      | Op_funct \<Rightarrow> (case inst_funct w of Fn_jr \<Rightarrow> True | Fn_jalr \<Rightarrow> True | _ \<Rightarrow> False)
      | _ \<Rightarrow> False)"

definition IsUnconditionalBranchInstruction :: "u32 \<Rightarrow> bool" where
  "IsUnconditionalBranchInstruction w \<longleftrightarrow>
     (case inst_op w of
        Op_j \<Rightarrow> True | Op_jal \<Rightarrow> True | Op_b \<Rightarrow> True
      | Op_beq \<Rightarrow> inst_rs w = reg_zero \<and> inst_rt w = reg_zero
      | Op_funct \<Rightarrow> (case inst_funct w of Fn_jr \<Rightarrow> True | Fn_jalr \<Rightarrow> True | _ \<Rightarrow> False)
      | _ \<Rightarrow> False)"

definition IsDirectBranchInstruction :: "u32 \<Rightarrow> bool" where
  "IsDirectBranchInstruction w \<longleftrightarrow>
     (case inst_op w of
        Op_j \<Rightarrow> True | Op_jal \<Rightarrow> True | Op_b \<Rightarrow> True | Op_beq \<Rightarrow> True | Op_bgtz \<Rightarrow> True | Op_blez \<Rightarrow> True
      | Op_bne \<Rightarrow> True
      | _ \<Rightarrow> False)"

definition GetDirectBranchTarget :: "u32 \<Rightarrow> u32 \<Rightarrow> u32" where
  "GetDirectBranchTarget w instruction_pc =
     (let pc = instruction_pc + 4; relative = pc + push_bit 2 (imm_sext32 w)
      in case inst_op w of
           Op_j \<Rightarrow> (pc AND 0xF0000000) OR push_bit 2 (inst_target w)
         | Op_jal \<Rightarrow> (pc AND 0xF0000000) OR push_bit 2 (inst_target w)
         | Op_b \<Rightarrow> relative | Op_beq \<Rightarrow> relative | Op_bgtz \<Rightarrow> relative | Op_blez \<Rightarrow> relative
         | Op_bne \<Rightarrow> relative
         | _ \<Rightarrow> pc)"

definition IsCallInstruction :: "u32 \<Rightarrow> bool" where
  "IsCallInstruction w \<longleftrightarrow> inst_op w = Op_funct \<and> inst_funct w = Fn_jalr \<or> inst_op w = Op_jal"

definition IsReturnInstruction :: "u32 \<Rightarrow> bool" where
  "IsReturnInstruction w \<longleftrightarrow>
     (if inst_op w \<noteq> Op_funct then False
      else if inst_funct w = Fn_jr \<or> inst_funct w = Fn_jalr then inst_rs w = reg_ra else False)"

definition IsMemoryLoadInstruction :: "u32 \<Rightarrow> bool" where
  "IsMemoryLoadInstruction w \<longleftrightarrow>
     (case inst_op w of
        Op_lb \<Rightarrow> True | Op_lh \<Rightarrow> True | Op_lw \<Rightarrow> True | Op_lbu \<Rightarrow> True | Op_lhu \<Rightarrow> True | Op_lwl \<Rightarrow> True
      | Op_lwr \<Rightarrow> True | Op_lwc2 \<Rightarrow> True
      | _ \<Rightarrow> False)"

definition IsMemoryStoreInstruction :: "u32 \<Rightarrow> bool" where
  "IsMemoryStoreInstruction w \<longleftrightarrow>
     (case inst_op w of
        Op_sb \<Rightarrow> True | Op_sh \<Rightarrow> True | Op_sw \<Rightarrow> True | Op_swl \<Rightarrow> True | Op_swr \<Rightarrow> True | Op_swc2 \<Rightarrow> True
      | _ \<Rightarrow> False)"

definition GetLoadStoreEffectiveAddress :: "u32 \<Rightarrow> 'a cpu_state_scheme \<Rightarrow> u32 option" where
  "GetLoadStoreEffectiveAddress w s =
     (let a = regs s ! inst_rs w + imm_sext32 w
      in case inst_op w of
           Op_lb \<Rightarrow> Some a | Op_lh \<Rightarrow> Some a | Op_lw \<Rightarrow> Some a | Op_lbu \<Rightarrow> Some a | Op_lhu \<Rightarrow> Some a
         | Op_lwc2 \<Rightarrow> Some a | Op_sb \<Rightarrow> Some a | Op_sh \<Rightarrow> Some a | Op_sw \<Rightarrow> Some a | Op_swc2 \<Rightarrow> Some a
         | Op_lwl \<Rightarrow> Some (a AND NOT 3) | Op_lwr \<Rightarrow> Some (a AND NOT 3)
         | Op_swl \<Rightarrow> Some (a AND NOT 3) | Op_swr \<Rightarrow> Some (a AND NOT 3)
         | _ \<Rightarrow> None)"

definition InstructionHasLoadDelay :: "u32 \<Rightarrow> bool" where
  "InstructionHasLoadDelay w \<longleftrightarrow>
     (let cop = (if IsCommonInstruction w then CommonOp w = Cop_cfcn \<or> CommonOp w = Cop_mfcn else False)
      in case inst_op w of
           Op_lb \<Rightarrow> True | Op_lh \<Rightarrow> True | Op_lw \<Rightarrow> True | Op_lbu \<Rightarrow> True | Op_lhu \<Rightarrow> True | Op_lwl \<Rightarrow> True
         | Op_lwr \<Rightarrow> True
         | Op_cop0 \<Rightarrow> cop | Op_cop2 \<Rightarrow> cop
         | _ \<Rightarrow> False)"

definition IsExitBlockInstruction :: "u32 \<Rightarrow> bool" where
  "IsExitBlockInstruction w \<longleftrightarrow>
     (case inst_op w of
        Op_funct \<Rightarrow> (case inst_funct w of Fn_syscall \<Rightarrow> True | Fn_break \<Rightarrow> True | _ \<Rightarrow> False)
      | _ \<Rightarrow> False)"

definition CanInstructionTrap :: "u32 \<Rightarrow> bool \<Rightarrow> bool" where
  "CanInstructionTrap w in_user_mode \<longleftrightarrow>
     (case inst_op w of
        Op_lui \<Rightarrow> False | Op_andi \<Rightarrow> False | Op_ori \<Rightarrow> False | Op_xori \<Rightarrow> False | Op_addiu \<Rightarrow> False
      | Op_slti \<Rightarrow> False | Op_sltiu \<Rightarrow> False
      | Op_cop0 \<Rightarrow> in_user_mode | Op_cop2 \<Rightarrow> in_user_mode | Op_lwc2 \<Rightarrow> in_user_mode | Op_swc2 \<Rightarrow> in_user_mode
      | Op_cop1 \<Rightarrow> False | Op_cop3 \<Rightarrow> False | Op_lwc0 \<Rightarrow> False | Op_lwc1 \<Rightarrow> False | Op_lwc3 \<Rightarrow> False
      | Op_swc0 \<Rightarrow> False | Op_swc1 \<Rightarrow> False | Op_swc3 \<Rightarrow> False
      | Op_addi \<Rightarrow> True | Op_lb \<Rightarrow> True | Op_lh \<Rightarrow> True | Op_lw \<Rightarrow> True | Op_lbu \<Rightarrow> True | Op_lhu \<Rightarrow> True
      | Op_lwl \<Rightarrow> True | Op_lwr \<Rightarrow> True | Op_sb \<Rightarrow> True | Op_sh \<Rightarrow> True | Op_sw \<Rightarrow> True | Op_swl \<Rightarrow> True
      | Op_swr \<Rightarrow> True
      | Op_j \<Rightarrow> False | Op_jal \<Rightarrow> False | Op_b \<Rightarrow> False | Op_beq \<Rightarrow> False | Op_bgtz \<Rightarrow> False
      | Op_blez \<Rightarrow> False | Op_bne \<Rightarrow> False
      | Op_funct \<Rightarrow>
          (case inst_funct w of
             Fn_sll \<Rightarrow> False | Fn_srl \<Rightarrow> False | Fn_sra \<Rightarrow> False | Fn_sllv \<Rightarrow> False | Fn_srlv \<Rightarrow> False
           | Fn_srav \<Rightarrow> False | Fn_and \<Rightarrow> False | Fn_or \<Rightarrow> False | Fn_xor \<Rightarrow> False | Fn_nor \<Rightarrow> False
           | Fn_addu \<Rightarrow> False | Fn_subu \<Rightarrow> False | Fn_slt \<Rightarrow> False | Fn_sltu \<Rightarrow> False | Fn_mfhi \<Rightarrow> False
           | Fn_mthi \<Rightarrow> False | Fn_mflo \<Rightarrow> False | Fn_mtlo \<Rightarrow> False | Fn_mult \<Rightarrow> False | Fn_multu \<Rightarrow> False
           | Fn_div \<Rightarrow> False | Fn_divu \<Rightarrow> False
           | _ \<Rightarrow> True)
      | _ \<Rightarrow> True)"

definition IsInvalidInstruction :: "u32 \<Rightarrow> bool" where
  "IsInvalidInstruction w \<longleftrightarrow> True"

end
