(* ===== verification/Gte.thy ===== *)
theory Gte
  imports BitField GteState
begin

text \<open>
  The view of the registers of the geometry transformation engine as halfwords, bytes and signed words
  (\<open>src/core/gte_types.h\<close>) and the operations that its commands share (\<open>src/core/gte.cpp\<close>): the
  accumulator checks, the saturating stores, the three FIFOs, the table-driven division and the
  register accesses of the CPU.
  Signed C++ integers are \<open>int\<close>: the 64-bit sums of the commands stay far below
  \<open>2 ^ 63\<close> (an operand is at most 44 bits and a product at most 33), and where the code converts to a
  narrower type the conversion is written out.
\<close>

subsection \<open>The registers\<close>

definition s16_lo :: "u32 \<Rightarrow> int" where
  "s16_lo w = sint (ucast w :: s16)"

definition s16_hi :: "u32 \<Rightarrow> int" where
  "s16_hi w = sint (ucast (drop_bit 16 w) :: s16)"

definition u16_lo :: "u32 \<Rightarrow> int" where
  "u16_lo w = uint (ucast w :: u16)"

definition byte_of :: "nat \<Rightarrow> u32 \<Rightarrow> int" where
  "byte_of k w = uint (ucast (drop_bit (8 * k) w) :: u8)"

text \<open>An \<open>int16_t\<close> array packed from register \<open>b\<close> on, a \<open>3 \<times> 3\<close> matrix of them, a vector of words.\<close>

definition gte_half :: "nat \<Rightarrow> gte_regs \<Rightarrow> nat \<Rightarrow> int" where
  "gte_half b r k = (if even k then s16_lo (r (b + k div 2)) else s16_hi (r (b + k div 2)))"

definition gte_matrix :: "nat \<Rightarrow> gte_regs \<Rightarrow> nat \<Rightarrow> nat \<Rightarrow> int" where
  "gte_matrix b r i j = gte_half b r (3 * i + j)"

definition gte_word :: "nat \<Rightarrow> gte_regs \<Rightarrow> nat \<Rightarrow> int" where
  "gte_word b r i = sint (r (b + i))"

abbreviation (input) reg_RT :: nat where "reg_RT \<equiv> 32"
abbreviation (input) reg_TR :: nat where "reg_TR \<equiv> 37"
abbreviation (input) reg_LLM :: nat where "reg_LLM \<equiv> 40"
abbreviation (input) reg_BK :: nat where "reg_BK \<equiv> 45"
abbreviation (input) reg_LCM :: nat where "reg_LCM \<equiv> 48"
abbreviation (input) reg_FC :: nat where "reg_FC \<equiv> 53"
abbreviation (input) reg_FLAG :: nat where "reg_FLAG \<equiv> 63"

definition V_of :: "nat \<Rightarrow> gte_regs \<Rightarrow> nat \<Rightarrow> int" where
  "V_of n r = gte_half (2 * n) r"

definition IR :: "nat \<Rightarrow> gte_regs \<Rightarrow> int" where
  "IR i r = s16_lo (r (8 + i))"

definition MAC :: "nat \<Rightarrow> gte_regs \<Rightarrow> int" where
  "MAC i r = sint (r (24 + i))"

definition SZ :: "nat \<Rightarrow> gte_regs \<Rightarrow> int" where
  "SZ i r = u16_lo (r (16 + i))"

subsection \<open>The flag register\<close>

definition raise_flag :: "nat \<Rightarrow> gte_regs \<Rightarrow> gte_regs" where
  "raise_flag n r = r(reg_FLAG := bf_set n 1 1 (r reg_FLAG))"

definition FLAG_Clear :: "gte_regs \<Rightarrow> gte_regs" where
  "FLAG_Clear r = r(reg_FLAG := 0)"

definition FLAG_UpdateError :: "gte_regs \<Rightarrow> gte_regs" where
  "FLAG_UpdateError r = r(reg_FLAG := bf_set 31 1 (of_bool (r reg_FLAG AND 0x7F87E000 \<noteq> 0)) (r reg_FLAG))"

definition mac_underflow_flag :: "nat \<Rightarrow> nat" where
  "mac_underflow_flag i = (if i = 0 then 15 else 28 - i)"

definition mac_overflow_flag :: "nat \<Rightarrow> nat" where
  "mac_overflow_flag i = (if i = 0 then 16 else 31 - i)"

definition ir_saturated_flag :: "nat \<Rightarrow> nat" where
  "ir_saturated_flag i = (if i = 0 then 12 else 25 - i)"

abbreviation (input) flag_color_r_saturated :: nat where "flag_color_r_saturated \<equiv> 21"
abbreviation (input) flag_sz1_otz_saturated :: nat where "flag_sz1_otz_saturated \<equiv> 18"
abbreviation (input) flag_divide_overflow :: nat where "flag_divide_overflow \<equiv> 17"
abbreviation (input) flag_sx2_saturated :: nat where "flag_sx2_saturated \<equiv> 14"
abbreviation (input) flag_sy2_saturated :: nat where "flag_sy2_saturated \<equiv> 13"

subsection \<open>Accumulators\<close>

definition MAC_MIN_VALUE :: "nat \<Rightarrow> int" where
  "MAC_MIN_VALUE i = (if i = 0 then - (2 ^ 31) else - (2 ^ 43))"

definition MAC_MAX_VALUE :: "nat \<Rightarrow> int" where
  "MAC_MAX_VALUE i = (if i = 0 then 2 ^ 31 - 1 else 2 ^ 43 - 1)"

definition CheckMACOverflow :: "nat \<Rightarrow> int \<Rightarrow> gte_regs \<Rightarrow> gte_regs" where
  "CheckMACOverflow i v r =
     (if v < MAC_MIN_VALUE i then raise_flag (mac_underflow_flag i) r
      else if MAC_MAX_VALUE i < v then raise_flag (mac_overflow_flag i) r
      else r)"

definition SignExtendMACResult :: "nat \<Rightarrow> int \<Rightarrow> gte_regs \<Rightarrow> int \<times> gte_regs" where
  "SignExtendMACResult i v r =
     (let shift = (if i = 0 then 33 else 20)
      in (sint (signed_drop_bit shift (push_bit shift (word_of_int v :: u64))), CheckMACOverflow i v r))"

definition TruncateAndSetMAC :: "nat \<Rightarrow> int \<Rightarrow> nat \<Rightarrow> gte_regs \<Rightarrow> gte_regs" where
  "TruncateAndSetMAC i v shift r = (CheckMACOverflow i v r)(24 + i := word_of_int (drop_bit shift v))"

definition IR_MIN_VALUE :: "nat \<Rightarrow> int" where
  "IR_MIN_VALUE i = (if i = 0 then 0 else - (2 ^ 15))"

definition IR_MAX_VALUE :: "nat \<Rightarrow> int" where
  "IR_MAX_VALUE i = (if i = 0 then 0x1000 else 2 ^ 15 - 1)"

definition TruncateAndSetIR :: "nat \<Rightarrow> int \<Rightarrow> bool \<Rightarrow> gte_regs \<Rightarrow> gte_regs" where
  "TruncateAndSetIR i v lm r =
     (let lo = (if lm then 0 else IR_MIN_VALUE i) in
      if v < lo then (raise_flag (ir_saturated_flag i) r)(8 + i := word_of_int lo)
      else if IR_MAX_VALUE i < v then (raise_flag (ir_saturated_flag i) r)(8 + i := word_of_int (IR_MAX_VALUE i))
      else r(8 + i := word_of_int v))"

definition TruncateAndSetMACAndIR :: "nat \<Rightarrow> int \<Rightarrow> nat \<Rightarrow> bool \<Rightarrow> gte_regs \<Rightarrow> gte_regs" where
  "TruncateAndSetMACAndIR i v shift lm r =
     (let r1 = CheckMACOverflow i v r;
          v32 = wrap_s32 (drop_bit shift v)
      in TruncateAndSetIR i v32 lm (r1(24 + i := word_of_int v32)))"

subsection \<open>Colours and the FIFOs\<close>

definition TruncateRGB :: "nat \<Rightarrow> int \<Rightarrow> gte_regs \<Rightarrow> u32 \<times> gte_regs" where
  "TruncateRGB i v r =
     (if v < 0 \<or> 0xFF < v
      then (if v < 0 then 0 else 0xFF, raise_flag (flag_color_r_saturated - i) r)
      else (word_of_int v, r))"

definition SetOTZ :: "int \<Rightarrow> gte_regs \<Rightarrow> gte_regs" where
  "SetOTZ v r =
     (if v < 0 then (raise_flag flag_sz1_otz_saturated r)(7 := 0)
      else if 0xFFFF < v then (raise_flag flag_sz1_otz_saturated r)(7 := 0xFFFF)
      else r(7 := word_of_int v))"

definition PushSXY :: "int \<Rightarrow> int \<Rightarrow> gte_regs \<Rightarrow> gte_regs" where
  "PushSXY x y r =
     (let r1 = (if x < - 1024 \<or> 1023 < x then raise_flag flag_sx2_saturated r else r);
          x1 = (if x < - 1024 then - 1024 else if 1023 < x then 1023 else x);
          r2 = (if y < - 1024 \<or> 1023 < y then raise_flag flag_sy2_saturated r1 else r1);
          y1 = (if y < - 1024 then - 1024 else if 1023 < y then 1023 else y)
      in r2(12 := r2 13, 13 := r2 14,
            14 := (word_of_int x1 AND 0xFFFF) OR push_bit 16 (word_of_int y1)))"

definition PushSZ :: "int \<Rightarrow> gte_regs \<Rightarrow> gte_regs" where
  "PushSZ v r =
     (let r1 = (if v < 0 \<or> 0xFFFF < v then raise_flag flag_sz1_otz_saturated r else r);
          v1 = (if v < 0 then 0 else if 0xFFFF < v then 0xFFFF else v)
      in r1(16 := r1 17, 17 := r1 18, 18 := r1 19, 19 := word_of_int v1))"

definition PushRGBFromMAC :: "gte_regs \<Rightarrow> gte_regs" where
  "PushRGBFromMAC r =
     (let (red, r1) = TruncateRGB 0 (drop_bit 4 (MAC 1 r)) r;
          (green, r2) = TruncateRGB 1 (drop_bit 4 (MAC 2 r)) r1;
          (blue, r3) = TruncateRGB 2 (drop_bit 4 (MAC 3 r)) r2;
          c = word_of_int (byte_of 3 (r 6))
      in r3(20 := r3 21, 21 := r3 22,
            22 := red OR push_bit 8 green OR push_bit 16 blue OR push_bit 24 c))"

subsection \<open>The division\<close>

definition unr_table :: "int list" where
  "unr_table =
    [0xFF, 0xFD, 0xFB, 0xF9, 0xF7, 0xF5, 0xF3, 0xF1, 0xEF, 0xEE, 0xEC, 0xEA, 0xE8, 0xE6, 0xE4, 0xE3,
     0xE1, 0xDF, 0xDD, 0xDC, 0xDA, 0xD8, 0xD6, 0xD5, 0xD3, 0xD1, 0xD0, 0xCE, 0xCD, 0xCB, 0xC9, 0xC8,
     0xC6, 0xC5, 0xC3, 0xC1, 0xC0, 0xBE, 0xBD, 0xBB, 0xBA, 0xB8, 0xB7, 0xB5, 0xB4, 0xB2, 0xB1, 0xB0,
     0xAE, 0xAD, 0xAB, 0xAA, 0xA9, 0xA7, 0xA6, 0xA4, 0xA3, 0xA2, 0xA0, 0x9F, 0x9E, 0x9C, 0x9B, 0x9A,
     0x99, 0x97, 0x96, 0x95, 0x94, 0x92, 0x91, 0x90, 0x8F, 0x8D, 0x8C, 0x8B, 0x8A, 0x89, 0x87, 0x86,
     0x85, 0x84, 0x83, 0x82, 0x81, 0x7F, 0x7E, 0x7D, 0x7C, 0x7B, 0x7A, 0x79, 0x78, 0x77, 0x75, 0x74,
     0x73, 0x72, 0x71, 0x70, 0x6F, 0x6E, 0x6D, 0x6C, 0x6B, 0x6A, 0x69, 0x68, 0x67, 0x66, 0x65, 0x64,
     0x63, 0x62, 0x61, 0x60, 0x5F, 0x5E, 0x5D, 0x5D, 0x5C, 0x5B, 0x5A, 0x59, 0x58, 0x57, 0x56, 0x55,
     0x54, 0x53, 0x53, 0x52, 0x51, 0x50, 0x4F, 0x4E, 0x4D, 0x4D, 0x4C, 0x4B, 0x4A, 0x49, 0x48, 0x48,
     0x47, 0x46, 0x45, 0x44, 0x43, 0x43, 0x42, 0x41, 0x40, 0x3F, 0x3F, 0x3E, 0x3D, 0x3C, 0x3C, 0x3B,
     0x3A, 0x39, 0x39, 0x38, 0x37, 0x36, 0x36, 0x35, 0x34, 0x33, 0x33, 0x32, 0x31, 0x31, 0x30, 0x2F,
     0x2E, 0x2E, 0x2D, 0x2C, 0x2C, 0x2B, 0x2A, 0x2A, 0x29, 0x28, 0x28, 0x27, 0x26, 0x26, 0x25, 0x24,
     0x24, 0x23, 0x22, 0x22, 0x21, 0x20, 0x20, 0x1F, 0x1E, 0x1E, 0x1D, 0x1D, 0x1C, 0x1B, 0x1B, 0x1A,
     0x19, 0x19, 0x18, 0x18, 0x17, 0x16, 0x16, 0x15, 0x15, 0x14, 0x14, 0x13, 0x12, 0x12, 0x11, 0x11,
     0x10, 0x0F, 0x0F, 0x0E, 0x0E, 0x0D, 0x0D, 0x0C, 0x0C, 0x0B, 0x0A, 0x0A, 0x09, 0x09, 0x08, 0x08,
     0x07, 0x07, 0x06, 0x06, 0x05, 0x05, 0x04, 0x04, 0x03, 0x03, 0x02, 0x02, 0x01, 0x01, 0x00, 0x00,
     0x00]"

definition unr_factor :: "u32 \<Rightarrow> int" where
  "unr_factor divisor = 0x101 + unr_table ! unat (drop_bit 7 ((divisor AND 0x7FFF) + 0x40))"

definition unr_recip :: "u32 \<Rightarrow> u32" where
  "unr_recip divisor =
     (let x = unr_factor divisor;
          d = drop_bit 8 (sint divisor * (- x) + 0x80)
      in word_of_int (drop_bit 8 (x * (0x20000 + d) + 0x80)))"

definition UNRDivide :: "u32 \<Rightarrow> u32 \<Rightarrow> gte_regs \<Rightarrow> u32 \<times> gte_regs" where
  "UNRDivide lhs rhs r =
     (if rhs * 2 \<le> lhs then (0x1FFFF, raise_flag flag_divide_overflow r)
      else
        (let shift = (if rhs = 0 then 16 else CountLeadingZeros (ucast rhs :: u16));
             lhs1 = push_bit shift lhs;
             rhs1 = push_bit shift rhs;
             recip = unr_recip (rhs1 OR 0x8000);
             result = ucast (drop_bit 16 ((ucast lhs1 :: u64) * ucast recip + 0x8000))
         in (min 0x1FFFF result, r)))"

subsection \<open>Register accesses of the CPU\<close>

definition CountLeadingBits :: "u32 \<Rightarrow> nat" where
  "CountLeadingBits value =
     (let v = (if value AND 0x80000000 \<noteq> 0 then value XOR 0xFFFFFFFF else value)
      in if v = 0 then 32 else CountLeadingZeros v)"

definition GTE_Reset :: gte_regs where
  "GTE_Reset = (\<lambda>_. 0)"

definition orgb_field :: "int \<Rightarrow> u32" where
  "orgb_field ir = word_of_int (clamp (cdiv ir 0x80) 0 0x1F)"

definition GTE_ReadRegister :: "nat \<Rightarrow> gte_regs \<Rightarrow> u32" where
  "GTE_ReadRegister i r =
     (if i = 15 then r 14
      else if i = 28 \<or> i = 29
      then orgb_field (IR 1 r) OR push_bit 5 (orgb_field (IR 2 r)) OR push_bit 10 (orgb_field (IR 3 r))
      else r i)"

definition sign_extend16 :: "u32 \<Rightarrow> u32" where
  "sign_extend16 v = scast (ucast v :: s16)"

definition zero_extend16 :: "u32 \<Rightarrow> u32" where
  "zero_extend16 v = ucast (ucast v :: u16)"

definition s16_registers :: "nat list" where
  "s16_registers = [1, 3, 5, 8, 9, 10, 11, 36, 44, 52, 58, 59, 61, 62]"

definition u16_registers :: "nat list" where
  "u16_registers = [7, 16, 17, 18, 19]"

definition GTE_WriteRegister :: "nat \<Rightarrow> u32 \<Rightarrow> gte_regs \<Rightarrow> gte_regs" where
  "GTE_WriteRegister i v r =
     (if i \<in> set s16_registers then r(i := sign_extend16 v)
      else if i \<in> set u16_registers then r(i := zero_extend16 v)
      else if i = 15 then r(12 := r 13, 13 := r 14, 14 := v)
      else if i = 28 then
        r(28 := v AND 0x7FFF,
          9 := sign_extend16 ((v AND 0x1F) * 0x80),
          10 := sign_extend16 ((drop_bit 5 v AND 0x1F) * 0x80),
          11 := sign_extend16 ((drop_bit 10 v AND 0x1F) * 0x80))
      else if i = 30 then r(30 := v, 31 := of_nat (CountLeadingBits v))
      else if i = 29 \<or> i = 31 then r
      else if i = reg_FLAG then FLAG_UpdateError (r(reg_FLAG := v AND 0x7FFFF000))
      else r(i := v))"

end
