(* ===== verification/GteCommands.thy ===== *)
theory GteCommands
  imports Gte CpuState
begin

text \<open>
  The commands of the geometry transformation engine (\<open>src/core/gte.cpp\<close>), each a function on its
  registers, and the two tables that select them, \<open>ExecuteInstruction\<close> for the interpreter and
  \<open>GetInstructionImpl\<close> for the recompiler. The model has PGXP disabled, so that \<open>RTPS\<close> ends before
  its floating-point copy of the vertex and \<open>NCLIP\<close> has one version.

  The code passes matrices and vectors as pointers into the registers. The command only writes the
  registers from 6 to 31 and \<open>FLAG\<close> while it reads through these pointers, and none of them points
  there, so that the arrays are passed by value here.
\<close>

subsection \<open>The instruction word\<close>

definition gte_command :: "u32 \<Rightarrow> nat" where
  "gte_command w = unat (bf_get 0 6 w)"

definition gte_sf :: "u32 \<Rightarrow> bool" where
  "gte_sf w \<longleftrightarrow> bf_get 19 1 w \<noteq> 0"

definition gte_lm :: "u32 \<Rightarrow> bool" where
  "gte_lm w = bf_get_bool 10 1 w"

definition mvmva_multiply_matrix :: "u32 \<Rightarrow> nat" where
  "mvmva_multiply_matrix w = unat (bf_get 17 2 w)"

definition mvmva_multiply_vector :: "u32 \<Rightarrow> nat" where
  "mvmva_multiply_vector w = unat (bf_get 15 2 w)"

definition mvmva_translation_vector :: "u32 \<Rightarrow> nat" where
  "mvmva_translation_vector w = unat (bf_get 13 2 w)"

definition GetShift :: "u32 \<Rightarrow> nat" where
  "GetShift w = (if gte_sf w then 12 else 0)"

definition REQUIRED_BITS_MASK :: u32 where
  "REQUIRED_BITS_MASK = 2 ^ 20 - 1"

subsection \<open>Matrix times vector\<close>

text \<open>The three macros \<open>dot3\<close>: without a translation, with one, and the one of the buggy \<open>MVMVA\<close>.\<close>

definition dot3 :: "(nat \<Rightarrow> nat \<Rightarrow> int) \<Rightarrow> (nat \<Rightarrow> int) \<Rightarrow> nat \<Rightarrow> gte_regs \<Rightarrow> int \<times> gte_regs" where
  "dot3 M V i r =
     (let (a, r1) = SignExtendMACResult (i + 1) (M i 0 * V 0 + M i 1 * V 1) r
      in (a + M i 2 * V 2, r1))"

definition dot3_translated ::
    "(nat \<Rightarrow> nat \<Rightarrow> int) \<Rightarrow> (nat \<Rightarrow> int) \<Rightarrow> (nat \<Rightarrow> int) \<Rightarrow> nat \<Rightarrow> gte_regs \<Rightarrow> int \<times> gte_regs" where
  "dot3_translated M T V i r =
     (let (a, r1) = SignExtendMACResult (i + 1) (push_bit 12 (T i) + M i 0 * V 0) r;
          (b, r2) = SignExtendMACResult (i + 1) (a + M i 1 * V 1) r1
      in (b + M i 2 * V 2, r2))"

definition MulMatVec_row :: "(nat \<Rightarrow> nat \<Rightarrow> int) \<Rightarrow> (nat \<Rightarrow> int) \<Rightarrow> nat \<Rightarrow> bool \<Rightarrow> nat \<Rightarrow> gte_regs \<Rightarrow> gte_regs" where
  "MulMatVec_row M V shift lm i r =
     (let (v, r1) = dot3 M V i r in TruncateAndSetMACAndIR (i + 1) v shift lm r1)"

definition MulMatVec :: "(nat \<Rightarrow> nat \<Rightarrow> int) \<Rightarrow> (nat \<Rightarrow> int) \<Rightarrow> nat \<Rightarrow> bool \<Rightarrow> gte_regs \<Rightarrow> gte_regs" where
  "MulMatVec M V shift lm r =
     MulMatVec_row M V shift lm 2 (MulMatVec_row M V shift lm 1 (MulMatVec_row M V shift lm 0 r))"

definition MulMatVecT_row ::
    "(nat \<Rightarrow> nat \<Rightarrow> int) \<Rightarrow> (nat \<Rightarrow> int) \<Rightarrow> (nat \<Rightarrow> int) \<Rightarrow> nat \<Rightarrow> bool \<Rightarrow> nat \<Rightarrow> gte_regs \<Rightarrow> gte_regs" where
  "MulMatVecT_row M T V shift lm i r =
     (let (v, r1) = dot3_translated M T V i r in TruncateAndSetMACAndIR (i + 1) v shift lm r1)"

definition MulMatVecT ::
    "(nat \<Rightarrow> nat \<Rightarrow> int) \<Rightarrow> (nat \<Rightarrow> int) \<Rightarrow> (nat \<Rightarrow> int) \<Rightarrow> nat \<Rightarrow> bool \<Rightarrow> gte_regs \<Rightarrow> gte_regs" where
  "MulMatVecT M T V shift lm r =
     MulMatVecT_row M T V shift lm 2 (MulMatVecT_row M T V shift lm 1 (MulMatVecT_row M T V shift lm 0 r))"

definition MulMatVecBuggy_row ::
    "(nat \<Rightarrow> nat \<Rightarrow> int) \<Rightarrow> (nat \<Rightarrow> int) \<Rightarrow> (nat \<Rightarrow> int) \<Rightarrow> nat \<Rightarrow> bool \<Rightarrow> nat \<Rightarrow> gte_regs \<Rightarrow> gte_regs" where
  "MulMatVecBuggy_row M T V shift lm i r =
     (let (a, r1) = SignExtendMACResult (i + 1) (push_bit 12 (T i) + M i 0 * V 0) r;
          (b, r2) = SignExtendMACResult (i + 1) a r1;
          r3 = TruncateAndSetIR (i + 1) (wrap_s32 (drop_bit shift b)) False r2;
          (c, r4) = SignExtendMACResult (i + 1) (M i 1 * V 1) r3
      in TruncateAndSetMACAndIR (i + 1) (c + M i 2 * V 2) shift lm r4)"

definition MulMatVecBuggy ::
    "(nat \<Rightarrow> nat \<Rightarrow> int) \<Rightarrow> (nat \<Rightarrow> int) \<Rightarrow> (nat \<Rightarrow> int) \<Rightarrow> nat \<Rightarrow> bool \<Rightarrow> gte_regs \<Rightarrow> gte_regs" where
  "MulMatVecBuggy M T V shift lm r =
     MulMatVecBuggy_row M T V shift lm 2
       (MulMatVecBuggy_row M T V shift lm 1 (MulMatVecBuggy_row M T V shift lm 0 r))"

text \<open>
  The third vector of the matrix selector reads registers that are no matrix, as the hardware does;
  the translation vector 2 drops the translation from the result, and the vector 3 is zero.
\<close>

definition mvmva_matrix :: "u32 \<Rightarrow> gte_regs \<Rightarrow> nat \<Rightarrow> nat \<Rightarrow> int" where
  "mvmva_matrix w r i j =
     (let m = mvmva_multiply_matrix w in
      if m = 0 then gte_matrix reg_RT r i j
      else if m = 1 then gte_matrix reg_LLM r i j
      else if m = 2 then gte_matrix reg_LCM r i j
      else if i = 0 then
        (if j = 0 then - wrap_s16 (push_bit 4 (byte_of 0 (r 6)))
         else if j = 1 then wrap_s16 (push_bit 4 (byte_of 0 (r 6)))
         else IR 0 r)
      else if i = 1 then gte_matrix reg_RT r 0 2
      else gte_matrix reg_RT r 1 1)"

definition IR_vector :: "gte_regs \<Rightarrow> nat \<Rightarrow> int" where
  "IR_vector r j = IR (j + 1) r"

definition mvmva_vector :: "u32 \<Rightarrow> gte_regs \<Rightarrow> nat \<Rightarrow> int" where
  "mvmva_vector w r =
     (let v = mvmva_multiply_vector w in if v < 3 then V_of v r else IR_vector r)"

definition Execute_MVMVA :: "u32 \<Rightarrow> gte_regs \<Rightarrow> gte_regs" where
  "Execute_MVMVA w r0 =
     (let r = FLAG_Clear r0;
          M = mvmva_matrix w r;
          V = mvmva_vector w r;
          t = mvmva_translation_vector w;
          shift = GetShift w;
          lm = gte_lm w
      in FLAG_UpdateError
           (if t = 0 then MulMatVecT M (gte_word reg_TR r) V shift lm r
            else if t = 1 then MulMatVecT M (gte_word reg_BK r) V shift lm r
            else if t = 2 then MulMatVecBuggy M (gte_word reg_FC r) V shift lm r
            else MulMatVecT M (\<lambda>_. 0) V shift lm r))"

subsection \<open>Squares and outer product\<close>

definition Execute_SQR :: "u32 \<Rightarrow> gte_regs \<Rightarrow> gte_regs" where
  "Execute_SQR w r0 =
     (let r = FLAG_Clear r0;
          shift = GetShift w;
          lm = gte_lm w;
          r1 = r(25 := word_of_int (drop_bit shift (IR 1 r * IR 1 r)));
          r2 = r1(26 := word_of_int (drop_bit shift (IR 2 r1 * IR 2 r1)));
          r3 = r2(27 := word_of_int (drop_bit shift (IR 3 r2 * IR 3 r2)));
          r4 = TruncateAndSetIR 1 (MAC 1 r3) lm r3;
          r5 = TruncateAndSetIR 2 (MAC 2 r4) lm r4
      in FLAG_UpdateError (TruncateAndSetIR 3 (MAC 3 r5) lm r5))"

definition Execute_OP :: "u32 \<Rightarrow> gte_regs \<Rightarrow> gte_regs" where
  "Execute_OP w r0 =
     (let r = FLAG_Clear r0;
          shift = GetShift w;
          lm = gte_lm w;
          D1 = gte_matrix reg_RT r 0 0; D2 = gte_matrix reg_RT r 1 1; D3 = gte_matrix reg_RT r 2 2;
          IR1 = IR 1 r; IR2 = IR 2 r; IR3 = IR 3 r;
          r1 = TruncateAndSetMACAndIR 1 (IR3 * D2 - IR2 * D3) shift lm r;
          r2 = TruncateAndSetMACAndIR 2 (IR1 * D3 - IR3 * D1) shift lm r1
      in FLAG_UpdateError (TruncateAndSetMACAndIR 3 (IR2 * D1 - IR1 * D2) shift lm r2))"

subsection \<open>Perspective transformation\<close>

text \<open>
  The settings that \<open>UpdateAspectRatio\<close> reads: the widescreen hack, the selected ratio, the
  size of the window when there is a display, and the custom ratio. \<open>None\<close> is the division by zero
  of a ratio whose two terms are zero.
\<close>

record aspect_settings =
  gpu_widescreen_hack :: bool
  display_aspect_ratio :: DisplayAspectRatio
  window_size :: "(u32 \<times> u32) option"
  custom_ratio :: "u16 \<times> u16"

definition set_custom_ratio :: "DisplayAspectRatio \<Rightarrow> u32 \<Rightarrow> u32 \<Rightarrow> aspect_ratio \<Rightarrow> aspect_ratio option" where
  "set_custom_ratio ar num denom a =
     (let x = 4 * denom;
          y = 3 * num;
          g = word_of_nat (gcd (unat x) (unat y)) :: u32
      in if g = 0 then None
         else Some (a\<lparr>s_aspect_ratio := ar, s_custom_aspect_ratio_numerator := x div g,
                      s_custom_aspect_ratio_denominator := y div g\<rparr>))"

definition UpdateAspectRatio :: "aspect_settings \<Rightarrow> aspect_ratio \<Rightarrow> aspect_ratio option" where
  "UpdateAspectRatio g a =
     (if \<not> gpu_widescreen_hack g then Some (a\<lparr>s_aspect_ratio := R_4_3\<rparr>)
      else
        (case display_aspect_ratio g of
           R_MatchWindow \<Rightarrow>
             (case window_size g of
                None \<Rightarrow> Some (a\<lparr>s_aspect_ratio := R_4_3\<rparr>)
              | Some (width, height) \<Rightarrow> set_custom_ratio R_MatchWindow width height a)
         | R_Custom \<Rightarrow> set_custom_ratio R_Custom (ucast (fst (custom_ratio g))) (ucast (snd (custom_ratio g))) a
         | ar \<Rightarrow> Some (a\<lparr>s_aspect_ratio := ar\<rparr>)))"

text \<open>
  The horizontal screen coordinate before it is cut to 16 bits. \<open>cdiv\<close> is the division of C++; the
  product with the custom numerator fits 64 bits for the ratios that \<open>UpdateAspectRatio\<close> makes from 16-bit terms.
\<close>

definition screen_x :: "aspect_ratio \<Rightarrow> int \<Rightarrow> gte_regs \<Rightarrow> int" where
  "screen_x a q r =
     (case s_aspect_ratio a of
        R_16_9 \<Rightarrow> cdiv (q * IR 1 r * 3) 4 + gte_word 56 r 0
      | R_19_9 \<Rightarrow> cdiv (q * IR 1 r * 12) 19 + gte_word 56 r 0
      | R_20_9 \<Rightarrow> cdiv (q * IR 1 r * 3) 5 + gte_word 56 r 0
      | R_Custom \<Rightarrow>
          cdiv (q * IR 1 r * uint (s_custom_aspect_ratio_numerator a)) (uint (s_custom_aspect_ratio_denominator a))
            + gte_word 56 r 0
      | R_MatchWindow \<Rightarrow>
          cdiv (q * IR 1 r * uint (s_custom_aspect_ratio_numerator a)) (uint (s_custom_aspect_ratio_denominator a))
            + gte_word 56 r 0
      | _ \<Rightarrow> q * IR 1 r + gte_word 56 r 0)"

definition screen_y :: "int \<Rightarrow> gte_regs \<Rightarrow> int" where
  "screen_y q r = q * IR 2 r + gte_word 57 r 0"

text \<open>The three parts of \<open>RTPS\<close>: the rotation, the projection, and depth cueing after the last vertex.\<close>

definition rtps_rotate :: "(nat \<Rightarrow> int) \<Rightarrow> nat \<Rightarrow> bool \<Rightarrow> gte_regs \<Rightarrow> int \<times> gte_regs" where
  "rtps_rotate V shift lm r =
     (let M = gte_matrix reg_RT r; T = gte_word reg_TR r;
          (x, r1) = dot3_translated M T V 0 r;
          (y, r2) = dot3_translated M T V 1 r1;
          (z, r3) = dot3_translated M T V 2 r2;
          r4 = TruncateAndSetMAC 1 x shift r3;
          r5 = TruncateAndSetMAC 2 y shift r4;
          r6 = TruncateAndSetMAC 3 z shift r5;
          r7 = TruncateAndSetIR 1 (MAC 1 r6) lm r6;
          r8 = TruncateAndSetIR 2 (MAC 2 r7) lm r7;
          r9 = TruncateAndSetIR 3 (wrap_s32 (drop_bit 12 z)) False r8;
          r10 = r9(11 := word_of_int (clamp (MAC 3 r9) (if lm then 0 else IR_MIN_VALUE 3) (IR_MAX_VALUE 3)))
      in (z, r10))"

definition rtps_project :: "aspect_ratio \<Rightarrow> int \<Rightarrow> gte_regs \<Rightarrow> int \<times> gte_regs" where
  "rtps_project a z r =
     (let r1 = PushSZ (wrap_s32 (drop_bit 12 z)) r;
          (q, r2) = UNRDivide (zero_extend16 (r1 58)) (zero_extend16 (r1 19)) r1;
          result = uint q;
          Sx = screen_x a result r2;
          Sy = screen_y result r2;
          r3 = CheckMACOverflow 0 Sx r2;
          r4 = CheckMACOverflow 0 Sy r3
      in (result, PushSXY (wrap_s32 (drop_bit 16 Sx)) (wrap_s32 (drop_bit 16 Sy)) r4))"

definition rtps_depth :: "int \<Rightarrow> gte_regs \<Rightarrow> gte_regs" where
  "rtps_depth q r =
     (let Sz = q * s16_lo (r 59) + gte_word 60 r 0;
          r1 = TruncateAndSetMAC 0 Sz 0 r
      in TruncateAndSetIR 0 (wrap_s32 (drop_bit 12 Sz)) True r1)"

definition RTPS :: "aspect_ratio \<Rightarrow> (nat \<Rightarrow> int) \<Rightarrow> nat \<Rightarrow> bool \<Rightarrow> bool \<Rightarrow> gte_regs \<Rightarrow> gte_regs" where
  "RTPS a V shift lm is_last r =
     (let (z, r1) = rtps_rotate V shift lm r;
          (q, r2) = rtps_project a z r1
      in if is_last then rtps_depth q r2 else r2)"

definition Execute_RTPS :: "aspect_ratio \<Rightarrow> u32 \<Rightarrow> gte_regs \<Rightarrow> gte_regs" where
  "Execute_RTPS a w r0 =
     (let r = FLAG_Clear r0
      in FLAG_UpdateError (RTPS a (V_of 0 r) (GetShift w) (gte_lm w) True r))"

definition Execute_RTPT :: "aspect_ratio \<Rightarrow> u32 \<Rightarrow> gte_regs \<Rightarrow> gte_regs" where
  "Execute_RTPT a w r0 =
     (let r = FLAG_Clear r0; shift = GetShift w; lm = gte_lm w;
          r1 = RTPS a (V_of 0 r) shift lm False r;
          r2 = RTPS a (V_of 1 r1) shift lm False r1
      in FLAG_UpdateError (RTPS a (V_of 2 r2) shift lm True r2))"

subsection \<open>Winding and average depth\<close>

definition Execute_NCLIP :: "u32 \<Rightarrow> gte_regs \<Rightarrow> gte_regs" where
  "Execute_NCLIP w r0 =
     (let r = FLAG_Clear r0 in
      FLAG_UpdateError
        (TruncateAndSetMAC 0
          (s16_lo (r 12) * s16_hi (r 13) + s16_lo (r 13) * s16_hi (r 14) +
           s16_lo (r 14) * s16_hi (r 12) - s16_lo (r 12) * s16_hi (r 14) -
           s16_lo (r 13) * s16_hi (r 12) - s16_lo (r 14) * s16_hi (r 13)) 0 r))"

definition Execute_AVSZ3 :: "u32 \<Rightarrow> gte_regs \<Rightarrow> gte_regs" where
  "Execute_AVSZ3 w r0 =
     (let r = FLAG_Clear r0;
          result = s16_lo (r 61) * (SZ 1 r + SZ 2 r + SZ 3 r);
          r1 = TruncateAndSetMAC 0 result 0 r
      in FLAG_UpdateError (SetOTZ (wrap_s32 (drop_bit 12 result)) r1))"

definition Execute_AVSZ4 :: "u32 \<Rightarrow> gte_regs \<Rightarrow> gte_regs" where
  "Execute_AVSZ4 w r0 =
     (let r = FLAG_Clear r0;
          result = s16_lo (r 62) * (SZ 0 r + SZ 1 r + SZ 2 r + SZ 3 r);
          r1 = TruncateAndSetMAC 0 result 0 r
      in FLAG_UpdateError (SetOTZ (wrap_s32 (drop_bit 12 result)) r1))"

subsection \<open>Colours\<close>

definition InterpolateColor :: "int \<Rightarrow> int \<Rightarrow> int \<Rightarrow> nat \<Rightarrow> bool \<Rightarrow> gte_regs \<Rightarrow> gte_regs" where
  "InterpolateColor in_MAC1 in_MAC2 in_MAC3 shift lm r =
     (let r1 = TruncateAndSetMACAndIR 1 (push_bit 12 (gte_word reg_FC r 0) - in_MAC1) shift False r;
          r2 = TruncateAndSetMACAndIR 2 (push_bit 12 (gte_word reg_FC r1 1) - in_MAC2) shift False r1;
          r3 = TruncateAndSetMACAndIR 3 (push_bit 12 (gte_word reg_FC r2 2) - in_MAC3) shift False r2;
          r4 = TruncateAndSetMACAndIR 1 (IR 1 r3 * IR 0 r3 + in_MAC1) shift lm r3;
          r5 = TruncateAndSetMACAndIR 2 (IR 2 r4 * IR 0 r4 + in_MAC2) shift lm r4
      in TruncateAndSetMACAndIR 3 (IR 3 r5 * IR 0 r5 + in_MAC3) shift lm r5)"

text \<open>The colour of a component of the vertex times the interpolated light, \<open>RGBC[k] * IR\<close>, shifted by 4.\<close>

definition lit_color :: "nat \<Rightarrow> gte_regs \<Rightarrow> int" where
  "lit_color k r = push_bit 4 (byte_of k (r 6) * IR (k + 1) r)"

definition light_color :: "nat \<Rightarrow> bool \<Rightarrow> gte_regs \<Rightarrow> gte_regs" where
  "light_color shift lm r =
     (let r1 = TruncateAndSetMACAndIR 1 (lit_color 0 r) shift lm r;
          r2 = TruncateAndSetMACAndIR 2 (lit_color 1 r1) shift lm r1
      in TruncateAndSetMACAndIR 3 (lit_color 2 r2) shift lm r2)"

definition light_background :: "nat \<Rightarrow> bool \<Rightarrow> gte_regs \<Rightarrow> gte_regs" where
  "light_background shift lm r =
     MulMatVecT (gte_matrix reg_LCM r) (gte_word reg_BK r) (IR_vector r) shift lm r"

definition light_vertex :: "(nat \<Rightarrow> int) \<Rightarrow> nat \<Rightarrow> bool \<Rightarrow> gte_regs \<Rightarrow> gte_regs" where
  "light_vertex V shift lm r =
     light_background shift lm (MulMatVec (gte_matrix reg_LLM r) V shift lm r)"

definition NCS :: "(nat \<Rightarrow> int) \<Rightarrow> nat \<Rightarrow> bool \<Rightarrow> gte_regs \<Rightarrow> gte_regs" where
  "NCS V shift lm r = PushRGBFromMAC (light_vertex V shift lm r)"

definition NCCS :: "(nat \<Rightarrow> int) \<Rightarrow> nat \<Rightarrow> bool \<Rightarrow> gte_regs \<Rightarrow> gte_regs" where
  "NCCS V shift lm r = PushRGBFromMAC (light_color shift lm (light_vertex V shift lm r))"

definition interpolate_lit_color :: "nat \<Rightarrow> bool \<Rightarrow> gte_regs \<Rightarrow> gte_regs" where
  "interpolate_lit_color shift lm r =
     InterpolateColor (lit_color 0 r) (lit_color 1 r) (lit_color 2 r) shift lm r"

definition NCDS :: "(nat \<Rightarrow> int) \<Rightarrow> nat \<Rightarrow> bool \<Rightarrow> gte_regs \<Rightarrow> gte_regs" where
  "NCDS V shift lm r = PushRGBFromMAC (interpolate_lit_color shift lm (light_vertex V shift lm r))"

text \<open>The commands for one vertex, and for the three vertices one after the other.\<close>

definition once :: "((nat \<Rightarrow> int) \<Rightarrow> nat \<Rightarrow> bool \<Rightarrow> gte_regs \<Rightarrow> gte_regs) \<Rightarrow> u32 \<Rightarrow> gte_regs \<Rightarrow> gte_regs" where
  "once op w r0 =
     (let r = FLAG_Clear r0 in FLAG_UpdateError (op (V_of 0 r) (GetShift w) (gte_lm w) r))"

definition thrice :: "((nat \<Rightarrow> int) \<Rightarrow> nat \<Rightarrow> bool \<Rightarrow> gte_regs \<Rightarrow> gte_regs) \<Rightarrow> u32 \<Rightarrow> gte_regs \<Rightarrow> gte_regs" where
  "thrice op w r0 =
     (let r = FLAG_Clear r0; shift = GetShift w; lm = gte_lm w;
          r1 = op (V_of 0 r) shift lm r;
          r2 = op (V_of 1 r1) shift lm r1
      in FLAG_UpdateError (op (V_of 2 r2) shift lm r2))"

definition Execute_NCS :: "u32 \<Rightarrow> gte_regs \<Rightarrow> gte_regs" where "Execute_NCS = once NCS"
definition Execute_NCT :: "u32 \<Rightarrow> gte_regs \<Rightarrow> gte_regs" where "Execute_NCT = thrice NCS"
definition Execute_NCCS :: "u32 \<Rightarrow> gte_regs \<Rightarrow> gte_regs" where "Execute_NCCS = once NCCS"
definition Execute_NCCT :: "u32 \<Rightarrow> gte_regs \<Rightarrow> gte_regs" where "Execute_NCCT = thrice NCCS"
definition Execute_NCDS :: "u32 \<Rightarrow> gte_regs \<Rightarrow> gte_regs" where "Execute_NCDS = once NCDS"
definition Execute_NCDT :: "u32 \<Rightarrow> gte_regs \<Rightarrow> gte_regs" where "Execute_NCDT = thrice NCDS"

definition Execute_CC :: "u32 \<Rightarrow> gte_regs \<Rightarrow> gte_regs" where
  "Execute_CC w r0 =
     (let r = FLAG_Clear r0; shift = GetShift w; lm = gte_lm w
      in FLAG_UpdateError (PushRGBFromMAC (light_color shift lm (light_background shift lm r))))"

definition Execute_CDP :: "u32 \<Rightarrow> gte_regs \<Rightarrow> gte_regs" where
  "Execute_CDP w r0 =
     (let r = FLAG_Clear r0; shift = GetShift w; lm = gte_lm w
      in FLAG_UpdateError (PushRGBFromMAC (interpolate_lit_color shift lm (light_background shift lm r))))"

definition DPCS :: "u32 \<Rightarrow> nat \<Rightarrow> bool \<Rightarrow> gte_regs \<Rightarrow> gte_regs" where
  "DPCS color shift lm r =
     (let r1 = TruncateAndSetMAC 1 (push_bit 16 (byte_of 0 color)) 0 r;
          r2 = TruncateAndSetMAC 2 (push_bit 16 (byte_of 1 color)) 0 r1;
          r3 = TruncateAndSetMAC 3 (push_bit 16 (byte_of 2 color)) 0 r2
      in PushRGBFromMAC (InterpolateColor (MAC 1 r3) (MAC 2 r3) (MAC 3 r3) shift lm r3))"

definition Execute_DPCS :: "u32 \<Rightarrow> gte_regs \<Rightarrow> gte_regs" where
  "Execute_DPCS w r0 =
     (let r = FLAG_Clear r0 in FLAG_UpdateError (DPCS (r 6) (GetShift w) (gte_lm w) r))"

definition Execute_DPCT :: "u32 \<Rightarrow> gte_regs \<Rightarrow> gte_regs" where
  "Execute_DPCT w r0 =
     (let r = FLAG_Clear r0; shift = GetShift w; lm = gte_lm w;
          r1 = DPCS (r 20) shift lm r;
          r2 = DPCS (r1 20) shift lm r1
      in FLAG_UpdateError (DPCS (r2 20) shift lm r2))"

definition Execute_DCPL :: "u32 \<Rightarrow> gte_regs \<Rightarrow> gte_regs" where
  "Execute_DCPL w r0 =
     (let r = FLAG_Clear r0; shift = GetShift w; lm = gte_lm w
      in FLAG_UpdateError (PushRGBFromMAC (interpolate_lit_color shift lm r)))"

definition Execute_INTPL :: "u32 \<Rightarrow> gte_regs \<Rightarrow> gte_regs" where
  "Execute_INTPL w r0 =
     (let r = FLAG_Clear r0; shift = GetShift w; lm = gte_lm w
      in FLAG_UpdateError (PushRGBFromMAC
           (InterpolateColor (push_bit 12 (IR 1 r)) (push_bit 12 (IR 2 r)) (push_bit 12 (IR 3 r)) shift lm r)))"

definition Execute_GPL :: "u32 \<Rightarrow> gte_regs \<Rightarrow> gte_regs" where
  "Execute_GPL w r0 =
     (let r = FLAG_Clear r0; shift = GetShift w; lm = gte_lm w;
          r1 = TruncateAndSetMACAndIR 1 (IR 1 r * IR 0 r + push_bit shift (MAC 1 r)) shift lm r;
          r2 = TruncateAndSetMACAndIR 2 (IR 2 r1 * IR 0 r1 + push_bit shift (MAC 2 r1)) shift lm r1;
          r3 = TruncateAndSetMACAndIR 3 (IR 3 r2 * IR 0 r2 + push_bit shift (MAC 3 r2)) shift lm r2
      in FLAG_UpdateError (PushRGBFromMAC r3))"

definition Execute_GPF :: "u32 \<Rightarrow> gte_regs \<Rightarrow> gte_regs" where
  "Execute_GPF w r0 =
     (let r = FLAG_Clear r0; shift = GetShift w; lm = gte_lm w;
          r1 = TruncateAndSetMACAndIR 1 (IR 1 r * IR 0 r) shift lm r;
          r2 = TruncateAndSetMACAndIR 2 (IR 2 r1 * IR 0 r1) shift lm r1;
          r3 = TruncateAndSetMACAndIR 3 (IR 3 r2 * IR 0 r2) shift lm r2
      in FLAG_UpdateError (PushRGBFromMAC r3))"

subsection \<open>Selecting a command\<close>

subsection \<open>Selecting a command\<close>

text \<open>
  The interpreter adds the ticks of the command and runs it; a word that is no command does nothing.
\<close>

definition gte_ExecuteInstruction :: "u32 \<Rightarrow> 'a cpu_state_scheme \<Rightarrow> 'a cpu_state_scheme" where
  "gte_ExecuteInstruction w s =
     (let c = gte_command w;
          run = (\<lambda>ticks f. (AddGTETicks ticks s)\<lparr>gte_regs := f (gte_regs s)\<rparr>) in
      if c = 0x01 then run 15 (Execute_RTPS (gte_aspect s) w)
      else if c = 0x06 then run 8 (Execute_NCLIP w)
      else if c = 0x0C then run 6 (Execute_OP w)
      else if c = 0x10 then run 8 (Execute_DPCS w)
      else if c = 0x11 then run 8 (Execute_INTPL w)
      else if c = 0x12 then run 8 (Execute_MVMVA w)
      else if c = 0x13 then run 19 (Execute_NCDS w)
      else if c = 0x14 then run 13 (Execute_CDP w)
      else if c = 0x16 then run 44 (Execute_NCDT w)
      else if c = 0x1B then run 17 (Execute_NCCS w)
      else if c = 0x1C then run 11 (Execute_CC w)
      else if c = 0x1E then run 14 (Execute_NCS w)
      else if c = 0x20 then run 30 (Execute_NCT w)
      else if c = 0x28 then run 5 (Execute_SQR w)
      else if c = 0x29 then run 8 (Execute_DCPL w)
      else if c = 0x2A then run 17 (Execute_DPCT w)
      else if c = 0x2D then run 5 (Execute_AVSZ3 w)
      else if c = 0x2E then run 6 (Execute_AVSZ4 w)
      else if c = 0x30 then run 23 (Execute_RTPT (gte_aspect s) w)
      else if c = 0x3D then run 5 (Execute_GPF w)
      else if c = 0x3E then run 5 (Execute_GPL w)
      else if c = 0x3F then run 39 (Execute_NCCT w)
      else s)"

text \<open>
  The recompiler asks for the function and its ticks when it compiles the instruction. The ratio is the
  one in force when the function runs, and therefore its argument.
\<close>

definition GetInstructionImpl :: "u32 \<Rightarrow> aspect_ratio \<Rightarrow> (tick_count \<times> (u32 \<Rightarrow> gte_regs \<Rightarrow> gte_regs)) option" where
  "GetInstructionImpl w a =
     (let c = gte_command w in
      if c = 0x01 then Some (15, Execute_RTPS a)
      else if c = 0x06 then Some (8, Execute_NCLIP)
      else if c = 0x0C then Some (6, Execute_OP)
      else if c = 0x10 then Some (8, Execute_DPCS)
      else if c = 0x11 then Some (8, Execute_INTPL)
      else if c = 0x12 then Some (8, Execute_MVMVA)
      else if c = 0x13 then Some (19, Execute_NCDS)
      else if c = 0x14 then Some (13, Execute_CDP)
      else if c = 0x16 then Some (44, Execute_NCDT)
      else if c = 0x1B then Some (17, Execute_NCCS)
      else if c = 0x1C then Some (11, Execute_CC)
      else if c = 0x1E then Some (14, Execute_NCS)
      else if c = 0x20 then Some (30, Execute_NCT)
      else if c = 0x28 then Some (5, Execute_SQR)
      else if c = 0x29 then Some (8, Execute_DCPL)
      else if c = 0x2A then Some (17, Execute_DPCT)
      else if c = 0x2D then Some (5, Execute_AVSZ3)
      else if c = 0x2E then Some (6, Execute_AVSZ4)
      else if c = 0x30 then Some (23, Execute_RTPT a)
      else if c = 0x3D then Some (5, Execute_GPF)
      else if c = 0x3E then Some (5, Execute_GPL)
      else if c = 0x3F then Some (39, Execute_NCCT)
      else None)"

subsection \<open>The coprocessor of the CPU\<close>

definition gte_Reset :: "'a cpu_state_scheme \<Rightarrow> 'a cpu_state_scheme" where
  "gte_Reset s = s\<lparr>gte_regs := GTE_Reset\<rparr>"

definition gte_ReadRegister :: "nat \<Rightarrow> 'a cpu_state_scheme \<Rightarrow> u32" where
  "gte_ReadRegister i s = GTE_ReadRegister i (gte_regs s)"

definition gte_WriteRegister :: "nat \<Rightarrow> u32 \<Rightarrow> 'a cpu_state_scheme \<Rightarrow> 'a cpu_state_scheme" where
  "gte_WriteRegister i v s = s\<lparr>gte_regs := GTE_WriteRegister i v (gte_regs s)\<rparr>"

text \<open>\<open>Initialize\<close>, which resets the registers after reading the settings.\<close>

definition gte_Initialize :: "aspect_settings \<Rightarrow> 'a cpu_state_scheme \<Rightarrow> 'a cpu_state_scheme option" where
  "gte_Initialize g s =
     map_option (\<lambda>a. gte_Reset (s\<lparr>gte_aspect := a\<rparr>)) (UpdateAspectRatio g (gte_aspect s))"

end
