(* ===== verification/CpuFetch.thy ===== *)
theory CpuFetch
  imports Bus CpuTypes GteCommands
begin

text \<open>
  Exceptions, the pipeline and the CPU's memory accesses (\<open>src/core/cpu_core.cpp\<close> and the
  end of \<open>src/core/bus.cpp\<close>).

  \<open>FetchInstruction\<close> may raise an exception, raising an exception flushes the pipeline, and
  the flush fetches from the exception vector: the functions are mutually recursive. The
  recursion is by fuel, \<open>fetch_at n\<close>; \<open>fetch_at_fuel\<close> shows that two levels are enough and
  that more change nothing, because the exception vectors are always fetched without an
  exception. \<open>FetchInstruction\<close> is \<open>fetch_at 2\<close>.
\<close>

subsection \<open>Program counters\<close>

abbreviation (input) pc_of :: "'a cpu_state_scheme \<Rightarrow> u32" where "pc_of s \<equiv> regs s ! reg_pc"
abbreviation (input) npc_of :: "'a cpu_state_scheme \<Rightarrow> u32" where "npc_of s \<equiv> regs s ! reg_npc"

definition set_reg :: "nat \<Rightarrow> u32 \<Rightarrow> 'a cpu_state_scheme \<Rightarrow> 'a cpu_state_scheme" where
  "set_reg r v s = s\<lparr>regs := (regs s)[r := v]\<rparr>"

text \<open>The end of a successful fetch: \<open>pc\<close> takes \<open>npc\<close>, and \<open>npc\<close> moves on.\<close>

definition advance_pc :: "'a cpu_state_scheme \<Rightarrow> 'a cpu_state_scheme" where
  "advance_pc s = set_reg reg_npc (npc_of s + 4) (set_reg reg_pc (npc_of s) s)"

subsection \<open>Raising an exception\<close>

definition FlushPipeline_with :: "('a cpu_state_scheme \<Rightarrow> bool \<times> 'a cpu_state_scheme) \<Rightarrow> 'a cpu_state_scheme \<Rightarrow> 'a cpu_state_scheme" where
  "FlushPipeline_with fetch s =
     (let s1 = s\<lparr>next_load_delay_reg := reg_count\<rparr>;
          s2 = (if load_delay_reg s1 \<noteq> reg_count
                then set_reg (load_delay_reg s1) (load_delay_value s1) s1\<lparr>load_delay_reg := reg_count\<rparr> else s1);
          s3 = s2\<lparr>branch_was_taken := False, next_instruction_is_branch_delay_slot := False,
                  current_instruction_pc := pc_of s2\<rparr>;
          s4 = snd (fetch s3)
      in s4\<lparr>current_instruction := next_instruction s4,
            current_instruction_in_branch_delay_slot := False,
            current_instruction_was_branch_taken := False\<rparr>)"

definition exception_entry :: "u32 \<Rightarrow> u32 \<Rightarrow> u32 \<Rightarrow> cop0_registers \<Rightarrow> cop0_registers" where
  "exception_entry CAUSE_bits epc pc c0 =
     (let c1 = c0\<lparr>EPC := epc, cause := masked_write EXCEPTION_WRITE_MASK (cause c0) CAUSE_bits\<rparr>;
          c2 = (if cause_BD (cause c1) then c1\<lparr>EPC := EPC c1 - 4, TAR := pc\<rparr> else c1)
      in c2\<lparr>sr := bf_set 0 6 (push_bit 2 (bf_get 0 6 (sr c2))) (sr c2)\<rparr>)"

definition raise_to :: "('a cpu_state_scheme \<Rightarrow> bool \<times> 'a cpu_state_scheme) \<Rightarrow> u32 \<Rightarrow> u32 \<Rightarrow> u32
    \<Rightarrow> 'a cpu_state_scheme \<Rightarrow> 'a cpu_state_scheme" where
  "raise_to fetch CAUSE_bits epc vector s =
     (let s1 = s\<lparr>cop0_regs := exception_entry CAUSE_bits epc (pc_of s) (cop0_regs s)\<rparr>;
          s2 = set_reg reg_npc vector s1\<lparr>exception_raised := True\<rparr>
      in FlushPipeline_with fetch s2)"

primrec fetch_at :: "nat \<Rightarrow> 'a bus_state_scheme \<Rightarrow> bool \<times> 'a bus_state_scheme" where
  "fetch_at 0 = (\<lambda>s. (False, s))"
| "fetch_at (Suc n) = (\<lambda>s.
     let address = npc_of s; top = drop_bit 29 address;
         raise = (\<lambda>CAUSE_bits epc t. raise_to (fetch_at n) CAUSE_bits epc (GetExceptionVector False t) t)
     in if top = 0 \<or> top = 4 then
          (let (w, t) = (if CompareICacheTag address s then (ReadICache address s, s) else FillICache address s)
           in (True, advance_pc (t\<lparr>next_instruction := w\<rparr>)))
        else if top = 5 then
          (let (ok, m, t) = DoInstructionRead True False 1 address 0 (\<lambda>_. 0) s
           in if ok then (True, advance_pc (t\<lparr>next_instruction := read_word m 0\<rparr>))
              else (False, (raise (VirtualAddressToPhysical address) (MakeValueForException Exc_IBE False False 0) t)
                      \<lparr>next_instruction := 0\<rparr>))
        else
          (False, raise (MakeValueForException Exc_IBE (current_instruction_in_branch_delay_slot s)
                    (current_instruction_was_branch_taken s) 0) address s))"

definition FetchInstruction :: "'a bus_state_scheme \<Rightarrow> bool \<times> 'a bus_state_scheme" where
  "FetchInstruction = fetch_at 2"

definition FlushPipeline :: "'a bus_state_scheme \<Rightarrow> 'a bus_state_scheme" where
  "FlushPipeline = FlushPipeline_with FetchInstruction"

text \<open>The overloads of \<open>RaiseException\<close>: cause, return address and vector; cause and return address; the exception.\<close>

definition RaiseException_at :: "u32 \<Rightarrow> u32 \<Rightarrow> u32 \<Rightarrow> 'a bus_state_scheme \<Rightarrow> 'a bus_state_scheme" where
  "RaiseException_at = raise_to FetchInstruction"

definition RaiseException_from :: "u32 \<Rightarrow> u32 \<Rightarrow> 'a bus_state_scheme \<Rightarrow> 'a bus_state_scheme" where
  "RaiseException_from CAUSE_bits epc s = RaiseException_at CAUSE_bits epc (GetExceptionVector False s) s"

definition current_cause :: "exception \<Rightarrow> 'a bus_state_scheme \<Rightarrow> u32" where
  "current_cause excode s =
     MakeValueForException excode (current_instruction_in_branch_delay_slot s)
       (current_instruction_was_branch_taken s) (inst_cop_n (current_instruction s))"

definition RaiseException :: "exception \<Rightarrow> 'a bus_state_scheme \<Rightarrow> 'a bus_state_scheme" where
  "RaiseException excode s = RaiseException_from (current_cause excode s) (current_instruction_pc s) s"

definition DispatchCop0Breakpoint :: "'a bus_state_scheme \<Rightarrow> 'a bus_state_scheme" where
  "DispatchCop0Breakpoint s =
     RaiseException_at (current_cause Exc_BP s) (current_instruction_pc s) (GetExceptionVector True s) s"

subsection \<open>Jumps and reset\<close>

definition SetPC :: "u32 \<Rightarrow> 'a bus_state_scheme \<Rightarrow> 'a bus_state_scheme" where
  "SetPC new_pc s = FlushPipeline (set_reg reg_npc new_pc s)"

definition Branch :: "u32 \<Rightarrow> 'a bus_state_scheme \<Rightarrow> 'a bus_state_scheme" where
  "Branch target s =
     (if \<not> IsAlignedPow2 target 4
      then RaiseException_from (MakeValueForException Exc_AdEL False False 0) target
             (s\<lparr>cop0_regs := cop0_regs s\<lparr>BadVaddr := target\<rparr>\<rparr>)
      else (set_reg reg_npc target s)\<lparr>branch_was_taken := True\<rparr>)"

definition cpu_Reset :: "('a bus_state_scheme) bus_env \<Rightarrow> 'a bus_state_scheme \<Rightarrow> 'a bus_state_scheme" where
  "cpu_Reset env s =
     SetPC 0xBFC00000 (gte_Reset (ClearICache
       (s\<lparr>pending_ticks := 0, downcount := 0, regs := map (\<lambda>_. 0) (regs s),
          cop0_regs := cop0_regs s\<lparr>BPC := 0, BDA := 0, TAR := 0, BadVaddr := 0, BDAM := 0, BPCM := 0,
                                   EPC := 0, sr := 0, cause := 0\<rparr>\<rparr>)))"

text \<open>The fetch of the cached interpreter's fallback, which ignores the cache and the ticks.\<close>

definition FetchInstructionForInterpreterFallback :: "'a bus_state_scheme \<Rightarrow> bool \<times> 'a bus_state_scheme" where
  "FetchInstructionForInterpreterFallback s =
     (let address = npc_of s; top = drop_bit 29 address
      in if top = 0 \<or> top = 4 \<or> top = 5 then
           (let (ok, m, t) = DoInstructionRead False False 1 address 0 (\<lambda>_. 0) s
            in if ok then (True, advance_pc (t\<lparr>next_instruction := read_word m 0\<rparr>))
               else (False, (RaiseException_from (VirtualAddressToPhysical address)
                       (MakeValueForException Exc_IBE False False 0) t)\<lparr>next_instruction := 0\<rparr>))
         else
           (False, RaiseException_from (MakeValueForException Exc_IBE (current_instruction_in_branch_delay_slot s)
                     (current_instruction_was_branch_taken s) 0) address s))"

subsection \<open>Loads and stores\<close>

definition DoAlignmentCheck :: "access_type \<Rightarrow> access_size \<Rightarrow> u32 \<Rightarrow> 'a bus_state_scheme \<Rightarrow> bool \<times> 'a bus_state_scheme" where
  "DoAlignmentCheck ty sz address s =
     (if size_aligned sz address then (True, s)
      else (False, RaiseException (if ty = AccRead then Exc_AdEL else Exc_AdES)
                     (s\<lparr>cop0_regs := cop0_regs s\<lparr>BadVaddr := address\<rparr>\<rparr>)))"

text \<open>\<open>ReadMemoryByte\<close>, \<open>ReadMemoryHalfWord\<close> and \<open>ReadMemoryWord\<close>; \<open>None\<close> where they return false.\<close>

definition ReadMemory :: "('a bus_state_scheme) bus_env \<Rightarrow> access_size \<Rightarrow> u32 \<Rightarrow> 'a bus_state_scheme
    \<Rightarrow> u32 option \<times> 'a bus_state_scheme" where
  "ReadMemory env sz addr s =
     (let (ok, s1) = DoAlignmentCheck AccRead sz addr s
      in if \<not> ok then (None, s1)
         else (case DoMemoryAccess env AccRead sz addr 0 s1 of
                 (cycles, v, t) \<Rightarrow> if cycles < 0 then (None, RaiseException Exc_DBE t)
                                  else (Some (truncate_to sz v), AddPendingTicks cycles t)))"

text \<open>\<open>WriteMemoryByte\<close>, \<open>WriteMemoryHalfWord\<close> and \<open>WriteMemoryWord\<close>.\<close>

definition WriteMemory :: "('a bus_state_scheme) bus_env \<Rightarrow> access_size \<Rightarrow> u32 \<Rightarrow> u32 \<Rightarrow> 'a bus_state_scheme
    \<Rightarrow> bool \<times> 'a bus_state_scheme" where
  "WriteMemory env sz addr v s =
     (let (ok, s1) = DoAlignmentCheck AccWrite sz addr s
      in if \<not> ok then (False, s1)
         else (case DoMemoryAccess env AccWrite sz addr v s1 of
                 (cycles, v', t) \<Rightarrow> if cycles < 0 then (False, RaiseException Exc_DBE t) else (True, t)))"

subsection \<open>Breakpoints of coprocessor 0\<close>

definition all_bits :: "nat list \<Rightarrow> u32 \<Rightarrow> bool" where
  "all_bits ns w \<longleftrightarrow> list_all (bit w) ns"

definition ExecutionBreakpointsEnabled :: "u32 \<Rightarrow> bool" where
  "ExecutionBreakpointsEnabled d \<longleftrightarrow> all_bits [23, 24, 31] d"
definition DataReadBreakpointsEnabled :: "u32 \<Rightarrow> bool" where
  "DataReadBreakpointsEnabled d \<longleftrightarrow> all_bits [23, 25, 26, 31] d"
definition DataWriteBreakpointsEnabled :: "u32 \<Rightarrow> bool" where
  "DataWriteBreakpointsEnabled d \<longleftrightarrow> all_bits [23, 25, 27, 31] d"

definition set_dcic_bits :: "nat list \<Rightarrow> 'a cpu_state_scheme \<Rightarrow> 'a cpu_state_scheme" where
  "set_dcic_bits ns s = s\<lparr>cop0_regs := cop0_regs s\<lparr>dcic := fold (\<lambda>n. assign_bit n True) ns (dcic (cop0_regs s))\<rparr>\<rparr>"

definition Cop0ExecutionBreakpointCheck :: "'a bus_state_scheme \<Rightarrow> 'a bus_state_scheme" where
  "Cop0ExecutionBreakpointCheck s =
     (let c0 = cop0_regs s
      in if \<not> ExecutionBreakpointsEnabled (dcic c0) then s
         else if BPCM c0 = 0 \<or> (current_instruction_pc s XOR BPC c0) AND BPCM c0 \<noteq> 0 then s
         else DispatchCop0Breakpoint (set_dcic_bits [0, 1] s))"

definition Cop0DataBreakpointCheck :: "access_type \<Rightarrow> u32 \<Rightarrow> 'a bus_state_scheme \<Rightarrow> 'a bus_state_scheme" where
  "Cop0DataBreakpointCheck ty address s =
     (let c0 = cop0_regs s
      in if \<not> (if ty = AccRead then DataReadBreakpointsEnabled (dcic c0) else DataWriteBreakpointsEnabled (dcic c0)) then s
         else if BDAM c0 = 0 \<or> (address XOR BDA c0) AND BDAM c0 \<noteq> 0 then s
         else DispatchCop0Breakpoint (set_dcic_bits [0, 2, if ty = AccRead then 3 else 4] s))"

end
