(* ===== verification/CpuExec.thy ===== *)
theory CpuExec
  imports CpuFetch
begin

text \<open>
  \<open>ExecuteInstruction\<close> of \<open>src/core/cpu_core.cpp\<close>, one definition per group of opcodes, and
  the interpreters' steps around it. PGXP is disabled (the template argument
  \<open>PGXPMode::Disabled\<close>); \<open>debug\<close> is the argument \<open>dbg\<close>.
\<close>

subsection \<open>Arithmetic\<close>

definition AddOverflow :: "u32 \<Rightarrow> u32 \<Rightarrow> u32 \<Rightarrow> bool" where
  "AddOverflow old_value addend new_value \<longleftrightarrow>
     ((new_value XOR old_value) AND (new_value XOR addend)) AND 0x80000000 \<noteq> 0"

definition SubOverflow :: "u32 \<Rightarrow> u32 \<Rightarrow> u32 \<Rightarrow> bool" where
  "SubOverflow old_value sub_value new_value \<longleftrightarrow>
     ((new_value XOR old_value) AND (old_value XOR sub_value)) AND 0x80000000 \<noteq> 0"

abbreviation (input) rs_val :: "u32 \<Rightarrow> 'a cpu_state_scheme \<Rightarrow> u32" where "rs_val w s \<equiv> ReadReg (inst_rs w) s"
abbreviation (input) rt_val :: "u32 \<Rightarrow> 'a cpu_state_scheme \<Rightarrow> u32" where "rt_val w s \<equiv> ReadReg (inst_rt w) s"
abbreviation (input) write_rd :: "u32 \<Rightarrow> u32 \<Rightarrow> 'a cpu_state_scheme \<Rightarrow> 'a cpu_state_scheme" where
  "write_rd w v s \<equiv> WriteReg (inst_rd w) v s"
abbreviation (input) write_rt :: "u32 \<Rightarrow> u32 \<Rightarrow> 'a cpu_state_scheme \<Rightarrow> 'a cpu_state_scheme" where
  "write_rt w v s \<equiv> WriteReg (inst_rt w) v s"

definition of_bool32 :: "bool \<Rightarrow> u32" where "of_bool32 b = (if b then 1 else 0)"

text \<open>The result of the shift instructions, and of the bitwise ones.\<close>

definition exec_shift :: "u32 \<Rightarrow> 'a bus_state_scheme \<Rightarrow> 'a bus_state_scheme" where
  "exec_shift w s =
     (let shift_amount = unat (rs_val w s AND 0x1F); v = rt_val w s
      in write_rd w
           (case inst_funct w of
              Fn_sll \<Rightarrow> push_bit (inst_shamt w) v
            | Fn_srl \<Rightarrow> drop_bit (inst_shamt w) v
            | Fn_sra \<Rightarrow> signed_drop_bit (inst_shamt w) v
            | Fn_sllv \<Rightarrow> push_bit shift_amount v
            | Fn_srlv \<Rightarrow> drop_bit shift_amount v
            | _ \<Rightarrow> signed_drop_bit shift_amount v) s)"

definition exec_logic :: "u32 \<Rightarrow> 'a bus_state_scheme \<Rightarrow> 'a bus_state_scheme" where
  "exec_logic w s =
     write_rd w
       (case inst_funct w of
          Fn_and \<Rightarrow> rs_val w s AND rt_val w s
        | Fn_or \<Rightarrow> rs_val w s OR rt_val w s
        | Fn_xor \<Rightarrow> rs_val w s XOR rt_val w s
        | _ \<Rightarrow> NOT (rs_val w s OR rt_val w s)) s"

definition exec_add :: "u32 \<Rightarrow> 'a bus_state_scheme \<Rightarrow> 'a bus_state_scheme" where
  "exec_add w s =
     (let old_value = rs_val w s; addend = rt_val w s; new_value = old_value + addend
      in if AddOverflow old_value addend new_value then RaiseException Exc_Ov s
         else write_rd w new_value s)"

definition exec_addu :: "u32 \<Rightarrow> 'a bus_state_scheme \<Rightarrow> 'a bus_state_scheme" where
  "exec_addu w s = write_rd w (rs_val w s + rt_val w s) s"

definition exec_sub :: "u32 \<Rightarrow> 'a bus_state_scheme \<Rightarrow> 'a bus_state_scheme" where
  "exec_sub w s =
     (let old_value = rs_val w s; sub_value = rt_val w s; new_value = old_value - sub_value
      in if SubOverflow old_value sub_value new_value then RaiseException Exc_Ov s
         else write_rd w new_value s)"

definition exec_subu :: "u32 \<Rightarrow> 'a bus_state_scheme \<Rightarrow> 'a bus_state_scheme" where
  "exec_subu w s = write_rd w (rs_val w s - rt_val w s) s"

definition exec_compare :: "u32 \<Rightarrow> 'a bus_state_scheme \<Rightarrow> 'a bus_state_scheme" where
  "exec_compare w s =
     write_rd w
       (of_bool32 (if inst_funct w = Fn_slt then sint (rs_val w s) < sint (rt_val w s)
                   else rs_val w s < rt_val w s)) s"

definition exec_hilo :: "u32 \<Rightarrow> 'a bus_state_scheme \<Rightarrow> 'a bus_state_scheme" where
  "exec_hilo w s =
     (case inst_funct w of
        Fn_mfhi \<Rightarrow> write_rd w (regs s ! reg_hi) s
      | Fn_mthi \<Rightarrow> set_reg reg_hi (rs_val w s) s
      | Fn_mflo \<Rightarrow> write_rd w (regs s ! reg_lo) s
      | _ \<Rightarrow> set_reg reg_lo (rs_val w s) s)"

definition set_hilo :: "u64 \<Rightarrow> 'a bus_state_scheme \<Rightarrow> 'a bus_state_scheme" where
  "set_hilo r s = set_reg reg_lo (ucast r) (set_reg reg_hi (ucast (drop_bit 32 r)) s)"

definition exec_mult :: "u32 \<Rightarrow> 'a bus_state_scheme \<Rightarrow> 'a bus_state_scheme" where
  "exec_mult w s =
     set_hilo (if inst_funct w = Fn_mult then word_of_int (sint (rs_val w s) * sint (rt_val w s))
               else ucast (rs_val w s) * ucast (rt_val w s)) s"

text \<open>The quotient and the remainder the code computes: \<open>lo\<close> and \<open>hi\<close>.\<close>

definition div_lo_hi :: "u32 \<Rightarrow> u32 \<Rightarrow> u32 \<times> u32" where
  "div_lo_hi num denom =
     (if denom = 0 then (if sint num \<ge> 0 then 0xFFFFFFFF else 1, num)
      else if num = 0x80000000 \<and> sint denom = - 1 then (0x80000000, 0)
      else (word_of_int (cdiv (sint num) (sint denom)),
            word_of_int (sint num - cdiv (sint num) (sint denom) * sint denom)))"

definition divu_lo_hi :: "u32 \<Rightarrow> u32 \<Rightarrow> u32 \<times> u32" where
  "divu_lo_hi num denom = (if denom = 0 then (0xFFFFFFFF, num) else (num div denom, num mod denom))"

definition exec_div :: "u32 \<Rightarrow> 'a bus_state_scheme \<Rightarrow> 'a bus_state_scheme" where
  "exec_div w s =
     (let (lo, hi) = (if inst_funct w = Fn_div then div_lo_hi (rs_val w s) (rt_val w s)
                      else divu_lo_hi (rs_val w s) (rt_val w s))
      in set_reg reg_hi hi (set_reg reg_lo lo s))"

definition delay_slot_next :: "'a cpu_state_scheme \<Rightarrow> 'a cpu_state_scheme" where
  "delay_slot_next s = s\<lparr>next_instruction_is_branch_delay_slot := True\<rparr>"

definition exec_jump_register :: "u32 \<Rightarrow> 'a bus_state_scheme \<Rightarrow> 'a bus_state_scheme" where
  "exec_jump_register w s =
     (let s1 = delay_slot_next s; target = rs_val w s1
      in Branch target (if inst_funct w = Fn_jalr then write_rd w (npc_of s1) s1 else s1))"

definition exec_funct :: "u32 \<Rightarrow> 'a bus_state_scheme \<Rightarrow> 'a bus_state_scheme" where
  "exec_funct w s =
     (case inst_funct w of
        Fn_sll \<Rightarrow> exec_shift w s | Fn_srl \<Rightarrow> exec_shift w s | Fn_sra \<Rightarrow> exec_shift w s
      | Fn_sllv \<Rightarrow> exec_shift w s | Fn_srlv \<Rightarrow> exec_shift w s | Fn_srav \<Rightarrow> exec_shift w s
      | Fn_and \<Rightarrow> exec_logic w s | Fn_or \<Rightarrow> exec_logic w s | Fn_xor \<Rightarrow> exec_logic w s | Fn_nor \<Rightarrow> exec_logic w s
      | Fn_add \<Rightarrow> exec_add w s | Fn_addu \<Rightarrow> exec_addu w s | Fn_sub \<Rightarrow> exec_sub w s | Fn_subu \<Rightarrow> exec_subu w s
      | Fn_slt \<Rightarrow> exec_compare w s | Fn_sltu \<Rightarrow> exec_compare w s
      | Fn_mfhi \<Rightarrow> exec_hilo w s | Fn_mthi \<Rightarrow> exec_hilo w s | Fn_mflo \<Rightarrow> exec_hilo w s | Fn_mtlo \<Rightarrow> exec_hilo w s
      | Fn_mult \<Rightarrow> exec_mult w s | Fn_multu \<Rightarrow> exec_mult w s
      | Fn_div \<Rightarrow> exec_div w s | Fn_divu \<Rightarrow> exec_div w s
      | Fn_jr \<Rightarrow> exec_jump_register w s | Fn_jalr \<Rightarrow> exec_jump_register w s
      | Fn_syscall \<Rightarrow> RaiseException Exc_Syscall s
      | Fn_break \<Rightarrow> RaiseException Exc_BP s
      | Fn_reserved \<Rightarrow> RaiseException Exc_RI s)"

text \<open>The instructions with an immediate operand: logical ones, \<open>addi\<close>, and the others.\<close>

definition exec_addi :: "u32 \<Rightarrow> 'a bus_state_scheme \<Rightarrow> 'a bus_state_scheme" where
  "exec_addi w s =
     (let old_value = rs_val w s; addend = imm_sext32 w; new_value = old_value + addend
      in if AddOverflow old_value addend new_value then RaiseException Exc_Ov s
         else write_rt w new_value s)"

definition exec_imm :: "u32 \<Rightarrow> 'a bus_state_scheme \<Rightarrow> 'a bus_state_scheme" where
  "exec_imm w s =
     write_rt w
       (case inst_op w of
          Op_lui \<Rightarrow> push_bit 16 (imm_zext32 w)
        | Op_andi \<Rightarrow> rs_val w s AND imm_zext32 w
        | Op_ori \<Rightarrow> rs_val w s OR imm_zext32 w
        | Op_xori \<Rightarrow> rs_val w s XOR imm_zext32 w
        | Op_addiu \<Rightarrow> rs_val w s + imm_sext32 w
        | Op_slti \<Rightarrow> of_bool32 (sint (rs_val w s) < sint (imm_sext32 w))
        | _ \<Rightarrow> of_bool32 (rs_val w s < imm_sext32 w)) s"

subsection \<open>Loads and stores\<close>

definition effective_address :: "u32 \<Rightarrow> 'a cpu_state_scheme \<Rightarrow> u32" where
  "effective_address w s = rs_val w s + imm_sext32 w"

definition data_break :: "bool \<Rightarrow> access_type \<Rightarrow> u32 \<Rightarrow> 'a bus_state_scheme \<Rightarrow> 'a bus_state_scheme" where
  "data_break dbg ty addr s = (if dbg then Cop0DataBreakpointCheck ty addr s else s)"

fun load_extend :: "InstructionOp \<Rightarrow> u32 \<Rightarrow> u32" where
  "load_extend Op_lb v = scast (ucast v :: s8)"
| "load_extend Op_lh v = scast (ucast v :: s16)"
| "load_extend _ v = v"

definition exec_load :: "('a bus_state_scheme) bus_env \<Rightarrow> bool \<Rightarrow> access_size \<Rightarrow> u32 \<Rightarrow> 'a bus_state_scheme \<Rightarrow> 'a bus_state_scheme" where
  "exec_load env dbg sz w s =
     (let addr = effective_address w s;
          (r, t) = ReadMemory env sz addr (data_break dbg AccRead addr s)
      in case r of None \<Rightarrow> t | Some v \<Rightarrow> WriteRegDelayed (inst_rt w) (load_extend (inst_op w) v) t)"

text \<open>The bytes that \<open>lwl\<close> and \<open>lwr\<close> take from memory, and \<open>swl\<close> and \<open>swr\<close> from the register.\<close>

definition byte_shift :: "u32 \<Rightarrow> nat" where
  "byte_shift addr = unat (addr AND 3) * 8"

definition lwl_value :: "nat \<Rightarrow> u32 \<Rightarrow> u32 \<Rightarrow> u32" where
  "lwl_value shift existing_value aligned_value =
     (existing_value AND drop_bit shift 0x00FFFFFF) OR push_bit (24 - shift) aligned_value"

definition lwr_value :: "nat \<Rightarrow> u32 \<Rightarrow> u32 \<Rightarrow> u32" where
  "lwr_value shift existing_value aligned_value =
     (existing_value AND push_bit (24 - shift) 0xFFFFFF00) OR drop_bit shift aligned_value"

definition swl_value :: "nat \<Rightarrow> u32 \<Rightarrow> u32 \<Rightarrow> u32" where
  "swl_value shift mem_value reg_value =
     (mem_value AND push_bit shift 0xFFFFFF00) OR drop_bit (24 - shift) reg_value"

definition swr_value :: "nat \<Rightarrow> u32 \<Rightarrow> u32 \<Rightarrow> u32" where
  "swr_value shift mem_value reg_value =
     (mem_value AND drop_bit (24 - shift) 0x00FFFFFF) OR push_bit shift reg_value"

definition exec_load_unaligned :: "('a bus_state_scheme) bus_env \<Rightarrow> bool \<Rightarrow> u32 \<Rightarrow> 'a bus_state_scheme \<Rightarrow> 'a bus_state_scheme" where
  "exec_load_unaligned env dbg w s =
     (let addr = effective_address w s;
          (r, t) = ReadMemory env AccWord (addr AND NOT 3) (data_break dbg AccRead addr s)
      in case r of
           None \<Rightarrow> t
         | Some aligned_value \<Rightarrow>
             (let existing_value = (if inst_rt w = load_delay_reg t then load_delay_value t else rt_val w t);
                  shift = byte_shift addr
              in WriteRegDelayed (inst_rt w)
                   (if inst_op w = Op_lwl then lwl_value shift existing_value aligned_value
                    else lwr_value shift existing_value aligned_value) t))"

definition exec_store :: "('a bus_state_scheme) bus_env \<Rightarrow> bool \<Rightarrow> access_size \<Rightarrow> u32 \<Rightarrow> 'a bus_state_scheme \<Rightarrow> 'a bus_state_scheme" where
  "exec_store env dbg sz w s =
     (let addr = effective_address w s; s1 = data_break dbg AccWrite addr s
      in snd (WriteMemory env sz addr (rt_val w s1) s1))"

definition exec_store_unaligned :: "('a bus_state_scheme) bus_env \<Rightarrow> bool \<Rightarrow> u32 \<Rightarrow> 'a bus_state_scheme \<Rightarrow> 'a bus_state_scheme" where
  "exec_store_unaligned env dbg w s =
     (let addr = effective_address w s; aligned_addr = addr AND NOT 3;
          s1 = data_break dbg AccWrite aligned_addr s;
          reg_value = rt_val w s1; shift = byte_shift addr;
          (r, t) = ReadMemory env AccWord aligned_addr s1
      in case r of
           None \<Rightarrow> t
         | Some mem_value \<Rightarrow>
             snd (WriteMemory env AccWord aligned_addr
                    (if inst_op w = Op_swl then swl_value shift mem_value reg_value
                     else swr_value shift mem_value reg_value) t))"

subsection \<open>Branches\<close>

definition exec_jump :: "u32 \<Rightarrow> 'a bus_state_scheme \<Rightarrow> 'a bus_state_scheme" where
  "exec_jump w s =
     (let s1 = (if inst_op w = Op_jal then WriteReg reg_ra (npc_of s) s else s); s2 = delay_slot_next s1
      in Branch ((pc_of s2 AND 0xF0000000) OR push_bit 2 (inst_target w)) s2)"

definition branch_if :: "bool \<Rightarrow> u32 \<Rightarrow> 'a bus_state_scheme \<Rightarrow> 'a bus_state_scheme" where
  "branch_if b w s = (if b then Branch (pc_of s + push_bit 2 (imm_sext32 w)) s else s)"

definition exec_branch :: "u32 \<Rightarrow> 'a bus_state_scheme \<Rightarrow> 'a bus_state_scheme" where
  "exec_branch w s =
     branch_if (case inst_op w of
                  Op_beq \<Rightarrow> rs_val w s = rt_val w s
                | Op_bne \<Rightarrow> rs_val w s \<noteq> rt_val w s
                | Op_bgtz \<Rightarrow> sint (rs_val w s) > 0
                | _ \<Rightarrow> sint (rs_val w s) \<le> 0) w (delay_slot_next s)"

text \<open>\<open>bltz\<close>, \<open>bgez\<close> and their linking forms: the link is written after the comparison.\<close>

definition exec_b :: "u32 \<Rightarrow> 'a bus_state_scheme \<Rightarrow> 'a bus_state_scheme" where
  "exec_b w s =
     (let s1 = delay_slot_next s; rt = inst_rt w; bgez = odd rt;
          branch = ((sint (rs_val w s1) < 0) \<noteq> bgez);
          link = (rt AND 0x1E = 0x10);
          s2 = (if link then WriteReg reg_ra (npc_of s1) s1 else s1)
      in branch_if branch w s2)"

subsection \<open>Coprocessors\<close>

definition exec_rfe :: "'a bus_state_scheme \<Rightarrow> 'a bus_state_scheme" where
  "exec_rfe s =
     (let c0 = cop0_regs s; mode_bits = bf_get 0 6 (sr c0)
      in CheckForPendingInterrupt
           (s\<lparr>cop0_regs := c0\<lparr>sr := bf_set 0 6 ((mode_bits AND 0x30) OR drop_bit 2 mode_bits) (sr c0)\<rparr>\<rparr>))"

definition exec_cop0 :: "u32 \<Rightarrow> 'a bus_state_scheme \<Rightarrow> 'a bus_state_scheme" where
  "exec_cop0 w s =
     (if InUserMode s \<and> \<not> sr_CU0 (sr (cop0_regs s)) then RaiseException Exc_CpU s
      else if IsCommonInstruction w then
        (case CommonOp w of
           Cop_mfcn \<Rightarrow> WriteRegDelayed (inst_rt w) (ReadCop0Reg (inst_rd w) s) s
         | Cop_mtcn \<Rightarrow> WriteCop0Reg (inst_rd w) (rt_val w s) s
         | _ \<Rightarrow> s)
      else
        (case Cop0Op w of
           Cop0_rfe \<Rightarrow> exec_rfe s
         | Cop0_tlbr \<Rightarrow> RaiseException Exc_RI s | Cop0_tlbwi \<Rightarrow> RaiseException Exc_RI s
         | Cop0_tlbwr \<Rightarrow> RaiseException Exc_RI s | Cop0_tlbp \<Rightarrow> RaiseException Exc_RI s
         | Cop0_other \<Rightarrow> s))"

definition exec_cop2 :: "('a bus_state_scheme) bus_env \<Rightarrow> u32 \<Rightarrow> 'a bus_state_scheme \<Rightarrow> 'a bus_state_scheme" where
  "exec_cop2 env w s =
     (if \<not> sr_CE2 (sr (cop0_regs s)) then RaiseException Exc_CpU s
      else let s1 = StallUntilGTEComplete s
           in if IsCommonInstruction w then
                (case CommonOp w of
                   Cop_cfcn \<Rightarrow> WriteRegDelayed (inst_rt w) (gte_ReadRegister (inst_rd w + 32) s1) s1
                 | Cop_ctcn \<Rightarrow> gte_WriteRegister (inst_rd w + 32) (rt_val w s1) s1
                 | Cop_mfcn \<Rightarrow> WriteRegDelayed (inst_rt w) (gte_ReadRegister (inst_rd w) s1) s1
                 | Cop_mtcn \<Rightarrow> gte_WriteRegister (inst_rd w) (rt_val w s1) s1
                 | Cop_other \<Rightarrow> s1)
              else gte_ExecuteInstruction w s1)"

definition exec_lwc2 :: "('a bus_state_scheme) bus_env \<Rightarrow> u32 \<Rightarrow> 'a bus_state_scheme \<Rightarrow> 'a bus_state_scheme" where
  "exec_lwc2 env w s =
     (if \<not> sr_CE2 (sr (cop0_regs s)) then RaiseException Exc_CpU s
      else (let (r, t) = ReadMemory env AccWord (effective_address w s) s
            in case r of None \<Rightarrow> t | Some v \<Rightarrow> gte_WriteRegister (inst_rt w) v (StallUntilGTEComplete t)))"

definition exec_swc2 :: "('a bus_state_scheme) bus_env \<Rightarrow> u32 \<Rightarrow> 'a bus_state_scheme \<Rightarrow> 'a bus_state_scheme" where
  "exec_swc2 env w s =
     (if \<not> sr_CE2 (sr (cop0_regs s)) then RaiseException Exc_CpU s
      else let s1 = StallUntilGTEComplete s
           in snd (WriteMemory env AccWord (effective_address w s1) (gte_ReadRegister (inst_rt w) s1) s1))"

subsection \<open>ExecuteInstruction\<close>

text \<open>
  An instruction word with a reserved opcode is read again from memory, and if it has changed
  the execution restarts with the new word. Fuel 2 is enough: the second time the word is what
  memory holds (\<open>execute_from_fuel\<close>).
\<close>

primrec execute_from :: "nat \<Rightarrow> ('a bus_state_scheme) bus_env \<Rightarrow> bool \<Rightarrow> 'a bus_state_scheme \<Rightarrow> 'a bus_state_scheme" where
  "execute_from 0 env dbg = (\<lambda>s. s)"
| "execute_from (Suc n) env dbg = (\<lambda>s.
     let w = current_instruction s
     in if w = 0 then s
        else case inst_op w of
          Op_funct \<Rightarrow> exec_funct w s
        | Op_lui \<Rightarrow> exec_imm w s | Op_andi \<Rightarrow> exec_imm w s | Op_ori \<Rightarrow> exec_imm w s | Op_xori \<Rightarrow> exec_imm w s
        | Op_addi \<Rightarrow> exec_addi w s
        | Op_addiu \<Rightarrow> exec_imm w s | Op_slti \<Rightarrow> exec_imm w s | Op_sltiu \<Rightarrow> exec_imm w s
        | Op_lb \<Rightarrow> exec_load env dbg AccByte w s
        | Op_lh \<Rightarrow> exec_load env dbg AccHalfWord w s
        | Op_lw \<Rightarrow> exec_load env dbg AccWord w s
        | Op_lbu \<Rightarrow> exec_load env dbg AccByte w s
        | Op_lhu \<Rightarrow> exec_load env dbg AccHalfWord w s
        | Op_lwl \<Rightarrow> exec_load_unaligned env dbg w s
        | Op_lwr \<Rightarrow> exec_load_unaligned env dbg w s
        | Op_sb \<Rightarrow> exec_store env dbg AccByte w s
        | Op_sh \<Rightarrow> exec_store env dbg AccHalfWord w s
        | Op_sw \<Rightarrow> exec_store env dbg AccWord w s
        | Op_swl \<Rightarrow> exec_store_unaligned env dbg w s
        | Op_swr \<Rightarrow> exec_store_unaligned env dbg w s
        | Op_j \<Rightarrow> exec_jump w s | Op_jal \<Rightarrow> exec_jump w s
        | Op_beq \<Rightarrow> exec_branch w s | Op_bne \<Rightarrow> exec_branch w s | Op_bgtz \<Rightarrow> exec_branch w s
        | Op_blez \<Rightarrow> exec_branch w s
        | Op_b \<Rightarrow> exec_b w s
        | Op_cop0 \<Rightarrow> exec_cop0 w s
        | Op_cop2 \<Rightarrow> exec_cop2 env w s
        | Op_lwc2 \<Rightarrow> exec_lwc2 env w s
        | Op_swc2 \<Rightarrow> exec_swc2 env w s
        | Op_cop1 \<Rightarrow> s | Op_cop3 \<Rightarrow> s | Op_lwc0 \<Rightarrow> s | Op_lwc1 \<Rightarrow> s | Op_lwc3 \<Rightarrow> s
        | Op_swc0 \<Rightarrow> s | Op_swc1 \<Rightarrow> s | Op_swc3 \<Rightarrow> s
        | Op_reserved \<Rightarrow>
            (case SafeReadInstruction (current_instruction_pc s) s of
               Some ram_value \<Rightarrow>
                 if ram_value \<noteq> current_instruction s
                 then execute_from n env dbg (s\<lparr>current_instruction := ram_value\<rparr>)
                 else RaiseException Exc_RI s
             | None \<Rightarrow> RaiseException Exc_RI s))"

definition ExecuteInstruction :: "('a bus_state_scheme) bus_env \<Rightarrow> bool \<Rightarrow> 'a bus_state_scheme \<Rightarrow> 'a bus_state_scheme" where
  "ExecuteInstruction = execute_from 2"

subsection \<open>The interpreters\<close>

definition DispatchInterrupt :: "('a bus_state_scheme) bus_env \<Rightarrow> 'a bus_state_scheme \<Rightarrow> 'a bus_state_scheme" where
  "DispatchInterrupt env s =
     (let next = (case SafeReadInstruction (pc_of s) s of
                    Some w \<Rightarrow> w
                  | None \<Rightarrow> if drop_bit 29 (pc_of s) \<in> {0, 4, 5} then 0 else next_instruction s);
          s1 = s\<lparr>next_instruction := next\<rparr>;
          s2 = (if inst_op next = Op_cop2 \<and> \<not> IsCommonInstruction next
                then gte_ExecuteInstruction next (StallUntilGTEComplete s1) else s1)
      in RaiseException_from
           (MakeValueForException Exc_INT (next_instruction_is_branch_delay_slot s2) (branch_was_taken s2)
              (inst_cop_n (next_instruction s2))) (pc_of s2) s2)"

definition start_instruction :: "u32 \<Rightarrow> u32 \<Rightarrow> bool \<Rightarrow> 'a cpu_state_scheme \<Rightarrow> 'a cpu_state_scheme" where
  "start_instruction w pc delay_slot s =
     s\<lparr>current_instruction := w, current_instruction_pc := pc,
       current_instruction_in_branch_delay_slot := delay_slot,
       current_instruction_was_branch_taken := branch_was_taken s,
       branch_was_taken := False, exception_raised := False\<rparr>"

text \<open>One round of the loop of \<open>ExecuteImpl\<close>.\<close>

definition cpu_step :: "('a bus_state_scheme) bus_env \<Rightarrow> bool \<Rightarrow> 'a bus_state_scheme \<Rightarrow> 'a bus_state_scheme" where
  "cpu_step env dbg s =
     (let s1 = (if HasPendingInterrupt s \<and> \<not> interrupt_delay s then DispatchInterrupt env s else s);
          s2 = (if dbg then Cop0ExecutionBreakpointCheck s1 else s1);
          s3 = (AddPendingTicks 1 s2)\<lparr>interrupt_delay := False\<rparr>;
          s4 = (start_instruction (next_instruction s3) (pc_of s3) (next_instruction_is_branch_delay_slot s3) s3)
                 \<lparr>next_instruction_is_branch_delay_slot := False\<rparr>;
          (fetched, s5) = FetchInstruction s4
      in if \<not> fetched then s5 else UpdateLoadDelay (ExecuteInstruction env dbg s5))"

partial_function (option) execute_slice :: "('a bus_state_scheme) bus_env \<Rightarrow> bool \<Rightarrow> 'a bus_state_scheme
    \<Rightarrow> 'a bus_state_scheme option" where
  "execute_slice env dbg s =
     (if pending_ticks s < downcount s then execute_slice env dbg (cpu_step env dbg s) else Some s)"

partial_function (option) execute_frames :: "('a bus_state_scheme) bus_env \<Rightarrow> (nat \<Rightarrow> tick_count \<Rightarrow> tick_count
    \<Rightarrow> 'a bus_state_scheme \<Rightarrow> 'a bus_state_scheme) \<Rightarrow> bool \<Rightarrow> 'a bus_state_scheme \<Rightarrow> 'a bus_state_scheme option" where
  "execute_frames env callback dbg s =
     (if frame_done s then Some s
      else Option.bind (execute_slice env dbg (UpdateCPUDowncount s))
             (\<lambda>t. Option.bind (RunEvents callback t) (execute_frames env callback dbg)))"

definition ExecuteImpl :: "('a bus_state_scheme) bus_env \<Rightarrow> (nat \<Rightarrow> tick_count \<Rightarrow> tick_count
    \<Rightarrow> 'a bus_state_scheme \<Rightarrow> 'a bus_state_scheme) \<Rightarrow> bool \<Rightarrow> 'a bus_state_scheme \<Rightarrow> 'a bus_state_scheme option" where
  "ExecuteImpl env callback dbg s =
     execute_frames env callback dbg (s\<lparr>using_interpreter := True, frame_done := False\<rparr>)"

text \<open>The cached interpreter runs the decoded instructions of a block.\<close>

record code_block_instruction =
  cbi_instruction :: u32
  cbi_pc :: u32
  cbi_is_branch_instruction :: bool
  cbi_is_direct_branch_instruction :: bool
  cbi_is_unconditional_branch_instruction :: bool
  cbi_is_branch_delay_slot :: bool
  cbi_is_load_instruction :: bool
  cbi_is_store_instruction :: bool
  cbi_has_load_delay :: bool

fun interpret_block :: "('a bus_state_scheme) bus_env \<Rightarrow> code_block_instruction list \<Rightarrow> 'a bus_state_scheme \<Rightarrow> 'a bus_state_scheme" where
  "interpret_block env [] s = s"
| "interpret_block env (cbi # cbis) s =
     (let s1 = start_instruction (cbi_instruction cbi) (cbi_pc cbi) (cbi_is_branch_delay_slot cbi) (AddPendingTicks 1 s);
          s2 = UpdateLoadDelay (ExecuteInstruction env False (advance_pc s1))
      in if exception_raised s2 then s2 else interpret_block env cbis s2)"

definition InterpretCachedBlock :: "('a bus_state_scheme) bus_env \<Rightarrow> u32 \<Rightarrow> code_block_instruction list
    \<Rightarrow> 'a bus_state_scheme \<Rightarrow> 'a bus_state_scheme" where
  "InterpretCachedBlock env block_pc instructions s =
     (interpret_block env instructions (set_reg reg_npc (block_pc + 4) s))
       \<lparr>next_instruction_is_branch_delay_slot := False\<rparr>"

text \<open>One round of the loop of \<open>InterpretUncachedBlock\<close>: \<open>Inl\<close> when the loop is left.\<close>

definition uncached_step :: "('a bus_state_scheme) bus_env \<Rightarrow> bool \<Rightarrow> 'a bus_state_scheme
    \<Rightarrow> 'a bus_state_scheme + bool \<times> 'a bus_state_scheme" where
  "uncached_step env in_branch_delay_slot s =
     (let s1 = AddPendingTicks 1 s;
          s2 = (start_instruction (next_instruction s1) (pc_of s1) (next_instruction_is_branch_delay_slot s1) s1)
                 \<lparr>next_instruction_is_branch_delay_slot := False\<rparr>;
          branch = IsBranchInstruction (current_instruction s2);
          (fetched, s3) = (if \<not> current_instruction_in_branch_delay_slot s2 \<or> branch
                           then FetchInstructionForInterpreterFallback s2
                           else (True, set_reg reg_pc (npc_of s2) s2))
      in if \<not> fetched then Inl s3
         else let s4 = UpdateLoadDelay (ExecuteInstruction env False s3)
              in if exception_raised s4 \<or> (\<not> branch \<and> in_branch_delay_slot)
                   \<or> IsExitBlockInstruction (current_instruction s4)
                 then Inl s4 else Inr (branch, s4))"

partial_function (option) uncached_loop :: "('a bus_state_scheme) bus_env \<Rightarrow> bool \<Rightarrow> 'a bus_state_scheme
    \<Rightarrow> 'a bus_state_scheme option" where
  "uncached_loop env in_branch_delay_slot s =
     (case uncached_step env in_branch_delay_slot s of
        Inl t \<Rightarrow> Some t | Inr bt \<Rightarrow> uncached_loop env (fst bt) (snd bt))"

definition InterpretUncachedBlock :: "('a bus_state_scheme) bus_env \<Rightarrow> 'a bus_state_scheme \<Rightarrow> 'a bus_state_scheme option" where
  "InterpretUncachedBlock env s =
     (let (fetched, t) = FetchInstructionForInterpreterFallback (set_reg reg_npc (pc_of s) s)
      in if fetched then uncached_loop env False t else Some t)"

end
