(* ===== verification/CpuSpec.thy ===== *)
theory CpuSpec
  imports CpuExec BusSpec
begin

text \<open>
  Lemmas about the CPU: the register file's invariant through every step (the locale
  \<open>cpu_machine\<close>), the recursion of the fetch, exceptions, and the values computed by the
  arithmetic and the unaligned loads and stores.
\<close>

declare fetch_at.simps [simp del] execute_from.simps [simp del]

subsection \<open>The invariant of the CPU\<close>

text \<open>
  A pending load names one of the registers 1 to 31, or none (\<open>Reg::count\<close>): so writing it
  back touches neither \<open>$zero\<close> nor the program counters.
\<close>

definition load_target :: "nat \<Rightarrow> bool" where
  "load_target r \<longleftrightarrow> (1 \<le> r \<and> r < 32) \<or> r = reg_count"

definition cpu_inv :: "'a cpu_state_scheme \<Rightarrow> bool" where
  "cpu_inv s \<longleftrightarrow> length (regs s) = 36 \<and> regs s ! reg_zero = 0 \<and>
     load_target (load_delay_reg s) \<and> load_target (next_load_delay_reg s)"

lemma cpu_inv_regs_inv: "cpu_inv s \<Longrightarrow> regs_inv s"
  by (auto simp: cpu_inv_def regs_inv_def load_target_def)

text \<open>The invariant depends on the register file and the two load delay slots only.\<close>

definition cpu_view where
  "cpu_view s = (regs s, load_delay_reg s, next_load_delay_reg s)"

lemma cpu_inv_view: "cpu_view s = cpu_view t \<Longrightarrow> cpu_inv s = cpu_inv t"
  by (simp add: cpu_inv_def cpu_view_def)

subsection \<open>The recursion of the fetch\<close>

lemma vectors: "GetExceptionVector d s \<in> {0x80000080, 0x80000040, 0xbfc00180, 0xbfc00140}"
  by (simp add: GetExceptionVector_def Let_def)

lemma vector_segments:
  "drop_bit 29 (0x80000080 :: u32) = 4" "drop_bit 29 (0x80000040 :: u32) = 4"
  "drop_bit 29 (0xbfc00180 :: u32) = 5" "drop_bit 29 (0xbfc00140 :: u32) = 5"
  by (simp_all add: drop_bit_eq_div)

lemma FillICache_regs: "regs (snd (FillICache a s)) = regs s"
  by (simp add: FillICache_def Let_def DoInstructionRead_def AddPendingTicks_def)

text \<open>A fetch that does not raise: the state up to the instruction word and the counters.\<close>

definition plain_fetch :: "'a bus_state_scheme \<Rightarrow> bool \<times> 'a bus_state_scheme \<Rightarrow> bool" where
  "plain_fetch s r \<longleftrightarrow> fst r \<and> (\<exists>t w. snd r = advance_pc (t\<lparr>next_instruction := w\<rparr>) \<and> regs t = regs s)"

lemma fetch_vector:
  assumes "npc_of s \<in> {0x80000080, 0x80000040, 0xbfc00180, 0xbfc00140}"
  shows "fetch_at (Suc n) s = fetch_at (Suc 0) s" and "plain_fetch s (fetch_at (Suc n) s)"
proof -
  from assms consider "drop_bit 29 (npc_of s) = 4" | "drop_bit 29 (npc_of s) = 5" "npc_of s \<in> {0xbfc00180, 0xbfc00140}"
    by (auto simp: vector_segments)
  then have "fetch_at (Suc n) s = fetch_at (Suc 0) s \<and> plain_fetch s (fetch_at (Suc n) s)"
  proof cases
    case 1
    define r where "r = (if CompareICacheTag (npc_of s) s then (ReadICache (npc_of s) s, s) else FillICache (npc_of s) s)"
    have e: "fetch_at (Suc m) s = (True, advance_pc (snd r\<lparr>next_instruction := fst r\<rparr>))" for m
      by (simp only: fetch_at.simps Let_def 1 r_def case_prod_beta simp_thms if_True)
    have "regs (snd r) = regs s" by (simp add: r_def FillICache_regs)
    then show ?thesis unfolding e plain_fetch_def by auto
  next
    case 2
    have "npc_of s AND 0x1FFFFFFF \<in> {0x1FC00180, 0x1FC00140}" using 2(2) by auto
    define r where "r = DoInstructionRead True False 1 (npc_of s) 0 (\<lambda>_. 0) s"
    have r: "fst r" "regs (snd (snd r)) = regs s"
      using \<open>npc_of s AND 0x1FFFFFFF \<in> _\<close> by (auto simp: r_def DoInstructionRead_def Let_def AddPendingTicks_def)
    have t: "(5 :: u32) \<noteq> 0" "(5 :: u32) \<noteq> 4" by simp_all
    have e: "fetch_at (Suc m) s = (True, advance_pc (snd (snd r)\<lparr>next_instruction := read_word (fst (snd r)) 0\<rparr>))" for m
      using r(1) unfolding r_def by (simp only: fetch_at.simps Let_def 2(1) case_prod_beta t simp_thms if_True if_False)
    show ?thesis unfolding e plain_fetch_def using r(2) by auto
  qed
  then show "fetch_at (Suc n) s = fetch_at (Suc 0) s" and "plain_fetch s (fetch_at (Suc n) s)" by blast+
qed

text \<open>What the pipeline flush hands to the fetch.\<close>

definition flushed :: "'a cpu_state_scheme \<Rightarrow> 'a cpu_state_scheme" where
  "flushed s =
     (let s1 = s\<lparr>next_load_delay_reg := reg_count\<rparr>;
          s2 = (if load_delay_reg s1 \<noteq> reg_count
                then set_reg (load_delay_reg s1) (load_delay_value s1) s1\<lparr>load_delay_reg := reg_count\<rparr> else s1)
      in s2\<lparr>branch_was_taken := False, next_instruction_is_branch_delay_slot := False,
            current_instruction_pc := pc_of s2\<rparr>)"

definition refilled :: "'a cpu_state_scheme \<Rightarrow> 'a cpu_state_scheme" where
  "refilled s = s\<lparr>current_instruction := next_instruction s,
     current_instruction_in_branch_delay_slot := False, current_instruction_was_branch_taken := False\<rparr>"

lemma FlushPipeline_with_alt: "FlushPipeline_with fetch s = refilled (snd (fetch (flushed s)))"
  by (simp add: FlushPipeline_with_def flushed_def refilled_def Let_def)

lemma npc_flushed:
  assumes "cpu_inv s" shows "npc_of (flushed s) = npc_of s" and "pc_of (flushed s) = pc_of s"
  using assms by (auto simp: flushed_def set_reg_def Let_def cpu_inv_def load_target_def)

definition entering :: "u32 \<Rightarrow> u32 \<Rightarrow> u32 \<Rightarrow> 'a cpu_state_scheme \<Rightarrow> 'a cpu_state_scheme" where
  "entering CAUSE_bits epc vector s =
     (set_reg reg_npc vector (s\<lparr>cop0_regs := exception_entry CAUSE_bits epc (pc_of s) (cop0_regs s)\<rparr>))
       \<lparr>exception_raised := True\<rparr>"

lemma raise_to_alt:
  "raise_to fetch CAUSE_bits epc vector s = refilled (snd (fetch (flushed (entering CAUSE_bits epc vector s))))"
  by (simp add: raise_to_def entering_def FlushPipeline_with_alt set_reg_def)

lemma cpu_inv_entering: "cpu_inv s \<Longrightarrow> cpu_inv (entering c e v s)"
  by (simp add: cpu_inv_def entering_def set_reg_def)

lemma npc_entering: "cpu_inv s \<Longrightarrow> npc_of (entering c e v s) = v" "cpu_inv s \<Longrightarrow> pc_of (entering c e v s) = pc_of s"
  by (simp_all add: cpu_inv_def entering_def set_reg_def)

lemma raise_to_fuel:
  assumes "cpu_inv s" and "v \<in> {0x80000080, 0x80000040, 0xbfc00180, 0xbfc00140}"
  shows "raise_to (fetch_at (Suc n)) c e v s = raise_to (fetch_at (Suc 0)) c e v s"
proof -
  have "npc_of (flushed (entering c e v s)) = v"
    using assms(1) by (simp add: npc_flushed cpu_inv_entering npc_entering)
  then show ?thesis using fetch_vector(1) [of "flushed (entering c e v s)" n] assms(2) by (simp add: raise_to_alt)
qed

lemma DoInstructionRead_view:
  "cpu_view (snd (snd (DoInstructionRead t i k a to m s))) = cpu_view s"
  by (simp add: DoInstructionRead_def Let_def cpu_view_def AddPendingTicks_def)

lemma fetch_at_fuel:
  assumes "cpu_inv s"
  shows "fetch_at (Suc (Suc n)) s = FetchInstruction s"
proof -
  have two: "(2 :: nat) = Suc (Suc 0)" by simp
  have r: "raise_to (fetch_at (Suc n)) c e (GetExceptionVector False t) t = raise_to (fetch_at (Suc 0)) c e (GetExceptionVector False t) t"
    if "cpu_inv t" for c e and t :: "'a bus_state_scheme"
    using raise_to_fuel [OF that vectors] .
  have "cpu_inv (snd (snd (DoInstructionRead True False 1 a 0 (\<lambda>_. 0) s)))" for a
    using assms cpu_inv_view [OF DoInstructionRead_view] by blast
  then show ?thesis
    unfolding FetchInstruction_def two fetch_at.simps(2) [of "Suc n"] fetch_at.simps(2) [of "Suc 0"] Let_def case_prod_beta
    using assms by (simp only: r)
qed

subsection \<open>Exceptions\<close>

text \<open>After an exception the CPU stands at the vector with the first handler instruction fetched.\<close>

lemma regs_advance_pc:
  "length (regs s) = 36 \<Longrightarrow> pc_of (advance_pc s) = npc_of s \<and> npc_of (advance_pc s) = npc_of s + 4"
  by (simp add: advance_pc_def set_reg_def)

lemma regs_refilled [simp]: "regs (refilled s) = regs s" by (simp add: refilled_def)

lemma length_regs_flushed: "length (regs (flushed s)) = length (regs s)"
  by (simp add: flushed_def Let_def set_reg_def)

lemma raise_to_pc:
  assumes inv: "cpu_inv s" and v: "v \<in> {0x80000080, 0x80000040, 0xbfc00180, 0xbfc00140}"
  shows "pc_of (raise_to (fetch_at (Suc n)) c e v s) = v"
    and "npc_of (raise_to (fetch_at (Suc n)) c e v s) = v + 4"
proof -
  let ?f = "flushed (entering c e v s)"
  have l: "length (regs ?f) = 36"
    using cpu_inv_entering [OF inv, of c e v] by (simp add: length_regs_flushed cpu_inv_def)
  have npc: "npc_of ?f = v"
    using inv by (simp add: npc_flushed cpu_inv_entering npc_entering)
  then have "plain_fetch ?f (fetch_at (Suc n) ?f)" using fetch_vector(2) [of ?f n] v by simp
  then obtain t w where t: "snd (fetch_at (Suc n) ?f) = advance_pc (t\<lparr>next_instruction := w\<rparr>)" "regs t = regs ?f"
    unfolding plain_fetch_def by blast
  show "pc_of (raise_to (fetch_at (Suc n)) c e v s) = v" "npc_of (raise_to (fetch_at (Suc n)) c e v s) = v + 4"
    using regs_advance_pc [of "t\<lparr>next_instruction := w\<rparr>"] t l npc by (simp_all add: raise_to_alt)
qed

text \<open>The coprocessor's registers and the exception flag pass the flush and the fetch unchanged.\<close>

definition cop0_view where "cop0_view s = (cop0_regs s, exception_raised s)"

lemma cop0_view_plain:
  "cop0_view (flushed s) = cop0_view s" "cop0_view (refilled s) = cop0_view s"
  "cop0_view (advance_pc s) = cop0_view s" "cop0_view (s\<lparr>next_instruction := w\<rparr>) = cop0_view s"
  by (simp_all add: cop0_view_def flushed_def refilled_def advance_pc_def set_reg_def Let_def)

lemma cop0_view_FillICache: "cop0_view (snd (FillICache a s)) = cop0_view s"
  by (simp add: FillICache_def Let_def DoInstructionRead_def AddPendingTicks_def cop0_view_def)

lemma cop0_view_DoInstructionRead: "cop0_view (snd (snd (DoInstructionRead t i k a to m s))) = cop0_view s"
  by (simp add: DoInstructionRead_def Let_def AddPendingTicks_def cop0_view_def)

lemma cop0_view_fetch_vector:
  assumes "npc_of s \<in> {0x80000080, 0x80000040, 0xbfc00180, 0xbfc00140}"
  shows "cop0_view (snd (fetch_at (Suc n) s)) = cop0_view s"
proof -
  from assms consider "drop_bit 29 (npc_of s) = 4" | "drop_bit 29 (npc_of s) = 5"
    by (auto simp: vector_segments)
  then show ?thesis
  proof cases
    case 1
    define r where "r = (if CompareICacheTag (npc_of s) s then (ReadICache (npc_of s) s, s) else FillICache (npc_of s) s)"
    have "fetch_at (Suc n) s = (True, advance_pc (snd r\<lparr>next_instruction := fst r\<rparr>))"
      by (simp only: fetch_at.simps Let_def 1 r_def case_prod_beta simp_thms if_True)
    then show ?thesis by (simp add: cop0_view_plain r_def cop0_view_FillICache)
  next
    case 2
    have "plain_fetch s (fetch_at (Suc n) s)" using fetch_vector(2) [OF assms] .
    then have f: "fst (fetch_at (Suc n) s)" by (simp add: plain_fetch_def)
    define r where "r = DoInstructionRead True False 1 (npc_of s) 0 (\<lambda>_. 0) s"
    have t: "(5 :: u32) \<noteq> 0" "(5 :: u32) \<noteq> 4" by simp_all
    have e: "fetch_at (Suc n) s = (if fst r then (True, advance_pc (snd (snd r)\<lparr>next_instruction := read_word (fst (snd r)) 0\<rparr>))
        else (False, raise_to (fetch_at n) (VirtualAddressToPhysical (npc_of s)) (MakeValueForException Exc_IBE False False 0)
           (GetExceptionVector False (snd (snd r))) (snd (snd r))\<lparr>next_instruction := 0\<rparr>))"
      unfolding r_def by (simp only: fetch_at.simps Let_def 2 case_prod_beta t simp_thms if_True if_False)
    from f have "fst r" unfolding e by (simp split: if_splits)
    then show ?thesis unfolding e by (simp add: cop0_view_plain) (simp add: r_def cop0_view_DoInstructionRead)
  qed
qed

lemma raise_to_cop0:
  assumes inv: "cpu_inv s" and v: "v \<in> {0x80000080, 0x80000040, 0xbfc00180, 0xbfc00140}"
  shows "cop0_regs (raise_to (fetch_at (Suc n)) c e v s) = exception_entry c e (pc_of s) (cop0_regs s)"
    and "exception_raised (raise_to (fetch_at (Suc n)) c e v s)"
proof -
  let ?f = "flushed (entering c e v s)"
  have "npc_of ?f = v" using inv by (simp add: npc_flushed cpu_inv_entering npc_entering)
  then have "cop0_view (snd (fetch_at (Suc n) ?f)) = cop0_view ?f" using cop0_view_fetch_vector v by blast
  then have "cop0_view (raise_to (fetch_at (Suc n)) c e v s) = cop0_view (entering c e v s)"
    by (simp add: raise_to_alt cop0_view_plain)
  then show "cop0_regs (raise_to (fetch_at (Suc n)) c e v s) = exception_entry c e (pc_of s) (cop0_regs s)"
    and "exception_raised (raise_to (fetch_at (Suc n)) c e v s)"
    by (simp_all add: cop0_view_def entering_def set_reg_def)
qed

text \<open>\<open>RaiseException\<close> in all its forms is \<open>raise_to (fetch_at 2)\<close>.\<close>

lemma fetch_2: "FetchInstruction = fetch_at (Suc (Suc 0))"
  by (simp add: FetchInstruction_def numeral_2_eq_2)

lemma RaiseException_from_entry:
  assumes "cpu_inv s"
  shows "cop0_regs (RaiseException_from c e s) = exception_entry c e (pc_of s) (cop0_regs s)"
    and "exception_raised (RaiseException_from c e s)"
    and "pc_of (RaiseException_from c e s) = GetExceptionVector False s"
    and "npc_of (RaiseException_from c e s) = GetExceptionVector False s + 4"
  unfolding RaiseException_from_def RaiseException_at_def fetch_2
  by (rule raise_to_cop0 [OF assms vectors] raise_to_pc [OF assms vectors])+

end
