(* ===== verification/CpuMachine.thy ===== *)
theory CpuMachine
  imports CpuSpec
begin

text \<open>
  What a step of the CPU preserves. The locale \<open>bus_devices\<close> is the contract between the bus
  and the devices behind it: a property of the machine that every device function preserves and
  that does not depend on the memories, the caches and the bus's own registers is preserved by
  every access. \<open>cpu_machine\<close> adds the CPU's own updates, and then every step of the
  interpreters preserves the property.
\<close>

subsection \<open>The devices behind the bus\<close>

locale bus_devices =
  fixes env :: "('a bus_state_scheme) bus_env" and P :: "'a bus_state_scheme \<Rightarrow> bool"
  assumes pad: "P s \<Longrightarrow> P (snd (pad_ReadRegister i s))" "P s \<Longrightarrow> P (pad_WriteRegister i v s)"
    and sio: "P s \<Longrightarrow> P (sio_WriteRegister i v s)"
    and cdrom: "P s \<Longrightarrow> P (snd (cdrom_ReadRegister env i s))" "P s \<Longrightarrow> P (cdrom_WriteRegister env i b s)"
    and gpu: "P s \<Longrightarrow> P (snd (gpu_ReadRegister env i s))" "P s \<Longrightarrow> P (gpu_WriteRegister env i v s)"
    and mdec: "P s \<Longrightarrow> P (snd (io_mdec_ReadRegister env i s))" "P s \<Longrightarrow> P (io_mdec_WriteRegister env i v s)"
    and spu: "P s \<Longrightarrow> P (snd (io_spu_ReadRegister env i s))" "P s \<Longrightarrow> P (io_spu_WriteRegister env i h s)"
    and timers: "P s \<Longrightarrow> P (snd (timers_ReadRegister (crtc_scanline_pending env) (crtc_synchronize env) i s))"
      "P s \<Longrightarrow> P (timers_WriteRegister (crtc_scanline_pending env) (crtc_synchronize env) i v s)"
    and irq: "P s \<Longrightarrow> P (irq_WriteRegister i v s)"
    and dma: "P s \<Longrightarrow> P (dma_WriteRegister (dma_devs env) i v s)"
    and code_cache: "P s \<Longrightarrow> P (InvalidateBlocksWithPageIndex env page s)"
    and memories: "P s \<Longrightarrow> P (s\<lparr>g_ram := m\<rparr>)" "P s \<Longrightarrow> P (s\<lparr>dcache := m\<rparr>)" "P s \<Longrightarrow> P (s\<lparr>icache_data := m\<rparr>)"
    and tags: "P s \<Longrightarrow> length ts = length (icache_tags s) \<Longrightarrow> P (s\<lparr>icache_tags := ts\<rparr>)"
    and cache_register: "P s \<Longrightarrow> P (s\<lparr>cache_control := v\<rparr>)"
    and memctrl: "P s \<Longrightarrow> length rs = length (m_MEMCTRL s) \<Longrightarrow> P (s\<lparr>m_MEMCTRL := rs\<rparr>)"
    and access_times: "P s \<Longrightarrow> P (s\<lparr>m_bios_access_time := t1, m_cdrom_access_time := t2, m_spu_access_time := t3\<rparr>)"
    and ram_size: "P s \<Longrightarrow> P (s\<lparr>m_ram_size_reg := v\<rparr>)"
    and tty: "P s \<Longrightarrow> P (s\<lparr>m_tty_line_buffer := l\<rparr>)"
    and bus_ticks: "P s \<Longrightarrow> P (AddPendingTicks n s)"
begin

lemma write_ram: "P s \<Longrightarrow> P (write_ram env sz skip a v s)"
  by (simp add: write_ram_def Let_def memories code_cache)

lemma ram_access: "P s \<Longrightarrow> P (snd (snd (DoRAMAccess env ty sz skip a v s)))"
  by (simp add: DoRAMAccess_def Let_def write_ram)

lemma recalculate: "P s \<Longrightarrow> P (RecalculateMemoryTimings s)"
  by (simp add: RecalculateMemoryTimings_def Let_def access_times)

lemma memory_control: "P s \<Longrightarrow> P (snd (snd (DoMemoryControlAccess ty sz a v s)))"
  by (simp add: DoMemoryControlAccess_def Let_def recalculate memctrl)

lemma half_regs:
  "(\<And>i s. P s \<Longrightarrow> P (snd (rd i s))) \<Longrightarrow> (\<And>i v s. P s \<Longrightarrow> P (wr i v s)) \<Longrightarrow> P s \<Longrightarrow>
    P (snd (snd (half_registers rd wr ty sz a v s)))"
  by (simp add: half_registers_def case_prod_beta)

lemma word_regs:
  "(\<And>i s. P s \<Longrightarrow> P (snd (rd i s))) \<Longrightarrow> (\<And>i v s. P s \<Longrightarrow> P (wr i v s)) \<Longrightarrow> P s \<Longrightarrow>
    P (snd (snd (word_registers rd wr ty sz a v s)))"
  by (simp add: word_registers_def case_prod_beta)

lemma cdrom_bytes: "P s \<Longrightarrow> P (snd (cdrom_read_bytes env n a s))" "P s \<Longrightarrow> P (cdrom_write_bytes env n a v s)"
  by (induction n arbitrary: a v s) (simp_all add: case_prod_beta cdrom)

lemma spu_access: "P s \<Longrightarrow> P (snd (snd (DoAccessSPU env ty sz a v s)))"
  by (cases sz) (simp_all add: DoAccessSPU_def case_prod_beta spu)

lemma areas:
  assumes "P s"
  shows "P (snd (snd (DoInvalidAccess ty a v s)))" "P (snd (snd (DoBIOSAccess ty sz a v s)))"
    "P (snd (snd (DoEXP1Access ty sz a v s)))" "P (snd (snd (DoEXP2Access ty sz a v s)))"
    "P (snd (snd (DoEXP3Access ty a v s)))" "P (snd (snd (DoUnknownEXPAccess ty a v s)))"
    "P (snd (snd (DoMemoryControl2Access ty a v s)))" "P (snd (snd (DoScratchpadAccess ty sz a v s)))"
  using assms
  by (simp_all add: DoInvalidAccess_def DoBIOSAccess_def DoEXP1Access_def DoEXP2Access_def DoEXP3Access_def
      DoUnknownEXPAccess_def DoMemoryControl2Access_def DoScratchpadAccess_def Let_def tty ram_size memories)

lemma registers:
  assumes "P s"
  shows "P (snd (snd (DoPadAccess ty sz a v s)))" "P (snd (snd (DoSIOAccess ty sz a v s)))"
    "P (snd (snd (DoCDROMAccess env ty sz a v s)))" "P (snd (snd (DoGPUAccess env ty sz a v s)))"
    "P (snd (snd (DoMDECAccess env ty sz a v s)))" "P (snd (snd (DoAccessInterruptController ty sz a v s)))"
    "P (snd (snd (DoAccessTimers env ty sz a v s)))" "P (snd (snd (DoDMAAccess env ty sz a v s)))"
  unfolding DoPadAccess_def DoSIOAccess_def DoGPUAccess_def DoMDECAccess_def DoAccessInterruptController_def
    DoAccessTimers_def DoDMAAccess_def
  using assms
  by (simp_all add: half_regs word_regs pad sio gpu mdec irq timers dma DoCDROMAccess_def case_prod_beta cdrom_bytes)

lemma either: "P (snd (snd x)) \<Longrightarrow> P (snd (snd y)) \<Longrightarrow> P (snd (snd (if b then x else y)))"
  by simp

lemma physical: "P s \<Longrightarrow> P (snd (snd (access_physical env ty sz a v s)))"
  unfolding access_physical_def by (intro either areas registers ram_access memory_control spu_access)

lemma write_icache: "P s \<Longrightarrow> P (WriteICache a v s)"
proof -
  assume p: "P s"
  let ?s = "s\<lparr>icache_tags := (icache_tags s)[GetICacheLine a := GetICacheTagForAddress a OR 0x0F]\<rparr>"
  have "P ?s" using p by (intro tags) simp_all
  from memories(3) [OF this] show ?thesis by (simp add: WriteICache_def)
qed

lemma access: "P s \<Longrightarrow> P (snd (snd (DoMemoryAccess env ty sz a v s)))"
  by (simp add: DoMemoryAccess_def Let_def physical write_icache areas cache_register WriteCacheControl_def)

lemma instruction_read: "P s \<Longrightarrow> P (snd (snd (DoInstructionRead t i n a to m s)))"
  by (simp add: DoInstructionRead_def Let_def bus_ticks)

lemma fill: "P s \<Longrightarrow> P (snd (FillICache a s))"
proof -
  assume p: "P s"
  define k where "k = unat (drop_bit 2 a AND 0x03)"
  define r where "r = DoInstructionRead True True (4 - k) (a AND (0xFFFFFFF0 OR word_of_nat (4 * k)))
    (word_of_nat (GetICacheLine a * 16 + 4 * k)) (icache_data s) s"
  let ?t = "snd (snd r)"
  have "P ?t" unfolding r_def by (rule instruction_read [OF p])
  then have "P (?t\<lparr>icache_data := fst (snd r)\<rparr>)" by (rule memories(3))
  from tags [OF this] show ?thesis
    unfolding FillICache_def Let_def case_prod_beta snd_conv k_def [symmetric] r_def [symmetric] by simp
qed

end

subsection \<open>The CPU in front of it\<close>

locale cpu_machine = bus_devices env P
  for env :: "('a bus_state_scheme) bus_env" and P :: "'a bus_state_scheme \<Rightarrow> bool" +
  assumes gte: "P s \<Longrightarrow> P (gte_WriteRegister r v s)" "P s \<Longrightarrow> P (gte_ExecuteInstruction w s)"
    and cop0: "P s \<Longrightarrow> P (s\<lparr>cop0_regs := c\<rparr>)"
    and pipeline: "P s \<Longrightarrow> P (s\<lparr>next_instruction := w\<rparr>)" "P s \<Longrightarrow> P (s\<lparr>current_instruction := w\<rparr>)"
      "P s \<Longrightarrow> P (s\<lparr>current_instruction_pc := w\<rparr>)"
      "P s \<Longrightarrow> P (s\<lparr>current_instruction_in_branch_delay_slot := b\<rparr>)"
      "P s \<Longrightarrow> P (s\<lparr>current_instruction_was_branch_taken := b\<rparr>)"
      "P s \<Longrightarrow> P (s\<lparr>next_instruction_is_branch_delay_slot := b\<rparr>)"
    and flags: "P s \<Longrightarrow> P (s\<lparr>branch_was_taken := b\<rparr>)" "P s \<Longrightarrow> P (s\<lparr>exception_raised := b\<rparr>)"
      "P s \<Longrightarrow> P (s\<lparr>interrupt_delay := b\<rparr>)" "P s \<Longrightarrow> P (s\<lparr>frame_done := b\<rparr>)"
      "P s \<Longrightarrow> P (s\<lparr>use_debug_dispatcher := b\<rparr>)"
    and counters: "P s \<Longrightarrow> P (s\<lparr>downcount := n\<rparr>)" "P s \<Longrightarrow> P (s\<lparr>pending_ticks := n\<rparr>)"
    and write_reg: "P s \<Longrightarrow> r < 32 \<Longrightarrow> P (WriteReg r v s)"
    and special_reg: "P s \<Longrightarrow> 32 \<le> r \<Longrightarrow> P (set_reg r v s)"
    and write_delayed: "P s \<Longrightarrow> r < 32 \<Longrightarrow> P (WriteRegDelayed r v s)"
    and load_delay: "P s \<Longrightarrow> P (UpdateLoadDelay s)"
    and flush_loads: "P s \<Longrightarrow> P (flushed s)"
begin

lemma advance: "P s \<Longrightarrow> P (advance_pc s)"
  by (simp add: advance_pc_def special_reg)

lemma refill: "P s \<Longrightarrow> P (refilled s)"
  by (simp add: refilled_def pipeline)

lemma enter: "P s \<Longrightarrow> P (entering c e v s)"
  by (simp add: entering_def flags special_reg cop0)

lemma raise_with:
  assumes f: "\<And>s. P s \<Longrightarrow> P (snd (f s))" shows "P s \<Longrightarrow> P (raise_to f c e v s)"
  by (simp add: raise_to_alt refill f flush_loads enter)

lemma fetch_level: "P s \<Longrightarrow> P (snd (fetch_at n s))"
proof (induction n arbitrary: s)
  case (Suc n)
  have "P (snd (if CompareICacheTag a s then (ReadICache a s, s) else FillICache a s))" for a
    by (simp add: fill Suc.prems)
  then show ?case
    by (simp add: fetch_at.simps Let_def case_prod_beta advance pipeline instruction_read Suc.prems raise_with Suc.IH)
qed (simp add: fetch_at.simps)

lemma fetch: "P s \<Longrightarrow> P (snd (FetchInstruction s))"
  by (simp add: FetchInstruction_def fetch_level)

lemma flush: "P s \<Longrightarrow> P (FlushPipeline s)"
  by (simp add: FlushPipeline_def FlushPipeline_with_alt refill fetch flush_loads)

lemma raise_at: "P s \<Longrightarrow> P (RaiseException_at c e v s)"
  unfolding RaiseException_at_def by (rule raise_with [OF fetch])

lemma raise_from: "P s \<Longrightarrow> P (RaiseException_from c e s)"
  by (simp add: RaiseException_from_def raise_at)

lemma raise: "P s \<Longrightarrow> P (RaiseException x s)"
  by (simp add: RaiseException_def raise_from)

lemma breakpoint: "P s \<Longrightarrow> P (DispatchCop0Breakpoint s)"
  by (simp add: DispatchCop0Breakpoint_def raise_at)

lemma set_pc: "P s \<Longrightarrow> P (SetPC v s)"
  by (simp add: SetPC_def flush special_reg)

lemma branch: "P s \<Longrightarrow> P (Branch v s)"
  by (simp add: Branch_def raise_from cop0 flags special_reg)

lemma fallback_fetch: "P s \<Longrightarrow> P (snd (FetchInstructionForInterpreterFallback s))"
  by (simp add: FetchInstructionForInterpreterFallback_def Let_def case_prod_beta advance pipeline raise_from instruction_read)

lemma alignment: "P s \<Longrightarrow> P (snd (DoAlignmentCheck ty sz a s))"
  by (simp add: DoAlignmentCheck_def raise cop0)

lemma read_memory: "P s \<Longrightarrow> P (snd (ReadMemory env sz a s))"
  by (simp add: ReadMemory_def case_prod_beta alignment access raise bus_ticks)

lemma write_memory: "P s \<Longrightarrow> P (snd (WriteMemory env sz a v s))"
  by (simp add: WriteMemory_def case_prod_beta alignment access raise)

lemma break_checks: "P s \<Longrightarrow> P (Cop0ExecutionBreakpointCheck s)" "P s \<Longrightarrow> P (Cop0DataBreakpointCheck ty a s)"
  by (simp_all add: Cop0ExecutionBreakpointCheck_def Cop0DataBreakpointCheck_def Let_def breakpoint
      set_dcic_bits_def cop0)

lemma data_breaks: "P s \<Longrightarrow> P (data_break dbg ty a s)"
  by (simp add: data_break_def break_checks)

lemma pending_interrupt: "P s \<Longrightarrow> P (CheckForPendingInterrupt s)"
  by (simp add: CheckForPendingInterrupt_def counters)

lemma stall: "P s \<Longrightarrow> P (StallUntilGTEComplete s)"
  by (simp add: StallUntilGTEComplete_def counters)

lemma write_cop0: "P s \<Longrightarrow> P (WriteCop0Reg r v s)"
  by (simp add: WriteCop0Reg_def Let_def cop0 pending_interrupt UpdateDebugDispatcherFlag_def
      ForceDispatcherExit_def counters flags)

text \<open>Every group of instructions.\<close>

lemma delay_slot: "P s \<Longrightarrow> P (delay_slot_next s)"
  by (simp add: delay_slot_next_def pipeline)

lemma alu:
  assumes "P s"
  shows "P (exec_shift w s)" "P (exec_logic w s)" "P (exec_add w s)" "P (exec_addu w s)" "P (exec_sub w s)"
    "P (exec_subu w s)" "P (exec_compare w s)" "P (exec_addi w s)" "P (exec_imm w s)"
  using assms
  by (simp_all only: exec_shift_def exec_logic_def exec_add_def exec_addu_def exec_sub_def exec_subu_def
      exec_compare_def exec_addi_def exec_imm_def Let_def write_reg inst_reg_less if_split raise simp_thms)

lemma hilo: "P s \<Longrightarrow> P (exec_hilo w s)"
  by (cases "inst_funct w") (simp_all add: exec_hilo_def write_reg special_reg)

lemma mult_div: "P s \<Longrightarrow> P (exec_mult w s)" "P s \<Longrightarrow> P (exec_div w s)"
  by (simp_all add: exec_mult_def set_hilo_def exec_div_def case_prod_beta special_reg)

lemma jump_register: "P s \<Longrightarrow> P (exec_jump_register w s)"
  by (simp add: exec_jump_register_def Let_def branch write_reg delay_slot)

lemma functs: "P s \<Longrightarrow> P (exec_funct w s)"
  by (cases "inst_funct w") (simp_all add: exec_funct_def alu hilo mult_div jump_register raise)

lemma after_read:
  "P s \<Longrightarrow> (\<And>v t. P t \<Longrightarrow> P (f v t)) \<Longrightarrow>
    P (case ReadMemory env sz a s of (r, t) \<Rightarrow> (case r of None \<Rightarrow> t | Some v \<Rightarrow> f v t))"
  using read_memory [of s sz a] by (auto split: prod.split option.split)

lemma loads: "P s \<Longrightarrow> P (exec_load env dbg sz w s)" "P s \<Longrightarrow> P (exec_load_unaligned env dbg w s)"
  unfolding exec_load_def exec_load_unaligned_def Let_def
  by (intro after_read data_breaks write_delayed inst_reg_less; assumption)+

lemma stores: "P s \<Longrightarrow> P (exec_store env dbg sz w s)" "P s \<Longrightarrow> P (exec_store_unaligned env dbg w s)"
  unfolding exec_store_def exec_store_unaligned_def Let_def
  by (intro after_read data_breaks write_memory; assumption)+

lemma branches:
  assumes "P s" shows "P (exec_jump w s)" "P (exec_branch w s)" "P (exec_b w s)"
  using assms
  by (simp_all only: exec_jump_def exec_branch_def exec_b_def branch_if_def Let_def if_split branch write_reg
      delay_slot simp_thms)

lemma coprocessors: "P s \<Longrightarrow> P (exec_cop0 w s)" "P s \<Longrightarrow> P (exec_cop2 env w s)"
  by (simp_all add: exec_cop0_def exec_cop2_def exec_rfe_def Let_def raise write_delayed write_cop0 pending_interrupt
      cop0 stall gte split: CopCommonInstruction.split Cop0Instruction.split)

lemma gte_memory: "P s \<Longrightarrow> P (exec_lwc2 env w s)" "P s \<Longrightarrow> P (exec_swc2 env w s)"
proof -
  assume p: "P s"
  have "P (case ReadMemory env AccWord a s of (r, t) \<Rightarrow> (case r of None \<Rightarrow> t
      | Some v \<Rightarrow> gte_WriteRegister (inst_rt w) v (StallUntilGTEComplete t)))" for a
    by (intro after_read gte stall p)
  then show "P (exec_lwc2 env w s)" by (simp add: exec_lwc2_def raise p)
  show "P (exec_swc2 env w s)" by (simp add: exec_swc2_def Let_def raise write_memory stall p)
qed

lemma execute_level: "P s \<Longrightarrow> P (execute_from n env dbg s)"
proof (induction n arbitrary: s)
  case (Suc n)
  have r: "P (case SafeReadInstruction a s of
      Some v \<Rightarrow> if v \<noteq> u then execute_from n env dbg (s\<lparr>current_instruction := v\<rparr>) else RaiseException Exc_RI s
    | None \<Rightarrow> RaiseException Exc_RI s)" for a u
    by (simp add: Suc raise pipeline split: option.split)
  show ?case
  proof (cases "current_instruction s = 0")
    case False
    then show ?thesis
      unfolding execute_from.simps Let_def if_not_P [OF False]
      by (cases "inst_op (current_instruction s)")
        (simp_all only: InstructionOp.case functs alu loads stores branches coprocessors gte_memory r Suc.prems)
  qed (simp add: execute_from.simps Suc.prems)
qed (simp add: execute_from.simps)

lemma execute: "P s \<Longrightarrow> P (ExecuteInstruction env dbg s)"
  by (simp add: ExecuteInstruction_def execute_level)

lemma dispatch_interrupt: "P s \<Longrightarrow> P (DispatchInterrupt env s)"
  by (simp add: DispatchInterrupt_def Let_def raise_from gte stall pipeline)

lemma started: "P s \<Longrightarrow> P (start_instruction w pc b s)"
  by (simp add: start_instruction_def pipeline flags)

lemma step: "P s \<Longrightarrow> P (cpu_step env dbg s)"
  by (simp add: cpu_step_def Let_def case_prod_beta dispatch_interrupt break_checks bus_ticks flags started
      pipeline fetch execute load_delay)

lemma block: "P s \<Longrightarrow> P (interpret_block env cbis s)"
  by (induction cbis arbitrary: s) (simp_all add: Let_def started bus_ticks advance execute load_delay)

lemma cached_block: "P s \<Longrightarrow> P (InterpretCachedBlock env pc cbis s)"
  by (simp add: InterpretCachedBlock_def pipeline block special_reg)

lemma uncached:
  assumes "P s"
  shows "pred_sum P (P \<circ> snd) (uncached_step env b s)"
proof -
  have p: "P (snd (if c then FetchInstructionForInterpreterFallback t else (True, set_reg reg_pc v t)))"
    if "P t" for c v t
    using that by (simp add: fallback_fetch special_reg)
  show ?thesis
    using assms
    by (simp add: uncached_step_def Let_def case_prod_beta p started bus_ticks pipeline execute load_delay)
qed

end

end
