(* ===== verification/MdecHost.thy ===== *)
theory MdecHost
  imports Mdec
begin

text \<open>
  The macroblock decoder as a device of a larger machine: a property of the machine that does
  not depend on the decoder's fields, and that the queue and the DMA request line preserve, is
  preserved by every operation of the decoder that returns.
\<close>

locale mdec_host =
  fixes req :: "('a mdec_state_scheme) request_line" and P :: "'a mdec_state_scheme \<Rightarrow> bool"
  assumes request: "P s \<Longrightarrow> P (req ch b s)"
    and queue: "P s \<Longrightarrow> P (SetIntervalAndSchedule e n s)" "P s \<Longrightarrow> P (Deactivate e s)"
    and host_ticks: "P s \<Longrightarrow> P (AddPendingTicks n s)"
    and status: "P s \<Longrightarrow> P (s\<lparr>m_status := w\<rparr>)"
    and enables: "P s \<Longrightarrow> P (s\<lparr>m_enable_dma_in := b\<rparr>)" "P s \<Longrightarrow> P (s\<lparr>m_enable_dma_out := b\<rparr>)"
    and fifos: "P s \<Longrightarrow> P (s\<lparr>m_data_in_fifo := q\<rparr>)" "P s \<Longrightarrow> P (s\<lparr>m_data_out_fifo := r\<rparr>)"
    and mode: "P s \<Longrightarrow> P (s\<lparr>m_state := m\<rparr>)"
    and remaining: "P s \<Longrightarrow> P (s\<lparr>m_remaining_halfwords := k\<rparr>)"
    and tables: "P s \<Longrightarrow> P (s\<lparr>m_iq_uv := bs\<rparr>)" "P s \<Longrightarrow> P (s\<lparr>m_iq_y := bs\<rparr>)" "P s \<Longrightarrow> P (s\<lparr>m_scale_table := is\<rparr>)"
    and blocks: "P s \<Longrightarrow> P (s\<lparr>m_blocks := bss\<rparr>)" "P s \<Longrightarrow> P (s\<lparr>m_current_block := k\<rparr>)"
      "P s \<Longrightarrow> P (s\<lparr>m_current_coefficient := k\<rparr>)" "P s \<Longrightarrow> P (s\<lparr>m_current_q_scale := k\<rparr>)"
    and pixels: "P s \<Longrightarrow> P (s\<lparr>m_block_rgb := ps\<rparr>)" "P s \<Longrightarrow> P (s\<lparr>m_total_blocks_decoded := w\<rparr>)"
begin

lemmas fields = status enables fifos mode remaining tables blocks pixels

lemma update_status: "P s \<Longrightarrow> P (UpdateStatus req s)"
  by (simp add: UpdateStatus_def Let_def request fields)

lemma soft_reset: "P s \<Longrightarrow> P (SoftReset req s)"
  by (simp add: SoftReset_def update_status queue fields)

lemma reset_decoder: "P s \<Longrightarrow> P (ResetDecoder s)"
  by (simp add: ResetDecoder_def fields)

lemma halfword: "P s \<Longrightarrow> P (snd (next_halfword s))"
  by (simp add: next_halfword_def case_prod_beta fields)

lemma block_write: "P s \<Longrightarrow> P (upd_block b f s)"
  by (simp add: upd_block_def fields)

lemma remaining_halfword: "can_read s \<Longrightarrow> m_remaining_halfwords (snd (next_halfword s)) < m_remaining_halfwords s"
  by (simp add: next_halfword_def case_prod_beta can_read_def)

lemma padding: "P s \<Longrightarrow> P (snd (skip_padding s))"
proof (induction "m_remaining_halfwords s" arbitrary: s rule: less_induct)
  case less
  then show ?case
    by (subst skip_padding.simps) (simp add: case_prod_beta halfword remaining_halfword)
qed

lemma coefficients: "P s \<Longrightarrow> P (snd (rle_coefficients put_ac b s))"
proof (induction "m_remaining_halfwords s" arbitrary: s rule: less_induct)
  case less
  show ?case
  proof (cases "can_read s")
    case True
    define r where "r = next_halfword s"
    define k where "k = m_current_coefficient (snd r) + run_length (fst r) + 1"
    define t where "t = snd r\<lparr>m_current_coefficient := k\<rparr>"
    define u where "u = (if k < 64 then upd_block b (put_ac (m_current_q_scale t) k (fst r)) t else t)"
    have e: "rle_coefficients put_ac b s =
        (if 63 \<le> k then (True, u\<lparr>m_current_coefficient := 64\<rparr>) else rle_coefficients put_ac b u)"
      by (subst rle_coefficients.simps) (simp only: True Let_def case_prod_beta r_def k_def t_def u_def simp_thms if_False)
    have u: "P u" unfolding u_def t_def r_def by (simp add: fields halfword block_write less.prems)
    have "m_remaining_halfwords u = m_remaining_halfwords (snd r)"
      by (simp add: u_def t_def upd_block_def)
    then have "m_remaining_halfwords u < m_remaining_halfwords s"
      using remaining_halfword [OF True] by (simp add: r_def)
    from less.hyps [OF this u] show ?thesis unfolding e using u by (simp add: fields)
  next
    case False
    then show ?thesis using less.prems by (subst rle_coefficients.simps) simp
  qed
qed

lemma run_lengths: "P s \<Longrightarrow> P (snd (DecodeRLE put_dc put_ac b s))"
proof -
  assume p: "P s"
  obtain x t where x: "skip_padding (upd_block b (\<lambda>_. replicate 64 0) s) = (x, t)" by fastforce
  then have t: "P t" using padding [OF block_write [OF p, of b "\<lambda>_. replicate 64 0"]] by simp
  show ?thesis
    unfolding DecodeRLE_def x using p t
    by (auto simp: Let_def coefficients block_write fields split: option.split)
qed

lemma block_decoded: "P s \<Longrightarrow> P (snd (decode_block b qt s))"
proof -
  assume p: "P s"
  have "P (snd (if use_old_mdec_routines s then DecodeRLE_Old b qt s else DecodeRLE_New b qt s))"
    by (simp add: DecodeRLE_Old_def DecodeRLE_New_def run_lengths p)
  then show ?thesis
    unfolding decode_block_def Let_def case_prod_beta by (simp add: block_write)
qed

lemma blocks_decoded: "P s \<Longrightarrow> P (snd (decode_blocks n s))"
  by (induction n arbitrary: s) (simp_all add: case_prod_beta block_decoded fields)

lemma schedule: "P s \<Longrightarrow> P (ScheduleBlockCopyOut n s)"
  by (simp add: ScheduleBlockCopyOut_def queue)

lemma macroblock: "P s \<Longrightarrow> P (snd (HandleDecodeMacroblockCommand s))"
  by (simp add: HandleDecodeMacroblockCommand_def DecodeMonoMacroblock_def DecodeColoredMacroblock_def Let_def
      case_prod_beta block_decoded blocks_decoded reset_decoder schedule fields)

lemma commands:
  assumes "P s"
  shows "P (HandleSetQuantTableCommand s)" "P (HandleSetScaleCommand s)" "P (start_command s)"
  using assms
  by (simp_all add: HandleSetQuantTableCommand_def HandleSetScaleCommand_def start_command_def Let_def
      case_prod_beta fields)

lemma one_step: "P s \<Longrightarrow> pred_sum P P (execute_step req s)"
  by (cases "m_state s")
    (simp_all add: execute_step_def Let_def case_prod_beta update_status commands macroblock reset_decoder fields)

lemma loop: "execute_loop r s = Some t \<Longrightarrow> r = req \<longrightarrow> P s \<longrightarrow> P t"
proof (induction r s t rule: execute_loop.raw_induct [rotated, consumes 1])
  case (1 loop r s t)
  have "r = req \<Longrightarrow> P s \<Longrightarrow> pred_sum P P (execute_step r s)" by (simp add: one_step)
  with 1 show ?case by (cases "execute_step r s") auto
qed

lemma execute: "P s \<Longrightarrow> pred_option P (mdec_Execute req s)"
  by (auto simp: mdec_Execute_def pred_option_def update_status dest!: loop)

lemma copy_out: "P s \<Longrightarrow> pred_option P (CopyOutBlock req s)"
  by (simp add: CopyOutBlock_def Let_def execute queue fields)

lemma registers:
  assumes "P s"
  shows "pred_option (P \<circ> snd) (mdec_ReadRegister req i s)" "pred_option P (mdec_WriteRegister req i v s)"
proof -
  have x: "pred_option (P \<circ> snd) (map_option (Pair w) (mdec_Execute req t))" if "P t" for w t
    using execute [OF that] by (simp add: option.pred_map o_def)
  show "pred_option (P \<circ> snd) (mdec_ReadRegister req i s)"
    using assms by (simp add: mdec_ReadRegister_def ReadDataRegister_def Let_def case_prod_beta x fields host_ticks update_status)
  show "pred_option P (mdec_WriteRegister req i v s)"
    using assms by (simp add: mdec_WriteRegister_def WriteCommandRegister_def Let_def execute fields soft_reset)
qed

lemma transfers:
  assumes "P s"
  shows "pred_option P (mdec_write req ws s)"
    and "(\<And>vs s. P s \<Longrightarrow> P (put vs s)) \<Longrightarrow> pred_option P (mdec_read req put n s)"
  using assms by (simp_all add: mdec_write_def mdec_read_def Let_def case_prod_beta execute fields)

end

end
