(* ===== verification/GteSpec.thy ===== *)
theory GteSpec
  imports GteCommands
begin

text \<open>
  What every command of the geometry engine keeps. A command changes the registers through a few
  kinds of writes only; the locale \<open>gte_writes\<close> lists them, and what they keep every command keeps.
  It is interpreted on the format of the registers and on the registers that are only input.
\<close>

subsection \<open>Words and the integers they stand for\<close>

lemma s16_lo_bounds: "- (2 ^ 15) \<le> s16_lo w" "s16_lo w < 2 ^ 15"
  using sint_greater_eq [of "ucast w :: s16"] sint_less [of "ucast w :: s16"] by (simp_all add: s16_lo_def)

lemma s16_hi_bounds: "- (2 ^ 15) \<le> s16_hi w" "s16_hi w < 2 ^ 15"
  using sint_greater_eq [of "ucast (drop_bit 16 w) :: s16"] sint_less [of "ucast (drop_bit 16 w) :: s16"]
  by (simp_all add: s16_hi_def)

lemma u16_lo_bounds: "0 \<le> u16_lo w" "u16_lo w < 2 ^ 16"
  using unsigned_less [of "ucast w :: u16"] by (simp_all add: u16_lo_def)

lemma byte_of_bounds: "0 \<le> byte_of k w" "byte_of k w < 2 ^ 8"
  using unsigned_less [of "ucast (drop_bit (8 * k) w) :: u8"] by (simp_all add: byte_of_def)

lemma wrap_s32_bounds: "- (2 ^ 31) \<le> wrap_s32 x" "wrap_s32 x < 2 ^ 31"
  using sext_bounds [of 32 x] by (simp_all add: wrap_s32_def)

lemma wrap_s32_id: "- (2 ^ 31) \<le> x \<Longrightarrow> x < 2 ^ 31 \<Longrightarrow> wrap_s32 x = x"
  by (simp add: wrap_s32_def sext_id)

lemma sint_word_wrap_s32: "sint (word_of_int x :: u32) = wrap_s32 x"
  by (simp add: wrap_s32_def sext_def sint_sbintrunc')

lemma s16_lo_word_of_int: "s16_lo (word_of_int v) = wrap_s16 v"
proof -
  have "(ucast (word_of_int v :: u32) :: s16) = word_of_int v"
    by (rule bit_word_eqI) (simp add: bit_simps)
  then show ?thesis
    by (simp add: s16_lo_def wrap_s16_def sext_def sint_sbintrunc')
qed

lemma wrap_s16_id: "- (2 ^ 15) \<le> x \<Longrightarrow> x < 2 ^ 15 \<Longrightarrow> wrap_s16 x = x"
  by (simp add: wrap_s16_def sext_id)

lemma sign_extend16_int: "- (2 ^ 15) \<le> v \<Longrightarrow> v < 2 ^ 15 \<Longrightarrow> sign_extend16 (word_of_int v) = word_of_int v"
proof -
  assume v: "- (2 ^ 15) \<le> v" "v < 2 ^ 15"
  have "sign_extend16 w = word_of_int (s16_lo w)" for w
    by (simp add: sign_extend16_def s16_lo_def)
  with v show ?thesis by (simp add: s16_lo_word_of_int wrap_s16_id)
qed

lemma sign_extend16_idem [simp]: "sign_extend16 (sign_extend16 v) = sign_extend16 v"
  unfolding sign_extend16_def by (rule bit_word_eqI) (auto simp: bit_simps)

lemma zero_extend16_idem [simp]: "zero_extend16 (zero_extend16 v) = zero_extend16 v"
  unfolding zero_extend16_def by (rule bit_word_eqI) (auto simp: bit_simps)

lemma zero_extend16_int: "0 \<le> v \<Longrightarrow> v < 2 ^ 16 \<Longrightarrow> zero_extend16 (word_of_int v) = word_of_int v"
proof -
  assume v: "0 \<le> v" "v < 2 ^ 16"
  have "zero_extend16 (word_of_int v) = word_of_int (take_bit 16 v)"
    unfolding zero_extend16_def by (rule bit_word_eqI) (auto simp: bit_simps)
  also have "take_bit 16 v = v" using v by (simp add: take_bit_int_eq_self)
  finally show ?thesis .
qed

subsection \<open>The writes of a command\<close>

locale gte_writes =
  fixes P :: "gte_regs \<Rightarrow> bool"
  assumes flags: "P r \<Longrightarrow> 12 \<le> n \<Longrightarrow> n \<le> 30 \<Longrightarrow> P (raise_flag n r)"
    and clear: "P r \<Longrightarrow> P (FLAG_Clear r)"
    and error: "P r \<Longrightarrow> P (FLAG_UpdateError r)"
    and mac: "P r \<Longrightarrow> i \<le> 3 \<Longrightarrow> P (r(24 + i := v))"
    and ir: "P r \<Longrightarrow> i \<le> 3 \<Longrightarrow> - (2 ^ 15) \<le> x \<Longrightarrow> x < 2 ^ 15 \<Longrightarrow> P (r(8 + i := word_of_int x))"
    and otz: "P r \<Longrightarrow> 0 \<le> x \<Longrightarrow> x < 2 ^ 16 \<Longrightarrow> P (r(7 := word_of_int x))"
    and sxy: "P r \<Longrightarrow> P (r(12 := r 13, 13 := r 14, 14 := v))"
    and sz: "P r \<Longrightarrow> 0 \<le> x \<Longrightarrow> x < 2 ^ 16 \<Longrightarrow>
      P (r(16 := r 17, 17 := r 18, 18 := r 19, 19 := word_of_int x))"
    and rgb: "P r \<Longrightarrow> P (r(20 := r 21, 21 := r 22, 22 := v))"
begin

lemma check: "P r \<Longrightarrow> i \<le> 3 \<Longrightarrow> P (CheckMACOverflow i v r)"
  by (simp add: CheckMACOverflow_def flags mac_underflow_flag_def mac_overflow_flag_def)

lemma extended: "P r \<Longrightarrow> i \<le> 3 \<Longrightarrow> P (snd (SignExtendMACResult i v r))"
  by (simp add: SignExtendMACResult_def Let_def check)

lemma set_mac: "P r \<Longrightarrow> i \<le> 3 \<Longrightarrow> P (TruncateAndSetMAC i v shift r)"
  by (simp add: TruncateAndSetMAC_def check mac)

lemma set_ir:
  assumes "P r" and "i \<le> 3"
  shows "P (TruncateAndSetIR i v lm r)"
proof -
  have f: "P (raise_flag (ir_saturated_flag i) r)"
    using assms by (intro flags) (auto simp: ir_saturated_flag_def)
  have lo: "- (2 ^ 15) \<le> (if lm then 0 else IR_MIN_VALUE i)" "(if lm then 0 else IR_MIN_VALUE i) < 2 ^ 15"
    and hi: "- (2 ^ 15) \<le> IR_MAX_VALUE i" "IR_MAX_VALUE i < 2 ^ 15"
    by (simp_all add: IR_MIN_VALUE_def IR_MAX_VALUE_def)
  show ?thesis
    using ir [OF f assms(2) lo] ir [OF f assms(2) hi] ir [OF assms, of v] lo hi
    by (auto simp: TruncateAndSetIR_def Let_def not_less)
qed

lemma set_mac_ir: "P r \<Longrightarrow> i \<le> 3 \<Longrightarrow> P (TruncateAndSetMACAndIR i v shift lm r)"
  by (simp add: TruncateAndSetMACAndIR_def Let_def check mac set_ir)

lemma set_rgb: "P r \<Longrightarrow> i \<le> 2 \<Longrightarrow> P (snd (TruncateRGB i v r))"
  by (simp add: TruncateRGB_def flags)

lemma push_rgb: "P r \<Longrightarrow> P (PushRGBFromMAC r)"
  using rgb [OF set_rgb [OF set_rgb [OF set_rgb]]]
  by (simp add: PushRGBFromMAC_def Let_def case_prod_beta)

lemma set_otz: "P r \<Longrightarrow> P (SetOTZ v r)"
  using otz [OF flags, of r 18 0] otz [OF flags, of r 18 "0xFFFF"] otz [of r v] by (simp add: SetOTZ_def)

lemma push_sxy: "P r \<Longrightarrow> P (PushSXY x y r)"
  by (auto simp: PushSXY_def Let_def intro!: sxy flags)

lemma push_sz: "P r \<Longrightarrow> P (PushSZ v r)"
  using sz [OF flags, of r 18 0] sz [OF flags, of r 18 "0xFFFF"] sz [of r v]
  by (simp add: PushSZ_def Let_def)

lemma divide: "P r \<Longrightarrow> P (snd (UNRDivide x y r))"
  by (simp add: UNRDivide_def Let_def flags)

lemmas writes = clear error check extended set_mac set_ir set_mac_ir push_rgb set_otz push_sxy push_sz divide

lemma dots: "P r \<Longrightarrow> i \<le> 2 \<Longrightarrow> P (snd (dot3 M V i r))" "P r \<Longrightarrow> i \<le> 2 \<Longrightarrow> P (snd (dot3_translated M T V i r))"
  by (simp_all add: dot3_def dot3_translated_def case_prod_beta extended)

lemma products:
  assumes "P r"
  shows "P (MulMatVec M V shift lm r)" "P (MulMatVecT M T V shift lm r)" "P (MulMatVecBuggy M T V shift lm r)"
  using assms
  by (simp_all add: MulMatVec_def MulMatVec_row_def MulMatVecT_def MulMatVecT_row_def
      MulMatVecBuggy_def MulMatVecBuggy_row_def case_prod_beta Let_def dots writes)

lemma rotate: "P r \<Longrightarrow> P (snd (rtps_rotate V shift lm r))"
proof -
  assume p: "P r"
  have c: "- (2 ^ 15) \<le> clamp x (if lm then 0 else IR_MIN_VALUE 3) (IR_MAX_VALUE 3)"
    "clamp x (if lm then 0 else IR_MIN_VALUE 3) (IR_MAX_VALUE 3) < 2 ^ 15" for x
    by (auto simp: clamp_def IR_MIN_VALUE_def IR_MAX_VALUE_def)
  have i: "P r \<Longrightarrow> P (r(11 := word_of_int (clamp x (if lm then 0 else IR_MIN_VALUE 3) (IR_MAX_VALUE 3))))" for x r
    using ir [OF _ _ c, of r 3 x] by simp
  show ?thesis
    using p by (simp add: rtps_rotate_def case_prod_beta Let_def dots writes i)
qed

lemma transform: "P r \<Longrightarrow> P (RTPS a V shift lm b r)"
  by (simp add: RTPS_def rtps_project_def rtps_depth_def case_prod_beta Let_def rotate writes)

lemma interpolate: "P r \<Longrightarrow> P (InterpolateColor x y z shift lm r)"
  by (simp add: InterpolateColor_def Let_def writes)

lemma lights:
  assumes "P r"
  shows "P (light_color shift lm r)" "P (light_background shift lm r)" "P (light_vertex V shift lm r)"
    "P (interpolate_lit_color shift lm r)" "P (DPCS c shift lm r)"
  using assms
  by (simp_all add: light_color_def light_background_def light_vertex_def interpolate_lit_color_def DPCS_def
      Let_def writes products interpolate)

lemma vertices: "P r \<Longrightarrow> P (NCS V shift lm r)" "P r \<Longrightarrow> P (NCCS V shift lm r)" "P r \<Longrightarrow> P (NCDS V shift lm r)"
  by (simp_all add: NCS_def NCCS_def NCDS_def lights writes)

lemma single:
  assumes "P r"
  shows "P (Execute_MVMVA w r)" "P (Execute_SQR w r)" "P (Execute_OP w r)" "P (Execute_RTPS a w r)"
    "P (Execute_RTPT a w r)" "P (Execute_NCLIP w r)" "P (Execute_AVSZ3 w r)" "P (Execute_AVSZ4 w r)"
proof -
  have m: "P r \<Longrightarrow> P (r(25 := v))" "P r \<Longrightarrow> P (r(26 := v))" "P r \<Longrightarrow> P (r(27 := v))" for r v
    using mac [of r 1 v] mac [of r 2 v] mac [of r 3 v] by simp_all
  show "P (Execute_MVMVA w r)" "P (Execute_SQR w r)" "P (Execute_OP w r)" "P (Execute_RTPS a w r)"
    "P (Execute_RTPT a w r)" "P (Execute_NCLIP w r)" "P (Execute_AVSZ3 w r)" "P (Execute_AVSZ4 w r)"
    using assms
    by (simp_all add: Execute_MVMVA_def Execute_SQR_def Execute_OP_def Execute_RTPS_def Execute_RTPT_def
        Execute_NCLIP_def Execute_AVSZ3_def Execute_AVSZ4_def Let_def writes products transform m)
qed

lemma colors:
  assumes "P r"
  shows "P (Execute_NCS w r)" "P (Execute_NCT w r)" "P (Execute_NCCS w r)" "P (Execute_NCCT w r)"
    "P (Execute_NCDS w r)" "P (Execute_NCDT w r)" "P (Execute_CC w r)" "P (Execute_CDP w r)"
    "P (Execute_DPCS w r)" "P (Execute_DPCT w r)" "P (Execute_DCPL w r)" "P (Execute_INTPL w r)"
    "P (Execute_GPL w r)" "P (Execute_GPF w r)"
  using assms
  by (simp_all add: Execute_NCS_def Execute_NCT_def Execute_NCCS_def Execute_NCCT_def Execute_NCDS_def
      Execute_NCDT_def once_def thrice_def Execute_CC_def Execute_CDP_def Execute_DPCS_def Execute_DPCT_def
      Execute_DCPL_def Execute_INTPL_def Execute_GPL_def Execute_GPF_def Let_def writes vertices lights interpolate)

lemma command: "GetInstructionImpl w a = Some (ticks, f) \<Longrightarrow> P r \<Longrightarrow> P (f u r)"
  by (auto simp: GetInstructionImpl_def Let_def single colors split: if_splits)

end

subsection \<open>The format of the registers\<close>

text \<open>
  A register of 16 bits holds its sign or zero extension, which the CPU reads as it is; the low 12 bits
  of \<open>FLAG\<close> are zero; and the registers that are computed on reading are never written.
\<close>

definition gte_format :: "gte_regs \<Rightarrow> bool" where
  "gte_format r \<longleftrightarrow>
     (\<forall>i\<in>set s16_registers. sign_extend16 (r i) = r i) \<and>
     (\<forall>i\<in>set u16_registers. zero_extend16 (r i) = r i) \<and>
     r 15 = 0 \<and> r 29 = 0 \<and> take_bit 12 (r reg_FLAG) = 0 \<and> take_bit 15 (r 28) = r 28 \<and>
     (r 31 = of_nat (CountLeadingBits (r 30)) \<or> r 30 = 0 \<and> r 31 = 0)"

definition flag_error_ok :: "gte_regs \<Rightarrow> bool" where
  "flag_error_ok r \<longleftrightarrow> bit (r reg_FLAG) 31 = (r reg_FLAG AND 0x7F87E000 \<noteq> 0)"

definition gte_inv :: "gte_regs \<Rightarrow> bool" where
  "gte_inv r \<longleftrightarrow> gte_format r \<and> flag_error_ok r"

lemmas register_kinds = s16_registers_def u16_registers_def

lemma raise_flag_bit: "n < 32 \<Longrightarrow> raise_flag n r = r(reg_FLAG := set_bit n (r reg_FLAG))"
proof -
  assume n: "n < 32"
  have "bf_set n 1 1 w = set_bit n w" for w :: u32
    using n by (intro bit_word_eqI) (auto simp: bit_bf_set bit_simps)
  then show ?thesis by (simp add: raise_flag_def)
qed

lemma take_bit_set_bit_high: "k \<le> n \<Longrightarrow> take_bit k (set_bit n w) = take_bit k (w :: u32)"
  by (rule bit_word_eqI) (auto simp: bit_simps)

lemma FLAG_UpdateError_bits: "FLAG_UpdateError r = r(reg_FLAG := bf_set 31 1 (of_bool (r reg_FLAG AND 0x7F87E000 \<noteq> 0)) (r reg_FLAG))"
  by (simp add: FLAG_UpdateError_def)

lemma flag_error_set: "flag_error_ok (FLAG_UpdateError r)"
proof -
  let ?b = "r reg_FLAG AND 0x7F87E000 \<noteq> 0"
  have n: "\<not> bit (0x7F87E000 :: u32) 31" by simp
  have "bf_set 31 1 (of_bool ?b) (r reg_FLAG) AND 0x7F87E000 = r reg_FLAG AND 0x7F87E000"
  proof (rule bit_word_eqI)
    fix k assume "k < LENGTH(32)"
    show "bit (bf_set 31 1 (of_bool ?b) (r reg_FLAG) AND 0x7F87E000) k = bit (r reg_FLAG AND 0x7F87E000) k"
      by (cases "k = 31") (use n in \<open>auto simp only: bit_and_iff bit_bf_set\<close>, auto)
  qed
  moreover have "bit (bf_set 31 1 (of_bool ?b) (r reg_FLAG)) 31 = ?b"
    by (simp add: bit_bf_set)
  ultimately show ?thesis by (simp add: flag_error_ok_def FLAG_UpdateError_def)
qed

lemma take_12_error: "take_bit 12 (bf_set 31 1 v w) = take_bit 12 (w :: u32)"
  by (rule bit_word_eqI) (auto simp: bit_simps bit_bf_set)

lemma gte_format_plain:
  "gte_format r \<Longrightarrow> i \<notin> set (s16_registers @ u16_registers @ [15, 28, 29, 30, 31, 63]) \<Longrightarrow> gte_format (r(i := v))"
  by (auto simp: gte_format_def)

lemma gte_format_flag: "gte_format r \<Longrightarrow> take_bit 12 v = 0 \<Longrightarrow> gte_format (r(63 := v))"
  by (auto simp: gte_format_def register_kinds)

lemma kinds_disjoint:
  "i \<in> set s16_registers \<Longrightarrow> i \<notin> set u16_registers \<and> i \<notin> {15, 28, 29, 30, 31, 63}"
  "i \<in> set u16_registers \<Longrightarrow> i \<notin> set s16_registers \<and> i \<notin> {15, 28, 29, 30, 31, 63}"
  by (auto simp: register_kinds)

lemma gte_format_s16: "gte_format r \<Longrightarrow> i \<in> set s16_registers \<Longrightarrow> sign_extend16 v = v \<Longrightarrow> gte_format (r(i := v))"
  using kinds_disjoint(1) [of i] by (simp add: gte_format_def)

lemma gte_format_u16: "gte_format r \<Longrightarrow> i \<in> set u16_registers \<Longrightarrow> zero_extend16 v = v \<Longrightarrow> gte_format (r(i := v))"
  using kinds_disjoint(2) [of i] by (simp add: gte_format_def)

lemma gte_format_28: "gte_format r \<Longrightarrow> take_bit 15 v = v \<Longrightarrow> gte_format (r(28 := v))"
  by (simp add: gte_format_def register_kinds)

lemma gte_format_30: "gte_format r \<Longrightarrow> gte_format (r(30 := v, 31 := of_nat (CountLeadingBits v)))"
  by (simp add: gte_format_def register_kinds)

lemma le3: "i \<le> 3 \<Longrightarrow> i = 0 \<or> i = 1 \<or> i = 2 \<or> i = (3::nat)"
  by arith

interpretation format: gte_writes gte_format
proof
  fix r :: gte_regs and n i :: nat and v :: u32 and x :: int
  assume f: "gte_format r"
  have t: "take_bit 12 (r 63) = 0" using f by (simp add: gte_format_def)
  show "gte_format (raise_flag n r)" if "12 \<le> n" "n \<le> 30"
    using that t by (simp add: raise_flag_bit take_bit_set_bit_high gte_format_flag [OF f])
  show "gte_format (FLAG_Clear r)" by (simp add: FLAG_Clear_def gte_format_flag [OF f])
  show "gte_format (FLAG_UpdateError r)"
    unfolding FLAG_UpdateError_def by (rule gte_format_flag [OF f]) (simp only: take_12_error t)
  show "gte_format (r(24 + i := v))" if "i \<le> 3"
    using le3 [OF that] by (intro gte_format_plain [OF f]) (auto simp: register_kinds)
  show "gte_format (r(8 + i := word_of_int x))" if "i \<le> 3" "- (2 ^ 15) \<le> x" "x < 2 ^ 15"
    using le3 [OF that(1)] sign_extend16_int [OF that(2,3)]
    by (intro gte_format_s16 [OF f]) (auto simp: register_kinds)
  show "gte_format (r(7 := word_of_int x))" if "0 \<le> x" "x < 2 ^ 16"
    using zero_extend16_int [OF that] by (intro gte_format_u16 [OF f]) (auto simp: register_kinds)
  show "gte_format (r(12 := r 13, 13 := r 14, 14 := v))"
    by (intro gte_format_plain f) (simp_all add: register_kinds)
  show "gte_format (r(16 := r 17, 17 := r 18, 18 := r 19, 19 := word_of_int x))" if "0 \<le> x" "x < 2 ^ 16"
    using zero_extend16_int [OF that] f by (intro gte_format_u16) (auto simp: register_kinds gte_format_def)
  show "gte_format (r(20 := r 21, 21 := r 22, 22 := v))"
    by (intro gte_format_plain f) (simp_all add: register_kinds)
qed

subsection \<open>The registers that are only input\<close>

definition gte_inputs :: "nat list" where
  "gte_inputs = [0, 1, 2, 3, 4, 5, 6, 15, 23] @ [28..<63]"

definition same_inputs :: "gte_regs \<Rightarrow> gte_regs \<Rightarrow> bool" where
  "same_inputs q r \<longleftrightarrow> list_all (\<lambda>i. r i = q i) gte_inputs"

lemma same_inputs_upd: "same_inputs q r \<Longrightarrow> i \<notin> set gte_inputs \<Longrightarrow> same_inputs q (r(i := v))"
  by (auto simp: same_inputs_def list_all_iff)

lemma same_inputs_refl: "same_inputs q q"
  by (simp add: same_inputs_def list_all_iff)

interpretation inputs: gte_writes "same_inputs q" for q
proof
  fix r :: gte_regs and n i :: nat and v :: u32 and x :: int
  assume s: "same_inputs q r"
  show "same_inputs q (raise_flag n r)"
    "same_inputs q (FLAG_Clear r)" "same_inputs q (FLAG_UpdateError r)" "same_inputs q (r(7 := word_of_int x))"
    "same_inputs q (r(12 := r 13, 13 := r 14, 14 := v))"
    "same_inputs q (r(16 := r 17, 17 := r 18, 18 := r 19, 19 := word_of_int x))"
    "same_inputs q (r(20 := r 21, 21 := r 22, 22 := v))"
    unfolding raise_flag_def FLAG_Clear_def FLAG_UpdateError_def
    by (intro same_inputs_upd s; simp add: gte_inputs_def)+
  show "same_inputs q (r(24 + i := v))" "same_inputs q (r(8 + i := word_of_int x))" if "i \<le> 3"
    using le3 [OF that] by (auto intro!: same_inputs_upd s simp: gte_inputs_def)
qed

subsection \<open>The invariant\<close>

lemma command_updates_error:
  "GetInstructionImpl w a = Some (ticks, f) \<Longrightarrow> flag_error_ok (f u r)"
  by (auto simp: GetInstructionImpl_def Let_def flag_error_set Execute_MVMVA_def Execute_SQR_def Execute_OP_def
      Execute_RTPS_def Execute_RTPT_def Execute_NCLIP_def Execute_AVSZ3_def Execute_AVSZ4_def Execute_NCS_def
      Execute_NCT_def Execute_NCCS_def Execute_NCCT_def Execute_NCDS_def Execute_NCDT_def once_def thrice_def
      Execute_CC_def Execute_CDP_def Execute_DPCS_def Execute_DPCT_def Execute_DCPL_def Execute_INTPL_def
      Execute_GPL_def Execute_GPF_def split: if_splits)

lemma gte_inv_command:
  "GetInstructionImpl w a = Some (ticks, f) \<Longrightarrow> gte_inv r \<Longrightarrow> gte_inv (f u r)"
  by (simp add: gte_inv_def format.command command_updates_error)

lemma gte_ExecuteInstruction_impl:
  "gte_ExecuteInstruction w s =
     (case GetInstructionImpl w (gte_aspect s) of
        Some (ticks, f) \<Rightarrow> (AddGTETicks ticks s)\<lparr>gte_regs := f w (gte_regs s)\<rparr>
      | None \<Rightarrow> s)"
  by (simp add: gte_ExecuteInstruction_def GetInstructionImpl_def Let_def)

lemma gte_inv_execute: "gte_inv (gte_regs s) \<Longrightarrow> gte_inv (gte_regs (gte_ExecuteInstruction w s))"
  by (auto simp: gte_ExecuteInstruction_impl AddGTETicks_def gte_inv_command split: option.split)

lemma gte_inv_reset: "gte_inv GTE_Reset"
proof -
  have "sign_extend16 0 = 0" "zero_extend16 0 = 0"
    by (simp_all only: sign_extend16_def zero_extend16_def unsigned_0 signed_0)
  then show ?thesis
    by (simp add: gte_inv_def gte_format_def flag_error_ok_def GTE_Reset_def)
qed

lemma format_if: "(c \<Longrightarrow> gte_format q) \<Longrightarrow> (\<not> c \<Longrightarrow> gte_format r) \<Longrightarrow> gte_format (if c then q else r)"
  by simp

lemma gte_inv_write: "gte_inv r \<Longrightarrow> gte_inv (GTE_WriteRegister i v r)"
proof -
  assume r: "gte_inv r"
  then have f: "gte_format r" and e: "flag_error_ok r" by (simp_all add: gte_inv_def)
  have keep: "i \<noteq> 63 \<Longrightarrow> flag_error_ok (q(i := v))" if "flag_error_ok q" for q i v
    using that by (simp add: flag_error_ok_def)
  have "v AND 0x7FFF = take_bit 15 v" by (simp add: take_bit_eq_mask mask_eq_exp_minus_1)
  then have m: "take_bit 15 (v AND 0x7FFF) = v AND 0x7FFF" by (simp only:) simp
  have m2: "take_bit 12 (v AND 0x7FFFF000) = 0" unfolding take_bit_and by simp
  have n: "63 \<notin> set s16_registers" "63 \<notin> set u16_registers" by (simp_all add: register_kinds)
  have "i \<in> set s16_registers \<Longrightarrow> gte_format (r(i := sign_extend16 v))"
    "i \<in> set u16_registers \<Longrightarrow> gte_format (r(i := zero_extend16 v))"
    by (simp_all add: gte_format_s16 gte_format_u16 f)
  moreover have "gte_format (r(28 := v AND 0x7FFF, 9 := sign_extend16 a, 10 := sign_extend16 b, 11 := sign_extend16 c))"
    for a b c
    by (intro gte_format_s16 gte_format_28 f m sign_extend16_idem) (simp_all add: s16_registers_def)
  moreover have "gte_format (FLAG_UpdateError (r(63 := v AND 0x7FFFF000)))"
    by (rule format.error [OF gte_format_flag [OF f m2]])
  moreover have "i \<notin> set s16_registers \<Longrightarrow> i \<notin> set u16_registers \<Longrightarrow> i \<noteq> 15 \<Longrightarrow> i \<noteq> 28 \<Longrightarrow> i \<noteq> 30 \<Longrightarrow>
      \<not> (i = 29 \<or> i = 31) \<Longrightarrow> i \<noteq> 63 \<Longrightarrow> gte_format (r(i := v))"
    by (rule gte_format_plain [OF f]) simp
  ultimately have "gte_format (GTE_WriteRegister i v r)"
    unfolding GTE_WriteRegister_def
    by (intro format_if) (simp_all only: f format.sxy gte_format_30 not_True_eq_False simp_thms)
  moreover have "flag_error_ok (GTE_WriteRegister i v r)"
    unfolding GTE_WriteRegister_def using n e by (auto intro!: keep flag_error_set)
  ultimately show ?thesis by (simp add: gte_inv_def)
qed

end
