(* ===== verification/SpuExec.thy ===== *)
theory SpuExec
  imports Spu "HOL-Library.Monad_Syntax"
begin

text \<open>
  The sound processor at work (\<open>src/core/spu.cpp\<close>): the interrupt on an address of its RAM, the
  transfers between RAM and FIFO, the samples of the voices, the loop of \<open>Execute\<close> with the audio
  stream, and the registers. The next frame of the CD-ROM drive's audio is the argument \<open>cd\<close>, and the
  DMA controller's request line the argument \<open>req\<close>, as for the decoder. The loop of \<open>Execute\<close> waits
  for room in the stream: it is a partial function, and \<open>None\<close> means that it does not return.
\<close>

type_synonym 's cd_audio = "'s \<Rightarrow> (s16 \<times> s16) \<times> 's"

subsection \<open>The interrupt of the RAM\<close>

definition SPU_TriggerRAMIRQ :: "'a spu_state_scheme \<Rightarrow> 'a spu_state_scheme" where
  "SPU_TriggerRAMIRQ s = InterruptRequest (irq_number IRQ_SPU) (upd_spu (upd_stat (assign_bit 6 True)) s)"

definition ram_irq :: "(spu \<Rightarrow> bool) \<Rightarrow> 'a spu_state_scheme \<Rightarrow> 'a spu_state_scheme" where
  "ram_irq hit s = (if IsRAMIRQTriggerable (g_spu s) \<and> hit (g_spu s) then SPU_TriggerRAMIRQ s else s)"

definition WriteToCaptureBuffer :: "nat \<Rightarrow> s16 \<Rightarrow> 'a spu_state_scheme \<Rightarrow> 'a spu_state_scheme" where
  "WriteToCaptureBuffer index v s =
     (let ram_address = word_of_nat (index * CAPTURE_BUFFER_SIZE_PER_CHANNEL) OR ucast (m_capture_buffer_position (g_spu s))
      in ram_irq (CheckRAMIRQ ram_address)
           (upd_spu (\<lambda>r. r\<lparr>m_spu_ram := set_ram_half ram_address v (m_spu_ram r)\<rparr>) s))"

definition IncrementCaptureBufferPosition :: "spu \<Rightarrow> spu" where
  "IncrementCaptureBufferPosition r =
     (let p = (m_capture_buffer_position r + 2) mod 0x400
      in upd_stat (assign_bit 11 (p \<ge> 0x200)) (r\<lparr>m_capture_buffer_position := p\<rparr>))"

subsection \<open>Transfers\<close>

definition m_spu_tick_event :: nat where "m_spu_tick_event = 6"
definition m_spu_transfer_event :: nat where "m_spu_transfer_event = 7"

definition advance_transfer :: "spu \<Rightarrow> spu" where
  "advance_transfer r = r\<lparr>m_transfer_address := (m_transfer_address r + 2) AND RAM_MASK\<rparr>"

definition at_transfer_address :: "spu \<Rightarrow> bool" where
  "at_transfer_address r \<longleftrightarrow> CheckRAMIRQ (m_transfer_address r) r"

definition ExecuteFIFOReadFromRAM :: "'a spu_state_scheme \<Rightarrow> 'a spu_state_scheme" where
  "ExecuteFIFOReadFromRAM s =
     ram_irq at_transfer_address
       (upd_spu (\<lambda>r. advance_transfer (r\<lparr>m_transfer_fifo := Push (ram_half (m_spu_ram r) (m_transfer_address r)) (m_transfer_fifo r)\<rparr>)) s)"

definition ExecuteFIFOWriteToRAM :: "'a spu_state_scheme \<Rightarrow> 'a spu_state_scheme" where
  "ExecuteFIFOWriteToRAM s =
     ram_irq at_transfer_address
       (upd_spu (\<lambda>r. let (v, q) = Pop (m_transfer_fifo r)
                    in advance_transfer (r\<lparr>m_transfer_fifo := q, m_spu_ram := set_ram_half (m_transfer_address r) v (m_spu_ram r)\<rparr>)) s)"

definition dma_request_bits :: "spu \<Rightarrow> bool \<times> bool" where
  "dma_request_bits r =
     (case ram_transfer_mode (m_SPUCNT r) of
        DMARead \<Rightarrow> (IsFull (m_transfer_fifo r), False)
      | DMAWrite \<Rightarrow> (False, IsEmpty (m_transfer_fifo r))
      | _ \<Rightarrow> (False, False))"

definition UpdateDMARequest :: "('a spu_state_scheme) request_line \<Rightarrow> 'a spu_state_scheme \<Rightarrow> 'a spu_state_scheme" where
  "UpdateDMARequest req s =
     (let (rd, wr) = dma_request_bits (g_spu s);
          s1 = upd_spu (upd_stat (\<lambda>w. assign_bit 7 (rd \<or> wr) (assign_bit 9 wr (assign_bit 8 rd w)))) s
      in req CH_SPU (bit (m_SPUSTAT (g_spu s1)) 7) s1)"

text \<open>The loops of \<open>ExecuteTransfer\<close>: at most one halfword for every 16 ticks; the ticks left are also a result.\<close>

function read_loop :: "('a spu_state_scheme) request_line \<Rightarrow> tick_count \<Rightarrow> 'a spu_state_scheme \<Rightarrow> tick_count \<times> 'a spu_state_scheme" where
  "read_loop req ticks s =
     (if ticks > 0 \<and> \<not> IsFull (m_transfer_fifo (g_spu s))
      then read_loop req (ticks - 16) (UpdateDMARequest req (ExecuteFIFOReadFromRAM s))
      else (ticks, s))"
  by pat_completeness auto
termination by (relation "measure (\<lambda>(req, ticks, s). nat ticks)") auto

function write_loop :: "('a spu_state_scheme) request_line \<Rightarrow> tick_count \<Rightarrow> 'a spu_state_scheme \<Rightarrow> tick_count \<times> 'a spu_state_scheme" where
  "write_loop req ticks s =
     (if ticks > 0 \<and> \<not> IsEmpty (m_transfer_fifo (g_spu s))
      then write_loop req (ticks - 16) (UpdateDMARequest req (ExecuteFIFOWriteToRAM s))
      else (ticks, s))"
  by pat_completeness auto
termination by (relation "measure (\<lambda>(req, ticks, s). nat ticks)") auto

declare read_loop.simps [simp del] and write_loop.simps [simp del]

definition set_busy :: "bool \<Rightarrow> 'a spu_state_scheme \<Rightarrow> 'a spu_state_scheme" where
  "set_busy b = upd_spu (upd_stat (assign_bit 10 b))"

definition finish_transfer :: "bool \<Rightarrow> nat \<Rightarrow> tick_count \<Rightarrow> 'a spu_state_scheme \<Rightarrow> 'a spu_state_scheme" where
  "finish_transfer complete halfwords ticks s =
     (if complete then Deactivate m_spu_transfer_event (set_busy False s)
      else Schedule m_spu_transfer_event
             (int halfwords * TRANSFER_TICKS_PER_HALFWORD + (if ticks < 0 then - ticks else 0)) (set_busy True s))"

definition ExecuteTransfer :: "('a spu_state_scheme) request_line \<Rightarrow> tick_count \<Rightarrow> 'a spu_state_scheme \<Rightarrow> 'a spu_state_scheme" where
  "ExecuteTransfer req ticks s =
     (if ram_transfer_mode (m_SPUCNT (g_spu s)) = DMARead
      then let (ticks1, s1) = read_loop req ticks s; q = m_transfer_fifo (g_spu s1)
           in finish_transfer (IsFull q) (GetSpace q) ticks1 s1
      else let (ticks1, s1) = write_loop req ticks s; q = m_transfer_fifo (g_spu s1)
           in finish_transfer (IsEmpty q) (GetSize q) ticks1 s1)"

definition transfer_active :: "'a spu_state_scheme \<Rightarrow> bool" where
  "transfer_active s \<longleftrightarrow> te_active (te_nodes s m_spu_transfer_event)"

definition start_transfer :: "bool \<Rightarrow> nat \<Rightarrow> 'a spu_state_scheme \<Rightarrow> 'a spu_state_scheme" where
  "start_transfer complete halfwords s =
     (if complete then Deactivate m_spu_transfer_event s
      else if \<not> transfer_active s then Schedule m_spu_transfer_event (int halfwords * TRANSFER_TICKS_PER_HALFWORD) s
      else s)"

definition UpdateTransferEvent :: "'a spu_state_scheme \<Rightarrow> 'a spu_state_scheme" where
  "UpdateTransferEvent s =
     (let q = m_transfer_fifo (g_spu s);
          s1 = (case ram_transfer_mode (m_SPUCNT (g_spu s)) of
                  Stopped \<Rightarrow> Deactivate m_spu_transfer_event s
                | DMARead \<Rightarrow> start_transfer (IsFull q) (GetSpace q) s
                | _ \<Rightarrow> start_transfer (IsEmpty q) (GetSize q) s)
      in set_busy (transfer_active s1) s1)"

definition set_fifo :: "u16 fifo \<Rightarrow> 'a spu_state_scheme \<Rightarrow> 'a spu_state_scheme" where
  "set_fifo q = upd_spu (\<lambda>r. r\<lparr>m_transfer_fifo := q\<rparr>)"

definition ManualTransferWrite :: "u16 \<Rightarrow> 'a spu_state_scheme \<Rightarrow> 'a spu_state_scheme" where
  "ManualTransferWrite v s =
     (let q = m_transfer_fifo (g_spu s)
      in if IsFull q then s else UpdateTransferEvent (set_fifo (Push v q) s))"

fun words_of_halfwords :: "u16 list \<Rightarrow> u32 list" where
  "words_of_halfwords (a # b # xs) = (ucast a OR push_bit 16 (ucast b)) # words_of_halfwords xs"
| "words_of_halfwords _ = []"

text \<open>\<open>put\<close> stores the words where the DMA controller wants them.\<close>

definition spu_read :: "('a spu_state_scheme) request_line \<Rightarrow> (u32 list \<Rightarrow> 'a spu_state_scheme \<Rightarrow> 'a spu_state_scheme)
    \<Rightarrow> nat \<Rightarrow> 'a spu_state_scheme \<Rightarrow> 'a spu_state_scheme" where
  "spu_read req put word_count s =
     (let q = m_transfer_fifo (g_spu s);
          halfword_count = word_count * 2;
          size = GetSize q;
          (halfwords, q1) =
            (if word_count > size
             then let (vs, q') = PopRange size q;
                      fill_value = (if size > 0 then vs ! (size - 1) else 0)
                  in (vs @ replicate (halfword_count - size) fill_value, q')
             else PopRange halfword_count q)
      in UpdateTransferEvent (UpdateDMARequest req (put (words_of_halfwords halfwords) (set_fifo q1 s))))"

definition spu_write :: "('a spu_state_scheme) request_line \<Rightarrow> u32 list \<Rightarrow> 'a spu_state_scheme \<Rightarrow> 'a spu_state_scheme" where
  "spu_write req ws s =
     (let q = m_transfer_fifo (g_spu s);
          words_to_transfer = min (GetSpace q) (length ws * 2)
      in UpdateTransferEvent (UpdateDMARequest req
           (set_fifo (PushRange (take words_to_transfer (halfwords_of_words ws)) q) s)))"

subsection \<open>Samples of a voice\<close>

text \<open>A block of 16 bytes, which may wrap around at the end of the RAM.\<close>

definition adpcm_bytes :: "mem \<Rightarrow> u32 \<Rightarrow> u8 list" where
  "adpcm_bytes m a =
     (if unat a + 16 \<le> RAM_SIZE then map (\<lambda>i. m (a + word_of_nat i)) [0..<16]
      else map (\<lambda>i. m ((a + word_of_nat i) AND RAM_MASK)) [0..<16])"

definition ReadADPCMBlock :: "u16 \<Rightarrow> 'a spu_state_scheme \<Rightarrow> adpcm_block \<times> 'a spu_state_scheme" where
  "ReadADPCMBlock address s =
     (let a = (ucast address * 8) AND RAM_MASK;
          s1 = ram_irq (\<lambda>r. CheckRAMIRQ a r \<or> CheckRAMIRQ ((a + 8) AND RAM_MASK) r) s;
          bs = adpcm_bytes (m_spu_ram (g_spu s1)) a
      in (\<lparr>shift_filter = bs ! 0, block_flags = bs ! 1, block_data = drop 2 bs\<rparr>, s1))"

definition load_block :: "nat \<Rightarrow> 'a spu_state_scheme \<Rightarrow> 'a spu_state_scheme" where
  "load_block i s =
     (let v = m_voices (g_spu s) ! i
      in if has_samples v then s
         else let (b, s1) = ReadADPCMBlock (current_address v) s
              in upd_spu (upd_voice i (\<lambda>v0.
                   let v1 = (DecodeBlock b v0)\<lparr>has_samples := True\<rparr>
                   in if bit (current_block_flags v1) 2 \<and> \<not> ignore_loop_address v1
                      then set_voice_reg 7 (current_address v1) v1 else v1)) s1)"

definition voice_volume :: "nat \<Rightarrow> spu \<Rightarrow> int" where
  "voice_volume i r =
     (let v = m_voices r ! i
      in if adsr_volume v \<noteq> 0
         then ApplyVolume (if IsVoiceNoiseEnabled i r then GetVoiceNoiseLevel r else Interpolate v) (adsr_volume v)
         else 0)"

definition voice_step :: "nat \<Rightarrow> spu \<Rightarrow> u16" where
  "voice_step i r =
     (let step = adpcm_sample_rate (m_voices r ! i);
          step1 = (if IsPitchModulationEnabled i r
                   then let factor = min (max (last_volume (m_voices r ! (i - 1))) (- 0x8000)) 0x7FFF + 0x8000
                        in ucast (drop_bit 15 ((scast step :: u32) * word_of_int factor))
                   else step)
      in min step1 0x3FFF)"

text \<open>Past its last sample a voice goes to the next block, or to where the flags of this one say.\<close>

definition next_block :: "nat \<Rightarrow> spu \<Rightarrow> spu" where
  "next_block i r =
     (let v0 = m_voices r ! i;
          v1 = v0\<lparr>voice_counter := bf_set 12 5 (word_of_nat (sample_index v0 - 28)) (voice_counter v0),
                  has_samples := False, is_first_block := False, current_address := current_address v0 + 2\<rparr>
      in if bit (current_block_flags v1) 0
         then let v2 = v1\<lparr>current_address := adpcm_repeat_address v1 AND NOT 1\<rparr>
              in (upd_voice i (\<lambda>_. if \<not> bit (current_block_flags v2) 1 then ForceOff v2 else v2) r)
                   \<lparr>m_endx_register := m_endx_register r OR push_bit i 1\<rparr>
         else upd_voice i (\<lambda>_. v1) r)"

definition advance_voice :: "nat \<Rightarrow> spu \<Rightarrow> spu" where
  "advance_voice i r =
     (let r1 = upd_voice i (\<lambda>v. v\<lparr>voice_counter := voice_counter v + ucast (voice_step i r)\<rparr>) r
      in if sample_index (m_voices r1 ! i) \<ge> 28 then next_block i r1 else r1)"

definition SampleVoice :: "nat \<Rightarrow> 'a spu_state_scheme \<Rightarrow> (int \<times> int) \<times> 'a spu_state_scheme" where
  "SampleVoice i s =
     (let r = g_spu s
      in if \<not> IsOn (m_voices r ! i) \<and> \<not> bit (m_SPUCNT r) 6
         then ((0, 0), upd_spu (upd_voice i (\<lambda>v. v\<lparr>last_volume := 0\<rparr>)) s)
         else let s1 = load_block i s;
                  volume = voice_volume i (g_spu s1);
                  s2 = upd_spu (\<lambda>r. advance_voice i (upd_voice i
                         (\<lambda>v. let v1 = v\<lparr>last_volume := volume\<rparr>
                              in if adsr_phase v1 \<noteq> PhaseOff then TickADSR v1 else v1) r)) s1;
                  v = m_voices (g_spu s2) ! i
              in ((ApplyVolume volume (current_level (left_volume v)), ApplyVolume volume (current_level (right_volume v))),
                  upd_spu (upd_voice i (\<lambda>v. v\<lparr>left_volume := sweep_Tick (left_volume v),
                                                right_volume := sweep_Tick (right_volume v)\<rparr>)) s2))"

subsection \<open>A frame\<close>

text \<open>The sums over the voices: left, right, and those of the voices with reverberation.\<close>

record voice_sums =
  left_sum :: int
  right_sum :: int
  reverb_in_left :: int
  reverb_in_right :: int

fun mix_voices :: "u32 \<Rightarrow> nat list \<Rightarrow> voice_sums \<Rightarrow> 'a spu_state_scheme \<Rightarrow> voice_sums \<times> 'a spu_state_scheme" where
  "mix_voices reverb_on [] m s = (m, s)"
| "mix_voices reverb_on (i # is) m s =
     (let ((left, right), s1) = SampleVoice i s;
          m1 = m\<lparr>left_sum := left_sum m + left, right_sum := right_sum m + right\<rparr>;
          m2 = (if bit reverb_on i
                then m1\<lparr>reverb_in_left := reverb_in_left m + left, reverb_in_right := reverb_in_right m + right\<rparr> else m1)
      in mix_voices reverb_on is m2 s1)"

definition mix_cd :: "s16 \<Rightarrow> s16 \<Rightarrow> spu \<Rightarrow> voice_sums \<Rightarrow> voice_sums" where
  "mix_cd cd_left cd_right r m =
     (if \<not> bit (m_SPUCNT r) 0 then m
      else let left = ApplyVolume (sint cd_left) (m_cd_audio_volume_left r);
               right = ApplyVolume (sint cd_right) (m_cd_audio_volume_right r);
               m1 = m\<lparr>left_sum := left_sum m + left, right_sum := right_sum m + right\<rparr>
           in if bit (m_SPUCNT r) 2
              then m1\<lparr>reverb_in_left := reverb_in_left m + left, reverb_in_right := reverb_in_right m + right\<rparr>
              else m1)"

definition capture_frame :: "s16 \<Rightarrow> s16 \<Rightarrow> 'a spu_state_scheme \<Rightarrow> 'a spu_state_scheme" where
  "capture_frame cd_left cd_right s =
     (let voice_capture = (\<lambda>i s. word_of_int (Clamp16 (last_volume (m_voices (g_spu s) ! i))) :: s16);
          s1 = WriteToCaptureBuffer 1 cd_right (WriteToCaptureBuffer 0 cd_left s);
          s2 = WriteToCaptureBuffer 2 (voice_capture 1 s1) s1;
          s3 = WriteToCaptureBuffer 3 (voice_capture 3 s2) s2
      in upd_spu IncrementCaptureBufferPosition s3)"

definition main_sample :: "int \<Rightarrow> sweep \<Rightarrow> s16" where
  "main_sample mixed volume = word_of_int (ApplyVolume (Clamp16 mixed) (current_level volume))"

definition mix_voices_frame :: "'a spu_state_scheme \<Rightarrow> voice_sums \<times> 'a spu_state_scheme" where
  "mix_voices_frame s =
     (let (m, s1) = mix_voices (m_reverb_on_register (g_spu s)) [0..<NUM_VOICES]
                      \<lparr>left_sum = 0, right_sum = 0, reverb_in_left = 0, reverb_in_right = 0\<rparr> s
      in (if bit (m_SPUCNT (g_spu s1)) 14 then m else m\<lparr>left_sum := 0, right_sum := 0\<rparr>, s1))"

definition generate_frame :: "('a spu_state_scheme) cd_audio \<Rightarrow> 'a spu_state_scheme \<Rightarrow> (s16 \<times> s16) \<times> 'a spu_state_scheme" where
  "generate_frame cd s =
     (let (m, s1) = mix_voices_frame s;
          ((cd_left, cd_right), s2) = cd (upd_spu UpdateNoise s1);
          m1 = mix_cd cd_left cd_right (g_spu s2) m;
          (reverb_left, reverb_right, r) =
            ProcessReverb (word_of_int (Clamp16 (reverb_in_left m1))) (word_of_int (Clamp16 (reverb_in_right m1))) (g_spu s2);
          s3 = upd_spu (\<lambda>_. r) s2;
          left = main_sample (left_sum m1 + reverb_left) (m_main_volume_left r);
          right = main_sample (right_sum m1 + reverb_right) (m_main_volume_right r);
          s4 = upd_spu (\<lambda>r. r\<lparr>m_main_volume_left := sweep_Tick (m_main_volume_left r),
                              m_main_volume_right := sweep_Tick (m_main_volume_right r)\<rparr>) s3
      in ((left, right), capture_frame cd_left cd_right s4))"

definition key_voice :: "u32 \<Rightarrow> u32 \<Rightarrow> nat \<Rightarrow> spu \<Rightarrow> spu" where
  "key_voice off on i r =
     (let r1 = (if bit off i then upd_voice i KeyOff r else r)
      in if bit on i
         then upd_voice i KeyOn (r1\<lparr>m_endx_register := m_endx_register r1 AND NOT (push_bit i 1)\<rparr>) else r1)"

definition key_voices :: "spu \<Rightarrow> spu" where
  "key_voices r =
     (if m_key_off_register r = 0 \<and> m_key_on_register r = 0 then r
      else fold (key_voice (m_key_off_register r) (m_key_on_register r)) [0..<NUM_VOICES]
             (r\<lparr>m_key_off_register := 0, m_key_on_register := 0\<rparr>))"

fun generate_frames :: "('a spu_state_scheme) cd_audio \<Rightarrow> nat list \<Rightarrow> 'a spu_state_scheme \<Rightarrow> s16 list \<times> 'a spu_state_scheme" where
  "generate_frames cd [] s = ([], s)"
| "generate_frames cd (i # is) s =
     (let ((left, right), s1) = generate_frame cd s;
          (frames, s2) = generate_frames cd is (if i = 0 then upd_spu key_voices s1 else s1)
      in (left # right # frames, s2))"

end
