(* ===== verification/SpuHost.thy ===== *)
theory SpuHost
  imports SpuExec
begin

text \<open>
  The sound processor's clock, its audio stream and its registers (\<open>src/core/spu.cpp\<close>,
  \<open>src/libretro/libretro_audio_stream.cpp\<close>).
\<close>

subsection \<open>The audio stream\<close>

definition BUFFER_SIZE :: nat where "BUFFER_SIZE = 2048"

definition new_audio_stream :: audio_stream where
  "new_audio_stream = \<lparr>m_silent_mode = False, m_buffer = new_fifo 32768 0, frontend_audio = []\<rparr>"

definition SetSilentMode :: "bool \<Rightarrow> audio_stream \<Rightarrow> audio_stream" where
  "SetSilentMode silent a = a\<lparr>m_silent_mode := silent\<rparr>"

definition BeginWrite :: "audio_stream \<Rightarrow> nat" where
  "BeginWrite a = min BUFFER_SIZE (GetContiguousSpace (m_buffer a) div 2)"

lemma m_size_Remove_u32: "0 < n \<Longrightarrow> m_size (Remove n q) < 2 ^ 32"
proof (induction n arbitrary: q)
  case (Suc n)
  show ?case
  proof (cases n)
    case k: (Suc k)
    show ?thesis using Suc.IH [of "RemoveOne q"] k by simp
  qed (simp add: RemoveOne_def sub_u32_def)
qed simp

lemma m_size_Remove: "n \<le> m_size q \<Longrightarrow> 0 < n \<Longrightarrow> m_size (Remove n q) < m_size q"
proof (induction n arbitrary: q)
  case (Suc n)
  show ?case
  proof (cases "m_size q < 2 ^ 32")
    case True
    then have "m_size (RemoveOne q) = m_size q - 1" using Suc.prems by (simp add: RemoveOne_def)
    moreover have "n \<le> m_size q - 1" using Suc.prems by simp
    ultimately show ?thesis using Suc.IH [of "RemoveOne q"] Suc.prems by (cases "n = 0") auto
  next
    case False
    then show ?thesis using m_size_Remove_u32 [OF Suc.prems(2), of q] by linarith
  qed
qed simp

text \<open>The loop of \<open>UploadToFrontend\<close> and \<open>EndWrite\<close>: the contiguous parts of the buffer, in whole frames.\<close>

function drain :: "bool \<Rightarrow> s16 fifo \<Rightarrow> s16 list \<times> s16 fifo" where
  "drain skip q =
     (let n = GetContiguousSize q
      in if n = 0 then ([], q)
         else let (rest, q1) = drain skip (Remove n q)
              in ((if skip then [] else take (n div 2 * 2) (drop (m_head q) (m_ptr q))) @ rest, q1))"
  by pat_completeness auto
termination
  by (relation "measure (\<lambda>(skip, q). m_size q)") (auto simp: GetContiguousSize_def intro!: m_size_Remove)

declare drain.simps [simp del]

definition UploadToFrontend :: "bool \<Rightarrow> audio_stream \<Rightarrow> audio_stream" where
  "UploadToFrontend skip a =
     (let (samples, q) = drain skip (m_buffer a)
      in a\<lparr>m_buffer := q, frontend_audio := frontend_audio a @ samples\<rparr>)"

definition EndWrite :: "bool \<Rightarrow> bool \<Rightarrow> nat \<Rightarrow> audio_stream \<Rightarrow> audio_stream" where
  "EndWrite fast_hook skip num_frames a0 =
     (let a = a0\<lparr>m_buffer := AdvanceTail (num_frames * 2) (m_buffer a0)\<rparr>
      in if m_silent_mode a then a\<lparr>m_buffer := Remove (GetSize (m_buffer a)) (m_buffer a)\<rparr>
         else if fast_hook then a
         else UploadToFrontend skip a)"

text \<open>The frames are written where \<open>BeginWrite\<close> points to.\<close>

definition write_frames :: "s16 list \<Rightarrow> audio_stream \<Rightarrow> audio_stream" where
  "write_frames frames a =
     a\<lparr>m_buffer := (m_buffer a)\<lparr>m_ptr := memcpy_at (m_tail (m_buffer a)) frames (m_ptr (m_buffer a))\<rparr>\<rparr>"

definition end_batch :: "s16 list \<Rightarrow> nat \<Rightarrow> 'a spu_state_scheme \<Rightarrow> 'a spu_state_scheme" where
  "end_batch frames n s =
     s\<lparr>g_audio_stream := EndWrite (cfg_audio_fast_hook s) (g_retro_skip_audio_this_frame s) n
                          (write_frames frames (g_audio_stream s))\<rparr>"

subsection \<open>The clock\<close>

partial_function (option) execute_frames_loop :: "('a spu_state_scheme) cd_audio \<Rightarrow> nat \<Rightarrow> 'a spu_state_scheme
    \<Rightarrow> 'a spu_state_scheme option" where
  "execute_frames_loop cd remaining_frames s =
     (if remaining_frames = 0 then Some s
      else let n = min remaining_frames (BeginWrite (g_audio_stream s));
               (frames, s1) = generate_frames cd [0..<n] s
           in execute_frames_loop cd (remaining_frames - n) (end_batch frames n s1))"

text \<open>The frames the ticks are worth, and what is left over.\<close>

definition frames_of_ticks :: "tick_count \<Rightarrow> 'a spu_state_scheme \<Rightarrow> nat \<times> tick_count" where
  "frames_of_ticks ticks s =
     (let carry = m_ticks_carry (g_spu s)
      in if cfg_cpu_overclock_active s
         then let num = (word_of_int ticks :: u64) * ucast (cfg_cpu_overclock_denominator s) + ucast (word_of_int carry :: u32);
                  divider = (word_of_int (m_cpu_tick_divider (g_spu s)) :: u64)
              in (unat (ucast (num div divider) :: u32), sint (ucast (num mod divider) :: u32))
         else let total = (word_of_int (ticks + carry) :: u32)
              in (unat (total div word_of_int SYSCLK_TICKS_PER_SPU_TICK), sint (total mod word_of_int SYSCLK_TICKS_PER_SPU_TICK)))"

definition spu_Execute :: "('a spu_state_scheme) cd_audio \<Rightarrow> tick_count \<Rightarrow> 'a spu_state_scheme \<Rightarrow> 'a spu_state_scheme option" where
  "spu_Execute cd ticks s =
     (let (remaining_frames, carry) = frames_of_ticks ticks s
      in execute_frames_loop cd remaining_frames (upd_spu (\<lambda>r. r\<lparr>m_ticks_carry := carry\<rparr>) s))"

text \<open>The callbacks of the two events; when \<open>Execute\<close> does not return, the machine stands still.\<close>

definition spu_tick_callback :: "('a spu_state_scheme) cd_audio \<Rightarrow> tick_count \<Rightarrow> tick_count \<Rightarrow> 'a spu_state_scheme \<Rightarrow> 'a spu_state_scheme" where
  "spu_tick_callback cd ticks late s = (case spu_Execute cd ticks s of Some t \<Rightarrow> t | None \<Rightarrow> s)"

definition spu_transfer_callback :: "('a spu_state_scheme) request_line \<Rightarrow> tick_count \<Rightarrow> tick_count \<Rightarrow> 'a spu_state_scheme \<Rightarrow> 'a spu_state_scheme" where
  "spu_transfer_callback req ticks late s = ExecuteTransfer req ticks s"

definition UpdateEventInterval :: "('a spu_state_scheme) cd_audio \<Rightarrow> 'a spu_state_scheme \<Rightarrow> 'a spu_state_scheme" where
  "UpdateEventInterval cd s =
     (let control = m_SPUCNT (g_spu s);
          interval = (if bit control 15 \<and> bit control 6 then 1 else int BUFFER_SIZE);
          interval_ticks = interval * m_cpu_ticks_per_spu_tick (g_spu s);
          event = te_nodes s m_spu_tick_event
      in if te_active event \<and> te_interval event = interval_ticks then s
         else let s1 = SetInterval m_spu_tick_event interval_ticks
                         (InvokeEarly (spu_tick_callback cd) m_spu_tick_event True s);
                  downcount = (if cfg_cpu_overclock_active s1 then interval_ticks
                               else interval_ticks - m_ticks_carry (g_spu s1))
              in Schedule m_spu_tick_event downcount s1)"

definition set_clock :: "'a spu_state_scheme \<Rightarrow> 'a spu_state_scheme" where
  "set_clock s =
     upd_spu (\<lambda>r. r\<lparr>m_cpu_ticks_per_spu_tick := ScaleTicksToOverclock SYSCLK_TICKS_PER_SPU_TICK s,
                    m_cpu_tick_divider := sint (cfg_cpu_overclock_numerator s * word_of_int SYSCLK_TICKS_PER_SPU_TICK)\<rparr>) s"

definition CPUClockChanged :: "('a spu_state_scheme) cd_audio \<Rightarrow> 'a spu_state_scheme \<Rightarrow> 'a spu_state_scheme" where
  "CPUClockChanged cd s = UpdateEventInterval cd (upd_spu (\<lambda>r. r\<lparr>m_ticks_carry := 0\<rparr>) (set_clock s))"

definition GeneratePendingSamples :: "('a spu_state_scheme) request_line \<Rightarrow> ('a spu_state_scheme) cd_audio
    \<Rightarrow> 'a spu_state_scheme \<Rightarrow> 'a spu_state_scheme" where
  "GeneratePendingSamples req cd s0 =
     (let s = (if transfer_active s0
               then InvokeEarly (spu_transfer_callback req) m_spu_transfer_event False s0 else s0);
          ticks_pending = GetTicksSinceLastExecution m_spu_tick_event s;
          carry = m_ticks_carry (g_spu s);
          frames_to_execute =
            (if cfg_cpu_overclock_active s
             then sint ((ucast ((word_of_int ticks_pending :: u64) * ucast (cfg_cpu_overclock_denominator s)
                                + ucast (word_of_int carry :: u32)) :: u32)
                        div word_of_int (m_cpu_tick_divider (g_spu s)))
             else sint ((word_of_int (ticks_pending + carry) :: u32) div word_of_int SYSCLK_TICKS_PER_SPU_TICK))
      in InvokeEarly (spu_tick_callback cd) m_spu_tick_event (frames_to_execute > 0) s)"

subsection \<open>Reset\<close>

definition reset_voice :: "voice \<Rightarrow> voice" where
  "reset_voice v =
     v\<lparr>current_address := 0, voice_regs := replicate 8 0, voice_counter := 0, current_block_flags := 0,
       is_first_block := False, current_block_samples := replicate 31 0, adpcm_last_samples := (0, 0),
       adsr_envelope := envelope_Reset 0 False False, adsr_phase := PhaseOff, adsr_target := 0,
       has_samples := False, ignore_loop_address := False\<rparr>"

definition reset_spu :: "spu \<Rightarrow> spu" where
  "reset_spu r =
     r\<lparr>m_ticks_carry := 0, m_SPUCNT := 0, m_SPUSTAT := 0, m_transfer_address := 0, m_transfer_address_reg := 0,
       m_irq_address := 0, m_capture_buffer_position := 0, m_main_volume_left_reg := 0, m_main_volume_right_reg := 0,
       m_main_volume_left := zero_sweep, m_main_volume_right := zero_sweep, m_cd_audio_volume_left := 0,
       m_cd_audio_volume_right := 0, m_external_volume_left := 0, m_external_volume_right := 0,
       m_key_on_register := 0, m_key_off_register := 0, m_endx_register := 0, m_pitch_modulation_enable_register := 0,
       m_noise_mode_register := 0, m_noise_count := 0, m_noise_level := 1, m_reverb_on_register := 0,
       vLOUT := 0, vROUT := 0, mBASE := 0, reverb_rev := replicate 32 0, m_reverb_base_address := 0,
       m_reverb_current_address := 0, m_reverb_downsample_buffer := replicate 2 (replicate 128 0),
       m_reverb_upsample_buffer := replicate 2 (replicate 64 0), m_reverb_resample_buffer_position := 0,
       m_voices := map reset_voice (m_voices r), m_transfer_fifo := Clear (m_transfer_fifo r), m_spu_ram := (\<lambda>_. 0)\<rparr>"

definition spu_Reset :: "('a spu_state_scheme) cd_audio \<Rightarrow> 'a spu_state_scheme \<Rightarrow> 'a spu_state_scheme" where
  "spu_Reset cd s = UpdateEventInterval cd (Deactivate m_spu_transfer_event (upd_spu reset_spu s))"

definition spu_Initialize :: "('a spu_state_scheme) cd_audio \<Rightarrow> 'a spu_state_scheme \<Rightarrow> 'a spu_state_scheme" where
  "spu_Initialize cd s =
     (let s1 = set_clock s;
          ticks = m_cpu_ticks_per_spu_tick (g_spu s1);
          s2 = set_node m_spu_tick_event (\<lambda>_. te_construct ''SPU Sample'' ticks ticks) s1
      in spu_Reset cd
           (set_node m_spu_transfer_event
              (\<lambda>_. te_construct ''SPU Transfer'' TRANSFER_TICKS_PER_HALFWORD TRANSFER_TICKS_PER_HALFWORD) s2))"

end
