(* ===== verification/SpuRegisters.thy ===== *)
theory SpuRegisters
  imports SpuHost
begin

text \<open>
  The registers of the sound processor: \<open>ReadRegister\<close> and \<open>WriteRegister\<close> with those of the voices
  (\<open>src/core/spu.cpp\<close>). Offsets count from \<open>SPU_BASE\<close>, 0x1F801C00. The accesses that depend on
  the samples played so far generate the pending ones first.
\<close>

definition lo_half :: "u32 \<Rightarrow> u16" where "lo_half w = ucast w"
definition hi_half :: "u32 \<Rightarrow> u16" where "hi_half w = ucast (drop_bit 16 w)"
definition set_lo_half :: "u16 \<Rightarrow> u32 \<Rightarrow> u32" where "set_lo_half v w = (w AND 0xFFFF0000) OR ucast v"
definition set_hi_half :: "u16 \<Rightarrow> u32 \<Rightarrow> u32" where "set_hi_half v w = (w AND 0x0000FFFF) OR push_bit 16 (ucast v)"

definition ReadVoiceRegister :: "('a spu_state_scheme) request_line \<Rightarrow> ('a spu_state_scheme) cd_audio \<Rightarrow> u32
    \<Rightarrow> 'a spu_state_scheme \<Rightarrow> u16 \<times> 'a spu_state_scheme" where
  "ReadVoiceRegister req cd offset s0 =
     (let reg_index = unat offset mod 0x10 div 2;
          voice_index = unat offset div 0x10;
          pending = (IsOn (m_voices (g_spu s0) ! voice_index) \<or> bit (m_key_on_register (g_spu s0)) voice_index);
          s = (if reg_index \<ge> 6 \<and> pending then GeneratePendingSamples req cd s0 else s0)
      in (voice_regs (m_voices (g_spu s) ! voice_index) ! reg_index, s))"

text \<open>A read of a register that needs the pending samples, and of one that does not.\<close>

definition plain_register :: "u32 \<Rightarrow> spu \<Rightarrow> u16 option" where
  "plain_register offset r =
     (if offset = 0x180 then Some (m_main_volume_left_reg r)
      else if offset = 0x182 then Some (m_main_volume_right_reg r)
      else if offset = 0x184 then Some (vLOUT r)
      else if offset = 0x186 then Some (vROUT r)
      else if offset = 0x188 then Some (lo_half (m_key_on_register r))
      else if offset = 0x18A then Some (hi_half (m_key_on_register r))
      else if offset = 0x18C then Some (lo_half (m_key_off_register r))
      else if offset = 0x18E then Some (hi_half (m_key_off_register r))
      else if offset = 0x190 then Some (lo_half (m_pitch_modulation_enable_register r))
      else if offset = 0x192 then Some (hi_half (m_pitch_modulation_enable_register r))
      else if offset = 0x194 then Some (lo_half (m_noise_mode_register r))
      else if offset = 0x196 then Some (hi_half (m_noise_mode_register r))
      else if offset = 0x198 then Some (lo_half (m_reverb_on_register r))
      else if offset = 0x19A then Some (hi_half (m_reverb_on_register r))
      else if offset = 0x19C then Some (lo_half (m_endx_register r))
      else if offset = 0x19E then Some (hi_half (m_endx_register r))
      else if offset = 0x1A2 then Some (mBASE r)
      else if offset = 0x1A4 then Some (m_irq_address r)
      else if offset = 0x1A6 then Some (m_transfer_address_reg r)
      else if offset = 0x1A8 then Some 0xFFFF
      else if offset = 0x1AA then Some (m_SPUCNT r)
      else if offset = 0x1AC then Some (m_transfer_control r)
      else if offset = 0x1B0 then Some (m_cd_audio_volume_left r)
      else if offset = 0x1B2 then Some (m_cd_audio_volume_right r)
      else if offset = 0x1B4 then Some (m_external_volume_left r)
      else if offset = 0x1B6 then Some (m_external_volume_right r)
      else None)"

definition spu_ReadRegister :: "('a spu_state_scheme) request_line \<Rightarrow> ('a spu_state_scheme) cd_audio \<Rightarrow> u32
    \<Rightarrow> 'a spu_state_scheme \<Rightarrow> u16 \<times> 'a spu_state_scheme" where
  "spu_ReadRegister req cd offset s =
     (let synced = GeneratePendingSamples req cd s
      in case plain_register offset (g_spu s) of
           Some v \<Rightarrow> (v, s)
         | None \<Rightarrow>
             if offset = 0x1AE then (m_SPUSTAT (g_spu synced), synced)
             else if offset = 0x1B8 then (current_level (m_main_volume_left (g_spu synced)), synced)
             else if offset = 0x1BA then (current_level (m_main_volume_right (g_spu synced)), synced)
             else if offset < 0x180 then ReadVoiceRegister req cd offset s
             else if offset \<ge> 0x1C0 \<and> offset < 0x200 then (reverb_rev (g_spu s) ! ((unat offset - 0x1C0) div 2), s)
             else if offset \<ge> 0x200 \<and> offset < 0x260
             then let v = m_voices (g_spu synced) ! ((unat offset - 0x200) div 4)
                  in (current_level (if bit offset 1 then left_volume v else right_volume v), synced)
             else (0xFFFF, s))"

definition write_voice :: "nat \<Rightarrow> u16 \<Rightarrow> voice \<Rightarrow> voice" where
  "write_voice reg_index w v =
     (if reg_index = 0x00 then (set_voice_reg 0 w v)\<lparr>left_volume := sweep_Reset w (left_volume v)\<rparr>
      else if reg_index = 0x02 then (set_voice_reg 1 w v)\<lparr>right_volume := sweep_Reset w (right_volume v)\<rparr>
      else if reg_index = 0x04 then set_voice_reg 2 w v
      else if reg_index = 0x06 then set_voice_reg 3 w v
      else if reg_index = 0x08
      then let v1 = set_voice_reg 4 w v in if IsOn v1 then UpdateADSREnvelope v1 else v1
      else if reg_index = 0x0A
      then let v1 = set_voice_reg 5 w v in if IsOn v1 then UpdateADSREnvelope v1 else v1
      else if reg_index = 0x0C then set_voice_reg 6 w v
      else if reg_index = 0x0E
      then (set_voice_reg 7 w v)\<lparr>ignore_loop_address := ignore_loop_address v \<or> (IsOn v \<and> \<not> is_first_block v)\<rparr>
      else v)"

definition WriteVoiceRegister :: "('a spu_state_scheme) request_line \<Rightarrow> ('a spu_state_scheme) cd_audio \<Rightarrow> u32 \<Rightarrow> u16
    \<Rightarrow> 'a spu_state_scheme \<Rightarrow> 'a spu_state_scheme" where
  "WriteVoiceRegister req cd offset w s0 =
     (let reg_index = unat offset mod 0x10;
          voice_index = unat offset div 0x10;
          pending = (IsOn (m_voices (g_spu s0) ! voice_index) \<or> bit (m_key_on_register (g_spu s0)) voice_index);
          s = (if pending then GeneratePendingSamples req cd s0 else s0)
      in upd_spu (upd_voice voice_index (write_voice reg_index w)) s)"

text \<open>The interrupt that a new address or a new control word may be late for.\<close>

definition late_irq :: "'a spu_state_scheme \<Rightarrow> 'a spu_state_scheme" where
  "late_irq = ram_irq (\<lambda>r. at_transfer_address r \<or> CheckForLateRAMIRQs r)"

definition write_transfer_address :: "('a spu_state_scheme) request_line \<Rightarrow> u16 \<Rightarrow> 'a spu_state_scheme \<Rightarrow> 'a spu_state_scheme" where
  "write_transfer_address req w s =
     ram_irq at_transfer_address
       (upd_spu (\<lambda>r. r\<lparr>m_transfer_address_reg := w, m_transfer_address := ucast w * 8\<rparr>)
         (InvokeEarly (spu_transfer_callback req) m_spu_transfer_event False s))"

text \<open>A transfer that is stopped: what is left in the FIFO of a DMA write goes to the RAM, else it is dropped.\<close>

definition stop_transfer :: "u16 \<Rightarrow> 'a spu_state_scheme \<Rightarrow> 'a spu_state_scheme" where
  "stop_transfer w s =
     (let mode = ram_transfer_mode (m_SPUCNT (g_spu s)); q = m_transfer_fifo (g_spu s)
      in if ram_transfer_mode w \<noteq> mode \<and> ram_transfer_mode w = Stopped \<and> \<not> IsEmpty q
         then if mode = DMAWrite then ExecuteFIFOWriteToRAM s else set_fifo (Clear q) s
         else s)"

definition write_SPUCNT :: "('a spu_state_scheme) request_line \<Rightarrow> ('a spu_state_scheme) cd_audio \<Rightarrow> u16
    \<Rightarrow> 'a spu_state_scheme \<Rightarrow> 'a spu_state_scheme" where
  "write_SPUCNT req cd w s0 =
     (let s1 = stop_transfer w (GeneratePendingSamples req cd s0);
          s2 = (if \<not> bit w 15 \<and> bit (m_SPUCNT (g_spu s1)) 15
                then upd_spu (\<lambda>r. r\<lparr>m_voices := map ForceOff (m_voices r)\<rparr>) s1 else s1);
          s3 = upd_spu (\<lambda>r. upd_stat (bf_set 0 6 (bf_get 0 6 w)) (r\<lparr>m_SPUCNT := w\<rparr>)) s2;
          s4 = (if \<not> bit w 6 then upd_spu (upd_stat (assign_bit 6 False)) s3 else late_irq s3)
      in UpdateTransferEvent (UpdateDMARequest req (UpdateEventInterval cd s4)))"

text \<open>A register whose write only changes \<open>g_spu\<close>, after the pending samples.\<close>

definition synced_write :: "u32 \<Rightarrow> u16 \<Rightarrow> (spu \<Rightarrow> spu) option" where
  "synced_write offset w =
     (if offset = 0x180
      then Some (\<lambda>r. r\<lparr>m_main_volume_left_reg := w, m_main_volume_left := sweep_Reset w (m_main_volume_left r)\<rparr>)
      else if offset = 0x182
      then Some (\<lambda>r. r\<lparr>m_main_volume_right_reg := w, m_main_volume_right := sweep_Reset w (m_main_volume_right r)\<rparr>)
      else if offset = 0x184 then Some (\<lambda>r. r\<lparr>vLOUT := w\<rparr>)
      else if offset = 0x186 then Some (\<lambda>r. r\<lparr>vROUT := w\<rparr>)
      else if offset = 0x188 then Some (\<lambda>r. r\<lparr>m_key_on_register := set_lo_half w (m_key_on_register r)\<rparr>)
      else if offset = 0x18A then Some (\<lambda>r. r\<lparr>m_key_on_register := set_hi_half w (m_key_on_register r)\<rparr>)
      else if offset = 0x18C then Some (\<lambda>r. r\<lparr>m_key_off_register := set_lo_half w (m_key_off_register r)\<rparr>)
      else if offset = 0x18E then Some (\<lambda>r. r\<lparr>m_key_off_register := set_hi_half w (m_key_off_register r)\<rparr>)
      else if offset = 0x190
      then Some (\<lambda>r. r\<lparr>m_pitch_modulation_enable_register := set_lo_half w (m_pitch_modulation_enable_register r)\<rparr>)
      else if offset = 0x192
      then Some (\<lambda>r. r\<lparr>m_pitch_modulation_enable_register := set_hi_half w (m_pitch_modulation_enable_register r)\<rparr>)
      else if offset = 0x194 then Some (\<lambda>r. r\<lparr>m_noise_mode_register := set_lo_half w (m_noise_mode_register r)\<rparr>)
      else if offset = 0x196 then Some (\<lambda>r. r\<lparr>m_noise_mode_register := set_hi_half w (m_noise_mode_register r)\<rparr>)
      else if offset = 0x198 then Some (\<lambda>r. r\<lparr>m_reverb_on_register := set_lo_half w (m_reverb_on_register r)\<rparr>)
      else if offset = 0x19A then Some (\<lambda>r. r\<lparr>m_reverb_on_register := set_hi_half w (m_reverb_on_register r)\<rparr>)
      else if offset = 0x1A2
      then Some (\<lambda>r. let base = push_bit 2 (ucast w) AND 0x3FFFF
                     in r\<lparr>mBASE := w, m_reverb_base_address := base, m_reverb_current_address := base\<rparr>)
      else if offset = 0x1B0 then Some (\<lambda>r. r\<lparr>m_cd_audio_volume_left := w\<rparr>)
      else if offset = 0x1B2 then Some (\<lambda>r. r\<lparr>m_cd_audio_volume_right := w\<rparr>)
      else if offset \<ge> 0x1C0 \<and> offset < 0x200
      then Some (\<lambda>r. r\<lparr>reverb_rev := (reverb_rev r)[(unat offset - 0x1C0) div 2 := w]\<rparr>)
      else None)"

definition spu_WriteRegister :: "('a spu_state_scheme) request_line \<Rightarrow> ('a spu_state_scheme) cd_audio \<Rightarrow> u32 \<Rightarrow> u16
    \<Rightarrow> 'a spu_state_scheme \<Rightarrow> 'a spu_state_scheme" where
  "spu_WriteRegister req cd offset w s =
     (case synced_write offset w of
        Some f \<Rightarrow> upd_spu f (GeneratePendingSamples req cd s)
      | None \<Rightarrow>
          if offset = 0x1A4
          then late_irq (upd_spu (\<lambda>r. r\<lparr>m_irq_address := w\<rparr>) (GeneratePendingSamples req cd s))
          else if offset = 0x1A6 then write_transfer_address req w s
          else if offset = 0x1A8 then ManualTransferWrite w s
          else if offset = 0x1AA then write_SPUCNT req cd w s
          else if offset = 0x1AC then upd_spu (\<lambda>r. r\<lparr>m_transfer_control := w\<rparr>) s
          else if offset = 0x1B4 then upd_spu (\<lambda>r. r\<lparr>m_external_volume_left := w\<rparr>) s
          else if offset = 0x1B6 then upd_spu (\<lambda>r. r\<lparr>m_external_volume_right := w\<rparr>) s
          else if offset < 0x180 then WriteVoiceRegister req cd offset w s
          else s)"

end
