(* ===== verification/SpuSpec.thy ===== *)
theory SpuSpec
  imports SpuRegisters
begin

text \<open>
  What every operation of the sound processor keeps: the lists have their lengths, the sample index
  of a voice is below 28, the rates of the envelopes are in the table, the positions are in their
  buffers, and the bytes beyond the 512 KiB of RAM are never written. The FIFO of the transfers is
  not part of the invariant: a DMA read can take more from it than it holds.
\<close>

subsection \<open>Words\<close>

lemma unat_bf_get: "unat (bf_get i n w :: 'w::len word) < 2 ^ n"
proof -
  have "bf_get i n w = take_bit n (drop_bit i w)"
    by (rule bit_word_eqI) (auto simp: bf_get_def bit_bf_mask bit_simps dest: bit_imp_le_length)
  then show ?thesis by (simp add: unsigned_take_bit_eq)
qed

lemma unat_bf_get_eq:
  fixes w :: "'w::len word"
  shows "unat (bf_get i n w) = unat w div 2 ^ i mod 2 ^ n"
proof -
  have "bf_get i n w = take_bit n (drop_bit i w)"
    by (rule bit_word_eqI) (auto simp: bf_get_def bit_bf_mask bit_simps dest: bit_imp_le_length)
  moreover have "unat (drop_bit i w) = unat w div 2 ^ i"
    by (simp only: unat_drop_bit_eq drop_bit_eq_div [of i "unat w"])
  ultimately show ?thesis by (simp only: unsigned_take_bit_eq take_bit_eq_mod [of n "unat w div 2 ^ i"])
qed

lemma sint_s16: "- 32768 \<le> sint (w :: s16)" "sint (w :: s16) \<le> 32767"
  using sint_range_size [of w] by (simp_all add: word_size)

lemma sint_word_of_int16: "- 32768 \<le> x \<Longrightarrow> x \<le> 32767 \<Longrightarrow> sint (word_of_int x :: s16) = x"
  by (simp add: sint_sbintrunc' signed_take_bit_int_eq_self)

lemma and_mask18: "unat ((w :: u32) AND 0x3FFFF) = unat w mod 0x40000"
proof -
  have "w AND 0x3FFFF = take_bit 18 w" by (simp add: take_bit_eq_mask mask_eq_exp_minus_1)
  then have "unat (w AND 0x3FFFF) = take_bit 18 (unat w)" by (simp only: unsigned_take_bit_eq)
  then show ?thesis by (simp add: take_bit_eq_mod)
qed

lemma unat_and_mask18: "unat ((w :: u32) AND 0x3FFFF) < 0x40000"
  by (simp add: and_mask18)

lemma unat_and_RAM_MASK: "unat ((w :: u32) AND RAM_MASK) < RAM_SIZE"
proof -
  have "w AND RAM_MASK = take_bit 19 w" by (simp add: RAM_MASK_def take_bit_eq_mask mask_eq_exp_minus_1)
  then show ?thesis using take_bit_nat_less_exp [of 19 "unat w"] by (simp add: RAM_SIZE_def unsigned_take_bit_eq)
qed

subsection \<open>Envelopes and voices\<close>

definition env_ok :: "envelope \<Rightarrow> bool" where
  "env_ok e \<longleftrightarrow> env_rate e < 128"

definition sweep_ok :: "sweep \<Rightarrow> bool" where
  "sweep_ok v \<longleftrightarrow> env_ok (sweep_envelope v)"

definition voice_ok :: "voice \<Rightarrow> bool" where
  "voice_ok v \<longleftrightarrow> length (voice_regs v) = 8 \<and> length (current_block_samples v) = 31 \<and>
     unat (voice_counter v) < 28 * 4096 \<and> env_ok (adsr_envelope v) \<and> sweep_ok (left_volume v) \<and> sweep_ok (right_volume v)"

lemma env_ok_Reset: "rate < 128 \<Longrightarrow> env_ok (envelope_Reset rate d x)"
  by (simp add: env_ok_def envelope_Reset_def)

lemma env_ok_Tick: "env_ok e \<Longrightarrow> env_ok (snd (envelope_Tick level e))"
  by (simp add: env_ok_def envelope_Tick_def Let_def split: prod.split)

lemma sweep_ok_Reset: "sweep_ok v \<Longrightarrow> sweep_ok (sweep_Reset reg v)"
  using unat_bf_get [of 0 7 reg] by (simp add: sweep_ok_def sweep_Reset_def env_ok_Reset)

lemma sweep_ok_Tick: "sweep_ok v \<Longrightarrow> sweep_ok (sweep_Tick v)"
  using env_ok_Tick [of "sweep_envelope v" "current_level v"]
  by (cases "envelope_Tick (current_level v) (sweep_envelope v)") (simp add: sweep_ok_def sweep_Tick_def)

lemma sweep_ok_zero: "sweep_ok zero_sweep"
  by (simp add: sweep_ok_def zero_sweep_def env_ok_def)

lemma voice_ok_set_reg: "voice_ok v \<Longrightarrow> voice_ok (set_voice_reg i x v)"
  by (simp add: voice_ok_def set_voice_reg_def)

lemma set_voice_reg_fields [simp]:
  "current_address (set_voice_reg i x v) = current_address v" "voice_counter (set_voice_reg i x v) = voice_counter v"
  "current_block_flags (set_voice_reg i x v) = current_block_flags v"
  "current_block_samples (set_voice_reg i x v) = current_block_samples v"
  "adsr_phase (set_voice_reg i x v) = adsr_phase v" "adsr_envelope (set_voice_reg i x v) = adsr_envelope v"
  "adsr_target (set_voice_reg i x v) = adsr_target v" "last_volume (set_voice_reg i x v) = last_volume v"
  "voice_regs (set_voice_reg i x v) = (voice_regs v)[i := x]"
  "left_volume (set_voice_reg i x v) = left_volume v" "right_volume (set_voice_reg i x v) = right_volume v"
  by (simp_all add: set_voice_reg_def)

lemma voice_ok_UpdateADSREnvelope: "voice_ok v \<Longrightarrow> voice_ok (UpdateADSREnvelope v)"
  using unat_bf_get [of 8 7 "adsr_bits v"] unat_bf_get [of 4 4 "adsr_bits v"] unat_bf_get [of 22 7 "adsr_bits v"]
    unat_bf_get [of 16 5 "adsr_bits v"]
  by (simp add: voice_ok_def UpdateADSREnvelope_def Let_def env_ok_Reset split: adsr_phase.split)

lemma voice_ok_fields:
  assumes "voice_ok v"
  shows "voice_ok (v\<lparr>adsr_phase := p\<rparr>)" "voice_ok (v\<lparr>last_volume := x\<rparr>)" "voice_ok (v\<lparr>has_samples := b\<rparr>)"
    "voice_ok (v\<lparr>is_first_block := b\<rparr>)" "voice_ok (v\<lparr>current_address := a\<rparr>)" "voice_ok (v\<lparr>ignore_loop_address := b\<rparr>)"
    "voice_ok (v\<lparr>voice_counter := 0\<rparr>)" "voice_ok (v\<lparr>adpcm_last_samples := l\<rparr>)"
    "env_ok e \<Longrightarrow> voice_ok (v\<lparr>adsr_envelope := e\<rparr>)"
    "sweep_ok w \<Longrightarrow> voice_ok (v\<lparr>left_volume := w\<rparr>)" "sweep_ok w \<Longrightarrow> voice_ok (v\<lparr>right_volume := w\<rparr>)"
    "length ss = 31 \<Longrightarrow> voice_ok (v\<lparr>current_block_samples := ss\<rparr>)"
  using assms by (simp_all add: voice_ok_def)

lemma voice_ok_sweeps: "voice_ok v \<Longrightarrow> sweep_ok (left_volume v)" "voice_ok v \<Longrightarrow> sweep_ok (right_volume v)"
  by (simp_all add: voice_ok_def)

lemma voice_ok_TickADSR: "voice_ok v \<Longrightarrow> voice_ok (TickADSR v)"
proof -
  assume v: "voice_ok v"
  obtain level e where t: "envelope_Tick (adsr_volume v) (adsr_envelope v) = (level, e)" by fastforce
  have "env_ok e" using env_ok_Tick [of "adsr_envelope v" "adsr_volume v"] v t by (simp add: voice_ok_def)
  then show ?thesis
    by (simp add: TickADSR_def t Let_def voice_ok_UpdateADSREnvelope voice_ok_fields voice_ok_set_reg v)
qed

lemma voice_ok_key:
  assumes "voice_ok v"
  shows "voice_ok (KeyOn v)" "voice_ok (KeyOff v)" "voice_ok (ForceOff v)"
  using assms
  by (simp_all add: KeyOn_def KeyOff_def ForceOff_def voice_ok_UpdateADSREnvelope voice_ok_fields voice_ok_set_reg,
      intro voice_ok_UpdateADSREnvelope) (simp add: voice_ok_def)

lemma length_decode_samples: "length (fst (decode_samples b is lasts)) = length is"
  by (induction b "is" lasts rule: decode_samples.induct) (simp_all add: Let_def case_prod_beta)

lemma voice_ok_DecodeBlock: "voice_ok v \<Longrightarrow> voice_ok (DecodeBlock b v)"
  using length_decode_samples [of b "[0..<28]" "adpcm_last_samples v"]
  by (simp add: voice_ok_def DecodeBlock_def Let_def case_prod_beta)

lemma voice_ok_write: "voice_ok v \<Longrightarrow> voice_ok (write_voice i w v)"
  by (simp add: write_voice_def Let_def voice_ok_set_reg voice_ok_UpdateADSREnvelope voice_ok_fields sweep_ok_Reset voice_ok_sweeps)

lemma voice_ok_reset: "sweep_ok (left_volume v) \<Longrightarrow> sweep_ok (right_volume v) \<Longrightarrow> voice_ok (reset_voice v)"
  by (simp add: voice_ok_def reset_voice_def env_ok_Reset)

subsection \<open>The sample counter\<close>

text \<open>
  A step is at most 0x3FFF, so a counter below 28 samples stays below 32 samples, which is all that the five
  bits of \<open>sample_index\<close> hold, and one block further on it is below 28 again.
\<close>

lemma voice_step_bound: "unat (voice_step i r) \<le> 0x3FFF"
proof -
  have "voice_step i r \<le> 0x3FFF" by (simp add: voice_step_def Let_def)
  then show ?thesis by (simp add: word_le_nat_alt)
qed

lemma counter_step:
  assumes "unat c < 28 * 4096" and "unat (st :: u16) \<le> 0x3FFF"
  shows "unat (c + ucast st :: u32) = unat c + unat st"
  using assms by (simp add: unat_word_ariths unsigned_ucast_eq take_bit_nat_eq_self)

lemma sample_index_counter: "unat (voice_counter v) < 32 * 4096 \<Longrightarrow> sample_index v = unat (voice_counter v) div 4096"
  by (simp add: sample_index_def unat_bf_get_eq)

lemma next_counter:
  assumes "unat c < 32 * 4096" and "28 * 4096 \<le> unat c"
  shows "unat (bf_set 12 5 (word_of_nat (unat c div 4096 - 28)) (c :: u32)) = unat c - 28 * 4096"
proof -
  let ?k = "unat c div 4096 - 28"
  have k: "?k < 4" using assms by simp
  have "bf_set 12 5 (word_of_nat ?k) c = word_of_nat (unat c - 28 * 4096)"
  proof (rule bit_word_eqI)
    fix n assume n: "n < LENGTH(32)"
    have split: "unat c - 28 * 4096 = ?k * 2 ^ 12 + unat c mod 2 ^ 12" using assms by (simp add: algebra_simps)
    have dm: "(unat c - 28 * 4096) div 2 ^ 12 = ?k" "(unat c - 28 * 4096) mod 2 ^ 12 = unat c mod 2 ^ 12"
      unfolding split by simp_all
    have hi: "bit (unat c - 28 * 4096) n = bit ?k (n - 12)" if "12 \<le> n"
    proof -
      have "(2 :: nat) ^ n = 2 ^ 12 * 2 ^ (n - 12)" using that by (simp only: power_add [symmetric] le_add_diff_inverse)
      then have "(unat c - 28 * 4096) div 2 ^ n = ?k div 2 ^ (n - 12)" by (simp only: div_mult2_eq dm(1))
      then show ?thesis by (simp only: bit_iff_odd)
    qed
    have lo: "bit (unat c - 28 * 4096) n = bit (unat c) n" if "n < 12"
    proof -
      have "bit (take_bit 12 (unat c - 28 * 4096)) n = bit (take_bit 12 (unat c)) n" using dm(2) by (simp only: take_bit_eq_mod)
      then show ?thesis using that by (simp only: bit_take_bit_iff simp_thms)
    qed
    have c: "\<not> bit c n" if "17 \<le> n"
    proof -
      have "unat c div 2 ^ n = 0" using assms(1) that power_increasing [of 17 n "2::nat"] by (simp add: div_eq_0_iff)
      then have "\<not> bit (unat c) n" by (simp add: bit_iff_odd)
      then show ?thesis by (simp add: bit_unsigned_iff)
    qed
    have kn: "\<not> bit ?k m" if "2 \<le> m" for m
    proof -
      have "?k div 2 ^ m = 0" using k that power_increasing [of 2 m "2::nat"] by (simp add: div_eq_0_iff)
      then show ?thesis by (simp add: bit_iff_odd)
    qed
    show "bit (bf_set 12 5 (word_of_nat ?k) c) n = bit (word_of_nat (unat c - 28 * 4096) :: u32) n"
      using n hi lo c kn
      by (auto simp: bit_bf_set bit_simps not_less)
  qed
  moreover have "unat (word_of_nat (unat c - 28 * 4096) :: u32) = unat c - 28 * 4096"
    using assms by (simp only: unat_of_nat) simp
  ultimately show ?thesis by (simp only:)
qed

subsection \<open>The invariant\<close>

definition ram_inside :: "mem \<Rightarrow> bool" where
  "ram_inside m \<longleftrightarrow> (\<forall>a. RAM_SIZE \<le> unat a \<longrightarrow> m a = 0)"

definition spu_ok :: "spu \<Rightarrow> bool" where
  "spu_ok r \<longleftrightarrow> length (m_voices r) = 24 \<and> list_all voice_ok (m_voices r) \<and>
     length (reverb_rev r) = 32 \<and> length (m_reverb_downsample_buffer r) = 2 \<and>
     list_all (\<lambda>b. length b = 128) (m_reverb_downsample_buffer r) \<and> length (m_reverb_upsample_buffer r) = 2 \<and>
     list_all (\<lambda>b. length b = 64) (m_reverb_upsample_buffer r) \<and> m_reverb_resample_buffer_position r < 64 \<and>
     sweep_ok (m_main_volume_left r) \<and> sweep_ok (m_main_volume_right r) \<and>
     unat (m_transfer_address r) < RAM_SIZE \<and> even (unat (m_transfer_address r)) \<and>
     unat (m_capture_buffer_position r) < 0x400 \<and> even (unat (m_capture_buffer_position r)) \<and>
     unat (m_reverb_base_address r) \<le> unat (m_reverb_current_address r) \<and> unat (m_reverb_current_address r) < 0x40000 \<and>
     ram_inside (m_spu_ram r)"

lemma list_all_modify_at: "list_all P xs \<Longrightarrow> (i < length xs \<Longrightarrow> P (xs ! i) \<Longrightarrow> P (f (xs ! i))) \<Longrightarrow> list_all P (modify_at i f xs)"
  by (simp add: list_all_length nth_modify_at_same_length)

lemma spu_ok_voice: "spu_ok r \<Longrightarrow> i < 24 \<Longrightarrow> voice_ok (m_voices r ! i)"
  by (simp add: spu_ok_def list_all_length)

lemma spu_ok_upd_voice: "spu_ok r \<Longrightarrow> (i < 24 \<Longrightarrow> voice_ok (f (m_voices r ! i))) \<Longrightarrow> spu_ok (upd_voice i f r)"
  by (simp add: spu_ok_def upd_voice_def list_all_modify_at)

lemma upd_voice_fields [simp]:
  "m_SPUCNT (upd_voice i f r) = m_SPUCNT r" "length (m_voices (upd_voice i f r)) = length (m_voices r)"
  "i < length (m_voices r) \<Longrightarrow> m_voices (upd_voice i f r) ! i = f (m_voices r ! i)"
  by (simp_all add: upd_voice_def)

lemma spu_ok_upd_stat [simp]: "spu_ok (upd_stat f r) = spu_ok r"
  by (simp add: spu_ok_def upd_stat_def)

lemma spu_ok_plain [simp]:
  "spu_ok (r\<lparr>m_ticks_carry := a\<rparr>) = spu_ok r" "spu_ok (r\<lparr>m_SPUCNT := w\<rparr>) = spu_ok r"
  "spu_ok (r\<lparr>m_transfer_control := w\<rparr>) = spu_ok r" "spu_ok (r\<lparr>m_transfer_address_reg := w\<rparr>) = spu_ok r"
  "spu_ok (r\<lparr>m_irq_address := w\<rparr>) = spu_ok r" "spu_ok (r\<lparr>m_main_volume_left_reg := w\<rparr>) = spu_ok r"
  "spu_ok (r\<lparr>m_main_volume_right_reg := w\<rparr>) = spu_ok r" "spu_ok (r\<lparr>m_cd_audio_volume_left := w\<rparr>) = spu_ok r"
  "spu_ok (r\<lparr>m_cd_audio_volume_right := w\<rparr>) = spu_ok r" "spu_ok (r\<lparr>m_external_volume_left := w\<rparr>) = spu_ok r"
  "spu_ok (r\<lparr>m_external_volume_right := w\<rparr>) = spu_ok r" "spu_ok (r\<lparr>m_key_on_register := d\<rparr>) = spu_ok r"
  "spu_ok (r\<lparr>m_key_off_register := d\<rparr>) = spu_ok r" "spu_ok (r\<lparr>m_endx_register := d\<rparr>) = spu_ok r"
  "spu_ok (r\<lparr>m_pitch_modulation_enable_register := d\<rparr>) = spu_ok r" "spu_ok (r\<lparr>m_noise_mode_register := d\<rparr>) = spu_ok r"
  "spu_ok (r\<lparr>m_noise_count := d\<rparr>) = spu_ok r" "spu_ok (r\<lparr>m_noise_level := d\<rparr>) = spu_ok r"
  "spu_ok (r\<lparr>m_reverb_on_register := d\<rparr>) = spu_ok r" "spu_ok (r\<lparr>vLOUT := w\<rparr>) = spu_ok r"
  "spu_ok (r\<lparr>vROUT := w\<rparr>) = spu_ok r" "spu_ok (r\<lparr>mBASE := w\<rparr>) = spu_ok r" "spu_ok (r\<lparr>m_transfer_fifo := q\<rparr>) = spu_ok r"
  "spu_ok (r\<lparr>m_cpu_ticks_per_spu_tick := a\<rparr>) = spu_ok r" "spu_ok (r\<lparr>m_cpu_tick_divider := a\<rparr>) = spu_ok r"
  by (simp_all add: spu_ok_def)

lemma spu_ok_sweeps:
  assumes "spu_ok r"
  shows "sweep_ok v \<Longrightarrow> spu_ok (r\<lparr>m_main_volume_left := v\<rparr>)" "sweep_ok v \<Longrightarrow> spu_ok (r\<lparr>m_main_volume_right := v\<rparr>)"
    "sweep_ok (m_main_volume_left r)" "sweep_ok (m_main_volume_right r)"
  using assms by (simp_all add: spu_ok_def)

lemma even_unat_bit: "even (unat (w :: 'w::len word)) \<longleftrightarrow> \<not> bit w 0"
  using bit_unsigned_iff [where ?'a = nat, of w 0] by (simp add: bit_0)

lemma unat_add2: "unat a + 2 < 2 ^ 32 \<Longrightarrow> unat (a + 1 :: u32) = unat a + 1"
  by (simp add: unat_word_ariths)

lemma ram_inside_half: "ram_inside m \<Longrightarrow> Suc (unat a) < RAM_SIZE \<Longrightarrow> ram_inside (set_ram_half a v m)"
  using unat_add2 [of a] by (auto simp: ram_inside_def set_ram_half_def RAM_SIZE_def)

lemma spu_ok_ram: "spu_ok r \<Longrightarrow> Suc (unat a) < RAM_SIZE \<Longrightarrow> spu_ok (r\<lparr>m_spu_ram := set_ram_half a v (m_spu_ram r)\<rparr>)"
  by (simp add: spu_ok_def ram_inside_half)

lemma transfer_address_in_ram: "spu_ok r \<Longrightarrow> Suc (unat (m_transfer_address r)) < RAM_SIZE"
  by (auto simp: spu_ok_def RAM_SIZE_def elim!: evenE)

lemma spu_ok_advance: "spu_ok r \<Longrightarrow> spu_ok (advance_transfer r)"
proof -
  assume r: "spu_ok r"
  have e: "even (unat ((m_transfer_address r + 2) AND RAM_MASK))"
  proof -
    have "\<not> bit (m_transfer_address r) 0" using r by (simp add: spu_ok_def even_unat_bit)
    then have "\<not> bit (m_transfer_address r + 2) 0" by (simp add: bit_0)
    then have "\<not> bit ((m_transfer_address r + 2) AND RAM_MASK) 0" by (simp only: bit_and_iff simp_thms)
    then show ?thesis by (simp only: even_unat_bit simp_thms)
  qed
  then show ?thesis using r unat_and_RAM_MASK [of "m_transfer_address r + 2"] by (simp add: spu_ok_def advance_transfer_def)
qed

subsection \<open>Reverberation\<close>

lemma reverb_address_in_ram: "Suc (unat (ReverbMemoryAddress address r)) < RAM_SIZE"
proof -
  let ?o = "m_reverb_current_address r + (address AND 0x3FFFF)"
  define o2 where "o2 = (?o + (m_reverb_base_address r AND (if bit ?o 18 then - 1 else 0))) AND 0x3FFFF"
  have "unat o2 < 0x40000" unfolding o2_def by (rule unat_and_mask18)
  moreover have "ReverbMemoryAddress address r = o2 * 2" by (simp add: ReverbMemoryAddress_def o2_def Let_def)
  ultimately show ?thesis by (simp add: unat_word_ariths RAM_SIZE_def)
qed

lemma spu_ok_ReverbWrite: "spu_ok r \<Longrightarrow> spu_ok (ReverbWrite a v r)"
  by (simp add: ReverbWrite_def spu_ok_ram reverb_address_in_ram)

lemma ReverbWrite_fields [simp]:
  "m_SPUCNT (ReverbWrite a v r) = m_SPUCNT r" "m_reverb_resample_buffer_position (ReverbWrite a v r) = m_reverb_resample_buffer_position r"
  "m_reverb_upsample_buffer (ReverbWrite a v r) = m_reverb_upsample_buffer r"
  "m_reverb_downsample_buffer (ReverbWrite a v r) = m_reverb_downsample_buffer r"
  by (simp_all add: ReverbWrite_def)

lemma spu_ok_upsample: "spu_ok r \<Longrightarrow> spu_ok (r\<lparr>m_reverb_upsample_buffer := modify_at lr (\<lambda>b. b[i := x, j := y]) (m_reverb_upsample_buffer r)\<rparr>)"
  by (simp add: spu_ok_def list_all_modify_at)

lemma spu_ok_downsample: "spu_ok r \<Longrightarrow> spu_ok (downsample_put lr x r)"
  by (simp add: spu_ok_def downsample_put_def Let_def list_all_modify_at)

lemma spu_ok_reflect: "spu_ok r \<Longrightarrow> spu_ok (reverb_reflect lr d r)"
  by (simp add: reverb_reflect_def Let_def spu_ok_ReverbWrite)

lemma reverb_channel_keeps:
  assumes "spu_ok r"
  shows "spu_ok (reverb_channel lr d r)"
    and "m_reverb_resample_buffer_position (reverb_channel lr d r) = m_reverb_resample_buffer_position r"
  using assms
  by (simp_all add: reverb_channel_def Let_def case_prod_beta spu_ok_upsample spu_ok_ReverbWrite spu_ok_reflect)
    (simp_all add: reverb_reflect_def Let_def)

lemma spu_ok_reverb_base:
  "spu_ok r \<Longrightarrow> spu_ok (r\<lparr>m_reverb_base_address := a AND 0x3FFFF, m_reverb_current_address := a AND 0x3FFFF\<rparr>)"
  using unat_and_mask18 [of a] by (simp add: spu_ok_def)

lemma spu_ok_advance_reverb: "spu_ok r \<Longrightarrow> spu_ok (advance_reverb r)"
proof -
  assume r: "spu_ok r"
  let ?c = "m_reverb_current_address r" and ?b = "m_reverb_base_address r"
  let ?a = "(?c + 1) AND 0x3FFFF"
  have c: "unat ?b \<le> unat ?c" "unat ?c < 0x40000" using r by (simp_all add: spu_ok_def)
  have a: "unat ?a = (unat ?c + 1) mod 0x40000"
    using and_mask18 [of "?c + 1"] c(2) by (simp add: unat_word_ariths)
  have "unat ?b \<le> unat ?a \<and> unat ?a < 0x40000" if "?a \<noteq> 0"
  proof -
    have "unat ?a \<noteq> 0" using that by (simp add: unat_eq_0)
    then have "unat ?c + 1 < 0x40000" using a c(2) by (cases "unat ?c + 1 = 0x40000") auto
    then show ?thesis using a c(1) by simp
  qed
  moreover have "unat ?b < 0x40000" using c by simp
  ultimately show ?thesis using r by (simp add: spu_ok_def advance_reverb_def Let_def)
qed

lemma spu_ok_ProcessReverb: "spu_ok r \<Longrightarrow> spu_ok (snd (snd (ProcessReverb a b r)))"
proof -
  assume r: "spu_ok r"
  have step: "spu_ok t \<Longrightarrow> p < 64 \<Longrightarrow> spu_ok (t\<lparr>m_reverb_resample_buffer_position := p\<rparr>)" for t p
    by (simp add: spu_ok_def)
  have "spu_ok (downsample_put 1 b (downsample_put 0 a r))" by (simp add: spu_ok_downsample r)
  then show ?thesis by (simp add: ProcessReverb_def Let_def step spu_ok_advance_reverb reverb_channel_keeps)
qed

lemma spu_ok_UpdateNoise: "spu_ok r \<Longrightarrow> spu_ok (UpdateNoise r)"
  by (simp add: UpdateNoise_def Let_def)

subsection \<open>Voices in the processor\<close>

lemma counter_less_32:
  assumes "voice_ok v"
  shows "unat (voice_counter v + ucast (voice_step i r)) < 32 * 4096"
  using counter_step [OF _ voice_step_bound, of "voice_counter v" i r] voice_step_bound [of i r] assms
  by (simp add: voice_ok_def)

lemma spu_ok_advance_voice:
  assumes r: "spu_ok r" and i: "i < 24"
  shows "spu_ok (advance_voice i r)"
proof -
  let ?v = "(m_voices r ! i)\<lparr>voice_counter := voice_counter (m_voices r ! i) + ucast (voice_step i r)\<rparr>"
  let ?r = "upd_voice i (\<lambda>_. ?v) r"
  have v: "voice_ok (m_voices r ! i)" by (rule spu_ok_voice [OF r i])
  have len: "length (m_voices r) = 24" using r by (simp add: spu_ok_def)
  have c: "unat (voice_counter ?v) < 32 * 4096" using counter_less_32 [OF v, of i r] by simp
  have same: "upd_voice i (\<lambda>v. v\<lparr>voice_counter := voice_counter v + ucast (voice_step i r)\<rparr>) r = ?r"
    by (simp add: upd_voice_def modify_at_def)
  show ?thesis
  proof (cases "28 \<le> sample_index ?v")
    case True
    show ?thesis
    proof -
      have si: "sample_index ?v = unat (voice_counter ?v) div 4096" by (rule sample_index_counter [OF c])
      then have "28 * 4096 \<le> unat (voice_counter ?v)" using True by simp
      from next_counter [OF c this]
      have k: "unat (bf_set 12 5 (word_of_nat (sample_index ?v - 28)) (voice_counter ?v)) < 28 * 4096"
        using c by (simp only: si)
      define v1 where "v1 = ?v\<lparr>voice_counter := bf_set 12 5 (word_of_nat (sample_index ?v - 28)) (voice_counter ?v),
        has_samples := False, is_first_block := False, current_address := current_address ?v + 2\<rparr>"
      have v1: "voice_ok v1" using v k by (simp add: v1_def voice_ok_def)
      have twice: "upd_voice i f ?r = upd_voice i (\<lambda>_. f ?v) r" for f
        using i len by (simp add: upd_voice_def modify_at_def)
      have "next_block i ?r = (if bit (current_block_flags v1) 0
         then let v2 = v1\<lparr>current_address := adpcm_repeat_address v1 AND NOT 1\<rparr>
              in (upd_voice i (\<lambda>_. if \<not> bit (current_block_flags v2) 1 then ForceOff v2 else v2) r)
                   \<lparr>m_endx_register := m_endx_register r OR push_bit i 1\<rparr>
         else upd_voice i (\<lambda>_. v1) r)"
        unfolding next_block_def Let_def twice using i len by (simp add: v1_def upd_voice_def)
      then have "spu_ok (next_block i ?r)"
        by (simp add: r v1 spu_ok_upd_voice voice_ok_key(3) voice_ok_fields Let_def)
      then show ?thesis using True i len unfolding advance_voice_def same Let_def by simp
    qed
  next
    case False
    have si: "sample_index ?v = unat (voice_counter ?v) div 4096" by (rule sample_index_counter [OF c])
    have "unat (voice_counter ?v) < 28 * 4096" using False si by simp
    then have "voice_ok ?v" using v by (simp add: voice_ok_def)
    then show ?thesis using False i len r unfolding advance_voice_def same Let_def by (simp add: spu_ok_upd_voice)
  qed
qed

subsection \<open>A processor at rest\<close>

text \<open>A processor that has just been reset, with empty FIFO.\<close>

definition silent_voice :: voice where
  "silent_voice =
     \<lparr>current_address = 0, voice_regs = replicate 8 0, voice_counter = 0, current_block_flags = 0, is_first_block = False,
      current_block_samples = replicate 31 0, adpcm_last_samples = (0, 0), last_volume = 0, left_volume = zero_sweep,
      right_volume = zero_sweep, adsr_envelope = envelope_Reset 0 False False, adsr_phase = PhaseOff, adsr_target = 0,
      has_samples = False, ignore_loop_address = False\<rparr>"

definition silent_spu :: spu where
  "silent_spu =
     \<lparr>m_ticks_carry = 0, m_cpu_ticks_per_spu_tick = 768, m_cpu_tick_divider = 768, m_SPUCNT = 0, m_SPUSTAT = 0,
      m_transfer_control = 0, m_transfer_address_reg = 0, m_transfer_address = 0, m_irq_address = 0,
      m_capture_buffer_position = 0, m_main_volume_left_reg = 0, m_main_volume_right_reg = 0,
      m_main_volume_left = zero_sweep, m_main_volume_right = zero_sweep, m_cd_audio_volume_left = 0,
      m_cd_audio_volume_right = 0, m_external_volume_left = 0, m_external_volume_right = 0, m_key_on_register = 0,
      m_key_off_register = 0, m_endx_register = 0, m_pitch_modulation_enable_register = 0, m_noise_mode_register = 0,
      m_noise_count = 0, m_noise_level = 1, m_reverb_on_register = 0, m_reverb_base_address = 0,
      m_reverb_current_address = 0, vLOUT = 0, vROUT = 0, mBASE = 0, reverb_rev = replicate 32 0,
      m_reverb_downsample_buffer = replicate 2 (replicate 128 0), m_reverb_upsample_buffer = replicate 2 (replicate 64 0),
      m_reverb_resample_buffer_position = 0, m_voices = replicate 24 silent_voice, m_transfer_fifo = new_fifo 32 0,
      m_spu_ram = (\<lambda>_. 0)\<rparr>"

lemma voice_ok_silent: "voice_ok silent_voice"
  by (simp add: voice_ok_def silent_voice_def env_ok_Reset sweep_ok_zero)

lemma spu_ok_silent: "spu_ok silent_spu"
  unfolding spu_ok_def silent_spu_def
  by (simp add: list_all_iff voice_ok_silent sweep_ok_zero ram_inside_def RAM_SIZE_def)

end
