(* ===== verification/SpuMachine.thy ===== *)
theory SpuMachine
  imports SpuSpec
begin

text \<open>
  The audio stream's buffer, and the sound processor inside a machine: the locale \<open>spu_host\<close> has what
  it uses of the machine (the event queue, the interrupt line, the DMA controller's request line and
  the CD-ROM drive's audio) and says that a property of the machine that these keep, and that says
  no more of the processor than its invariant, is kept by every operation of the processor.
\<close>

subsection \<open>The audio stream\<close>

definition audio_ok :: "audio_stream \<Rightarrow> bool" where
  "audio_ok a \<longleftrightarrow> fifo_inv (m_buffer a) \<and> fifo_capacity (m_buffer a) = 32768 \<and>
     even (m_head (m_buffer a)) \<and> even (m_size (m_buffer a))"

lemma audio_ok_new: "audio_ok new_audio_stream"
  by (simp add: audio_ok_def new_audio_stream_def fifo_inv_new) (simp add: new_fifo_def)

lemma audio_ok_fields [simp]:
  "audio_ok (a\<lparr>m_silent_mode := b\<rparr>) = audio_ok a" "audio_ok (a\<lparr>frontend_audio := l\<rparr>) = audio_ok a"
  by (simp_all add: audio_ok_def)

lemma Remove_head:
  "fifo_inv q \<Longrightarrow> n \<le> m_size q \<Longrightarrow>
    m_head (Remove n q) = (m_head q + n) mod fifo_capacity q \<and> m_size (Remove n q) = m_size q - n"
proof (induction n arbitrary: q)
  case 0
  then show ?case by (simp add: fifo_inv_def)
next
  case (Suc n)
  have pos: "0 < m_size q" using Suc.prems by simp
  have inv: "fifo_inv (RemoveOne q)" by (rule fifo_inv_RemoveOne [OF Suc.prems(1) pos])
  have size: "m_size (RemoveOne q) = m_size q - 1"
    using fifo_size_small [OF Suc.prems(1)] pos by (simp add: RemoveOne_def)
  have head: "m_head (RemoveOne q) = Suc (m_head q) mod fifo_capacity q" by (simp add: RemoveOne_def)
  show ?case using Suc.IH [OF inv] Suc.prems(2) by (simp add: size head mod_simps)
qed

lemma audio_ok_Remove:
  assumes a: "audio_ok a" and n: "n \<le> m_size (m_buffer a)" "even n"
  shows "audio_ok (a\<lparr>m_buffer := Remove n (m_buffer a)\<rparr>)"
proof -
  have q: "fifo_inv (m_buffer a)" "fifo_capacity (m_buffer a) = 32768" using a by (simp_all add: audio_ok_def)
  have e: "even ((m_head (m_buffer a) + n) mod 32768)" using a n(2) by (simp add: audio_ok_def dvd_mod_iff)
  show ?thesis
    using Remove_fifo [OF q(1) n(1)] Remove_head [OF q(1) n(1)] a n(2) q(2) e by (simp add: audio_ok_def)
qed

lemma contiguous_size_even: "audio_ok a \<Longrightarrow> even (GetContiguousSize (m_buffer a))"
  by (auto simp: audio_ok_def GetContiguousSize_def fifo_inv_def min_def)

text \<open>Draining empties the buffer, whole frames at a time, and hands over everything in order.\<close>

lemma drain_spec:
  "audio_ok (a\<lparr>m_buffer := q\<rparr>) \<Longrightarrow>
    audio_ok (a\<lparr>m_buffer := snd (drain skip q)\<rparr>) \<and> m_size (snd (drain skip q)) = 0 \<and>
    fst (drain skip q) = (if skip then [] else fifo_items q)"
proof (induction skip q rule: drain.induct)
  case (1 skip q)
  let ?n = "GetContiguousSize q" and ?q = "Remove (GetContiguousSize q) q"
  have q: "fifo_inv q" "fifo_capacity q = 32768" using "1.prems" by (simp_all add: audio_ok_def)
  have b: "m_head q + ?n \<le> fifo_capacity q" "?n \<le> m_size q" using GetContiguousSize_bound [OF q(1)] by simp_all
  have e: "even ?n" using contiguous_size_even [OF "1.prems"] by simp
  have zero: "m_size q = 0" if "?n = 0" using that q by (auto simp: GetContiguousSize_def fifo_inv_def min_def split: if_splits)
  have chunk: "take ?n (drop (m_head q) (m_ptr q)) @ fifo_items ?q = fifo_items q"
  proof -
    have "take ?n (drop (m_head q) (m_ptr q)) = take ?n (fifo_items q)"
      by (rule nth_equalityI) (use b in \<open>simp_all add: fifo_items_def\<close>)
    moreover have "fifo_items ?q = drop ?n (fifo_items q)" using Remove_fifo [OF q(1) b(2)] by simp
    ultimately show ?thesis by simp
  qed
  have ok: "audio_ok (a\<lparr>m_buffer := ?q\<rparr>)" using audio_ok_Remove [OF "1.prems", of ?n] b(2) e by simp
  show ?case
  proof (cases "?n = 0")
    case True
    then have "m_size q = 0" by (rule zero)
    then show ?thesis using "1.prems" True by (simp add: drain.simps [of skip q] fifo_items_def)
  next
    case False
    have half: "?n div 2 * 2 = ?n" using e by simp
    note IH = "1.IH" [OF refl False ok]
    show ?thesis using IH False chunk half by (simp add: drain.simps [of skip q] Let_def case_prod_beta)
  qed
qed

lemma audio_ok_Upload: "audio_ok a \<Longrightarrow> audio_ok (UploadToFrontend skip a)"
  using drain_spec [where a = a and q = "m_buffer a" and skip = skip] by (simp add: UploadToFrontend_def Let_def case_prod_beta audio_ok_def)

text \<open>The space that \<open>BeginWrite\<close> offers is contiguous and free, and the frames put there are appended.\<close>

lemma tail_space:
  assumes "audio_ok a"
  defines "q \<equiv> m_buffer a"
  shows "m_tail q + GetContiguousSpace q \<le> 32768" "m_size q + GetContiguousSpace q \<le> 32768"
    "even (GetContiguousSpace q)" "m_size q < 32768 \<Longrightarrow> 0 < GetContiguousSpace q"
proof -
  have inv: "fifo_inv q" "fifo_capacity q = 32768" "even (m_head q)" "even (m_size q)"
    using assms by (simp_all add: audio_ok_def)
  have hs: "m_head q < 32768" "m_size q \<le> 32768" using inv by (simp_all add: fifo_inv_def)
  have t: "m_tail q = (if m_head q + m_size q < 32768 then m_head q + m_size q else m_head q + m_size q - 32768)"
  proof (cases "m_head q + m_size q < 32768")
    case False
    then have "(m_head q + m_size q) mod 32768 = m_head q + m_size q - 32768"
      using hs by (simp add: mod_if)
    then show ?thesis using inv False by (simp add: fifo_inv_def)
  qed (use inv in \<open>simp add: fifo_inv_def\<close>)
  then have te: "even (m_tail q)" using inv(3,4) by auto
  have tl: "m_tail q < 32768" using t hs by auto
  show "m_tail q + GetContiguousSpace q \<le> 32768" using hs tl inv(2) by (auto simp: GetContiguousSpace_def)
  show "m_size q + GetContiguousSpace q \<le> 32768" using GetContiguousSpace_bound [OF inv(1)] hs inv(2) by simp
  show "even (GetContiguousSpace q)" using te inv(2,3) tl hs by (auto simp: GetContiguousSpace_def)
  show "0 < GetContiguousSpace q" if "m_size q < 32768"
    using that t tl hs inv(2) by (auto simp: GetContiguousSpace_def split: if_splits)
qed

lemma written_frames:
  assumes a: "audio_ok a" and n: "length frames = 2 * n" "n \<le> BeginWrite a"
  defines "q \<equiv> AdvanceTail (2 * n) (m_buffer (write_frames frames a))"
  shows "audio_ok (a\<lparr>m_buffer := q\<rparr>)" and "fifo_items q = fifo_items (m_buffer a) @ frames"
    and "m_size q = m_size (m_buffer a) + 2 * n"
proof -
  note space = tail_space [OF a]
  have inv: "fifo_inv (m_buffer a)" and cap: "fifo_capacity (m_buffer a) = 32768" using a by (simp_all add: audio_ok_def)
  have le: "2 * n \<le> GetContiguousSpace (m_buffer a)" using n(2) by (auto simp: BeginWrite_def)
  have fit: "m_tail (m_buffer a) + length frames \<le> 32768" "m_size (m_buffer a) + length frames \<le> 32768"
    using le space(1,2) n(1) by simp_all
  have t: "m_tail (m_buffer a) < 32768" using inv cap by (simp add: fifo_inv_def)
  have len: "length (memcpy_at (m_tail (m_buffer a)) frames (m_ptr (m_buffer a))) = 32768"
    using length_memcpy_at [of "m_tail (m_buffer a)" frames "m_ptr (m_buffer a)"] fit(1) cap by simp
  have q: "q = fifo.push_all frames (m_buffer a)"
    using push_all_contiguous [of "m_buffer a" frames] t cap fit fifo_size_small [OF inv] n(1) len
    by (simp add: q_def AdvanceTail_def write_frames_def)
  have spec: "fifo_inv q" "fifo_items q = fifo_items (m_buffer a) @ frames" "fifo_capacity q = 32768"
    using fifo.push_all_spec [of "m_buffer a" frames] inv fit(2) cap by (simp_all add: q)
  show "fifo_items q = fifo_items (m_buffer a) @ frames" by (rule spec(2))
  show size: "m_size q = m_size (m_buffer a) + 2 * n" using arg_cong [OF spec(2), of length] n(1) by simp
  have "m_head q = m_head (m_buffer a)" by (simp add: q_def AdvanceTail_def write_frames_def)
  then show "audio_ok (a\<lparr>m_buffer := q\<rparr>)" using spec size a by (simp add: audio_ok_def)
qed

lemma audio_ok_EndWrite:
  assumes a: "audio_ok a" and n: "length frames = 2 * n" "n \<le> BeginWrite a"
  shows "audio_ok (EndWrite fast skip n (write_frames frames a))"
proof -
  define q where "q = AdvanceTail (2 * n) (m_buffer (write_frames frames a))"
  have ok: "audio_ok (a\<lparr>m_buffer := q\<rparr>)" unfolding q_def by (rule written_frames(1) [OF assms])
  have same: "(write_frames frames a)\<lparr>m_buffer := q\<rparr> = a\<lparr>m_buffer := q\<rparr>" by (simp add: write_frames_def)
  have "audio_ok (a\<lparr>m_buffer := Remove (m_size q) q\<rparr>)"
    using audio_ok_Remove [OF ok, of "m_size q"] ok by (simp add: audio_ok_def)
  then show ?thesis
    using ok audio_ok_Upload [OF ok, of skip]
    by (simp add: EndWrite_def Let_def same GetSize_def mult.commute [of n] flip: q_def)
qed

subsection \<open>What leaves the audio stream alone\<close>

lemma InterruptRequest_spu [simp]:
  fixes s :: "'a spu_state_scheme"
  shows "g_audio_stream (InterruptRequest i s) = g_audio_stream s" "g_spu (InterruptRequest i s) = g_spu s"
    "cfg_audio_fast_hook (InterruptRequest i s) = cfg_audio_fast_hook s"
  by (simp_all add: InterruptRequest_def UpdateCPUInterruptRequest_def SetExternalInterrupt_def
      ClearExternalInterrupt_def CheckForPendingInterrupt_def Let_def)

lemma upd_spu_fields [simp]:
  "g_spu (upd_spu f s) = f (g_spu s)" "g_audio_stream (upd_spu f s) = g_audio_stream s"
  "cfg_audio_fast_hook (upd_spu f s) = cfg_audio_fast_hook s"
  by (simp_all add: upd_spu_def)

lemma ram_irq_stream [simp]:
  "g_audio_stream (ram_irq hit s) = g_audio_stream s" "cfg_audio_fast_hook (ram_irq hit s) = cfg_audio_fast_hook s"
  by (simp_all add: ram_irq_def SPU_TriggerRAMIRQ_def)

lemma SampleVoice_stream [simp]:
  "g_audio_stream (snd (SampleVoice i s)) = g_audio_stream s"
  "cfg_audio_fast_hook (snd (SampleVoice i s)) = cfg_audio_fast_hook s"
  by (simp_all add: SampleVoice_def load_block_def ReadADPCMBlock_def Let_def)

lemma mix_voices_stream [simp]:
  "g_audio_stream (snd (mix_voices w is m s)) = g_audio_stream s"
  "cfg_audio_fast_hook (snd (mix_voices w is m s)) = cfg_audio_fast_hook s"
  by (induction "is" arbitrary: m s) (simp_all add: Let_def case_prod_beta)

lemma frames_stream:
  shows "(\<And>t. g_audio_stream (snd (cd t)) = g_audio_stream t) \<Longrightarrow>
      g_audio_stream (snd (generate_frames cd is s)) = g_audio_stream s"
    and "(\<And>t. cfg_audio_fast_hook (snd (cd t)) = cfg_audio_fast_hook t) \<Longrightarrow>
      cfg_audio_fast_hook (snd (generate_frames cd is s)) = cfg_audio_fast_hook s"
  by (induction "is" arbitrary: s)
    (simp_all add: generate_frame_def mix_voices_frame_def capture_frame_def WriteToCaptureBuffer_def Let_def case_prod_beta)

lemma length_frames: "length (fst (generate_frames cd is s)) = 2 * length is"
  by (induction "is" arbitrary: s) (simp_all add: Let_def case_prod_beta)

subsection \<open>A property of the machine through the processor's operations\<close>

locale spu_host =
  fixes req :: "('a spu_state_scheme) request_line" and cd :: "('a spu_state_scheme) cd_audio"
    and P :: "'a spu_state_scheme \<Rightarrow> bool"
  assumes spu: "P s \<Longrightarrow> spu_ok (g_spu s)"
    and audio: "P s \<Longrightarrow> audio_ok (g_audio_stream s)"
    and set_spu: "P s \<Longrightarrow> spu_ok r \<Longrightarrow> P (s\<lparr>g_spu := r\<rparr>)"
    and set_audio: "P s \<Longrightarrow> audio_ok a \<Longrightarrow> P (s\<lparr>g_audio_stream := a\<rparr>)"
    and request: "P s \<Longrightarrow> P (req ch b s)"
    and cd_frame: "P s \<Longrightarrow> P (snd (cd s))"
    and cd_stream: "g_audio_stream (snd (cd s)) = g_audio_stream s"
    and interrupt: "P s \<Longrightarrow> P (InterruptRequest i s)"
    and deactivate: "P s \<Longrightarrow> P (Deactivate e s)"
    and schedule: "P s \<Longrightarrow> P (Schedule e n s)"
    and sorting: "P s \<Longrightarrow> P (SortEvent e s)"
    and node: "P s \<Longrightarrow> P (set_node e f s)"
begin

lemma upd: "P s \<Longrightarrow> spu_ok (f (g_spu s)) \<Longrightarrow> P (upd_spu f s)"
  by (simp add: upd_spu_def set_spu)

lemma trigger: "P s \<Longrightarrow> P (SPU_TriggerRAMIRQ s)"
  by (simp add: SPU_TriggerRAMIRQ_def interrupt upd spu)

lemma ram_irq: "P s \<Longrightarrow> P (ram_irq hit s)"
  by (simp add: ram_irq_def trigger)

lemma late: "P s \<Longrightarrow> P (late_irq s)"
  by (simp add: late_irq_def ram_irq)

lemma capture: 
  assumes "P s" and "i < 4"
  shows "P (WriteToCaptureBuffer i v s)"
proof -
  let ?p = "m_capture_buffer_position (g_spu s)"
  let ?a = "word_of_nat (i * CAPTURE_BUFFER_SIZE_PER_CHANNEL) OR ucast ?p :: u32"
  have p: "unat ?p < 0x400" "even (unat ?p)" using spu [OF assms(1)] by (simp_all add: spu_ok_def)
  have "unat ?a < 0x1000 \<and> even (unat ?a)"
  proof -
    have u: "unat (ucast ?p :: u32) = unat ?p" using p(1) by (simp add: unsigned_ucast_eq take_bit_nat_eq_self)
    have n: "unat (word_of_nat (i * CAPTURE_BUFFER_SIZE_PER_CHANNEL) :: u32) = i * 0x400"
      using assms(2) by (simp only: CAPTURE_BUFFER_SIZE_PER_CHANNEL_def unat_of_nat) simp
    have a: "unat ?a = i * 0x400 OR unat ?p" by (simp only: unsigned_or_eq u n)
    have "int (i * 0x400) < 2 ^ 12" using assms(2) by simp
    moreover have "int (unat ?p) < int (2 ^ 12)" by (subst of_nat_less_iff, rule less_trans [OF p(1)]) simp
    ultimately have "int (i * 0x400) OR int (unat ?p) < 2 ^ 12" by (intro OR_upper) simp_all
    then have "int ((i * 0x400) OR unat ?p) < int (2 ^ 12)" by (simp only: of_nat_or_eq) simp
    then have "(i * 0x400) OR unat ?p < 2 ^ 12" by (simp only: of_nat_less_iff)
    moreover have "even ((i * 0x400) OR unat ?p)" using p(2) by (simp add: even_or_iff)
    ultimately show ?thesis using a by simp
  qed
  then have "Suc (unat ?a) < RAM_SIZE" by (simp add: RAM_SIZE_def)
  then show ?thesis
    using assms(1) by (simp add: WriteToCaptureBuffer_def Let_def ram_irq upd spu spu_ok_ram)
qed

lemma next_capture: "P s \<Longrightarrow> P (upd_spu IncrementCaptureBufferPosition s)"
proof -
  assume s: "P s"
  let ?p = "m_capture_buffer_position (g_spu s)"
  have p: "unat ?p < 0x400" "even (unat ?p)" using spu [OF s] by (simp_all add: spu_ok_def)
  have "unat ((?p + 2) mod 0x400) = (unat ?p + 2) mod 0x400" using p(1) by (simp add: unat_mod_distrib unat_word_ariths)
  then have "spu_ok ((g_spu s)\<lparr>m_capture_buffer_position := (?p + 2) mod 0x400\<rparr>)"
    using spu [OF s] p by (simp add: spu_ok_def dvd_mod_iff)
  then show ?thesis using s by (simp add: IncrementCaptureBufferPosition_def Let_def upd)
qed

lemma dma_request: "P s \<Longrightarrow> P (UpdateDMARequest req s)"
  by (simp add: UpdateDMARequest_def Let_def case_prod_beta request upd spu)

lemma fifo_read: "P s \<Longrightarrow> P (ExecuteFIFOReadFromRAM s)"
  by (simp add: ExecuteFIFOReadFromRAM_def ram_irq upd spu spu_ok_advance)

lemma fifo_write: "P s \<Longrightarrow> P (ExecuteFIFOWriteToRAM s)"
proof -
  assume s: "P s"
  have "spu_ok ((g_spu s)\<lparr>m_transfer_fifo := q, m_spu_ram := set_ram_half (m_transfer_address (g_spu s)) v (m_spu_ram (g_spu s))\<rparr>)" for q v
    using spu_ok_ram [OF spu [OF s] transfer_address_in_ram [OF spu [OF s]], of v]
    by (simp add: spu_ok_def)
  then show ?thesis by (simp add: ExecuteFIFOWriteToRAM_def ram_irq upd s spu_ok_advance case_prod_beta)
qed

lemma loops: "P s \<Longrightarrow> P (snd (read_loop req ticks s))" "P s \<Longrightarrow> P (snd (write_loop req ticks s))"
proof -
  show "P s \<Longrightarrow> P (snd (read_loop req ticks s))"
  proof (induction "nat ticks" arbitrary: ticks s rule: less_induct)
    case less
    then show ?case by (subst read_loop.simps) (simp add: dma_request fifo_read)
  qed
  show "P s \<Longrightarrow> P (snd (write_loop req ticks s))"
  proof (induction "nat ticks" arbitrary: ticks s rule: less_induct)
    case less
    then show ?case by (subst write_loop.simps) (simp add: dma_request fifo_write)
  qed
qed

lemma busy: "P s \<Longrightarrow> P (set_busy b s)"
  by (simp add: set_busy_def upd spu)

lemma transfer: "P s \<Longrightarrow> P (ExecuteTransfer req ticks s)"
  using loops [of s ticks]
  by (simp add: ExecuteTransfer_def finish_transfer_def Let_def case_prod_beta deactivate schedule busy)

lemma transfer_event: "P s \<Longrightarrow> P (UpdateTransferEvent s)"
  by (simp add: UpdateTransferEvent_def start_transfer_def Let_def deactivate schedule busy split: RAMTransferMode.split)

lemma fifo: "P s \<Longrightarrow> P (set_fifo q s)"
  by (simp add: set_fifo_def upd spu)

lemma manual: "P s \<Longrightarrow> P (ManualTransferWrite v s)"
  by (simp add: ManualTransferWrite_def Let_def transfer_event fifo)

lemma dma_write: "P s \<Longrightarrow> P (spu_write req ws s)"
  by (simp add: spu_write_def Let_def transfer_event dma_request fifo)

lemma dma_read: "P s \<Longrightarrow> (\<And>vs t. P t \<Longrightarrow> P (put vs t)) \<Longrightarrow> P (spu_read req put n s)"
  by (simp add: spu_read_def Let_def case_prod_beta transfer_event dma_request fifo)

text \<open>A voice: the update of one voice that keeps its invariant keeps the property.\<close>

lemma voice: "P s \<Longrightarrow> i < 24 \<Longrightarrow> (\<And>v. voice_ok v \<Longrightarrow> voice_ok (f v)) \<Longrightarrow> P (upd_spu (upd_voice i f) s)"
  by (simp add: upd spu spu_ok_upd_voice spu_ok_voice)

lemma block: "P s \<Longrightarrow> i < 24 \<Longrightarrow> P (load_block i s)"
  by (simp add: load_block_def ReadADPCMBlock_def Let_def voice ram_irq voice_ok_set_reg voice_ok_DecodeBlock voice_ok_fields)

lemma sample:
  assumes s: "P s" and i: "i < 24"
  shows "P (snd (SampleVoice i s))"
proof -
  have tick: "P t \<Longrightarrow> P (upd_spu (\<lambda>r. advance_voice i (upd_voice i
      (\<lambda>v. if adsr_phase v \<noteq> PhaseOff then TickADSR (v\<lparr>last_volume := volume\<rparr>) else v\<lparr>last_volume := volume\<rparr>) r)) t)"
    for t volume
    by (rule upd, assumption, rule spu_ok_advance_voice [OF spu_ok_upd_voice i])
       (simp_all add: spu voice_ok_TickADSR voice_ok_fields spu_ok_voice)
  have sweeps: "voice_ok v \<Longrightarrow> voice_ok (v\<lparr>left_volume := sweep_Tick (left_volume v), right_volume := sweep_Tick (right_volume v)\<rparr>)"
    for v by (simp add: voice_ok_def sweep_ok_Tick)
  have b: "P (load_block i s)" by (rule block [OF s i])
  show ?thesis
    by (simp add: SampleVoice_def Let_def s i voice [OF s i] voice_ok_fields voice [OF tick [OF b] i sweeps])
qed

lemma mix: "P s \<Longrightarrow> list_all (\<lambda>i. i < 24) is \<Longrightarrow> P (snd (mix_voices w is m s))"
  by (induction "is" arbitrary: m s) (simp_all add: Let_def case_prod_beta sample)

lemma mixed: "P s \<Longrightarrow> P (snd (mix_voices_frame s))"
  using mix [of s "[0..<24]" "m_reverb_on_register (g_spu s)"]
  by (simp add: mix_voices_frame_def NUM_VOICES_def case_prod_beta list_all_iff)

lemma captures: "P s \<Longrightarrow> P (capture_frame l r s)"
  by (simp add: capture_frame_def Let_def next_capture capture)

lemma frame: "P s \<Longrightarrow> P (snd (generate_frame cd s))"
proof -
  assume s: "P s"
  define s2 where "s2 = cd (upd_spu UpdateNoise (snd (mix_voices_frame s)))"
  have p2: "P (snd s2)" unfolding s2_def by (rule cd_frame [OF upd [OF mixed [OF s]]]) (simp add: spu_ok_UpdateNoise spu mixed s)
  have sweeps: "spu_ok r \<Longrightarrow> spu_ok (r\<lparr>m_main_volume_left := sweep_Tick (m_main_volume_left r),
      m_main_volume_right := sweep_Tick (m_main_volume_right r)\<rparr>)" for r by (simp add: spu_ok_def sweep_ok_Tick)
  have rev: "P (upd_spu (\<lambda>_. snd (snd (ProcessReverb a b (g_spu (snd s2))))) (snd s2))" for a b
    by (rule upd [OF p2]) (simp add: spu_ok_ProcessReverb spu [OF p2])
  show ?thesis
    unfolding generate_frame_def Let_def case_prod_beta s2_def [symmetric] snd_conv
    by (rule captures, rule upd [OF rev], rule sweeps, rule spu [OF rev])
qed

lemma keys: "P s \<Longrightarrow> P (upd_spu key_voices s)"
proof -
  assume s: "P s"
  have one: "spu_ok r \<Longrightarrow> spu_ok (key_voice off on i r)" for off on i r
    by (simp add: key_voice_def Let_def spu_ok_upd_voice voice_ok_key spu_ok_voice)
  have all: "spu_ok r \<Longrightarrow> spu_ok (fold (key_voice off on) is r)" for off on "is" r
    by (induction "is" arbitrary: r) (simp_all add: one)
  show ?thesis by (rule upd [OF s]) (simp add: key_voices_def all spu s)
qed

lemma frames: "P s \<Longrightarrow> P (snd (generate_frames cd is s))"
  by (induction "is" arbitrary: s) (simp_all add: Let_def case_prod_beta frame keys)

lemma batch:
  assumes s: "P s" and n: "n \<le> BeginWrite (g_audio_stream s)"
  defines "r \<equiv> generate_frames cd [0..<n] s"
  shows "P (end_batch (fst r) n (snd r))"
proof -
  have "P (snd r)" unfolding r_def by (rule frames [OF s])
  moreover have "g_audio_stream (snd r) = g_audio_stream s" unfolding r_def by (rule frames_stream(1) [OF cd_stream])
  moreover have "length (fst r) = 2 * n" by (simp add: r_def length_frames)
  ultimately show ?thesis using n audio [OF s] by (simp add: end_batch_def set_audio audio_ok_EndWrite)
qed

lemma loop: "execute_frames_loop c k s = Some t \<Longrightarrow> c = cd \<longrightarrow> P s \<longrightarrow> P t"
proof (induction c k s t rule: execute_frames_loop.raw_induct [rotated, consumes 1])
  case (1 rec c k s t)
  show ?case
  proof (intro impI)
    assume c: "c = cd" and s: "P s"
    show "P t"
    proof (cases "k = 0")
      case False
      let ?n = "min k (BeginWrite (g_audio_stream s))" and ?r = "generate_frames cd [0..<min k (BeginWrite (g_audio_stream s))] s"
      have "rec c (k - ?n) (end_batch (fst ?r) ?n (snd ?r)) = Some t"
        using 1(2) False c by (simp add: Let_def case_prod_beta)
      from 1(1) [OF this] show ?thesis using batch [OF s, of ?n] c by simp
    qed (use 1(2) s in simp)
  qed
qed

lemma execute: "P s \<Longrightarrow> pred_option P (spu_Execute cd ticks s)"
proof -
  assume s: "P s"
  have "P (upd_spu (\<lambda>r. r\<lparr>m_ticks_carry := c\<rparr>) s)" for c by (rule upd [OF s]) (simp add: spu s)
  then show ?thesis
    using loop by (auto simp: spu_Execute_def case_prod_beta pred_option_def)
qed

lemma tick: "P s \<Longrightarrow> P (spu_tick_callback cd ticks late s)"
  using execute [of s ticks] by (auto simp: spu_tick_callback_def split: option.split)

lemma early: "P s \<Longrightarrow> (\<And>t n l. P t \<Longrightarrow> P (callback n l t)) \<Longrightarrow> P (InvokeEarly callback e force s)"
  by (simp add: InvokeEarly_def Let_def sorting node)

lemma transfer_early: "P s \<Longrightarrow> P (InvokeEarly (spu_transfer_callback req) e force s)"
  by (simp add: early spu_transfer_callback_def transfer)

lemma interval: "P s \<Longrightarrow> P (UpdateEventInterval cd s)"
  by (simp add: UpdateEventInterval_def Let_def schedule SetInterval_def node early tick)

lemma pending: "P s \<Longrightarrow> P (GeneratePendingSamples req cd s)"
  by (simp add: GeneratePendingSamples_def Let_def early transfer_early tick)

lemma clock: "P s \<Longrightarrow> P (CPUClockChanged cd s)"
  by (simp add: CPUClockChanged_def set_clock_def interval upd spu)

subsubsection \<open>Registers\<close>

lemma register_read: "P s \<Longrightarrow> P (snd (spu_ReadRegister req cd offset s))"
  by (simp add: spu_ReadRegister_def ReadVoiceRegister_def Let_def pending split: option.split)

lemma spu_ok_synced: "synced_write offset w = Some f \<Longrightarrow> spu_ok r \<Longrightarrow> spu_ok (f r)"
  unfolding synced_write_def
  by (auto simp: Let_def spu_ok_sweeps sweep_ok_Reset spu_ok_reverb_base split: if_splits) (simp add: spu_ok_def)

lemma transfer_address: "P s \<Longrightarrow> P (write_transfer_address req w s)"
proof -
  assume s: "P s"
  have u: "unat (ucast w * 8 :: u32) = unat w * 8"
    using unsigned_less [of w, where ?'a = nat] by (simp add: unat_word_ariths unsigned_ucast_eq take_bit_nat_eq_self)
  have "unat w < 65536" using unsigned_less [of w] by simp
  then have "spu_ok r \<Longrightarrow> spu_ok (r\<lparr>m_transfer_address_reg := w, m_transfer_address := ucast w * 8\<rparr>)" for r
    using u by (simp add: spu_ok_def RAM_SIZE_def)
  then show ?thesis by (simp add: write_transfer_address_def ram_irq upd spu transfer_early s)
qed

lemma stop: "P s \<Longrightarrow> P (stop_transfer w s)"
  by (simp add: stop_transfer_def Let_def fifo_write fifo)

lemma control: "P s \<Longrightarrow> P (write_SPUCNT req cd w s)"
proof -
  assume s: "P s"
  have off: "spu_ok r \<Longrightarrow> spu_ok (r\<lparr>m_voices := map ForceOff (m_voices r)\<rparr>)" for r
    by (simp add: spu_ok_def list_all_iff voice_ok_key)
  show ?thesis
    by (simp add: write_SPUCNT_def Let_def transfer_event dma_request interval late upd spu off stop pending s)
qed

lemma register_write: "P s \<Longrightarrow> P (spu_WriteRegister req cd offset w s)"
proof -
  assume s: "P s"
  have v: "spu_ok r \<Longrightarrow> spu_ok (upd_voice i (write_voice k w) r)" for r i k
    by (simp add: spu_ok_upd_voice voice_ok_write spu_ok_voice)
  show ?thesis
    by (simp add: spu_WriteRegister_def WriteVoiceRegister_def Let_def late upd spu spu_ok_synced pending transfer_address manual
        control v s split: option.split)
qed

lemma reset: "P s \<Longrightarrow> P (spu_Reset cd s)"
proof -
  assume s: "P s"
  have "spu_ok r \<Longrightarrow> spu_ok (reset_spu r)" for r
    by (auto simp: spu_ok_def reset_spu_def list_all_iff voice_ok_reset voice_ok_sweeps sweep_ok_zero ram_inside_def RAM_SIZE_def)
  then show ?thesis by (simp add: spu_Reset_def interval deactivate upd spu s)
qed

end

end
