(* ===== verification/Machine.thy ===== *)
theory Machine
  imports CpuMachine MdecHost GteSpec PadSpec SpuMachine
begin

text \<open>
  The components together: a console whose DMA controller drives the macroblock decoder and
  whose decoder drives the DMA controller, behind the bus, with the CPU in front. The nesting of
  the two (a transfer writes to the decoder, whose status update requests a transfer, ...) is
  bounded by the argument \<open>n\<close> of \<open>console\<close>, and the results hold for every \<open>n\<close>. The devices
  that are not modelled (the GPU, the CD-ROM drive and the code cache) are idle in the console.
\<close>

subsection \<open>The whole of the DMA controller's registers\<close>

locale dma_registers = dma_machine env P
  for env :: "('a dma_state_scheme) dma_env" and P :: "'a dma_state_scheme \<Rightarrow> bool" +
  assumes dpcr: "P s \<Longrightarrow> P (s\<lparr>m_DPCR := v\<rparr>)"
begin

lemma write_register: "P s \<Longrightarrow> P (dma_WriteRegister env i v s)"
  using dicr [of s "\<lambda>_. write_DICR v (m_DICR s)"]
  by (simp add: dma_WriteRegister_def Let_def channels dpcr all_channels transfer set_request)

end

subsection \<open>The console\<close>

text \<open>The state after an operation of the decoder; the machine stands still when it does not return.\<close>

definition returned :: "'s \<Rightarrow> 's option \<Rightarrow> 's" where
  "returned s r = (case r of Some t \<Rightarrow> t | None \<Rightarrow> s)"

definition returned_value :: "'s \<Rightarrow> (u32 \<times> 's) option \<Rightarrow> u32 \<times> 's" where
  "returned_value s r = (case r of Some vt \<Rightarrow> vt | None \<Rightarrow> (0xFFFFFFFF, s))"

definition console_dma :: "('a spu_state_scheme) request_line \<Rightarrow> ('a spu_state_scheme) dma_env" where
  "console_dma req =
     \<lparr>BeginDMAWrite = (\<lambda>s. (False, s)), gpu_DMAWrite = (\<lambda>a v s. s), EndDMAWrite = (\<lambda>s. s),
      spu_DMAWrite = spu_write req, mdec_DMAWrite = (\<lambda>vs s. returned s (mdec_write req vs s)),
      gpu_DMARead = (\<lambda>put n s. s), cdrom_DMARead = (\<lambda>put n s. s), spu_DMARead = spu_read req,
      mdec_DMARead = (\<lambda>put n s. returned s (mdec_read req put n s)),
      InvalidateCodePages = (\<lambda>a n s. s)\<rparr>"

text \<open>Deeper than \<open>n\<close> nested requests, only the request line is recorded.\<close>

primrec console_request :: "nat \<Rightarrow> ('a spu_state_scheme) request_line" where
  "console_request 0 = (\<lambda>ch b s. upd_chan ch (ch_request_update (\<lambda>_. b)) s)"
| "console_request (Suc n) = SetRequest (console_dma (console_request n))"

text \<open>The idle CD-ROM drive plays silence.\<close>

definition no_cd_audio :: "('a spu_state_scheme) cd_audio" where
  "no_cd_audio s = ((0, 0), s)"

definition console :: "nat \<Rightarrow> ('a bus_state_scheme) bus_env" where
  "console n =
     \<lparr>dma_devs = console_dma (console_request n),
      crtc_scanline_pending = (\<lambda>s. False), crtc_synchronize = (\<lambda>s. s),
      cdrom_ReadRegister = (\<lambda>i s. (0xFF, s)), cdrom_WriteRegister = (\<lambda>i v s. s),
      gpu_ReadRegister = (\<lambda>i s. (0xFFFFFFFF, s)), gpu_WriteRegister = (\<lambda>i v s. s),
      io_mdec_ReadRegister = (\<lambda>i s. returned_value s (mdec_ReadRegister (console_request n) i s)),
      io_mdec_WriteRegister = (\<lambda>i v s. returned s (mdec_WriteRegister (console_request n) i v s)),
      io_spu_ReadRegister = spu_ReadRegister (console_request n) no_cd_audio,
      io_spu_WriteRegister = spu_WriteRegister (console_request n) no_cd_audio,
      InvalidateBlocksWithPageIndex = (\<lambda>page s. s)\<rparr>"

subsection \<open>The invariant of the machine\<close>

definition machine_inv :: "'a bus_state_scheme \<Rightarrow> bool" where
  "machine_inv s \<longleftrightarrow> cpu_inv s \<and> timers_inv s \<and> length (m_dma s) = 7 \<and> ram_ok s \<and>
     length (icache_tags s) = 256 \<and> length (m_MEMCTRL s) = 9 \<and> gte_inv (gte_regs s) \<and> pads_ok s \<and>
     spu_ok (g_spu s) \<and> audio_ok (g_audio_stream s)"

text \<open>Operations of the queue and the timers leave the CPU's registers and the rest of the machine alone.\<close>

definition machine_view where
  "machine_view s = (cpu_view s, gte_regs s, timers_state.more s)"

lemma machine_view_fields:
  fixes s t :: "'a bus_state_scheme"
  assumes "machine_view s = machine_view t"
  shows "cpu_inv s = cpu_inv t" "m_dma s = m_dma t" "ram_ok s = ram_ok t" "icache_tags s = icache_tags t"
    "m_MEMCTRL s = m_MEMCTRL t" "gte_regs s = gte_regs t" "pads_ok s = pads_ok t"
    "g_spu s = g_spu t" "g_audio_stream s = g_audio_stream t"
proof -
  have m: "timers_state.more s = timers_state.more t" and c: "cpu_view s = cpu_view t"
    and "gte_regs s = gte_regs t"
    using assms by (simp_all add: machine_view_def)
  then show "gte_regs s = gte_regs t" by simp
  show "cpu_inv s = cpu_inv t" by (rule cpu_inv_view [OF c])
  show "m_dma s = m_dma t" "ram_ok s = ram_ok t" "icache_tags s = icache_tags t" "m_MEMCTRL s = m_MEMCTRL t"
    "g_spu s = g_spu t" "g_audio_stream s = g_audio_stream t"
    using m by (cases s; cases t; simp add: ram_ok_def)+
  show "pads_ok s = pads_ok t" using m by (cases s; cases t; simp add: pads_ok_def)
qed

lemma machine_inv_cong:
  assumes "machine_inv s" and "machine_view t = machine_view s" and "timers_inv t"
  shows "machine_inv t"
  using assms(1,3) machine_view_fields [OF assms(2)] by (simp add: machine_inv_def)

lemma te_rest_machine:
  fixes s t :: "'a timers_state_scheme"
  assumes "te_rest s = te_rest t"
  shows "machine_view s = machine_view t" and "timers_inv s = timers_inv t"
proof -
  note a = assms [unfolded te_rest_def]
  have m: "te_state.more s = te_state.more t" by (rule te_rest_fields(4) [OF assms])
  have "gte_regs s = gte_regs t" "regs s = regs t" "load_delay_reg s = load_delay_reg t" "next_load_delay_reg s = next_load_delay_reg t"
    using arg_cong [OF a, of gte_regs] arg_cong [OF a, of regs] arg_cong [OF a, of load_delay_reg] arg_cong [OF a, of next_load_delay_reg] by simp_all
  moreover have "timers_state.more s = timers_state.more t" using m by (cases s; cases t; simp)
  ultimately show "machine_view s = machine_view t" by (simp add: machine_view_def cpu_view_def)
  show "timers_inv s = timers_inv t" using timers_more_fields [OF m] by (simp add: timers_inv_def)
qed

lemma cpu_view_irq [simp]:
  "cpu_view (UpdateCPUInterruptRequest s) = cpu_view s" "gte_regs (UpdateCPUInterruptRequest s) = gte_regs s"
  "cpu_view (InterruptRequest i s) = cpu_view s" "gte_regs (InterruptRequest i s) = gte_regs s"
  by (simp_all add: InterruptRequest_def UpdateCPUInterruptRequest_def SetExternalInterrupt_def
      ClearExternalInterrupt_def CheckForPendingInterrupt_def Let_def cpu_view_def)

lemma machine_view_timers [simp]:
  "machine_view (upd_timer i f s) = machine_view s"
  "machine_view (InterruptRequest q s) = machine_view s"
  "machine_view (UpdateIRQ i s) = machine_view s"
  "machine_view (CheckForIRQ i old s) = machine_view s"
  "machine_view (AddTicks i n s) = machine_view s"
proof -
  show u: "machine_view (upd_timer i f s) = machine_view s" for i f s
    by (simp add: machine_view_def upd_timer_def cpu_view_def)
  show q: "machine_view (InterruptRequest q s) = machine_view s" for q s
    by (simp add: machine_view_def)
  show r: "machine_view (UpdateIRQ i s) = machine_view s" for i s
    by (simp add: UpdateIRQ_def Let_def u q)
  show c: "machine_view (CheckForIRQ i old s) = machine_view s" for i old s
    by (simp add: CheckForIRQ_def Let_def case_prod_beta u r)
  show "machine_view (AddTicks i n s) = machine_view s"
    by (simp add: AddTicks_def Let_def u c)
qed

lemma machine_view_queue [simp]:
  "machine_view (SortEvent e s) = machine_view s" "machine_view (Schedule e n s) = machine_view s"
  "machine_view (set_node e g s) = machine_view s" "machine_view (RemoveActiveEvent e s) = machine_view s"
  by (rule te_rest_machine; simp)+

lemma timers_inv_queue [simp]:
  "timers_inv (SortEvent e s) = timers_inv s" "timers_inv (Schedule e n s) = timers_inv s"
  "timers_inv (set_node e g s) = timers_inv s" "timers_inv (RemoveActiveEvent e s) = timers_inv s"
  by (rule te_rest_machine; simp)+

lemma machine_view_fields_simps [simp]:
  "machine_view (s\<lparr>m_syclk_ticks_carry := x\<rparr>) = machine_view s"
  "machine_view (s\<lparr>m_sysclk_div_8_carry := y\<rparr>) = machine_view s"
  "machine_view (s\<lparr>s_current_event := z\<rparr>) = machine_view s"
  "machine_view (s\<lparr>m_interrupt_status_register := v\<rparr>) = machine_view s"
  "machine_view (s\<lparr>m_interrupt_mask_register := v\<rparr>) = machine_view s"
  "machine_view (s\<lparr>downcount := n\<rparr>) = machine_view s"
  "machine_view (AddPendingTicks n s) = machine_view s"
  by (simp_all add: machine_view_def cpu_view_def AddPendingTicks_def)

lemma machine_view_let:
  "machine_view a = machine_view s \<Longrightarrow> (\<And>x. machine_view x = machine_view s \<Longrightarrow> machine_view (f x) = machine_view s) \<Longrightarrow>
    machine_view (Let a f) = machine_view s"
  by simp

lemma machine_view_add_three [simp]: "machine_view (add_three n s) = machine_view s"
  unfolding add_three_def by (intro machine_view_let; simp add: Let_def)

lemma machine_view_sysclk [simp]:
  "machine_view (UpdateSysClkEvent s) = machine_view s" "machine_view (AddSysClkTicks n s) = machine_view s"
  "machine_view (sysclk_InvokeEarly s) = machine_view s"
proof -
  show u: "machine_view (UpdateSysClkEvent s) = machine_view s" for s
    by (simp add: UpdateSysClkEvent_def)
  show a: "machine_view (AddSysClkTicks n s) = machine_view s" for n s
    by (simp add: AddSysClkTicks_def Let_def case_prod_beta u)
  show "machine_view (sysclk_InvokeEarly s) = machine_view s"
    by (simp add: InvokeEarly_def Let_def sysclk_callback_def a)
qed

lemma machine_view_registers:
  "machine_view (snd (timers_ReadRegister pend (\<lambda>s. s) i s)) = machine_view s"
  "machine_view (timers_WriteRegister pend (\<lambda>s. s) i v s) = machine_view s"
  "machine_view (irq_WriteRegister i v s) = machine_view s"
proof -
  show "machine_view (snd (timers_ReadRegister pend (\<lambda>s. s) i s)) = machine_view s"
    by (simp add: timers_ReadRegister_def Let_def sync_crtc_def)
  show "machine_view (timers_WriteRegister pend (\<lambda>s. s) i v s) = machine_view s"
    by (simp add: timers_WriteRegister_def Let_def sync_crtc_def)
  have "timers_state.more (UpdateCPUInterruptRequest t) = timers_state.more t" for t :: "'a timers_state_scheme"
    using irq_update_fields(9) [of t] by (cases t; cases "UpdateCPUInterruptRequest t"; simp)
  then have "machine_view (UpdateCPUInterruptRequest t) = machine_view t" for t :: "'a timers_state_scheme"
    by (simp add: machine_view_def)
  then show "machine_view (irq_WriteRegister i v s) = machine_view s"
    by (simp add: irq_WriteRegister_def)
qed

subsection \<open>The components keep the invariant\<close>

lemmas machine_inv_defs = machine_inv_def cpu_inv_def timers_inv_def ram_ok_def pads_ok_def

lemma machine_inv_queue:
  fixes s :: "'a bus_state_scheme"
  assumes "machine_inv s"
  shows "machine_inv (SetIntervalAndSchedule e n s)" "machine_inv (Deactivate e s)"
    "machine_inv (AddPendingTicks n s)" "machine_inv (Schedule e n s)" "machine_inv (SortEvent e s)"
    "machine_inv (set_node e g s)"
proof -
  have t: "timers_inv s" using assms by (simp add: machine_inv_def)
  show "machine_inv (SetIntervalAndSchedule e n s)"
    by (rule machine_inv_cong [OF assms]) (simp_all add: SetIntervalAndSchedule_def SetInterval_def t)
  show "machine_inv (Deactivate e s)"
    by (rule machine_inv_cong [OF assms]) (simp_all add: Deactivate_def t)
  show "machine_inv (AddPendingTicks n s)"
    using assms by (simp add: machine_inv_defs AddPendingTicks_def)
  show "machine_inv (Schedule e n s)" "machine_inv (SortEvent e s)" "machine_inv (set_node e g s)"
    by (rule machine_inv_cong [OF assms]; simp add: t)+
qed

lemma machine_inv_interrupt: "machine_inv s \<Longrightarrow> machine_inv (InterruptRequest q s)"
  by (rule machine_inv_cong) (simp_all add: machine_inv_def timers_inv_def)

lemma mdec_host_machine:
  assumes "\<And>ch b s. machine_inv s \<Longrightarrow> machine_inv (req ch b s)"
  shows "mdec_host req machine_inv"
  by unfold_locales (simp_all add: assms machine_inv_queue, simp_all add: machine_inv_defs)

lemma spu_host_machine:
  assumes "\<And>ch b s. machine_inv s \<Longrightarrow> machine_inv (req ch b s)"
  shows "spu_host req no_cd_audio machine_inv"
  by unfold_locales
    (simp_all add: assms machine_inv_queue machine_inv_interrupt no_cd_audio_def, simp_all add: machine_inv_defs)

lemma machine_inv_dma_fields:
  fixes s :: "'a bus_state_scheme"
  assumes "machine_inv s"
  shows "machine_inv (upd_chan i f s)" "machine_inv (m_DICR_update g s)" "machine_inv (s\<lparr>m_DPCR := v\<rparr>)"
    "machine_inv (s\<lparr>g_ram := m\<rparr>)" "machine_inv (s\<lparr>m_transfer_buffer := b\<rparr>)"
    "machine_inv (InterruptRequest q s)" "machine_inv (HaltTransfer t s)"
proof -
  show "machine_inv (upd_chan i f s)" "machine_inv (m_DICR_update g s)" "machine_inv (s\<lparr>m_DPCR := v\<rparr>)"
    "machine_inv (s\<lparr>g_ram := m\<rparr>)" "machine_inv (s\<lparr>m_transfer_buffer := b\<rparr>)"
    using assms by (simp_all add: machine_inv_defs upd_chan_def)
  show "machine_inv (InterruptRequest q s)" by (rule machine_inv_interrupt [OF assms])
  have "machine_inv (s\<lparr>m_halt_ticks_remaining := n\<rparr>)" for n
    using assms by (simp add: machine_inv_defs)
  then show "machine_inv (HaltTransfer t s)"
    by (simp add: HaltTransfer_def Let_def machine_inv_queue)
qed

lemma pred_returned: "P s \<Longrightarrow> pred_option P r \<Longrightarrow> P (returned s r)"
  by (auto simp: returned_def split: option.split)

lemma dma_registers_machine:
  assumes "\<And>ch b s. machine_inv s \<Longrightarrow> machine_inv (req ch b s)"
  shows "dma_registers (console_dma req) machine_inv"
proof -
  note transfers = mdec_host.transfers [OF mdec_host_machine [OF assms]]
    spu_host.dma_write [OF spu_host_machine [OF assms]] spu_host.dma_read [OF spu_host_machine [OF assms]]
  show ?thesis
    by unfold_locales
      (simp_all add: console_dma_def machine_inv_dma_fields machine_inv_queue pred_returned transfers)
qed

lemma console_request_machine:
  fixes s :: "'a bus_state_scheme"
  shows "machine_inv s \<Longrightarrow> machine_inv (console_request n ch b s)"
proof (induction n arbitrary: ch b s)
  case 0
  then show ?case by (simp add: machine_inv_dma_fields)
next
  case (Suc n)
  have "dma_machine (console_dma (console_request n :: ('a bus_state_scheme) request_line)) machine_inv"
    using dma_registers_machine [OF Suc.IH] by (rule dma_registers.axioms(1))
  from dma_machine.set_request [OF this Suc.prems] show ?case by simp
qed

interpretation console_mdec: mdec_host "console_request n" machine_inv for n
  by (rule mdec_host_machine [OF console_request_machine])

interpretation console_spu: spu_host "console_request n" no_cd_audio machine_inv for n
  by (rule spu_host_machine [OF console_request_machine])

interpretation console_dma: dma_registers "console_dma (console_request n)" machine_inv for n
  by (rule dma_registers_machine [OF console_request_machine])

lemma machine_inv_timers:
  fixes s :: "'a bus_state_scheme"
  assumes "machine_inv s"
  shows "machine_inv (snd (timers_ReadRegister pend (\<lambda>s. s) i s))"
    and "machine_inv (timers_WriteRegister pend (\<lambda>s. s) i v s)"
    and "machine_inv (irq_WriteRegister i v s)"
proof -
  have t: "timers_inv s" using assms by (simp add: machine_inv_def)
  show "machine_inv (snd (timers_ReadRegister pend (\<lambda>s. s) i s))"
    by (rule machine_inv_cong [OF assms machine_view_registers(1) timers_inv_ReadRegister]) (simp_all add: t)
  show "machine_inv (timers_WriteRegister pend (\<lambda>s. s) i v s)"
    by (rule machine_inv_cong [OF assms machine_view_registers(2) timers_inv_WriteRegister]) (simp_all add: t)
  have "m_states (irq_WriteRegister i v s) = m_states s" "max_slice_ticks (irq_WriteRegister i v s) = max_slice_ticks s"
  proof -
    have "m_states (UpdateCPUInterruptRequest u) = m_states u \<and> max_slice_ticks (UpdateCPUInterruptRequest u) = max_slice_ticks u"
      for u :: "'a bus_state_scheme"
      using irq_update_fields(9) [of u] by (cases u; cases "UpdateCPUInterruptRequest u"; simp)
    then show "m_states (irq_WriteRegister i v s) = m_states s" "max_slice_ticks (irq_WriteRegister i v s) = max_slice_ticks s"
      by (simp_all add: irq_WriteRegister_def)
  qed
  then show "machine_inv (irq_WriteRegister i v s)"
    using t by (intro machine_inv_cong [OF assms machine_view_registers(3)]) (simp add: timers_inv_def)
qed

lemma machine_inv_cpu:
  fixes s :: "'a bus_state_scheme"
  assumes "machine_inv s"
  shows "r < 32 \<Longrightarrow> machine_inv (WriteReg r v s)" "32 \<le> r \<Longrightarrow> machine_inv (set_reg r v s)"
    "r < 32 \<Longrightarrow> machine_inv (WriteRegDelayed r v s)" "machine_inv (UpdateLoadDelay s)" "machine_inv (flushed s)"
  using assms
  by (auto simp: machine_inv_defs WriteReg_def set_reg_def WriteRegDelayed_def UpdateLoadDelay_def flushed_def
      load_target_def Let_def nth_list_update)

lemma machine_inv_bus:
  fixes s :: "'a bus_state_scheme"
  assumes "machine_inv s"
  shows "machine_inv (s\<lparr>dcache := m\<rparr>)" "machine_inv (s\<lparr>icache_data := m\<rparr>)"
    "length ts = length (icache_tags s) \<Longrightarrow> machine_inv (s\<lparr>icache_tags := ts\<rparr>)"
    "machine_inv (s\<lparr>cache_control := v\<rparr>)"
    "length rs = length (m_MEMCTRL s) \<Longrightarrow> machine_inv (s\<lparr>m_MEMCTRL := rs\<rparr>)"
    "machine_inv (s\<lparr>m_bios_access_time := t1, m_cdrom_access_time := t2, m_spu_access_time := t3\<rparr>)"
    "machine_inv (s\<lparr>m_ram_size_reg := v\<rparr>)" "machine_inv (s\<lparr>m_tty_line_buffer := l\<rparr>)"
    "machine_inv (s\<lparr>cop0_regs := c\<rparr>)"
    "machine_inv (s\<lparr>next_instruction := v\<rparr>)" "machine_inv (s\<lparr>current_instruction := v\<rparr>)"
    "machine_inv (s\<lparr>current_instruction_pc := v\<rparr>)" "machine_inv (s\<lparr>current_instruction_in_branch_delay_slot := b\<rparr>)"
    "machine_inv (s\<lparr>current_instruction_was_branch_taken := b\<rparr>)" "machine_inv (s\<lparr>next_instruction_is_branch_delay_slot := b\<rparr>)"
    "machine_inv (s\<lparr>branch_was_taken := b\<rparr>)" "machine_inv (s\<lparr>exception_raised := b\<rparr>)"
    "machine_inv (s\<lparr>interrupt_delay := b\<rparr>)" "machine_inv (s\<lparr>frame_done := b\<rparr>)"
    "machine_inv (s\<lparr>use_debug_dispatcher := b\<rparr>)" "machine_inv (s\<lparr>downcount := n\<rparr>)" "machine_inv (s\<lparr>pending_ticks := n\<rparr>)"
  using assms by (simp_all add: machine_inv_defs)

lemma pred_returned_value: "P s \<Longrightarrow> pred_option (P \<circ> snd) r \<Longrightarrow> P (snd (returned_value s r))"
  by (auto simp: returned_value_def split: option.split)

lemma machine_inv_gte:
  fixes s :: "'a bus_state_scheme"
  assumes "machine_inv s"
  shows "machine_inv (gte_WriteRegister r v s)" "machine_inv (gte_ExecuteInstruction w s)"
proof -
  have upd: "machine_inv (s\<lparr>gte_regs := q\<rparr>)" if "gte_inv q" for q
    using assms that by (simp add: machine_inv_defs)
  have ticks: "machine_inv ((AddGTETicks n s)\<lparr>gte_regs := q\<rparr>)" if "gte_inv q" for n q
    using assms that by (simp add: machine_inv_defs AddGTETicks_def)
  have g: "gte_inv (gte_regs s)" using assms by (simp add: machine_inv_def)
  show "machine_inv (gte_WriteRegister r v s)"
    by (simp add: gte_WriteRegister_def upd gte_inv_write g)
  show "machine_inv (gte_ExecuteInstruction w s)"
    by (auto simp: gte_ExecuteInstruction_impl assms intro: ticks gte_inv_command [OF _ g] split: option.split)
qed

lemma machine_inv_pad_fields:
  fixes s :: "'a bus_state_scheme"
  assumes "machine_inv s"
  shows "machine_inv (s\<lparr>m_JOY_CTRL := c\<rparr>)" "machine_inv (s\<lparr>m_JOY_STAT := v\<rparr>)" "machine_inv (s\<lparr>m_JOY_MODE := c\<rparr>)"
    "machine_inv (s\<lparr>m_JOY_BAUD := c\<rparr>)" "machine_inv (s\<lparr>m_pad_state := ps\<rparr>)" "machine_inv (s\<lparr>m_active_device := ad\<rparr>)"
    "machine_inv (s\<lparr>m_receive_buffer := b\<rparr>)" "machine_inv (s\<lparr>m_transmit_buffer := b\<rparr>)"
    "machine_inv (s\<lparr>m_transmit_value := b\<rparr>)" "machine_inv (s\<lparr>m_receive_buffer_full := f\<rparr>)"
    "machine_inv (s\<lparr>m_transmit_buffer_full := f\<rparr>)" "machine_inv (s\<lparr>host_files := fs\<rparr>)"
    "machine_inv (s\<lparr>m_SIO_CTRL := c\<rparr>)" "machine_inv (s\<lparr>m_SIO_STAT := v\<rparr>)" "machine_inv (s\<lparr>m_SIO_MODE := c\<rparr>)"
    "machine_inv (s\<lparr>m_SIO_BAUD := c\<rparr>)"
  using assms by (simp_all add: machine_inv_defs)

interpretation console_pads: pad_host "machine_inv :: 'a bus_state_scheme \<Rightarrow> bool"
proof
  fix s :: "'a bus_state_scheme" and cs ms ts e n g
  assume inv: "machine_inv s"
  show "pads_ok s" using inv by (simp add: machine_inv_def)
  show "machine_inv (s\<lparr>m_controllers := cs, m_memory_cards := ms, m_multitaps := ts\<rparr>)"
    if "pads_ok (s\<lparr>m_controllers := cs, m_memory_cards := ms, m_multitaps := ts\<rparr>)"
    using inv that by (simp add: machine_inv_def cpu_inv_def timers_inv_def ram_ok_def)
qed (simp_all add: machine_inv_pad_fields machine_inv_queue machine_inv_dma_fields)

lemma machine_inv_sio:
  fixes s :: "'a bus_state_scheme"
  assumes "machine_inv s"
  shows "machine_inv (sio_WriteRegister i v s)"
  by (simp add: sio_WriteRegister_def sio_SoftReset_def Let_def machine_inv_pad_fields assms)

interpretation console: cpu_machine "console n" machine_inv for n
  by unfold_locales
    (simp_all add: console_def machine_inv_bus machine_inv_cpu machine_inv_timers machine_inv_queue
      machine_inv_dma_fields machine_inv_gte machine_inv_sio console_pads.read_register
      console_pads.write_register console_dma.write_register console_mdec.registers console_spu.register_read
      console_spu.register_write pred_returned pred_returned_value)

subsection \<open>The machine after a reset\<close>

lemma machine_inv_step: "machine_inv s \<Longrightarrow> machine_inv (cpu_step (console n) dbg s)"
  by (rule console.step)

end
