(* ===== verification/Boot.thy ===== *)
theory Boot
  imports Machine MdecClaims
begin

text \<open>
  The state the instances of the properties of the bus and the CPU start from: zeroed RAM of two megabytes, an invalid instruction
  cache, no pending load, and the CPU at an address in RAM.
\<close>

definition bus_boot :: bus_state where
  "bus_boot = spu_state.extend (mdec_state.extend mdec_boot (spu_state.fields silent_spu new_audio_stream True False))
     (bus_state.fields (\<lambda>_. 0) (replicate 256 0x0F) (\<lambda>_. 0) 0 (\<lambda>_. 0) (replicate 2049 False)
        (replicate 9 0) 0 [0, 0, 0] [0, 0, 0] [0, 0, 0] [0, 0, 0] [0, 0, 0] [] [])"

lemmas bus_run_defs = bus_boot_def bus_state.defs spu_state.defs mdec_run_defs

lemma bus_boot_fields:
  "regs bus_boot = replicate 36 0" "load_delay_reg bus_boot = reg_count" "next_load_delay_reg bus_boot = reg_count"
  "g_ram_mask bus_boot = 0x1FFFFF" "g_ram bus_boot = (\<lambda>_. 0)" "length (m_dma bus_boot) = 7"
  "icache_tags bus_boot = replicate 256 0x0F" "length (m_MEMCTRL bus_boot) = 9"
  "sr (cop0_regs bus_boot) = 0" "cause (cop0_regs bus_boot) = 0"
  "gte_regs bus_boot = GTE_Reset"
  "g_spu bus_boot = silent_spu" "g_audio_stream bus_boot = new_audio_stream"
  "\<not> exception_raised bus_boot" "\<not> current_instruction_in_branch_delay_slot bus_boot"
  by (simp_all add: bus_run_defs cop0_boot_def GTE_Reset_def)

lemma machine_inv_boot: "machine_inv bus_boot"
proof -
  have "timers_inv bus_boot" using timers_inv_boot by (simp add: bus_run_defs timers_inv_def)
  moreover have "pads_ok bus_boot"
    using pads_ok_boot by (simp add: bus_run_defs pads_ok_def)
  ultimately show ?thesis
    by (simp add: machine_inv_def cpu_inv_def load_target_def ram_ok_def bus_boot_fields gte_inv_reset spu_ok_silent audio_ok_new)
qed

lemma cpu_inv_boot: "cpu_inv bus_boot"
  using machine_inv_boot by (simp add: machine_inv_def)

lemma ram_ok_boot: "ram_ok bus_boot"
  using machine_inv_boot by (simp add: machine_inv_def)

lemma quiet_console: "quiet_code_cache (console n)"
  by (simp add: quiet_code_cache_def console_def)

end
