(* ===== verification/BusClaims.thy ===== *)
theory BusClaims
  imports BusSpec Boot
begin

text \<open>
  Properties of the bus: loads and stores through the mirrors of RAM, the fill of an instruction
  cache line, the access times, the stores with the cache isolated, and the memory functions of
  the recompilers.
\<close>

subsection \<open>RAM\<close>

text \<open>
  C26: RAM behaves as one array through all its mirrors and segments: a store succeeds, a load of
  the same size at any address with the same RAM offset returns the stored value, cut to that
  size, and every other aligned word keeps its value.
\<close>

theorem ram_mirrors:
  fixes s :: "'a bus_state_scheme"
  assumes "quiet_code_cache env" and "\<not> sr_Isc (sr (cop0_regs s))"
    and "ram_address va" "ram_address vb" "ram_address vc"
    and "size_aligned sz va" "size_aligned sz vb" "size_aligned AccWord vc"
    and "ram_offset va s = ram_offset vb s" and "WriteMemory env sz va v s = (ok, t)"
  shows "ok \<and> fst (ReadMemory env sz vb t) = Some (truncate_to sz v) \<and>
    (ram_offset vc s = word_base (ram_offset va s) \<or>
     fst (ReadMemory env AccWord vc t) = fst (ReadMemory env AccWord vc s))"
proof -
  define r where "r = DoMemoryAccess env AccWrite sz va v s"
  have t: "t = snd (snd r)" "ok"
    using assms(2,3,6,10) by (auto simp: WriteMemory_def DoAlignmentCheck_def r_def DoMemoryAccess_RAM DoRAMAccess_def Let_def)
  note st = store_ram [OF assms(1,3,2) t(1) [unfolded r_def]]
  have off: "ram_offset x t = ram_offset x s" for x by (simp add: ram_offset_def st(2))
  have rd: "fst (ReadMemory env z x u) = Some (truncate_to z (mem_load z (g_ram u) (ram_offset x u)))"
    if "ram_address x" "size_aligned z x" for z x and u :: "'a bus_state_scheme"
    using that by (simp add: ReadMemory_def DoAlignmentCheck_def load_ram)
  have tt: "truncate_to sz (truncate_to sz v) = truncate_to sz v" by (cases sz) (auto intro!: bit_word_eqI simp: bit_simps)
  have vb: "fst (ReadMemory env sz vb t) = Some (truncate_to sz v)"
    by (simp add: rd [OF assms(4,7)] off st(1) tt flip: assms(9))
  have "aligned (ram_offset vc s)"
    using size_aligned_ram_offset [OF assms(8), of s] by (simp only: size_aligned_bits)
  then have "ram_offset vc s \<noteq> word_base (ram_offset va s) \<Longrightarrow>
      read_word (g_ram t) (ram_offset vc s) = read_word (g_ram s) (ram_offset vc s)"
    unfolding st(1) by (intro read_word_store_other size_aligned_ram_offset assms(6))
  then show ?thesis using t(2) vb rd [OF assms(5,8)] off by auto
qed

theorem ram_mirrors_witness:
  "let t = snd (WriteMemory (console 0) AccHalfWord 0x00200102 0xABCD1234 bus_boot)
   in fst (ReadMemory (console 0) AccHalfWord 0xA0000102 t) = Some 0x1234 \<and>
      fst (ReadMemory (console 0) AccWord 0x80000104 t) = fst (ReadMemory (console 0) AccWord 0x80000104 bus_boot)"
proof -
  have a: "ram_address 0x00200102" "ram_address 0xA0000102" "ram_address 0x80000104"
    by (simp_all add: ram_address_def VirtualAddressToPhysical_def drop_bit_eq_div)
  have o: "ram_offset 0x00200102 bus_boot = 0x102" "ram_offset 0xA0000102 bus_boot = 0x102" "ram_offset 0x80000104 bus_boot = 0x104"
    by (simp_all add: ram_offset_def VirtualAddressToPhysical_def bus_boot_fields)
  have al: "size_aligned AccHalfWord 0x00200102" "size_aligned AccHalfWord 0xA0000102" "size_aligned AccWord 0x80000104"
    by (simp_all add: IsAlignedPow2_def)
  show ?thesis
    using ram_mirrors [OF quiet_console _ a al _ prod.collapse [symmetric], of bus_boot 0 "0xABCD1234"] o
    by (simp add: bus_boot_fields word_base_def Let_def)
qed

subsection \<open>The instruction cache\<close>

text \<open>
  C25: filling a line from RAM makes exactly the words from the missed one to the end of the line
  hit, each with what RAM holds; the fill returns the missed word and takes a tick for each word.
\<close>

theorem cache_line_filled:
  fixes s :: "'a bus_state_scheme"
  assumes "FillICache a s = (w, t)" and "IsAlignedPow2 a 4" and "VirtualAddressToPhysical a < RAM_MIRROR_END"
    and "ram_ok s" and "length (icache_tags s) = 256" and "j < 4"
  shows "CompareICacheTag (line_word a j) t = (word_in_line a \<le> j) \<and>
    (j < word_in_line a \<or> ReadICache (line_word a j) t = read_word (g_ram s) (ram_offset (line_word a j) s)) \<and>
    w = read_word (g_ram s) (ram_offset a s) \<and>
    pending_ticks t = pending_ticks s + (4 - int (word_in_line a))"
proof -
  have al: "aligned a" using assms(2) by (simp add: IsAlignedPow2_def)
  note fill = fill_line [OF assms(1) al assms(3-5)]
  have "w = ReadICache a t" by (rule fill(3) [OF word_in_line_less])
  also have "\<dots> = read_word (g_ram s) (ram_offset a s)"
    using fill(2) [OF word_in_line_less [of a] order_refl] by (simp only: line_word_self [OF al])
  finally show ?thesis using fill [OF assms(6)] by (auto simp: not_less)
qed

theorem cache_line_filled_witness:
  "let t = snd (FillICache 0x80000104 bus_boot)
   in \<not> CompareICacheTag (line_word 0x80000104 0) t \<and> CompareICacheTag (line_word 0x80000104 3) t \<and> pending_ticks t = 3"
proof -
  have w: "word_in_line 0x80000104 = 1" by (simp add: word_in_line_def drop_bit_eq_div)
  have h: "IsAlignedPow2 (0x80000104 :: u32) 4" "VirtualAddressToPhysical 0x80000104 < RAM_MIRROR_END"
    "length (icache_tags bus_boot) = 256" "pending_ticks bus_boot = 0"
    by (simp_all add: IsAlignedPow2_def VirtualAddressToPhysical_def bus_boot_fields) (simp add: bus_run_defs)
  show ?thesis
    using cache_line_filled [OF prod.collapse [symmetric] h(1,2) ram_ok_boot h(3), of 0]
      cache_line_filled [OF prod.collapse [symmetric] h(1,2) ram_ok_boot h(3), of 3] w h(4)
    by (simp add: Let_def)
qed

text \<open>
  With the cache isolated a store reaches the cache whatever its size: a byte stored at the
  last byte of the last line writes four bytes, three of them beyond the cache's data.
\<close>

theorem isolated_byte_store_overruns:
  fixes s :: "'a bus_state_scheme"
  assumes "sr_Isc (sr (cop0_regs s))" and "drop_bit 29 va = 0 \<or> drop_bit 29 va = 4" and "va AND 0xFFF = 0xFFF"
    and "t = snd (WriteMemory env AccByte va v s)"
  shows "icache_data t 0xFFF = byte_of_word 0 v \<and> icache_data t 0x1000 = byte_of_word 1 v \<and>
    icache_data t 0x1001 = byte_of_word 2 v \<and> icache_data t 0x1002 = byte_of_word 3 v \<and> g_ram t = g_ram s"
proof -
  have b: "bit va n" if "n < 12" for n
  proof -
    have m: "(0xFFF :: u32) = mask 12" by (simp add: mask_eq_exp_minus_1)
    have "bit (va AND mask 12) n = bit (mask 12 :: u32) n" using assms(3) unfolding m by simp
    then show ?thesis using that by (simp add: bit_and_iff bit_mask_iff)
  qed
  have "drop_bit 4 va AND mask 8 = mask 8" "va AND mask 4 = mask 4"
    by (rule bit_word_eqI; auto simp: bit_and_iff bit_mask_iff bit_drop_bit_eq b)+
  then have "GetICacheLine va = 255" "GetICacheLineOffset va = 15"
    by (simp_all add: GetICacheLine_def GetICacheLineOffset_def mask_eq_exp_minus_1)
  then have i: "icache_index va = 0xFFF" by (simp add: icache_index_def)
  have "t = WriteICache va v s"
    using assms(1,2,4) by (auto simp: WriteMemory_def DoAlignmentCheck_def DoMemoryAccess_def Let_def)
  then show ?thesis by (simp add: WriteICache_def i write_word_def)
qed

theorem isolated_byte_store_overruns_witness:
  "icache_data (snd (WriteMemory (console 0) AccByte 0x80000FFF 0x11223344
      (bus_boot\<lparr>cop0_regs := cop0_regs bus_boot\<lparr>sr := 0x10000\<rparr>\<rparr>))) 0x1000 = 0x33"
proof -
  let ?s = "bus_boot\<lparr>cop0_regs := cop0_regs bus_boot\<lparr>sr := 0x10000\<rparr>\<rparr>"
  have "sr_Isc (sr (cop0_regs ?s))" using bit_exp_iff [where 'a = u32, of 16 16] by simp
  moreover have "drop_bit 29 (0x80000FFF :: u32) = 4" by (simp add: drop_bit_eq_div)
  moreover have "byte_of_word 1 0x11223344 = 0x33" by (simp add: byte_of_word_def drop_bit_eq_div)
  ultimately show ?thesis
    using isolated_byte_store_overruns [OF _ _ _ refl, of ?s "0x80000FFF" "console 0" "0x11223344"] by simp
qed

subsection \<open>Access times\<close>

text \<open>
  Whatever the memory control registers hold, the access times they give are between 5 and
  183 ticks and grow with the size: a load that succeeds is never taken for a bus error, which is
  a negative number of ticks.
\<close>

theorem access_times_bounded:
  "\<exists>b h w. CalculateMemoryTiming mem_delay common_delay = [b, h, w] \<and> 5 \<le> b \<and> b \<le> h \<and> h \<le> w \<and> w \<le> 183"
proof -
  have f: "0 \<le> uint (bf_get i 4 d)" "uint (bf_get i 4 d) \<le> 15" for i and d :: u32
  proof -
    have "unat (bf_get i 4 d) < 16" using unat_bf_get_less [of i 4 d] by simp
    then show "0 \<le> uint (bf_get i 4 d)" "uint (bf_get i 4 d) \<le> 15" unfolding uint_nat by linarith+
  qed
  define c0 c2 c3 acc where "c0 = uint (bf_get 0 4 common_delay)" and "c2 = uint (bf_get 8 4 common_delay)"
    and "c3 = uint (bf_get 12 4 common_delay)" and "acc = uint (bf_get 4 4 mem_delay)"
  have c: "0 \<le> c0" "c0 \<le> 15" "0 \<le> c2" "c2 \<le> 15" "0 \<le> c3" "c3 \<le> 15" "0 \<le> acc" "acc \<le> 15"
    unfolding c0_def c2_def c3_def acc_def by (rule f)+
  define d0 d2 mn where "d0 = (if bit mem_delay 8 then c0 - 1 else 0)"
    and "d2 = (if bit mem_delay 10 then c2 else 0)" and "mn = (if bit mem_delay 11 then c3 else 0)"
  define first0 where "first0 = (if d0 + d2 < 6 then d0 + d2 + 1 else d0 + d2) + acc + 2"
  define first where "first = (if first0 < mn + 6 then mn + 6 else first0)"
  define seq where "seq = (if d0 + d2 + acc + 2 < mn + 2 then mn + 2 else d0 + d2 + acc + 2)"
  have fields: "- 1 \<le> d0" "d0 \<le> 14" "0 \<le> d2" "d2 \<le> 15" "0 \<le> mn" "mn \<le> 15"
    using c by (simp_all add: d0_def d2_def mn_def)
  have "1 \<le> first0" "first0 \<le> 46"
    using fields c unfolding first0_def by (simp_all split: if_split)
  then have b: "6 \<le> first" "first \<le> 46" "2 \<le> seq" "seq \<le> 46"
    using fields c unfolding first_def seq_def by (simp_all split: if_split)
  have "CalculateMemoryTiming mem_delay common_delay =
      [max (first - 1) 0, max ((if bit mem_delay 12 then first else first + seq) - 1) 0,
       max ((if bit mem_delay 12 then first + seq else first + seq + seq + seq) - 1) 0]"
    by (simp only: CalculateMemoryTiming_def Let_def first_def first0_def seq_def d0_def d2_def mn_def c0_def c2_def c3_def acc_def)
  then show ?thesis using b by (auto intro!: exI)
qed

subsection \<open>The recompilers' memory functions\<close>

lemma bit_negated_exception:
  "bit (negated_exception Exc_AdEL) 63" "bit (negated_exception Exc_DBE) 63"
  by code_simp+

lemma thunk_read_spec:
  assumes "thunk_read env sz a s = (x, t)"
  shows "ReadMemory env sz a s =
      (if bit x 63 then (None, RaiseException (if size_aligned sz a then Exc_DBE else Exc_AdEL) t)
       else (Some (truncate_to sz (ucast x)), t)) \<and>
    (if bit x 63 then - x = ucast (exception_code (if size_aligned sz a then Exc_DBE else Exc_AdEL)) else True)"
proof -
  have v: "\<not> bit (ucast (w :: u32) :: u64) 63" "ucast (ucast w :: u64) = w" for w
    by (auto simp: bit_ucast_iff intro!: bit_word_eqI dest: bit_imp_le_length)
  show ?thesis
    using assms bit_negated_exception
    by (auto simp: thunk_read_def ReadMemory_def DoAlignmentCheck_def v negated_exception_def
        split: prod.splits if_splits)
qed

lemma thunk_write_spec:
  assumes "thunk_write env sz a v s = (y, u)"
  shows "WriteMemory env sz a v s =
      (if y \<noteq> 0 then (False, RaiseException (if size_aligned sz a then Exc_DBE else Exc_AdES) u) else (True, u)) \<and>
    (if y \<noteq> 0 then y = exception_code (if size_aligned sz a then Exc_DBE else Exc_AdES) else True)"
  using assms
  by (auto simp: thunk_write_def WriteMemory_def DoAlignmentCheck_def split: prod.splits if_splits)

text \<open>
  The memory functions that compiled code calls do what the interpreter's do, up to raising
  the exception themselves: a read fails exactly when bit 63 of its result is set, and then the
  result is the negated code of the exception the interpreter raises; a write fails exactly when
  its result is not zero, and then it is that code.
\<close>

theorem thunks_agree:
  fixes s :: "'a bus_state_scheme"
  assumes "thunk_read env sz a s = (x, t)" and "thunk_write env sz a v s = (y, u)"
  shows "ReadMemory env sz a s =
      (if bit x 63 then (None, RaiseException (if size_aligned sz a then Exc_DBE else Exc_AdEL) t)
       else (Some (truncate_to sz (ucast x)), t)) \<and>
    (if bit x 63 then - x = ucast (exception_code (if size_aligned sz a then Exc_DBE else Exc_AdEL)) else True) \<and>
    WriteMemory env sz a v s =
      (if y \<noteq> 0 then (False, RaiseException (if size_aligned sz a then Exc_DBE else Exc_AdES) u) else (True, u)) \<and>
    (if y \<noteq> 0 then y = exception_code (if size_aligned sz a then Exc_DBE else Exc_AdES) else True)"
  using thunk_read_spec [OF assms(1)] thunk_write_spec [OF assms(2)] by blast

theorem thunks_agree_witness:
  "ReadMemory (console 0) AccWord 2 bus_boot =
    (None, RaiseException Exc_AdEL (snd (thunk_read (console 0) AccWord 2 bus_boot)))"
proof -
  obtain x t y u where e: "thunk_read (console 0) AccWord 2 bus_boot = (x, t)"
    "thunk_write (console 0) AccWord 2 0 bus_boot = (y, u)" by fastforce
  have a: "\<not> size_aligned AccWord 2" by (simp add: IsAlignedPow2_def)
  have "x = negated_exception Exc_AdEL" using e(1) a by (simp add: thunk_read_def del: size_aligned.simps)
  then have "bit x 63" by (simp only: bit_negated_exception)
  then show ?thesis using thunks_agree [OF e] a e by simp
qed

end
