(* ===== verification/CpuArith.thy ===== *)
theory CpuArith
  imports CpuSpec
begin

text \<open>
  The values the CPU's arithmetic and its unaligned accesses compute: signed overflow, the
  quotient and remainder of the division, and the bytes that \<open>lwl\<close>, \<open>lwr\<close>, \<open>swl\<close> and
  \<open>swr\<close> move.
\<close>

subsection \<open>Signed overflow\<close>

definition in_s32 :: "int \<Rightarrow> bool" where
  "in_s32 x \<longleftrightarrow> - (2 ^ 31) \<le> x \<and> x < 2 ^ 31"

lemma and_top_bit: "(w AND 0x80000000 \<noteq> 0) = bit (w :: u32) 31"
proof -
  have b: "bit (0x80000000 :: u32) n \<longleftrightarrow> n = 31" for n
    using bit_exp_iff [where 'a = u32, of 31 n] by auto
  show ?thesis unfolding word_neq_0_bit bit_and_iff b by metis
qed

lemma sign_bit: "bit (w :: u32) 31 \<longleftrightarrow> sint w < 0"
  using bit_last_iff [of w] by simp

lemma sint_range: "in_s32 (sint (w :: u32))"
  using sint_ge [of w] sint_lt [of w] by (simp add: in_s32_def)

lemma wrap_sum:
  assumes "- (2 ^ 32) \<le> x" and "x < 2 ^ 32"
  shows "signed_take_bit 31 x =
    (if x < - (2 ^ 31) then x + 2 ^ 32 else if 2 ^ 31 \<le> x then x - 2 ^ 32 else (x :: int))"
proof -
  have e: "signed_take_bit 31 x = (x + 2147483648) mod 4294967296 - 2147483648"
    by (simp add: signed_take_bit_eq_take_bit_shift take_bit_eq_mod)
  consider "x < - 2147483648" | "- 2147483648 \<le> x" "x < 2147483648" | "2147483648 \<le> x" by linarith
  then show ?thesis
  proof cases
    case 1
    have "(x + 2147483648) mod 4294967296 = (x + 2147483648 + 4294967296) mod 4294967296"
      by (rule mod_add_self2 [symmetric])
    also have "\<dots> = x + 2147483648 + 4294967296" using assms 1 by (intro mod_pos_pos_trivial) simp_all
    finally show ?thesis unfolding e using 1 by simp
  next
    case 2
    then show ?thesis unfolding e by (simp add: mod_pos_pos_trivial)
  next
    case 3
    have "(x + 2147483648) mod 4294967296 = (x - 2147483648 + 4294967296) mod 4294967296"
      by (rule arg_cong2 [where f = "(mod)"]) simp_all
    also have "\<dots> = (x - 2147483648) mod 4294967296" by (rule mod_add_self2)
    also have "\<dots> = x - 2147483648" using assms 3 by (intro mod_pos_pos_trivial) simp_all
    finally show ?thesis unfolding e using 3 by simp
  qed
qed

lemma sint_sum:
  fixes a b :: u32
  shows "sint (a + b) = (if sint a + sint b < - (2 ^ 31) then sint a + sint b + 2 ^ 32
      else if 2 ^ 31 \<le> sint a + sint b then sint a + sint b - 2 ^ 32 else sint a + sint b)"
    and "sint (a - b) = (if sint a - sint b < - (2 ^ 31) then sint a - sint b + 2 ^ 32
      else if 2 ^ 31 \<le> sint a - sint b then sint a - sint b - 2 ^ 32 else sint a - sint b)"
proof -
  note r = sint_range [of a, unfolded in_s32_def] sint_range [of b, unfolded in_s32_def]
  have l: "LENGTH(32) - 1 = 31" by simp
  show "sint (a + b) = (if sint a + sint b < - (2 ^ 31) then sint a + sint b + 2 ^ 32
      else if 2 ^ 31 \<le> sint a + sint b then sint a + sint b - 2 ^ 32 else sint a + sint b)"
    unfolding sint_word_add l by (rule wrap_sum) (use r in simp_all)
  show "sint (a - b) = (if sint a - sint b < - (2 ^ 31) then sint a - sint b + 2 ^ 32
      else if 2 ^ 31 \<le> sint a - sint b then sint a - sint b - 2 ^ 32 else sint a - sint b)"
    unfolding sint_word_diff l by (rule wrap_sum) (use r in simp_all)
qed

lemma AddOverflow_iff: "AddOverflow a b (a + b) \<longleftrightarrow> \<not> in_s32 (sint a + sint b)"
proof -
  have "AddOverflow a b (a + b) \<longleftrightarrow> (sint (a + b) < 0) \<noteq> (sint a < 0) \<and> (sint (a + b) < 0) \<noteq> (sint b < 0)"
    unfolding AddOverflow_def and_top_bit bit_and_iff bit_xor_iff
    unfolding sign_bit by blast
  then show ?thesis
    using sint_range [of a] sint_range [of b] unfolding sint_sum in_s32_def by (auto split: if_splits)
qed

lemma SubOverflow_iff: "SubOverflow a b (a - b) \<longleftrightarrow> \<not> in_s32 (sint a - sint b)"
proof -
  have "SubOverflow a b (a - b) \<longleftrightarrow> (sint (a - b) < 0) \<noteq> (sint a < 0) \<and> (sint a < 0) \<noteq> (sint b < 0)"
    unfolding SubOverflow_def and_top_bit bit_and_iff bit_xor_iff
    unfolding sign_bit by blast
  then show ?thesis
    using sint_range [of a] sint_range [of b] unfolding sint_sum in_s32_def by (auto split: if_splits)
qed

lemma word_sum_s32: "(a + b :: u32) = word_of_int (sint a + sint b)" "(a - b :: u32) = word_of_int (sint a - sint b)"
  by simp_all

subsection \<open>Division\<close>

lemma cdiv_parts:
  fixes n d :: int
  assumes "d \<noteq> 0"
  shows "\<bar>n - cdiv n d * d\<bar> < \<bar>d\<bar>" and "0 \<le> (n - cdiv n d * d) * n"
proof -
  have m: "\<bar>n\<bar> - (\<bar>n\<bar> div \<bar>d\<bar>) * \<bar>d\<bar> = \<bar>n\<bar> mod \<bar>d\<bar>" by (simp add: minus_div_mult_eq_mod)
  have "cdiv n d * d = sgn n * ((\<bar>n\<bar> div \<bar>d\<bar>) * \<bar>d\<bar>)"
    by (simp add: cdiv_def abs_sgn algebra_simps)
  then have e: "n - cdiv n d * d = sgn n * (\<bar>n\<bar> mod \<bar>d\<bar>)"
    unfolding m [symmetric] by (simp add: algebra_simps) (metis mult.commute mult_sgn_abs)
  have r: "0 \<le> \<bar>n\<bar> mod \<bar>d\<bar>" "\<bar>n\<bar> mod \<bar>d\<bar> < \<bar>d\<bar>" using assms by simp_all
  show "\<bar>n - cdiv n d * d\<bar> < \<bar>d\<bar>"
    unfolding e abs_mult using r by (cases "n = 0") (auto simp: sgn_if)
  have "(sgn n * (\<bar>n\<bar> mod \<bar>d\<bar>)) * n = (\<bar>n\<bar> mod \<bar>d\<bar>) * \<bar>n\<bar>" by (simp add: abs_sgn algebra_simps)
  then show "0 \<le> (n - cdiv n d * d) * n" unfolding e using r by (metis abs_ge_zero mult_nonneg_nonneg)
qed

lemma cdiv_s32:
  assumes "in_s32 n" "in_s32 d" "d \<noteq> 0" "\<not> (n = - (2 ^ 31) \<and> d = - 1)"
  shows "in_s32 (cdiv n d)"
proof -
  have q: "\<bar>cdiv n d\<bar> \<le> \<bar>n\<bar> div \<bar>d\<bar>"
    by (simp add: cdiv_def abs_mult sgn_if pos_imp_zdiv_nonneg_iff)
  have "0 < \<bar>d\<bar>" using assms(3) by simp
  then have "\<bar>n\<bar> div \<bar>d\<bar> \<le> \<bar>n\<bar>" using zdiv_mono2 [of "\<bar>n\<bar>" 1 "\<bar>d\<bar>"] by simp
  moreover have "\<bar>n\<bar> div \<bar>d\<bar> < 2 ^ 31" if "\<bar>d\<bar> \<noteq> 1" "\<bar>n\<bar> = 2 ^ 31"
  proof -
    have "2 \<le> \<bar>d\<bar>" using that(1) \<open>0 < \<bar>d\<bar>\<close> by linarith
    then have "\<bar>n\<bar> div \<bar>d\<bar> \<le> \<bar>n\<bar> div 2" by (intro zdiv_mono2) simp_all
    then show ?thesis using that(2) by simp
  qed
  moreover have "in_s32 (cdiv n d)" if "\<bar>d\<bar> = 1" "n = - (2 ^ 31)"
  proof -
    have "d = 1" using that assms(4) by linarith
    then show ?thesis using that by (simp add: cdiv_def in_s32_def)
  qed
  moreover have "\<bar>n\<bar> < 2 ^ 31" if "n \<noteq> - (2 ^ 31)"
    using assms(1) that unfolding in_s32_def by linarith
  moreover have "in_s32 (cdiv n d)" if "\<bar>n\<bar> div \<bar>d\<bar> < 2 ^ 31"
    using q that unfolding in_s32_def by linarith
  ultimately show ?thesis by fastforce
qed

lemma sint_word_of_int_s32: "in_s32 x \<Longrightarrow> sint (word_of_int x :: u32) = x"
  by (simp add: in_s32_def sint_sbintrunc' signed_take_bit_int_eq_self)

lemma word_min_s32: "(w :: u32) = 0x80000000 \<longleftrightarrow> sint w = - (2 ^ 31)"
proof -
  have "sint (0x80000000 :: u32) = - (2 ^ 31)" by simp
  then show ?thesis by (metis word_eq_iff_signed)
qed

text \<open>
  The values of \<open>lo\<close> and \<open>hi\<close> satisfy the division equation in 32 bits for every pair of
  operands, the zero divisor and the unrepresentable quotient included.
\<close>

lemma div_lo_hi_results:
  fixes num denom :: u32
  defines "lo \<equiv> fst (div_lo_hi num denom)" and "hi \<equiv> snd (div_lo_hi num denom)"
  shows "lo * denom + hi = num \<and> (if denom = 0 then hi = num
     else \<bar>sint hi\<bar> < \<bar>sint denom\<bar> \<and> 0 \<le> sint hi * sint num \<and>
       (if sint num = - (2 ^ 31) \<and> sint denom = - 1 then lo = num
        else sint lo * sint denom + sint hi = sint num))"
proof -
  consider "denom = 0" | "denom \<noteq> 0" "sint num = - (2 ^ 31) \<and> sint denom = - 1"
    | "denom \<noteq> 0" "\<not> (sint num = - (2 ^ 31) \<and> sint denom = - 1)" by blast
  then show ?thesis
  proof cases
    case 1
    then show ?thesis by (simp add: lo_def hi_def div_lo_hi_def)
  next
    case 2
    then have n: "num = 0x80000000" by (simp only: word_min_s32)
    have "denom = word_of_int (sint denom)" by simp
    then have d: "denom = - 1" using 2 by simp
    show ?thesis by (simp add: lo_def hi_def div_lo_hi_def n d)
  next
    case 3
    let ?n = "sint num" and ?d = "sint denom"
    let ?q = "cdiv ?n ?d" and ?r = "?n - cdiv ?n ?d * ?d"
    have d0: "?d \<noteq> 0" using 3(1) signed_eq_0_iff [of denom, where 'a = int] by blast
    note parts = cdiv_parts [OF d0, of ?n]
    have e: "lo = word_of_int ?q" "hi = word_of_int ?r"
      using 3(2) unfolding lo_def hi_def div_lo_hi_def word_min_s32 if_not_P [OF 3(1)] if_not_P [OF 3(2)] by simp_all
    have q: "sint lo = ?q"
      unfolding e by (rule sint_word_of_int_s32 [OF cdiv_s32 [OF sint_range sint_range d0 3(2)]])
    have "in_s32 ?r" using parts(1) sint_range [of denom] by (simp add: in_s32_def abs_if split: if_splits)
    then have r: "sint hi = ?r" unfolding e by (rule sint_word_of_int_s32)
    have "word_of_int (?q * ?d + ?r) = num" by simp
    then have "lo * denom + hi = num" unfolding e by (simp add: wi_hom_syms)
    then show ?thesis unfolding q r if_not_P [OF 3(1)] if_not_P [OF 3(2)] using parts by simp
  qed
qed

lemma divu_lo_hi_results:
  fixes num denom :: u32
  defines "lo \<equiv> fst (divu_lo_hi num denom)" and "hi \<equiv> snd (divu_lo_hi num denom)"
  shows "lo * denom + hi = num \<and> (if denom = 0 then hi = num else hi < denom)"
  unfolding lo_def hi_def divu_lo_hi_def
  by (simp add: word_mod_less_divisor word_neq_0_conv div_mult_mod_eq)

end
