(* ===== verification/CpuUnaligned.thy ===== *)
theory CpuUnaligned
  imports CpuArith
begin

text \<open>
  The unaligned loads: \<open>lwr\<close> and \<open>lwl\<close> each take part of an aligned word, and the pair,
  through the load delay slot, takes the word at an address that need not be aligned.
\<close>

subsection \<open>The parts of a word\<close>

lemma bit_lwl_value:
  assumes "sh \<le> 24"
  shows "bit (lwl_value sh x w) n \<longleftrightarrow> n < 32 \<and> (if n + sh < 24 then bit x n else bit w (n + sh - 24))"
proof -
  have m: "(0x00FFFFFF :: u32) = mask 24" by (simp add: mask_eq_exp_minus_1)
  have len: "LENGTH(32) = 32" by simp
  have h: "sh + n < 24 \<Longrightarrow> sh + n < 32" by simp
  have "bit (lwl_value sh x w) n \<longleftrightarrow>
      bit x n \<and> sh + n < 24 \<or> 24 - sh \<le> n \<and> n < 32 \<and> bit w (n - (24 - sh))"
    unfolding lwl_value_def m bit_or_iff bit_and_iff bit_drop_bit_eq comp_def bit_mask_iff bit_push_bit_iff possible_bit_word len
    using h by blast
  moreover have "24 - sh \<le> n \<longleftrightarrow> \<not> n + sh < 24" "n - (24 - sh) = n + sh - 24" "sh + n = n + sh"
    using assms by auto
  moreover have "n + sh < 24 \<Longrightarrow> n < 32" by simp
  ultimately show ?thesis by (simp only:) argo
qed

lemma bit_lwr_value:
  assumes "sh \<le> 24"
  shows "bit (lwr_value sh x w) n \<longleftrightarrow> n < 32 \<and> (if n + sh < 32 then bit w (n + sh) else bit x n)"
proof -
  have m: "bit (0xFFFFFF00 :: u32) k \<longleftrightarrow> 8 \<le> k \<and> k < 32" for k
  proof -
    have e: "(0xFFFFFF00 :: u32) = NOT (mask 8)" by (simp add: mask_eq_exp_minus_1)
    show ?thesis unfolding e bit_not_iff bit_mask_iff possible_bit_word by auto
  qed
  have "bit (lwr_value sh x w) n \<longleftrightarrow>
      (bit x n \<and> 24 - sh \<le> n \<and> n < 32 \<and> 8 \<le> n - (24 - sh)) \<or> bit w (sh + n)"
    unfolding lwr_value_def bit_or_iff bit_and_iff bit_drop_bit_eq comp_def bit_push_bit_iff m possible_bit_word
    by auto
  moreover have "24 - sh \<le> n \<and> 8 \<le> n - (24 - sh) \<longleftrightarrow> \<not> n + sh < 32" using assms by auto
  moreover have "bit w (sh + n) \<Longrightarrow> sh + n < 32" using bit_imp_le_length [of w "sh + n"] by simp
  ultimately show ?thesis by (cases "n + sh < 32") (auto simp: add.commute)
qed

lemma bit_read_word: "bit (read_word m a) n \<longleftrightarrow> n < 32 \<and> bit (m (a + word_of_nat (n div 8))) (n mod 8)"
proof (cases "n < 32")
  case True
  define q r where "q = n div 8" and "r = n mod 8"
  have n: "n = 8 * q + r" "r < 8" "q < 4" using True by (simp_all add: q_def r_def)
  then have "q = 0 \<or> q = 1 \<or> q = 2 \<or> q = 3" by arith
  then show ?thesis unfolding q_def [symmetric] r_def [symmetric] read_word_def bit_word_of_bytes
    unfolding n(1) using n(2) by (elim disjE) simp_all
qed (auto dest: bit_imp_le_length)

subsection \<open>Two aligned words and the word between them\<close>

lemma unat_and_3_mod: "unat (a AND 3 :: u32) = unat a mod 4"
proof -
  have m: "(3 :: u32) = mask 2" by (simp add: mask_eq_exp_minus_1)
  show ?thesis
    unfolding m by (simp only: flip: take_bit_eq_mask) (simp add: unsigned_take_bit_eq take_bit_eq_mod unat_mod)
qed

lemma offset_in_word:
  assumes "aligned b" and "j < 4"
  shows "byte_shift (b + word_of_nat j) = 8 * j" and "word_base (b + word_of_nat j) = b"
proof -
  have b: "unat b mod 4 = 0" using assms(1) by (simp only: unat_aligned)
  then have "(unat b + j) mod 4 = j" using assms(2) by (metis add_0 mod_add_left_eq mod_less)
  then show "byte_shift (b + word_of_nat j) = 8 * j"
    unfolding byte_shift_def unat_and_3_mod aligned_add_unat [OF assms] by simp
  show "word_base (b + word_of_nat j) = b"
    using word_base_add [of j b] b assms word_base_id [OF assms(1)] by simp
qed

lemma word_base_offset: "word_base a + word_of_nat (unat a mod 4) = a"
proof -
  have "unat (word_base a + word_of_nat (unat a mod 4)) = unat a"
    unfolding aligned_add_unat [OF aligned_word_base, of "unat a mod 4", simplified] unat_word_base by simp
  then show ?thesis by (simp only: word_unat_eq_iff)
qed

lemma lwr_then_lwl:
  "lwl_value (byte_shift (a + 3)) (lwr_value (byte_shift a) x (read_word m (word_base a)))
     (read_word m (word_base (a + 3))) = read_word m a"
proof -
  define b k where "b = word_base a" and "k = unat a mod 4"
  have b: "aligned b" and k: "k < 4" by (simp_all add: b_def k_def aligned_word_base)
  have a: "a = b + word_of_nat k" using word_base_offset [of a] by (simp add: b_def k_def)
  show ?thesis
  proof (cases "k = 0")
    case True
    have "byte_shift (a + 3) = 24" "word_base (a + 3) = b"
      using offset_in_word [OF b, of 3] by (simp_all add: a True)
    then show ?thesis by (intro bit_word_eqI) (simp add: bit_lwl_value a True)
  next
    case False
    then have three: "a + 3 = (b + 4) + word_of_nat (k - 1)" using k by (simp add: a of_nat_diff)
    have b4: "aligned (b + 4)" using aligned_add_words [OF b, of 1] by simp
    have k1: "k - 1 < 4" and sh: "8 * (k - 1) \<le> 24" "8 * k \<le> 24" using k by simp_all
    show ?thesis
    proof (rule bit_word_eqI)
      fix n assume "n < LENGTH(32)"
      then have n: "n < 32" by simp
      have q: "(n + 8 * k) div 8 = n div 8 + k" "(n + 8 * k) mod 8 = n mod 8" by simp_all
      have c: "n + 8 * (k - 1) < 24 \<longleftrightarrow> n + 8 * k < 32" using False by auto
      have hi: "(n + 8 * k - 32) div 8 = n div 8 + k - 4 \<and> (n + 8 * k - 32) mod 8 = n mod 8 \<and>
          4 \<le> n div 8 + k \<and> n + 8 * (k - 1) - 24 = n + 8 * k - 32 \<and> n + 8 * k - 32 < 32"
        if "\<not> n + 8 * k < 32"
      proof -
        define q r where "q = n div 8" and "r = n mod 8"
        have nq: "n = 8 * q + r" "r < 8" by (simp_all add: q_def r_def)
        then have "4 \<le> q + k" using that by linarith
        then obtain j where j: "q + k = 4 + j" using le_Suc_ex by blast
        have e: "n + 8 * k - 32 = 8 * j + r" using nq j by linarith
        show ?thesis
          unfolding e q_def [symmetric] r_def [symmetric] j using nq j k n False e by auto
      qed
      show "bit (lwl_value (byte_shift (a + 3)) (lwr_value (byte_shift a) x (read_word m (word_base a)))
          (read_word m (word_base (a + 3)))) n = bit (read_word m a) n"
      proof (cases "n + 8 * k < 32")
        case True
        then show ?thesis
          unfolding three offset_in_word [OF b4 k1] unfolding a offset_in_word [OF b k]
          unfolding bit_lwl_value [OF sh(1)] bit_lwr_value [OF sh(2)] c bit_read_word q
          using n by (simp add: ac_simps)
      next
        case False
        then show ?thesis
          unfolding three offset_in_word [OF b4 k1] unfolding a offset_in_word [OF b k]
          unfolding bit_lwl_value [OF sh(1)] c bit_read_word
          using n hi [OF False] by (simp add: of_nat_diff ac_simps)
      qed
    qed
  qed
qed

subsection \<open>The pair of instructions\<close>

lemma bit_ram_offset:
  "ram_ok s \<Longrightarrow> bit (ram_offset va s) n \<longleftrightarrow> n < ram_bits (g_ram_mask s) \<and> bit va n"
  using ram_bits_cases [of "g_ram_mask s"]
  by (auto simp only: ram_offset_def VirtualAddressToPhysical_def bit_and_iff phys_mask_bits ram_mask_bits)

lemma ram_offset_take_bit: "ram_ok s \<Longrightarrow> ram_offset va s = take_bit (ram_bits (g_ram_mask s)) va"
  by (rule bit_word_eqI) (simp add: bit_ram_offset bit_take_bit_iff)

lemma ram_offset_add:
  assumes ok: "ram_ok s" and n: "unat (ram_offset va s) + j < 2 ^ ram_bits (g_ram_mask s)"
  shows "ram_offset (va + word_of_nat j) s = ram_offset va s + word_of_nat j"
proof -
  let ?b = "ram_bits (g_ram_mask s)"
  have b: "?b \<le> 32" using ram_bits_cases [of "g_ram_mask s"] by auto
  then have "unat (ram_offset va s) + j < 2 ^ 32"
    using n power_increasing [OF b, of "2 :: nat"] by linarith
  then have u: "unat (ram_offset va s + word_of_nat j) = unat (ram_offset va s) + j"
    by (simp add: unat_word_ariths unat_of_nat)
  have d: "(2 :: nat) ^ ?b dvd 2 ^ 32" using b by (rule le_imp_power_dvd)
  have o: "unat (ram_offset x s) = unat x mod 2 ^ ?b" for x
    unfolding ram_offset_take_bit [OF ok] unsigned_take_bit_eq by (rule take_bit_eq_mod)
  have "unat (va + word_of_nat j) = (unat va + j) mod 2 ^ 32"
    by (simp add: unat_word_ariths unat_of_nat mod_add_right_eq)
  then have "unat (ram_offset (va + word_of_nat j) s) = (unat va + j) mod 2 ^ ?b"
    unfolding o by (simp only: mod_mod_cancel [OF d])
  also have "\<dots> = (unat va mod 2 ^ ?b + j) mod 2 ^ ?b" by (rule mod_add_left_eq [symmetric])
  also have "\<dots> = unat (ram_offset va s) + j" using n unfolding o by simp
  finally show ?thesis using u by (simp only: word_unat_eq_iff)
qed

lemma ram_offset_low_bits:
  assumes "ram_ok s"
  shows "byte_shift (ram_offset va s) = byte_shift va" and "ram_offset (word_base va) s = word_base (ram_offset va s)"
proof -
  have m: "(3 :: u32) = mask 2" by (simp add: mask_eq_exp_minus_1)
  have "ram_offset va s AND 3 = va AND 3"
    using ram_bits_cases [of "g_ram_mask s"] unfolding m
    by (intro bit_word_eqI) (auto simp: bit_and_iff bit_ram_offset [OF assms] bit_mask_iff)
  then show "byte_shift (ram_offset va s) = byte_shift va" by (simp add: byte_shift_def)
  show "ram_offset (word_base va) s = word_base (ram_offset va s)"
    by (rule bit_word_eqI) (auto simp: bit_ram_offset [OF assms] bit_word_base)
qed

lemma ram_address_word_base: "ram_address va \<Longrightarrow> ram_address (word_base va)"
proof -
  have top: "drop_bit 29 (word_base va) = drop_bit 29 va"
    by (rule bit_word_eqI) (auto simp: bit_drop_bit_eq bit_word_base)
  have "VirtualAddressToPhysical (word_base va) = VirtualAddressToPhysical va AND NOT 3"
    by (simp add: VirtualAddressToPhysical_def word_base_def ac_simps)
  also have "\<dots> \<le> VirtualAddressToPhysical va" by (rule word_and_le2)
  finally show "ram_address va \<Longrightarrow> ram_address (word_base va)"
    unfolding ram_address_def top by auto
qed

lemma ReadMemory_ram_word:
  assumes "ram_ok s" and "ram_address va"
  shows "ReadMemory env AccWord (va AND NOT 3) s =
    (Some (read_word (g_ram s) (word_base (ram_offset va s))), AddPendingTicks 6 s)"
proof -
  have "size_aligned AccWord (word_base va)" by (simp only: size_aligned_bits aligned_word_base)
  then have "ReadMemory env AccWord (word_base va) s =
      (Some (read_word (g_ram s) (ram_offset (word_base va) s)), AddPendingTicks 6 s)"
    by (simp add: ReadMemory_def DoAlignmentCheck_def load_ram [OF ram_address_word_base [OF assms(2)]] del: size_aligned.simps)
  then show ?thesis unfolding word_base_def [of va, symmetric] ram_offset_low_bits(2) [OF assms(1)] .
qed

lemma exec_load_unaligned_ram:
  assumes "ram_ok s" and "ram_address (effective_address w s)"
  shows "exec_load_unaligned env False w s =
    (let va = effective_address w s; t = AddPendingTicks 6 s;
         x = (if inst_rt w = load_delay_reg s then load_delay_value s else rt_val w s);
         v = read_word (g_ram s) (word_base (ram_offset va s))
     in WriteRegDelayed (inst_rt w)
          (if inst_op w = Op_lwl then lwl_value (byte_shift va) x v else lwr_value (byte_shift va) x v) t)"
  unfolding exec_load_unaligned_def Let_def data_break_def if_False ReadMemory_ram_word [OF assms]
  by (simp add: AddPendingTicks_def ReadReg_def)

end
