(* ===== verification/CpuTraps.thy ===== *)
theory CpuTraps
  imports CpuArith
begin

text \<open>
  Exceptions: the registers of coprocessor 0 in the handler and after its \<open>rfe\<close>, what a fetch
  leaves behind, and the instructions that the classification of \<open>cpu_types.cpp\<close> takes to be
  unable to trap.
\<close>

subsection \<open>Instructions that do not trap\<close>

lemma cop0_view_writes [simp]:
  "cop0_view (WriteReg r v s) = cop0_view s" "cop0_view (set_reg r v s) = cop0_view s"
  "cop0_view (delay_slot_next s) = cop0_view s"
  by (simp_all add: cop0_view_def WriteReg_def set_reg_def delay_slot_next_def)

lemma cop0_view_Branch: "aligned target \<Longrightarrow> cop0_view (Branch target s) = cop0_view s"
  by (simp add: Branch_def IsAlignedPow2_def cop0_view_def set_reg_def)

lemma aligned_branch_target: "aligned a \<Longrightarrow> aligned (a + push_bit 2 x)"
proof -
  have "push_bit 2 x = word_of_nat (4 * unat x)" by (simp add: push_bit_eq_mult)
  then show "aligned a \<Longrightarrow> aligned (a + push_bit 2 x)" using aligned_add_words [of a "unat x"] by simp
qed

lemma aligned_jump_target: "aligned ((a AND 0xF0000000) OR push_bit 2 x)"
  unfolding aligned_bits bit_or_iff bit_and_iff bit_push_bit_iff by simp

lemma pc_of_writes:
  "r \<noteq> reg_pc \<Longrightarrow> pc_of (WriteReg r v s) = pc_of s" "pc_of (delay_slot_next s) = pc_of s"
  by (simp_all add: WriteReg_def delay_slot_next_def nth_list_update)

lemma cop0_view_alu:
  "cop0_view (exec_shift w s) = cop0_view s" "cop0_view (exec_logic w s) = cop0_view s"
  "cop0_view (exec_addu w s) = cop0_view s" "cop0_view (exec_subu w s) = cop0_view s"
  "cop0_view (exec_compare w s) = cop0_view s" "cop0_view (exec_imm w s) = cop0_view s"
  "cop0_view (exec_mult w s) = cop0_view s" "cop0_view (exec_div w s) = cop0_view s"
  by (simp_all add: exec_shift_def exec_logic_def exec_addu_def exec_subu_def exec_compare_def exec_imm_def
      exec_mult_def exec_div_def set_hilo_def case_prod_beta Let_def)

lemma cop0_view_hilo: "cop0_view (exec_hilo w s) = cop0_view s"
  by (cases "inst_funct w") (simp_all add: exec_hilo_def)

lemma cop0_view_branches:
  assumes "aligned (pc_of s)"
  shows "cop0_view (exec_jump w s) = cop0_view s" "cop0_view (exec_branch w s) = cop0_view s"
    "cop0_view (exec_b w s) = cop0_view s"
proof -
  have b: "cop0_view (branch_if c w t) = cop0_view t" if "aligned (pc_of t)" for c t
    using that by (simp add: branch_if_def cop0_view_Branch aligned_branch_target)
  show "cop0_view (exec_jump w s) = cop0_view s"
    by (simp add: exec_jump_def Let_def cop0_view_Branch aligned_jump_target)
  show "cop0_view (exec_branch w s) = cop0_view s"
    using assms by (simp add: exec_branch_def b pc_of_writes)
  show "cop0_view (exec_b w s) = cop0_view s"
    using assms by (simp add: exec_b_def Let_def b pc_of_writes)
qed

lemma untrapping_funct:
  assumes "inst_op w = Op_funct" and "\<not> CanInstructionTrap w user"
  shows "cop0_view (exec_funct w s) = cop0_view s"
  using assms by (cases "inst_funct w") (simp_all add: CanInstructionTrap_def exec_funct_def cop0_view_alu cop0_view_hilo)

lemma untrapping_instruction:
  assumes "\<not> CanInstructionTrap (current_instruction s) user" and "aligned (pc_of s)"
    and "inst_op (current_instruction s) \<notin> {Op_cop0, Op_cop2, Op_lwc2, Op_swc2}"
  shows "cop0_view (ExecuteInstruction env dbg s) = cop0_view s"
proof -
  have two: "(2 :: nat) = Suc (Suc 0)" by simp
  show ?thesis
  proof (cases "current_instruction s = 0")
    case False
    then show ?thesis
      using assms
      unfolding ExecuteInstruction_def two execute_from.simps(2) [of "Suc 0"] Let_def if_not_P [OF False]
      by (cases "inst_op (current_instruction s)")
        (simp_all add: untrapping_funct cop0_view_alu cop0_view_branches CanInstructionTrap_def)
  qed (simp add: ExecuteInstruction_def two execute_from.simps)
qed

subsection \<open>The restart of an instruction\<close>

lemma SafeReadInstruction_current [simp]:
  "SafeReadInstruction a (s\<lparr>current_instruction := w\<rparr>) = SafeReadInstruction a s"
  by (simp add: SafeReadInstruction_def DoInstructionRead_def Let_def)

lemma execute_from_unchanged:
  "SafeReadInstruction (current_instruction_pc s) s = Some (current_instruction s) \<Longrightarrow>
    execute_from (Suc n) env dbg s = execute_from (Suc m) env dbg s"
  unfolding execute_from.simps Let_def by (simp only: option.case not_True_eq_False simp_thms if_False)

text \<open>Two levels are enough: after the restart the word is the one in memory.\<close>

lemma execute_from_fuel: "execute_from (Suc (Suc n)) env dbg s = ExecuteInstruction env dbg s"
proof -
  have two: "(2 :: nat) = Suc (Suc 0)" by simp
  have "execute_from (Suc n) env dbg (s\<lparr>current_instruction := w\<rparr>) = execute_from (Suc 0) env dbg (s\<lparr>current_instruction := w\<rparr>)"
    if "SafeReadInstruction (current_instruction_pc s) s = Some w" for w
    by (rule execute_from_unchanged) (simp add: that)
  then have "(case SafeReadInstruction (current_instruction_pc s) s of
        None \<Rightarrow> r | Some w \<Rightarrow> if w \<noteq> c then execute_from (Suc n) env dbg (s\<lparr>current_instruction := w\<rparr>) else r)
    = (case SafeReadInstruction (current_instruction_pc s) s of
        None \<Rightarrow> r | Some w \<Rightarrow> if w \<noteq> c then execute_from (Suc 0) env dbg (s\<lparr>current_instruction := w\<rparr>) else r)" for r c
    by (cases "SafeReadInstruction (current_instruction_pc s) s") simp_all
  then show ?thesis
    unfolding ExecuteInstruction_def two execute_from.simps(2) [of "Suc n"] execute_from.simps(2) [of "Suc 0"] Let_def
    by (simp only:)
qed

subsection \<open>Entering and leaving a handler\<close>

lemma bit_EXCEPTION_WRITE_MASK: "bit EXCEPTION_WRITE_MASK n \<longleftrightarrow> 2 \<le> n \<and> n < 7 \<or> 28 \<le> n \<and> n < 32"
proof -
  have e: "EXCEPTION_WRITE_MASK = push_bit 2 (mask 5) OR push_bit 28 (mask 4)"
    by (simp add: EXCEPTION_WRITE_MASK_def push_bit_eq_mult mask_eq_exp_minus_1)
  show ?thesis
    unfolding e bit_or_iff bit_push_bit_iff bit_mask_iff possible_bit_word by auto
qed

lemma Excode_entry: "bf_get 2 5 (masked_write EXCEPTION_WRITE_MASK old new) = bf_get 2 5 new"
  by (rule bit_word_eqI) (auto simp: bit_bf_get bit_masked_write bit_EXCEPTION_WRITE_MASK)

lemma BD_entry: "cause_BD (masked_write EXCEPTION_WRITE_MASK old new) = cause_BD new"
  by (simp add: bit_masked_write bit_EXCEPTION_WRITE_MASK)

lemma BD_MakeValueForException: "cause_BD (MakeValueForException x BD BT CE) = BD"
  by (simp add: MakeValueForException_def bit_bf_set bit_simps)

lemma exception_entry_fields:
  "bf_get 2 5 (cause (exception_entry c epc pc c0)) = bf_get 2 5 c"
  "EPC (exception_entry c epc pc c0) = (if cause_BD c then epc - 4 else epc)"
  "sr (exception_entry c epc pc c0) = bf_set 0 6 (push_bit 2 (bf_get 0 6 (sr c0))) (sr c0)"
  by (simp_all add: exception_entry_def Let_def BD_entry Excode_entry)

lemma bit_sr_entry:
  "bit (bf_set 0 6 (push_bit 2 (bf_get 0 6 (w :: u32))) w) n \<longleftrightarrow> (if n < 6 then 2 \<le> n \<and> bit w (n - 2) else bit w n)"
  by (auto simp: bit_bf_set bit_bf_get bit_push_bit_iff dest: bit_imp_le_length)

lemma bit_sr_rfe:
  "bit (bf_set 0 6 ((bf_get 0 6 w AND 0x30) OR drop_bit 2 (bf_get 0 6 w)) (w :: u32)) n \<longleftrightarrow>
     (if n < 4 then bit w (n + 2) else bit w n)"
proof -
  have m: "(0x30 :: u32) = push_bit 4 (mask 2)" by (simp add: push_bit_eq_mult mask_eq_exp_minus_1)
  show ?thesis
    unfolding m bit_bf_set bit_or_iff bit_and_iff bit_drop_bit_eq comp_def bit_push_bit_iff bit_mask_iff bit_bf_get possible_bit_word
    by (auto simp: add.commute dest: bit_imp_le_length)
qed

lemma sr_exec_rfe:
  "sr (cop0_regs (exec_rfe s)) = bf_set 0 6 ((bf_get 0 6 (sr (cop0_regs s)) AND 0x30) OR drop_bit 2 (bf_get 0 6 (sr (cop0_regs s)))) (sr (cop0_regs s))"
  by (simp add: exec_rfe_def CheckForPendingInterrupt_def Let_def)

text \<open>After \<open>rfe\<close> the mode bits are those before the exception, except the oldest pair.\<close>

lemma bit_sr_round_trip:
  assumes "sr (cop0_regs t) = sr (exception_entry c epc pc (cop0_regs s))"
  shows "bit (sr (cop0_regs (exec_rfe t))) n = bit (sr (cop0_regs s)) (if n = 4 \<or> n = 5 then n - 2 else n)"
proof -
  consider "n < 4" | "n = 4" | "n = 5" | "6 \<le> n" by linarith
  then show ?thesis
    unfolding sr_exec_rfe bit_sr_rfe assms exception_entry_fields bit_sr_entry by cases simp_all
qed

subsection \<open>What a fetch leaves\<close>

lemma fetch_result:
  assumes inv: "cpu_inv s" and t: "t = snd (FetchInstruction s)"
  shows "if fst (FetchInstruction s) then pc_of t = npc_of s \<and> npc_of t = npc_of s + 4
    else pc_of t = GetExceptionVector False s \<and> npc_of t = GetExceptionVector False s + 4 \<and> exception_raised t"
proof -
  let ?a = "npc_of s" and ?top = "drop_bit 29 (npc_of s)"
  define r where "r = DoInstructionRead True False 1 ?a 0 (\<lambda>_. 0) s"
  define f where "f = (if CompareICacheTag ?a s then (ReadICache ?a s, s) else FillICache ?a s)"
  have len: "length (regs s) = 36" using inv by (simp add: cpu_inv_def)
  have i: "cpu_inv (snd (snd r))"
    unfolding r_def by (rule iffD2 [OF cpu_inv_view [OF DoInstructionRead_view] inv])
  have r': "regs (snd (snd r)) = regs s" "GetExceptionVector False (snd (snd r)) = GetExceptionVector False s"
    using cop0_view_DoInstructionRead [of True False 1 ?a 0 "\<lambda>_. 0" s]
      DoInstructionRead_view [of True False 1 ?a 0 "\<lambda>_. 0" s]
    by (auto simp: r_def cpu_view_def cop0_view_def GetExceptionVector_def)
  have adv: "pc_of (advance_pc u) = ?a \<and> npc_of (advance_pc u) = ?a + 4" if "regs u = regs s" for u
    using regs_advance_pc [of u] that len by simp
  have failed: "pc_of u = GetExceptionVector False s \<and> npc_of u = GetExceptionVector False s + 4 \<and> exception_raised u"
    if "u = raise_to (fetch_at (Suc 0)) c e (GetExceptionVector False v) v" "cpu_inv v"
      "GetExceptionVector False v = GetExceptionVector False s" for u c e v
    using raise_to_pc [OF that(2) vectors, of _ c e False v] raise_to_cop0(2) [OF that(2) vectors, of _ c e False v] that(1,3) by simp
  consider "?top = 0 \<or> ?top = 4" | "?top = 5" | "?top \<noteq> 0 \<and> ?top \<noteq> 4 \<and> ?top \<noteq> 5" by blast
  then show ?thesis
  proof cases
    case 1
    have "FetchInstruction s = (True, advance_pc (snd f\<lparr>next_instruction := fst f\<rparr>))"
      unfolding fetch_2 f_def using 1 by (simp only: fetch_at.simps Let_def case_prod_beta simp_thms if_True)
    moreover have "regs (snd f) = regs s" by (simp add: f_def FillICache_regs)
    ultimately show ?thesis unfolding t using adv [of "snd f\<lparr>next_instruction := fst f\<rparr>"] by simp
  next
    case 2
    have n: "(5 :: u32) \<noteq> 0" "(5 :: u32) \<noteq> 4" by simp_all
    have "FetchInstruction s = (if fst r then (True, advance_pc (snd (snd r)\<lparr>next_instruction := read_word (fst (snd r)) 0\<rparr>))
        else (False, raise_to (fetch_at (Suc 0)) (VirtualAddressToPhysical ?a) (MakeValueForException Exc_IBE False False 0)
           (GetExceptionVector False (snd (snd r))) (snd (snd r))\<lparr>next_instruction := 0\<rparr>))"
      unfolding fetch_2 r_def by (simp only: fetch_at.simps Let_def 2 case_prod_beta n simp_thms if_True if_False)
    then show ?thesis
      unfolding t using adv [of "snd (snd r)\<lparr>next_instruction := read_word (fst (snd r)) 0\<rparr>"] r'(1) failed [OF refl i r'(2)] by simp
  next
    case 3
    then have "FetchInstruction s = (False, raise_to (fetch_at (Suc 0))
        (MakeValueForException Exc_IBE (current_instruction_in_branch_delay_slot s) (current_instruction_was_branch_taken s) 0)
        ?a (GetExceptionVector False s) s)"
      unfolding fetch_2 by (simp only: fetch_at.simps Let_def case_prod_beta simp_thms if_False)
    then show ?thesis unfolding t using failed [OF refl inv refl] by simp
  qed
qed

text \<open>A fetch from KSEG1 that the bus does not answer.\<close>

lemma uncached_bus_error:
  assumes inv: "cpu_inv s" and top: "drop_bit 29 (npc_of s) = 5"
    and bus: "\<not> p < RAM_MIRROR_END" "\<not> (BIOS_BASE \<le> p \<and> p < BIOS_END)" and p: "p = VirtualAddressToPhysical (npc_of s)"
    and t: "FetchInstruction s = (ok, t)"
  shows "\<not> ok" and "next_instruction t = 0" and "cop0_regs t = exception_entry p 0x18 (pc_of s) (cop0_regs s)"
proof -
  have v: "MakeValueForException Exc_IBE False False 0 = 0x18" by code_simp
  have n: "(5 :: u32) \<noteq> 0" "(5 :: u32) \<noteq> 4" by simp_all
  have r: "DoInstructionRead True False 1 (npc_of s) 0 (\<lambda>_. 0) s = (False, copy_words (\<lambda>_. 0) 0 1 0 (\<lambda>_. 0), s)"
    using bus unfolding p VirtualAddressToPhysical_def by (simp add: DoInstructionRead_def Let_def)
  have e: "FetchInstruction s = (False, raise_to (fetch_at (Suc 0)) p 0x18 (GetExceptionVector False s) s\<lparr>next_instruction := 0\<rparr>)"
    unfolding fetch_2 by (simp only: fetch_at.simps Let_def top case_prod_beta n simp_thms if_True if_False r fst_conv snd_conv v p)
  show "\<not> ok" "next_instruction t = 0" "cop0_regs t = exception_entry p 0x18 (pc_of s) (cop0_regs s)"
    using t raise_to_cop0(1) [OF inv vectors, of 0 p "0x18" False s] unfolding e by auto
qed

end
