(* ===== verification/CpuClaims.thy ===== *)
theory CpuClaims
  imports CpuUnaligned CpuTraps Boot
begin

text \<open>
  Properties of the CPU: the trapping arithmetic, the division, the unaligned loads, the
  instructions that cannot trap, the entry into and the return from an exception handler, the
  recursion of the fetch, and the fetch through a bus error.
\<close>

subsection \<open>Arithmetic\<close>

text \<open>
  \<open>add\<close>, \<open>sub\<close> and \<open>addi\<close> raise the overflow exception exactly when the exact
  result is not a signed 32-bit number, and otherwise write the exact result.
\<close>

theorem overflow_traps:
  fixes s :: "'a bus_state_scheme"
  shows "exec_add w s = (if in_s32 (sint (rs_val w s) + sint (rt_val w s))
           then write_rd w (word_of_int (sint (rs_val w s) + sint (rt_val w s))) s else RaiseException Exc_Ov s) \<and>
    exec_sub w s = (if in_s32 (sint (rs_val w s) - sint (rt_val w s))
           then write_rd w (word_of_int (sint (rs_val w s) - sint (rt_val w s))) s else RaiseException Exc_Ov s) \<and>
    exec_addi w s = (if in_s32 (sint (rs_val w s) + sint (imm_sext32 w))
           then write_rt w (word_of_int (sint (rs_val w s) + sint (imm_sext32 w))) s else RaiseException Exc_Ov s)"
  unfolding exec_add_def exec_sub_def exec_addi_def Let_def AddOverflow_iff SubOverflow_iff
  by (simp only: word_sum_s32 if_not_P if_distrib split: if_splits) simp

text \<open>
  C31: for every dividend and divisor, zero and the unrepresentable quotient included, the
  registers after \<open>div\<close> and \<open>divu\<close> satisfy \<open>lo * divisor + hi = dividend\<close> in 32 bits. Unless the
  divisor is zero the remainder in \<open>hi\<close> is smaller than the divisor and, for \<open>div\<close>, has the sign
  of the dividend, and the equation holds of the signed numbers unless the quotient is \<open>2^31\<close>.
\<close>

theorem division_results:
  fixes s :: "'a bus_state_scheme"
  assumes "length (regs s) = 36" and "inst_funct w = Fn_div \<or> inst_funct w = Fn_divu"
    and "t = exec_div w s" and "lo = regs t ! reg_lo" and "hi = regs t ! reg_hi"
    and "num = rs_val w s" and "denom = rt_val w s"
  shows "lo * denom + hi = num \<and>
    (if denom = 0 then hi = num
     else if inst_funct w = Fn_divu then hi < denom
     else \<bar>sint hi\<bar> < \<bar>sint denom\<bar> \<and> 0 \<le> sint hi * sint num \<and>
       (if sint num = - (2 ^ 31) \<and> sint denom = - 1 then lo = num
        else sint lo * sint denom + sint hi = sint num))"
proof -
  define lh where "lh = (if inst_funct w = Fn_div then div_lo_hi num denom else divu_lo_hi num denom)"
  have t: "lo = fst lh" "hi = snd lh"
    using assms by (simp_all add: exec_div_def lh_def case_prod_beta set_reg_def)
  show ?thesis
  proof (cases "inst_funct w = Fn_div")
    case True
    have "inst_funct w \<noteq> Fn_divu" unfolding True by simp
    then show ?thesis unfolding t lh_def if_P [OF True] if_not_P [OF \<open>inst_funct w \<noteq> Fn_divu\<close>]
      by (intro div_lo_hi_results)
  next
    case False
    then have f: "inst_funct w = Fn_divu" using assms(2) by blast
    show ?thesis unfolding t lh_def if_not_P [OF False] if_P [OF f] by (rule divu_lo_hi_results)
  qed
qed

theorem division_results_witness:
  "let s = bus_boot\<lparr>regs := (replicate 36 0)[1 := 0x80000000, 2 := 0xFFFFFFFF]\<rparr>; t = exec_div 0x0022001A s
   in sint (regs t ! reg_hi) = 0 \<and> regs t ! reg_lo = 0x80000000"
proof -
  define s where "s = bus_boot\<lparr>regs := (replicate 36 0)[1 := 0x80000000, 2 := 0xFFFFFFFF]\<rparr>"
  have i: "inst_rs 0x0022001A = 1" "inst_rt 0x0022001A = 2" "inst_funct 0x0022001A = Fn_div" by code_simp+
  then have v: "rs_val 0x0022001A s = 0x80000000" "rt_val 0x0022001A s = 0xFFFFFFFF" "length (regs s) = 36"
    by (simp_all add: ReadReg_def s_def)
  show ?thesis
    using division_results [OF v(3) disjI1 [OF i(3)] refl refl refl refl refl] unfolding i(3) v Let_def s_def [symmetric] by simp
qed

subsection \<open>Unaligned loads\<close>

text \<open>
  C16: \<open>lwr rt, i(rs)\<close> followed by \<open>lwl rt, i+3(rs)\<close> loads the word at an address of RAM that
  need not be aligned, through any mirror: the second instruction sees the value that the first
  has left in the load delay slot, and two instructions later the word is in \<open>rt\<close>.
\<close>

theorem unaligned_word_loaded:
  fixes s :: "'a bus_state_scheme"
  assumes ops: "inst_op w1 = Op_lwr" "inst_op w2 = Op_lwl" "inst_rs w2 = inst_rs w1" "inst_rt w2 = inst_rt w1"
      "imm_sext32 w2 = imm_sext32 w1 + 3" "inst_rt w1 \<noteq> 0"
    and inv: "cpu_inv s" "ram_ok s" "load_delay_reg s \<noteq> inst_rs w1"
    and va: "va = effective_address w1 s" "ram_address va" "ram_address (va + 3)"
      "unat (ram_offset va s) + 3 < 2 ^ ram_bits (g_ram_mask s)"
    and t: "t = exec_load_unaligned env False w2 (UpdateLoadDelay (exec_load_unaligned env False w1 s))"
  shows "next_load_delay_reg t = inst_rt w1 \<and> next_load_delay_value t = read_word (g_ram s) (ram_offset va s) \<and>
    ReadReg (inst_rt w1) (UpdateLoadDelay (UpdateLoadDelay t)) = read_word (g_ram s) (ram_offset va s)"
proof -
  define x where "x = (if inst_rt w1 = load_delay_reg s then load_delay_value s else rt_val w1 s)"
  define v where "v = lwr_value (byte_shift va) x (read_word (g_ram s) (word_base (ram_offset va s)))"
  define u where "u = UpdateLoadDelay (exec_load_unaligned env False w1 s)"
  have "exec_load_unaligned env False w1 s = WriteRegDelayed (inst_rt w1) v (AddPendingTicks 6 s)"
    using va exec_load_unaligned_ram [OF inv(2), of w1 env] by (simp add: Let_def ops x_def v_def)
  then have u: "load_delay_reg u = inst_rt w1" "load_delay_value u = v" "g_ram u = g_ram s" "g_ram_mask u = g_ram_mask s"
    "ReadReg (inst_rs w1) u = ReadReg (inst_rs w1) s" "length (regs u) = 36" "next_load_delay_reg u = reg_count"
    using inv ops(6)
    by (auto simp: u_def WriteRegDelayed_def UpdateLoadDelay_def AddPendingTicks_def ReadReg_def cpu_inv_def Let_def)
  have ok: "ram_ok u" using inv(2) u by (simp add: ram_ok_def)
  have ea: "effective_address w2 u = va + 3"
    using va(1) by (simp add: effective_address_def ops u ac_simps)
  have off: "ram_offset (va + 3) u = ram_offset va s + 3"
    using ram_offset_add [OF inv(2) va(4)] by (simp add: ram_offset_def u)
  have val: "lwl_value (byte_shift (va + 3)) v (read_word (g_ram s) (word_base (ram_offset va s + 3)))
      = read_word (g_ram s) (ram_offset va s)"
    using lwr_then_lwl [of "ram_offset va s" x "g_ram s"] ram_offset_low_bits(1) [OF inv(2), of va]
      ram_offset_low_bits(1) [OF ok, of "va + 3"] by (simp add: v_def off)
  have "t = WriteRegDelayed (inst_rt w1) (read_word (g_ram s) (ram_offset va s)) (AddPendingTicks 6 u)"
    using exec_load_unaligned_ram [OF ok, of w2 env, unfolded ea, OF va(3)] val
    by (simp add: t u_def [symmetric] ops u off Let_def)
  moreover have "inst_rt w1 < 36" "inst_rt w1 \<noteq> 36" using inst_reg_less(2) [of w1] by linarith+
  ultimately show ?thesis
    using u ops(6)
    by (auto simp: WriteRegDelayed_def UpdateLoadDelay_def AddPendingTicks_def ReadReg_def Let_def)
qed

definition unaligned_boot :: bus_state where
  "unaligned_boot = bus_boot\<lparr>regs := (replicate 36 0)[1 := 0x80000101], g_ram := (\<lambda>a. ucast a)\<rparr>"

theorem unaligned_word_loaded_witness:
  "let t = exec_load_unaligned (console 0) False 0x88220003 (UpdateLoadDelay
        (exec_load_unaligned (console 0) False 0x98220000 unaligned_boot))
   in next_load_delay_value t = 0x04030201"
proof -
  let ?w1 = "0x98220000 :: u32" and ?w2 = "0x88220003 :: u32"
  have i: "inst_op ?w1 = Op_lwr" "inst_op ?w2 = Op_lwl" "inst_rs ?w2 = inst_rs ?w1" "inst_rt ?w2 = inst_rt ?w1"
    "imm_sext32 ?w2 = imm_sext32 ?w1 + 3" "inst_rt ?w1 \<noteq> 0" "inst_rs ?w1 = 1" "imm_sext32 ?w1 = 0"
    by code_simp+
  have s: "cpu_inv unaligned_boot" "ram_ok unaligned_boot" "load_delay_reg unaligned_boot \<noteq> inst_rs ?w1"
    using machine_inv_boot by (simp_all add: machine_inv_def cpu_inv_def ram_ok_def unaligned_boot_def i bus_boot_fields)
  have a: "effective_address ?w1 unaligned_boot = 0x80000101" "ram_offset 0x80000101 unaligned_boot = 0x101"
    "ram_bits (g_ram_mask unaligned_boot) = 21"
    by (simp_all add: effective_address_def i ReadReg_def unaligned_boot_def ram_offset_def VirtualAddressToPhysical_def
        bus_boot_fields ram_bits_def)
  have r: "ram_address 0x80000101" "ram_address (0x80000101 + 3)"
    by (simp_all add: ram_address_def VirtualAddressToPhysical_def drop_bit_eq_div)
  have "read_word (g_ram unaligned_boot) 0x101 = 0x04030201"
    by (simp add: unaligned_boot_def read_word_def word_of_bytes_def push_bit_eq_mult)
  then show ?thesis
    using unaligned_word_loaded [OF i(1-6) s a(1) [symmetric] r, unfolded a, OF _ refl]
    by (simp add: Let_def)
qed

subsection \<open>Exceptions\<close>



text \<open>
  The coprocessor instructions are the exception: without the coprocessor enable they raise an
  exception in kernel mode too, which \<open>CanInstructionTrap\<close> does not announce.
\<close>

lemma disabled_gte_traps_in_kernel_mode:
  assumes inv: "cpu_inv s" and op: "inst_op (current_instruction s) = Op_cop2" and ce2: "\<not> sr_CE2 (sr (cop0_regs s))"
    and user: "\<not> InUserMode s"
  shows "\<not> CanInstructionTrap (current_instruction s) (InUserMode s) \<and> exception_raised (ExecuteInstruction env dbg s)"
proof -
  have "current_instruction s \<noteq> 0" using op by (auto simp: inst_op_def bf_get_def lookup_or_def op_table_def)
  then have "ExecuteInstruction env dbg s = RaiseException Exc_CpU s"
    using op ce2 by (simp add: ExecuteInstruction_def numeral_2_eq_2 execute_from.simps Let_def exec_cop2_def)
  moreover have "exception_raised (RaiseException Exc_CpU s)"
    unfolding RaiseException_def by (rule RaiseException_from_entry(2) [OF inv])
  ultimately show ?thesis using op user by (simp add: CanInstructionTrap_def)
qed

text \<open>
  C5: an exception enters the handler at the vector, in kernel mode with interrupts disabled,
  with its code in \<open>CAUSE\<close> and the address of the instruction, or of the branch before it, in
  \<open>EPC\<close>; the handler's \<open>rfe\<close> then restores the mode and the interrupt enable of the interrupted
  program and the pair before it, and leaves every other bit of \<open>SR\<close> alone.
\<close>

theorem exception_then_rfe:
  fixes s :: "'a bus_state_scheme"
  assumes "cpu_inv s" and "t = RaiseException x s"
  shows "\<not> InUserMode t \<and> \<not> sr_IEc (sr (cop0_regs t)) \<and> exception_raised t \<and>
    pc_of t = GetExceptionVector False s \<and> npc_of t = GetExceptionVector False s + 4 \<and>
    bf_get 2 5 (cause (cop0_regs t)) = exception_code x \<and>
    EPC (cop0_regs t) = current_instruction_pc s - (if current_instruction_in_branch_delay_slot s then 4 else 0) \<and>
    (\<forall>n. bit (sr (cop0_regs (exec_rfe t))) n = bit (sr (cop0_regs s)) (if n = 4 \<or> n = 5 then n - 2 else n))"
proof -
  let ?e = "exception_entry (current_cause x s) (current_instruction_pc s) (pc_of s) (cop0_regs s)"
  note entry = RaiseException_from_entry [OF assms(1), of "current_cause x s" "current_instruction_pc s"]
  have c: "cop0_regs t = ?e" and e: "exception_raised t" and pc: "pc_of t = GetExceptionVector False s"
    and npc: "npc_of t = GetExceptionVector False s + 4"
    unfolding assms(2) RaiseException_def by (rule entry)+
  show ?thesis
    using e pc npc bit_sr_round_trip [of t "current_cause x s" "current_instruction_pc s" "pc_of s" s, OF arg_cong [OF c, of sr]]
    by (simp add: InUserMode_def c exception_entry_fields bit_sr_entry current_cause_def BD_MakeValueForException
        Excode_MakeValueForException)
qed

theorem exception_then_rfe_witness:
  "let t = RaiseException Exc_Syscall bus_boot
   in \<not> InUserMode t \<and> pc_of t = 0x80000080 \<and> bf_get 2 5 (cause (cop0_regs t)) = 8"
  using exception_then_rfe [OF cpu_inv_boot refl, of Exc_Syscall]
  by (simp add: Let_def GetExceptionVector_def bus_boot_fields)

text \<open>
  The mutual recursion of the fetch, the exceptions and the pipeline flush ends: two levels
  are enough and more change nothing. A fetch that succeeds has moved the program counters on by
  one instruction; one that fails has left the CPU at the exception vector, the first
  instruction of the handler fetched.
\<close>

theorem fetch_ends:
  fixes s :: "'a bus_state_scheme"
  assumes "cpu_inv s" and "FetchInstruction s = (ok, t)"
  shows "fetch_at (Suc (Suc n)) s = (ok, t) \<and>
    (if ok then pc_of t = npc_of s \<and> npc_of t = npc_of s + 4
     else pc_of t = GetExceptionVector False s \<and> npc_of t = GetExceptionVector False s + 4 \<and> exception_raised t)"
  using fetch_at_fuel [OF assms(1), of n] fetch_result [OF assms(1) refl] unfolding assms(2) fst_conv snd_conv by simp

theorem fetch_ends_witness:
  "fetch_at 7 bus_boot = FetchInstruction bus_boot \<and>
   (if fst (FetchInstruction bus_boot) then pc_of (snd (FetchInstruction bus_boot)) = 0
    else pc_of (snd (FetchInstruction bus_boot)) = 0x80000080)"
  using fetch_ends [OF cpu_inv_boot, of _ _ 5, OF prod.collapse [symmetric]]
  by (simp add: numeral_nat GetExceptionVector_def bus_boot_fields split: if_splits)

text \<open>
  When the bus does not answer a fetch from KSEG1, the cause value and the return address
  are exchanged: \<open>EPC\<close> becomes the value meant for \<open>CAUSE\<close>, the exception code is taken from
  the address, and the first instruction of the handler is replaced by a no-operation.
\<close>

theorem uncached_fetch_error:
  fixes s :: "'a bus_state_scheme"
  assumes "cpu_inv s" and "drop_bit 29 (npc_of s) = 5" and "p = VirtualAddressToPhysical (npc_of s)"
    and "RAM_MIRROR_END \<le> p" and "p < BIOS_BASE \<or> BIOS_END \<le> p" and "FetchInstruction s = (ok, t)"
  shows "\<not> ok \<and> EPC (cop0_regs t) = MakeValueForException Exc_IBE False False 0 \<and>
    bf_get 2 5 (cause (cop0_regs t)) = bf_get 2 5 p \<and> next_instruction t = 0"
proof -
  have v: "MakeValueForException Exc_IBE False False 0 = 0x18" by code_simp
  have "\<not> p < RAM_MIRROR_END" "\<not> (BIOS_BASE \<le> p \<and> p < BIOS_END)" using assms(4,5) by (simp_all add: not_less not_le)
  note e = uncached_bus_error [OF assms(1,2) this assms(3,6)]
  have "\<not> cause_BD p" unfolding assms(3) VirtualAddressToPhysical_def bit_and_iff phys_mask_bits by simp
  then show ?thesis using e by (simp add: exception_entry_fields v)
qed

theorem uncached_fetch_error_witness:
  "EPC (cop0_regs (snd (FetchInstruction (bus_boot\<lparr>regs := (replicate 36 0)[reg_npc := 0xBF000000]\<rparr>)))) = 0x18"
proof -
  let ?s = "bus_boot\<lparr>regs := (replicate 36 0)[reg_npc := 0xBF000000]\<rparr>"
  have "cpu_inv ?s" using cpu_inv_boot by (simp add: cpu_inv_def)
  moreover have "drop_bit 29 (npc_of ?s) = 5" by (simp add: drop_bit_eq_div)
  moreover have "MakeValueForException Exc_IBE False False 0 = 0x18" by code_simp
  ultimately show ?thesis
    using uncached_fetch_error [OF _ _ refl _ _ prod.collapse [symmetric], of ?s]
    by (simp add: VirtualAddressToPhysical_def)
qed

end
