(* ===== verification/GteDivide.thy ===== *)
theory GteDivide
  imports GteSpec
begin

text \<open>
  How close the division of the geometry engine comes to the quotient. The reciprocal is one step of
  Newton's iteration from a table of 257 factors; a factor \<open>x\<close> satisfies \<open>\<bar>D * x - 2 ^ 24\<bar> \<le> 2 ^ 16\<close>
  on its interval of divisors, which is checked at both ends of each interval, and the step squares
  this error.
\<close>

subsection \<open>The table\<close>

definition unr_entry_ok :: "int \<times> int \<Rightarrow> bool" where
  "unr_entry_ok kx \<longleftrightarrow>
     (let (k, e) = kx; x = 0x101 + e; lo = 0x7FC0 + 128 * k; hi = min 0xFFFF (lo + 127)
      in \<bar>lo * x - 2 ^ 24\<bar> \<le> 2 ^ 16 \<and> \<bar>hi * x - 2 ^ 24\<bar> \<le> 2 ^ 16 \<and> 0x101 \<le> x \<and> x \<le> 0x200)"

lemma unr_table_length: "length unr_table = 257"
  by (simp add: unr_table_def)

lemma unr_table_ok: "list_all unr_entry_ok (zip (map int [0..<257]) unr_table)"
  by code_simp

lemma unr_entry: "k < 257 \<Longrightarrow> unr_entry_ok (int k, unr_table ! k)"
proof -
  assume k: "k < 257"
  have "zip (map int [0..<257]) unr_table ! k = (int k, unr_table ! k)"
    using k unr_table_length by (subst nth_zip) simp_all
  moreover have "k < length (zip (map int [0..<257]) unr_table)"
    using k unr_table_length by simp
  ultimately show ?thesis using unr_table_ok by (metis list_all_length)
qed

text \<open>Between the ends of an interval the product is between its values there.\<close>

lemma linear_between:
  fixes lo hi d x c e :: int
  assumes "0 \<le> x" and "lo \<le> d" and "d \<le> hi" and "\<bar>lo * x - c\<bar> \<le> e" and "\<bar>hi * x - c\<bar> \<le> e"
  shows "\<bar>d * x - c\<bar> \<le> e"
proof -
  have "lo * x \<le> d * x" "d * x \<le> hi * x"
    using assms(1-3) by (simp_all add: mult_right_mono)
  then show ?thesis using assms(4,5) by linarith
qed

definition divisor_ok :: "u32 \<Rightarrow> bool" where
  "divisor_ok D \<longleftrightarrow> 0x8000 \<le> uint D \<and> uint D \<le> 0xFFFF"

lemma unr_index:
  assumes "divisor_ok D"
  shows "unat (drop_bit 7 ((D AND 0x7FFF) + 0x40)) = nat ((uint D - 0x8000 + 0x40) div 128)"
proof -
  have m: "D AND 0x7FFF = take_bit 15 D"
    by (simp add: take_bit_eq_mask mask_eq_exp_minus_1)
  have "uint (take_bit 15 D) = uint D mod 2 ^ 15"
    by (subst unsigned_take_bit_eq) (rule take_bit_eq_mod)
  also have "\<dots> = (uint D - 0x8000) mod 2 ^ 15" by (simp add: mod_diff_right_eq [symmetric])
  also have "\<dots> = uint D - 0x8000"
    using assms by (intro mod_pos_pos_trivial) (simp_all add: divisor_ok_def)
  finally have u: "uint (D AND 0x7FFF) = uint D - 0x8000" unfolding m .
  have "uint ((D AND 0x7FFF) + 0x40) = uint D - 0x8000 + 0x40"
    using assms u by (subst uint_add_lem [THEN iffD1]) (simp_all add: divisor_ok_def)
  then have "unat ((D AND 0x7FFF) + 0x40) = nat (uint D - 0x8000 + 0x40)" by (simp only: unat_eq_nat_uint)
  then show ?thesis
    unfolding unat_drop_bit_eq unfolding drop_bit_eq_div using assms by (simp add: divisor_ok_def nat_div_distrib)
qed

lemma unr_factor_close:
  assumes "divisor_ok D"
  shows "\<bar>uint D * unr_factor D - 2 ^ 24\<bar> \<le> 2 ^ 16" "0x101 \<le> unr_factor D" "unr_factor D \<le> 0x200"
proof -
  let ?q = "(uint D - 0x8000 + 0x40) div 128"
  have D: "0x8000 \<le> uint D" "uint D \<le> 0xFFFF" using assms by (simp_all add: divisor_ok_def)
  have q: "0 \<le> ?q" "?q < 257" using D by (simp_all add: pos_imp_zdiv_nonneg_iff div_less_iff_less_mult)
  have "unr_entry_ok (int (nat ?q), unr_table ! nat ?q)" using q by (intro unr_entry) simp
  moreover have "unr_table ! nat ?q = unr_factor D - 0x101" by (simp add: unr_factor_def unr_index [OF assms])
  ultimately have e: "unr_entry_ok (?q, unr_factor D - 0x101)" using q by simp
  have lo: "0x7FC0 + 128 * ?q \<le> uint D" and hi: "uint D \<le> min 0xFFFF (0x7FC0 + 128 * ?q + 127)"
    using D mult_div_mod_eq [of 128 "uint D - 0x8000 + 0x40"]
      pos_mod_bound [of 128 "uint D - 0x8000 + 0x40"] pos_mod_sign [of 128 "uint D - 0x8000 + 0x40"]
    by linarith+
  show "0x101 \<le> unr_factor D" "unr_factor D \<le> 0x200" using e by (simp_all add: unr_entry_ok_def Let_def)
  show "\<bar>uint D * unr_factor D - 2 ^ 24\<bar> \<le> 2 ^ 16"
    by (rule linear_between [OF _ lo hi]) (use e in \<open>simp_all add: unr_entry_ok_def Let_def\<close>)
qed

subsection \<open>The step of Newton's iteration\<close>

lemma newton_identity:
  fixes D x d r s t :: int
  assumes d: "256 * d = 128 - D * x - s" and r: "256 * r = x * (2 ^ 17 + d) + 128 - t"
  shows "2 ^ 16 * (r * D) = 2 ^ 48 - (D * x - 2 ^ 24) ^ 2 + D * x * (128 - s) + D * (256 * (128 - t))"
proof -
  have "2 ^ 16 * (r * D) = D * (256 * (256 * r))" by simp
  also have "\<dots> = D * (x * (2 ^ 25 + 256 * d) + 256 * (128 - t))" unfolding r by (simp add: algebra_simps)
  also have "\<dots> = D * (x * (2 ^ 25 + (128 - D * x - s)) + 256 * (128 - t))" unfolding d by simp
  also have "\<dots> = 2 ^ 48 - (D * x - 2 ^ 24) ^ 2 + D * x * (128 - s) + D * (256 * (128 - t))"
    by (simp add: algebra_simps power2_eq_square)
  finally show ?thesis .
qed

lemma newton_error:
  fixes D x d r :: int
  assumes D: "0x8000 \<le> D" "D \<le> 0xFFFF" and x: "\<bar>D * x - 2 ^ 24\<bar> \<le> 2 ^ 16"
    and d: "d = (128 - D * x) div 256" and r: "r = (x * (2 ^ 17 + d) + 128) div 256"
  shows "2 ^ 16 * \<bar>r * D - 2 ^ 32\<bar> \<le> 229632 * D"
proof -
  define s where "s = (128 - D * x) mod 256"
  define t where "t = (x * (2 ^ 17 + d) + 128) mod 256"
  have s: "0 \<le> s" "s < 256" "256 * d = 128 - D * x - s"
    unfolding s_def d by (simp_all add: minus_mod_eq_mult_div)
  have t: "0 \<le> t" "t < 256" "256 * r = x * (2 ^ 17 + d) + 128 - t"
    unfolding t_def r by (simp_all add: minus_mod_eq_mult_div)
  have "\<bar>(D * x - 2 ^ 24) ^ 2\<bar> \<le> 2 ^ 32"
    using abs_mult_le [OF x x] by (simp add: power2_eq_square)
  moreover have "\<bar>D * x * (128 - s)\<bar> \<le> (2 ^ 24 + 2 ^ 16) * 128"
    by (rule abs_mult_le) (use x s in auto)
  moreover have "\<bar>D * (256 * (128 - t))\<bar> \<le> D * (2 ^ 15)"
    by (rule abs_mult_le) (use D t in auto)
  moreover have "2 ^ 16 * (r * D - 2 ^ 32) =
      - ((D * x - 2 ^ 24) ^ 2) + D * x * (128 - s) + D * (256 * (128 - t))"
    using newton_identity [OF s(3) t(3)] by (simp add: algebra_simps)
  ultimately have "\<bar>2 ^ 16 * (r * D - 2 ^ 32)\<bar> \<le> 2 ^ 32 + (2 ^ 24 + 2 ^ 16) * 128 + D * 2 ^ 15"
    by linarith
  then have "2 ^ 16 * \<bar>r * D - 2 ^ 32\<bar> \<le> 2 ^ 32 + (2 ^ 24 + 2 ^ 16) * 128 + D * 2 ^ 15"
    by (simp only: abs_mult) simp
  also have "\<dots> \<le> 229632 * D" using D by simp
  finally show ?thesis .
qed

lemma quotient_error:
  fixes D L r q :: int
  assumes D: "0x8000 \<le> D" "D \<le> 0xFFFF" and L: "0 \<le> L" "L < 2 * D"
    and r: "2 ^ 16 * \<bar>r * D - 2 ^ 32\<bar> \<le> 229632 * D" and q: "q = (L * r + 2 ^ 15) div 2 ^ 16"
  shows "\<bar>q * D - L * 2 ^ 16\<bar> \<le> 8 * D"
proof -
  define t where "t = (L * r + 2 ^ 15) mod 2 ^ 16"
  have t: "0 \<le> t" "t < 2 ^ 16" "2 ^ 16 * q = L * r + 2 ^ 15 - t"
    unfolding t_def q by (simp_all add: minus_mod_eq_mult_div)
  have "2 ^ 16 * (q * D - L * 2 ^ 16) = (2 ^ 16 * q) * D - L * 2 ^ 32" by (simp add: algebra_simps)
  also have "\<dots> = L * (r * D - 2 ^ 32) + D * (2 ^ 15 - t)" unfolding t(3) by (simp add: algebra_simps)
  finally have e: "2 ^ 32 * (q * D - L * 2 ^ 16) = L * (2 ^ 16 * (r * D - 2 ^ 32)) + 2 ^ 16 * (D * (2 ^ 15 - t))"
    by (simp add: algebra_simps)
  have "\<bar>L * (2 ^ 16 * (r * D - 2 ^ 32))\<bar> \<le> 2 ^ 17 * (229632 * D)"
  proof (rule abs_mult_le)
    show "\<bar>2 ^ 16 * (r * D - 2 ^ 32)\<bar> \<le> 229632 * D" using r by (simp only: abs_mult) simp
  qed (use D L in simp)
  moreover have "\<bar>D * (2 ^ 15 - t)\<bar> \<le> D * 2 ^ 15"
    by (rule abs_mult_le) (use D t in auto)
  ultimately have "\<bar>2 ^ 32 * (q * D - L * 2 ^ 16)\<bar> \<le> 2 ^ 17 * (229632 * D) + 2 ^ 16 * (D * 2 ^ 15)"
    unfolding e using abs_triangle_ineq [of "L * (2 ^ 16 * (r * D - 2 ^ 32))" "2 ^ 16 * (D * (2 ^ 15 - t))"]
    by (simp only: abs_mult [of "2 ^ 16" "D * (2 ^ 15 - t)"]) simp
  then have "2 ^ 32 * \<bar>q * D - L * 2 ^ 16\<bar> \<le> 2 ^ 17 * (229632 * D) + 2 ^ 16 * (D * 2 ^ 15)"
    by (simp only: abs_mult) simp
  also have "\<dots> \<le> 2 ^ 32 * (8 * D)" using D by simp
  finally show ?thesis by simp
qed

subsection \<open>The division of the program\<close>

lemma unr_recip_value:
  assumes "divisor_ok D"
  shows "2 ^ 16 * \<bar>uint (unr_recip D) * uint D - 2 ^ 32\<bar> \<le> 229632 * uint D"
    and "uint (unr_recip D) < 2 ^ 18"
proof -
  have D: "0x8000 \<le> uint D" "uint D \<le> 0xFFFF" using assms by (simp_all add: divisor_ok_def)
  define x where "x = unr_factor D"
  define d where "d = (128 - uint D * x) div 256"
  define r where "r = (x * (2 ^ 17 + d) + 128) div 256"
  have "sint D = uint D" using D by (simp add: sint_uint signed_take_bit_int_eq_self)
  then have u: "unr_recip D = word_of_int r"
    by (simp add: unr_recip_def Let_def r_def d_def x_def drop_bit_eq_div add.commute)
  have e: "2 ^ 16 * \<bar>r * uint D - 2 ^ 32\<bar> \<le> 229632 * uint D"
    using unr_factor_close(1) [OF assms] unfolding x_def [symmetric] by (rule newton_error [OF D _ d_def r_def])
  then have "\<bar>r * uint D - 4294967296\<bar> < 4294967296" using D by simp
  then have b: "r * uint D < 8589934592" "0 < r * uint D" by simp_all
  have "0 < r" using b(2) D by (simp add: zero_less_mult_iff)
  moreover have "r < 2 ^ 18"
  proof (rule ccontr)
    assume "\<not> r < 2 ^ 18"
    then have "2 ^ 18 * 0x8000 \<le> r * uint D" using D by (intro mult_mono) simp_all
    then show False using b(1) by simp
  qed
  ultimately have v: "uint (unr_recip D) = r"
    unfolding u by (simp add: uint_word_of_int)
  show "2 ^ 16 * \<bar>uint (unr_recip D) * uint D - 2 ^ 32\<bar> \<le> 229632 * uint D" using e unfolding v .
  show "uint (unr_recip D) < 2 ^ 18" using \<open>r < 2 ^ 18\<close> unfolding v .
qed

text \<open>The divisor is shifted until its top bit of 16 is set.\<close>

lemma normalised:
  fixes w :: u32
  assumes "0 < unat w" and "unat w < 2 ^ 16"
  defines "k \<equiv> CountLeadingZeros (ucast w :: u16)"
  shows "k < 16" and "2 ^ 15 \<le> unat w * 2 ^ k" and "unat w * 2 ^ k < 2 ^ 16"
proof -
  let ?v = "ucast w :: u16"
  have v: "unat ?v = unat w" using assms(2) by (simp only: unsigned_ucast_eq) (simp add: take_bit_nat_eq_self)
  have "\<exists>m. bit ?v m"
  proof (rule ccontr)
    assume "\<nexists>m. bit ?v m"
    then have "?v = 0" by (intro bit_word_eqI) simp
    then show False using v assms(1) by simp
  qed
  then obtain m where m: "bit ?v m" ..
  then have "m < 16" using bit_imp_le_length [OF m] by simp
  from clz_from_less [OF m this] have "clz_from 16 ?v < 16" by simp
  then show k: "k < 16" by (simp add: k_def CountLeadingZeros_def)
  have top: "bit ?v (16 - Suc k)" using clz_from_top [of 16 ?v] k by (simp add: k_def CountLeadingZeros_def)
  have "unat ?v < 2 ^ (16 - k)"
  proof (rule unat_less_of_bits)
    fix n assume n: "bit ?v n"
    then have "n < 16" using bit_imp_le_length [OF n] by simp
    then show "n < 16 - k"
      using clz_from_above [of 16 ?v n] n by (auto simp: k_def CountLeadingZeros_def simp flip: not_le)
  qed
  then have "unat w * 2 ^ k < 2 ^ (16 - k) * 2 ^ k" unfolding v by simp
  also have "\<dots> = 2 ^ 16" using k by (simp only: power_add [symmetric]) simp
  finally show "unat w * 2 ^ k < 2 ^ 16" .
  have "2 ^ (15 - k) \<le> unat w"
  proof (rule ccontr)
    assume "\<not> 2 ^ (15 - k) \<le> unat w"
    then have "unat ?v < 2 ^ (15 - k)" unfolding v by simp
    then have "take_bit (15 - k) ?v = ?v" by (rule take_bit_word_id)
    then have "bit (take_bit (15 - k) ?v) (15 - k)" using top by simp
    then show False by (simp only: bit_take_bit_iff) simp
  qed
  then have "2 ^ (15 - k) * 2 ^ k \<le> unat w * 2 ^ k" by simp
  moreover have "2 ^ (15 - k) * 2 ^ k = (2 ^ 15 :: nat)" using k by (simp only: power_add [symmetric]) simp
  ultimately show "2 ^ 15 \<le> unat w * 2 ^ k" by simp
qed

lemma top_bit_set:
  assumes "divisor_ok w" shows "w OR 0x8000 = w"
proof -
  have "uint w = int (unat w)" by simp
  then have "32768 \<le> unat w \<and> unat w < 65536" using assms unfolding divisor_ok_def by linarith
  then have "unat w div 32768 = 1" by (intro div_nat_eqI) simp_all
  then have "bit (unat w) 15" by (simp add: bit_iff_odd)
  then have "bit w 15" by (simp add: bit_unsigned_iff)
  then have "set_bit 15 w = w" by (intro bit_word_eqI) (auto simp: bit_simps)
  then show ?thesis by (simp add: set_bit_eq_or)
qed

lemma unat_push_bit_small: "unat w * 2 ^ k < 2 ^ 32 \<Longrightarrow> unat (push_bit k w) = unat w * 2 ^ k" for w :: u32
  unfolding unsigned_push_bit_eq unfolding push_bit_eq_mult by (simp add: take_bit_nat_eq_self)

lemma fixed_quotient:
  fixes a b :: u32
  assumes "unat a < 2 ^ 17" and "unat b < 2 ^ 18"
  shows "unat (ucast (drop_bit 16 ((ucast a :: u64) * ucast b + 0x8000)) :: u32) = (unat a * unat b + 2 ^ 15) div 2 ^ 16"
proof -
  have lt: "unat a * unat b < 2 ^ 17 * 2 ^ 18" using assms by (intro mult_strict_mono) simp_all
  have u: "unat (ucast a :: u64) = unat a" "unat (ucast b :: u64) = unat b"
    by (simp_all only: unsigned_ucast_eq; simp add: take_bit_nat_eq_self unsigned_less less_trans [OF unsigned_less])+
  have "unat ((ucast a :: u64) * ucast b + 0x8000) = unat a * unat b + 2 ^ 15"
    using lt by (simp add: unat_word_ariths u)
  then have "unat (drop_bit 16 ((ucast a :: u64) * ucast b + 0x8000)) = (unat a * unat b + 2 ^ 15) div 2 ^ 16"
    unfolding unat_drop_bit_eq unfolding drop_bit_eq_div by simp
  moreover have "(unat a * unat b + 2 ^ 15) div 2 ^ 16 < 2 ^ 32" using lt by simp
  ultimately show ?thesis by (simp only: unsigned_ucast_eq) (simp add: take_bit_nat_eq_self)
qed

text \<open>The quotient is below \<open>2 ^ 17\<close>, so that cutting the result there keeps the bound.\<close>

lemma clamped_error:
  fixes q h z :: int
  assumes "\<bar>q * z - h * 2 ^ 16\<bar> \<le> 8 * z" and "h < 2 * z" and "0 \<le> z"
  shows "\<bar>min 0x1FFFF q * z - h * 2 ^ 16\<bar> \<le> 8 * z"
proof (cases "q \<le> 0x1FFFF")
  case False
  then have "0x1FFFF * z \<le> q * z" using assms(3) by (intro mult_right_mono) simp_all
  with assms False show ?thesis by (simp add: min_def)
qed (use assms in \<open>simp add: min_def\<close>)

lemma UNRDivide_error:
  fixes h z :: u32
  assumes h: "unat h < 2 ^ 16" and z: "unat z < 2 ^ 16" and lt: "unat h < 2 * unat z"
  shows "snd (UNRDivide h z r) = r"
    and "\<bar>uint (fst (UNRDivide h z r)) * uint z - uint h * 2 ^ 16\<bar> \<le> 8 * uint z"
proof -
  define k where "k = CountLeadingZeros (ucast z :: u16)"
  define D where "D = push_bit k z"
  define q where "q = (unat h * 2 ^ k * unat (unr_recip D) + 2 ^ 15) div 2 ^ 16"
  have z0: "0 < unat z" using lt by simp
  note n = normalised [OF z0 z, folded k_def]
  have "unat (z * 2) = unat z * 2" using z by (simp add: unat_word_ariths)
  then have c: "\<not> z * 2 \<le> h" using lt by (simp only: word_le_nat_alt)
  have pz: "unat D = unat z * 2 ^ k" unfolding D_def
    using n(3) by (intro unat_push_bit_small) simp
  have "unat h * 2 ^ k < 2 * unat z * 2 ^ k" using lt by simp
  also have "\<dots> < 2 ^ 17" using n(3) by simp
  finally have h17: "unat h * 2 ^ k < 2 ^ 17" .
  then have ph: "unat (push_bit k h) = unat h * 2 ^ k"
    by (intro unat_push_bit_small) simp
  have uD: "uint D = int (unat z * 2 ^ k)" using pz by (metis of_nat_unat)
  have "0x8000 \<le> int n \<and> int n \<le> 0xFFFF" if "2 ^ 15 \<le> n" "n < 2 ^ 16" for n :: nat
    using that by simp
  then have ok: "divisor_ok D" unfolding divisor_ok_def uD using n(2,3) by blast
  note rec = unr_recip_value [OF ok]
  have r18: "unat (unr_recip D) < 2 ^ 18" using rec(2) by (metis of_nat_less_iff of_nat_numeral of_nat_power of_nat_unat)
  have res: "UNRDivide h z r = (min 0x1FFFF (ucast (drop_bit 16 ((ucast (push_bit k h) :: u64) * ucast (unr_recip D) + 0x8000))), r)"
    using c z0 by (auto simp: UNRDivide_def Let_def k_def [symmetric] D_def [symmetric] top_bit_set [OF ok])
  then show "snd (UNRDivide h z r) = r" by simp
  have q: "unat (ucast (drop_bit 16 ((ucast (push_bit k h) :: u64) * ucast (unr_recip D) + 0x8000)) :: u32) = q"
    using fixed_quotient [of "push_bit k h" "unr_recip D"] h17 r18 unfolding ph q_def by simp
  have v: "uint (fst (UNRDivide h z r)) = min 0x1FFFF (int q)"
    unfolding res using q by (simp add: min_def word_le_nat_alt) (metis of_nat_unat)
  have "\<bar>int q * uint D - int (unat h * 2 ^ k) * 2 ^ 16\<bar> \<le> 8 * uint D"
  proof (rule quotient_error [OF _ _ _ _ rec(1)])
    show "0x8000 \<le> uint D" "uint D \<le> 0xFFFF" using ok by (simp_all add: divisor_ok_def)
    have "int a < 2 * int b" if "a < 2 * b" for a b :: nat using that by simp
    moreover have "unat h * 2 ^ k < 2 * (unat z * 2 ^ k)" using lt by simp
    ultimately show "int (unat h * 2 ^ k) < 2 * uint D" unfolding uD .
    show "int q = (int (unat h * 2 ^ k) * uint (unr_recip D) + 2 ^ 15) div 2 ^ 16"
      unfolding q_def by (simp add: zdiv_int)
  qed simp
  then have "\<bar>(int q * int (unat z) - int (unat h) * 2 ^ 16) * 2 ^ k\<bar> \<le> 8 * int (unat z) * 2 ^ k"
    unfolding uD by (simp add: algebra_simps)
  then have e: "\<bar>int q * int (unat z) - int (unat h) * 2 ^ 16\<bar> \<le> 8 * int (unat z)"
    by (simp add: abs_mult)
  have "\<bar>min 0x1FFFF (int q) * int (unat z) - int (unat h) * 2 ^ 16\<bar> \<le> 8 * int (unat z)"
    using lt by (intro clamped_error e) (simp_all only: of_nat_less_iff [symmetric, where 'a = int] of_nat_mult of_nat_numeral of_nat_0_le_iff)
  then show "\<bar>uint (fst (UNRDivide h z r)) * uint z - uint h * 2 ^ 16\<bar> \<le> 8 * uint z"
    unfolding v by simp
qed

lemma UNRDivide_overflow:
  assumes "unat z < 2 ^ 16" and "2 * unat z \<le> unat h"
  shows "UNRDivide h z r = (0x1FFFF, raise_flag 17 r)"
proof -
  have "unat (z * 2) = unat z * 2" using assms(1) by (simp add: unat_word_ariths)
  then have "z * 2 \<le> h" using assms(2) by (simp only: word_le_nat_alt)
  then show ?thesis by (simp add: UNRDivide_def)
qed

end
