(* ===== verification/GteTransform.thy ===== *)
theory GteTransform
  imports GteSpec
begin

text \<open>
  What the products, the projection and the colour FIFO of the geometry engine compute, flag by flag:
  an accumulator is exact as long as no partial sum leaves 44 bits, and its flags say when one does.
\<close>

subsection \<open>Flags and registers after the shared operations\<close>

definition gte_flag :: "nat \<Rightarrow> gte_regs \<Rightarrow> bool" where
  "gte_flag n r = bit (r reg_FLAG) n"

definition in44 :: "int \<Rightarrow> bool" where
  "in44 v \<longleftrightarrow> - (2 ^ 43) \<le> v \<and> v < 2 ^ 43"

lemma gte_flag_raise [simp]: "m < 32 \<Longrightarrow> gte_flag n (raise_flag m r) = (n = m \<or> gte_flag n r)"
  by (auto simp: gte_flag_def raise_flag_bit bit_simps)

lemma gte_flag_upd [simp]: "i \<noteq> 63 \<Longrightarrow> gte_flag n (r(i := v)) = gte_flag n r"
  by (simp add: gte_flag_def)

lemma gte_flag_clear [simp]: "\<not> gte_flag n (FLAG_Clear r)"
  by (simp add: gte_flag_def FLAG_Clear_def)

lemma gte_flag_error [simp]: "n \<noteq> 31 \<Longrightarrow> gte_flag n (FLAG_UpdateError r) = gte_flag n r"
  by (auto simp: gte_flag_def FLAG_UpdateError_def bit_bf_set dest: bit_imp_le_length)

lemma other_reg [simp]:
  "i \<noteq> 63 \<Longrightarrow> raise_flag m r i = r i" "i \<noteq> 63 \<Longrightarrow> FLAG_Clear r i = r i" "i \<noteq> 63 \<Longrightarrow> FLAG_UpdateError r i = r i"
  by (simp_all add: raise_flag_def FLAG_Clear_def FLAG_UpdateError_def)

lemma check_reg [simp]: "j \<noteq> 63 \<Longrightarrow> CheckMACOverflow i v r j = r j"
  by (simp add: CheckMACOverflow_def)

lemma check_flag:
  assumes "0 < i" and "i \<le> 3"
  shows "gte_flag n (CheckMACOverflow i v r) =
    (gte_flag n r \<or> n = 28 - i \<and> v < - (2 ^ 43) \<or> n = 31 - i \<and> 2 ^ 43 \<le> v)"
  using assms
  by (auto simp: CheckMACOverflow_def MAC_MIN_VALUE_def MAC_MAX_VALUE_def mac_underflow_flag_def mac_overflow_flag_def)

lemma extend_value: "0 < i \<Longrightarrow> in44 v \<Longrightarrow> fst (SignExtendMACResult i v r) = v"
proof -
  assume i: "0 < i" and v: "in44 v"
  have p: "push_bit 20 (word_of_int v :: u64) = word_of_int (push_bit 20 v)"
    by (simp add: push_bit_eq_mult)
  have "sint (word_of_int (push_bit 20 v) :: u64) = push_bit 20 v"
    using v by (simp only: sint_sbintrunc') (simp add: signed_take_bit_int_eq_self in44_def push_bit_eq_mult)
  then have "sint (signed_drop_bit 20 (push_bit 20 (word_of_int v :: u64))) = v"
    unfolding p by (simp only: sint_signed_drop_bit_eq) (simp add: push_bit_eq_mult drop_bit_eq_div)
  then show ?thesis using i by (simp add: SignExtendMACResult_def Let_def)
qed

lemma extend_regs [simp]: "snd (SignExtendMACResult i v r) = CheckMACOverflow i v r"
  by (simp add: SignExtendMACResult_def Let_def)

definition ir_limit :: "bool \<Rightarrow> int \<Rightarrow> int" where
  "ir_limit lm v = clamp v (if lm then 0 else - (2 ^ 15)) (2 ^ 15 - 1)"

lemma set_ir_reg:
  assumes "0 < i" and "i \<le> 3"
  shows "TruncateAndSetIR i v lm r j = (if j = 8 + i then word_of_int (ir_limit lm v)
    else if j = 63 then TruncateAndSetIR i v lm r 63 else r j)"
  using assms by (auto simp: TruncateAndSetIR_def Let_def ir_limit_def clamp_def IR_MIN_VALUE_def IR_MAX_VALUE_def)

lemma set_ir_flag:
  assumes "0 < i" and "i \<le> 3"
  shows "gte_flag n (TruncateAndSetIR i v lm r) = (gte_flag n r \<or> n = 25 - i \<and> ir_limit lm v \<noteq> v)"
  using assms
  by (auto simp: TruncateAndSetIR_def Let_def ir_limit_def clamp_def IR_MIN_VALUE_def IR_MAX_VALUE_def ir_saturated_flag_def)

lemma set_mac_ir_reg:
  assumes "0 < i" and "i \<le> 3" and "j \<noteq> 63"
  shows "TruncateAndSetMACAndIR i v shift lm r j =
    (if j = 8 + i then word_of_int (ir_limit lm (wrap_s32 (drop_bit shift v)))
     else if j = 24 + i then word_of_int (wrap_s32 (drop_bit shift v)) else r j)"
  using assms by (auto simp: TruncateAndSetMACAndIR_def Let_def set_ir_reg)

lemma set_mac_ir_flag:
  assumes "0 < i" and "i \<le> 3"
  shows "gte_flag n (TruncateAndSetMACAndIR i v shift lm r) =
    (gte_flag n r \<or> n = 28 - i \<and> v < - (2 ^ 43) \<or> n = 31 - i \<and> 2 ^ 43 \<le> v \<or>
     n = 25 - i \<and> ir_limit lm (wrap_s32 (drop_bit shift v)) \<noteq> wrap_s32 (drop_bit shift v))"
  using assms by (auto simp: TruncateAndSetMACAndIR_def Let_def set_ir_flag check_flag)

subsection \<open>One row of a product\<close>

text \<open>The partial sums of the row \<open>i\<close> as exact integers.\<close>

definition row_sums :: "(nat \<Rightarrow> nat \<Rightarrow> int) \<Rightarrow> (nat \<Rightarrow> int) \<Rightarrow> (nat \<Rightarrow> int) \<Rightarrow> nat \<Rightarrow> int list" where
  "row_sums M T V i =
     [T i * 2 ^ 12 + M i 0 * V 0, T i * 2 ^ 12 + M i 0 * V 0 + M i 1 * V 1,
      T i * 2 ^ 12 + M i 0 * V 0 + M i 1 * V 1 + M i 2 * V 2]"

lemma not_in44: "\<not> in44 v \<longleftrightarrow> v < - (2 ^ 43) \<or> 2 ^ 43 \<le> v"
  by (auto simp: in44_def)

lemma row_other:
  assumes "i \<le> 2"
  shows "j \<notin> {9 + i, 25 + i, 63} \<Longrightarrow> MulMatVecT_row M T V shift lm i r j = r j"
    and "n \<notin> {30 - i, 27 - i, 24 - i} \<Longrightarrow> gte_flag n (MulMatVecT_row M T V shift lm i r) = gte_flag n r"
  using assms
  by (auto simp: MulMatVecT_row_def dot3_translated_def case_prod_beta set_mac_ir_reg set_mac_ir_flag check_flag)

lemma row_exact:
  fixes M :: "nat \<Rightarrow> nat \<Rightarrow> int" and T V :: "nat \<Rightarrow> int" and shift lm
  assumes i: "i \<le> 2" and f: "\<not> gte_flag (30 - i) r" "\<not> gte_flag (27 - i) r" "\<not> gte_flag (24 - i) r"
  defines "r' \<equiv> MulMatVecT_row M T V shift lm i r"
    and "v \<equiv> wrap_s32 (drop_bit shift (T i * 2 ^ 12 + M i 0 * V 0 + M i 1 * V 1 + M i 2 * V 2))"
  shows "if list_all in44 (row_sums M T V i)
    then \<not> gte_flag (30 - i) r' \<and> \<not> gte_flag (27 - i) r' \<and> r' (25 + i) = word_of_int v \<and>
      r' (9 + i) = word_of_int (ir_limit lm v) \<and> gte_flag (24 - i) r' = (ir_limit lm v \<noteq> v)
    else gte_flag (30 - i) r' \<or> gte_flag (27 - i) r'"
proof -
  define s1 where "s1 = T i * 2 ^ 12 + M i 0 * V 0"
  define s2 where "s2 = s1 + M i 1 * V 1"
  define s3 where "s3 = s2 + M i 2 * V 2"
  define a where "a = fst (SignExtendMACResult (i + 1) s1 r)"
  define q where "q = CheckMACOverflow (i + 1) s1 r"
  define b where "b = fst (SignExtendMACResult (i + 1) (a + M i 1 * V 1) q)"
  define q2 where "q2 = CheckMACOverflow (i + 1) (a + M i 1 * V 1) q"
  have r': "r' = TruncateAndSetMACAndIR (i + 1) (b + M i 2 * V 2) shift lm q2"
    by (simp add: r'_def MulMatVecT_row_def dot3_translated_def case_prod_beta a_def b_def q_def q2_def
        s1_def push_bit_eq_mult)
  have n: "30 - i \<noteq> 27 - i" "30 - i \<noteq> 24 - i" "27 - i \<noteq> 24 - i" using i by auto
  have over: "(gte_flag (30 - i) r' \<or> gte_flag (27 - i) r') =
      (\<not> in44 s1 \<or> \<not> in44 (a + M i 1 * V 1) \<or> \<not> in44 (b + M i 2 * V 2))"
    unfolding r' q2_def q_def not_in44
    using i f n by (auto simp: set_mac_ir_flag check_flag)
  have sums: "row_sums M T V i = [s1, s2, s3]"
    by (simp add: row_sums_def s1_def s2_def s3_def)
  have a: "in44 s1 \<Longrightarrow> a = s1" using i by (simp add: a_def extend_value)
  have b: "in44 s1 \<Longrightarrow> in44 s2 \<Longrightarrow> b = s2" using i a by (simp add: b_def s2_def extend_value)
  show ?thesis
  proof (cases "in44 s1 \<and> in44 s2 \<and> in44 s3")
    case True
    then have e: "a + M i 1 * V 1 = s2" "b + M i 2 * V 2 = s3" using a b by (simp_all add: s2_def s3_def)
    then have "\<not> (gte_flag (30 - i) r' \<or> gte_flag (27 - i) r')" using over True by simp
    moreover have "v = wrap_s32 (drop_bit shift s3)"
      by (simp add: v_def s1_def s2_def s3_def)
    moreover have "r' (25 + i) = word_of_int (wrap_s32 (drop_bit shift s3))"
      "r' (9 + i) = word_of_int (ir_limit lm (wrap_s32 (drop_bit shift s3)))"
      using i unfolding r' e by (simp_all add: set_mac_ir_reg)
    moreover have "gte_flag (24 - i) r' = (ir_limit lm (wrap_s32 (drop_bit shift s3)) \<noteq> wrap_s32 (drop_bit shift s3))"
      using i f n unfolding r' e q2_def q_def by (auto simp: set_mac_ir_flag check_flag)
    ultimately show ?thesis using True by (simp add: sums)
  next
    case False
    then have "gte_flag (30 - i) r' \<or> gte_flag (27 - i) r'"
      using a b unfolding over by (auto simp: s2_def s3_def)
    with False show ?thesis by (auto simp: sums)
  qed
qed

subsection \<open>The whole product\<close>

lemma rows:
  "MulMatVecT M T V shift lm r =
    MulMatVecT_row M T V shift lm 2 (MulMatVecT_row M T V shift lm 1 (MulMatVecT_row M T V shift lm 0 r))"
  by (simp add: MulMatVecT_def)

lemma product_row:
  fixes M :: "nat \<Rightarrow> nat \<Rightarrow> int" and T V :: "nat \<Rightarrow> int" and shift lm
  assumes i: "i \<le> 2" and f: "\<And>n. \<not> gte_flag n r"
  defines "r' \<equiv> MulMatVecT M T V shift lm r"
    and "v \<equiv> wrap_s32 (drop_bit shift (T i * 2 ^ 12 + M i 0 * V 0 + M i 1 * V 1 + M i 2 * V 2))"
  shows "if list_all in44 (row_sums M T V i)
    then \<not> gte_flag (30 - i) r' \<and> \<not> gte_flag (27 - i) r' \<and> r' (25 + i) = word_of_int v \<and>
      r' (9 + i) = word_of_int (ir_limit lm v) \<and> gte_flag (24 - i) r' = (ir_limit lm v \<noteq> v)
    else gte_flag (30 - i) r' \<or> gte_flag (27 - i) r'"
proof -
  define R where "R = MulMatVecT_row M T V shift lm"
  have cases: "i = 0 \<or> i = 1 \<or> i = 2" using i by auto
  define q where "q = (if i = 0 then r else if i = 1 then R 0 r else R 1 (R 0 r))"
  have q: "\<not> gte_flag (30 - i) q" "\<not> gte_flag (27 - i) q" "\<not> gte_flag (24 - i) q"
    using cases f by (auto simp: q_def R_def row_other)
  have same: "r' (25 + i) = R i q (25 + i)" "r' (9 + i) = R i q (9 + i)"
    "gte_flag (30 - i) r' = gte_flag (30 - i) (R i q)" "gte_flag (27 - i) r' = gte_flag (27 - i) (R i q)"
    "gte_flag (24 - i) r' = gte_flag (24 - i) (R i q)"
    using cases by (auto simp: r'_def rows R_def [symmetric] q_def) (auto simp: R_def row_other)
  show ?thesis
    unfolding same v_def R_def by (rule row_exact [OF i q])
qed

subsection \<open>The colour FIFO\<close>

lemma truncate_rgb:
  assumes "i \<le> 2"
  shows "fst (TruncateRGB i v r) = word_of_int (clamp v 0 0xFF)"
    and "snd (TruncateRGB i v r) j = (if j = 63 then snd (TruncateRGB i v r) 63 else r j)"
  using assms by (auto simp: TruncateRGB_def clamp_def)

lemma byte_of_packed:
  fixes a b c d :: int
  assumes "0 \<le> a" "a < 256" "0 \<le> b" "b < 256" "0 \<le> c" "c < 256" "0 \<le> d" "d < 256"
  defines "w \<equiv> (word_of_int a OR push_bit 8 (word_of_int b) OR push_bit 16 (word_of_int c) OR
    push_bit 24 (word_of_int d) :: u32)"
  shows "byte_of 0 w = a" "byte_of 1 w = b" "byte_of 2 w = c" "byte_of 3 w = d"
proof -
  have bits: "take_bit 8 x = x" if "0 \<le> x" "x < 256" for x :: int
    using that by (simp add: take_bit_int_eq_self)
  have bit: "bit x n \<Longrightarrow> n < 8" if "0 \<le> x" "x < 256" for x :: int and n
    using bits [OF that] by (metis bit_take_bit_iff)
  have u: "uint (word_of_int x :: u8) = x" if "0 \<le> x" "x < 256" for x
    using that by (simp add: uint_word_of_int)
  note small = bit [OF assms(1,2)] bit [OF assms(3,4)] bit [OF assms(5,6)] bit [OF assms(7,8)]
  have "(ucast (drop_bit (8 * 0) w) :: u8) = word_of_int a"
    by (rule bit_word_eqI) (auto simp: w_def bit_simps dest: small)
  then show "byte_of 0 w = a" unfolding byte_of_def by (simp only: u assms)
  have "(ucast (drop_bit (8 * 1) w) :: u8) = word_of_int b"
    by (rule bit_word_eqI) (auto simp: w_def bit_simps dest: small)
  then show "byte_of 1 w = b" unfolding byte_of_def by (simp only: u assms)
  have "(ucast (drop_bit (8 * 2) w) :: u8) = word_of_int c"
    by (rule bit_word_eqI) (auto simp: w_def bit_simps dest: small)
  then show "byte_of 2 w = c" unfolding byte_of_def by (simp only: u assms)
  have "(ucast (drop_bit (8 * 3) w) :: u8) = word_of_int d"
    by (rule bit_word_eqI) (auto simp: w_def bit_simps dest: small)
  then show "byte_of 3 w = d" unfolding byte_of_def by (simp only: u assms)
qed

definition rgb_limit :: "int \<Rightarrow> int" where
  "rgb_limit mac = clamp (drop_bit 4 mac) 0 0xFF"

lemma pushed_rgb:
  fixes r :: gte_regs
  defines "r' \<equiv> PushRGBFromMAC r"
  shows "byte_of 0 (r' 22) = rgb_limit (MAC 1 r)" "byte_of 1 (r' 22) = rgb_limit (MAC 2 r)"
    "byte_of 2 (r' 22) = rgb_limit (MAC 3 r)" "byte_of 3 (r' 22) = byte_of 3 (r 6)"
    "r' 21 = r 22" "r' 20 = r 21" "j \<notin> {20, 21, 22, 63} \<Longrightarrow> r' j = r j"
proof -
  have lim: "0 \<le> rgb_limit m" "rgb_limit m < 256" for m by (auto simp: rgb_limit_def clamp_def)
  have c: "0 \<le> byte_of 3 (r 6)" "byte_of 3 (r 6) < 256" using byte_of_bounds [of 3 "r 6"] by simp_all
  have "r' 22 = word_of_int (rgb_limit (MAC 1 r)) OR push_bit 8 (word_of_int (rgb_limit (MAC 2 r))) OR
      push_bit 16 (word_of_int (rgb_limit (MAC 3 r))) OR push_bit 24 (word_of_int (byte_of 3 (r 6)))"
    by (simp add: r'_def PushRGBFromMAC_def case_prod_beta Let_def truncate_rgb(1) rgb_limit_def)
  from byte_of_packed [OF lim lim lim c, of "MAC 1 r" "MAC 2 r" "MAC 3 r", folded this]
  show "byte_of 0 (r' 22) = rgb_limit (MAC 1 r)" "byte_of 1 (r' 22) = rgb_limit (MAC 2 r)"
    "byte_of 2 (r' 22) = rgb_limit (MAC 3 r)" "byte_of 3 (r' 22) = byte_of 3 (r 6)" .
  show "r' 21 = r 22" "r' 20 = r 21" "j \<notin> {20, 21, 22, 63} \<Longrightarrow> r' j = r j"
    by (simp_all add: r'_def PushRGBFromMAC_def case_prod_beta Let_def truncate_rgb(2))
qed

subsection \<open>The projection\<close>

lemma s16_packed:
  assumes "- (2 ^ 15) \<le> x" "x < 2 ^ 15" "- (2 ^ 15) \<le> y" "y < 2 ^ 15"
  shows "s16_lo ((word_of_int x AND 0xFFFF) OR push_bit 16 (word_of_int y)) = x"
    and "s16_hi ((word_of_int x AND 0xFFFF) OR push_bit 16 (word_of_int y)) = y"
proof -
  have m: "word_of_int x AND 0xFFFF = (take_bit 16 (word_of_int x) :: u32)"
    by (simp add: take_bit_eq_mask mask_eq_exp_minus_1)
  have "(ucast ((word_of_int x AND 0xFFFF) OR push_bit 16 (word_of_int y) :: u32) :: s16) = word_of_int x"
    "(ucast (drop_bit 16 ((word_of_int x AND 0xFFFF) OR push_bit 16 (word_of_int y) :: u32)) :: s16) = word_of_int y"
    unfolding m by (rule bit_word_eqI; auto simp: bit_simps)+
  then show "s16_lo ((word_of_int x AND 0xFFFF) OR push_bit 16 (word_of_int y)) = x"
    "s16_hi ((word_of_int x AND 0xFFFF) OR push_bit 16 (word_of_int y)) = y"
    using assms wrap_s16_id [of x] wrap_s16_id [of y]
    by (simp_all only: s16_lo_def s16_hi_def sint_sbintrunc') (simp_all add: wrap_s16_def sext_def)
qed

definition screen_limit :: "int \<Rightarrow> int" where
  "screen_limit v = clamp v (- 1024) 1023"

lemma screen_limit_bounds: "- 1024 \<le> screen_limit v" "screen_limit v \<le> 1023"
  by (auto simp: screen_limit_def clamp_def)

lemma pushed_sxy:
  "s16_lo (PushSXY x y r 14) = screen_limit x" "s16_hi (PushSXY x y r 14) = screen_limit y"
  "PushSXY x y r 13 = r 14" "PushSXY x y r 12 = r 13" "j \<notin> {12, 13, 14, 63} \<Longrightarrow> PushSXY x y r j = r j"
proof -
  have "PushSXY x y r 14 = (word_of_int (screen_limit x) AND 0xFFFF) OR push_bit 16 (word_of_int (screen_limit y))"
    by (simp add: PushSXY_def Let_def screen_limit_def clamp_def)
  then show "s16_lo (PushSXY x y r 14) = screen_limit x" "s16_hi (PushSXY x y r 14) = screen_limit y"
    using s16_packed [of "screen_limit x" "screen_limit y"] screen_limit_bounds [of x] screen_limit_bounds [of y]
    by simp_all
qed (auto simp: PushSXY_def Let_def)

lemma push_sxy_flag:
  "gte_flag n (PushSXY x y r) = (gte_flag n r \<or> n = 14 \<and> screen_limit x \<noteq> x \<or> n = 13 \<and> screen_limit y \<noteq> y)"
  by (auto simp: PushSXY_def Let_def screen_limit_def clamp_def)

lemma push_sz_other: "j \<notin> {16, 17, 18, 19, 63} \<Longrightarrow> PushSZ v r j = r j"
  by (auto simp: PushSZ_def Let_def)

lemma push_sz_flag: "n \<noteq> 18 \<Longrightarrow> gte_flag n (PushSZ v r) = gte_flag n r"
  by (simp add: PushSZ_def Let_def)

lemma divide_other: "j \<noteq> 63 \<Longrightarrow> snd (UNRDivide h z r) j = r j"
  by (simp add: UNRDivide_def Let_def)

lemma divide_flag: "gte_flag n (snd (UNRDivide h z r)) = (gte_flag n r \<or> n = 17 \<and> z * 2 \<le> h)"
  by (auto simp: UNRDivide_def Let_def)

lemma divide_value: "fst (UNRDivide h z r) = fst (UNRDivide h z r')"
  by (simp add: UNRDivide_def Let_def)

lemma mac0_flag: "gte_flag n (CheckMACOverflow 0 v r) =
    (gte_flag n r \<or> n = 15 \<and> v < - (2 ^ 31) \<or> n = 16 \<and> 2 ^ 31 \<le> v)"
  by (auto simp: CheckMACOverflow_def MAC_MIN_VALUE_def MAC_MAX_VALUE_def mac_underflow_flag_def mac_overflow_flag_def)

lemma set_ir0_other: "j \<notin> {8, 63} \<Longrightarrow> TruncateAndSetIR 0 v lm r j = r j"
  by (auto simp: TruncateAndSetIR_def Let_def)

lemma set_ir0_flag: "n \<noteq> 12 \<Longrightarrow> gte_flag n (TruncateAndSetIR 0 v lm r) = gte_flag n r"
  by (auto simp: TruncateAndSetIR_def Let_def ir_saturated_flag_def)

lemma depth_other: "j \<notin> {8, 24, 63} \<Longrightarrow> rtps_depth q r j = r j"
  by (auto simp: rtps_depth_def Let_def TruncateAndSetMAC_def set_ir0_other)

lemma depth_flag: "n \<notin> {12, 15, 16} \<Longrightarrow> gte_flag n (rtps_depth q r) = gte_flag n r"
  by (auto simp: rtps_depth_def Let_def TruncateAndSetMAC_def set_ir0_flag mac0_flag)

lemma dot_snd: "j \<noteq> 63 \<Longrightarrow> snd (dot3_translated M T V i r) j = r j"
  by (simp add: dot3_translated_def case_prod_beta)

lemma dot_flag: "i \<le> 2 \<Longrightarrow> n < 22 \<Longrightarrow> gte_flag n (snd (dot3_translated M T V i r)) = gte_flag n r"
  by (auto simp: dot3_translated_def case_prod_beta check_flag)

lemma set_mac_other: "j \<notin> {24 + i, 63} \<Longrightarrow> TruncateAndSetMAC i v shift r j = r j"
  by (simp add: TruncateAndSetMAC_def)

lemma set_mac_flag: "0 < i \<Longrightarrow> i \<le> 3 \<Longrightarrow> n < 22 \<Longrightarrow> gte_flag n (TruncateAndSetMAC i v shift r) = gte_flag n r"
  by (auto simp: TruncateAndSetMAC_def check_flag)

lemma rotate_other: "j \<notin> {9, 10, 11, 25, 26, 27, 63} \<Longrightarrow> snd (rtps_rotate V shift lm r) j = r j"
  by (auto simp: rtps_rotate_def case_prod_beta Let_def set_ir_reg set_mac_other dot_snd)

lemma rotate_flag: "n < 22 \<Longrightarrow> gte_flag n (snd (rtps_rotate V shift lm r)) = gte_flag n r"
  by (simp add: rtps_rotate_def case_prod_beta Let_def set_ir_flag set_mac_flag dot_flag)

lemma screen_cong:
  "r 9 = r' 9 \<Longrightarrow> r 56 = r' 56 \<Longrightarrow> screen_x a q r = screen_x a q r'"
  "r 10 = r' 10 \<Longrightarrow> r 57 = r' 57 \<Longrightarrow> screen_y q r = screen_y q r'"
proof -
  have "IR 1 r = IR 1 r'" "gte_word 56 r 0 = gte_word 56 r' 0" if "r 9 = r' 9" "r 56 = r' 56"
    using that by (simp_all add: IR_def gte_word_def)
  then show "r 9 = r' 9 \<Longrightarrow> r 56 = r' 56 \<Longrightarrow> screen_x a q r = screen_x a q r'"
    unfolding screen_x_def by (simp only:)
qed (simp add: screen_y_def IR_def gte_word_def)

text \<open>The quotient and the screen position that the registers after a transformation stand for.\<close>

definition projection :: "gte_regs \<Rightarrow> int" where
  "projection r = uint (fst (UNRDivide (zero_extend16 (r 58)) (zero_extend16 (r 19)) r))"

definition screen_pos :: "aspect_ratio \<Rightarrow> gte_regs \<Rightarrow> int \<times> int" where
  "screen_pos a r =
     (wrap_s32 (drop_bit 16 (screen_x a (projection r) r)), wrap_s32 (drop_bit 16 (screen_y (projection r) r)))"

lemma screen_pos_cong:
  assumes "\<And>j. j \<in> {9, 10, 19, 56, 57, 58} \<Longrightarrow> r j = r' j"
  shows "screen_pos a r = screen_pos a r'" "projection r = projection r'"
proof -
  show p: "projection r = projection r'"
    using assms divide_value [of _ _ r r'] by (simp add: projection_def)
  show "screen_pos a r = screen_pos a r'"
    using assms screen_cong(1) [of r r'] screen_cong(2) [of r r'] by (simp add: screen_pos_def p)
qed

lemma project:
  assumes "rtps_project a z r = (q, r')"
  shows "q = projection r'"
    and "s16_lo (r' 14) = screen_limit (fst (screen_pos a r'))" "s16_hi (r' 14) = screen_limit (snd (screen_pos a r'))"
    and "r' 13 = r 14" "r' 12 = r 13"
    and "gte_flag 14 r' = (gte_flag 14 r \<or> screen_limit (fst (screen_pos a r')) \<noteq> fst (screen_pos a r'))"
    and "gte_flag 13 r' = (gte_flag 13 r \<or> screen_limit (snd (screen_pos a r')) \<noteq> snd (screen_pos a r'))"
    and "gte_flag 17 r' = (gte_flag 17 r \<or> zero_extend16 (r' 19) * 2 \<le> zero_extend16 (r' 58))"
    and "\<And>j. j \<in> {0, 1, 2, 3, 4, 5} \<Longrightarrow> r' j = r j"
proof -
  define r1 where "r1 = PushSZ (wrap_s32 (drop_bit 12 z)) r"
  define d where "d = UNRDivide (zero_extend16 (r1 58)) (zero_extend16 (r1 19)) r1"
  define x where "x = screen_x a (uint (fst d)) (snd d)"
  define y where "y = screen_y (uint (fst d)) (snd d)"
  define r4 where "r4 = CheckMACOverflow 0 y (CheckMACOverflow 0 x (snd d))"
  have "rtps_project a z r = (uint (fst d), PushSXY (wrap_s32 (drop_bit 16 x)) (wrap_s32 (drop_bit 16 y)) r4)"
    unfolding rtps_project_def Let_def case_prod_beta r1_def d_def x_def y_def r4_def ..
  with assms have r': "r' = PushSXY (wrap_s32 (drop_bit 16 x)) (wrap_s32 (drop_bit 16 y)) r4"
    and q: "q = uint (fst d)" by simp_all
  have same: "j \<notin> {12, 13, 14, 63} \<Longrightarrow> r' j = r1 j" for j
    by (simp add: r' pushed_sxy(5) r4_def d_def divide_other)
  have d2: "snd d j = r1 j" if "j \<noteq> 63" for j using that by (simp add: d_def divide_other)
  show pq: "q = projection r'"
    using same divide_value [of _ _ r1 r'] by (simp add: q d_def projection_def)
  have "x = screen_x a (projection r') r'" "y = screen_y (projection r') r'"
    unfolding x_def y_def q [symmetric] pq
    by (intro screen_cong; simp add: same d2)+
  then have pos: "screen_pos a r' = (wrap_s32 (drop_bit 16 x), wrap_s32 (drop_bit 16 y))"
    by (simp add: screen_pos_def)
  show "s16_lo (r' 14) = screen_limit (fst (screen_pos a r'))" "s16_hi (r' 14) = screen_limit (snd (screen_pos a r'))"
    unfolding pos by (simp_all add: r' pushed_sxy)
  have "r4 14 = r 14" "r4 13 = r 13" by (simp_all add: r4_def d2 r1_def push_sz_other)
  then show "r' 13 = r 14" "r' 12 = r 13" by (simp_all add: r' pushed_sxy)
  have f: "gte_flag n r' = (gte_flag n r1 \<or> n = 17 \<and> zero_extend16 (r1 19) * 2 \<le> zero_extend16 (r1 58) \<or>
      n = 14 \<and> screen_limit (fst (screen_pos a r')) \<noteq> fst (screen_pos a r') \<or>
      n = 13 \<and> screen_limit (snd (screen_pos a r')) \<noteq> snd (screen_pos a r'))" if "n \<notin> {15, 16}" for n
    using that unfolding pos by (auto simp: r' push_sxy_flag r4_def mac0_flag d_def divide_flag)
  have g: "n \<noteq> 18 \<Longrightarrow> gte_flag n r1 = gte_flag n r" for n by (simp add: r1_def push_sz_flag)
  show "gte_flag 14 r' = (gte_flag 14 r \<or> screen_limit (fst (screen_pos a r')) \<noteq> fst (screen_pos a r'))"
    "gte_flag 13 r' = (gte_flag 13 r \<or> screen_limit (snd (screen_pos a r')) \<noteq> snd (screen_pos a r'))"
    "gte_flag 17 r' = (gte_flag 17 r \<or> zero_extend16 (r' 19) * 2 \<le> zero_extend16 (r' 58))"
    by (simp_all add: f g same)
  show "\<And>j. j \<in> {0, 1, 2, 3, 4, 5} \<Longrightarrow> r' j = r j"
    using same by (auto simp: r1_def push_sz_other)
qed

lemma transformed:
  fixes a V shift lm b r
  defines "r' \<equiv> RTPS a V shift lm b r"
  shows "s16_lo (r' 14) = screen_limit (fst (screen_pos a r'))" "s16_hi (r' 14) = screen_limit (snd (screen_pos a r'))"
    and "r' 13 = r 14" "r' 12 = r 13"
    and "gte_flag 14 r' = (gte_flag 14 r \<or> screen_limit (fst (screen_pos a r')) \<noteq> fst (screen_pos a r'))"
    and "gte_flag 13 r' = (gte_flag 13 r \<or> screen_limit (snd (screen_pos a r')) \<noteq> snd (screen_pos a r'))"
    and "gte_flag 17 r' = (gte_flag 17 r \<or> zero_extend16 (r' 19) * 2 \<le> zero_extend16 (r' 58))"
    and "\<And>j. j \<in> {0, 1, 2, 3, 4, 5} \<Longrightarrow> r' j = r j"
proof -
  define r1 where "r1 = snd (rtps_rotate V shift lm r)"
  obtain q r2 where p: "rtps_project a (fst (rtps_rotate V shift lm r)) r1 = (q, r2)" by fastforce
  note P = project [OF p]
  have r': "r' = (if b then rtps_depth q r2 else r2)"
    using p by (simp add: r'_def RTPS_def case_prod_beta Let_def r1_def)
  have same: "j \<notin> {8, 24, 63} \<Longrightarrow> r' j = r2 j" for j by (simp add: r' depth_other)
  have flags: "n \<notin> {12, 15, 16} \<Longrightarrow> gte_flag n r' = gte_flag n r2" for n by (simp add: r' depth_flag)
  have pos: "screen_pos a r' = screen_pos a r2" by (rule screen_pos_cong) (auto simp: same)
  have r1: "j \<notin> {9, 10, 11, 25, 26, 27, 63} \<Longrightarrow> r1 j = r j" "n < 22 \<Longrightarrow> gte_flag n r1 = gte_flag n r" for j n
    by (simp_all add: r1_def rotate_other rotate_flag)
  show "s16_lo (r' 14) = screen_limit (fst (screen_pos a r'))" "s16_hi (r' 14) = screen_limit (snd (screen_pos a r'))"
    "r' 13 = r 14" "r' 12 = r 13"
    "gte_flag 14 r' = (gte_flag 14 r \<or> screen_limit (fst (screen_pos a r')) \<noteq> fst (screen_pos a r'))"
    "gte_flag 13 r' = (gte_flag 13 r \<or> screen_limit (snd (screen_pos a r')) \<noteq> snd (screen_pos a r'))"
    "gte_flag 17 r' = (gte_flag 17 r \<or> zero_extend16 (r' 19) * 2 \<le> zero_extend16 (r' 58))"
    by (simp_all add: same flags pos P(2-8) r1)
  show "\<And>j. j \<in> {0, 1, 2, 3, 4, 5} \<Longrightarrow> r' j = r j"
    using P(9) r1 same by auto
qed

subsection \<open>Three vertices and their winding\<close>

definition on_screen :: "u32 \<Rightarrow> bool" where
  "on_screen w \<longleftrightarrow> - 1024 \<le> s16_lo w \<and> s16_lo w \<le> 1023 \<and> - 1024 \<le> s16_hi w \<and> s16_hi w \<le> 1023"

lemma transformed_on_screen: "on_screen (RTPS a V shift lm b r 14)"
  using screen_limit_bounds by (simp add: on_screen_def transformed(1,2))

lemma triangle_on_screen:
  fixes a w r
  defines "t \<equiv> Execute_RTPT a w r"
  shows "on_screen (t 12)" "on_screen (t 13)" "on_screen (t 14)"
  by (simp_all add: t_def Execute_RTPT_def Let_def transformed(3,4) transformed_on_screen)

text \<open>Twice the signed area of the triangle on the screen.\<close>

definition winding :: "gte_regs \<Rightarrow> int" where
  "winding r =
     (s16_lo (r 13) - s16_lo (r 12)) * (s16_hi (r 14) - s16_hi (r 12)) -
     (s16_lo (r 14) - s16_lo (r 12)) * (s16_hi (r 13) - s16_hi (r 12))"

lemma winding_bound:
  assumes "on_screen (r 12)" "on_screen (r 13)" "on_screen (r 14)"
  shows "\<bar>winding r\<bar> \<le> 2 * (2047 * 2047)"
proof -
  have d: "\<bar>a - b\<bar> \<le> 2047" if "- 1024 \<le> a" "a \<le> 1023" "- 1024 \<le> b" "b \<le> 1023" for a b :: int
    using that by linarith
  have m: "\<bar>a * b\<bar> \<le> 2047 * 2047" if "\<bar>a\<bar> \<le> 2047" "\<bar>b\<bar> \<le> 2047" for a b :: int
    using that by (simp only: abs_mult) (intro mult_mono; simp)
  have "\<bar>(s16_lo (r 13) - s16_lo (r 12)) * (s16_hi (r 14) - s16_hi (r 12))\<bar> \<le> 2047 * 2047"
    "\<bar>(s16_lo (r 14) - s16_lo (r 12)) * (s16_hi (r 13) - s16_hi (r 12))\<bar> \<le> 2047 * 2047"
    using assms by (intro m d; simp add: on_screen_def)+
  then show ?thesis unfolding winding_def by linarith
qed

lemma nclip_winding:
  assumes "on_screen (r 12)" "on_screen (r 13)" "on_screen (r 14)"
  shows "MAC 0 (Execute_NCLIP w r) = winding r" "Execute_NCLIP w r 63 = 0"
proof -
  have e: "s16_lo (r 12) * s16_hi (r 13) + s16_lo (r 13) * s16_hi (r 14) + s16_lo (r 14) * s16_hi (r 12) -
      s16_lo (r 12) * s16_hi (r 14) - s16_lo (r 13) * s16_hi (r 12) - s16_lo (r 14) * s16_hi (r 13) = winding r"
    by (simp add: winding_def algebra_simps)
  have b: "- (2 ^ 31) \<le> winding r" "winding r < 2 ^ 31" using winding_bound [OF assms] by simp_all
  have c: "FLAG_Clear r 12 = r 12" "FLAG_Clear r 13 = r 13" "FLAG_Clear r 14 = r 14" by simp_all
  have "Execute_NCLIP w r = FLAG_UpdateError (TruncateAndSetMAC 0 (winding r) 0 (FLAG_Clear r))"
    unfolding Execute_NCLIP_def Let_def c e ..
  moreover have "TruncateAndSetMAC 0 (winding r) 0 (FLAG_Clear r) = (FLAG_Clear r)(24 := word_of_int (winding r))"
    using b by (simp add: TruncateAndSetMAC_def CheckMACOverflow_def MAC_MIN_VALUE_def MAC_MAX_VALUE_def)
  ultimately have N: "Execute_NCLIP w r = FLAG_UpdateError ((FLAG_Clear r)(24 := word_of_int (winding r)))" by simp
  show "MAC 0 (Execute_NCLIP w r) = winding r"
    unfolding N MAC_def using b by (simp add: sint_word_wrap_s32 wrap_s32_id)
  show "Execute_NCLIP w r 63 = 0"
    unfolding N by (rule bit_word_eqI) (simp add: FLAG_UpdateError_def FLAG_Clear_def bit_bf_set)
qed

end
