(* ===== verification/GteCompiled.thy ===== *)
theory GteCompiled
  imports GteSpec
begin

text \<open>
  How the recompiler (\<open>src/core/cpu_recompiler_code_generator.cpp\<close>) reaches the geometry engine:
  it copies the register accesses, calls the functions of \<open>GetInstructionImpl\<close> with the low 20 bits of
  the instruction, and schedules the ticks of the commands while it compiles. What it emits is a
  function on the state of the machine here, and the constants it computes while compiling are the
  record \<open>gte_schedule\<close>.
\<close>

subsection \<open>Register accesses\<close>

definition DoGTERegisterRead :: "nat \<Rightarrow> gte_regs \<Rightarrow> u32" where
  "DoGTERegisterRead i r =
     (let index = (if i = 15 then 14 else i)
      in if index = 28 \<or> index = 29 then GTE_ReadRegister index r else r index)"

definition DoGTERegisterWrite :: "nat \<Rightarrow> u32 \<Rightarrow> gte_regs \<Rightarrow> gte_regs" where
  "DoGTERegisterWrite i v r =
     (if i \<in> set [1, 3, 5, 8, 9, 10, 11, 36, 44, 52, 58, 59, 61, 62] then r(i := scast (ucast v :: s16))
      else if i \<in> set [7, 16, 17, 18, 19] then r(i := ucast (ucast v :: u16))
      else if i = 15 then r(12 := r 13, 13 := r 14, 14 := v)
      else if i = 28 \<or> i = 30 \<or> i = 63 then GTE_WriteRegister i v r
      else if i = 29 \<or> i = 31 then r
      else r(i := v))"

subsection \<open>The ticks of a block\<close>

record gte_schedule =
  m_delayed_cycles_add :: tick_count
  m_gte_done_cycle :: tick_count
  m_gte_busy_cycles_dirty :: bool

type_synonym 'a compiled = "gte_schedule \<times> 'a cpu_state_scheme"

definition AddPendingCycles :: "bool \<Rightarrow> 'a compiled \<Rightarrow> 'a compiled" where
  "AddPendingCycles commit c =
     (let (g, s) = c; delayed = m_delayed_cycles_add g; done = m_gte_done_cycle g in
      if delayed = 0 \<and> done \<le> delayed then (g, s)
      else
        (if commit then g\<lparr>m_gte_done_cycle := max (done - delayed) 0, m_delayed_cycles_add := 0\<rparr> else g,
         if delayed < done then
           (if 0 < delayed
            then s\<lparr>pending_ticks := pending_ticks s + delayed,
                   gte_completion_tick := pending_ticks s + delayed + (done - delayed)\<rparr>
            else s\<lparr>gte_completion_tick := pending_ticks s + done\<rparr>)
         else s\<lparr>pending_ticks := pending_ticks s + delayed\<rparr>))"

text \<open>The part of \<open>InstructionPrologue\<close> that counts cycles.\<close>

definition InstructionPrologue_cycles :: "tick_count \<Rightarrow> bool \<Rightarrow> 'a compiled \<Rightarrow> 'a compiled" where
  "InstructionPrologue_cycles cycles force_sync c =
     (let (g, s) = c; c1 = (g\<lparr>m_delayed_cycles_add := m_delayed_cycles_add g + cycles\<rparr>, s)
      in if force_sync then AddPendingCycles True c1 else c1)"

definition compiled_AddGTETicks :: "tick_count \<Rightarrow> 'a compiled \<Rightarrow> 'a compiled" where
  "compiled_AddGTETicks ticks c =
     (let (g, s) = c in (g\<lparr>m_gte_done_cycle := m_delayed_cycles_add g + ticks\<rparr>, s))"

definition EmitStallUntilGTEComplete :: "'a compiled \<Rightarrow> 'a compiled" where
  "EmitStallUntilGTEComplete c =
     (let (g, s) = c;
          now = (if 0 < m_delayed_cycles_add g then pending_ticks s + m_delayed_cycles_add g else pending_ticks s)
      in (if 0 < m_delayed_cycles_add g then g\<lparr>m_delayed_cycles_add := 0\<rparr> else g,
          s\<lparr>pending_ticks := (if now < gte_completion_tick s then gte_completion_tick s else now)\<rparr>))"

definition compiled_StallUntilGTEComplete :: "'a compiled \<Rightarrow> 'a compiled" where
  "compiled_StallUntilGTEComplete c =
     (let (g, s) = c in
      if \<not> m_gte_busy_cycles_dirty g then
        (if m_delayed_cycles_add g < m_gte_done_cycle g
         then (g\<lparr>m_delayed_cycles_add := m_delayed_cycles_add g + (m_gte_done_cycle g - m_delayed_cycles_add g)\<rparr>, s)
         else (g, s))
      else
        (let (g1, s1) = EmitStallUntilGTEComplete c
         in (g1\<lparr>m_gte_done_cycle := 0, m_gte_busy_cycles_dirty := False\<rparr>, s1)))"

text \<open>
  What a block does to the clock of the geometry engine: instructions that take a fixed number of
  cycles and may synchronise the clock, register accesses, and commands with their ticks.
\<close>

datatype gte_timing = CpuCycles tick_count bool | GteAccess | GteCommand tick_count

fun compiled_timing :: "gte_timing \<Rightarrow> 'a compiled \<Rightarrow> 'a compiled" where
  "compiled_timing (CpuCycles n sync) c = InstructionPrologue_cycles n sync c"
| "compiled_timing GteAccess c = InstructionPrologue_cycles 1 False (compiled_StallUntilGTEComplete c)"
| "compiled_timing (GteCommand ticks) c =
     compiled_AddGTETicks ticks (InstructionPrologue_cycles 1 False (compiled_StallUntilGTEComplete c))"

text \<open>A block starts with a new generator whose \<open>BlockPrologue\<close> marks the schedule as unknown.\<close>

definition compiled_block :: "gte_timing list \<Rightarrow> 'a cpu_state_scheme \<Rightarrow> 'a cpu_state_scheme" where
  "compiled_block ts s =
     snd (AddPendingCycles True (fold compiled_timing ts
       (\<lparr>m_delayed_cycles_add = 0, m_gte_done_cycle = 0, m_gte_busy_cycles_dirty = True\<rparr>, s)))"

fun interpreted_timing :: "gte_timing \<Rightarrow> 'a cpu_state_scheme \<Rightarrow> 'a cpu_state_scheme" where
  "interpreted_timing (CpuCycles n sync) s = AddPendingTicks n s"
| "interpreted_timing GteAccess s = StallUntilGTEComplete (AddPendingTicks 1 s)"
| "interpreted_timing (GteCommand ticks) s = AddGTETicks ticks (StallUntilGTEComplete (AddPendingTicks 1 s))"

subsection \<open>The schedule agrees with the interpreter\<close>

text \<open>
  The interpreter counts the instruction before it waits, the compiled code after it: the same time is
  on the clock, and the engine is free one tick later for the interpreter.
\<close>

definition same_gte_time :: "'a cpu_state_scheme \<Rightarrow> 'a cpu_state_scheme \<Rightarrow> bool" where
  "same_gte_time c i \<longleftrightarrow>
     pending_ticks c = pending_ticks i \<and>
     max (gte_completion_tick i) (pending_ticks i + 1) = max (gte_completion_tick c) (pending_ticks c) + 1"

fun schedule_rel :: "'a compiled \<Rightarrow> 'a cpu_state_scheme \<Rightarrow> bool" where
  "schedule_rel (g, c) i \<longleftrightarrow>
     0 \<le> m_delayed_cycles_add g \<and> 0 \<le> m_gte_done_cycle g \<and>
     pending_ticks i = pending_ticks c + m_delayed_cycles_add g \<and>
     (if m_gte_busy_cycles_dirty g
      then m_gte_done_cycle g = 0 \<and>
        max (gte_completion_tick i) (pending_ticks i + 1) = max (gte_completion_tick c) (pending_ticks i) + 1
      else max (gte_completion_tick i) (pending_ticks i + 1)
             = pending_ticks c + max (m_gte_done_cycle g) (m_delayed_cycles_add g) + 1 \<and>
           gte_completion_tick c \<le> pending_ticks c + max (m_gte_done_cycle g) (m_delayed_cycles_add g))"

fun timing_ok :: "gte_timing \<Rightarrow> bool" where
  "timing_ok (CpuCycles n sync) \<longleftrightarrow> 0 \<le> n"
| "timing_ok GteAccess \<longleftrightarrow> True"
| "timing_ok (GteCommand ticks) \<longleftrightarrow> 0 \<le> ticks"

lemmas timing_defs = InstructionPrologue_cycles_def AddPendingCycles_def compiled_AddGTETicks_def
  compiled_StallUntilGTEComplete_def EmitStallUntilGTEComplete_def AddPendingTicks_def
  StallUntilGTEComplete_def AddGTETicks_def Let_def

lemma schedule_rel_sync: "schedule_rel c i \<Longrightarrow> schedule_rel (AddPendingCycles True c) i"
  by (cases c) (auto simp: AddPendingCycles_def Let_def max_def split: if_splits)

lemma schedule_rel_cycles:
  assumes "schedule_rel c i" and "0 \<le> n"
  shows "schedule_rel (InstructionPrologue_cycles n sync c) (AddPendingTicks n i)"
proof -
  have *: "schedule_rel (InstructionPrologue_cycles n False c) (AddPendingTicks n i)"
    using assms by (cases c) (auto simp: InstructionPrologue_cycles_def AddPendingTicks_def Let_def max_def split: if_splits)
  have sync: "InstructionPrologue_cycles n True c = AddPendingCycles True (InstructionPrologue_cycles n False c)"
    by (simp add: InstructionPrologue_cycles_def Let_def case_prod_beta)
  show ?thesis
  proof (cases sync)
    case True
    then show ?thesis using schedule_rel_sync [OF *] sync by (simp only: True)
  next
    case False
    then show ?thesis using * by (simp only: False)
  qed
qed

lemma schedule_rel_stall:
  assumes "schedule_rel c i"
  shows "schedule_rel (InstructionPrologue_cycles 1 False (compiled_StallUntilGTEComplete c))
    (StallUntilGTEComplete (AddPendingTicks 1 i))"
    and "\<not> m_gte_busy_cycles_dirty (fst (InstructionPrologue_cycles 1 False (compiled_StallUntilGTEComplete c)))"
  using assms by (cases c; auto simp: timing_defs max_def split: if_splits)+

lemma schedule_rel_command:
  assumes "schedule_rel c i" and "0 \<le> ticks" and "\<not> m_gte_busy_cycles_dirty (fst c)"
    and "gte_completion_tick i \<le> pending_ticks i + 1"
  shows "schedule_rel (compiled_AddGTETicks ticks c) (AddGTETicks ticks i)"
  using assms by (cases c) (auto simp: timing_defs max_def split: if_splits)

lemma stalled: "gte_completion_tick (StallUntilGTEComplete s) \<le> pending_ticks (StallUntilGTEComplete s) + 1"
  by (simp add: StallUntilGTEComplete_def)

lemma schedule_rel_step:
  "schedule_rel c i \<Longrightarrow> timing_ok t \<Longrightarrow> schedule_rel (compiled_timing t c) (interpreted_timing t i)"
  by (cases t) (simp_all add: schedule_rel_cycles schedule_rel_stall schedule_rel_command stalled)

lemma schedule_rel_fold:
  "schedule_rel c i \<Longrightarrow> list_all timing_ok ts \<Longrightarrow>
    schedule_rel (fold compiled_timing ts c) (fold interpreted_timing ts i)"
  by (induction ts arbitrary: c i) (simp_all add: schedule_rel_step)

lemma schedule_rel_end: "schedule_rel c i \<Longrightarrow> same_gte_time (snd (AddPendingCycles True c)) i"
  by (cases c) (auto simp: AddPendingCycles_def same_gte_time_def Let_def max_def split: if_splits)

lemma schedule_rel_start:
  "same_gte_time s i \<Longrightarrow>
    schedule_rel (\<lparr>m_delayed_cycles_add = 0, m_gte_done_cycle = 0, m_gte_busy_cycles_dirty = True\<rparr>, s) i"
  by (simp add: same_gte_time_def)

end
