(* ===== verification/GteClaims.thy ===== *)
theory GteClaims
  imports GteDivide GteTransform GteCompiled EventClaims
begin

text \<open>
  The properties of the geometry engine: the format of its registers, the accuracy of its division,
  the exactness of its products, the screen positions and the winding of triangles, the colours, and
  the agreement of the recompiler with the interpreter.
\<close>

subsection \<open>Registers\<close>

text \<open>
  C12: whatever command the CPU runs, the registers keep their format: sign or zero extended 16-bit
  registers, the unused bits of \<open>FLAG\<close>, and the error bit of \<open>FLAG\<close>, which is set exactly when one of
  the bits 30 to 23 and 18 to 13 is. The vectors, the matrices, \<open>RGBC\<close> and every other register that is
  only an input of the commands are as before.
\<close>

theorem gte_command_keeps:
  assumes "gte_inv (gte_regs s)"
  shows "gte_inv (gte_regs (gte_ExecuteInstruction w s)) \<and>
    same_inputs (gte_regs s) (gte_regs (gte_ExecuteInstruction w s))"
proof -
  have "gte_ExecuteInstruction w s = s \<or>
      (\<exists>ticks f. GetInstructionImpl w (gte_aspect s) = Some (ticks, f) \<and>
        gte_regs (gte_ExecuteInstruction w s) = f w (gte_regs s))"
    by (auto simp: gte_ExecuteInstruction_impl split: option.split)
  then show ?thesis
    using assms inputs.command [OF _ same_inputs_refl] by (auto simp: gte_inv_execute same_inputs_refl)
qed

subsection \<open>What a register reads after a write\<close>

lemma s16_lo_sext: "s16_lo (sign_extend16 w) = s16_lo w"
proof -
  have "(ucast (sign_extend16 w) :: s16) = ucast w"
    unfolding sign_extend16_def by (rule bit_word_eqI) (auto simp: bit_simps)
  then show ?thesis by (simp add: s16_lo_def)
qed

lemma orgb_field_component:
  fixes x :: u32
  assumes "unat x < 32"
  shows "orgb_field (s16_lo (sign_extend16 (x * 0x80))) = x"
proof -
  have u: "unat (x * 0x80) = unat x * 128"
    using assms by (simp add: unat_word_ariths)
  have x: "x * 0x80 = word_of_int (int (unat x) * 128)"
    using arg_cong [OF u, of "\<lambda>n. word_of_int (int n) :: u32"] by simp
  have "s16_lo (word_of_int (int n * 128)) = int n * 128" if "n < 32" for n
    using that by (simp only: s16_lo_word_of_int) (simp add: wrap_s16_id)
  then have "s16_lo (x * 0x80) = int (unat x) * 128" unfolding x using assms .
  then have "orgb_field (s16_lo (sign_extend16 (x * 0x80))) = word_of_int (clamp (int (unat x)) 0 31)"
    by (simp add: orgb_field_def s16_lo_sext cdiv_nonneg)
  also have "clamp (int n) 0 31 = int n" if "n < 32" for n using that by simp
  from this [OF assms] have "clamp (int (unat x)) 0 31 = int (unat x)" .
  finally show ?thesis by simp
qed

lemma color_components:
  "(v AND 0x1F) OR push_bit 5 (drop_bit 5 v AND 0x1F) OR push_bit 10 (drop_bit 10 v AND 0x1F) = (v AND 0x7FFF :: u32)"
proof -
  have m: "v AND 0x1F = take_bit 5 v" "v AND 0x7FFF = take_bit 15 v" for v :: u32
    by (simp_all add: take_bit_eq_mask mask_eq_exp_minus_1)
  show ?thesis unfolding m
  proof (rule bit_word_eqI)
    fix n assume "n < LENGTH(32)"
    show "bit (take_bit 5 v OR push_bit 5 (take_bit 5 (drop_bit 5 v)) OR push_bit 10 (take_bit 5 (drop_bit 10 v))) n =
        bit (take_bit 15 v) n"
      by (cases "n < 5"; cases "n < 10") (auto simp: bit_simps)
  qed
qed

text \<open>
  C14: a register reads what was written to it in its format: 16-bit registers extended, \<open>FLAG\<close> without
  its low bits and with the error bit computed, the colour conversion register \<open>IRGB\<close>, which goes
  through the three vector components, its low 15 bits; the read-only registers are unchanged by a write.
\<close>

theorem gte_write_read:
  "GTE_ReadRegister i (GTE_WriteRegister i v r) =
     (if i \<in> set s16_registers then sign_extend16 v
      else if i \<in> set u16_registers then zero_extend16 v
      else if i = 28 then v AND 0x7FFF
      else if i = 29 \<or> i = 31 then GTE_ReadRegister i r
      else if i = 63 then assign_bit 31 (v AND 0x7F87E000 \<noteq> 0) (v AND 0x7FFFF000)
      else v)"
proof -
  have small: "unat (x AND 0x1F) < 32" for x :: u32
    using word_and_le1 [of x "0x1F"] by (simp add: word_le_nat_alt)
  have irgb: "GTE_ReadRegister 28 (GTE_WriteRegister 28 v r) = v AND 0x7FFF"
    using orgb_field_component [OF small, of v] orgb_field_component [OF small, of "drop_bit 5 v"]
      orgb_field_component [OF small, of "drop_bit 10 v"] color_components [of v]
    by (simp add: GTE_WriteRegister_def GTE_ReadRegister_def register_kinds IR_def)
  have flag: "FLAG_UpdateError (r(63 := v AND 0x7FFFF000)) 63 =
      assign_bit 31 (v AND 0x7F87E000 \<noteq> 0) (v AND 0x7FFFF000)"
  proof -
    have "(v AND 0x7FFFF000) AND 0x7F87E000 = v AND 0x7F87E000" by (simp add: and.assoc)
    then show ?thesis using bf_set_assign_bit [of 31 "v AND 0x7F87E000 \<noteq> 0" "v AND 0x7FFFF000"]
      by (simp add: FLAG_UpdateError_def)
  qed
  consider "i \<in> set s16_registers" | "i \<in> set u16_registers" | "i = 28" | "i = 29 \<or> i = 31" | "i = 63" | "i = 15" | "i = 30"
    | "i \<notin> set s16_registers" "i \<notin> set u16_registers" "i \<notin> {15, 28, 29, 30, 31, 63}" by blast
  then show ?thesis
  proof cases
    case 3
    then show ?thesis using irgb by (simp add: register_kinds)
  next
    case 5
    then show ?thesis using flag by (simp add: GTE_ReadRegister_def GTE_WriteRegister_def register_kinds)
  qed (use kinds_disjoint [of i] in \<open>auto simp: GTE_ReadRegister_def GTE_WriteRegister_def\<close>)
qed

subsection \<open>The recompiler\<close>

lemma masked_field: "i + c \<le> 20 \<Longrightarrow> bf_get i c (w AND REQUIRED_BITS_MASK) = bf_get i c w" for w :: u32
proof -
  assume "i + c \<le> 20"
  moreover have "w AND REQUIRED_BITS_MASK = take_bit 20 w"
    by (simp add: REQUIRED_BITS_MASK_def take_bit_eq_mask mask_eq_exp_minus_1)
  ultimately show ?thesis by (intro bit_word_eqI) (auto simp: bit_bf_get bit_take_bit_iff)
qed

lemma masked_instruction:
  "gte_sf (w AND REQUIRED_BITS_MASK) = gte_sf w" "gte_lm (w AND REQUIRED_BITS_MASK) = gte_lm w"
  "mvmva_multiply_matrix (w AND REQUIRED_BITS_MASK) = mvmva_multiply_matrix w"
  "mvmva_multiply_vector (w AND REQUIRED_BITS_MASK) = mvmva_multiply_vector w"
  "mvmva_translation_vector (w AND REQUIRED_BITS_MASK) = mvmva_translation_vector w"
proof -
  have b: "bf_get_bool i c v = (bf_get i c v \<noteq> 0)" for i c and v :: u32
    by (simp add: bf_get_bool_def bf_get_def)
  show "gte_sf (w AND REQUIRED_BITS_MASK) = gte_sf w" "gte_lm (w AND REQUIRED_BITS_MASK) = gte_lm w"
    "mvmva_multiply_matrix (w AND REQUIRED_BITS_MASK) = mvmva_multiply_matrix w"
    "mvmva_multiply_vector (w AND REQUIRED_BITS_MASK) = mvmva_multiply_vector w"
    "mvmva_translation_vector (w AND REQUIRED_BITS_MASK) = mvmva_translation_vector w"
    unfolding gte_sf_def gte_lm_def mvmva_multiply_matrix_def mvmva_multiply_vector_def mvmva_translation_vector_def b
    by (subst masked_field; simp)+
qed

lemma masked_operands:
  "GetShift (w AND REQUIRED_BITS_MASK) = GetShift w" "mvmva_matrix (w AND REQUIRED_BITS_MASK) = mvmva_matrix w"
  "mvmva_vector (w AND REQUIRED_BITS_MASK) = mvmva_vector w"
  by (simp add: GetShift_def masked_instruction, (intro ext, simp add: mvmva_matrix_def mvmva_vector_def masked_instruction)+)

lemma masked_command:
  "GetInstructionImpl w a = Some (ticks, f) \<Longrightarrow> f (w AND REQUIRED_BITS_MASK) r = f w r"
  by (auto simp: GetInstructionImpl_def Let_def masked_instruction masked_operands Execute_MVMVA_def Execute_SQR_def Execute_OP_def Execute_RTPS_def Execute_RTPT_def Execute_NCLIP_def
      Execute_AVSZ3_def Execute_AVSZ4_def Execute_NCS_def Execute_NCT_def Execute_NCCS_def Execute_NCCT_def
      Execute_NCDS_def Execute_NCDT_def once_def thrice_def Execute_CC_def Execute_CDP_def Execute_DPCS_def
      Execute_DPCT_def Execute_DCPL_def Execute_INTPL_def Execute_GPL_def Execute_GPF_def split: if_splits)

text \<open>
  C13: compiled code reaches the same registers as the interpreter: its copies of the register accesses
  agree with \<open>ReadRegister\<close> and \<open>WriteRegister\<close>, and the function and ticks it takes from
  \<open>GetInstructionImpl\<close>, called with the low 20 bits of the instruction only, do what
  \<open>ExecuteInstruction\<close> does; where there is no function, the interpreter does nothing.
\<close>

theorem compiled_gte_agrees:
  "DoGTERegisterRead i r = GTE_ReadRegister i r \<and> DoGTERegisterWrite i v r = GTE_WriteRegister i v r \<and>
   gte_ExecuteInstruction w s =
     (case GetInstructionImpl w (gte_aspect s) of
        Some (ticks, f) \<Rightarrow> (AddGTETicks ticks s)\<lparr>gte_regs := f (w AND REQUIRED_BITS_MASK) (gte_regs s)\<rparr>
      | None \<Rightarrow> s)"
proof -
  have "DoGTERegisterRead i r = GTE_ReadRegister i r"
    by (simp add: DoGTERegisterRead_def GTE_ReadRegister_def Let_def)
  moreover have "DoGTERegisterWrite i v r = GTE_WriteRegister i v r"
    unfolding DoGTERegisterWrite_def s16_registers_def [symmetric] u16_registers_def [symmetric]
    using kinds_disjoint [of i]
    by (auto simp: GTE_WriteRegister_def sign_extend16_def zero_extend16_def)
  ultimately show ?thesis
    by (auto simp: gte_ExecuteInstruction_impl masked_command split: option.split)
qed


definition gte_clock :: "tick_count \<Rightarrow> tick_count \<Rightarrow> cpu_state" where
  "gte_clock now completion = cpu_state.truncate te_boot\<lparr>pending_ticks := now, gte_completion_tick := completion\<rparr>"


subsection \<open>Arithmetic\<close>

text \<open>
  C9: the quotient of the distance to the screen and the depth, which scales every vertex: it is
  saturated with the overflow flag exactly when \<open>H\<close> is at least twice the depth, and otherwise it
  differs from \<open>H * 65536 / SZ3\<close> by at most 8 of its 17 bits' units, with no flag raised.
\<close>

theorem divide_accuracy:
  fixes h z :: u16
  shows "if 2 * unat z \<le> unat h then UNRDivide (ucast h) (ucast z) r = (0x1FFFF, raise_flag 17 r)
    else snd (UNRDivide (ucast h) (ucast z) r) = r \<and>
      \<bar>uint (fst (UNRDivide (ucast h) (ucast z) r)) * uint z - uint h * 2 ^ 16\<bar> \<le> 8 * uint z"
proof -
  have n: "unat x < 2 ^ 16" for x :: u16 by (rule less_le_trans [OF unsigned_less]) simp
  have u: "unat (ucast x :: u32) = unat x" for x :: u16
    unfolding unsigned_ucast_eq by (rule take_bit_nat_eq_self) (use n [of x] in simp)
  then have i: "uint (ucast x :: u32) = uint x" for x :: u16 by (metis of_nat_unat)
  show ?thesis
    using UNRDivide_overflow [of "ucast z" "ucast h" r] UNRDivide_error [of "ucast h" "ucast z" r] n [of h] n [of z]
    by (simp add: u i not_le)
qed







theorem gte_command_keeps_witness:
  "gte_inv (gte_regs (gte_ExecuteInstruction 0x4A180001 (gte_clock 0 0))) \<and>
   same_inputs (gte_regs (gte_clock 0 0)) (gte_regs (gte_ExecuteInstruction 0x4A180001 (gte_clock 0 0)))"
  by (rule gte_command_keeps) (use gte_inv_reset in \<open>simp add: gte_clock_def cpu_state.defs te_boot_def GTE_Reset_def\<close>)

subsection \<open>The screen\<close>

text \<open>
  C11: where a vertex lands. After \<open>RTPS\<close> the newest entry of the screen FIFO is the quotient times the
  rotated coordinates plus the offsets, shifted to whole pixels and limited to -1024..1023, in the
  values that the registers hold at the end; the three flags of the projection say which limit was
  hit and whether the quotient overflowed, and the older entries have moved on by one.
\<close>

theorem screen_position:
  "let r' = Execute_RTPS a w r; (x, y) = screen_pos a r' in
   s16_lo (r' 14) = screen_limit x \<and> s16_hi (r' 14) = screen_limit y \<and> r' 13 = r 14 \<and> r' 12 = r 13 \<and>
   gte_flag 14 r' = (screen_limit x \<noteq> x) \<and> gte_flag 13 r' = (screen_limit y \<noteq> y) \<and>
   gte_flag 17 r' = (zero_extend16 (r' 19) * 2 \<le> zero_extend16 (r' 58))"
proof -
  define q where "q = RTPS a (V_of 0 (FLAG_Clear r)) (GetShift w) (gte_lm w) True (FLAG_Clear r)"
  have e: "Execute_RTPS a w r = FLAG_UpdateError q" by (simp add: Execute_RTPS_def q_def Let_def)
  have pos: "screen_pos a (FLAG_UpdateError q) = screen_pos a q" by (rule screen_pos_cong) auto
  show ?thesis
    unfolding Let_def e pos case_prod_beta
    using transformed [where a = a and V = "V_of 0 (FLAG_Clear r)" and shift = "GetShift w" and lm = "gte_lm w" and b = True
        and r = "FLAG_Clear r", folded q_def] by simp
qed

text \<open>
  C7: back-face culling never overflows. Whatever the registers held, the three vertices that \<open>RTPT\<close>
  leaves in the screen FIFO are within its limits, and \<open>NCLIP\<close> then computes exactly twice the signed
  area of their triangle, with no flag raised.
\<close>

theorem triangle_winding:
  "let t = Execute_RTPT a w r; n = Execute_NCLIP u t in
   on_screen (t 12) \<and> on_screen (t 13) \<and> on_screen (t 14) \<and> MAC 0 n = winding t \<and> n 63 = 0"
  unfolding Let_def
  using triangle_on_screen [where a = a and w = w and r = r] nclip_winding [of "Execute_RTPT a w r" u] by simp

subsection \<open>Colours\<close>

definition color_commands :: "nat list" where
  "color_commands = [0x10, 0x11, 0x13, 0x14, 0x16, 0x1B, 0x1C, 0x1E, 0x20, 0x29, 0x2A, 0x3D, 0x3E, 0x3F]"

lemma color_command_pushes:
  assumes "GetInstructionImpl w a = Some (ticks, f)" and "gte_command w \<in> set color_commands"
  shows "\<exists>q. f u r = FLAG_UpdateError (PushRGBFromMAC q)"
  using assms
  by (auto simp: GetInstructionImpl_def Let_def color_commands_def Execute_NCS_def Execute_NCT_def Execute_NCCS_def
      Execute_NCCT_def Execute_NCDS_def Execute_NCDT_def once_def thrice_def NCS_def NCCS_def NCDS_def DPCS_def
      Execute_CC_def Execute_CDP_def Execute_DPCS_def Execute_DPCT_def Execute_DCPL_def Execute_INTPL_def
      Execute_GPL_def Execute_GPF_def split: if_splits)

text \<open>
  C15: every command that makes a colour leaves it in the newest entry of the colour FIFO, each component
  a sixteenth of the accumulator it ends with, rounded down and limited to a byte, and the code byte
  of the input colour on top.
\<close>

theorem color_fifo:
  assumes "GetInstructionImpl w a = Some (ticks, f)" and "gte_command w \<in> set color_commands"
  shows "let r' = f u r in
    byte_of 0 (r' 22) = rgb_limit (MAC 1 r') \<and> byte_of 1 (r' 22) = rgb_limit (MAC 2 r') \<and>
    byte_of 2 (r' 22) = rgb_limit (MAC 3 r') \<and> byte_of 3 (r' 22) = byte_of 3 (r 6)"
proof -
  obtain q where q: "f u r = FLAG_UpdateError (PushRGBFromMAC q)"
    using color_command_pushes [OF assms] by blast
  have six: "f u r 6 = r 6"
    using inputs.command [OF assms(1) same_inputs_refl [of r], of u] by (simp add: same_inputs_def gte_inputs_def)
  have same: "f u r j = q j" if "j \<notin> {20, 21, 22, 63}" for j
    using that pushed_rgb(7) [of j q] by (simp add: q)
  have m: "MAC k (f u r) = MAC k q" if "k \<le> 3" for k using that by (simp add: MAC_def same)
  have "f u r 22 = PushRGBFromMAC q 22" by (simp add: q)
  then show ?thesis
    using pushed_rgb(1-4) [of q] same [of 6] six m by (simp add: Let_def)
qed

theorem color_fifo_witness:
  "let r = (\<lambda>_. 0)(6 := 0x30000000, 8 := 0x100, 9 := 0x20); r' = Execute_GPF 0 r in
   byte_of 0 (r' 22) = rgb_limit (MAC 1 r') \<and> byte_of 1 (r' 22) = rgb_limit (MAC 2 r') \<and>
   byte_of 2 (r' 22) = rgb_limit (MAC 3 r') \<and> byte_of 3 (r' 22) = byte_of 3 (r 6)"
proof -
  have c: "gte_command 0x3D = 0x3D" by (simp add: gte_command_def bf_get_take_bit)
  show ?thesis
    unfolding Let_def [of "(\<lambda>_. 0)(6 := 0x30000000, 8 := 0x100, 9 := 0x20)"]
    by (rule color_fifo [of "0x3D" _ 5 Execute_GPF]) (simp_all add: GetInstructionImpl_def c color_commands_def)
qed

end
