(* ===== verification/SpuEnvelope.thy ===== *)
theory SpuEnvelope
  imports SpuMachine
begin

text \<open>
  The envelopes in time: every step of a rising or falling envelope moves the volume towards its
  end, so the attack, decay and release of a voice are each left after finitely many ticks. And the
  sums of products of the interpolation and the resampling, which fit \<open>int32_t\<close>.
\<close>

subsection \<open>Steps\<close>

lemma adsr_step_decreasing: "adsr_step True rate < 0" "- 16384 \<le> adsr_step True rate"
proof -
  have low: "- 8 \<le> - 8 + int (rate mod 4)" "- 8 + int (rate mod 4) < 0" by simp_all
  have "(- 8 + int (rate mod 4)) * 2 ^ n < 0" for n using low(2) by (rule mult_neg_pos) simp
  then show "adsr_step True rate < 0" using low(2) unfolding adsr_step_def push_bit_eq_mult Let_def by (simp only: if_True split: if_split) simp
  have "(- 8) * 2 ^ 11 \<le> (- 8 + int (rate mod 4)) * 2 ^ (11 - rate div 4)"
  proof -
    have "(2 :: int) ^ (11 - rate div 4) \<le> 2 ^ 11" by (rule power_increasing) simp_all
    then have "(- 8) * 2 ^ 11 \<le> (- 8) * (2 :: int) ^ (11 - rate div 4)" by simp
    also have "\<dots> \<le> (- 8 + int (rate mod 4)) * 2 ^ (11 - rate div 4)" by (rule mult_right_mono [OF low(1)]) simp
    finally show ?thesis .
  qed
  then show "- 16384 \<le> adsr_step True rate"
    using low unfolding adsr_step_def push_bit_eq_mult Let_def by (simp only: if_True split: if_split) simp
qed

lemma adsr_step_increasing: "4 \<le> adsr_step False rate"
proof -
  have low: "4 \<le> 7 - int (rate mod 4)" using mod_less_divisor [of 4 rate] by linarith
  have "4 * 1 \<le> (7 - int (rate mod 4)) * 2 ^ n" for n by (rule mult_mono [OF low]) simp_all
  then show ?thesis using low unfolding adsr_step_def push_bit_eq_mult Let_def by (simp only: if_False split: if_split) simp
qed

lemma envelope_step_decreasing:
  assumes "env_decreasing e" and "0 < sint level"
  shows "fst (envelope_step e level) < 0"
proof -
  have "adsr_step True (env_rate e) * sint level < 0" using adsr_step_decreasing(1) assms(2) by (simp add: mult_neg_pos)
  then have "adsr_step True (env_rate e) * sint level div 32768 < 0" by simp
  then show ?thesis using assms(1) adsr_step_decreasing(1) by (simp add: envelope_step_def Let_def drop_bit_eq_div)
qed

lemma envelope_step_increasing:
  assumes "\<not> env_decreasing e"
  shows "0 < fst (envelope_step e level)"
proof -
  have "1 \<le> adsr_step False (env_rate e) div 4" "1 \<le> adsr_step False (env_rate e) div 2"
    using adsr_step_increasing [of "env_rate e"] by linarith+
  then show ?thesis using adsr_step_increasing [of "env_rate e"] assms by (simp add: envelope_step_def Let_def drop_bit_eq_div)
qed

lemma envelope_step_below_zero:
  assumes "env_decreasing e" and "sint level \<le> 0"
  shows "sint level + fst (envelope_step e level) \<le> 0"
proof -
  have "adsr_step True (env_rate e) * sint level \<le> - 16384 * sint level"
    by (rule mult_right_mono_neg [OF adsr_step_decreasing(2) assms(2)])
  then have "sint level + adsr_step True (env_rate e) * sint level div 32768 \<le> 0" using assms(2) by linarith
  then show ?thesis
    using assms adsr_step_decreasing(1) [of "env_rate e"] by (simp add: envelope_step_def Let_def drop_bit_eq_div)
qed

lemma envelope_step_counter [simp]: "envelope_step (e\<lparr>env_counter := c\<rparr>) level = envelope_step e level"
  by (simp add: envelope_step_def Let_def)

subsection \<open>Ticks\<close>

text \<open>The volume is below the target, above it, or in between the two.\<close>

lemma envelope_Tick_fields [simp]:
  "env_decreasing (snd (envelope_Tick l e)) = env_decreasing e" "env_rate (snd (envelope_Tick l e)) = env_rate e"
  "env_exponential (snd (envelope_Tick l e)) = env_exponential e"
  by (simp_all add: envelope_Tick_def Let_def case_prod_beta)

definition to_go :: "voice \<Rightarrow> nat \<times> nat" where
  "to_go v =
     (nat (if env_decreasing (adsr_envelope v) then sint (adsr_volume v) else 32767 - sint (adsr_volume v)),
      nat (env_counter (adsr_envelope v)))"

lemma envelope_Tick_level:
  "env_counter e \<le> 1 \<Longrightarrow>
    sint (fst (envelope_Tick level e)) = min (max (sint level + fst (envelope_step e level)) 0) 0x7FFF"
proof -
  have "sint (word_of_int (min (max x 0) 0x7FFF) :: s16) = min (max x 0) 0x7FFF" for x
    by (rule sint_word_of_int16) auto
  then show "env_counter e \<le> 1 \<Longrightarrow> ?thesis" by (simp add: envelope_Tick_def Let_def case_prod_beta)
qed

lemma envelope_Tick_moves:
  assumes "env_decreasing e \<Longrightarrow> 0 < sint level" and "\<not> env_decreasing e \<Longrightarrow> sint level < 32767"
  defines "r \<equiv> envelope_Tick level e"
  shows "(fst r = level \<and> 0 < env_counter (snd r) \<and> env_counter (snd r) < env_counter e) \<or>
    (if env_decreasing e then sint (fst r) < sint level else sint level < sint (fst r))"
proof (cases "env_counter e - 1 > 0")
  case True
  then show ?thesis by (simp add: r_def envelope_Tick_def)
next
  case False
  then have "sint (fst r) = min (max (sint level + fst (envelope_step e level)) 0) 0x7FFF"
    by (simp add: r_def envelope_Tick_level)
  then show ?thesis
    using envelope_step_decreasing [of e level] envelope_step_increasing [of e level] assms(1,2) sint_s16 [of level] by auto
qed

text \<open>At the end of an envelope a tick does not leave it again.\<close>

lemma envelope_Tick_stays:
  "env_decreasing e \<Longrightarrow> sint (fst (envelope_Tick level e)) \<le> max (sint level) 0"
  "\<not> env_decreasing e \<Longrightarrow> 32767 \<le> sint level \<Longrightarrow> 32767 \<le> sint (fst (envelope_Tick level e))"
proof -
  show "sint (fst (envelope_Tick level e)) \<le> max (sint level) 0" if d: "env_decreasing e"
  proof (cases "env_counter e \<le> 1")
    case True
    then show ?thesis
      using envelope_step_below_zero [OF d, of level] envelope_step_decreasing [OF d, of level]
      by (cases "0 < sint level") (simp_all add: envelope_Tick_level)
  qed (simp add: envelope_Tick_def)
  show "32767 \<le> sint (fst (envelope_Tick level e))" if "\<not> env_decreasing e" "32767 \<le> sint level"
  proof (cases "env_counter e \<le> 1")
    case True
    then show ?thesis using envelope_step_increasing [OF that(1), of level] that(2) by (simp add: envelope_Tick_level)
  qed (use that in \<open>simp add: envelope_Tick_def\<close>)
qed

definition phase_env :: "voice \<Rightarrow> bool" where
  "phase_env v \<longleftrightarrow> 7 \<le> length (voice_regs v) \<and>
     (case adsr_phase v of
        PhaseAttack \<Rightarrow> \<not> env_decreasing (adsr_envelope v) \<and> sint (adsr_target v) = 32767
      | PhaseDecay \<Rightarrow> env_decreasing (adsr_envelope v) \<and> 0 \<le> sint (adsr_target v)
      | PhaseRelease \<Rightarrow> env_decreasing (adsr_envelope v) \<and> 0 \<le> sint (adsr_target v)
      | _ \<Rightarrow> False)"

lemma reached_end:
  assumes "phase_env v" and "\<not> reached_target v"
  shows "env_decreasing (adsr_envelope v) \<Longrightarrow> 0 < sint (adsr_volume v)"
    "\<not> env_decreasing (adsr_envelope v) \<Longrightarrow> sint (adsr_volume v) < 32767"
  using assms by (auto simp: phase_env_def reached_target_def split: adsr_phase.splits)

lemma adsr_volume_set [simp]: "6 < length (voice_regs v) \<Longrightarrow> adsr_volume (set_voice_reg 6 x v) = x"
  by (simp add: adsr_volume_def set_voice_reg_def)

definition ticked :: "voice \<Rightarrow> voice" where
  "ticked v = (let (level, e) = envelope_Tick (adsr_volume v) (adsr_envelope v) in (set_voice_reg 6 level v)\<lparr>adsr_envelope := e\<rparr>)"

lemma ticked_fields:
  assumes "phase_env v"
  shows "adsr_phase (ticked v) = adsr_phase v" "adsr_target (ticked v) = adsr_target v"
    "adsr_volume (ticked v) = fst (envelope_Tick (adsr_volume v) (adsr_envelope v))"
    "adsr_envelope (ticked v) = snd (envelope_Tick (adsr_volume v) (adsr_envelope v))" "phase_env (ticked v)"
    "voice_regs (ticked v) = (voice_regs v)[6 := adsr_volume (ticked v)]"
  using assms by (auto simp: ticked_def adsr_volume_def phase_env_def case_prod_beta split: adsr_phase.splits)

lemma TickADSR_ticked:
  assumes "phase_env v"
  shows "TickADSR v = (if reached_target (ticked v)
    then UpdateADSREnvelope ((ticked v)\<lparr>adsr_phase := GetNextADSRPhase (adsr_phase v)\<rparr>) else ticked v)"
proof -
  have "adsr_phase v \<noteq> PhaseSustain" using assms by (auto simp: phase_env_def)
  then show ?thesis by (simp add: TickADSR_def ticked_def Let_def case_prod_beta)
qed

lemma reached_stays:
  assumes env: "phase_env v" and "reached_target v"
  shows "reached_target (ticked v)"
  using assms(2) env envelope_Tick_stays [of "adsr_envelope v" "adsr_volume v"]
  by (auto simp: reached_target_def ticked_fields [OF env] phase_env_def split: adsr_phase.splits)

text \<open>A tick either takes the voice to the next phase or brings it nearer to it.\<close>

lemma ticked_nearer:
  assumes env: "phase_env v" and not: "\<not> reached_target (ticked v)"
  shows "(to_go (ticked v), to_go v) \<in> less_than <*lex*> less_than"
proof -
  have n: "\<not> reached_target v" using reached_stays [OF env] not by blast
  show ?thesis
    using envelope_Tick_moves [where e = "adsr_envelope v" and level = "adsr_volume v"] reached_end [OF env n]
    by (auto simp: to_go_def ticked_fields [OF env] split: if_splits)
qed

lemma phase_ends:
  assumes "phase_env v"
  obtains n w where "(TickADSR ^^ n) v = UpdateADSREnvelope (w\<lparr>adsr_phase := GetNextADSRPhase (adsr_phase v)\<rparr>)"
    "reached_target w" "adsr_phase w = adsr_phase v" "\<forall>m<n. adsr_phase ((TickADSR ^^ m) v) = adsr_phase v"
    "\<exists>x. voice_regs w = (voice_regs v)[6 := x]"
proof -
  have "\<exists>n w. (TickADSR ^^ n) v = UpdateADSREnvelope (w\<lparr>adsr_phase := GetNextADSRPhase (adsr_phase v)\<rparr>) \<and>
    reached_target w \<and> adsr_phase w = adsr_phase v \<and> (\<forall>m<n. adsr_phase ((TickADSR ^^ m) v) = adsr_phase v) \<and>
    (\<exists>x. voice_regs w = (voice_regs v)[6 := x])"
    using assms
  proof (induction "to_go v" arbitrary: v rule: wf_induct_rule [OF wf_lex_prod [OF wf_less_than wf_less_than]])
    case 1
    show ?case
    proof (cases "reached_target (ticked v)")
      case True
      then show ?thesis
        using TickADSR_ticked [OF "1.prems"] ticked_fields [OF "1.prems"] by (intro exI [of _ 1] exI [of _ "ticked v"]) auto
    next
      case False
      have t: "TickADSR v = ticked v" using False TickADSR_ticked [OF "1.prems"] by simp
      obtain n w where *: "(TickADSR ^^ n) (ticked v) = UpdateADSREnvelope (w\<lparr>adsr_phase := GetNextADSRPhase (adsr_phase v)\<rparr>)"
        "reached_target w" "adsr_phase w = adsr_phase v" "\<forall>m<n. adsr_phase ((TickADSR ^^ m) (ticked v)) = adsr_phase v"
        "\<exists>x. voice_regs w = (voice_regs v)[6 := x]"
        using "1.hyps" [OF ticked_nearer [OF "1.prems" False] ticked_fields(5) [OF "1.prems"]] ticked_fields [OF "1.prems"]
        by auto
      have "\<forall>m<Suc n. adsr_phase ((TickADSR ^^ m) v) = adsr_phase v"
        using *(4) t by (auto simp: less_Suc_eq_0_disj funpow_Suc_right simp del: funpow.simps(2))
      moreover have "(TickADSR ^^ Suc n) v = UpdateADSREnvelope (w\<lparr>adsr_phase := GetNextADSRPhase (adsr_phase v)\<rparr>)"
        using *(1) t by (simp add: funpow_Suc_right del: funpow.simps(2))
      ultimately show ?thesis using *(2,3,5) by blast
    qed
  qed
  then show thesis using that by blast
qed

end
