(* ===== verification/SpuClaims.thy ===== *)
theory SpuClaims
  imports SpuEnvelope
begin

text \<open>
  Properties of the voices of the sound processor: the phases of a note, the interpolation of its
  samples and the counter of them.
\<close>

subsection \<open>Notes\<close>

lemma UpdateADSREnvelope_fields [simp]:
  "adsr_phase (UpdateADSREnvelope w) = adsr_phase w" "voice_regs (UpdateADSREnvelope w) = voice_regs w"
  by (simp_all add: UpdateADSREnvelope_def Let_def split: adsr_phase.split)

lemma phase_env_Update:
  assumes "adsr_phase w \<in> {PhaseAttack, PhaseDecay, PhaseRelease}" and "length (voice_regs w) = 8"
  shows "phase_env (UpdateADSREnvelope w)"
proof -
  have "0 \<le> sint (word_of_int (min (uint x) 0x7FFF) :: s16)" for x :: u32
  proof -
    have "0 \<le> min (uint x) 0x7FFF" "min (uint x) 0x7FFF \<le> 32767" by simp_all
    then show ?thesis using sint_word_of_int16 [of "min (uint x) 0x7FFF"] by linarith
  qed
  then show ?thesis
    using assms by (auto simp: phase_env_def UpdateADSREnvelope_def Let_def envelope_Reset_def)
qed

text \<open>
  C23: every note ends. A voice that is keyed on gets from its attack through its decay to the sustain
  phase, and a voice that is keyed off in any phase but the release is switched off, after finitely
  many samples, whatever its rates, its volume and the modes of its envelope are.
\<close>
theorem notes_end:
  fixes v :: voice
  assumes "length (voice_regs v) = 8"
  shows "(\<exists>n k. (\<forall>m<n. adsr_phase ((TickADSR ^^ m) (KeyOn v)) = PhaseAttack) \<and>
      (\<forall>m<k. adsr_phase ((TickADSR ^^ (m + n)) (KeyOn v)) = PhaseDecay) \<and>
      adsr_phase ((TickADSR ^^ (k + n)) (KeyOn v)) = PhaseSustain) \<and>
    (adsr_phase v \<noteq> PhaseRelease \<longrightarrow> (\<exists>n. adsr_phase ((TickADSR ^^ n) (KeyOff v)) = PhaseOff))"
proof -
  have on: "phase_env (KeyOn v)" "adsr_phase (KeyOn v) = PhaseAttack" "length (voice_regs (KeyOn v)) = 8"
    using assms by (simp_all add: KeyOn_def phase_env_Update)
  obtain n w where a: "(TickADSR ^^ n) (KeyOn v) = UpdateADSREnvelope (w\<lparr>adsr_phase := GetNextADSRPhase (adsr_phase (KeyOn v))\<rparr>)"
    "\<forall>m<n. adsr_phase ((TickADSR ^^ m) (KeyOn v)) = adsr_phase (KeyOn v)" "\<exists>x. voice_regs w = (voice_regs (KeyOn v))[6 := x]"
    using phase_ends [OF on(1)] by metis
  have w: "length (voice_regs w) = 8" using a(3) on(3) by auto
  let ?d = "(TickADSR ^^ n) (KeyOn v)"
  have dec: "phase_env ?d" "adsr_phase ?d = PhaseDecay" using a(1) w on(2) by (simp_all add: phase_env_Update)
  obtain k x where d: "(TickADSR ^^ k) ?d = UpdateADSREnvelope (x\<lparr>adsr_phase := GetNextADSRPhase (adsr_phase ?d)\<rparr>)"
    "\<forall>m<k. adsr_phase ((TickADSR ^^ m) ?d) = adsr_phase ?d"
    using phase_ends [OF dec(1)] by metis
  have "\<exists>n k. (\<forall>m<n. adsr_phase ((TickADSR ^^ m) (KeyOn v)) = PhaseAttack) \<and>
      (\<forall>m<k. adsr_phase ((TickADSR ^^ (m + n)) (KeyOn v)) = PhaseDecay) \<and>
      adsr_phase ((TickADSR ^^ (k + n)) (KeyOn v)) = PhaseSustain"
    using a(2) d on(2) dec(2) by (intro exI [of _ n] exI [of _ k]) (simp add: funpow_add)
  moreover have "\<exists>n. adsr_phase ((TickADSR ^^ n) (KeyOff v)) = PhaseOff" if r: "adsr_phase v \<noteq> PhaseRelease"
  proof (cases "adsr_phase v = PhaseOff")
    case True
    then show ?thesis by (intro exI [of _ 0]) (simp add: KeyOff_def)
  next
    case False
    have off: "phase_env (KeyOff v)" "adsr_phase (KeyOff v) = PhaseRelease"
      using False r assms by (simp_all add: KeyOff_def phase_env_Update)
    obtain n w where "(TickADSR ^^ n) (KeyOff v) = UpdateADSREnvelope (w\<lparr>adsr_phase := GetNextADSRPhase (adsr_phase (KeyOff v))\<rparr>)"
      using phase_ends [OF off(1)] by metis
    then show ?thesis using off(2) by (intro exI [of _ n]) simp
  qed
  ultimately show ?thesis by blast
qed

lemma notes_end_witness:
  "\<exists>n. adsr_phase ((TickADSR ^^ n) (KeyOff (KeyOn silent_voice))) = PhaseOff"
proof -
  have v: "length (voice_regs (KeyOn silent_voice)) = 8" by (simp add: silent_voice_def KeyOn_def)
  have "adsr_phase (KeyOn silent_voice) \<noteq> PhaseRelease" by (simp add: KeyOn_def)
  with notes_end [OF v] show ?thesis by blast
qed

subsection \<open>Samples\<close>

text \<open>Each of the coefficients of an interpolation, as the sum of their sizes: they are below one.\<close>

lemma length_gauss: "length gauss = 512"
  by (simp add: gauss_def)

definition gauss_weight :: "nat \<Rightarrow> int" where
  "gauss_weight i = \<bar>gauss ! (0x0FF - i)\<bar> + \<bar>gauss ! (0x1FF - i)\<bar> + \<bar>gauss ! (0x100 + i)\<bar> + \<bar>gauss ! i\<bar>"

definition gauss_columns :: "((int \<times> int) \<times> (int \<times> int)) list" where
  "gauss_columns = zip (zip (rev (take 256 gauss)) (rev (drop 256 gauss))) (zip (drop 256 gauss) (take 256 gauss))"

lemma gauss_columns_small: "list_all (\<lambda>((a, b), (c, d)). \<bar>a\<bar> + \<bar>b\<bar> + \<bar>c\<bar> + \<bar>d\<bar> \<le> 32643) gauss_columns"
  by code_simp

lemma gauss_weight_small:
  assumes i: "i < 256"
  shows "gauss_weight i \<le> 32643"
proof -
  have len: "length gauss = 512" by (rule length_gauss)
  have rev: "rev (take 256 gauss) ! i = gauss ! (0x0FF - i)" "rev (drop 256 gauss) ! i = gauss ! (0x1FF - i)"
    using i len by (simp_all add: rev_nth)
  have "gauss_columns ! i = ((gauss ! (0x0FF - i), gauss ! (0x1FF - i)), (gauss ! (0x100 + i), gauss ! i))"
    using i len rev by (simp add: gauss_columns_def)
  moreover have "i < length gauss_columns" using i len by (simp add: gauss_columns_def)
  ultimately show ?thesis using gauss_columns_small by (auto simp: list_all_length gauss_weight_def)
qed

lemma product_small: "\<bar>c * sint (w :: s16)\<bar> \<le> \<bar>c\<bar> * 32768"
  using sint_s16 [of w] by (simp add: abs_mult mult_left_mono)

text \<open>
  C28: the interpolation neither leaves its buffer nor overflows. For every voice the processor can
  hold, the four samples it reads are among the 31 of the buffer, the sizes of the four products add
  up to less than 2 ^ 31 (so no order of adding them overflows), and the result is a 16-bit sample.
\<close>
theorem interpolation_fits:
  fixes v :: voice
  assumes "voice_ok v"
  defines "i \<equiv> interpolation_index v" and "s \<equiv> 3 + sample_index v" and "x \<equiv> current_block_samples v"
  shows "s < length x \<and> 0x1FF - i < length gauss \<and> 0x100 + i < length gauss \<and>
    \<bar>gauss ! (0x0FF - i) * sint (x ! (s - 3))\<bar> + \<bar>gauss ! (0x1FF - i) * sint (x ! (s - 2))\<bar>
      + \<bar>gauss ! (0x100 + i) * sint (x ! (s - 1))\<bar> + \<bar>gauss ! i * sint (x ! s)\<bar> < 2 ^ 31 \<and>
    - 32768 \<le> Interpolate v \<and> Interpolate v \<le> 32767"
proof -
  have c: "unat (voice_counter v) < 28 * 4096" "length x = 31" using assms(1) by (simp_all add: voice_ok_def x_def)
  have "sample_index v < 28" using sample_index_counter [of v] c(1) by simp
  then have s: "s < 31" by (simp add: s_def)
  have i: "i < 256" using unat_bf_get [of 4 8 "voice_counter v"] by (simp add: i_def interpolation_index_def)
  let ?b = "\<bar>gauss ! (0x0FF - i) * sint (x ! (s - 3))\<bar> + \<bar>gauss ! (0x1FF - i) * sint (x ! (s - 2))\<bar>
      + \<bar>gauss ! (0x100 + i) * sint (x ! (s - 1))\<bar> + \<bar>gauss ! i * sint (x ! s)\<bar>"
  have "?b \<le> gauss_weight i * 32768"
    unfolding gauss_weight_def distrib_right by (intro add_mono product_small)
  also have "\<dots> \<le> 32643 * 32768" using gauss_weight_small [OF i] by simp
  finally have b: "?b \<le> 32643 * 32768" .
  have "\<bar>interpolation_sum i s x\<bar> \<le> ?b" unfolding interpolation_sum_def by linarith
  then have "\<bar>interpolation_sum i s x\<bar> \<le> 32643 * 32768" using b by linarith
  then have "- 32768 \<le> Interpolate v \<and> Interpolate v \<le> 32767"
    unfolding Interpolate_def i_def s_def x_def drop_bit_eq_div by (simp add: abs_le_iff) linarith
  moreover have "0x1FF - i < length gauss" "0x100 + i < length gauss" using i unfolding length_gauss by linarith+
  moreover have "?b < 2 ^ 31" using b by simp
  ultimately show ?thesis using s c(2) by simp
qed

lemma interpolation_fits_witness: "- 32768 \<le> Interpolate silent_voice \<and> Interpolate silent_voice \<le> 32767"
  using interpolation_fits [OF voice_ok_silent] by blast

text \<open>
  C29: the sample counter never overflows its bits, as the comment in \<open>SampleVoice\<close> has it. Whatever the
  pitch and its modulation, one step takes the counter from below 28 samples to below the 32 that the
  five bits of \<open>sample_index\<close> hold, without wrapping around, and after the change of block the index is below 28 again
  and the fraction is kept.
\<close>
theorem sample_counter_in_range:
  fixes r :: spu
  assumes "spu_ok r" and "i < 24"
  defines "c \<equiv> unat (voice_counter (m_voices r ! i))" and "step \<equiv> unat (voice_step i r)"
    and "c' \<equiv> unat (voice_counter (m_voices (advance_voice i r) ! i))"
  shows "step < 4 * 4096 \<and> c + step < 32 * 4096 \<and> sample_index (m_voices (advance_voice i r) ! i) < 28 \<and>
    c' = (if c + step < 28 * 4096 then c + step else c + step - 28 * 4096)"
proof -
  let ?v = "m_voices r ! i"
  let ?w = "?v\<lparr>voice_counter := voice_counter ?v + ucast (voice_step i r)\<rparr>"
  let ?r = "upd_voice i (\<lambda>v. v\<lparr>voice_counter := voice_counter v + ucast (voice_step i r)\<rparr>) r"
  have v: "voice_ok ?v" by (rule spu_ok_voice [OF assms(1,2)])
  have len: "i < length (m_voices r)" using assms(1,2) by (simp add: spu_ok_def)
  have st: "step \<le> 0x3FFF" unfolding step_def by (rule voice_step_bound)
  have c: "c < 28 * 4096" using v by (simp add: c_def voice_ok_def)
  have sum: "unat (voice_counter ?w) = c + step"
    using counter_step [of "voice_counter ?v" "voice_step i r"] c st by (simp add: c_def step_def)
  have si: "sample_index ?w = (c + step) div 4096" using sample_index_counter [of ?w] sum c st by simp
  have w: "m_voices ?r ! i = ?w" using len by simp
  have c': "c' = (if c + step < 28 * 4096 then c + step else c + step - 28 * 4096)"
  proof (cases "c + step < 28 * 4096")
    case True
    then have "advance_voice i r = ?r" using si w by (simp add: advance_voice_def Let_def)
    then show ?thesis using True sum w by (simp add: c'_def)
  next
    case False
    then have a: "advance_voice i r = next_block i ?r" using si w by (simp add: advance_voice_def Let_def)
    have "voice_counter (m_voices (next_block i ?r) ! i) = bf_set 12 5 (word_of_nat (sample_index ?w - 28)) (voice_counter ?w)"
      using len w by (simp add: next_block_def Let_def ForceOff_def upd_voice_def)
    moreover have "unat (bf_set 12 5 (word_of_nat (sample_index ?w - 28)) (voice_counter ?w)) = c + step - 28 * 4096"
      using next_counter [of "voice_counter ?w"] False c st sum si by simp
    ultimately show ?thesis using False a by (simp add: c'_def)
  qed
  have "voice_ok (m_voices (advance_voice i r) ! i)"
    by (rule spu_ok_voice [OF spu_ok_advance_voice [OF assms(1,2)] assms(2)])
  then have "sample_index (m_voices (advance_voice i r) ! i) < 28"
    using sample_index_counter [of "m_voices (advance_voice i r) ! i"]
    by (simp add: voice_ok_def div_less_iff_less_mult)
  then show ?thesis using c' st c by simp
qed

lemma sample_counter_in_range_witness:
  "unat (voice_step 3 silent_spu) < 4 * 4096 \<and> sample_index (m_voices (advance_voice 3 silent_spu) ! 3) < 28"
  using sample_counter_in_range [OF spu_ok_silent, of 3] by simp

end
