(* ===== verification/SpuTransfer.thy ===== *)
theory SpuTransfer
  imports SpuMachine
begin

text \<open>
  The transfers between the FIFO and the RAM of the sound processor, as writes and reads of a run of
  halfwords. The RAM is a \<open>word_memory\<close> of halfwords at even addresses.
\<close>

subsection \<open>Halfwords of the RAM\<close>

lemma bit_ram_half: "bit (ram_half m a) n \<longleftrightarrow> (if n < 8 then bit (m a) n else n < 16 \<and> bit (m (a + 1)) (n - 8))"
  by (auto simp: ram_half_def bit_simps dest: bit_imp_le_length)

lemma even_neighbour: "\<not> bit (a :: u32) 0 \<Longrightarrow> \<not> bit b 0 \<Longrightarrow> a + 1 \<noteq> b \<and> a \<noteq> b + 1 \<and> a \<noteq> a + 1"
proof -
  assume e: "\<not> bit a 0" "\<not> bit b 0"
  have "bit (x + 1) 0 = (\<not> bit x 0)" for x :: u32 by (simp add: bit_0)
  then show ?thesis using e by metis
qed

interpretation spu_ram: word_memory ram_half set_ram_half "\<lambda>a. \<not> bit a 0"
proof
  fix a b :: u32 and v :: u16 and m
  assume e: "\<not> bit a 0" "\<not> bit b 0"
  show "ram_half (set_ram_half a v m) b = (if a = b then v else ram_half m b)"
  proof (rule bit_word_eqI)
    fix n assume "n < LENGTH(16)"
    then show "bit (ram_half (set_ram_half a v m) b) n = bit (if a = b then v else ram_half m b) n"
      using even_neighbour [OF e] even_neighbour [OF e(2,1)]
      by (auto simp: bit_ram_half set_ram_half_def bit_simps not_less)
  qed
qed

subsection \<open>A run of halfwords\<close>

text \<open>The addresses of a transfer from \<open>a\<close> on, which wrap around at the end of the RAM.\<close>

definition halfword_addresses :: "u32 \<Rightarrow> nat \<Rightarrow> u32 list" where
  "halfword_addresses a n = map (\<lambda>k. (a + 2 * word_of_nat k) AND RAM_MASK) [0..<n]"

lemma length_halfword_addresses [simp]: "length (halfword_addresses a n) = n"
  by (simp add: halfword_addresses_def)

lemma RAM_MASK_take_bit: "(w :: u32) AND RAM_MASK = take_bit 19 w"
  by (simp add: RAM_MASK_def take_bit_eq_mask mask_eq_exp_minus_1)

lemma RAM_MASK_inside: "unat (a :: u32) < RAM_SIZE \<Longrightarrow> a AND RAM_MASK = a"
  by (rule word_unat_eq_iff [THEN iffD2])
     (simp add: RAM_MASK_take_bit unsigned_take_bit_eq take_bit_nat_eq_self RAM_SIZE_def)

lemma unat_RAM_MASK: "unat ((x :: u32) AND RAM_MASK) = unat x mod 2 ^ 19"
  by (simp only: RAM_MASK_take_bit unsigned_take_bit_eq) (simp only: take_bit_eq_mod)

lemma RAM_MASK_add: "((x AND RAM_MASK) + y) AND RAM_MASK = ((x :: u32) + y) AND RAM_MASK"
proof -
  have "(unat x mod 2 ^ 19 + unat y) mod 2 ^ 32 mod 2 ^ 19 = (unat x + unat y) mod 2 ^ 32 mod 2 ^ (19::nat)"
    using mod_mod_cancel [of "2 ^ 19 :: nat" "2 ^ 32"] by (simp add: mod_add_left_eq)
  then show ?thesis by (simp only: word_unat_eq_iff unat_RAM_MASK unat_word_ariths) simp
qed

lemma halfword_addresses_Suc:
  assumes "unat a < RAM_SIZE"
  shows "halfword_addresses a (Suc n) = a # halfword_addresses ((a + 2) AND RAM_MASK) n"
proof -
  have "(a + 2 * word_of_nat (Suc k)) AND RAM_MASK = (((a + 2) AND RAM_MASK) + 2 * word_of_nat k) AND RAM_MASK" for k
    unfolding RAM_MASK_add by (simp add: algebra_simps)
  then have "map (\<lambda>k. (a + 2 * word_of_nat k) AND RAM_MASK) (map Suc [0..<n]) = halfword_addresses ((a + 2) AND RAM_MASK) n"
    by (simp add: halfword_addresses_def)
  then show ?thesis
    using RAM_MASK_inside [OF assms] by (simp add: halfword_addresses_def upt_conv_Cons map_Suc_upt [symmetric] del: upt_Suc)
qed

lemma halfword_addresses_nth:
  assumes "k < n" and "2 * k < 2 ^ 31"
  shows "unat (halfword_addresses a n ! k) = (unat a + 2 * k) mod RAM_SIZE"
proof -
  have "unat (2 * word_of_nat k :: u32) = 2 * k" using assms(2) by (simp add: unat_word_ariths unat_of_nat)
  then have "unat (a + 2 * word_of_nat k :: u32) = (unat a + 2 * k) mod 2 ^ 32" by (simp add: unat_word_ariths)
  then have "take_bit 19 (unat (a + 2 * word_of_nat k :: u32)) = (unat a + 2 * k) mod 2 ^ 32 mod 2 ^ 19"
    by (simp only: take_bit_eq_mod)
  also have "\<dots> = (unat a + 2 * k) mod 2 ^ 19" by (rule mod_mod_cancel) simp
  finally show ?thesis using assms(1) by (simp only: halfword_addresses_def length_map nth_map length_upt diff_zero nth_upt add_0 RAM_MASK_take_bit RAM_SIZE_def
        unsigned_take_bit_eq) simp
qed

lemma halfword_addresses_even: "\<not> bit a 0 \<Longrightarrow> b \<in> set (halfword_addresses a n) \<Longrightarrow> \<not> bit b 0"
proof -
  assume a: "\<not> bit a 0" "b \<in> set (halfword_addresses a n)"
  then obtain k where "b = (a + 2 * word_of_nat k) AND RAM_MASK" by (auto simp: halfword_addresses_def)
  moreover have "\<not> bit (a + 2 * word_of_nat k) 0" using a(1) by (simp add: bit_0)
  ultimately show ?thesis by (simp only: bit_and_iff) simp
qed

lemma distinct_halfword_addresses:
  assumes "2 * n \<le> RAM_SIZE"
  shows "distinct (halfword_addresses a n)"
proof (rule distinct_conv_nth [THEN iffD2], intro allI impI)
  fix i j assume ij: "i < length (halfword_addresses a n)" "j < length (halfword_addresses a n)" "i \<noteq> j"
  have n: "i < n" "j < n" using ij by (simp_all add: halfword_addresses_def)
  have "(unat a + 2 * i) mod RAM_SIZE \<noteq> (unat a + 2 * j) mod RAM_SIZE"
    using mod_shift_inj [of "2 * i" RAM_SIZE "2 * j" "unat a"] n ij(3) assms by auto
  then show "halfword_addresses a n ! i \<noteq> halfword_addresses a n ! j"
    using halfword_addresses_nth [OF n(1), of a] halfword_addresses_nth [OF n(2), of a] n assms by (auto simp: RAM_SIZE_def)
qed

lemma read_written_halfwords:
  assumes "\<not> bit a 0" and "2 * length xs \<le> RAM_SIZE"
  defines "addrs \<equiv> halfword_addresses a (length xs)"
  shows "map (ram_half (spu_ram.wr_all (zip addrs xs) m)) addrs = xs"
proof (rule nth_equalityI)
  have len: "length addrs = length xs" by (simp add: addrs_def halfword_addresses_def)
  then show "length (map (ram_half (spu_ram.wr_all (zip addrs xs) m)) addrs) = length xs" by simp
  fix k assume "k < length (map (ram_half (spu_ram.wr_all (zip addrs xs) m)) addrs)"
  then have k: "k < length addrs" by simp
  have "(addrs ! k, xs ! k) \<in> set (zip addrs xs)" using k len by (auto simp: set_zip)
  moreover have "distinct (map fst (zip addrs xs))"
    using len distinct_halfword_addresses [OF assms(2), of a] by (simp add: addrs_def)
  moreover have "\<And>b v. (b, v) \<in> set (zip addrs xs) \<Longrightarrow> \<not> bit b 0"
    using halfword_addresses_even [OF assms(1)] by (auto simp: addrs_def dest: set_zip_leftD)
  ultimately show "map (ram_half (spu_ram.wr_all (zip addrs xs) m)) addrs ! k = xs ! k"
    using spu_ram.rd_wr_all_in [of "zip addrs xs" "addrs ! k" "xs ! k" m] k by simp
qed


subsection \<open>Transfers\<close>

text \<open>What a transfer works on.\<close>

definition transfer_view :: "spu \<Rightarrow> u16 fifo \<times> mem \<times> u32 \<times> u16" where
  "transfer_view r = (m_transfer_fifo r, m_spu_ram r, m_transfer_address r, m_SPUCNT r)"

lemma transfer_view_eq:
  "transfer_view r = (q, m, a, c) \<longleftrightarrow> m_transfer_fifo r = q \<and> m_spu_ram r = m \<and> m_transfer_address r = a \<and> m_SPUCNT r = c"
  by (simp add: transfer_view_def)

lemma spu_more_fields:
  fixes s t :: "'a spu_state_scheme"
  assumes "te_state.more s = te_state.more t"
  shows "g_spu s = g_spu t" "g_audio_stream s = g_audio_stream t"
  using assms by (cases s; cases t; simp)+

lemmas events_spu [simp] =
  spu_more_fields [OF te_rest_fields(4) [OF te_rest_Schedule]] spu_more_fields [OF te_rest_fields(4) [OF te_rest_Deactivate]]

lemma transfer_view_irq [simp]: "transfer_view (g_spu (ram_irq hit s)) = transfer_view (g_spu s)"
  by (simp add: ram_irq_def SPU_TriggerRAMIRQ_def upd_stat_def transfer_view_def)

lemma transfer_view_stat [simp]: "transfer_view (upd_stat f r) = transfer_view r"
  by (simp add: upd_stat_def transfer_view_def)

lemma transfer_view_UpdateTransferEvent [simp]: "transfer_view (g_spu (UpdateTransferEvent s)) = transfer_view (g_spu s)"
  by (simp add: UpdateTransferEvent_def start_transfer_def set_busy_def Let_def split: RAMTransferMode.split)

lemma transfer_view_finish [simp]: "transfer_view (g_spu (finish_transfer b n t s)) = transfer_view (g_spu s)"
  by (simp add: finish_transfer_def set_busy_def)


text \<open>The request line is driven by the console's DMA controller, which has no access to the processor.\<close>

definition keeps_spu :: "('a spu_state_scheme) request_line \<Rightarrow> bool" where
  "keeps_spu req \<longleftrightarrow> (\<forall>c v s. g_spu (req c v s) = g_spu s)"

lemma transfer_view_UpdateDMARequest [simp]:
  "keeps_spu req \<Longrightarrow> transfer_view (g_spu (UpdateDMARequest req s)) = transfer_view (g_spu s)"
  by (simp add: UpdateDMARequest_def keeps_spu_def Let_def case_prod_beta)

lemma set_fifo_view:
  "transfer_view (g_spu s) = (q, m, a, c) \<Longrightarrow> transfer_view (g_spu (set_fifo q' s)) = (q', m, a, c)"
  by (simp add: set_fifo_def transfer_view_def)

lemma fifo_write_view:
  assumes "transfer_view (g_spu s) = (q, m, a, c)"
  shows "transfer_view (g_spu (ExecuteFIFOWriteToRAM s)) =
    (RemoveOne q, set_ram_half a (m_ptr q ! m_head q) m, (a + 2) AND RAM_MASK, c)"
  using assms unfolding ExecuteFIFOWriteToRAM_def transfer_view_irq by (simp add: Pop_def advance_transfer_def transfer_view_def)

lemma fifo_read_view:
  assumes "transfer_view (g_spu s) = (q, m, a, c)"
  shows "transfer_view (g_spu (ExecuteFIFOReadFromRAM s)) = (Push (ram_half m a) q, m, (a + 2) AND RAM_MASK, c)"
  using assms unfolding ExecuteFIFOReadFromRAM_def transfer_view_irq by (simp add: advance_transfer_def transfer_view_def)

text \<open>Enough ticks write out all of the FIFO, at the halfwords from the transfer address on.\<close>

lemma write_loop_spec:
  assumes "keeps_spu req" and "transfer_view (g_spu s) = (q, m, a, c)" and "fifo_inv q" and "unat a < RAM_SIZE"
    and "16 * int (m_size q) < ticks + 16"
  shows "\<exists>q' a'. transfer_view (g_spu (snd (write_loop req ticks s))) =
      (q', spu_ram.wr_all (zip (halfword_addresses a (m_size q)) (fifo_items q)) m, a', c) \<and>
    fifo_inv q' \<and> m_size q' = 0 \<and> fifo_capacity q' = fifo_capacity q"
  using assms(2-)
proof (induction "m_size q" arbitrary: q s m a ticks)
  case 0
  then have "m_transfer_fifo (g_spu s) = q" "IsEmpty q" by (simp_all add: transfer_view_eq IsEmpty_def)
  then have "write_loop req ticks s = (ticks, s)" by (subst write_loop.simps) simp
  moreover have "fifo_items q = []" using 0 by simp
  ultimately show ?case using 0 by (simp add: halfword_addresses_def)
next
  case (Suc n)
  have q: "m_transfer_fifo (g_spu s) = q" "0 < m_size q" using Suc.prems Suc.hyps by (simp_all add: transfer_view_eq)
  let ?s = "UpdateDMARequest req (ExecuteFIFOWriteToRAM s)"
  let ?m = "set_ram_half a (m_ptr q ! m_head q) m"
  have step: "write_loop req ticks s = write_loop req (ticks - 16) ?s"
    using q Suc.prems Suc.hyps by (subst write_loop.simps) (simp add: IsEmpty_def)
  have items: "fifo_items q = m_ptr q ! m_head q # fifo_items (RemoveOne q)" "m_size (RemoveOne q) = n"
    using fifo.items_pop [of q] q(2) Suc.prems(2) arg_cong [OF fifo_items_RemoveOne [OF Suc.prems(2) q(2)], of length] Suc.hyps(2)
    by (simp_all add: Pop_def)
  have a: "unat ((a + 2) AND RAM_MASK) < RAM_SIZE" by (rule unat_and_RAM_MASK)
  have "\<exists>q' a'. transfer_view (g_spu (snd (write_loop req (ticks - 16) ?s))) =
      (q', spu_ram.wr_all (zip (halfword_addresses ((a + 2) AND RAM_MASK) (m_size (RemoveOne q))) (fifo_items (RemoveOne q))) ?m, a', c) \<and>
    fifo_inv q' \<and> m_size q' = 0 \<and> fifo_capacity q' = fifo_capacity (RemoveOne q)"
    using Suc.prems Suc.hyps(2) items(2) a assms(1) q(2)
    by (intro Suc.hyps(1)) (simp_all add: fifo_write_view fifo_inv_RemoveOne)
  then show ?case
    using items Suc.hyps(2) by (simp add: step halfword_addresses_Suc [OF Suc.prems(3)] flip: Suc.hyps(2))
qed


text \<open>Enough ticks fill the FIFO, with the halfwords from the transfer address on.\<close>

lemma read_loop_spec:
  assumes "keeps_spu req" and "transfer_view (g_spu s) = (q, m, a, c)" and "fifo_inv q" and "unat a < RAM_SIZE"
    and "16 * int (fifo_capacity q - m_size q) < ticks + 16"
  shows "\<exists>q' a'. transfer_view (g_spu (snd (read_loop req ticks s))) = (q', m, a', c) \<and> fifo_inv q' \<and>
    fifo_items q' = fifo_items q @ map (ram_half m) (halfword_addresses a (fifo_capacity q - m_size q))"
  using assms(2-)
proof (induction "fifo_capacity q - m_size q" arbitrary: q s a ticks)
  case 0
  then have "m_transfer_fifo (g_spu s) = q" "IsFull q" by (simp_all add: transfer_view_eq IsFull_def fifo_inv_def)
  then have "read_loop req ticks s = (ticks, s)" by (subst read_loop.simps) simp
  then show ?case using 0 by (simp add: halfword_addresses_def)
next
  case (Suc n)
  have q: "m_transfer_fifo (g_spu s) = q" "m_size q < fifo_capacity q" using Suc.prems Suc.hyps by (simp_all add: transfer_view_eq)
  let ?s = "UpdateDMARequest req (ExecuteFIFOReadFromRAM s)"
  let ?q = "Push (ram_half m a) q"
  have step: "read_loop req ticks s = read_loop req (ticks - 16) ?s"
    using q Suc.prems Suc.hyps by (subst read_loop.simps) (simp add: IsFull_def)
  have new: "fifo_inv ?q" "fifo_items ?q = fifo_items q @ [ram_half m a]" "fifo_capacity ?q = fifo_capacity q"
    using fifo_inv_Push [OF Suc.prems(2) q(2)] fifo_items_Push [OF Suc.prems(2) q(2)] by simp_all
  have size: "m_size ?q = Suc (m_size q)"
    using arg_cong [OF new(2), of length] by (simp only: length_fifo_items length_append list.size)
  have n: "fifo_capacity ?q - m_size ?q = n" using Suc.hyps(2) size by simp
  have a: "unat ((a + 2) AND RAM_MASK) < RAM_SIZE" by (rule unat_and_RAM_MASK)
  have "\<exists>q' a'. transfer_view (g_spu (snd (read_loop req (ticks - 16) ?s))) = (q', m, a', c) \<and> fifo_inv q' \<and>
    fifo_items q' = fifo_items ?q @ map (ram_half m) (halfword_addresses ((a + 2) AND RAM_MASK) (fifo_capacity ?q - m_size ?q))"
    using Suc.prems Suc.hyps(2) n new(1) a assms(1)
    by (intro Suc.hyps(1)) (simp_all add: fifo_read_view)
  then show ?case
    unfolding n by (simp add: step new(2) halfword_addresses_Suc [OF Suc.prems(3)] flip: Suc.hyps(2))
qed

lemma words_of_halfwords_of_words: "words_of_halfwords (halfwords_of_words ws @ hs) = ws @ words_of_halfwords hs"
proof (induction ws)
  case (Cons w ws)
  have "(ucast (ucast w :: u16) :: u32) OR push_bit 16 (ucast (ucast (drop_bit 16 w) :: u16)) = w"
    by (rule bit_word_eqI) (auto simp: bit_simps not_less)
  then show ?case using Cons by (simp add: halfwords_of_words_def)
qed (simp add: halfwords_of_words_def)

lemma length_halfwords_of_words [simp]: "length (halfwords_of_words ws) = 2 * length ws"
  by (induction ws) (simp_all add: halfwords_of_words_def)


lemma ExecuteTransfer_view:
  "transfer_view (g_spu (ExecuteTransfer req ticks s)) =
     transfer_view (g_spu (snd (if ram_transfer_mode (m_SPUCNT (g_spu s)) = DMARead
       then read_loop req ticks s else write_loop req ticks s)))"
  by (simp add: ExecuteTransfer_def Let_def case_prod_beta)

text \<open>A DMA write into the empty FIFO, and the transfer of it.\<close>

lemma dma_write_spec:
  assumes "keeps_spu req" and "transfer_view (g_spu s) = (q, m, a, c)" and "fifo_inv q" "m_size q = 0" and "unat a < RAM_SIZE"
    and "2 * length ws \<le> fifo_capacity q" and "ram_transfer_mode c \<noteq> DMARead" and "32 * int (length ws) < ticks + 16"
  shows "\<exists>q' a'. transfer_view (g_spu (ExecuteTransfer req ticks (spu_write req ws s))) =
      (q', spu_ram.wr_all (zip (halfword_addresses a (2 * length ws)) (halfwords_of_words ws)) m, a', c) \<and>
    fifo_inv q' \<and> m_size q' = 0 \<and> fifo_capacity q' = fifo_capacity q"
proof -
  let ?q = "PushRange (halfwords_of_words ws) q"
  have q: "m_transfer_fifo (g_spu s) = q" using assms(2) by (simp add: transfer_view_eq)
  have space: "GetSpace q = fifo_capacity q"
    using assms(3,4) by (simp add: GetSpace_def fifo_inv_def)
  have pushed: "fifo_inv ?q" "fifo_items ?q = halfwords_of_words ws" "fifo_capacity ?q = fifo_capacity q"
    using PushRange_spec [of q "halfwords_of_words ws"] assms(3,4,6) by (simp_all add: fifo_items_Nil [THEN iffD2])
  have size: "m_size ?q = 2 * length ws"
    using arg_cong [OF pushed(2), of length] by (simp only: length_fifo_items length_halfwords_of_words)
  have "transfer_view (g_spu (spu_write req ws s)) = (?q, m, a, c)"
    using assms(1,2,6) by (simp add: spu_write_def Let_def q space set_fifo_view mult.commute)
  moreover from this have "m_SPUCNT (g_spu (spu_write req ws s)) = c" by (simp add: transfer_view_eq)
  ultimately show ?thesis
    using write_loop_spec [OF assms(1) _ pushed(1) assms(5), of "spu_write req ws s" m c ticks] assms(7,8)
    by (simp add: ExecuteTransfer_view size pushed)
qed

text \<open>A transfer into the empty FIFO, and the DMA read of the words in it.\<close>

lemma dma_read_spec:
  assumes "keeps_spu req" and "transfer_view (g_spu s) = (q, m, a, c)" and "fifo_inv q" "m_size q = 0" and "unat a < RAM_SIZE"
    and "2 * n \<le> fifo_capacity q" and "ram_transfer_mode c = DMARead" and "16 * int (fifo_capacity q) < ticks + 16"
  shows "\<exists>q'. spu_read req put n (ExecuteTransfer req ticks s) =
    UpdateTransferEvent (UpdateDMARequest req
      (put (words_of_halfwords (map (ram_half m) (halfword_addresses a (2 * n)))) (set_fifo q' (ExecuteTransfer req ticks s))))"
proof -
  let ?t = "ExecuteTransfer req ticks s"
  have c: "m_SPUCNT (g_spu s) = c" using assms(2) by (simp add: transfer_view_eq)
  obtain q' a' where r: "transfer_view (g_spu ?t) = (q', m, a', c)" "fifo_inv q'"
    "fifo_items q' = map (ram_half m) (halfword_addresses a (fifo_capacity q))"
    using read_loop_spec [OF assms(1-3,5), of ticks] assms(4,7,8) c fifo_items_Nil [of q]
    by (auto simp: ExecuteTransfer_view)
  have q': "m_transfer_fifo (g_spu ?t) = q'" using r(1) by (simp add: transfer_view_eq)
  have size: "m_size q' = fifo_capacity q"
    using arg_cong [OF r(3), of length] by (simp only: length_fifo_items length_map length_halfword_addresses)
  have "take (2 * n) (map (ram_half m) (halfword_addresses a (fifo_capacity q))) = map (ram_half m) (halfword_addresses a (2 * n))"
    using assms(6) by (simp add: halfword_addresses_def take_map min_def)
  then have "fst (PopRange (2 * n) q') = map (ram_half m) (halfword_addresses a (2 * n))"
    using fifo.pop_n_spec [OF r(2), of "2 * n"] size assms(6) by (simp add: PopRange_pop_n r(3))
  then have "spu_read req put n ?t = UpdateTransferEvent (UpdateDMARequest req
      (put (words_of_halfwords (map (ram_half m) (halfword_addresses a (2 * n)))) (set_fifo (snd (PopRange (2 * n) q')) ?t)))"
    using assms(6) size by (simp add: spu_read_def Let_def q' GetSize_def case_prod_beta mult.commute)
  then show ?thesis by blast
qed

end
