(* ===== verification/SpuStream.thy ===== *)
theory SpuStream
  imports SpuMachine
begin

text \<open>
  The loop of the sound processor's \<open>Execute\<close> against the audio stream's buffer: when it ends.
\<close>

lemma BeginWrite_pos: "audio_ok a \<Longrightarrow> m_size (m_buffer a) < 32768 \<Longrightarrow> 0 < BeginWrite a"
proof -
  assume a: "audio_ok a" "m_size (m_buffer a) < 32768"
  have "0 < GetContiguousSpace (m_buffer a)" "even (GetContiguousSpace (m_buffer a))" using tail_space [OF a(1)] a(2) by simp_all
  then have "2 \<le> GetContiguousSpace (m_buffer a)" by (auto elim!: evenE)
  then show ?thesis by (simp add: BeginWrite_def BUFFER_SIZE_def)
qed

text \<open>The stream keeps the samples of a batch just when the front end takes them once a frame and wants them.\<close>

definition stream_keeps :: "bool \<Rightarrow> audio_stream \<Rightarrow> bool" where
  "stream_keeps fast a \<longleftrightarrow> fast \<and> \<not> m_silent_mode a"

lemma stream_EndWrite:
  fixes fast skip :: bool
  assumes a: "audio_ok a" and n: "length frames = 2 * n" "n \<le> BeginWrite a"
  defines "b \<equiv> EndWrite fast skip n (write_frames frames a)"
  shows "m_silent_mode b = m_silent_mode a"
    and "m_size (m_buffer b) = (if stream_keeps fast a then m_size (m_buffer a) + 2 * n else 0)"
proof -
  define q where "q = AdvanceTail (2 * n) (m_buffer (write_frames frames a))"
  have ok: "audio_ok (a\<lparr>m_buffer := q\<rparr>)" and size: "m_size q = m_size (m_buffer a) + 2 * n"
    unfolding q_def by (rule written_frames [OF assms(1-3)])+
  have b: "b = (if m_silent_mode a then a\<lparr>m_buffer := Remove (GetSize q) q\<rparr> else if fast then a\<lparr>m_buffer := q\<rparr>
      else UploadToFrontend skip (a\<lparr>m_buffer := q\<rparr>))"
    unfolding b_def EndWrite_def by (simp add: write_frames_def q_def mult.commute Let_def)
  have inv: "fifo_inv q" using ok by (simp add: audio_ok_def)
  show "m_silent_mode b = m_silent_mode a" by (simp add: b UploadToFrontend_def case_prod_beta)
  have "m_size (m_buffer (UploadToFrontend skip (a\<lparr>m_buffer := q\<rparr>))) = 0"
    using drain_spec [OF ok, of skip] by (simp add: UploadToFrontend_def case_prod_beta)
  moreover have "m_size (Remove (m_size q) q) = 0" using Remove_head [OF inv, of "m_size q"] by simp
  ultimately show "m_size (m_buffer b) = (if stream_keeps fast a then m_size (m_buffer a) + 2 * n else 0)"
    using size by (simp add: b stream_keeps_def GetSize_def)
qed

text \<open>The CD-ROM drive does not touch the stream.\<close>

definition keeps_stream :: "('a spu_state_scheme) cd_audio \<Rightarrow> bool" where
  "keeps_stream cd \<longleftrightarrow>
     (\<forall>s. g_audio_stream (snd (cd s)) = g_audio_stream s \<and> cfg_audio_fast_hook (snd (cd s)) = cfg_audio_fast_hook s)"

definition frame_batch :: "('a spu_state_scheme) cd_audio \<Rightarrow> nat \<Rightarrow> 'a spu_state_scheme \<Rightarrow> 'a spu_state_scheme" where
  "frame_batch cd n s = end_batch (fst (generate_frames cd [0..<n] s)) n (snd (generate_frames cd [0..<n] s))"

lemma execute_frames_loop_unfold:
  "execute_frames_loop cd k s =
     (if k = 0 then Some s
      else execute_frames_loop cd (k - min k (BeginWrite (g_audio_stream s))) (frame_batch cd (min k (BeginWrite (g_audio_stream s))) s))"
  by (subst execute_frames_loop.simps) (simp add: frame_batch_def Let_def case_prod_beta)

lemma frame_batch_stream:
  assumes cd: "keeps_stream cd" and a: "audio_ok (g_audio_stream s)" and n: "n \<le> BeginWrite (g_audio_stream s)"
  defines "t \<equiv> frame_batch cd n s"
  shows "audio_ok (g_audio_stream t)" "cfg_audio_fast_hook t = cfg_audio_fast_hook s"
    "m_silent_mode (g_audio_stream t) = m_silent_mode (g_audio_stream s)"
    "m_size (m_buffer (g_audio_stream t)) =
       (if stream_keeps (cfg_audio_fast_hook s) (g_audio_stream s) then m_size (m_buffer (g_audio_stream s)) + 2 * n else 0)"
proof -
  let ?r = "generate_frames cd [0..<n] s"
  have len: "length (fst ?r) = 2 * n" by (simp add: length_frames)
  have same: "g_audio_stream (snd ?r) = g_audio_stream s" "cfg_audio_fast_hook (snd ?r) = cfg_audio_fast_hook s"
    using cd by (simp_all add: keeps_stream_def frames_stream)
  show "audio_ok (g_audio_stream t)" "cfg_audio_fast_hook t = cfg_audio_fast_hook s"
    "m_silent_mode (g_audio_stream t) = m_silent_mode (g_audio_stream s)"
    "m_size (m_buffer (g_audio_stream t)) =
       (if stream_keeps (cfg_audio_fast_hook s) (g_audio_stream s) then m_size (m_buffer (g_audio_stream s)) + 2 * n else 0)"
    using audio_ok_EndWrite [OF a len n] stream_EndWrite [OF a len n] by (simp_all add: t_def frame_batch_def end_batch_def same)
qed

text \<open>What the frames still to come need of the buffer.\<close>

definition stream_room :: "nat \<Rightarrow> 'a spu_state_scheme \<Rightarrow> bool" where
  "stream_room k s \<longleftrightarrow>
     \<not> stream_keeps (cfg_audio_fast_hook s) (g_audio_stream s) \<or> 2 * k + m_size (m_buffer (g_audio_stream s)) \<le> 32768"

lemma stream_room_batch:
  assumes "keeps_stream cd" and "audio_ok (g_audio_stream s)" and "n \<le> k" and "n \<le> BeginWrite (g_audio_stream s)"
  shows "stream_room (k - n) (frame_batch cd n s) = stream_room k s"
proof -
  have "2 * (k - n) + (m + 2 * n) \<le> 32768 \<longleftrightarrow> 2 * k + m \<le> 32768" for m using assms(3) by auto
  then show ?thesis by (simp only: stream_room_def stream_keeps_def frame_batch_stream [OF assms(1,2,4)] split: if_split) auto
qed

lemma loop_returns:
  "keeps_stream cd \<Longrightarrow> audio_ok (g_audio_stream s) \<Longrightarrow> stream_room k s \<Longrightarrow> execute_frames_loop cd k s \<noteq> None"
proof (induction "2 * k + (if m_size (m_buffer (g_audio_stream s)) = 32768 then 1 else 0)" arbitrary: k s rule: less_induct)
  case less
  show ?case
  proof (cases "k = 0")
    case False
    let ?a = "g_audio_stream s"
    let ?n = "min k (BeginWrite ?a)"
    let ?t = "frame_batch cd ?n s"
    note t = frame_batch_stream [OF less.prems(1,2), of ?n]
    have room: "stream_room (k - ?n) ?t" using stream_room_batch [OF less.prems(1,2), of ?n k] less.prems(3) by simp
    have small: "2 * (k - ?n) + (if m_size (m_buffer (g_audio_stream ?t)) = 32768 then 1 else 0)
        < 2 * k + (if m_size (m_buffer ?a) = 32768 then 1 else 0)"
    proof (cases "m_size (m_buffer ?a) < 32768")
      case True
      then have "0 < ?n" using False BeginWrite_pos [OF less.prems(2)] by simp
      then have "2 * (k - ?n) + 2 \<le> 2 * k" using False by linarith
      then show ?thesis by (simp split: if_split)
    next
      case full: False
      have "m_size (m_buffer ?a) \<le> 32768" using less.prems(2) by (simp add: audio_ok_def fifo_inv_def)
      then have f: "m_size (m_buffer ?a) = 32768" using full by simp
      then have "\<not> stream_keeps (cfg_audio_fast_hook s) ?a" using less.prems(3) False by (simp add: stream_room_def)
      then have "m_size (m_buffer (g_audio_stream ?t)) = 0" using t(4) by simp
      then show ?thesis using f by simp
    qed
    have "execute_frames_loop cd (k - ?n) ?t \<noteq> None"
      by (rule less.hyps [OF small less.prems(1) _ room]) (simp add: t(1))
    then show ?thesis using False by (subst execute_frames_loop_unfold) simp
  qed (subst execute_frames_loop_unfold, simp)
qed

lemma loop_stuck:
  "execute_frames_loop c k s = Some t \<Longrightarrow> c = cd \<longrightarrow> keeps_stream cd \<longrightarrow> audio_ok (g_audio_stream s) \<longrightarrow> stream_room k s"
proof (induction c k s t rule: execute_frames_loop.raw_induct [rotated, consumes 1])
  case (1 rec c k s t)
  show ?case
  proof (intro impI)
    assume c: "c = cd" and cd: "keeps_stream cd" and a: "audio_ok (g_audio_stream s)"
    let ?n = "min k (BeginWrite (g_audio_stream s))"
    show "stream_room k s"
    proof (cases "k = 0")
      case True
      then show ?thesis using a by (simp add: stream_room_def audio_ok_def fifo_inv_def)
    next
      case False
      have "rec c (k - ?n) (frame_batch cd ?n s) = Some t"
        using 1(2) False c by (simp add: Let_def case_prod_beta frame_batch_def)
      from 1(1) [OF this] have "stream_room (k - ?n) (frame_batch cd ?n s)"
        using c cd frame_batch_stream(1) [OF cd a, of ?n] by simp
      then show ?thesis using stream_room_batch [OF cd a, of ?n k] by simp
    qed
  qed
qed


end
