(* ===== verification/SpuEffects.thy ===== *)
theory SpuEffects
  imports SpuTransfer SpuStream Boot
begin

text \<open>
  Properties of what the sound processor does to its RAM and to the sound it makes: the addresses of
  the reverberation, the last step of the mixing, the transfers by themselves and behind the DMA
  controller, and the end of the loop that makes the sound.
\<close>

subsection \<open>Reverberation\<close>

lemma unat_ReverbMemoryAddress:
  fixes r :: spu and address :: u32
  assumes "unat (m_reverb_base_address r) < 0x40000" and "unat (m_reverb_current_address r) < 0x40000"
  defines "b \<equiv> unat (m_reverb_base_address r)" and "c \<equiv> unat (m_reverb_current_address r)"
    and "a \<equiv> unat address mod 0x40000"
  shows "unat (ReverbMemoryAddress address r) = 2 * (if c + a < 0x40000 then c + a else (c + a - 0x40000 + b) mod 0x40000)"
proof -
  let ?o = "m_reverb_current_address r + (address AND 0x3FFFF)"
  have a: "a < 0x40000" by (simp add: a_def)
  have o: "unat ?o = c + a" using assms(2) a by (simp add: unat_word_ariths and_mask18 a_def c_def)
  have bit18: "bit ?o 18 \<longleftrightarrow> \<not> c + a < 0x40000"
  proof -
    have "bit ?o 18 \<longleftrightarrow> odd ((c + a) div 2 ^ 18)"
      using bit_unsigned_iff [where ?'a = nat, of ?o 18] by (simp add: o bit_iff_odd)
    moreover have "(c + a) div 2 ^ 18 = (if c + a < 0x40000 then 0 else 1)"
      using a assms(2) by (auto simp: c_def div_nat_eqI)
    ultimately show ?thesis by (cases "c + a < 0x40000") auto
  qed
  define p where "p = ?o + (m_reverb_base_address r AND (if bit ?o 18 then - 1 else 0))"
  have p: "unat p = (if c + a < 0x40000 then c + a else c + a + b)"
    using bit18 o a assms(1,2) by (auto simp: p_def unat_word_ariths b_def c_def)
  have m: "unat (p AND 0x3FFFF) = (if c + a < 0x40000 then c + a else (c + a - 0x40000 + b) mod 0x40000)"
    using p by (auto simp: and_mask18 mod_nat_eqI le_mod_geq)
  have "unat ((p AND 0x3FFFF) * 2) = 2 * unat (p AND 0x3FFFF)"
    using unat_and_mask18 [of p] by (simp add: unat_word_ariths)
  then show ?thesis using m by (simp add: ReverbMemoryAddress_def p_def Let_def)
qed

text \<open>
  C30: the reverberation wraps around in its work area. From the base address \<open>b\<close> and the current
  address \<open>c\<close>, an address \<open>a\<close> that is less than the size of the work area is taken modulo that size.
  The address leaves the area, for the RAM below its base, just when \<open>a + b + c\<close> is at least 2 ^ 19.
\<close>
theorem reverb_work_area:
  fixes r :: spu and address :: u32
  assumes "spu_ok r"
  defines "b \<equiv> unat (m_reverb_base_address r)" and "c \<equiv> unat (m_reverb_current_address r)"
    and "a \<equiv> unat address mod 0x40000" and "x \<equiv> unat (ReverbMemoryAddress address r)"
  shows "even x \<and> (a < 0x40000 - b \<longrightarrow> x div 2 = b + (c - b + a) mod (0x40000 - b)) \<and>
    (x div 2 < b \<longleftrightarrow> 0x80000 \<le> a + b + c)"
proof -
  have bc: "b \<le> c" "c < 0x40000" using assms(1) by (simp_all add: spu_ok_def b_def c_def)
  have a: "a < 0x40000" by (simp add: a_def)
  have x: "x = 2 * (if c + a < 0x40000 then c + a else (c + a - 0x40000 + b) mod 0x40000)"
    using unat_ReverbMemoryAddress [of r address] bc by (simp add: x_def a_def b_def c_def)
  show ?thesis
  proof (cases "c + a < 0x40000")
    case True
    then have "(c - b + a) mod (0x40000 - b) = c - b + a" using bc by simp
    then show ?thesis using x True bc by auto
  next
    case False
    have wrap: "(c - b + a) mod (0x40000 - b) = c + a - 0x40000" if "a < 0x40000 - b"
      using that bc False by (subst le_mod_geq) (auto intro: mod_less)
    have "(c + a - 0x40000 + b) mod 0x40000 = (if 0x80000 \<le> a + b + c then c + a - 0x40000 + b - 0x40000 else c + a - 0x40000 + b)"
      using bc a by (auto simp: le_mod_geq)
    then show ?thesis using x False bc a wrap by auto
  qed
qed

lemma reverb_work_area_witness:
  defines "r \<equiv> silent_spu\<lparr>m_reverb_base_address := 0x3FFFC, m_reverb_current_address := 0x3FFFC\<rparr>"
  shows "unat (ReverbMemoryAddress 8 r) div 2 < 0x3FFFC"
proof -
  have "spu_ok r" using spu_ok_silent by (simp add: spu_ok_def r_def)
  from reverb_work_area [OF this, of 8] show ?thesis by (simp add: r_def)
qed

subsection \<open>The mixed sample\<close>

text \<open>
  The last multiplication of a sample by the main volume. The 16-bit result is the product, but
  for the greatest negative sample at the greatest negative volume, whose product 32768 turns into -32768.
\<close>
lemma main_sample_overflow:
  "sint (main_sample mixed volume) =
     (if mixed \<le> - 32768 \<and> sint (current_level volume) = - 32768 then - 32768
      else ApplyVolume (Clamp16 mixed) (current_level volume)) \<and>
   ApplyVolume (- 32768) 0x8000 = 32768"
proof -
  let ?x = "Clamp16 mixed" and ?v = "sint (current_level volume)"
  have x: "- 32768 \<le> ?x" "?x \<le> 32767" by (simp_all add: Clamp16_def)
  have v: "- 32768 \<le> ?v" "?v \<le> 32767" using sint_s16 [of "current_level volume"] by simp_all
  have edge: "?x = - 32768 \<longleftrightarrow> mixed \<le> - 32768" by (auto simp: Clamp16_def)
  have "sint (main_sample mixed volume) = ApplyVolume ?x (current_level volume)" if ne: "\<not> (?x = - 32768 \<and> ?v = - 32768)"
  proof -
    have ax: "\<bar>?x\<bar> \<le> 32768" "\<bar>?v\<bar> \<le> 32768" using x v by linarith+
    have lo: "- 1073741824 \<le> ?x * ?v"
    proof -
      have "\<bar>?x * ?v\<bar> \<le> 32768 * 32768" unfolding abs_mult by (rule mult_mono) (use ax in simp_all)
      then show ?thesis by linarith
    qed
    have hi: "?x * ?v < 1073741824"
    proof (cases "?x = - 32768")
      case True
      then have "- 32767 \<le> ?v" using ne v by linarith
      then show ?thesis using True by simp
    next
      case False
      then have "\<bar>?x\<bar> \<le> 32767" using x by linarith
      then have "\<bar>?x * ?v\<bar> \<le> 32767 * 32768" unfolding abs_mult by (rule mult_mono) (use ax in simp_all)
      then show ?thesis by linarith
    qed
    have "- 32768 \<le> ?x * ?v div 32768 \<and> ?x * ?v div 32768 \<le> 32767" using lo hi by linarith
    then show ?thesis
      unfolding main_sample_def by (intro sint_word_of_int16) (simp_all add: ApplyVolume_def drop_bit_eq_div)
  qed
  moreover have "sint (main_sample mixed volume) = - 32768" if "?x = - 32768" "?v = - 32768"
    using that by (simp add: main_sample_def ApplyVolume_def drop_bit_eq_div)
  ultimately show ?thesis by (auto simp: edge ApplyVolume_def drop_bit_eq_div)
qed


subsection \<open>Transfers\<close>









text \<open>
  A DMA write that is stopped loses halfwords. Setting the transfer mode to \<open>Stopped\<close> writes just the
  first halfword that the FIFO holds to the RAM; the others stay in the FIFO, where nothing transfers them.
\<close>
lemma stop_transfer_writes_one:
  fixes s :: "'a spu_state_scheme"
  assumes "ram_transfer_mode (m_SPUCNT (g_spu s)) = DMAWrite" and "ram_transfer_mode w = Stopped"
    and "fifo_inv (m_transfer_fifo (g_spu s))" and "fifo_items (m_transfer_fifo (g_spu s)) = x # xs"
  shows "fifo_items (m_transfer_fifo (g_spu (stop_transfer w s))) = xs \<and>
    m_spu_ram (g_spu (stop_transfer w s)) = set_ram_half (m_transfer_address (g_spu s)) x (m_spu_ram (g_spu s))"
proof -
  let ?q = "m_transfer_fifo (g_spu s)"
  have pos: "0 < m_size ?q" using arg_cong [OF assms(4), of length] by simp
  have stop: "stop_transfer w s = ExecuteFIFOWriteToRAM s"
    using assms(1,2) pos by (simp add: stop_transfer_def Let_def IsEmpty_def)
  have v: "transfer_view (g_spu s) = (?q, m_spu_ram (g_spu s), m_transfer_address (g_spu s), m_SPUCNT (g_spu s))"
    by (simp add: transfer_view_def)
  have "fifo_items (RemoveOne ?q) = xs" "m_ptr ?q ! m_head ?q = x"
    using fifo_items_RemoveOne [OF assms(3) pos] hd_fifo_items [OF assms(3) pos] assms(4) by simp_all
  then show ?thesis using fifo_write_view [OF v] by (simp add: stop transfer_view_eq)
qed






subsection \<open>The DMA controller and the RAM of the processor\<close>



subsection \<open>The end of \<open>Execute\<close>\<close>

text \<open>
  C6: when the processor's \<open>Execute\<close> ends. It generates the frames that the ticks are worth and returns,
  unless the front end takes the samples once a frame, does not drop them, and the frames do not fit
  into what is left of the buffer: then the loop of \<open>Execute\<close> does not end.
\<close>
theorem spu_Execute_ends:
  fixes cd :: "('a spu_state_scheme) cd_audio"
  assumes "\<forall>s. g_audio_stream (snd (cd s)) = g_audio_stream s \<and> cfg_audio_fast_hook (snd (cd s)) = cfg_audio_fast_hook s"
    and "audio_ok (g_audio_stream s)"
  shows "(\<exists>t. spu_Execute cd ticks s = Some t) \<longleftrightarrow>
    \<not> cfg_audio_fast_hook s \<or> m_silent_mode (g_audio_stream s) \<or>
    2 * fst (frames_of_ticks ticks s) + m_size (m_buffer (g_audio_stream s)) \<le> 32768"
proof -
  let ?s = "upd_spu (\<lambda>r. r\<lparr>m_ticks_carry := snd (frames_of_ticks ticks s)\<rparr>) s" and ?k = "fst (frames_of_ticks ticks s)"
  have cd: "keeps_stream cd" using assms(1) by (simp add: keeps_stream_def)
  have ok: "audio_ok (g_audio_stream ?s)" using assms(2) by simp
  have "spu_Execute cd ticks s = execute_frames_loop cd ?k ?s" by (simp add: spu_Execute_def case_prod_beta)
  then have "(\<exists>t. spu_Execute cd ticks s = Some t) \<longleftrightarrow> stream_room ?k ?s"
    using loop_returns [OF cd ok, of ?k] loop_stuck [of cd ?k ?s _ cd] cd ok by auto
  then show ?thesis by (auto simp: stream_room_def stream_keeps_def)
qed


lemma spu_Execute_ends_witness: "\<exists>t. spu_Execute no_cd_audio 1536 bus_boot = Some t"
proof -
  have "m_ticks_carry (g_spu bus_boot) = 0" "cfg_cpu_overclock_active bus_boot = False"
    by (simp_all add: bus_boot_fields silent_spu_def bus_run_defs)
  then have "fst (frames_of_ticks 1536 bus_boot) = 2"
    by (simp add: frames_of_ticks_def SYSCLK_TICKS_PER_SPU_TICK_def)
  moreover have "m_size (m_buffer (g_audio_stream bus_boot)) = 0"
    by (simp add: bus_boot_fields new_audio_stream_def new_fifo_def)
  ultimately show ?thesis
    using spu_Execute_ends [of no_cd_audio bus_boot 1536] audio_ok_new by (simp add: no_cd_audio_def bus_boot_fields)
qed

end
