(* ===== verification/MachineRun.thy ===== *)
theory MachineRun
  imports Machine
begin

text \<open>
  The main loop: the interpreter runs instructions until the next event is due, the event queue
  runs the callbacks of the timers, the DMA controller, the macroblock decoder, the sound processor, the pads and the memory cards, and so on
  until the frame is done. What every instruction and every callback preserves holds when the
  loop returns.
\<close>

subsection \<open>A property of the machine through the event loop\<close>

locale event_host =
  fixes callback :: "nat \<Rightarrow> tick_count \<Rightarrow> tick_count \<Rightarrow> 'a te_state_scheme \<Rightarrow> 'a te_state_scheme"
    and P :: "'a te_state_scheme \<Rightarrow> bool"
  assumes callbacks: "P s \<Longrightarrow> P (callback e ticks late s)"
    and nodes: "P s \<Longrightarrow> P (set_node e f s)"
    and sorting: "P s \<Longrightarrow> P (SortEvent e s)"
    and current: "P s \<Longrightarrow> P (s\<lparr>s_current_event := c\<rparr>)"
    and global_ticks: "P s \<Longrightarrow> P (s\<lparr>s_global_tick_counter := g\<rparr>)"
    and taken_ticks: "P s \<Longrightarrow> P (ResetPendingTicks s)"
    and next_downcount: "P s \<Longrightarrow> P (UpdateCPUDowncount s)"
begin

lemma head: "P s \<Longrightarrow> P (run_head callback e s)"
  by (simp add: run_head_def Let_def callbacks nodes sorting current)

lemma elapsed: "P s \<Longrightarrow> P (apply_downcount n time e s)"
  by (induction n time e s rule: apply_downcount.induct) (simp_all add: Let_def nodes)

lemma slice: "P s \<Longrightarrow> P (start_slice time s)"
  by (simp add: start_slice_def elapsed global_ticks)

lemma due: "run_due c s = Some t \<Longrightarrow> c = callback \<longrightarrow> P s \<longrightarrow> P t"
proof (induction c s t rule: run_due.raw_induct [rotated, consumes 1])
  case (1 loop c s t)
  then show ?case by (auto split: option.splits if_splits dest: head)
qed

lemma slices: "run_slices c pending s = Some t \<Longrightarrow> c = callback \<longrightarrow> P s \<longrightarrow> P t"
proof (induction c pending s t rule: run_slices.raw_induct [rotated, consumes 1])
  case (1 loop c pending s t)
  then show ?case
    using due slice by (auto split: option.splits if_splits simp: Let_def bind_eq_Some_conv)
qed

lemma run: "P s \<Longrightarrow> pred_option P (RunEvents callback s)"
  using slices taken_ticks
  by (cases "run_slices callback (pending_ticks s) (ResetPendingTicks s)")
    (auto simp: RunEvents_def current next_downcount)

end

subsection \<open>The console's events and its main loop\<close>

text \<open>The slot of the card whose save event is \<open>e\<close>.\<close>

definition card_of_event :: "nat \<Rightarrow> 'a pad_state_scheme \<Rightarrow> nat option" where
  "card_of_event e s =
     find (\<lambda>i. pred_option (\<lambda>c. card_save_event c = e) (m_memory_cards s ! i) \<and> m_memory_cards s ! i \<noteq> None)
       [0..<length (m_memory_cards s)]"

definition console_callback :: "nat \<Rightarrow> nat \<Rightarrow> tick_count \<Rightarrow> tick_count \<Rightarrow> 'a bus_state_scheme \<Rightarrow> 'a bus_state_scheme" where
  "console_callback n e ticks late s =
     (if e = m_sysclk_event then sysclk_callback ticks late s
      else if e = m_unhalt_event then UnhaltTransfer (console_dma (console_request n)) ticks s
      else if e = m_block_copy_out_event then returned s (CopyOutBlock (console_request n) s)
      else if e = m_spu_tick_event then spu_tick_callback no_cd_audio ticks late s
      else if e = m_spu_transfer_event then spu_transfer_callback (console_request n) ticks late s
      else if e = m_transfer_event s then transfer_callback ticks late s
      else (case card_of_event e s of Some i \<Rightarrow> flush_callback i s | None \<Rightarrow> s))"

lemma machine_inv_sysclk: "machine_inv s \<Longrightarrow> machine_inv (sysclk_callback ticks late s)"
  by (rule machine_inv_cong) (simp_all add: sysclk_callback_def machine_inv_def timers_inv_AddSysClkTicks)

lemma machine_inv_unhalt: "machine_inv s \<Longrightarrow> machine_inv (UnhaltTransfer (console_dma (console_request n)) ticks s)"
proof -
  have h: "machine_inv t \<Longrightarrow> machine_inv (t\<lparr>m_halt_ticks_remaining := k\<rparr>)" for k and t :: "'a bus_state_scheme"
    by (simp add: machine_inv_defs)
  show "machine_inv s \<Longrightarrow> machine_inv (UnhaltTransfer (console_dma (console_request n)) ticks s)"
    by (simp add: UnhaltTransfer_def Let_def case_prod_beta console_dma.all_channels machine_inv_queue h)
qed

lemma machine_inv_te:
  fixes s t :: "'a bus_state_scheme"
  assumes "machine_inv s" and "te_rest t = te_rest s"
  shows "machine_inv t"
  by (rule machine_inv_cong [OF assms(1)]) (use te_rest_machine [OF assms(2)] assms(1) in \<open>simp_all add: machine_inv_def\<close>)

lemma machine_inv_fields:
  fixes s :: "'a bus_state_scheme"
  assumes "machine_inv s"
  shows "machine_inv (s\<lparr>s_current_event := c\<rparr>)" "machine_inv (s\<lparr>s_global_tick_counter := g\<rparr>)"
    "machine_inv (ResetPendingTicks s)" "machine_inv (UpdateCPUDowncount s)" "machine_inv (s\<lparr>using_interpreter := b\<rparr>)"
  using assms
  by (simp_all add: machine_inv_defs ResetPendingTicks_def UpdateCPUDowncount_def split: option.split)

interpretation console_events: event_host "console_callback n" machine_inv for n
proof
  fix s :: "'a bus_state_scheme" and e ticks late
  assume inv: "machine_inv s"
  show "machine_inv (console_callback n e ticks late s)"
    using inv
    by (simp add: console_callback_def machine_inv_sysclk machine_inv_unhalt pred_returned console_mdec.copy_out console_pads.event
        console_pads.flush console_spu.tick console_spu.transfer spu_transfer_callback_def split: option.split)
  have t: "timers_inv s" using inv by (simp add: machine_inv_def)
  show "machine_inv (set_node e f s)" for f by (rule machine_inv_cong [OF inv]) (simp_all add: t)
  show "machine_inv (SortEvent e s)" by (rule machine_inv_cong [OF inv]) (simp_all add: t)
qed (simp_all add: machine_inv_fields)

lemma machine_inv_slice: "execute_slice env dbg s = Some t \<Longrightarrow> env = console n \<longrightarrow> machine_inv s \<longrightarrow> machine_inv t"
proof (induction env dbg s t rule: execute_slice.raw_induct [rotated, consumes 1])
  case (1 loop env dbg s t)
  have "env = console n \<Longrightarrow> machine_inv s \<Longrightarrow> machine_inv (cpu_step env dbg s)" by (simp add: machine_inv_step)
  with 1 show ?case by (cases "pending_ticks s < downcount s") auto
qed

lemma machine_inv_frames:
  "execute_frames env callback dbg s = Some t \<Longrightarrow> env = console n \<and> callback = console_callback n \<longrightarrow> machine_inv s \<longrightarrow> machine_inv t"
proof (induction env callback dbg s t rule: execute_frames.raw_induct [rotated, consumes 1])
  case (1 loop env callback dbg s t)
  show ?case
  proof (intro impI)
    assume e: "env = console n \<and> callback = console_callback n" and inv: "machine_inv s"
    show "machine_inv t"
    proof (cases "frame_done s")
      case False
      then obtain u v where u: "execute_slice env dbg (UpdateCPUDowncount s) = Some u"
        and v: "RunEvents callback u = Some v" and t: "loop env callback dbg v = Some t"
        using 1(2) by (auto simp: bind_eq_Some_conv)
      have "machine_inv u" using machine_inv_slice [OF u, of n] e machine_inv_fields(4) [OF inv] by blast
      then have "machine_inv v" using console_events.run [of u n] v e by simp
      then show ?thesis using 1(1) [OF t] e by blast
    qed (use 1(2) inv in simp)
  qed
qed

lemma machine_inv_ExecuteImpl:
  "machine_inv s \<Longrightarrow> ExecuteImpl (console n) (console_callback n) dbg s = Some t \<Longrightarrow> machine_inv t"
  using machine_inv_frames [of "console n" "console_callback n" dbg _ t n]
  by (auto simp: ExecuteImpl_def machine_inv_fields machine_inv_bus)

end
