(* ===== verification/MachineClaims.thy ===== *)
theory MachineClaims
  imports MachineRun Boot
begin

text \<open>
  The machine as a whole: what holds of every state it reaches, whatever program it runs, in
  whatever order the interpreters, the events and the interrupts of other devices take turns.
\<close>

text \<open>
  The states reached from \<open>s\<close>: by the interpreter's instructions, by the blocks of the cached
  interpreter, by the event callbacks, by whole rounds of the event queue, by whole frames, and
  by interrupt requests and gate changes from outside.
\<close>

inductive machine_run :: "nat \<Rightarrow> bus_state \<Rightarrow> bus_state \<Rightarrow> bool" for n s where
  run_start: "machine_run n s s"
| run_instruction: "machine_run n s t \<Longrightarrow> machine_run n s (cpu_step (console n) dbg t)"
| run_block: "machine_run n s t \<Longrightarrow> machine_run n s (InterpretCachedBlock (console n) block_pc cbis t)"
| run_fetch: "machine_run n s t \<Longrightarrow> machine_run n s (snd (FetchInstructionForInterpreterFallback t))"
| run_uncached: "machine_run n s t \<Longrightarrow> uncached_step (console n) b t = Inr (c, u) \<Longrightarrow> machine_run n s u"
| run_uncached_end: "machine_run n s t \<Longrightarrow> uncached_step (console n) b t = Inl u \<Longrightarrow> machine_run n s u"
| run_callback: "machine_run n s t \<Longrightarrow> machine_run n s (console_callback n e ticks late t)"
| run_events: "machine_run n s t \<Longrightarrow> RunEvents (console_callback n) t = Some u \<Longrightarrow> machine_run n s u"
| run_frame: "machine_run n s t \<Longrightarrow> ExecuteImpl (console n) (console_callback n) dbg t = Some u \<Longrightarrow> machine_run n s u"
| run_request: "machine_run n s t \<Longrightarrow> machine_run n s (InterruptRequest q t)"

text \<open>
  C3: in every state the machine reaches, the register file has its 36 registers with \<open>$zero\<close>
  zero, the load delay slots name a register from 1 to 31 or none, so that a delayed write
  never touches \<open>$zero\<close>, \<open>pc\<close> or \<open>npc\<close>, the timers' counters are in range, and the arrays of the DMA
  controller, the instruction cache and the memory control have kept their sizes, the geometry engine
  and the serial ports are well formed, and so is the sound processor with its stream: the addresses it
  uses lie in its RAM, the sample indices of its voices in their buffers, and the stream holds whole frames.
\<close>

theorem machine_invariant:
  assumes "machine_run n s t" and "machine_inv s"
  shows "machine_inv t"
  using assms
proof (induction rule: machine_run.induct)
  case (run_uncached t b c u)
  then show ?case using console.uncached [of t n b] by simp
next
  case (run_uncached_end t b u)
  then show ?case using console.uncached [of t n b] by simp
next
  case (run_events t u)
  then show ?case using console_events.run [of t n] by simp
qed (simp_all add: machine_inv_step console.cached_block console.fallback_fetch console_events.callbacks
    machine_inv_ExecuteImpl machine_inv_dma_fields)

theorem machine_invariant_witness:
  "machine_inv (cpu_step (console 1) False (cpu_step (console 1) False bus_boot))"
  by (rule machine_invariant [OF _ machine_inv_boot, of 1]) (intro run_instruction run_start)

end
