(* ===== verification/Spec2Isabelle.thy ===== *)
theory Spec2Isabelle
  imports BaseClaims TimersClaims PadClaims DmaClaims MdecClaims BusClaims CpuClaims GteClaims SpuClaims SpuEffects MachineClaims
begin

text \<open>
  A verification development for SwanStation, a PlayStation emulator core written in C++ (a
  libretro core derived from DuckStation). The emulated machine is under \<open>src/core/\<close>, its
  utilities under \<open>src/common/\<close>.

  \<^bold>\<open>The program.\<close> The CPU (\<open>cpu_core.cpp\<close>, a MIPS R3000A) executes instructions until its
  pending ticks reach a downcount; then the queue of timing events (\<open>timing_event.cpp\<close>) runs the
  callbacks that are due and sets the next downcount. Loads and stores go through the bus
  (\<open>bus.cpp\<close>) to RAM, the BIOS, the scratchpad or the registers of the devices. The timers
  (\<open>timers.cpp\<close>), the DMA controller (\<open>dma.cpp\<close>), the macroblock decoder (\<open>mdec.cpp\<close>), the sound
  processor (\<open>spu.cpp\<close>, with its stream \<open>libretro_audio_stream.cpp\<close>) and the
  controller ports (\<open>pad.cpp\<close>, with the controllers, memory cards and multitaps behind them)
  schedule their own events; the geometry engine (\<open>gte.cpp\<close>) is the CPU's second coprocessor. The
  devices raise interrupts through the interrupt controller (\<open>interrupt_controller.cpp\<close>), which
  drives an interrupt line of the CPU. The DMA controller moves words between RAM and the devices
  when a device raises its request line.

  \<^bold>\<open>The state\<close> is one record that grows with the components, as the globals of the program do:
  \<open>cpu_state\<close>, \<open>te_state\<close> (the event queue), \<open>irq_state\<close>, \<open>timers_state\<close>, \<open>host_state\<close> (mouse,
  files of the memory cards), \<open>pad_state\<close>, \<open>sio_state\<close>, \<open>dma_state\<close> (with the RAM), \<open>mdec_state\<close>,
  \<open>spu_state\<close> and \<open>bus_state\<close> each extend the one before. An operation is a function on the record
  that has its component's fields and any further ones, so operations of different components
  compose without lifting. A device or service that is not modelled is a function in an
  environment record (\<open>dma_env\<close>, \<open>bus_env\<close>) or an argument (\<open>callback\<close>, \<open>req\<close>, \<open>cd\<close>).

  \<^bold>\<open>The theories.\<close>
  \<^item> \<open>Prelude\<close>: word types, single bits, the collections of hints. \<open>BitField\<close>: \<open>bitfield.h\<close>, packed
    decimal, alignment, with the locales of register fields. \<open>FifoQueue\<close>: \<open>fifo_queue.h\<close>, a ring
    buffer refining a list. \<open>Memory\<close>: bytes and little-endian words, the locale \<open>word_memory\<close>.
  \<^item> \<open>CpuState\<close>: the CPU's registers, load delay slots and coprocessor 0. \<open>TimingEvents\<close>: the event
    list of \<open>timing_event.cpp\<close> as a doubly linked list in a store; \<open>EventQueue\<close>: its refinement of
    a sorted list; \<open>EventRun\<close>: the loop of \<open>RunEvents\<close>, and that it ends.
  \<^item> \<open>InterruptController\<close>, \<open>Timers\<close> with \<open>TimersSpec\<close>, \<open>Dma\<close> with \<open>DmaSpec\<close> (the locales
    \<open>dma_devices\<close> and \<open>dma_machine\<close>), \<open>MdecMath\<close> (run-length values, the inverse transforms, pixels)
    and \<open>Mdec\<close> with \<open>MdecSpec\<close>, \<open>MdecLoop\<close> and \<open>MdecHost\<close> (the state machine).
  \<^item> \<open>SpuVoice\<close>: envelopes, sweeps, ADPCM blocks and interpolation of a voice. \<open>Spu\<close>: the sound
    processor's state, its noise and its reverberation. \<open>SpuExec\<close>: the interrupt of its RAM, the
    transfers and the samples; \<open>SpuHost\<close>: the audio stream, the loop of \<open>Execute\<close> and the events;
    \<open>SpuRegisters\<close>: its registers. \<open>SpuSpec\<close>: the invariant \<open>spu_ok\<close>; \<open>SpuMachine\<close>: the stream's
    invariant and the locale \<open>spu_host\<close> (what its host keeps, its operations keep). \<open>SpuEnvelope\<close>:
    every phase ends; \<open>SpuTransfer\<close>: a transfer writes and reads a run of halfwords; \<open>SpuStream\<close>:
    when \<open>Execute\<close> ends.
  \<^item> \<open>HostState\<close>: what the serial devices use of the host. \<open>MemoryCard\<close> with \<open>MemoryCardSpec\<close>: the
    card's protocol, image and delayed save. \<open>Controllers\<close>: digital controller, mouse, NeGcon, light
    gun and analog joystick, with the locale \<open>serial_device\<close> of the byte protocol.
    \<open>AnalogController\<close> with \<open>AnalogSpec\<close>: the DualShock and the NeGcon with rumble. \<open>PadState\<close>,
    \<open>Multitap\<close>, \<open>Pad\<close>, \<open>Sio\<close>: the ports; \<open>PadSpec\<close>: their invariant, in the locales \<open>pad_devices\<close> and
    \<open>pad_host\<close>; \<open>PadBoot\<close>: a starting state; \<open>EventFlags\<close>: when an event is active.
  \<^item> \<open>StateWrapper\<close>: the save-state stream of \<open>state_wrapper.cpp\<close>, both ways, with errors and
    versions. \<open>SavedState\<close>: the locale \<open>state_saver\<close> (what is saved is loaded) on the serial devices.
  \<^item> \<open>Bus\<close> and \<open>BusAccess\<close>: the memory map, the access times, the instruction cache, the safe and
    direct accesses, the recompilers' memory functions; \<open>BusSpec\<close>: RAM through its mirrors, cache
    lines.
  \<^item> \<open>CpuTypes\<close>: the instruction fields and the classification of \<open>cpu_types.cpp\<close>. \<open>CpuFetch\<close>:
    exceptions, the pipeline flush, the fetch and the memory accesses. \<open>CpuExec\<close>: every
    instruction of \<open>ExecuteInstruction\<close> and the three interpreter loops. \<open>CpuSpec\<close>, \<open>CpuArith\<close>,
    \<open>CpuUnaligned\<close>, \<open>CpuTraps\<close>: their lemmas. \<open>CpuMachine\<close>: the locales \<open>bus_devices\<close> and
    \<open>cpu_machine\<close>: what the devices preserve, every instruction preserves.
  \<^item> \<open>GteState\<close>, \<open>Gte\<close>, \<open>GteCommands\<close>: the geometry engine's registers, its arithmetic with the
    table-driven division, and its 22 commands. \<open>GteSpec\<close>: what every command keeps, through the
    locale \<open>gte_writes\<close>. \<open>GteDivide\<close>: the error of the division. \<open>GteTransform\<close>: products,
    projection, colours. \<open>GteCompiled\<close>: how compiled code reaches the engine and its clock.
  \<^item> \<open>Machine\<close>: the console, with the DMA controller connected to the decoder and to the sound
    processor, and the interpretations of all these locales on it. \<open>MachineRun\<close>: the main loop with the events
    of the console (the locale \<open>event_host\<close>). \<open>Boot\<close>: a starting state for the instances.
  \<^item> \<open>BaseClaims\<close>, \<open>EventClaims\<close>, \<open>TimersClaims\<close>, \<open>PadClaims\<close>, \<open>DmaClaims\<close>, \<open>MdecClaims\<close>, \<open>BusClaims\<close>, \<open>CpuClaims\<close>,
    \<open>GteClaims\<close>, \<open>SpuClaims\<close>, \<open>SpuEffects\<close> and \<open>MachineClaims\<close> hold the properties, each with an instance at a concrete state.

  \<^bold>\<open>How the code is translated.\<close> Integers with a defined wrap-around are words of their width.
  Tick counts are \<open>int\<close>: their overflow would be undefined in C++, and the bounds that exclude it
  are stated where they matter. C++ templates over an access type, an access size or a flag are
  functions with these as arguments, and a reference argument is a result. A loop whose end is not
  evident is a \<open>partial_function (option)\<close>, \<open>None\<close> meaning that it does not end, and that it ends
  is a theorem of its own (\<open>RunEvents\<close>, the decoder's loop, the sound processor's loop). Accesses outside an array, which are
  undefined in C++, are shown not to occur where a property depends on them, and are reported
  where they do.

  \<^bold>\<open>Bounds and fuel.\<close> The fetch, the exceptions and the pipeline flush are mutually recursive;
  \<open>fetch_at\<close> takes a fuel of 2, and \<open>fetch_ends\<close> shows that more changes nothing, because a vector is
  always fetched without an exception. \<open>execute_from\<close> takes a fuel of 2 for the restart of an
  instruction that memory no longer holds: the second time the word is what memory holds. The
  walks over the event list take the number of events as fuel. The console's argument \<open>n\<close> bounds
  the nesting of DMA requests inside decoder operations inside transfers; the results hold for
  every \<open>n\<close>.

  \<^bold>\<open>What the lemmas show.\<close> The event queue is sorted, loses nothing and its loop ends with all time
  accounted for; the timers' events are never late and their interrupts exact; DMA transfers touch
  the words they should and always finish or are resumed; a byte to a serial device is always followed
  by its event, polls end, sectors and save states are read back as written; the decoder's loop ends, its arithmetic
  does not overflow and its output is packed without gaps; every note of the sound processor ends, its
  samples are computed without overflow, and what the DMA controller writes to its RAM is read back; RAM is one array through all mirrors,
  the cache holds what RAM held, access times are bounded; the instructions compute what the
  architecture says, exceptions nest and return, the classification of instructions is sound;
  the geometry engine's sums are exact until a flag says otherwise, its division is within 8 units
  of the quotient and its triangles have exact windings; and the whole machine keeps its invariant in every reachable state. The \<open>error\<close> properties
  record behaviour of the code that is not what it means to do.

  \<^bold>\<open>Not modelled.\<close> Save states (\<open>DoState\<close>) of the components other than the serial devices (that
  of the sound processor saves the bytes of whole structs, padding included);
  PGXP (the interpreters are those with \<open>PGXPMode::Disabled\<close>); the recompilers, which emit native
  code, and the code cache's block table (its interpreter fallbacks and its interface to the bus are
  modelled); the mapping of RAM for fast memory accesses; the GPU and its renderers and the
  CD-ROM drive, whose registers and whose audio frames are arguments of the model; of the controllers the conversions of
  floating-point axes and vibration strengths and the settings; messages on the screen; settings,
  cheats, the libretro front end, and the vendored libraries.
\<close>

end
